(* ===== verification/Bt_Prelude.thy ===== *)
theory Bt_Prelude
  imports Main "HOL-Library.Word"
begin

text \<open>
  Shared vocabulary of the development: the integer types of \<^verbatim>\<open>bt_types.h\<close>, its byte-stream
  macros as functions on byte lists, singly linked chains over a \<open>next\<close> function (the shape of
  every queue of the kernel layer), and the generic lemmas the components use.

  A write macro \<open>X_TO_STREAM (p, v)\<close> appends bytes at \<open>p\<close>; here it is the list of bytes it
  appends, and a sequence of macros is the concatenation of their lists.  A read macro
  \<open>STREAM_TO_X (v, p)\<close> takes bytes from \<open>p\<close> without looking at the length; here it returns
  the value and the rest of the stream, and \<open>None\<close> when it would read behind the packet.
\<close>

unbundle bit_operations_syntax

section \<open>Types\<close>

type_synonym u8 = "8 word"
type_synonym u16 = "16 word"
type_synonym u32 = "32 word"
type_synonym addr = nat
type_synonym bytes = "u8 list"

named_theorems stream_simps \<open>byte streams: the write and read macros\<close>
named_theorems rep_defs \<open>representation predicates of the linked structures\<close>

section \<open>Byte streams\<close>

definition UINT8_TO_STREAM :: "u8 \<Rightarrow> bytes" where
  "UINT8_TO_STREAM v = [v]"

definition UINT16_TO_STREAM :: "u16 \<Rightarrow> bytes" where
  "UINT16_TO_STREAM v = [ucast v, ucast (drop_bit 8 v)]"

definition UINT24_TO_STREAM :: "u32 \<Rightarrow> bytes" where
  "UINT24_TO_STREAM v = [ucast v, ucast (drop_bit 8 v), ucast (drop_bit 16 v)]"

definition UINT32_TO_STREAM :: "u32 \<Rightarrow> bytes" where
  "UINT32_TO_STREAM v =
     [ucast v, ucast (drop_bit 8 v), ucast (drop_bit 16 v), ucast (drop_bit 24 v)]"

definition ARRAY_TO_STREAM :: "bytes \<Rightarrow> nat \<Rightarrow> bytes" where
  "ARRAY_TO_STREAM a n = map (\<lambda>i. a ! i) [0..<n]"

definition REVERSE_ARRAY_TO_STREAM :: "bytes \<Rightarrow> nat \<Rightarrow> bytes" where
  "REVERSE_ARRAY_TO_STREAM a n = map (\<lambda>i. a ! (n - 1 - i)) [0..<n]"

definition UINT16_TO_BE_STREAM :: "u16 \<Rightarrow> bytes" where
  "UINT16_TO_BE_STREAM v = [ucast (drop_bit 8 v), ucast v]"

definition UINT32_TO_BE_STREAM :: "u32 \<Rightarrow> bytes" where
  "UINT32_TO_BE_STREAM v =
     [ucast (drop_bit 24 v), ucast (drop_bit 16 v), ucast (drop_bit 8 v), ucast v]"

fun STREAM_TO_UINT8 :: "bytes \<Rightarrow> (u8 \<times> bytes) option" where
  "STREAM_TO_UINT8 (a # p) = Some (a, p)"
| "STREAM_TO_UINT8 _ = None"

fun STREAM_TO_UINT16 :: "bytes \<Rightarrow> (u16 \<times> bytes) option" where
  "STREAM_TO_UINT16 (a # b # p) = Some (ucast a + push_bit 8 (ucast b), p)"
| "STREAM_TO_UINT16 _ = None"

fun STREAM_TO_UINT32 :: "bytes \<Rightarrow> (u32 \<times> bytes) option" where
  "STREAM_TO_UINT32 (a # b # c # d # p) =
     Some (ucast a + push_bit 8 (ucast b) + push_bit 16 (ucast c) + push_bit 24 (ucast d), p)"
| "STREAM_TO_UINT32 _ = None"

fun BE_STREAM_TO_UINT16 :: "bytes \<Rightarrow> (u16 \<times> bytes) option" where
  "BE_STREAM_TO_UINT16 (a # b # p) = Some (push_bit 8 (ucast a) + ucast b, p)"
| "BE_STREAM_TO_UINT16 _ = None"

fun BE_STREAM_TO_UINT32 :: "bytes \<Rightarrow> (u32 \<times> bytes) option" where
  "BE_STREAM_TO_UINT32 (a # b # c # d # p) =
     Some (ucast d + push_bit 8 (ucast c) + push_bit 16 (ucast b) + push_bit 24 (ucast a), p)"
| "BE_STREAM_TO_UINT32 _ = None"

lemma length_ARRAY_TO_STREAM [simp]: "length (ARRAY_TO_STREAM a n) = n"
  by (simp add: ARRAY_TO_STREAM_def)

lemma length_REVERSE_ARRAY_TO_STREAM [simp]: "length (REVERSE_ARRAY_TO_STREAM a n) = n"
  by (simp add: REVERSE_ARRAY_TO_STREAM_def)

lemma ARRAY_TO_STREAM_id: "length a = n \<Longrightarrow> ARRAY_TO_STREAM a n = a"
  by (auto simp: ARRAY_TO_STREAM_def map_nth)

lemma REVERSE_ARRAY_TO_STREAM_rev: "length a = n \<Longrightarrow> REVERSE_ARRAY_TO_STREAM a n = rev a"
  by (auto simp: REVERSE_ARRAY_TO_STREAM_def rev_nth intro!: nth_equalityI)

lemma length_to_stream [simp]:
  "length (UINT8_TO_STREAM a) = 1" "length (UINT16_TO_STREAM b) = 2"
  "length (UINT24_TO_STREAM c) = 3" "length (UINT32_TO_STREAM c) = 4"
  "length (UINT16_TO_BE_STREAM b) = 2" "length (UINT32_TO_BE_STREAM c) = 4"
  by (simp_all add: UINT8_TO_STREAM_def UINT16_TO_STREAM_def UINT24_TO_STREAM_def
      UINT32_TO_STREAM_def UINT16_TO_BE_STREAM_def UINT32_TO_BE_STREAM_def)

text \<open>Two or four bytes put together again: bitwise, since the summands share no bit.\<close>

lemma ucast_bytes16 [simp]:
  "(ucast (ucast v :: u8) :: u16) + push_bit 8 (ucast (ucast (drop_bit 8 v) :: u8)) = v"
proof -
  have "(ucast (ucast v :: u8) :: u16) AND push_bit 8 (ucast (ucast (drop_bit 8 v) :: u8)) = 0"
    by (rule bit_word_eqI) (auto simp: bit_simps)
  then show ?thesis
    by (subst disjunctive_add_eq_or) (auto simp: bit_simps intro!: bit_word_eqI)
qed

lemma ucast_bytes32 [simp]:
  "(ucast (ucast v :: u8) :: u32) + push_bit 8 (ucast (ucast (drop_bit 8 v) :: u8))
   + push_bit 16 (ucast (ucast (drop_bit 16 v) :: u8))
   + push_bit 24 (ucast (ucast (drop_bit 24 v) :: u8)) = v"
  (is "?a + ?b + ?c + ?d = _")
proof -
  have ab: "?a + ?b = ?a OR ?b"
    by (rule disjunctive_add_eq_or) (auto simp: bit_simps intro!: bit_word_eqI)
  have abc: "(?a OR ?b) + ?c = ?a OR ?b OR ?c"
    by (subst disjunctive_add_eq_or) (auto simp: bit_simps or.assoc intro!: bit_word_eqI)
  have abcd: "(?a OR ?b OR ?c) + ?d = ?a OR ?b OR ?c OR ?d"
    by (subst disjunctive_add_eq_or) (auto simp: bit_simps or.assoc intro!: bit_word_eqI)
  show ?thesis
    unfolding ab abc abcd
  proof (rule bit_word_eqI)
    fix n assume "n < LENGTH(32)"
    then show "bit (?a OR ?b OR ?c OR ?d) n \<longleftrightarrow> bit v n"
      by (cases "24 \<le> n"; cases "16 \<le> n") (auto simp: bit_simps)
  qed
qed

lemma read_UINT8 [stream_simps]: "STREAM_TO_UINT8 (UINT8_TO_STREAM v @ p) = Some (v, p)"
  by (simp add: UINT8_TO_STREAM_def)

lemma read_UINT16 [stream_simps]: "STREAM_TO_UINT16 (UINT16_TO_STREAM v @ p) = Some (v, p)"
  by (simp add: UINT16_TO_STREAM_def)

lemma read_UINT32 [stream_simps]: "STREAM_TO_UINT32 (UINT32_TO_STREAM v @ p) = Some (v, p)"
  by (simp add: UINT32_TO_STREAM_def)

lemma read_BE_UINT16 [stream_simps]:
  "BE_STREAM_TO_UINT16 (UINT16_TO_BE_STREAM v @ p) = Some (v, p)"
  by (simp add: UINT16_TO_BE_STREAM_def add.commute)

lemma read_BE_UINT32 [stream_simps]:
  "BE_STREAM_TO_UINT32 (UINT32_TO_BE_STREAM v @ p) = Some (v, p)"
  by (simp add: UINT32_TO_BE_STREAM_def)

section \<open>Buffers\<close>

text \<open>
  Reading a byte of a buffer through a pointer.  The code reads without looking at the length: a
  read behind the bytes that the model holds gives \<open>0\<close>, and the properties say when none happens.
  \<open>poke\<close> writes bytes at an index inside a buffer.
\<close>

definition rd :: "bytes \<Rightarrow> nat \<Rightarrow> u8" where
  "rd d i = (if i < length d then d ! i else 0)"

definition rd16 :: "bytes \<Rightarrow> nat \<Rightarrow> u16" where
  "rd16 d i = ucast (rd d i) + push_bit 8 (ucast (rd d (i + 1)))"

definition poke :: "bytes \<Rightarrow> nat \<Rightarrow> bytes \<Rightarrow> bytes" where
  "poke mem i w = take i mem @ w @ drop (i + length w) mem"

lemma rd_Cons [simp]: "rd (x # xs) 0 = x" "rd (x # xs) (Suc i) = rd xs i"
  by (simp_all add: rd_def)

lemma rd_Cons_numeral [simp]:
  "rd (x # xs) (numeral v) = rd xs (pred_numeral v)" "rd (x # xs) 1 = rd xs 0"
  by (simp_all add: numeral_eq_Suc)

lemma rd_append: "rd (xs @ ys) i = (if i < length xs then rd xs i else rd ys (i - length xs))"
  by (auto simp: rd_def nth_append)

lemma length_poke: "i + length w \<le> length mem \<Longrightarrow> length (poke mem i w) = length mem"
  by (simp add: poke_def)

lemma take_drop_poke:
  "i + length w \<le> length mem \<Longrightarrow> take (length w) (drop i (poke mem i w)) = w"
  by (simp add: poke_def)

section \<open>Linked chains\<close>

text \<open>
  \<open>chain nx x as y\<close>: following \<open>nx\<close> from \<open>x\<close> visits the non-null nodes \<open>as\<close> in order and ends at
  \<open>y\<close>.  A null-terminated list is a chain that ends at \<open>0\<close>.
\<close>

primrec chain :: "(addr \<Rightarrow> addr) \<Rightarrow> addr \<Rightarrow> addr list \<Rightarrow> addr \<Rightarrow> bool" where
  "chain nx x [] y \<longleftrightarrow> x = y"
| "chain nx x (a # as) y \<longleftrightarrow> a = x \<and> x \<noteq> 0 \<and> chain nx (nx x) as y"

definition hd0 :: "addr list \<Rightarrow> addr" where
  "hd0 xs = (case xs of [] \<Rightarrow> 0 | x # _ \<Rightarrow> x)"

definition last0 :: "addr list \<Rightarrow> addr" where
  "last0 xs = (if xs = [] then 0 else last xs)"

lemma hd0_simps [simp]: "hd0 [] = 0" "hd0 (x # xs) = x"
  by (simp_all add: hd0_def)

lemma last0_simps [simp]:
  "last0 [] = 0" "last0 (xs @ [x]) = x" "last0 (x # xs) = (if xs = [] then x else last0 xs)"
  by (simp_all add: last0_def)

lemma hd0_append [simp]: "hd0 (xs @ ys) = (if xs = [] then hd0 ys else hd0 xs)"
  by (cases xs) auto

lemma last0_in_set: "xs \<noteq> [] \<Longrightarrow> last0 xs \<in> set xs"
  by (simp add: last0_def)

lemma chain_append: "chain nx x (as @ bs) y \<longleftrightarrow> (\<exists>z. chain nx x as z \<and> chain nx z bs y)"
  by (induction as arbitrary: x) auto

lemma chain_nonnull: "chain nx x as y \<Longrightarrow> 0 \<notin> set as"
  by (induction as arbitrary: x) auto

lemma chain_hd0: "chain nx x as 0 \<Longrightarrow> x = hd0 as"
  by (cases as) auto

lemma chain_upd_notin [simp]: "a \<notin> set as \<Longrightarrow> chain (nx(a := v)) x as y = chain nx x as y"
  by (induction as arbitrary: x) auto

lemma chain_cong: "(\<And>a. a \<in> set as \<Longrightarrow> nx a = nx' a) \<Longrightarrow> chain nx x as y = chain nx' x as y"
  by (induction as arbitrary: x) auto

lemma chain_unique: "chain nx x as 0 \<Longrightarrow> chain nx x bs 0 \<Longrightarrow> as = bs"
proof (induction as arbitrary: x bs)
  case Nil
  then show ?case by (cases bs) auto
next
  case (Cons a as)
  then show ?case by (cases bs) auto
qed

lemma chain_distinct: "chain nx x as 0 \<Longrightarrow> distinct as"
proof (induction as arbitrary: x)
  case Nil
  then show ?case by simp
next
  case (Cons a as)
  have "a \<notin> set as"
  proof
    assume "a \<in> set as"
    then obtain us vs where as: "as = us @ a # vs" by (meson split_list)
    with Cons.prems have "chain nx a (a # vs) 0" and "chain nx a (a # as) 0"
      by (auto simp: chain_append)
    then have "a # vs = a # as" by (rule chain_unique)
    with as show False by (metis append_Cons length_append list.sel(3) not_add_less2 length_Cons
          lessI less_add_Suc2 add.commute)
  qed
  with Cons show ?case by auto
qed

lemma chain_snoc:
  "chain nx x as 0 \<Longrightarrow> b \<noteq> 0 \<Longrightarrow> b \<notin> set as \<Longrightarrow>
   chain (nx(last0 as := b, b := 0)) (if as = [] then b else x) (as @ [b]) 0"
proof (induction as arbitrary: x)
  case Nil
  then show ?case by simp
next
  case (Cons a as)
  have dist: "distinct (a # as)" using Cons.prems(1) by (rule chain_distinct)
  show ?case
  proof (cases "as = []")
    case True
    with Cons.prems show ?thesis by auto
  next
    case False
    then have "last0 as \<noteq> a" using dist last0_in_set by fastforce
    then have "(nx(last0 as := b, b := 0)) a = nx a" using Cons.prems(3) by auto
    with Cons False show ?thesis by auto
  qed
qed

text \<open>Cutting one node out of the middle of a chain.\<close>

lemma chain_cut:
  assumes "chain nx x (as @ p # a # bs) 0"
  shows "chain (nx(p := nx a, a := 0)) x (as @ p # bs) 0"
proof -
  have "distinct (as @ p # a # bs)" using assms by (rule chain_distinct)
  moreover have "chain nx x as p" "p \<noteq> 0" "nx p = a" "chain nx (nx a) bs 0"
    using assms by (auto simp: chain_append)
  ultimately show ?thesis by (auto simp: chain_append)
qed

section \<open>Queues as an interface\<close>

text \<open>
  What every buffer queue of the stack promises its users, whatever its representation:
  \<open>rep s xs\<close> says that the queue holds the buffers \<open>xs\<close>, oldest first; \<open>ready s b\<close> that \<open>b\<close> may be
  put into it.  The client's law is first-in first-out delivery with nothing lost.
\<close>

fun drain :: "('s \<Rightarrow> 's \<times> addr) \<Rightarrow> nat \<Rightarrow> 's \<Rightarrow> 's \<times> addr list" where
  "drain dq 0 s = (s, [])"
| "drain dq (Suc n) s =
     (let (s1, b) = dq s; (s2, bs) = drain dq n s1 in (s2, b # bs))"

locale buffer_fifo =
  fixes rep :: "'s \<Rightarrow> addr list \<Rightarrow> bool"
    and ready :: "'s \<Rightarrow> addr \<Rightarrow> bool"
    and enq :: "'s \<Rightarrow> addr \<Rightarrow> 's"
    and deq :: "'s \<Rightarrow> 's \<times> addr"
    and cap :: nat
  assumes rep_enq: "rep s xs \<Longrightarrow> ready s b \<Longrightarrow> length xs < cap \<Longrightarrow> rep (enq s b) (xs @ [b])"
    and ready_enq: "rep s xs \<Longrightarrow> ready s b \<Longrightarrow> ready s c \<Longrightarrow> c \<noteq> b \<Longrightarrow> length xs < cap
      \<Longrightarrow> ready (enq s b) c"
    and deq_empty: "rep s [] \<Longrightarrow> snd (deq s) = 0 \<and> rep (fst (deq s)) []"
    and deq_first: "rep s (x # xs) \<Longrightarrow> snd (deq s) = x \<and> rep (fst (deq s)) xs"
begin

lemma rep_foldl_enq:
  "rep s xs \<Longrightarrow> distinct bs \<Longrightarrow> \<forall>b \<in> set bs. ready s b \<Longrightarrow> length xs + length bs \<le> cap
   \<Longrightarrow> rep (foldl enq s bs) (xs @ bs)"
proof (induction bs arbitrary: s xs)
  case Nil
  then show ?case by simp
next
  case (Cons b bs)
  then have "rep (enq s b) (xs @ [b])" and "\<forall>c \<in> set bs. ready (enq s b) c"
    by (auto intro: rep_enq ready_enq)
  with Cons.IH [of "enq s b" "xs @ [b]"] Cons.prems show ?case by simp
qed

lemma drain_rep: "rep s (xs @ ys) \<Longrightarrow>
  snd (drain deq (length xs) s) = xs \<and> rep (fst (drain deq (length xs) s)) ys"
proof (induction xs arbitrary: s)
  case Nil
  then show ?case by simp
next
  case (Cons x xs)
  then have "snd (deq s) = x" and "rep (fst (deq s)) (xs @ ys)"
    using deq_first by auto
  with Cons.IH [of "fst (deq s)"] show ?case by (auto simp: Let_def split: prod.splits)
qed

lemma fifo:
  assumes "rep s []" and "distinct bs" and "\<forall>b \<in> set bs. ready s b" and "length bs \<le> cap"
  shows "snd (drain deq (length bs) (foldl enq s bs)) = bs"
    and "rep (fst (drain deq (length bs) (foldl enq s bs))) []"
proof -
  have "rep (foldl enq s bs) (bs @ [])"
    using rep_foldl_enq [of s "[]" bs] assms by simp
  then show "snd (drain deq (length bs) (foldl enq s bs)) = bs"
    and "rep (fst (drain deq (length bs) (foldl enq s bs))) []"
    using drain_rep by blast+
qed

end

end
