(* ===== verification/Gki_Buffer.thy ===== *)
theory Gki_Buffer
  imports Bt_Prelude
begin

text \<open>
  The buffer manager of the kernel layer, \<^verbatim>\<open>gki/common/gki_buffer.c\<close>: buffer pools with their free
  queues, allocation and release, user queues (\<^verbatim>\<open>BUFFER_Q\<close>), task mailboxes, and the creation and
  deletion of pools.

  Memory is explicit.  A buffer is known by the address of its header; the address a user sees is
  \<open>BUFFER_HDR_SIZE\<close> bytes further.  \<open>hdr\<close> maps addresses to headers and \<open>magic\<close> addresses to the
  32-bit guard word behind the user area; both are total, as a flat memory is.  \<open>NULL\<close> is \<open>0\<close>.
  UINT8 and UINT16 fields are naturals, with the wrap-around of an assignment written out where the
  code narrows or increments.  Calls that leave the component are arguments: \<open>malloc\<close> is the
  allocator behind \<^verbatim>\<open>GKI_os_malloc\<close>, \<open>tid\<close> the result of \<^verbatim>\<open>GKI_get_taskid\<close>.  \<open>fault\<close> is set where the
  C code would write through a null pointer or outside an array; \<open>exceptions\<close> records the codes
  passed to \<^verbatim>\<open>GKI_exception\<close>, which only logs; \<open>GKI_mutex\<close> is the depth of the recursive mutex taken
  by \<^verbatim>\<open>GKI_disable\<close>.  The layout is that of a 32-bit target, which the pointer casts of the code
  assume.
\<close>

section \<open>Data\<close>

record buffer_hdr =
  p_next :: addr
  q_id :: nat
  task_id :: nat
  status :: nat
  buf_type :: nat

record free_queue =
  fq_first :: addr
  fq_last :: addr
  fq_size :: nat
  fq_total :: nat
  fq_cur_cnt :: nat
  fq_max_cnt :: nat

record buffer_q =
  q_first :: addr
  q_last :: addr
  q_count :: nat

record gki_com =
  hdr :: "addr \<Rightarrow> buffer_hdr"
  magic :: "addr \<Rightarrow> u32"
  freeq :: "nat \<Rightarrow> free_queue"
  pool_start :: "nat \<Rightarrow> addr"
  pool_end :: "nat \<Rightarrow> addr"
  pool_size :: "nat \<Rightarrow> nat"
  pool_access_mask :: u16
  pool_list :: "nat list"
  curr_total_no_of_pools :: nat
  OSTaskQFirst :: "nat \<Rightarrow> nat \<Rightarrow> addr"
  OSTaskQLast :: "nat \<Rightarrow> nat \<Rightarrow> addr"
  OSRdyTbl :: "nat \<Rightarrow> nat"
  OSWaitEvt :: "nat \<Rightarrow> u16"
  GKI_mutex :: nat
  exceptions :: "nat list"
  fault :: bool

definition GKI_NUM_TOTAL_BUF_POOLS :: nat where "GKI_NUM_TOTAL_BUF_POOLS = 10"
definition GKI_NUM_FIXED_BUF_POOLS :: nat where "GKI_NUM_FIXED_BUF_POOLS = 10"
definition GKI_MAX_TASKS :: nat where "GKI_MAX_TASKS = 3"
definition NUM_TASK_MBOX :: nat where "NUM_TASK_MBOX = 4"
definition GKI_DEF_BUFPOOL_PERM_MASK :: u16 where "GKI_DEF_BUFPOOL_PERM_MASK = 0xfdf0"

definition BUFFER_HDR_SIZE :: nat where "BUFFER_HDR_SIZE = 8"
definition BUFFER_PADDING_SIZE :: nat where "BUFFER_PADDING_SIZE = BUFFER_HDR_SIZE + 4"
definition MAX_USER_BUF_SIZE :: nat where "MAX_USER_BUF_SIZE = 65535 - BUFFER_PADDING_SIZE"
definition MAGIC_NO :: u32 where "MAGIC_NO = 0xDDBADDBA"
definition BUF_STATUS_FREE :: nat where "BUF_STATUS_FREE = 0"
definition BUF_STATUS_UNLINKED :: nat where "BUF_STATUS_UNLINKED = 1"
definition BUF_STATUS_QUEUED :: nat where "BUF_STATUS_QUEUED = 2"
definition GKI_INVALID_TASK :: nat where "GKI_INVALID_TASK = 0xF0"
definition GKI_INVALID_POOL :: nat where "GKI_INVALID_POOL = 0xFF"
definition GKI_SUCCESS :: nat where "GKI_SUCCESS = 0"
definition TASK_DEAD :: nat where "TASK_DEAD = 0"
definition GKI_RESTRICTED_POOL :: nat where "GKI_RESTRICTED_POOL = 1"

definition GKI_ERROR_BUF_CORRUPTED :: nat where "GKI_ERROR_BUF_CORRUPTED = 0xFFFF"
definition GKI_ERROR_FREEBUF_BAD_QID :: nat where "GKI_ERROR_FREEBUF_BAD_QID = 0xFFFD"
definition GKI_ERROR_FREEBUF_BUF_LINKED :: nat where "GKI_ERROR_FREEBUF_BUF_LINKED = 0xFFFC"
definition GKI_ERROR_SEND_MSG_BAD_DEST :: nat where "GKI_ERROR_SEND_MSG_BAD_DEST = 0xFFFB"
definition GKI_ERROR_SEND_MSG_BUF_LINKED :: nat where "GKI_ERROR_SEND_MSG_BUF_LINKED = 0xFFFA"
definition GKI_ERROR_ENQUEUE_BUF_LINKED :: nat where "GKI_ERROR_ENQUEUE_BUF_LINKED = 0xFFF9"
definition GKI_ERROR_DELETE_POOL_BAD_QID :: nat where "GKI_ERROR_DELETE_POOL_BAD_QID = 0xFFF8"
definition GKI_ERROR_BUF_SIZE_TOOBIG :: nat where "GKI_ERROR_BUF_SIZE_TOOBIG = 0xFFF7"
definition GKI_ERROR_BUF_SIZE_ZERO :: nat where "GKI_ERROR_BUF_SIZE_ZERO = 0xFFF6"

lemmas gki_consts =
  GKI_NUM_TOTAL_BUF_POOLS_def GKI_NUM_FIXED_BUF_POOLS_def GKI_MAX_TASKS_def NUM_TASK_MBOX_def
  GKI_DEF_BUFPOOL_PERM_MASK_def BUFFER_HDR_SIZE_def BUFFER_PADDING_SIZE_def MAX_USER_BUF_SIZE_def
  MAGIC_NO_def BUF_STATUS_FREE_def BUF_STATUS_UNLINKED_def BUF_STATUS_QUEUED_def
  GKI_INVALID_TASK_def GKI_INVALID_POOL_def GKI_SUCCESS_def TASK_DEAD_def GKI_RESTRICTED_POOL_def
  GKI_ERROR_BUF_CORRUPTED_def GKI_ERROR_FREEBUF_BAD_QID_def GKI_ERROR_FREEBUF_BUF_LINKED_def
  GKI_ERROR_SEND_MSG_BAD_DEST_def GKI_ERROR_SEND_MSG_BUF_LINKED_def
  GKI_ERROR_ENQUEUE_BUF_LINKED_def GKI_ERROR_DELETE_POOL_BAD_QID_def
  GKI_ERROR_BUF_SIZE_TOOBIG_def GKI_ERROR_BUF_SIZE_ZERO_def

definition ALIGN_POOL :: "nat \<Rightarrow> nat" where
  "ALIGN_POOL pl_size = ((pl_size + 3) div 4) * 4"

section \<open>The operating-system layer\<close>

definition GKI_disable :: "'a gki_com_scheme \<Rightarrow> 'a gki_com_scheme" where
  "GKI_disable s = s\<lparr>GKI_mutex := GKI_mutex s + 1\<rparr>"

definition GKI_enable :: "'a gki_com_scheme \<Rightarrow> 'a gki_com_scheme" where
  "GKI_enable s = s\<lparr>GKI_mutex := GKI_mutex s - 1\<rparr>"

definition GKI_exception :: "nat \<Rightarrow> gki_com \<Rightarrow> gki_com" where
  "GKI_exception code s = s\<lparr>exceptions := exceptions s @ [code]\<rparr>"

definition EVENT_MASK :: "nat \<Rightarrow> u16" where
  "EVENT_MASK evt = push_bit evt 1"

definition GKI_send_event :: "'a gki_com_scheme \<Rightarrow> nat \<Rightarrow> u16 \<Rightarrow> 'a gki_com_scheme" where
  "GKI_send_event s tsk event =
     (if tsk < GKI_MAX_TASKS
      then s\<lparr>OSWaitEvt := (OSWaitEvt s)(tsk := OSWaitEvt s tsk OR event)\<rparr> else s)"

definition set_hdr :: "addr \<Rightarrow> (buffer_hdr \<Rightarrow> buffer_hdr) \<Rightarrow> gki_com \<Rightarrow> gki_com" where
  "set_hdr a f s = s\<lparr>hdr := (hdr s)(a := f (hdr s a))\<rparr>"

section \<open>Free queues and pools\<close>

text \<open>The loop of \<open>gki_init_free_queue\<close>: \<open>n\<close> buffers from address \<open>h\<close> on, each linked to the next.\<close>

fun init_index_table :: "nat \<Rightarrow> nat \<Rightarrow> nat \<Rightarrow> nat \<Rightarrow> addr \<Rightarrow> gki_com \<Rightarrow> gki_com" where
  "init_index_table i tempsize act_size 0 h s = s"
| "init_index_table i tempsize act_size (Suc n) h s =
     (let s1 = set_hdr h (\<lambda>b. b\<lparr>task_id := GKI_INVALID_TASK, q_id := i,
                                  status := BUF_STATUS_FREE\<rparr>) s;
          s2 = s1\<lparr>magic := (magic s1)(h + BUFFER_HDR_SIZE + tempsize := MAGIC_NO)\<rparr>;
          s3 = set_hdr h (\<lambda>b. b\<lparr>p_next := h + act_size\<rparr>) s2
      in init_index_table i tempsize act_size n (h + act_size) s3)"

definition gki_init_free_queue :: "gki_com \<Rightarrow> nat \<Rightarrow> nat \<Rightarrow> nat \<Rightarrow> addr \<Rightarrow> gki_com" where
  "gki_init_free_queue s i sz tot p_mem =
     (let tempsize = ALIGN_POOL sz;
          act_size = (tempsize + BUFFER_PADDING_SIZE) mod 65536;
          s1 = (if p_mem \<noteq> 0
                then s\<lparr>pool_start := (pool_start s)(i := p_mem),
                       pool_end := (pool_end s)(i := p_mem + act_size * tot)\<rparr>
                else s);
          s2 = s1\<lparr>pool_size := (pool_size s1)(i := act_size),
                  freeq := (freeq s1)(i := (freeq s1 i)\<lparr>fq_size := tempsize mod 65536,
                    fq_total := tot, fq_cur_cnt := 0, fq_max_cnt := 0\<rparr>)\<rparr>
      in if p_mem \<noteq> 0
         then if tot = 0 then s2\<lparr>fault := True\<rparr>
              else let s3 = s2\<lparr>freeq := (freeq s2)(i := (freeq s2 i)\<lparr>fq_first := p_mem\<rparr>)\<rparr>;
                       s4 = init_index_table i tempsize act_size tot p_mem s3;
                       hdr1 = p_mem + act_size * (tot - 1);
                       s5 = set_hdr hdr1 (\<lambda>b. b\<lparr>p_next := 0\<rparr>) s4
                   in s5\<lparr>freeq := (freeq s5)(i := (freeq s5 i)\<lparr>fq_last := hdr1\<rparr>)\<rparr>
         else s2)"

definition gki_alloc_free_queue ::
  "(gki_com \<Rightarrow> nat \<Rightarrow> addr) \<Rightarrow> gki_com \<Rightarrow> nat \<Rightarrow> gki_com \<times> bool" where
  "gki_alloc_free_queue malloc s i =
     (let Q = freeq s (pool_list s ! i) in
      if fq_first Q = 0
      then let p_mem = malloc s ((fq_size Q + BUFFER_PADDING_SIZE) * fq_total Q)
           in if p_mem \<noteq> 0
              then (gki_init_free_queue s i (fq_size Q) (fq_total Q) p_mem, True)
              else (GKI_exception GKI_ERROR_BUF_SIZE_TOOBIG s, False)
      else (s, False))"

text \<open>\<open>gki_dealloc_free_queue\<close>, one pool at a time; \<open>GKI_os_free\<close> gives the memory back to the system.\<close>

fun gki_dealloc_from :: "nat \<Rightarrow> nat \<Rightarrow> gki_com \<Rightarrow> gki_com" where
  "gki_dealloc_from i 0 s = s"
| "gki_dealloc_from i (Suc n) s =
     gki_dealloc_from (Suc i) n
       (if 0 < fq_max_cnt (freeq s i)
        then s\<lparr>freeq := (freeq s)(i := (freeq s i)\<lparr>fq_cur_cnt := 0, fq_max_cnt := 0,
                          fq_first := 0, fq_last := 0\<rparr>),
               pool_start := (pool_start s)(i := 0), pool_end := (pool_end s)(i := 0),
               pool_size := (pool_size s)(i := 0)\<rparr>
        else s)"

definition gki_dealloc_free_queue :: "gki_com \<Rightarrow> gki_com" where
  "gki_dealloc_free_queue s = gki_dealloc_from 0 (curr_total_no_of_pools s) s"

text \<open>
  The fixed pools of \<^verbatim>\<open>gki_target.h\<close>: size and number of buffers of pool 0 to 9.
\<close>

definition fixed_pools_0_4 :: "(nat \<times> nat) list" where
  "fixed_pools_0_4 = [(64, 48), (288, 26), (660, 45), (4096 + 16, 200), (8080 + 26, 12 + 8)]"

definition fixed_pool_5 :: "nat \<times> nat" where
  "fixed_pool_5 = (748, 64)"

definition fixed_pools_6_9 :: "(nat \<times> nat) list" where
  "fixed_pools_6_9 = [(268, 60), (9472, 2), (128, 30), (8192, 5)]"

definition fixed_pools :: "(nat \<times> nat) list" where
  "fixed_pools = fixed_pools_0_4 @ [fixed_pool_5] @ fixed_pools_6_9"

lemmas fixed_pools_defs = fixed_pools_def fixed_pools_0_4_def fixed_pool_5_def fixed_pools_6_9_def

text \<open>
  \<open>gki_buffer_init\<close>.  With deferred allocation the pool pointers \<^verbatim>\<open>bufpool0 .. bufpool9\<close> are still
  null (\<^verbatim>\<open>GKI_init\<close> clears the control block), so the free queues get their sizes but no memory.
\<close>

fun init_fixed_pools :: "nat \<Rightarrow> (nat \<times> nat) list \<Rightarrow> gki_com \<Rightarrow> gki_com" where
  "init_fixed_pools i [] s = s"
| "init_fixed_pools i ((sz, tot) # ps) s =
     init_fixed_pools (Suc i) ps (gki_init_free_queue s i sz tot 0)"

definition gki_buffer_init :: "gki_com \<Rightarrow> gki_com" where
  "gki_buffer_init s =
     (let s1 = s\<lparr>OSTaskQFirst := (\<lambda>tt mb. if tt < GKI_MAX_TASKS \<and> mb < NUM_TASK_MBOX then 0
                                            else OSTaskQFirst s tt mb),
                 OSTaskQLast := (\<lambda>tt mb. if tt < GKI_MAX_TASKS \<and> mb < NUM_TASK_MBOX then 0
                                           else OSTaskQLast s tt mb)\<rparr>;
          s2 = s1\<lparr>pool_start := (\<lambda>tt. if tt < GKI_NUM_TOTAL_BUF_POOLS then 0 else pool_start s1 tt),
                  pool_end := (\<lambda>tt. if tt < GKI_NUM_TOTAL_BUF_POOLS then 0 else pool_end s1 tt),
                  pool_size := (\<lambda>tt. if tt < GKI_NUM_TOTAL_BUF_POOLS then 0 else pool_size s1 tt),
                  freeq := (\<lambda>tt. if tt < GKI_NUM_TOTAL_BUF_POOLS
                    then \<lparr>fq_first = 0, fq_last = 0, fq_size = 0, fq_total = 0, fq_cur_cnt = 0,
                          fq_max_cnt = 0\<rparr>
                    else freeq s1 tt),
                  pool_access_mask := GKI_DEF_BUFPOOL_PERM_MASK\<rparr>;
          s3 = init_fixed_pools 0 fixed_pools s2
      in s3\<lparr>pool_list := [0..<GKI_NUM_FIXED_BUF_POOLS],
            curr_total_no_of_pools := GKI_NUM_FIXED_BUF_POOLS\<rparr>)"

section \<open>Allocation and release\<close>

text \<open>Taking the first buffer of a free queue: the common part of \<open>GKI_getbuf\<close>,
  \<open>GKI_getpoolbuf\<close> and \<open>GKI_igetpoolbuf\<close>, up to the pointer they return.  With an empty chain
  the code follows a null pointer.\<close>

definition take_first :: "gki_com \<Rightarrow> nat \<Rightarrow> gki_com \<times> addr" where
  "take_first s i =
     (let Q = freeq s i;
          p_hdr = fq_first Q;
          first = p_next (hdr s p_hdr);
          cur = (fq_cur_cnt Q + 1) mod 65536
      in (s\<lparr>freeq := (freeq s)(i := Q\<lparr>fq_first := first,
              fq_last := (if first = 0 then 0 else fq_last Q),
              fq_cur_cnt := cur,
              fq_max_cnt := (if cur > fq_max_cnt Q then cur else fq_max_cnt Q)\<rparr>),
            fault := (fault s \<or> p_hdr = 0)\<rparr>, p_hdr))"

definition own_buffer :: "nat \<Rightarrow> addr \<Rightarrow> gki_com \<Rightarrow> gki_com" where
  "own_buffer tid p_hdr s =
     set_hdr p_hdr (\<lambda>b. b\<lparr>task_id := tid, status := BUF_STATUS_UNLINKED, p_next := 0, buf_type := 0\<rparr>) s"

text \<open>The second loop of \<open>GKI_getbuf\<close>, over the \<open>n\<close> pools from list position \<open>i\<close> on.\<close>

fun getbuf_search ::
  "(gki_com \<Rightarrow> nat \<Rightarrow> addr) \<Rightarrow> nat \<Rightarrow> nat \<Rightarrow> nat \<Rightarrow> gki_com \<Rightarrow> gki_com \<times> addr" where
  "getbuf_search malloc tid i 0 s = (GKI_enable s, 0)"
| "getbuf_search malloc tid i (Suc n) s =
     (if bit (pool_access_mask s) (pool_list s ! i)
      then getbuf_search malloc tid (Suc i) n s
      else let Q = freeq s (pool_list s ! i) in
        if fq_cur_cnt Q < fq_total Q
        then let (s1, ok) = (if fq_first Q = 0 then gki_alloc_free_queue malloc s i else (s, True))
             in if \<not> ok then (s1, 0)
                else let (s2, p_hdr) = take_first s1 (pool_list s ! i);
                         s3 = own_buffer tid p_hdr (GKI_enable s2)
                     in (s3, p_hdr + BUFFER_HDR_SIZE)
        else getbuf_search malloc tid (Suc i) n s)"

text \<open>The first loop of \<open>GKI_getbuf\<close>: the first list position whose pool is large enough.\<close>

fun first_fit :: "gki_com \<Rightarrow> nat \<Rightarrow> nat \<Rightarrow> nat \<Rightarrow> nat" where
  "first_fit s sz i 0 = i"
| "first_fit s sz i (Suc n) =
     (if sz \<le> fq_size (freeq s (pool_list s ! i)) then i else first_fit s sz (Suc i) n)"

definition GKI_getbuf :: "(gki_com \<Rightarrow> nat \<Rightarrow> addr) \<Rightarrow> nat \<Rightarrow> gki_com \<Rightarrow> nat \<Rightarrow> gki_com \<times> addr" where
  "GKI_getbuf malloc tid s sz =
     (if sz = 0 then (GKI_exception GKI_ERROR_BUF_SIZE_ZERO s, 0)
      else let i = first_fit s sz 0 (curr_total_no_of_pools s) in
        if i = curr_total_no_of_pools s
        then (GKI_exception GKI_ERROR_BUF_SIZE_TOOBIG s, 0)
        else getbuf_search malloc tid i (curr_total_no_of_pools s - i) (GKI_disable s))"

definition GKI_getpoolbuf ::
  "(gki_com \<Rightarrow> nat \<Rightarrow> addr) \<Rightarrow> nat \<Rightarrow> gki_com \<Rightarrow> nat \<Rightarrow> gki_com \<times> addr" where
  "GKI_getpoolbuf malloc tid s pool_id =
     (if pool_id \<ge> GKI_NUM_TOTAL_BUF_POOLS then (s, 0)
      else let s0 = GKI_disable s; Q = freeq s0 pool_id in
        if fq_cur_cnt Q < fq_total Q
        then let (s1, ok) = (if fq_first Q = 0 then gki_alloc_free_queue malloc s0 pool_id
                             else (s0, True))
             in if \<not> ok then (s1, 0)
                else let (s2, p_hdr) = take_first s1 pool_id;
                         s3 = own_buffer tid p_hdr (GKI_enable s2)
                     in (s3, p_hdr + BUFFER_HDR_SIZE)
        else let s1 = GKI_enable s0
             in GKI_getbuf malloc tid s1 (fq_size (freeq s1 pool_id)))"

definition GKI_igetpoolbuf :: "nat \<Rightarrow> gki_com \<Rightarrow> nat \<Rightarrow> gki_com \<times> addr" where
  "GKI_igetpoolbuf tid s pool_id =
     (if pool_id \<ge> GKI_NUM_TOTAL_BUF_POOLS then (s, 0)
      else let Q = freeq s pool_id in
        if fq_cur_cnt Q < fq_total Q
        then let (s2, p_hdr) = take_first s pool_id
             in (own_buffer tid p_hdr s2, p_hdr + BUFFER_HDR_SIZE)
        else (s, 0))"

definition GKI_get_buf_size :: "gki_com \<Rightarrow> addr \<Rightarrow> nat" where
  "GKI_get_buf_size s p_buf =
     (let p_hdr = p_buf - BUFFER_HDR_SIZE in
      if odd p_hdr then 0
      else if q_id (hdr s p_hdr) < GKI_NUM_TOTAL_BUF_POOLS
           then fq_size (freeq s (q_id (hdr s p_hdr))) else 0)"

definition gki_chk_buf_damage :: "gki_com \<Rightarrow> addr \<Rightarrow> bool" where
  "gki_chk_buf_damage s p_buf =
     (let m = p_buf + GKI_get_buf_size s p_buf in
      if odd m then True else if magic s m = MAGIC_NO then False else True)"

definition GKI_freebuf :: "gki_com \<Rightarrow> addr \<Rightarrow> gki_com" where
  "GKI_freebuf s p_buf =
     (if p_buf = 0 \<or> gki_chk_buf_damage s p_buf then GKI_exception GKI_ERROR_BUF_CORRUPTED s
      else let p_hdr = p_buf - BUFFER_HDR_SIZE in
        if status (hdr s p_hdr) \<noteq> BUF_STATUS_UNLINKED
        then GKI_exception GKI_ERROR_FREEBUF_BUF_LINKED s
        else if q_id (hdr s p_hdr) \<ge> GKI_NUM_TOTAL_BUF_POOLS
        then GKI_exception GKI_ERROR_FREEBUF_BAD_QID s
        else let s0 = GKI_disable s; i = q_id (hdr s0 p_hdr); Q = freeq s0 i;
                 s1 = (if fq_last Q \<noteq> 0 then set_hdr (fq_last Q) (\<lambda>b. b\<lparr>p_next := p_hdr\<rparr>) s0
                       else s0\<lparr>freeq := (freeq s0)(i := Q\<lparr>fq_first := p_hdr\<rparr>)\<rparr>);
                 s2 = s1\<lparr>freeq := (freeq s1)(i := (freeq s1 i)\<lparr>fq_last := p_hdr\<rparr>)\<rparr>;
                 s3 = set_hdr p_hdr (\<lambda>b. b\<lparr>p_next := 0, status := BUF_STATUS_FREE,
                                              task_id := GKI_INVALID_TASK\<rparr>) s2;
                 s4 = (if fq_cur_cnt (freeq s3 i) > 0
                       then s3\<lparr>freeq := (freeq s3)(i := (freeq s3 i)
                                 \<lparr>fq_cur_cnt := fq_cur_cnt (freeq s3 i) - 1\<rparr>)\<rparr>
                       else s3)
             in GKI_enable s4)"

section \<open>Mailboxes\<close>

definition GKI_send_msg :: "gki_com \<Rightarrow> nat \<Rightarrow> nat \<Rightarrow> addr \<Rightarrow> gki_com" where
  "GKI_send_msg s tsk mbox msg =
     (if tsk \<ge> GKI_MAX_TASKS \<or> mbox \<ge> NUM_TASK_MBOX \<or> OSRdyTbl s tsk = TASK_DEAD
      then GKI_freebuf (GKI_exception GKI_ERROR_SEND_MSG_BAD_DEST s) msg
      else if gki_chk_buf_damage s msg then GKI_exception GKI_ERROR_BUF_CORRUPTED s
      else let p_hdr = msg - BUFFER_HDR_SIZE in
        if status (hdr s p_hdr) \<noteq> BUF_STATUS_UNLINKED
        then GKI_exception GKI_ERROR_SEND_MSG_BUF_LINKED s
        else let s0 = GKI_disable s;
                 s1 = (if OSTaskQFirst s0 tsk mbox \<noteq> 0
                       then set_hdr (OSTaskQLast s0 tsk mbox) (\<lambda>b. b\<lparr>p_next := p_hdr\<rparr>) s0
                       else s0\<lparr>OSTaskQFirst := (OSTaskQFirst s0)
                                 (tsk := (OSTaskQFirst s0 tsk)(mbox := p_hdr))\<rparr>);
                 s2 = s1\<lparr>OSTaskQLast := (OSTaskQLast s1)
                           (tsk := (OSTaskQLast s1 tsk)(mbox := p_hdr))\<rparr>;
                 s3 = set_hdr p_hdr (\<lambda>b. b\<lparr>p_next := 0, status := BUF_STATUS_QUEUED,
                                              task_id := tsk\<rparr>) s2
             in GKI_send_event (GKI_enable s3) tsk (EVENT_MASK mbox))"

definition GKI_read_mbox :: "nat \<Rightarrow> gki_com \<Rightarrow> nat \<Rightarrow> gki_com \<times> addr" where
  "GKI_read_mbox tid s mbox =
     (if tid \<ge> GKI_MAX_TASKS \<or> mbox \<ge> NUM_TASK_MBOX then (s, 0)
      else let s0 = GKI_disable s in
        if OSTaskQFirst s0 tid mbox \<noteq> 0
        then let p_hdr = OSTaskQFirst s0 tid mbox;
                 s1 = s0\<lparr>OSTaskQFirst := (OSTaskQFirst s0)
                           (tid := (OSTaskQFirst s0 tid)(mbox := p_next (hdr s0 p_hdr)))\<rparr>;
                 s2 = set_hdr p_hdr (\<lambda>b. b\<lparr>p_next := 0, status := BUF_STATUS_UNLINKED\<rparr>) s1
             in (GKI_enable s2, p_hdr + BUFFER_HDR_SIZE)
        else (GKI_enable s0, 0))"

section \<open>User queues\<close>

definition GKI_init_q :: "buffer_q \<Rightarrow> buffer_q" where
  "GKI_init_q q = q\<lparr>q_first := 0, q_last := 0, q_count := 0\<rparr>"

definition GKI_enqueue :: "gki_com \<times> buffer_q \<Rightarrow> addr \<Rightarrow> gki_com \<times> buffer_q" where
  "GKI_enqueue sq p_buf =
     (let (s, q) = sq in
      if gki_chk_buf_damage s p_buf then (GKI_exception GKI_ERROR_BUF_CORRUPTED s, q)
      else let p_hdr = p_buf - BUFFER_HDR_SIZE in
        if status (hdr s p_hdr) \<noteq> BUF_STATUS_UNLINKED
        then (GKI_exception GKI_ERROR_ENQUEUE_BUF_LINKED s, q)
        else let s0 = GKI_disable s;
                 (s1, q1) = (if q_last q \<noteq> 0
                   then (set_hdr (q_last q - BUFFER_HDR_SIZE) (\<lambda>b. b\<lparr>p_next := p_hdr\<rparr>) s0, q)
                   else (s0, q\<lparr>q_first := p_buf\<rparr>));
                 q2 = q1\<lparr>q_last := p_buf, q_count := (q_count q1 + 1) mod 65536\<rparr>;
                 s2 = set_hdr p_hdr (\<lambda>b. b\<lparr>p_next := 0, status := BUF_STATUS_QUEUED\<rparr>) s1
             in (GKI_enable s2, q2))"

definition GKI_enqueue_head :: "gki_com \<times> buffer_q \<Rightarrow> addr \<Rightarrow> gki_com \<times> buffer_q" where
  "GKI_enqueue_head sq p_buf =
     (let (s, q) = sq in
      if gki_chk_buf_damage s p_buf then (GKI_exception GKI_ERROR_BUF_CORRUPTED s, q)
      else let p_hdr = p_buf - BUFFER_HDR_SIZE in
        if status (hdr s p_hdr) \<noteq> BUF_STATUS_UNLINKED
        then (GKI_exception GKI_ERROR_ENQUEUE_BUF_LINKED s, q)
        else let s0 = GKI_disable s;
                 (s1, q1) = (if q_first q \<noteq> 0
                   then (set_hdr p_hdr (\<lambda>b. b\<lparr>p_next := q_first q - BUFFER_HDR_SIZE\<rparr>) s0,
                         q\<lparr>q_first := p_buf\<rparr>)
                   else (set_hdr p_hdr (\<lambda>b. b\<lparr>p_next := 0\<rparr>) s0,
                         q\<lparr>q_first := p_buf, q_last := p_buf\<rparr>));
                 q2 = q1\<lparr>q_count := (q_count q1 + 1) mod 65536\<rparr>;
                 s2 = set_hdr p_hdr (\<lambda>b. b\<lparr>status := BUF_STATUS_QUEUED\<rparr>) s1
             in (GKI_enable s2, q2))"

definition GKI_dequeue :: "gki_com \<times> buffer_q \<Rightarrow> (gki_com \<times> buffer_q) \<times> addr" where
  "GKI_dequeue sq =
     (let (s, q) = sq; s0 = GKI_disable s in
      if q_count q = 0 then ((GKI_enable s0, q), 0)
      else let p_hdr = q_first q - BUFFER_HDR_SIZE;
               q1 = (if p_next (hdr s0 p_hdr) \<noteq> 0
                     then q\<lparr>q_first := p_next (hdr s0 p_hdr) + BUFFER_HDR_SIZE\<rparr>
                     else q\<lparr>q_first := 0, q_last := 0\<rparr>);
               q2 = q1\<lparr>q_count := q_count q1 - 1\<rparr>;
               s1 = set_hdr p_hdr (\<lambda>b. b\<lparr>p_next := 0, status := BUF_STATUS_UNLINKED\<rparr>) s0
           in ((GKI_enable s1, q2), p_hdr + BUFFER_HDR_SIZE))"

text \<open>
  The search loop of \<open>GKI_remove_from_queue\<close>: the header that points to \<open>target\<close>, or \<open>Some 0\<close> when
  the chain ends.  A cyclic chain that does not hold the target never ends: \<open>None\<close>.
\<close>

partial_function (option) find_prev :: "gki_com \<Rightarrow> addr \<Rightarrow> addr \<Rightarrow> addr option" where
  "find_prev s target p_prev =
     (if p_prev = 0 then Some 0
      else if p_next (hdr s p_prev) = target then Some p_prev
      else find_prev s target (p_next (hdr s p_prev)))"

definition GKI_remove_from_queue ::
  "gki_com \<times> buffer_q \<Rightarrow> addr \<Rightarrow> ((gki_com \<times> buffer_q) \<times> addr) option" where
  "GKI_remove_from_queue sq p_buf =
     (let (s, q) = sq; s0 = GKI_disable s in
      if p_buf = q_first q then Some (GKI_dequeue (GKI_enable s0, q))
      else if q_first q = 0 then Some ((s0\<lparr>fault := True\<rparr>, q), 0)
      else let p_buf_hdr = p_buf - BUFFER_HDR_SIZE in
        (case find_prev s0 p_buf_hdr (q_first q - BUFFER_HDR_SIZE) of
           None \<Rightarrow> None
         | Some p_prev \<Rightarrow>
             if p_prev = 0 then Some ((GKI_enable s0, q), 0)
             else let s1 = set_hdr p_prev (\<lambda>b. b\<lparr>p_next := p_next (hdr s0 p_buf_hdr)\<rparr>) s0;
                      q1 = (if p_buf = q_last q then q\<lparr>q_last := p_prev + BUFFER_HDR_SIZE\<rparr> else q);
                      q2 = q1\<lparr>q_count := (q_count q1 + 65535) mod 65536\<rparr>;
                      s2 = set_hdr p_buf_hdr
                             (\<lambda>b. b\<lparr>p_next := 0, status := BUF_STATUS_UNLINKED\<rparr>) s1
                  in Some ((GKI_enable s2, q2), p_buf)))"

definition GKI_getfirst :: "buffer_q \<Rightarrow> addr" where
  "GKI_getfirst q = q_first q"

definition GKI_getlast :: "buffer_q \<Rightarrow> addr" where
  "GKI_getlast q = q_last q"

definition GKI_getnext :: "gki_com \<Rightarrow> addr \<Rightarrow> addr" where
  "GKI_getnext s p_buf =
     (let p_hdr = p_buf - BUFFER_HDR_SIZE in
      if p_next (hdr s p_hdr) \<noteq> 0 then p_next (hdr s p_hdr) + BUFFER_HDR_SIZE else 0)"

definition GKI_queue_is_empty :: "buffer_q \<Rightarrow> bool" where
  "GKI_queue_is_empty q = (q_count q = 0)"

section \<open>Pool management\<close>

fun find_buf_in :: "gki_com \<Rightarrow> addr \<Rightarrow> nat \<Rightarrow> nat \<Rightarrow> addr option" where
  "find_buf_in s p_ua xx 0 = None"
| "find_buf_in s p_ua xx (Suc n) =
     (if p_ua > pool_start s xx \<and> p_ua < pool_end s xx
      then let yy = p_ua - pool_start s xx; sz = pool_size s xx
           in Some (pool_start s xx + (yy div sz) * sz + BUFFER_HDR_SIZE)
      else find_buf_in s p_ua (Suc xx) n)"

definition GKI_find_buf_start :: "gki_com \<Rightarrow> addr \<Rightarrow> gki_com \<times> addr" where
  "GKI_find_buf_start s p_user_area =
     (case find_buf_in s p_user_area 0 GKI_NUM_TOTAL_BUF_POOLS of
        Some a \<Rightarrow> (s, a)
      | None \<Rightarrow> (GKI_exception GKI_ERROR_BUF_SIZE_ZERO s, 0))"

definition GKI_set_pool_permission :: "gki_com \<Rightarrow> nat \<Rightarrow> nat \<Rightarrow> gki_com \<times> nat" where
  "GKI_set_pool_permission s pool_id permission =
     (if pool_id < GKI_NUM_TOTAL_BUF_POOLS
      then (if permission = GKI_RESTRICTED_POOL
            then s\<lparr>pool_access_mask := pool_access_mask s OR push_bit pool_id 1\<rparr>
            else s\<lparr>pool_access_mask := pool_access_mask s AND NOT (push_bit pool_id 1)\<rparr>,
            GKI_SUCCESS)
      else (s, GKI_INVALID_POOL))"

text \<open>A store to \<^verbatim>\<open>pool_list[j]\<close>; the array has \<open>GKI_NUM_TOTAL_BUF_POOLS\<close> elements.\<close>

definition pool_list_store :: "nat \<Rightarrow> nat \<Rightarrow> gki_com \<Rightarrow> gki_com" where
  "pool_list_store j v s =
     (if j < GKI_NUM_TOTAL_BUF_POOLS then s\<lparr>pool_list := (pool_list s)[j := v]\<rparr>
      else s\<lparr>fault := True\<rparr>)"

fun add_position :: "gki_com \<Rightarrow> nat \<Rightarrow> nat \<Rightarrow> nat \<Rightarrow> nat" where
  "add_position s pool_id i 0 = i"
| "add_position s pool_id i (Suc n) =
     (if fq_size (freeq s pool_id) \<le> fq_size (freeq s (pool_list s ! i)) then i
      else add_position s pool_id (Suc i) n)"

fun shift_up :: "nat \<Rightarrow> nat \<Rightarrow> gki_com \<Rightarrow> gki_com" where
  "shift_up i j s =
     (if j > i then shift_up i (j - 1) (pool_list_store j (pool_list s ! (j - 1)) s) else s)"

declare shift_up.simps [simp del]

definition gki_add_to_pool_list :: "gki_com \<Rightarrow> nat \<Rightarrow> gki_com" where
  "gki_add_to_pool_list s pool_id =
     (let i = add_position s pool_id 0 (curr_total_no_of_pools s)
      in pool_list_store i pool_id (shift_up i (curr_total_no_of_pools s) s))"

fun remove_position :: "gki_com \<Rightarrow> nat \<Rightarrow> nat \<Rightarrow> nat \<Rightarrow> nat" where
  "remove_position s pool_id i 0 = i"
| "remove_position s pool_id i (Suc n) =
     (if pool_id = pool_list s ! i then i else remove_position s pool_id (Suc i) n)"

function shift_down :: "nat \<Rightarrow> nat \<Rightarrow> gki_com \<Rightarrow> gki_com" where
  "shift_down i n s =
     (if i < n then shift_down (i + 1) n (pool_list_store i (pool_list s ! (i + 1)) s) else s)"
  by pat_completeness auto
termination
  by (relation "measure (\<lambda>(i, n, s). n - i)") auto

declare shift_down.simps [simp del]

definition gki_remove_from_pool_list :: "gki_com \<Rightarrow> nat \<Rightarrow> gki_com" where
  "gki_remove_from_pool_list s pool_id =
     (let i = remove_position s pool_id 0 (curr_total_no_of_pools s)
      in shift_down i (curr_total_no_of_pools s - 1) s)"

fun unused_pool :: "gki_com \<Rightarrow> nat \<Rightarrow> nat \<Rightarrow> nat" where
  "unused_pool s xx 0 = xx"
| "unused_pool s xx (Suc n) = (if pool_start s xx = 0 then xx else unused_pool s (Suc xx) n)"

definition GKI_create_pool ::
  "(gki_com \<Rightarrow> nat \<Rightarrow> addr) \<Rightarrow> gki_com \<Rightarrow> nat \<Rightarrow> nat \<Rightarrow> nat \<Rightarrow> addr \<Rightarrow> gki_com \<times> nat" where
  "GKI_create_pool malloc s sz count permission p_mem_pool =
     (if sz > MAX_USER_BUF_SIZE then (s, GKI_INVALID_POOL)
      else let xx = unused_pool s 0 GKI_NUM_TOTAL_BUF_POOLS in
        if xx = GKI_NUM_TOTAL_BUF_POOLS then (s, GKI_INVALID_POOL)
        else let tempsize = ALIGN_POOL sz;
                 mem_needed = (tempsize + BUFFER_PADDING_SIZE) * count;
                 mem = (if p_mem_pool = 0 then malloc s mem_needed else p_mem_pool)
             in if mem \<noteq> 0
                then let s1 = gki_init_free_queue s xx sz count mem;
                         s2 = gki_add_to_pool_list s1 xx;
                         s3 = fst (GKI_set_pool_permission s2 xx permission)
                     in (s3\<lparr>curr_total_no_of_pools := (curr_total_no_of_pools s3 + 1) mod 256\<rparr>, xx)
                else (s, GKI_INVALID_POOL))"

definition GKI_delete_pool :: "gki_com \<Rightarrow> nat \<Rightarrow> gki_com" where
  "GKI_delete_pool s pool_id =
     (if pool_id \<ge> GKI_NUM_TOTAL_BUF_POOLS \<or> pool_start s pool_id = 0 then s
      else let s0 = GKI_disable s in
        if fq_cur_cnt (freeq s0 pool_id) = 0
        then let s1 = s0\<lparr>freeq := (freeq s0)(pool_id := \<lparr>fq_first = 0, fq_last = 0, fq_size = 0,
                           fq_total = 0, fq_cur_cnt = 0, fq_max_cnt = 0\<rparr>)\<rparr>;
                 s2 = s1\<lparr>pool_start := (pool_start s1)(pool_id := 0),
                         pool_end := (pool_end s1)(pool_id := 0),
                         pool_size := (pool_size s1)(pool_id := 0)\<rparr>;
                 s3 = gki_remove_from_pool_list s2 pool_id
             in GKI_enable (s3\<lparr>curr_total_no_of_pools := (curr_total_no_of_pools s3 + 255) mod 256\<rparr>)
        else GKI_enable (GKI_exception GKI_ERROR_DELETE_POOL_BAD_QID s0))"

definition GKI_poolcount :: "gki_com \<Rightarrow> nat \<Rightarrow> nat" where
  "GKI_poolcount s pool_id =
     (if pool_id \<ge> GKI_NUM_TOTAL_BUF_POOLS then 0 else fq_total (freeq s pool_id))"

definition GKI_poolfreecount :: "gki_com \<Rightarrow> nat \<Rightarrow> nat" where
  "GKI_poolfreecount s pool_id =
     (if pool_id \<ge> GKI_NUM_TOTAL_BUF_POOLS then 0
      else nat ((int (fq_total (freeq s pool_id)) - int (fq_cur_cnt (freeq s pool_id))) mod 65536))"

definition GKI_get_pool_bufsize :: "gki_com \<Rightarrow> nat \<Rightarrow> nat" where
  "GKI_get_pool_bufsize s pool_id =
     (if pool_id < GKI_NUM_TOTAL_BUF_POOLS then fq_size (freeq s pool_id) else 0)"

definition GKI_poolutilization :: "gki_com \<Rightarrow> nat \<Rightarrow> nat" where
  "GKI_poolutilization s pool_id =
     (if pool_id \<ge> GKI_NUM_TOTAL_BUF_POOLS then 100
      else if fq_total (freeq s pool_id) = 0 then 100
      else (fq_cur_cnt (freeq s pool_id) * 100) div fq_total (freeq s pool_id))"

definition GKI_change_buf_owner :: "gki_com \<Rightarrow> addr \<Rightarrow> nat \<Rightarrow> gki_com" where
  "GKI_change_buf_owner s p_buf tsk =
     set_hdr (p_buf - BUFFER_HDR_SIZE) (\<lambda>b. b\<lparr>task_id := tsk\<rparr>) s"

end
