(* ===== verification/Gki_Queue.thy ===== *)
theory Gki_Queue
  imports Gki_Buffer
begin

text \<open>
  Queues and mailboxes of the buffer manager are lists.  \<open>queue_rep\<close> relates a \<^verbatim>\<open>BUFFER_Q\<close> and the
  headers it links to the list of its buffers, \<open>mbox_rep\<close> does so for a task mailbox; every queue
  operation is shown to implement the list operation it stands for.  Both kinds of queue interpret
  the interface \<open>buffer_fifo\<close>, from which first-in first-out delivery follows.
\<close>

section \<open>Representation\<close>

definition nx :: "gki_com \<Rightarrow> addr \<Rightarrow> addr" where
  "nx s a = p_next (hdr s a)"

definition hb :: "addr \<Rightarrow> addr" where
  "hb b = b - BUFFER_HDR_SIZE"

definition queue_rep :: "gki_com \<times> buffer_q \<Rightarrow> addr list \<Rightarrow> bool" where
  "queue_rep sq bs \<longleftrightarrow>
     (let (s, q) = sq; hs = map hb bs in
      (\<forall>b \<in> set bs. BUFFER_HDR_SIZE < b) \<and> chain (nx s) (hd0 hs) hs 0 \<and>
      q_first q = hd0 bs \<and> q_last q = last0 bs \<and> q_count q = length bs \<and> length bs \<le> 65535 \<and>
      (\<forall>h \<in> set hs. status (hdr s h) = BUF_STATUS_QUEUED))"

definition buf_ready :: "gki_com \<Rightarrow> addr \<Rightarrow> bool" where
  "buf_ready s b \<longleftrightarrow>
     BUFFER_HDR_SIZE < b \<and> \<not> gki_chk_buf_damage s b \<and> status (hdr s (hb b)) = BUF_STATUS_UNLINKED"

lemmas gki_os_defs = GKI_disable_def GKI_enable_def GKI_exception_def GKI_send_event_def set_hdr_def

section \<open>Addresses\<close>

lemma hb_inj: "BUFFER_HDR_SIZE < b \<Longrightarrow> BUFFER_HDR_SIZE < c \<Longrightarrow> hb b = hb c \<longleftrightarrow> b = c"
  by (auto simp: hb_def)

lemma hb_nonnull: "BUFFER_HDR_SIZE < b \<Longrightarrow> hb b \<noteq> 0"
  by (simp add: hb_def)

lemma hb_back: "BUFFER_HDR_SIZE < b \<Longrightarrow> hb b + BUFFER_HDR_SIZE = b"
  by (simp add: hb_def)

lemma hd0_map_hb: "bs \<noteq> [] \<Longrightarrow> hd0 (map hb bs) = hb (hd0 bs)"
  by (cases bs) auto

lemma last0_map_hb: "bs \<noteq> [] \<Longrightarrow> last0 (map hb bs) = hb (last0 bs)"
  by (simp add: last0_def last_map)

lemma damage_cong:
  assumes "\<And>a. q_id (hdr s' a) = q_id (hdr s a)" and "magic s' = magic s"
    and "\<And>i. fq_size (freeq s' i) = fq_size (freeq s i)"
  shows "gki_chk_buf_damage s' b = gki_chk_buf_damage s b"
proof -
  have "GKI_get_buf_size s' b = GKI_get_buf_size s b"
    by (simp add: GKI_get_buf_size_def assms Let_def)
  with assms(2) show ?thesis by (simp add: gki_chk_buf_damage_def)
qed

lemma unlinked_notin:
  "queue_rep (s, q) bs \<Longrightarrow> status (hdr s (hb b)) = BUF_STATUS_UNLINKED \<Longrightarrow> hb b \<notin> set (map hb bs)"
  by (auto simp: queue_rep_def gki_consts Let_def)

section \<open>User queues\<close>

lemma queue_rep_enqueue:
  assumes rep: "queue_rep (s, q) bs" and rdy: "buf_ready s b" and len: "length bs < 65535"
  shows "queue_rep (GKI_enqueue (s, q) b) (bs @ [b])"
proof (cases "bs = []")
  case True
  with rep rdy show ?thesis
    by (auto simp: queue_rep_def buf_ready_def GKI_enqueue_def Let_def gki_os_defs hb_def nx_def)
next
  case False
  let ?hs = "map hb bs" and ?h = "hb b"
  let ?s' = "fst (GKI_enqueue (s, q) b)"
  from rep rdy have notin: "?h \<notin> set ?hs"
    by (intro unlinked_notin) (auto simp: buf_ready_def)
  have pos: "\<forall>c \<in> set (bs @ [b]). BUFFER_HDR_SIZE < c"
    using rep rdy by (auto simp: queue_rep_def buf_ready_def Let_def)
  have lst: "q_last q = last0 bs" "q_last q \<noteq> 0" "q_first q = hd0 bs"
    using rep False pos last0_in_set [OF False] by (auto simp: queue_rep_def Let_def)
  have nx': "nx ?s' = (nx s)(last0 ?hs := ?h, ?h := 0)"
    using rdy lst False by (auto simp: fun_eq_iff nx_def GKI_enqueue_def buf_ready_def gki_os_defs
        Let_def hb_def last0_def last_map)
  have "chain (nx s) (hd0 ?hs) ?hs 0" using rep by (simp add: queue_rep_def Let_def)
  then have "chain (nx ?s') (hd0 (?hs @ [?h])) (?hs @ [?h]) 0"
    using chain_snoc [of "nx s" "hd0 ?hs" ?hs ?h] notin pos False nx' hb_nonnull by auto
  moreover have "\<forall>h \<in> set (?hs @ [?h]). status (hdr ?s' h) = BUF_STATUS_QUEUED"
    using rep rdy lst notin by (auto simp: queue_rep_def GKI_enqueue_def buf_ready_def gki_os_defs Let_def hb_def)
  ultimately show ?thesis
    using rep rdy lst pos len False
    by (auto simp: queue_rep_def GKI_enqueue_def buf_ready_def gki_os_defs Let_def hb_def)
qed

lemma ready_enqueue:
  assumes rep: "queue_rep (s, q) bs" and "buf_ready s b" and "buf_ready s c" and "c \<noteq> b"
  shows "buf_ready (fst (GKI_enqueue (s, q) b)) c"
proof -
  let ?s' = "fst (GKI_enqueue (s, q) b)"
  have "gki_chk_buf_damage ?s' c = gki_chk_buf_damage s c"
    by (rule damage_cong) (auto simp: GKI_enqueue_def gki_os_defs Let_def split: if_splits)
  moreover have "hb c \<noteq> hb b"
    using assms by (auto simp: buf_ready_def hb_inj)
  moreover have "status (hdr ?s' (hb c)) = status (hdr s (hb c))"
    using assms \<open>hb c \<noteq> hb b\<close>
    by (auto simp: GKI_enqueue_def gki_os_defs Let_def hb_def buf_ready_def)
  ultimately show ?thesis using assms by (simp add: buf_ready_def)
qed

lemma queue_rep_dequeue_empty:
  "queue_rep (s, q) [] \<Longrightarrow> snd (GKI_dequeue (s, q)) = 0 \<and> queue_rep (fst (GKI_dequeue (s, q))) []"
  by (auto simp: queue_rep_def GKI_dequeue_def Let_def gki_os_defs nx_def)

lemma queue_rep_dequeue:
  assumes rep: "queue_rep (s, q) (b # bs)"
  shows "snd (GKI_dequeue (s, q)) = b \<and> queue_rep (fst (GKI_dequeue (s, q))) bs"
proof -
  let ?s' = "fst (fst (GKI_dequeue (s, q)))" and ?h = "hb b"
  have ch: "chain (nx s) ?h (?h # map hb bs) 0" and pos: "\<forall>c \<in> set (b # bs). BUFFER_HDR_SIZE < c"
    and q: "q_first q = b" "q_count q = length (b # bs)" "q_last q = last0 (b # bs)"
    using rep by (auto simp: queue_rep_def Let_def)
  have notin: "?h \<notin> set (map hb bs)" using chain_distinct [OF ch] by simp
  have nx1: "nx s ?h = hd0 (map hb bs)" using ch chain_hd0 by auto
  have hdr': "hdr ?s' = (hdr s)(?h := (hdr s ?h)\<lparr>p_next := 0, status := BUF_STATUS_UNLINKED\<rparr>)"
    using q by (simp add: GKI_dequeue_def gki_os_defs Let_def hb_def)
  then have nx': "nx ?s' = (nx s)(?h := 0)"
    by (auto simp: fun_eq_iff nx_def)
  have ch': "chain (nx ?s') (hd0 (map hb bs)) (map hb bs) 0"
    using ch notin nx1 unfolding nx' by simp
  have st: "\<forall>h \<in> set (map hb bs). status (hdr ?s' h) = BUF_STATUS_QUEUED"
  proof
    fix h assume h: "h \<in> set (map hb bs)"
    then have "h \<noteq> ?h" using notin by blast
    with h rep show "status (hdr ?s' h) = BUF_STATUS_QUEUED"
      unfolding hdr' by (auto simp: queue_rep_def Let_def)
  qed
  have nz: "nx s ?h = 0 \<longleftrightarrow> bs = []"
    using nx1 pos hb_nonnull by (cases bs) auto
  have "bs \<noteq> [] \<Longrightarrow> nx s ?h + BUFFER_HDR_SIZE = hd0 bs"
    using nx1 pos hb_back by (cases bs) auto
  then have "snd (fst (GKI_dequeue (s, q))) = \<lparr>q_first = hd0 bs, q_last = last0 bs, q_count = length bs\<rparr>"
    using q nz by (cases q) (auto simp: GKI_dequeue_def Let_def nx_def hb_def gki_os_defs)
  moreover have "snd (GKI_dequeue (s, q)) = b"
    using q pos by (simp add: GKI_dequeue_def Let_def)
  ultimately show ?thesis
    using ch' st pos rep by (cases "fst (GKI_dequeue (s, q))") (auto simp: queue_rep_def Let_def)
qed

interpretation bufq: buffer_fifo queue_rep "\<lambda>sq. buf_ready (fst sq)" GKI_enqueue GKI_dequeue 65535
proof (unfold_locales, goal_cases)
  case (1 s xs b)
  then show ?case using queue_rep_enqueue by (cases s) auto
next
  case (2 s xs b c)
  then show ?case using ready_enqueue by (cases s) auto
next
  case (3 s)
  then show ?case using queue_rep_dequeue_empty by (cases s) auto
next
  case (4 s x xs)
  then show ?case using queue_rep_dequeue by (cases s) auto
qed

lemma queue_rep_enqueue_head:
  assumes rep: "queue_rep (s, q) bs" and rdy: "buf_ready s b" and len: "length bs < 65535"
  shows "queue_rep (GKI_enqueue_head (s, q) b) (b # bs)"
proof -
  let ?s' = "fst (GKI_enqueue_head (s, q) b)" and ?h = "hb b" and ?hs = "map hb bs"
  from rep rdy have notin: "?h \<notin> set ?hs"
    by (intro unlinked_notin) (auto simp: buf_ready_def)
  have pos: "\<forall>c \<in> set (b # bs). BUFFER_HDR_SIZE < c"
    using rep rdy by (auto simp: queue_rep_def buf_ready_def Let_def)
  have q: "q_first q = hd0 bs" "q_last q = last0 bs" "q_count q = length bs"
    using rep by (auto simp: queue_rep_def Let_def)
  have q0: "q_first q = 0 \<longleftrightarrow> bs = []" using q pos by (cases bs) auto
  have nxt: "(if q_first q \<noteq> 0 then q_first q - BUFFER_HDR_SIZE else 0) = hd0 ?hs"
    using q pos by (cases bs) (auto simp: hb_def)
  have hdr': "hdr ?s' = (hdr s)(?h := (hdr s ?h)\<lparr>p_next := hd0 ?hs, status := BUF_STATUS_QUEUED\<rparr>)"
    using rdy nxt by (auto simp: GKI_enqueue_head_def gki_os_defs Let_def hb_def buf_ready_def)
  then have nx': "nx ?s' = (nx s)(?h := hd0 ?hs)" by (auto simp: fun_eq_iff nx_def)
  have ch: "chain (nx ?s') ?h (?h # ?hs) 0"
    using rep notin pos unfolding nx' by (auto simp: queue_rep_def Let_def hb_nonnull)
  have st: "\<forall>h \<in> set (?h # ?hs). status (hdr ?s' h) = BUF_STATUS_QUEUED"
    using rep unfolding hdr' by (auto simp: queue_rep_def Let_def)
  have "snd (GKI_enqueue_head (s, q) b)
    = \<lparr>q_first = b, q_last = last0 (b # bs), q_count = length (b # bs)\<rparr>"
    using rdy q q0 len
    by (cases q) (auto simp: GKI_enqueue_head_def gki_os_defs Let_def hb_def buf_ready_def)
  with ch st pos len show ?thesis
    by (cases "GKI_enqueue_head (s, q) b") (auto simp: queue_rep_def)
qed

lemma find_prev_chain:
  "chain (nx s) x (as @ p # t # bs) 0 \<Longrightarrow> find_prev s t x = Some p"
proof (induction as arbitrary: x)
  case Nil
  then show ?case by (subst find_prev.simps) (auto simp: nx_def)
next
  case (Cons a as)
  then have "distinct ((a # as) @ p # t # bs)" by (blast dest: chain_distinct)
  moreover have "p_next (hdr s a) = hd0 (as @ [p])" "a = x" "a \<noteq> 0"
    using Cons.prems by (auto simp: nx_def chain_append neq_Nil_conv dest: chain_hd0; cases as; auto)+
  ultimately have "p_next (hdr s a) \<noteq> t" by (cases as) auto
  with Cons \<open>a = x\<close> \<open>a \<noteq> 0\<close> show ?case by (subst find_prev.simps) (auto simp: nx_def)
qed

lemma find_prev_absent:
  "chain (nx s) x as 0 \<Longrightarrow> t \<notin> set (tl as) \<Longrightarrow> t \<noteq> 0 \<Longrightarrow> find_prev s t x = Some 0"
proof (induction as arbitrary: x)
  case Nil
  then show ?case by (subst find_prev.simps) auto
next
  case (Cons a as)
  then have "p_next (hdr s x) \<noteq> t" by (cases as) (auto simp: nx_def)
  with Cons show ?case
    by (subst find_prev.simps) (cases as; auto simp: nx_def)
qed

lemma dec_u16: "0 < n \<Longrightarrow> n \<le> 65535 \<Longrightarrow> (n + 65535) mod 65536 = n - (1::nat)"
  by (cases n) auto

lemma queue_rep_remove_first:
  assumes "queue_rep (s, q) (b # bs)"
  shows "\<exists>sq'. GKI_remove_from_queue (s, q) b = Some (sq', b) \<and> queue_rep sq' bs"
proof -
  have "GKI_remove_from_queue (s, q) b = Some (GKI_dequeue (s, q))"
    using assms by (auto simp: GKI_remove_from_queue_def queue_rep_def Let_def gki_os_defs)
  then show ?thesis using queue_rep_dequeue [OF assms] by (metis prod.collapse)
qed

lemma queue_rep_remove_later:
  assumes rep: "queue_rep (s, q) (xs @ p # b # ys)"
  shows "\<exists>sq'. GKI_remove_from_queue (s, q) b = Some (sq', b) \<and> queue_rep sq' (xs @ p # ys)"
proof -
  let ?bs = "xs @ p # b # ys"
  have ch: "chain (nx s) (hd0 (map hb ?bs)) (map hb xs @ hb p # hb b # map hb ys) 0"
    and pos: "\<forall>c \<in> set ?bs. BUFFER_HDR_SIZE < c" and st: "\<forall>h \<in> set (map hb ?bs). status (hdr s h) = BUF_STATUS_QUEUED"
    and q: "q_first q = hd0 ?bs" "q_last q = last0 ?bs" "q_count q = length ?bs" "length ?bs \<le> 65535"
    using rep by (auto simp: queue_rep_def Let_def)
  have dist: "distinct (map hb ?bs)" using chain_distinct [OF ch] by simp
  then have dist': "distinct ?bs" by (metis distinct_map)
  have qf: "q_first q - BUFFER_HDR_SIZE = hd0 (map hb ?bs)" "q_first q \<noteq> 0" "b \<noteq> q_first q"
    using q pos dist' by (cases xs; auto simp: hb_def)+
  have nxd: "nx (GKI_disable s) = nx s" by (simp add: nx_def gki_os_defs fun_eq_iff)
  have "find_prev (GKI_disable s) (hb b) (hd0 (map hb ?bs)) = Some (hb p)"
    by (rule find_prev_chain [where as = "map hb xs" and bs = "map hb ys"]) (use ch nxd in simp)
  moreover have "hb p \<noteq> 0" using pos hb_nonnull by auto
  ultimately obtain s' q' where r: "GKI_remove_from_queue (s, q) b = Some ((s', q'), b)"
    and hdr': "hdr s' = (hdr s)(hb p := (hdr s (hb p))\<lparr>p_next := nx s (hb b)\<rparr>,
      hb b := ((hdr s)(hb p := (hdr s (hb p))\<lparr>p_next := nx s (hb b)\<rparr>)) (hb b)\<lparr>p_next := 0, status := BUF_STATUS_UNLINKED\<rparr>)"
    and q': "q' = q\<lparr>q_last := (if b = q_last q then hb p + BUFFER_HDR_SIZE else q_last q), q_count := (q_count q + 65535) mod 65536\<rparr>"
    using qf by (auto simp: GKI_remove_from_queue_def Let_def hb_def [symmetric] gki_os_defs nx_def)
  have nx': "nx s' = (nx s)(hb p := nx s (hb b), hb b := 0)"
    using dist by (auto simp: nx_def hdr' fun_eq_iff)
  have "chain (nx s') (hd0 (map hb (xs @ p # ys))) (map hb (xs @ p # ys)) 0"
    using chain_cut [OF ch] nx' by (cases xs) auto
  moreover have "\<forall>h \<in> set (map hb (xs @ p # ys)). status (hdr s' h) = BUF_STATUS_QUEUED"
    using st dist by (auto simp: hdr')
  moreover have "(q_count q + 65535) mod 65536 = length (xs @ p # ys)"
    using q dec_u16 [of "q_count q"] by simp
  then have "q' = \<lparr>q_first = hd0 (xs @ p # ys), q_last = last0 (xs @ p # ys), q_count = length (xs @ p # ys)\<rparr>"
    using q dist' pos by (cases q) (auto simp: q' hb_def last0_def)
  ultimately show ?thesis using r pos q(4) by (auto simp: queue_rep_def)
qed

lemma queue_rep_remove:
  assumes "queue_rep (s, q) (xs @ b # ys)"
  shows "\<exists>sq'. GKI_remove_from_queue (s, q) b = Some (sq', b) \<and> queue_rep sq' (xs @ ys)"
proof (cases xs rule: rev_cases)
  case Nil
  with assms queue_rep_remove_first show ?thesis by auto
next
  case (snoc us p)
  with assms queue_rep_remove_later [of s q us p b ys] show ?thesis by auto
qed

lemma queue_rep_remove_absent:
  assumes rep: "queue_rep (s, q) bs" and "bs \<noteq> []" and b: "BUFFER_HDR_SIZE < b" "b \<notin> set bs"
  shows "GKI_remove_from_queue (s, q) b = Some ((s, q), 0)"
proof -
  have pos: "\<forall>c \<in> set bs. BUFFER_HDR_SIZE < c" and q: "q_first q = hd0 bs"
    and ch: "chain (nx s) (hd0 (map hb bs)) (map hb bs) 0"
    using rep by (auto simp: queue_rep_def Let_def)
  have "hb b \<notin> set (map hb bs)" using b pos hb_inj by auto
  then have "hb b \<notin> set (tl (map hb bs))" by (meson list.set_sel(2) tl_Nil \<open>bs \<noteq> []\<close> map_is_Nil_conv)
  moreover have "chain (nx (GKI_disable s)) (hd0 (map hb bs)) (map hb bs) 0"
    using ch by (simp add: nx_def gki_os_defs cong: chain_cong)
  ultimately have "find_prev (GKI_disable s) (hb b) (hd0 (map hb bs)) = Some 0"
    using find_prev_absent hb_nonnull b(1) by blast
  moreover have "q_first q - BUFFER_HDR_SIZE = hd0 (map hb bs)" "q_first q \<noteq> 0" "b \<noteq> q_first q"
    using q pos b \<open>bs \<noteq> []\<close> by (cases bs; auto simp: hb_def)+
  ultimately show ?thesis
    by (auto simp: GKI_remove_from_queue_def Let_def hb_def [symmetric] gki_os_defs)
qed

section \<open>Mailboxes\<close>

definition mbox_rep :: "nat \<Rightarrow> nat \<Rightarrow> gki_com \<Rightarrow> addr list \<Rightarrow> bool" where
  "mbox_rep tsk mb s bs \<longleftrightarrow>
     tsk < GKI_MAX_TASKS \<and> mb < NUM_TASK_MBOX \<and> OSRdyTbl s tsk \<noteq> TASK_DEAD \<and>
     (\<forall>b \<in> set bs. BUFFER_HDR_SIZE < b) \<and>
     chain (nx s) (OSTaskQFirst s tsk mb) (map hb bs) 0 \<and>
     (bs \<noteq> [] \<longrightarrow> OSTaskQLast s tsk mb = hb (last bs)) \<and>
     (\<forall>b \<in> set bs. status (hdr s (hb b)) = BUF_STATUS_QUEUED)"

lemma mbox_rep_send:
  assumes rep: "mbox_rep tsk mb s bs" and rdy: "buf_ready s b"
  shows "mbox_rep tsk mb (GKI_send_msg s tsk mb b) (bs @ [b])"
proof -
  let ?s' = "GKI_send_msg s tsk mb b" and ?h = "hb b" and ?hs = "map hb bs"
  have rep': "tsk < GKI_MAX_TASKS" "mb < NUM_TASK_MBOX" "OSRdyTbl s tsk \<noteq> TASK_DEAD"
    "chain (nx s) (OSTaskQFirst s tsk mb) ?hs 0"
    "\<forall>c \<in> set bs. BUFFER_HDR_SIZE < c \<and> status (hdr s (hb c)) = BUF_STATUS_QUEUED"
    and last: "bs \<noteq> [] \<Longrightarrow> OSTaskQLast s tsk mb = last0 ?hs"
    using rep by (auto simp: mbox_rep_def last0_def last_map)
  have notin: "?h \<notin> set ?hs" using rep' rdy by (auto simp: buf_ready_def gki_consts)
  have first: "OSTaskQFirst s tsk mb = hd0 ?hs" using rep'(4) by (rule chain_hd0)
  have nz: "OSTaskQFirst s tsk mb = 0 \<longleftrightarrow> bs = []"
    using first rep'(5) hb_nonnull by (cases bs) auto
  have hdr': "hdr ?s' = (let m = (if bs = [] then hdr s else (hdr s)(last0 ?hs := (hdr s (last0 ?hs))\<lparr>p_next := ?h\<rparr>))
     in m(?h := (m ?h)\<lparr>p_next := 0, status := BUF_STATUS_QUEUED, task_id := tsk\<rparr>))"
    and f': "OSTaskQFirst ?s' tsk mb = (if bs = [] then ?h else OSTaskQFirst s tsk mb)"
    and l': "OSTaskQLast ?s' tsk mb = ?h" and o': "OSRdyTbl ?s' = OSRdyTbl s"
    using rep' rdy nz last
    by (auto simp: GKI_send_msg_def gki_os_defs Let_def hb_def [symmetric] buf_ready_def)
  have "chain ((nx s)(last0 ?hs := ?h, ?h := 0)) (if ?hs = [] then ?h else OSTaskQFirst s tsk mb) (?hs @ [?h]) 0"
    using rep'(4) notin rdy by (intro chain_snoc) (auto simp: buf_ready_def hb_nonnull)
  moreover have "\<And>a. a \<in> set (?hs @ [?h]) \<Longrightarrow> nx ?s' a = ((nx s)(last0 ?hs := ?h, ?h := 0)) a"
    by (auto simp: nx_def hdr' Let_def)
  ultimately have "chain (nx ?s') (OSTaskQFirst ?s' tsk mb) (?hs @ [?h]) 0"
    using f' chain_cong [of "?hs @ [?h]" "nx ?s'" "(nx s)(last0 ?hs := ?h, ?h := 0)"] by auto
  moreover have "\<forall>c \<in> set (bs @ [b]). status (hdr ?s' (hb c)) = BUF_STATUS_QUEUED"
    using rep'(5) by (auto simp: hdr' Let_def)
  ultimately show ?thesis
    using rep' rdy l' o' by (auto simp: mbox_rep_def buf_ready_def)
qed

lemma ready_send:
  assumes "mbox_rep tsk mb s bs" and "buf_ready s b" and "buf_ready s c" and "c \<noteq> b"
  shows "buf_ready (GKI_send_msg s tsk mb b) c"
proof -
  let ?s' = "GKI_send_msg s tsk mb b"
  have dam: "gki_chk_buf_damage ?s' c = gki_chk_buf_damage s c"
    using assms by (intro damage_cong)
      (auto simp: GKI_send_msg_def gki_os_defs Let_def mbox_rep_def buf_ready_def hb_def)
  have "hb c \<noteq> hb b" using assms by (auto simp: buf_ready_def hb_inj)
  then have "status (hdr ?s' (hb c)) = status (hdr s (hb c))"
    using assms by (auto simp: GKI_send_msg_def gki_os_defs Let_def mbox_rep_def buf_ready_def hb_def)
  with dam assms show ?thesis by (simp add: buf_ready_def)
qed

lemma mbox_rep_read_empty:
  "mbox_rep tsk mb s [] \<Longrightarrow> GKI_read_mbox tsk s mb = (s, 0)"
  by (auto simp: mbox_rep_def GKI_read_mbox_def gki_os_defs)

lemma mbox_rep_read:
  assumes rep: "mbox_rep tsk mb s (b # bs)"
  shows "snd (GKI_read_mbox tsk s mb) = b \<and> mbox_rep tsk mb (fst (GKI_read_mbox tsk s mb)) bs"
proof -
  let ?s' = "fst (GKI_read_mbox tsk s mb)" and ?h = "hb b"
  have ch: "chain (nx s) (OSTaskQFirst s tsk mb) (?h # map hb bs) 0"
    and b: "BUFFER_HDR_SIZE < b" "?h \<noteq> 0" and guard: "tsk < GKI_MAX_TASKS" "mb < NUM_TASK_MBOX"
    using rep hb_nonnull by (auto simp: mbox_rep_def)
  have f: "OSTaskQFirst s tsk mb = ?h" using ch by simp
  have notin: "?h \<notin> set (map hb bs)" using chain_distinct [OF ch] by simp
  have hdr': "hdr ?s' = (hdr s)(?h := (hdr s ?h)\<lparr>p_next := 0, status := BUF_STATUS_UNLINKED\<rparr>)"
    and f': "OSTaskQFirst ?s' tsk mb = nx s ?h" "OSTaskQLast ?s' = OSTaskQLast s" "OSRdyTbl ?s' = OSRdyTbl s"
    and r: "snd (GKI_read_mbox tsk s mb) = b"
    using guard f b by (auto simp: GKI_read_mbox_def gki_os_defs Let_def nx_def hb_def)
  have "nx ?s' = (nx s)(?h := 0)" by (auto simp: nx_def hdr' fun_eq_iff)
  then have "chain (nx ?s') (OSTaskQFirst ?s' tsk mb) (map hb bs) 0"
    using ch notin f' by simp
  moreover have "\<forall>c \<in> set bs. status (hdr ?s' (hb c)) = BUF_STATUS_QUEUED"
  proof
    fix c assume c: "c \<in> set bs"
    then have "hb c \<noteq> ?h" using notin by (metis image_eqI list.set_map)
    with c rep show "status (hdr ?s' (hb c)) = BUF_STATUS_QUEUED" by (auto simp: hdr' mbox_rep_def)
  qed
  ultimately show ?thesis using rep r f' by (auto simp: mbox_rep_def)
qed

interpretation mboxq: buffer_fifo "mbox_rep tsk mb" buf_ready "\<lambda>s b. GKI_send_msg s tsk mb b"
  "\<lambda>s. GKI_read_mbox tsk s mb" n for tsk mb n
  by unfold_locales
    (auto intro: mbox_rep_send ready_send simp: mbox_rep_read_empty mbox_rep_read)

section \<open>Properties\<close>

text \<open>C7: buffers put into an empty user queue come out in the order they went in, all of them,
  up to the 65535 buffers the UINT16 count can hold.\<close>

theorem GKI_queue_fifo:
  assumes "queue_rep (s, q) []" and "distinct bs" and "\<forall>b \<in> set bs. buf_ready s b"
    and "length bs \<le> 65535"
  shows "snd (drain GKI_dequeue (length bs) (foldl GKI_enqueue (s, q) bs)) = bs"
  using assms by (intro bufq.fifo(1)) auto

text \<open>Two aligned, undamaged, unlinked buffers and an empty queue, for concrete instances.\<close>

definition gki_two :: gki_com where
  "gki_two = \<lparr>hdr = (\<lambda>_. \<lparr>p_next = 0, q_id = 0, task_id = 0, status = BUF_STATUS_UNLINKED, buf_type = 0\<rparr>),
     magic = (\<lambda>_. MAGIC_NO),
     freeq = (\<lambda>_. \<lparr>fq_first = 0, fq_last = 0, fq_size = 0, fq_total = 0, fq_cur_cnt = 0, fq_max_cnt = 0\<rparr>),
     pool_start = (\<lambda>_. 0), pool_end = (\<lambda>_. 0), pool_size = (\<lambda>_. 0), pool_access_mask = 0, pool_list = [],
     curr_total_no_of_pools = 0, OSTaskQFirst = (\<lambda>_ _. 0), OSTaskQLast = (\<lambda>_ _. 0), OSRdyTbl = (\<lambda>_. 1),
     OSWaitEvt = (\<lambda>_. 0), GKI_mutex = 0, exceptions = [], fault = False\<rparr>"

definition empty_q :: buffer_q where
  "empty_q = \<lparr>q_first = 0, q_last = 0, q_count = 0\<rparr>"

lemma gki_two_ready: "buf_ready gki_two 16" "buf_ready gki_two 32"
  by (simp_all add: buf_ready_def gki_two_def gki_chk_buf_damage_def GKI_get_buf_size_def hb_def gki_consts)

theorem GKI_queue_fifo_witness:
  "snd (drain GKI_dequeue (length [16, 32 :: addr]) (foldl GKI_enqueue (gki_two, empty_q) [16, 32])) = [16, 32]"
  by (rule GKI_queue_fifo) (auto simp: gki_two_ready queue_rep_def empty_q_def)

text \<open>C8: messages sent to a mailbox of a running task are read in the order they were sent, all of
  them.\<close>

theorem GKI_mailbox_fifo:
  assumes "mbox_rep tsk mb s []" and "distinct bs" and "\<forall>b \<in> set bs. buf_ready s b"
  shows "snd (drain (\<lambda>s. GKI_read_mbox tsk s mb) (length bs) (foldl (\<lambda>s b. GKI_send_msg s tsk mb b) s bs)) = bs"
  using assms by (intro mboxq.fifo(1)) auto

theorem GKI_mailbox_fifo_witness:
  "snd (drain (\<lambda>s. GKI_read_mbox 1 s 2) (length [32, 16 :: addr])
     (foldl (\<lambda>s b. GKI_send_msg s 1 2 b) gki_two [32, 16])) = [32, 16]"
proof (rule GKI_mailbox_fifo)
  show "mbox_rep 1 2 gki_two []" by (simp add: mbox_rep_def gki_two_def gki_consts)
qed (auto simp: gki_two_ready)

text \<open>C12: removing a buffer from anywhere in a queue ends, returns that buffer, and leaves the other
  buffers queued in their order.\<close>

theorem GKI_remove_from_queue_ok:
  assumes "queue_rep (s, q) (xs @ b # ys)"
  shows "\<exists>sq'. GKI_remove_from_queue (s, q) b = Some (sq', b) \<and> queue_rep sq' (xs @ ys)"
  using assms by (rule queue_rep_remove)

theorem GKI_remove_from_queue_ok_witness:
  "\<exists>sq'. GKI_remove_from_queue (GKI_enqueue (GKI_enqueue (gki_two, empty_q) 16) 32) 32 = Some (sq', 32)
    \<and> queue_rep sq' [16]"
proof -
  let ?sq = "foldl GKI_enqueue (gki_two, empty_q) [16, 32]"
  have "queue_rep ?sq ([] @ [16, 32])"
    by (rule bufq.rep_foldl_enq) (auto simp: gki_two_ready queue_rep_def empty_q_def)
  then have "queue_rep (fst ?sq, snd ?sq) ([16] @ 32 # [])" by simp
  from GKI_remove_from_queue_ok [OF this] show ?thesis by simp
qed

end
