(* ===== verification/Gki_Pool.thy ===== *)
theory Gki_Pool
  imports Gki_Queue
begin

text \<open>
  The buffer pools keep their books: the free queue of a pool is a chain of exactly the buffers
  marked free, the number of buffers handed out and the length of the chain add up to the size of
  the pool, and different pools share no buffer.  \<open>gki_inv\<close> is this invariant for the fixed pool
  configuration; initialisation establishes it and allocation, release, queueing and mailboxes
  preserve it.
\<close>

section \<open>The invariant\<close>

definition pool_hdrs :: "gki_com \<Rightarrow> nat \<Rightarrow> addr set" where
  "pool_hdrs s i = (if pool_start s i = 0 then {}
     else (\<lambda>k. pool_start s i + k * pool_size s i) ` {..<fq_total (freeq s i)})"

definition pool_ok :: "gki_com \<Rightarrow> nat \<Rightarrow> addr list \<Rightarrow> bool" where
  "pool_ok s i fl \<longleftrightarrow>
     (let Q = freeq s i in
      chain (nx s) (fq_first Q) fl 0 \<and> fq_last Q = last0 fl \<and> set fl \<subseteq> pool_hdrs s i \<and>
      fq_cur_cnt Q \<le> fq_max_cnt Q \<and> fq_max_cnt Q \<le> fq_total Q \<and>
      0 < fq_total Q \<and> fq_total Q < 65536 \<and>
      fq_size Q mod 4 = 0 \<and> fq_size Q + BUFFER_PADDING_SIZE < 65536 \<and>
      pool_size s i = fq_size Q + BUFFER_PADDING_SIZE \<and> pool_start s i mod 4 = 0 \<and>
      (if pool_start s i = 0 then fq_cur_cnt Q = 0
       else fq_cur_cnt Q + length fl = fq_total Q) \<and>
      (\<forall>h \<in> pool_hdrs s i. q_id (hdr s h) = i \<and>
         magic s (h + BUFFER_HDR_SIZE + fq_size Q) = MAGIC_NO \<and>
         (status (hdr s h) = BUF_STATUS_FREE \<longleftrightarrow> h \<in> set fl)))"

definition gki_inv :: "gki_com \<Rightarrow> (nat \<Rightarrow> addr list) \<Rightarrow> bool" where
  "gki_inv s fls \<longleftrightarrow>
     pool_list s = [0..<GKI_NUM_TOTAL_BUF_POOLS] \<and>
     curr_total_no_of_pools s = GKI_NUM_TOTAL_BUF_POOLS \<and>
     (\<forall>i < GKI_NUM_TOTAL_BUF_POOLS. pool_ok s i (fls i)) \<and>
     (\<forall>i < GKI_NUM_TOTAL_BUF_POOLS. \<forall>j < GKI_NUM_TOTAL_BUF_POOLS.
        i \<noteq> j \<longrightarrow> pool_hdrs s i \<inter> pool_hdrs s j = {})"

text \<open>What the allocator behind \<open>GKI_os_malloc\<close> promises: no block, or a word-aligned block that
  overlaps no buffer of any pool.\<close>

definition malloc_ok :: "(gki_com \<Rightarrow> nat \<Rightarrow> addr) \<Rightarrow> gki_com \<Rightarrow> bool" where
  "malloc_ok malloc s \<longleftrightarrow>
     (\<forall>n. malloc s n mod 4 = 0 \<and>
        (\<forall>j < GKI_NUM_TOTAL_BUF_POOLS. \<forall>h \<in> pool_hdrs s j. malloc s n \<noteq> 0 \<longrightarrow>
           h + pool_size s j \<le> malloc s n \<or> malloc s n + n \<le> h))"

lemma init_index_table_hdr:
  "0 < act \<Longrightarrow> hdr (init_index_table i t act n h s) a =
     (if \<exists>k < n. a = h + k * act
      then (hdr s a)\<lparr>task_id := GKI_INVALID_TASK, q_id := i, status := BUF_STATUS_FREE, p_next := a + act\<rparr>
      else hdr s a)"
proof (induction n arbitrary: h s)
  case 0
  then show ?case by simp
next
  case (Suc n)
  have shift: "(\<exists>k < Suc n. a = h + k * act) \<longleftrightarrow> a = h \<or> (\<exists>k < n. a = h + act + k * act)"
    by (auto simp: less_Suc_eq_0_disj)
  show ?case
    unfolding shift using Suc by (auto simp: Let_def set_hdr_def)
qed

lemma init_index_table_magic:
  "magic (init_index_table i t act n h s) m =
     (if \<exists>k < n. m = h + k * act + BUFFER_HDR_SIZE + t then MAGIC_NO else magic s m)"
proof (induction n arbitrary: h s)
  case 0
  then show ?case by simp
next
  case (Suc n)
  have shift: "(\<exists>k < Suc n. m = h + k * act + BUFFER_HDR_SIZE + t) \<longleftrightarrow>
      m = h + BUFFER_HDR_SIZE + t \<or> (\<exists>k < n. m = h + act + k * act + BUFFER_HDR_SIZE + t)"
    by (auto simp: less_Suc_eq_0_disj)
  show ?case
    unfolding shift using Suc by (auto simp: Let_def set_hdr_def)
qed

lemma init_index_table_frame:
  "freeq (init_index_table i t act n h s) = freeq s"
  "pool_start (init_index_table i t act n h s) = pool_start s"
  "pool_size (init_index_table i t act n h s) = pool_size s"
  "pool_list (init_index_table i t act n h s) = pool_list s"
  "curr_total_no_of_pools (init_index_table i t act n h s) = curr_total_no_of_pools s"
  "GKI_mutex (init_index_table i t act n h s) = GKI_mutex s"
  "pool_access_mask (init_index_table i t act n h s) = pool_access_mask s"
  "fault (init_index_table i t act n h s) = fault s"
  "exceptions (init_index_table i t act n h s) = exceptions s"
  by (induction n arbitrary: h s) (simp_all add: Let_def set_hdr_def)

lemma ALIGN_POOL_id: "n mod 4 = 0 \<Longrightarrow> ALIGN_POOL n = n"
  unfolding ALIGN_POOL_def by presburger

text \<open>The chain of a freshly initialised pool.\<close>

lemma chain_fresh:
  assumes "0 < h" and "0 < act" and "\<And>k. k < n \<Longrightarrow> nxf (h + k * act) = h + Suc k * act"
  shows "chain nxf h (map (\<lambda>k. h + k * act) [0..<n]) (h + n * act)"
  using assms(3)
proof (induction n)
  case 0
  then show ?case by simp
next
  case (Suc n)
  then have "chain nxf h (map (\<lambda>k. h + k * act) [0..<n]) (h + n * act)" by simp
  moreover have "nxf (h + n * act) = h + Suc n * act" using Suc.prems by simp
  ultimately show ?case using assms(1) by (auto simp: chain_append)
qed

lemma pool_ok_frame:
  assumes "pool_ok s i fl" and "freeq s' i = freeq s i" and "pool_start s' i = pool_start s i"
    and "pool_size s' i = pool_size s i"
    and "\<And>h. h \<in> set fl \<Longrightarrow> p_next (hdr s' h) = p_next (hdr s h)"
    and "\<And>h. h \<in> pool_hdrs s i \<Longrightarrow> q_id (hdr s' h) = q_id (hdr s h) \<and>
           (status (hdr s' h) = BUF_STATUS_FREE \<longleftrightarrow> status (hdr s h) = BUF_STATUS_FREE) \<and>
           magic s' (h + BUFFER_HDR_SIZE + fq_size (freeq s i)) =
           magic s (h + BUFFER_HDR_SIZE + fq_size (freeq s i))"
  shows "pool_ok s' i fl"
proof -
  have ph: "pool_hdrs s' i = pool_hdrs s i" using assms by (simp add: pool_hdrs_def)
  have "chain (nx s') (fq_first (freeq s i)) fl 0 = chain (nx s) (fq_first (freeq s i)) fl 0"
    by (rule chain_cong) (simp add: nx_def assms)
  with assms ph show ?thesis by (auto simp: pool_ok_def Let_def)
qed

lemma pool_free_status:
  "pool_ok s i fl \<Longrightarrow> h \<in> set fl \<Longrightarrow> status (hdr s h) = BUF_STATUS_FREE"
  by (auto simp: pool_ok_def Let_def)

text \<open>Headers that are not free may change their links and be marked unlinked or queued.\<close>

lemma gki_inv_hdr_update:
  assumes inv: "gki_inv s fls" and "freeq s' = freeq s" "pool_start s' = pool_start s"
    "pool_size s' = pool_size s" "pool_list s' = pool_list s" "magic s' = magic s"
    "curr_total_no_of_pools s' = curr_total_no_of_pools s"
    and upd: "\<And>h. q_id (hdr s' h) = q_id (hdr s h) \<and>
      (status (hdr s h) = BUF_STATUS_FREE \<longrightarrow> hdr s' h = hdr s h) \<and>
      (status (hdr s h) \<noteq> BUF_STATUS_FREE \<longrightarrow> status (hdr s' h) \<noteq> BUF_STATUS_FREE)"
  shows "gki_inv s' fls"
proof -
  have ph: "pool_hdrs s' = pool_hdrs s" using assms by (auto simp: pool_hdrs_def fun_eq_iff)
  have "pool_ok s' i (fls i)" if "i < GKI_NUM_TOTAL_BUF_POOLS" for i
  proof (rule pool_ok_frame [where s = s])
    show ok: "pool_ok s i (fls i)" using inv that by (simp add: gki_inv_def)
    fix h
    show "p_next (hdr s' h) = p_next (hdr s h)" if "h \<in> set (fls i)"
      using pool_free_status [OF ok that] upd by metis
    show "q_id (hdr s' h) = q_id (hdr s h) \<and>
           (status (hdr s' h) = BUF_STATUS_FREE \<longleftrightarrow> status (hdr s h) = BUF_STATUS_FREE) \<and>
           magic s' (h + BUFFER_HDR_SIZE + fq_size (freeq s i)) =
           magic s (h + BUFFER_HDR_SIZE + fq_size (freeq s i))"
      using upd [of h] assms by metis
  qed (use assms in auto)
  with assms ph show ?thesis by (simp add: gki_inv_def)
qed

lemma nx_os [simp]:
  "nx (GKI_disable s) = nx s" "nx (GKI_enable s) = nx s" "nx (GKI_exception c s) = nx s"
  "nx (GKI_send_event s t e) = nx s"
  by (simp_all add: nx_def gki_os_defs fun_eq_iff)

lemma gki_inv_os [simp]:
  "gki_inv (GKI_disable s) fls = gki_inv s fls"
  "gki_inv (GKI_enable s) fls = gki_inv s fls"
  "gki_inv (GKI_exception c s) fls = gki_inv s fls"
  "gki_inv (GKI_send_event s t e) fls = gki_inv s fls"
  by (simp_all add: gki_inv_def pool_ok_def Let_def)
    (simp_all add: pool_hdrs_def gki_os_defs)

lemma os_frame [simp]:
  "freeq (GKI_disable s) = freeq s" "freeq (GKI_enable s) = freeq s"
  "freeq (GKI_exception c s) = freeq s"
  "hdr (GKI_disable s) = hdr s" "hdr (GKI_enable s) = hdr s" "hdr (GKI_exception c s) = hdr s"
  "pool_hdrs (GKI_disable s) = pool_hdrs s" "pool_hdrs (GKI_enable s) = pool_hdrs s"
  "pool_hdrs (GKI_exception c s) = pool_hdrs s"
  "pool_list (GKI_disable s) = pool_list s" "pool_list (GKI_enable s) = pool_list s"
  "pool_start (GKI_disable s) = pool_start s" "pool_start (GKI_enable s) = pool_start s"
  "pool_size (GKI_disable s) = pool_size s" "pool_size (GKI_enable s) = pool_size s"
  "pool_access_mask (GKI_disable s) = pool_access_mask s"
  "curr_total_no_of_pools (GKI_disable s) = curr_total_no_of_pools s"
  "GKI_mutex (GKI_disable s) = Suc (GKI_mutex s)" "GKI_mutex (GKI_enable s) = GKI_mutex s - 1"
  "GKI_mutex (GKI_exception c s) = GKI_mutex s"
  "GKI_enable (GKI_disable s) = s"
  by (simp_all add: gki_os_defs pool_hdrs_def fun_eq_iff)

lemma gki_inv_poolD:
  "gki_inv s fls \<Longrightarrow> i < GKI_NUM_TOTAL_BUF_POOLS \<Longrightarrow> pool_ok s i (fls i)"
  by (simp add: gki_inv_def)

lemma gki_inv_disjoint:
  "gki_inv s fls \<Longrightarrow> i < GKI_NUM_TOTAL_BUF_POOLS \<Longrightarrow> j < GKI_NUM_TOTAL_BUF_POOLS \<Longrightarrow> i \<noteq> j
   \<Longrightarrow> h \<in> pool_hdrs s i \<Longrightarrow> h \<notin> pool_hdrs s j"
  by (auto simp: gki_inv_def)

text \<open>A state that differs from an invariant one in pool \<open>i\<close> only.\<close>

lemma gki_inv_one_pool:
  assumes inv: "gki_inv s fls" and i: "i < GKI_NUM_TOTAL_BUF_POOLS"
    and same: "pool_list s' = pool_list s" "curr_total_no_of_pools s' = curr_total_no_of_pools s"
      "\<And>j. j \<noteq> i \<Longrightarrow> freeq s' j = freeq s j" "\<And>j. j \<noteq> i \<Longrightarrow> pool_start s' j = pool_start s j"
      "\<And>j. j \<noteq> i \<Longrightarrow> pool_size s' j = pool_size s j"
    and hdrs: "\<And>j h. j < GKI_NUM_TOTAL_BUF_POOLS \<Longrightarrow> j \<noteq> i \<Longrightarrow> h \<in> pool_hdrs s j \<Longrightarrow> hdr s' h = hdr s h"
    and mag: "\<And>m. magic s' m = magic s m \<or> magic s' m = MAGIC_NO"
    and disj: "\<And>j. j < GKI_NUM_TOTAL_BUF_POOLS \<Longrightarrow> j \<noteq> i \<Longrightarrow> pool_hdrs s j \<inter> pool_hdrs s' i = {}"
    and ok: "pool_ok s' i fl"
  shows "gki_inv s' (fls(i := fl))"
proof -
  have ph: "pool_hdrs s' j = pool_hdrs s j" if "j \<noteq> i" for j
    using that same by (simp add: pool_hdrs_def)
  have okj: "pool_ok s' j (fls j)" if j: "j < GKI_NUM_TOTAL_BUF_POOLS" "j \<noteq> i" for j
  proof (rule pool_ok_frame [where s = s])
    show ok: "pool_ok s j (fls j)" using inv j by (simp add: gki_inv_def)
    fix h
    show "q_id (hdr s' h) = q_id (hdr s h) \<and>
        (status (hdr s' h) = BUF_STATUS_FREE \<longleftrightarrow> status (hdr s h) = BUF_STATUS_FREE) \<and>
        magic s' (h + BUFFER_HDR_SIZE + fq_size (freeq s j)) =
        magic s (h + BUFFER_HDR_SIZE + fq_size (freeq s j))" if "h \<in> pool_hdrs s j"
    proof -
      have "magic s (h + BUFFER_HDR_SIZE + fq_size (freeq s j)) = MAGIC_NO"
        using ok that by (auto simp: pool_ok_def Let_def)
      then show ?thesis using hdrs [OF j that] mag by metis
    qed
    show "p_next (hdr s' h) = p_next (hdr s h)" if "h \<in> set (fls j)"
      using hdrs [OF j] that ok by (auto simp: pool_ok_def Let_def)
  qed (use same j in auto)
  have "\<forall>j < GKI_NUM_TOTAL_BUF_POOLS. pool_ok s' j ((fls(i := fl)) j)"
    using okj ok by simp
  moreover have "pool_hdrs s' j \<inter> pool_hdrs s' k = {}"
    if "j < GKI_NUM_TOTAL_BUF_POOLS" "k < GKI_NUM_TOTAL_BUF_POOLS" "j \<noteq> k" for j k
    using that inv disj [of j] disj [of k] ph by (cases "j = i"; cases "k = i") (auto simp: gki_inv_def)
  ultimately show ?thesis using inv same by (simp add: gki_inv_def)
qed

lemma take_own_inv:
  assumes inv: "gki_inv s fls" and i: "i < GKI_NUM_TOTAL_BUF_POOLS" and fl: "fls i = h # fl"
    and s': "s' = own_buffer tid h (fst (take_first s i))"
  shows "gki_inv s' (fls(i := fl))" and "snd (take_first s i) = h" and "h \<in> pool_hdrs s i"
    and "hdr s' = (hdr s)(h := (hdr s h)\<lparr>task_id := tid, status := BUF_STATUS_UNLINKED, p_next := 0, buf_type := 0\<rparr>)"
    and "fq_cur_cnt (freeq s' i) = fq_cur_cnt (freeq s i) + 1"
    and "fq_total (freeq s' i) = fq_total (freeq s i)"
    and "fq_size (freeq s' j) = fq_size (freeq s j)"
    and "pool_start s' = pool_start s" and "pool_size s' = pool_size s"
    and "pool_hdrs s' = pool_hdrs s"
proof -
  let ?Q = "freeq s i"
  note ok = gki_inv_poolD [OF inv i, unfolded fl, unfolded pool_ok_def Let_def]
  have ch: "chain (nx s) (fq_first ?Q) (h # fl) 0" and sub: "set (h # fl) \<subseteq> pool_hdrs s i" using ok by auto
  have ch2: "chain (nx s) (nx s h) fl 0" and first: "fq_first ?Q = h" using ch by auto
  have nxh: "nx s h = hd0 fl" using ch2 by (rule chain_hd0)
  have dist: "distinct (h # fl)" using ch by (rule chain_distinct)
  have alloc: "pool_start s i \<noteq> 0" using sub by (auto simp: pool_hdrs_def split: if_splits)
  have cnt: "fq_cur_cnt ?Q + Suc (length fl) = fq_total ?Q" "fq_total ?Q < 65536" using ok alloc by auto
  have nzfl: "hd0 fl = 0 \<longleftrightarrow> fl = []" using chain_nonnull [OF ch] by (cases fl) auto
  show r: "snd (take_first s i) = h" by (simp add: take_first_def Let_def first)
  show hp: "h \<in> pool_hdrs s i" using sub by simp
  show hdr': "hdr s' = (hdr s)(h := (hdr s h)\<lparr>task_id := tid, status := BUF_STATUS_UNLINKED, p_next := 0, buf_type := 0\<rparr>)"
    by (simp add: s' own_buffer_def set_hdr_def take_first_def Let_def)
  have Q': "freeq s' = (freeq s)(i := ?Q\<lparr>fq_first := hd0 fl, fq_last := last0 fl, fq_cur_cnt := fq_cur_cnt ?Q + 1,
      fq_max_cnt := max (fq_max_cnt ?Q) (fq_cur_cnt ?Q + 1)\<rparr>)"
    using ok cnt nzfl by (auto simp: s' own_buffer_def set_hdr_def take_first_def Let_def first nxh [unfolded nx_def] max_def)
  then show "fq_cur_cnt (freeq s' i) = fq_cur_cnt ?Q + 1" "fq_total (freeq s' i) = fq_total ?Q"
    "fq_size (freeq s' j) = fq_size (freeq s j)" by auto
  have mag: "magic s' = magic s"
    by (simp add: s' own_buffer_def set_hdr_def take_first_def Let_def)
  show ps: "pool_start s' = pool_start s" "pool_size s' = pool_size s"
    by (simp_all add: s' own_buffer_def set_hdr_def take_first_def Let_def)
  show ph: "pool_hdrs s' = pool_hdrs s" using Q' ps by (auto simp: pool_hdrs_def fun_eq_iff)
  have nx': "nx s' = (nx s)(h := 0)" by (auto simp: nx_def hdr' fun_eq_iff)
  have "chain (nx s') (hd0 fl) fl 0" using ch2 dist nxh by (simp add: nx')
  then have "pool_ok s' i fl"
    using ok cnt dist alloc unfolding pool_ok_def Let_def ph
    by (auto simp: Q' ps hdr' mag gki_consts)
  then show "gki_inv s' (fls(i := fl))"
  proof (rule gki_inv_one_pool [OF inv i, rotated -1])
    show "pool_list s' = pool_list s" "curr_total_no_of_pools s' = curr_total_no_of_pools s"
      by (simp_all add: s' own_buffer_def set_hdr_def take_first_def Let_def)
    show "magic s' m = magic s m \<or> magic s' m = MAGIC_NO" for m
      by (simp add: mag)
    show "hdr s' a = hdr s a" if "k < GKI_NUM_TOTAL_BUF_POOLS" "k \<noteq> i" "a \<in> pool_hdrs s k" for k a
      using gki_inv_disjoint [OF inv that(1) i that(2,3)] hp by (auto simp: hdr')
    show "pool_hdrs s k \<inter> pool_hdrs s' i = {}" if "k < GKI_NUM_TOTAL_BUF_POOLS" "k \<noteq> i" for k
      using gki_inv_disjoint [OF inv that(1) i that(2)] by (auto simp: ph)
  qed (simp_all add: Q' ps)
qed

lemma pool_hdr_aligned:
  assumes "pool_ok s i fl" and "h \<in> pool_hdrs s i"
  shows "h mod 4 = 0" and "h \<noteq> 0"
proof -
  obtain k where "h = pool_start s i + k * pool_size s i" "pool_start s i \<noteq> 0"
    using assms(2) by (auto simp: pool_hdrs_def split: if_splits)
  moreover have "pool_start s i mod 4 = 0" "pool_size s i mod 4 = 0"
    using assms(1) by (auto simp: pool_ok_def Let_def gki_consts mod_add_eq [symmetric])
  ultimately show "h mod 4 = 0" "h \<noteq> 0" by (auto simp: mod_add_eq [symmetric] mod_mult_right_eq [symmetric])
qed

lemma pool_buf_not_damaged:
  assumes "pool_ok s i fl" and "h \<in> pool_hdrs s i" and "i < GKI_NUM_TOTAL_BUF_POOLS"
  shows "\<not> gki_chk_buf_damage s (h + BUFFER_HDR_SIZE)"
    and "GKI_get_buf_size s (h + BUFFER_HDR_SIZE) = fq_size (freeq s i)"
proof -
  have m: "q_id (hdr s h) = i" "magic s (h + BUFFER_HDR_SIZE + fq_size (freeq s i)) = MAGIC_NO"
    "fq_size (freeq s i) mod 4 = 0" using assms by (auto simp: pool_ok_def Let_def)
  have "even h" "even (fq_size (freeq s i))"
    using pool_hdr_aligned(1) [OF assms(1,2)] m(3) by presburger+
  moreover show sz: "GKI_get_buf_size s (h + BUFFER_HDR_SIZE) = fq_size (freeq s i)"
    using m assms(3) \<open>even h\<close> by (simp add: GKI_get_buf_size_def)
  ultimately show "\<not> gki_chk_buf_damage s (h + BUFFER_HDR_SIZE)"
    using m(2) by (simp add: gki_chk_buf_damage_def sz BUFFER_HDR_SIZE_def)
qed

lemma freebuf_inv:
  assumes inv: "gki_inv s fls" and i: "i < GKI_NUM_TOTAL_BUF_POOLS" and h: "h \<in> pool_hdrs s i"
    and st: "status (hdr s h) = BUF_STATUS_UNLINKED"
  defines "s' \<equiv> GKI_freebuf s (h + BUFFER_HDR_SIZE)"
  shows "gki_inv s' (fls(i := fls i @ [h]))" and "status (hdr s' h) = BUF_STATUS_FREE"
    and "fq_cur_cnt (freeq s' i) + 1 = fq_cur_cnt (freeq s i)" and "exceptions s' = exceptions s"
    and "pool_hdrs s' = pool_hdrs s" and "GKI_mutex s' = GKI_mutex s"
    and "fq_total (freeq s' i) = fq_total (freeq s i)"
proof -
  let ?Q = "freeq s i" and ?fl = "fls i"
  note okI = gki_inv_poolD [OF inv i]
  note ok = okI [unfolded pool_ok_def Let_def]
  have ch: "chain (nx s) (fq_first ?Q) ?fl 0" and lst: "fq_last ?Q = last0 ?fl" and qid: "q_id (hdr s h) = i"
    and sub: "set ?fl \<subseteq> pool_hdrs s i" using ok h by auto
  have alloc: "pool_start s i \<noteq> 0" using h by (auto simp: pool_hdrs_def split: if_splits)
  have notin: "h \<notin> set ?fl" using pool_free_status [OF okI] st by (auto simp: gki_consts)
  have len: "length ?fl < fq_total ?Q"
  proof -
    have "card (insert h (set ?fl)) \<le> card (pool_hdrs s i)"
      using sub h by (intro card_mono) (auto simp: pool_hdrs_def)
    also have "\<dots> \<le> fq_total ?Q"
      by (simp add: pool_hdrs_def) (metis card_image_le card_lessThan finite_lessThan)
    finally show ?thesis using notin chain_distinct [OF ch] by (simp add: distinct_card)
  qed
  then have cnt: "0 < fq_cur_cnt ?Q" "fq_cur_cnt ?Q + length ?fl = fq_total ?Q" using ok alloc by auto
  have nd: "\<not> gki_chk_buf_damage s (h + BUFFER_HDR_SIZE)" and h0: "h \<noteq> 0"
    using pool_buf_not_damaged [OF okI h i] pool_hdr_aligned [OF okI h] by auto
  have l0: "last0 ?fl = 0 \<longleftrightarrow> ?fl = []" using chain_nonnull [OF ch] last0_in_set by fastforce
  have hdr': "hdr s' = (let m = (if ?fl = [] then hdr s else (hdr s)(last0 ?fl := (hdr s (last0 ?fl))\<lparr>p_next := h\<rparr>))
      in m(h := (m h)\<lparr>p_next := 0, status := BUF_STATUS_FREE, task_id := GKI_INVALID_TASK\<rparr>))"
    and Q': "freeq s' = (freeq s)(i := ?Q\<lparr>fq_first := (if ?fl = [] then h else fq_first ?Q), fq_last := h,
      fq_cur_cnt := fq_cur_cnt ?Q - 1\<rparr>)"
    and same: "pool_list s' = pool_list s" "curr_total_no_of_pools s' = curr_total_no_of_pools s" "magic s' = magic s"
      "pool_start s' = pool_start s" "pool_size s' = pool_size s" "exceptions s' = exceptions s" "GKI_mutex s' = GKI_mutex s"
    using nd st qid i lst l0 cnt
    by (auto simp: s'_def GKI_freebuf_def Let_def gki_os_defs fun_eq_iff BUFFER_HDR_SIZE_def)
  show "exceptions s' = exceptions s" "GKI_mutex s' = GKI_mutex s" by (fact same)+
  show "status (hdr s' h) = BUF_STATUS_FREE" by (simp add: hdr' Let_def)
  show "fq_cur_cnt (freeq s' i) + 1 = fq_cur_cnt ?Q" "fq_total (freeq s' i) = fq_total ?Q"
    using cnt by (simp_all add: Q')
  show ph: "pool_hdrs s' = pool_hdrs s" by (auto simp: pool_hdrs_def Q' same fun_eq_iff)
  have "chain ((nx s)(last0 ?fl := h, h := 0)) (if ?fl = [] then h else fq_first ?Q) (?fl @ [h]) 0"
    using ch h0 notin by (rule chain_snoc)
  moreover have "\<And>a. a \<in> set (?fl @ [h]) \<Longrightarrow> nx s' a = ((nx s)(last0 ?fl := h, h := 0)) a"
    by (auto simp: nx_def hdr' Let_def)
  ultimately have ch': "chain (nx s') (fq_first (freeq s' i)) (?fl @ [h]) 0"
    using chain_cong [of "?fl @ [h]" "nx s'" "(nx s)(last0 ?fl := h, h := 0)"] by (auto simp: Q')
  have fields: "q_id (hdr s' a) = q_id (hdr s a)"
    "status (hdr s' a) = (if a = h then BUF_STATUS_FREE else status (hdr s a))" for a
    by (auto simp: hdr' Let_def)
  have "pool_ok s' i (?fl @ [h])"
    using ok ch' cnt alloc h unfolding pool_ok_def Let_def ph fields
    by (auto simp: Q' same)
  then show "gki_inv s' (fls(i := ?fl @ [h]))"
  proof (rule gki_inv_one_pool [OF inv i, rotated -1])
    show "hdr s' a = hdr s a" if "k < GKI_NUM_TOTAL_BUF_POOLS" "k \<noteq> i" "a \<in> pool_hdrs s k" for k a
    proof -
      have "a \<notin> pool_hdrs s i" using gki_inv_disjoint [OF inv that(1) i that(2,3)] .
      moreover have "?fl \<noteq> [] \<Longrightarrow> last0 ?fl \<in> pool_hdrs s i" using sub last0_in_set by blast
      ultimately show ?thesis using h by (auto simp: hdr' Let_def)
    qed
    show "pool_hdrs s k \<inter> pool_hdrs s' i = {}" if "k < GKI_NUM_TOTAL_BUF_POOLS" "k \<noteq> i" for k
      using gki_inv_disjoint [OF inv that(1) i that(2)] by (auto simp: ph)
  qed (simp_all add: Q' same)
qed

lemma init_free_queue_inv:
  assumes inv: "gki_inv s fls" and i: "i < GKI_NUM_TOTAL_BUF_POOLS" and un: "pool_start s i = 0"
    and p: "p \<noteq> 0" "p mod 4 = 0"
    and fresh: "\<And>j h. j < GKI_NUM_TOTAL_BUF_POOLS \<Longrightarrow> h \<in> pool_hdrs s j \<Longrightarrow>
      h + pool_size s j \<le> p \<or> p + (fq_size (freeq s i) + BUFFER_PADDING_SIZE) * fq_total (freeq s i) \<le> h"
  defines "act \<equiv> fq_size (freeq s i) + BUFFER_PADDING_SIZE"
    and "s' \<equiv> gki_init_free_queue s i (fq_size (freeq s i)) (fq_total (freeq s i)) p"
  shows "gki_inv s' (fls(i := map (\<lambda>k. p + k * act) [0..<fq_total (freeq s i)]))"
    and "pool_access_mask s' = pool_access_mask s" and "GKI_mutex s' = GKI_mutex s"
    and "\<And>j. fq_size (freeq s' j) = fq_size (freeq s j)"
    and "fq_cur_cnt (freeq s' i) = 0" and "fq_total (freeq s' i) = fq_total (freeq s i)"
    and "pool_list s' = pool_list s" and "exceptions s' = exceptions s" and "fault s' = fault s"
    and "\<And>j h. j < GKI_NUM_TOTAL_BUF_POOLS \<Longrightarrow> h \<in> pool_hdrs s j \<Longrightarrow> hdr s' h = hdr s h"
    and "\<And>j. j \<noteq> i \<Longrightarrow> pool_hdrs s' j = pool_hdrs s j"
proof -
  let ?Q = "freeq s i" and ?n = "fq_total (freeq s i)"
  let ?fl = "map (\<lambda>k. p + k * act) [0..<?n]" and ?last = "p + act * (?n - 1)"
  note okI = gki_inv_poolD [OF inv i]
  note ok = okI [unfolded pool_ok_def Let_def]
  have n0: "0 < ?n" and sz: "fq_size ?Q mod 4 = 0" "act < 65536" "0 < act" "?n < 65536"
    using ok by (auto simp: act_def gki_consts)
  have al: "ALIGN_POOL (fq_size ?Q) = fq_size ?Q" using sz by (simp add: ALIGN_POOL_id)
  have small: "fq_size ?Q < 65536" using sz by (simp add: act_def gki_consts)
  obtain s3 where s3: "s3 = s\<lparr>pool_start := (pool_start s)(i := p), pool_end := (pool_end s)(i := p + act * ?n),
      pool_size := (pool_size s)(i := act),
      freeq := (freeq s)(i := ?Q\<lparr>fq_cur_cnt := 0, fq_max_cnt := 0, fq_first := p\<rparr>)\<rparr>" by blast
  have s': "s' = (set_hdr ?last (\<lambda>b. b\<lparr>p_next := 0\<rparr>) (init_index_table i (fq_size ?Q) act ?n p s3))
      \<lparr>freeq := (freeq s)(i := ?Q\<lparr>fq_cur_cnt := 0, fq_max_cnt := 0, fq_first := p, fq_last := ?last\<rparr>)\<rparr>"
    using p n0 sz small
    by (simp add: s'_def gki_init_free_queue_def Let_def al act_def [symmetric] s3
        init_index_table_frame set_hdr_def)
  have Q': "freeq s' = (freeq s)(i := ?Q\<lparr>fq_cur_cnt := 0, fq_max_cnt := 0, fq_first := p, fq_last := ?last\<rparr>)"
    by (simp add: s')
  have ps: "pool_start s' = (pool_start s)(i := p)" "pool_size s' = (pool_size s)(i := act)"
    by (simp_all add: s' set_hdr_def init_index_table_frame s3)
  show "pool_access_mask s' = pool_access_mask s" "GKI_mutex s' = GKI_mutex s"
    "pool_list s' = pool_list s" "exceptions s' = exceptions s" "fault s' = fault s"
    by (simp_all add: s' set_hdr_def init_index_table_frame s3)
  show "fq_size (freeq s' j) = fq_size (freeq s j)" for j by (simp add: Q')
  show "fq_cur_cnt (freeq s' i) = 0" "fq_total (freeq s' i) = ?n" by (simp_all add: Q')
  have phi: "pool_hdrs s' i = set ?fl" using p by (auto simp: pool_hdrs_def ps Q')
  have phj: "pool_hdrs s' j = pool_hdrs s j" if "j \<noteq> i" for j using that by (simp add: pool_hdrs_def ps Q')
  then show "pool_hdrs s' j = pool_hdrs s j" if "j \<noteq> i" for j using that by blast
  have last_fl: "?last = p + (?n - 1) * act" by simp
  have hdrO: "hdr s' a = hdr s a" if "a \<notin> set ?fl" for a
    using that n0 sz by (auto simp: s' set_hdr_def init_index_table_hdr s3 mult.commute)
  have hdrN: "hdr s' a = (hdr s a)\<lparr>task_id := GKI_INVALID_TASK, q_id := i, status := BUF_STATUS_FREE,
      p_next := (if a = ?last then 0 else a + act)\<rparr>" if "a \<in> set ?fl" for a
    using that sz by (auto simp: s' set_hdr_def init_index_table_hdr s3)
  have mag: "magic s' m = (if \<exists>k < ?n. m = p + k * act + BUFFER_HDR_SIZE + fq_size ?Q then MAGIC_NO else magic s m)" for m
    by (auto simp: s' set_hdr_def init_index_table_magic s3)
  have notin: "a \<notin> set ?fl" if j: "j < GKI_NUM_TOTAL_BUF_POOLS" "a \<in> pool_hdrs s j" for j a
  proof
    assume "a \<in> set ?fl"
    then obtain k where k: "k < ?n" "a = p + k * act" by auto
    have "k * act < act * ?n" using k(1) sz(3) by (simp add: mult.commute)
    moreover have "0 < pool_size s j"
      using gki_inv_poolD [OF inv j(1)] by (simp add: pool_ok_def Let_def gki_consts)
    ultimately show False using fresh [OF j] k(2) by (auto simp: act_def)
  qed
  show "hdr s' h = hdr s h" if "j < GKI_NUM_TOTAL_BUF_POOLS" "h \<in> pool_hdrs s j" for j h
    using hdrO notin that by blast
  obtain m where m: "?n = Suc m" using n0 by (cases "?n") auto
  have fl_m: "?fl = map (\<lambda>k. p + k * act) [0..<m] @ [p + m * act]" by (simp add: m)
  have "chain (nx s') p (map (\<lambda>k. p + k * act) [0..<m]) (p + m * act)"
  proof (rule chain_fresh)
    fix k assume k: "k < m"
    have "p + k * act \<in> set ?fl" using k m by auto
    moreover have "p + k * act \<noteq> ?last" using k m sz by (simp add: mult.commute)
    ultimately show "nx s' (p + k * act) = p + Suc k * act" by (simp add: nx_def hdrN)
  qed (use p sz in auto)
  moreover have "nx s' (p + m * act) = 0"
    using hdrN [of "p + m * act"] m by (simp add: nx_def mult.commute)
  ultimately have ch: "chain (nx s') p ?fl 0" unfolding fl_m using p by (auto simp: chain_append)
  have "pool_ok s' i ?fl"
    using sz n0 ch p unfolding pool_ok_def Let_def phi
    by (auto simp: Q' ps hdrN mag act_def [symmetric] last0_def m mult.commute)
  then show "gki_inv s' (fls(i := ?fl))"
  proof (rule gki_inv_one_pool [OF inv i, rotated -1])
    show "hdr s' a = hdr s a" if "k < GKI_NUM_TOTAL_BUF_POOLS" "k \<noteq> i" "a \<in> pool_hdrs s k" for k a
      using hdrO notin that by blast
    show "pool_hdrs s k \<inter> pool_hdrs s' i = {}" if "k < GKI_NUM_TOTAL_BUF_POOLS" "k \<noteq> i" for k
      using notin [OF that(1)] phi by blast
    show "magic s' m = magic s m \<or> magic s' m = MAGIC_NO" for m by (simp add: mag)
  qed (simp_all add: s' set_hdr_def init_index_table_frame s3)
qed

lemma unallocated_empty: "gki_inv s fls \<Longrightarrow> i < GKI_NUM_TOTAL_BUF_POOLS \<Longrightarrow> pool_start s i = 0
  \<Longrightarrow> fls i = [] \<and> fq_first (freeq s i) = 0"
  using gki_inv_poolD [of s fls i] by (auto simp: pool_ok_def pool_hdrs_def Let_def)

lemma first_zero_cases:
  assumes "gki_inv s fls" "i < GKI_NUM_TOTAL_BUF_POOLS" "fq_cur_cnt (freeq s i) < fq_total (freeq s i)"
  shows "fq_first (freeq s i) = 0 \<longleftrightarrow> pool_start s i = 0"
    and "pool_start s i \<noteq> 0 \<Longrightarrow> \<exists>h fl. fls i = h # fl"
proof -
  note ok = gki_inv_poolD [OF assms(1,2), unfolded pool_ok_def Let_def]
  show ex: "\<exists>h fl. fls i = h # fl" if "pool_start s i \<noteq> 0"
    using ok assms(3) that by (cases "fls i") auto
  show "fq_first (freeq s i) = 0 \<longleftrightarrow> pool_start s i = 0"
  proof (cases "pool_start s i = 0")
    case True
    then show ?thesis using unallocated_empty [OF assms(1,2)] by simp
  next
    case False
    with ex obtain h fl where "fls i = h # fl" by blast
    with ok False show ?thesis by auto
  qed
qed

lemma malloc_okD:
  assumes "malloc_ok malloc s" "malloc s n \<noteq> 0"
  shows "malloc s n mod 4 = 0"
    and "j < GKI_NUM_TOTAL_BUF_POOLS \<Longrightarrow> h \<in> pool_hdrs s j \<Longrightarrow>
      h + pool_size s j \<le> malloc s n \<or> malloc s n + n \<le> h"
  using assms unfolding malloc_ok_def by blast+

definition provide :: "(gki_com \<Rightarrow> nat \<Rightarrow> addr) \<Rightarrow> gki_com \<Rightarrow> nat \<Rightarrow> gki_com \<times> bool" where
  "provide malloc s i = (if fq_first (freeq s i) = 0 then gki_alloc_free_queue malloc s i else (s, True))"

lemma provide_inv:
  assumes inv: "gki_inv s fls" and i: "i < GKI_NUM_TOTAL_BUF_POOLS" and mal: "malloc_ok malloc s"
    and free: "fq_cur_cnt (freeq s i) < fq_total (freeq s i)"
    and p: "provide malloc s i = (s1, True)"
  obtains h fl fls1 where "gki_inv s1 fls1" "fls1 i = h # fl" "\<And>j. fq_size (freeq s1 j) = fq_size (freeq s j)"
    "GKI_mutex s1 = GKI_mutex s" "pool_access_mask s1 = pool_access_mask s"
    "fq_cur_cnt (freeq s1 i) = fq_cur_cnt (freeq s i)" "fq_total (freeq s1 i) = fq_total (freeq s i)"
    "\<And>j h. j < GKI_NUM_TOTAL_BUF_POOLS \<Longrightarrow> h \<in> pool_hdrs s j \<Longrightarrow> hdr s1 h = hdr s h"
    "\<And>j h. j < GKI_NUM_TOTAL_BUF_POOLS \<Longrightarrow> h \<in> pool_hdrs s j \<Longrightarrow> h \<in> pool_hdrs s1 j"
    "exceptions s1 = exceptions s"
proof (cases "fq_first (freeq s i) = 0")
  case False
  then have "s1 = s" using p by (simp add: provide_def)
  moreover obtain h fl where "fls i = h # fl" using first_zero_cases [OF inv i free] False by auto
  ultimately show thesis using that inv by blast
next
  case True
  then have un: "pool_start s i = 0" using first_zero_cases [OF inv i free] by simp
  let ?n = "(fq_size (freeq s i) + BUFFER_PADDING_SIZE) * fq_total (freeq s i)"
  have pl: "pool_list s ! i = i" using inv i by (simp add: gki_inv_def)
  have m0: "malloc s ?n \<noteq> 0" and s1: "s1 = gki_init_free_queue s i (fq_size (freeq s i)) (fq_total (freeq s i)) (malloc s ?n)"
    using p True pl by (auto simp: provide_def gki_alloc_free_queue_def Let_def split: if_splits)
  note ini = init_free_queue_inv [OF inv i un m0 malloc_okD(1) [OF mal m0] malloc_okD(2) [OF mal m0], folded s1]
  have cnt0: "fq_cur_cnt (freeq s i) = 0" "0 < fq_total (freeq s i)"
    using gki_inv_poolD [OF inv i] un by (auto simp: pool_ok_def Let_def)
  have "[0..<fq_total (freeq s i)] = 0 # [1..<fq_total (freeq s i)]" using cnt0 by (simp add: upt_conv_Cons)
  moreover have "h \<in> pool_hdrs s1 j" if "j < GKI_NUM_TOTAL_BUF_POOLS" "h \<in> pool_hdrs s j" for j h
    using that ini(11) un by (cases "j = i") (auto simp: pool_hdrs_def)
  ultimately show thesis
    using ini cnt0 by (intro that [OF ini(1)]) auto
qed

definition handed_out :: "nat \<Rightarrow> gki_com \<Rightarrow> nat \<Rightarrow> gki_com \<Rightarrow> addr \<Rightarrow> bool" where
  "handed_out tid s i s' b \<longleftrightarrow>
     (\<exists>h fls. b = h + BUFFER_HDR_SIZE \<and> gki_inv s' fls \<and> h \<in> pool_hdrs s' i \<and>
        status (hdr s' h) = BUF_STATUS_UNLINKED \<and> task_id (hdr s' h) = tid \<and>
        (\<forall>j < GKI_NUM_TOTAL_BUF_POOLS. \<forall>h' \<in> pool_hdrs s j.
           status (hdr s h') \<noteq> BUF_STATUS_FREE \<longrightarrow> h' \<noteq> h \<and> hdr s' h' = hdr s h'))"

lemma own_enable: "own_buffer tid h (GKI_enable s) = GKI_enable (own_buffer tid h s)"
  by (simp add: own_buffer_def gki_os_defs)

lemma grab:
  fixes tid :: nat
  assumes inv: "gki_inv s fls" and i: "i < GKI_NUM_TOTAL_BUF_POOLS" and mal: "malloc_ok malloc s"
    and free: "fq_cur_cnt (freeq s i) < fq_total (freeq s i)" and p: "provide malloc s i = (s1, True)"
  defines "h \<equiv> snd (take_first s1 i)"
  defines "s' \<equiv> own_buffer tid h (GKI_enable (fst (take_first s1 i)))"
  shows "handed_out tid s i s' (h + BUFFER_HDR_SIZE)" and "GKI_mutex s' = GKI_mutex s - 1"
    and "fq_cur_cnt (freeq s' i) = fq_cur_cnt (freeq s i) + 1"
    and "fq_size (freeq s' j) = fq_size (freeq s j)"
proof -
  from provide_inv [OF inv i mal free p] obtain h1 fl fls1 where
    inv1: "gki_inv s1 fls1" and fl: "fls1 i = h1 # fl" and
    sz: "\<And>j. fq_size (freeq s1 j) = fq_size (freeq s j)" and mt: "GKI_mutex s1 = GKI_mutex s" and
    cc: "fq_cur_cnt (freeq s1 i) = fq_cur_cnt (freeq s i)" and
    same: "\<And>j h. j < GKI_NUM_TOTAL_BUF_POOLS \<Longrightarrow> h \<in> pool_hdrs s j \<Longrightarrow> hdr s1 h = hdr s h"
    by metis
  note tk = take_own_inv [where tid = tid, OF inv1 i fl refl]
  have h: "h = h1" using tk(2) by (simp add: h_def)
  have s': "s' = GKI_enable (own_buffer tid h1 (fst (take_first s1 i)))"
    by (simp add: s'_def h own_enable)
  have free1: "status (hdr s1 h1) = BUF_STATUS_FREE"
    using pool_free_status [OF gki_inv_poolD [OF inv1 i]] fl by simp
  have "h' \<noteq> h1 \<and> hdr s' h' = hdr s h'"
    if "j < GKI_NUM_TOTAL_BUF_POOLS" "h' \<in> pool_hdrs s j" "status (hdr s h') \<noteq> BUF_STATUS_FREE" for j h'
  proof -
    have "h' \<noteq> h1" using same [OF that(1,2)] free1 that(3) by auto
    then show ?thesis using same [OF that(1,2)] tk(4) by (simp add: s')
  qed
  then have "\<forall>j < GKI_NUM_TOTAL_BUF_POOLS. \<forall>h' \<in> pool_hdrs s j.
      status (hdr s h') \<noteq> BUF_STATUS_FREE \<longrightarrow> h' \<noteq> h1 \<and> hdr s' h' = hdr s h'" by blast
  moreover have "gki_inv s' (fls1(i := fl))" "h1 \<in> pool_hdrs s' i"
    "status (hdr s' h1) = BUF_STATUS_UNLINKED" "task_id (hdr s' h1) = tid"
    using tk(1,3,4,10) by (simp_all add: s')
  ultimately show "handed_out tid s i s' (h + BUFFER_HDR_SIZE)"
    unfolding handed_out_def h by blast
  show "GKI_mutex s' = GKI_mutex s - 1"
    by (simp add: s' mt own_buffer_def set_hdr_def take_first_def Let_def)
  show "fq_cur_cnt (freeq s' i) = fq_cur_cnt (freeq s i) + 1"
    using tk(5) cc by (simp add: s')
  show "fq_size (freeq s' j) = fq_size (freeq s j)" using tk(7) sz by (simp add: s')
qed

lemma getbuf_search_found:
  assumes inv: "gki_inv s fls" and mal: "malloc_ok malloc s"
  shows "i + n \<le> GKI_NUM_TOTAL_BUF_POOLS \<Longrightarrow> snd (getbuf_search malloc tid i n s) \<noteq> 0 \<Longrightarrow>
   \<exists>j. i \<le> j \<and> j < i + n \<and> \<not> bit (pool_access_mask s) j \<and>
      handed_out tid s j (fst (getbuf_search malloc tid i n s)) (snd (getbuf_search malloc tid i n s)) \<and>
      GKI_mutex (fst (getbuf_search malloc tid i n s)) = GKI_mutex s - 1"
proof (induction n arbitrary: i)
  case 0
  then show ?case by simp
next
  case (Suc n)
  have i: "i < GKI_NUM_TOTAL_BUF_POOLS" and pl: "pool_list s ! i = i"
    using Suc.prems inv by (auto simp: gki_inv_def)
  show ?case
  proof (cases "bit (pool_access_mask s) i \<or> fq_total (freeq s i) \<le> fq_cur_cnt (freeq s i)")
    case True
    then have eq: "getbuf_search malloc tid i (Suc n) s = getbuf_search malloc tid (Suc i) n s"
      by (auto simp: pl Let_def)
    obtain j where "Suc i \<le> j" "j < Suc i + n" "\<not> bit (pool_access_mask s) j"
      "handed_out tid s j (fst (getbuf_search malloc tid i (Suc n) s)) (snd (getbuf_search malloc tid i (Suc n) s))"
      "GKI_mutex (fst (getbuf_search malloc tid i (Suc n) s)) = GKI_mutex s - 1"
      using Suc.IH [of "Suc i"] Suc.prems unfolding eq by auto
    then show ?thesis by (intro exI [of _ j]) auto
  next
    case False
    then have free: "fq_cur_cnt (freeq s i) < fq_total (freeq s i)" by simp
    obtain s1 ok where p: "provide malloc s i = (s1, ok)" by fastforce
    have eq: "getbuf_search malloc tid i (Suc n) s =
      (if ok then (own_buffer tid (snd (take_first s1 i)) (GKI_enable (fst (take_first s1 i))),
                   snd (take_first s1 i) + BUFFER_HDR_SIZE) else (s1, 0))"
      using False p by (auto simp: provide_def pl Let_def split_def split: if_splits)
    with Suc.prems have ok by (auto split: if_splits)
    with p have p': "provide malloc s i = (s1, True)" by simp
    show ?thesis
      unfolding eq using grab [where tid = tid, OF inv i mal free p'] \<open>ok\<close> False
      by (intro exI [of _ i]) auto
  qed
qed

lemma first_fit_bounds: "i \<le> first_fit s sz i n \<and> first_fit s sz i n \<le> i + n"
proof (induction n arbitrary: i)
  case 0
  then show ?case by simp
next
  case (Suc n)
  have "Suc i \<le> first_fit s sz (Suc i) n \<and> first_fit s sz (Suc i) n \<le> Suc i + n" by (rule Suc.IH)
  then show ?case by simp
qed

lemma first_fit_large:
  "first_fit s sz i n < i + n \<Longrightarrow> sz \<le> fq_size (freeq s (pool_list s ! first_fit s sz i n))"
proof (induction n arbitrary: i)
  case 0
  then show ?case by simp
next
  case (Suc n)
  then show ?case using Suc.IH [of "Suc i"] by auto
qed

lemma GKI_getbuf_found:
  assumes inv: "gki_inv s fls" and mal: "malloc_ok malloc (GKI_disable s)"
    and ret: "snd (GKI_getbuf malloc tid s sz) \<noteq> 0"
  obtains i j where "i \<le> j" "j < GKI_NUM_TOTAL_BUF_POOLS" "sz \<le> fq_size (freeq s i)"
    "\<not> bit (pool_access_mask s) j"
    "handed_out tid s j (fst (GKI_getbuf malloc tid s sz)) (snd (GKI_getbuf malloc tid s sz))"
    "GKI_mutex (fst (GKI_getbuf malloc tid s sz)) = GKI_mutex s"
proof -
  let ?N = GKI_NUM_TOTAL_BUF_POOLS
  let ?i = "first_fit s sz 0 ?N"
  have tot: "curr_total_no_of_pools s = ?N" and pl: "pool_list s = [0..<?N]"
    using inv by (auto simp: gki_inv_def)
  have lt: "?i < ?N" and eq: "GKI_getbuf malloc tid s sz = getbuf_search malloc tid ?i (?N - ?i) (GKI_disable s)"
    using ret first_fit_bounds [of 0 s sz ?N] by (auto simp: GKI_getbuf_def tot Let_def split: if_splits)
  have fit: "sz \<le> fq_size (freeq s ?i)" using first_fit_large [of s sz 0 ?N] lt pl by simp
  have inv': "gki_inv (GKI_disable s) fls" using inv by simp
  obtain j where j: "?i \<le> j" "j < ?N" "\<not> bit (pool_access_mask s) j"
    "handed_out tid (GKI_disable s) j (fst (GKI_getbuf malloc tid s sz)) (snd (GKI_getbuf malloc tid s sz))"
    "GKI_mutex (fst (GKI_getbuf malloc tid s sz)) = GKI_mutex s"
    using getbuf_search_found [OF inv' mal, of ?i "?N - ?i" tid] lt ret eq by auto
  then show thesis using that [of ?i j] fit by (simp add: handed_out_def)
qed

definition default_pools :: "gki_com \<Rightarrow> bool" where
  "default_pools s \<longleftrightarrow> pool_access_mask s = GKI_DEF_BUFPOOL_PERM_MASK \<and>
     (\<forall>i < GKI_NUM_TOTAL_BUF_POOLS. fq_size (freeq s i) = ALIGN_POOL (fst (fixed_pools ! i)))"

lemma getpoolbuf_hands_out:
  assumes inv: "gki_inv s fls" and mal: "malloc_ok malloc (GKI_disable s)"
    and i: "pool_id < GKI_NUM_TOTAL_BUF_POOLS"
    and free: "fq_cur_cnt (freeq s pool_id) < fq_total (freeq s pool_id)"
    and mem: "pool_start s pool_id \<noteq> 0 \<or> (\<forall>n. malloc (GKI_disable s) n \<noteq> 0)"
  shows "handed_out tid s pool_id (fst (GKI_getpoolbuf malloc tid s pool_id)) (snd (GKI_getpoolbuf malloc tid s pool_id))
    \<and> snd (GKI_getpoolbuf malloc tid s pool_id) \<noteq> 0
    \<and> fq_cur_cnt (freeq (fst (GKI_getpoolbuf malloc tid s pool_id)) pool_id) = fq_cur_cnt (freeq s pool_id) + 1
    \<and> GKI_mutex (fst (GKI_getpoolbuf malloc tid s pool_id)) = GKI_mutex s"
proof -
  let ?s0 = "GKI_disable s"
  have inv0: "gki_inv ?s0 fls" and free0: "fq_cur_cnt (freeq ?s0 pool_id) < fq_total (freeq ?s0 pool_id)"
    using inv free by simp_all
  have pl: "pool_list ?s0 ! pool_id = pool_id" using inv0 i by (simp add: gki_inv_def)
  have "fq_first (freeq s pool_id) = 0 \<longleftrightarrow> pool_start s pool_id = 0"
    by (rule first_zero_cases(1) [OF inv i free])
  then obtain s1 where p: "provide malloc ?s0 pool_id = (s1, True)"
    using mem pl by (auto simp: provide_def gki_alloc_free_queue_def Let_def)
  have eq: "GKI_getpoolbuf malloc tid s pool_id =
      (own_buffer tid (snd (take_first s1 pool_id)) (GKI_enable (fst (take_first s1 pool_id))),
       snd (take_first s1 pool_id) + BUFFER_HDR_SIZE)"
    using i free p by (auto simp: GKI_getpoolbuf_def provide_def Let_def split_def split: if_splits)
  show ?thesis
    unfolding eq using grab [where tid = tid, OF inv0 i mal free0 p]
    by (simp add: handed_out_def BUFFER_HDR_SIZE_def)
qed

lemma GKI_freebuf_twice:
  assumes inv: "gki_inv s fls" and i: "i < GKI_NUM_TOTAL_BUF_POOLS" and h: "h \<in> pool_hdrs s i"
    and st: "status (hdr s h) = BUF_STATUS_UNLINKED"
  defines "s1 \<equiv> GKI_freebuf s (h + BUFFER_HDR_SIZE)"
  shows "GKI_freebuf s1 (h + BUFFER_HDR_SIZE) = GKI_exception GKI_ERROR_FREEBUF_BUF_LINKED s1"
proof -
  note fr = freebuf_inv [OF inv i h st, folded s1_def]
  have "\<not> gki_chk_buf_damage s1 (h + BUFFER_HDR_SIZE)"
    using pool_buf_not_damaged(1) [OF gki_inv_poolD [OF fr(1) i] _ i] h fr(5) by simp
  with fr(2) show ?thesis
    by (simp add: GKI_freebuf_def Let_def gki_consts)
qed

lemma init_fixed_pools_fields:
  "freeq (init_fixed_pools i ps s) j =
     (if i \<le> j \<and> j < i + length ps
      then (freeq s j)\<lparr>fq_size := ALIGN_POOL (fst (ps ! (j - i))) mod 65536, fq_total := snd (ps ! (j - i)),
                        fq_cur_cnt := 0, fq_max_cnt := 0\<rparr>
      else freeq s j)"
  "pool_size (init_fixed_pools i ps s) j =
     (if i \<le> j \<and> j < i + length ps
      then (ALIGN_POOL (fst (ps ! (j - i))) + BUFFER_PADDING_SIZE) mod 65536 else pool_size s j)"
  "pool_start (init_fixed_pools i ps s) = pool_start s"
  "pool_access_mask (init_fixed_pools i ps s) = pool_access_mask s"
proof (induction ps arbitrary: i s)
  case (Cons p ps)
  {
    case 1 show ?case using Cons(1) by (cases p) (auto simp: gki_init_free_queue_def Let_def nth_Cons')
  next
    case 2 show ?case using Cons(2) by (cases p) (auto simp: gki_init_free_queue_def Let_def nth_Cons')
  next
    case 3 show ?case using Cons(3) by (cases p) (auto simp: gki_init_free_queue_def Let_def)
  next
    case 4 show ?case using Cons(4) by (cases p) (auto simp: gki_init_free_queue_def Let_def)
  }
qed auto

lemma fixed_pool_cases:
  "i < GKI_NUM_TOTAL_BUF_POOLS \<Longrightarrow> fixed_pools ! i \<in> set fixed_pools"
  by (rule nth_mem) (simp add: fixed_pools_defs gki_consts)

lemma gki_buffer_init_pool:
  assumes "i < GKI_NUM_TOTAL_BUF_POOLS"
  shows "freeq (gki_buffer_init s) i = \<lparr>fq_first = 0, fq_last = 0, fq_size = ALIGN_POOL (fst (fixed_pools ! i)),
      fq_total = snd (fixed_pools ! i), fq_cur_cnt = 0, fq_max_cnt = 0\<rparr>"
    and "pool_start (gki_buffer_init s) i = 0"
    and "pool_size (gki_buffer_init s) i = ALIGN_POOL (fst (fixed_pools ! i)) + BUFFER_PADDING_SIZE"
    and "ALIGN_POOL (fst (fixed_pools ! i)) mod 4 = 0"
    and "ALIGN_POOL (fst (fixed_pools ! i)) + BUFFER_PADDING_SIZE < 65536"
    and "0 < snd (fixed_pools ! i)" "snd (fixed_pools ! i) < 65536"
proof -
  have len: "length fixed_pools = GKI_NUM_TOTAL_BUF_POOLS" by (simp add: fixed_pools_defs gki_consts)
  show "ALIGN_POOL (fst (fixed_pools ! i)) mod 4 = 0" by (simp add: ALIGN_POOL_def)
  show b: "ALIGN_POOL (fst (fixed_pools ! i)) + BUFFER_PADDING_SIZE < 65536"
    using fixed_pool_cases [OF assms] by (auto simp: fixed_pools_defs ALIGN_POOL_def gki_consts)
  show "0 < snd (fixed_pools ! i)" "snd (fixed_pools ! i) < 65536"
    using fixed_pool_cases [OF assms] by (auto simp: fixed_pools_defs)
  show "freeq (gki_buffer_init s) i = \<lparr>fq_first = 0, fq_last = 0, fq_size = ALIGN_POOL (fst (fixed_pools ! i)),
      fq_total = snd (fixed_pools ! i), fq_cur_cnt = 0, fq_max_cnt = 0\<rparr>"
    "pool_start (gki_buffer_init s) i = 0"
    "pool_size (gki_buffer_init s) i = ALIGN_POOL (fst (fixed_pools ! i)) + BUFFER_PADDING_SIZE"
    using assms b by (simp_all add: gki_buffer_init_def Let_def init_fixed_pools_fields len)
qed

lemma gki_buffer_init_inv: "gki_inv (gki_buffer_init s) (\<lambda>_. [])"
proof -
  have "pool_ok (gki_buffer_init s) i []" if "i < GKI_NUM_TOTAL_BUF_POOLS" for i
    using gki_buffer_init_pool [OF that] by (simp add: pool_ok_def Let_def pool_hdrs_def)
  moreover have "pool_hdrs (gki_buffer_init s) i = {}" if "i < GKI_NUM_TOTAL_BUF_POOLS" for i
    using gki_buffer_init_pool(2) [OF that, of s] by (simp add: pool_hdrs_def)
  ultimately show ?thesis
    by (simp add: gki_inv_def) (simp add: gki_buffer_init_def Let_def gki_consts)
qed

lemma gki_buffer_init_default: "default_pools (gki_buffer_init s)"
  using gki_buffer_init_pool(1) [of _ s]
  by (simp add: default_pools_def) (simp add: gki_buffer_init_def Let_def init_fixed_pools_fields)

text \<open>The queue operations keep the pool invariant.\<close>

lemma enqueue_pool_inv:
  assumes inv: "gki_inv s fls" and rep: "queue_rep (s, q) bs" and rdy: "buf_ready s b"
  shows "gki_inv (fst (GKI_enqueue (s, q) b)) fls"
proof (rule gki_inv_hdr_update [OF inv])
  have lq: "bs \<noteq> [] \<Longrightarrow> status (hdr s (q_last q - BUFFER_HDR_SIZE)) = BUF_STATUS_QUEUED" "q_last q \<noteq> 0 \<Longrightarrow> bs \<noteq> []"
    using rep last0_in_set [of bs] by (auto simp: queue_rep_def Let_def hb_def)
  then show "q_id (hdr (fst (GKI_enqueue (s, q) b)) h) = q_id (hdr s h) \<and>
      (status (hdr s h) = BUF_STATUS_FREE \<longrightarrow> hdr (fst (GKI_enqueue (s, q) b)) h = hdr s h) \<and>
      (status (hdr s h) \<noteq> BUF_STATUS_FREE \<longrightarrow> status (hdr (fst (GKI_enqueue (s, q) b)) h) \<noteq> BUF_STATUS_FREE)" for h
    using rdy by (auto simp: GKI_enqueue_def Let_def gki_os_defs buf_ready_def hb_def gki_consts)
qed (simp_all add: GKI_enqueue_def Let_def gki_os_defs split_def)

lemma dequeue_pool_inv:
  assumes inv: "gki_inv s fls" and rep: "queue_rep (s, q) bs"
  shows "gki_inv (fst (fst (GKI_dequeue (s, q)))) fls"
proof (rule gki_inv_hdr_update [OF inv])
  have "q_count q \<noteq> 0 \<Longrightarrow> status (hdr s (q_first q - BUFFER_HDR_SIZE)) = BUF_STATUS_QUEUED"
    using rep by (cases bs) (auto simp: queue_rep_def Let_def hb_def)
  then show "q_id (hdr (fst (fst (GKI_dequeue (s, q)))) h) = q_id (hdr s h) \<and>
      (status (hdr s h) = BUF_STATUS_FREE \<longrightarrow> hdr (fst (fst (GKI_dequeue (s, q)))) h = hdr s h) \<and>
      (status (hdr s h) \<noteq> BUF_STATUS_FREE \<longrightarrow> status (hdr (fst (fst (GKI_dequeue (s, q)))) h) \<noteq> BUF_STATUS_FREE)" for h
    by (auto simp: GKI_dequeue_def Let_def gki_os_defs gki_consts)
qed (simp_all add: GKI_dequeue_def Let_def gki_os_defs)

lemma send_pool_inv:
  assumes inv: "gki_inv s fls" and rep: "mbox_rep tsk mb s bs" and rdy: "buf_ready s b"
  shows "gki_inv (GKI_send_msg s tsk mb b) fls"
proof (rule gki_inv_hdr_update [OF inv])
  have "OSTaskQFirst s tsk mb \<noteq> 0 \<Longrightarrow> status (hdr s (OSTaskQLast s tsk mb)) = BUF_STATUS_QUEUED"
    using rep by (cases bs rule: rev_cases) (auto simp: mbox_rep_def)
  then show "q_id (hdr (GKI_send_msg s tsk mb b) h) = q_id (hdr s h) \<and>
      (status (hdr s h) = BUF_STATUS_FREE \<longrightarrow> hdr (GKI_send_msg s tsk mb b) h = hdr s h) \<and>
      (status (hdr s h) \<noteq> BUF_STATUS_FREE \<longrightarrow> status (hdr (GKI_send_msg s tsk mb b) h) \<noteq> BUF_STATUS_FREE)" for h
    using rdy rep by (auto simp: GKI_send_msg_def Let_def gki_os_defs buf_ready_def hb_def gki_consts mbox_rep_def)
qed (use rdy rep in \<open>simp_all add: GKI_send_msg_def Let_def gki_os_defs buf_ready_def hb_def mbox_rep_def\<close>)

lemma read_pool_inv:
  assumes inv: "gki_inv s fls" and rep: "mbox_rep tsk mb s bs"
  shows "gki_inv (fst (GKI_read_mbox tsk s mb)) fls"
proof (rule gki_inv_hdr_update [OF inv])
  have "OSTaskQFirst s tsk mb \<noteq> 0 \<Longrightarrow> status (hdr s (OSTaskQFirst s tsk mb)) = BUF_STATUS_QUEUED"
    using rep by (cases bs) (auto simp: mbox_rep_def)
  then show "q_id (hdr (fst (GKI_read_mbox tsk s mb)) h) = q_id (hdr s h) \<and>
      (status (hdr s h) = BUF_STATUS_FREE \<longrightarrow> hdr (fst (GKI_read_mbox tsk s mb)) h = hdr s h) \<and>
      (status (hdr s h) \<noteq> BUF_STATUS_FREE \<longrightarrow> status (hdr (fst (GKI_read_mbox tsk s mb)) h) \<noteq> BUF_STATUS_FREE)" for h
    by (auto simp: GKI_read_mbox_def Let_def gki_os_defs gki_consts)
qed (simp_all add: GKI_read_mbox_def Let_def gki_os_defs)

section \<open>Properties\<close>

text \<open>A started system, for concrete instances: a cleared control block after \<open>gki_buffer_init\<close>.\<close>

definition gki_blank :: gki_com where
  "gki_blank = \<lparr>hdr = (\<lambda>_. \<lparr>p_next = 0, q_id = 0, task_id = 0, status = 0, buf_type = 0\<rparr>), magic = (\<lambda>_. 0),
     freeq = (\<lambda>_. \<lparr>fq_first = 0, fq_last = 0, fq_size = 0, fq_total = 0, fq_cur_cnt = 0, fq_max_cnt = 0\<rparr>),
     pool_start = (\<lambda>_. 0), pool_end = (\<lambda>_. 0), pool_size = (\<lambda>_. 0), pool_access_mask = 0, pool_list = [],
     curr_total_no_of_pools = 0, OSTaskQFirst = (\<lambda>_ _. 0), OSTaskQLast = (\<lambda>_ _. 0), OSRdyTbl = (\<lambda>_. 1),
     OSWaitEvt = (\<lambda>_. 0), GKI_mutex = 0, exceptions = [], fault = False\<rparr>"

definition gki_start :: gki_com where
  "gki_start = gki_buffer_init gki_blank"

lemma gki_start_inv: "gki_inv gki_start (\<lambda>_. [])"
  unfolding gki_start_def by (rule gki_buffer_init_inv)

lemma gki_start_mem: "j < GKI_NUM_TOTAL_BUF_POOLS \<Longrightarrow> pool_hdrs gki_start j = {}"
  using gki_buffer_init_pool(2) [of j gki_blank] by (simp add: pool_hdrs_def gki_start_def)

lemma ten_cases: "i < (10::nat) \<Longrightarrow> i = 0 \<or> i = 1 \<or> i = 2 \<or> i = 3 \<or> i = 4 \<or> i = 5 \<or> i = 6 \<or> i = 7 \<or> i = 8 \<or> i = 9"
  by arith

lemma default_pools_public:
  assumes "default_pools s" and "j < GKI_NUM_TOTAL_BUF_POOLS" and "\<not> bit (pool_access_mask s) j"
  shows "j \<le> 3 \<or> j = 9"
proof -
  have mask: "pool_access_mask s = 0xfdf0" using assms(1) by (simp add: default_pools_def gki_consts)
  have "bit (pool_access_mask s) 4" "bit (pool_access_mask s) 5" "bit (pool_access_mask s) 6"
    "bit (pool_access_mask s) 7" "bit (pool_access_mask s) 8"
    by (simp_all add: mask)
  moreover have "j < 10" using assms(2) by (simp add: gki_consts)
  ultimately show ?thesis using assms(3) ten_cases [of j] by auto
qed

lemma default_pools_sizes:
  assumes "default_pools s"
  shows "fq_size (freeq s 0) = 64" "fq_size (freeq s 1) = 288" "fq_size (freeq s 2) = 660"
    "fq_size (freeq s 3) = 4112" "fq_size (freeq s 4) = 8108" "fq_size (freeq s 5) = 748"
    "fq_size (freeq s 6) = 268" "fq_size (freeq s 7) = 9472" "fq_size (freeq s 8) = 128"
    "fq_size (freeq s 9) = 8192"
  using assms by (simp_all add: default_pools_def gki_consts fixed_pools_defs ALIGN_POOL_def)

lemma gki_start_malloc: "malloc_ok (\<lambda>_ _. 4096) (GKI_disable gki_start)"
  by (simp add: malloc_ok_def gki_start_mem)

text \<open>C9: asking a pool that is not used up for a buffer returns one (when the pool has memory, or the system
  provides it): a buffer of that pool that nobody held, marked unlinked and owned by the caller; no
  buffer in use is touched, the pool counts one more buffer and the mutex is released.\<close>

theorem GKI_getpoolbuf_ok:
  assumes "gki_inv s fls" and "malloc_ok malloc (GKI_disable s)"
    and "pool_id < GKI_NUM_TOTAL_BUF_POOLS"
    and "fq_cur_cnt (freeq s pool_id) < fq_total (freeq s pool_id)"
    and "pool_start s pool_id \<noteq> 0 \<or> (\<forall>n. malloc (GKI_disable s) n \<noteq> 0)"
  shows "handed_out tid s pool_id (fst (GKI_getpoolbuf malloc tid s pool_id)) (snd (GKI_getpoolbuf malloc tid s pool_id))
    \<and> snd (GKI_getpoolbuf malloc tid s pool_id) \<noteq> 0
    \<and> fq_cur_cnt (freeq (fst (GKI_getpoolbuf malloc tid s pool_id)) pool_id) = fq_cur_cnt (freeq s pool_id) + 1
    \<and> GKI_mutex (fst (GKI_getpoolbuf malloc tid s pool_id)) = GKI_mutex s"
  using assms by (rule getpoolbuf_hands_out)

theorem GKI_getpoolbuf_ok_witness:
  "handed_out 1 gki_start 2 (fst (GKI_getpoolbuf (\<lambda>_ _. 4096) 1 gki_start 2)) (snd (GKI_getpoolbuf (\<lambda>_ _. 4096) 1 gki_start 2))
   \<and> snd (GKI_getpoolbuf (\<lambda>_ _. 4096) 1 gki_start 2) \<noteq> 0
   \<and> fq_cur_cnt (freeq (fst (GKI_getpoolbuf (\<lambda>_ _. 4096) 1 gki_start 2)) 2) = fq_cur_cnt (freeq gki_start 2) + 1
   \<and> GKI_mutex (fst (GKI_getpoolbuf (\<lambda>_ _. 4096) 1 gki_start 2)) = GKI_mutex gki_start"
proof (rule GKI_getpoolbuf_ok [OF gki_start_inv gki_start_malloc])
  show p: "2 < GKI_NUM_TOTAL_BUF_POOLS" by (simp add: gki_consts)
  show "fq_cur_cnt (freeq gki_start 2) < fq_total (freeq gki_start 2)"
    unfolding gki_start_def using gki_buffer_init_pool(1) [OF p, of gki_blank] by (simp add: fixed_pools_defs)
qed simp

lemma first_fit_num: "first_fit s sz i (numeral k) =
    (if sz \<le> fq_size (freeq s (pool_list s ! i)) then i else first_fit s sz (Suc i) (pred_numeral k))"
  by (simp add: numeral_eq_Suc)

lemma getbuf_search_hit:
  assumes "\<not> bit (pool_access_mask s) (pool_list s ! i)" "0 < n"
    "fq_cur_cnt (freeq s (pool_list s ! i)) < fq_total (freeq s (pool_list s ! i))"
    "fq_first (freeq s (pool_list s ! i)) = 0" "\<And>n. malloc s n \<noteq> 0"
  shows "snd (getbuf_search malloc tid i n s) \<noteq> 0"
  using assms by (cases n) (auto simp: Let_def gki_alloc_free_queue_def BUFFER_HDR_SIZE_def split_def)

lemma getbuf_search_skip:
  "bit (pool_access_mask s) (pool_list s ! i) \<Longrightarrow> 0 < n \<Longrightarrow>
   getbuf_search malloc tid i n s = getbuf_search malloc tid (Suc i) (n - 1) s"
  by (cases n) auto

lemma gki_start_getbuf:
  "snd (GKI_getbuf (\<lambda>_ _. 4096) 1 gki_start 600) \<noteq> 0"
  "snd (GKI_getbuf (\<lambda>_ _. 4096) 1 gki_start 9000) \<noteq> 0"
proof -
  have q: "freeq gki_start i = \<lparr>fq_first = 0, fq_last = 0, fq_size = ALIGN_POOL (fst (fixed_pools ! i)),
      fq_total = snd (fixed_pools ! i), fq_cur_cnt = 0, fq_max_cnt = 0\<rparr>" if "i < 10" for i
    unfolding gki_start_def using gki_buffer_init_pool(1) [of i gki_blank] that by (simp add: gki_consts)
  have pl: "pool_list gki_start = [0..<10]" "curr_total_no_of_pools gki_start = 10"
    "pool_access_mask gki_start = 0xfdf0"
    using gki_start_inv gki_buffer_init_default [of gki_blank] by (auto simp: gki_inv_def default_pools_def gki_start_def gki_consts)
  have "first_fit gki_start 600 0 10 = 2" "first_fit gki_start 9000 0 10 = 7"
    by (simp_all add: first_fit_num pl q fixed_pools_defs ALIGN_POOL_def)
  then have g: "GKI_getbuf (\<lambda>_ _. 4096) 1 gki_start 600 = getbuf_search (\<lambda>_ _. 4096) 1 2 8 (GKI_disable gki_start)"
    "GKI_getbuf (\<lambda>_ _. 4096) 1 gki_start 9000 = getbuf_search (\<lambda>_ _. 4096) 1 7 3 (GKI_disable gki_start)"
    by (simp_all add: GKI_getbuf_def Let_def pl)
  show "snd (GKI_getbuf (\<lambda>_ _. 4096) 1 gki_start 600) \<noteq> 0"
    unfolding g by (rule getbuf_search_hit) (simp_all add: pl q fixed_pools_defs)
  have "getbuf_search (\<lambda>_ _. 4096) 1 7 3 (GKI_disable gki_start) = getbuf_search (\<lambda>_ _. 4096) 1 9 1 (GKI_disable gki_start)"
    by (simp add: getbuf_search_skip pl del: getbuf_search.simps)
  moreover have "snd (getbuf_search (\<lambda>_ _. 4096) 1 9 1 (GKI_disable gki_start)) \<noteq> 0"
    by (rule getbuf_search_hit) (simp_all add: pl q fixed_pools_defs)
  ultimately show "snd (GKI_getbuf (\<lambda>_ _. 4096) 1 gki_start 9000) \<noteq> 0"
    by (simp only: g simp_thms)
qed

text \<open>C10: with the pools of \<^verbatim>\<open>gki_target.h\<close>, a buffer \<open>GKI_getbuf\<close> returns for at most 8192 bytes
  comes from a pool whose buffers hold the requested size.\<close>

theorem GKI_getbuf_size:
  assumes inv: "gki_inv s fls" and mal: "malloc_ok malloc (GKI_disable s)" and conf: "default_pools s"
    and sz: "sz \<le> 8192" and ret: "snd (GKI_getbuf malloc tid s sz) \<noteq> 0"
  shows "\<exists>j. sz \<le> fq_size (freeq s j) \<and>
    handed_out tid s j (fst (GKI_getbuf malloc tid s sz)) (snd (GKI_getbuf malloc tid s sz)) \<and>
    GKI_mutex (fst (GKI_getbuf malloc tid s sz)) = GKI_mutex s"
proof -
  from GKI_getbuf_found [OF inv mal ret] obtain i j where
    ij: "i \<le> j" "j < GKI_NUM_TOTAL_BUF_POOLS" "sz \<le> fq_size (freeq s i)" "\<not> bit (pool_access_mask s) j"
    and r: "handed_out tid s j (fst (GKI_getbuf malloc tid s sz)) (snd (GKI_getbuf malloc tid s sz))"
      "GKI_mutex (fst (GKI_getbuf malloc tid s sz)) = GKI_mutex s" by metis
  have j: "j \<le> 3 \<or> j = 9" by (rule default_pools_public [OF conf ij(2,4)])
  note sizes = default_pools_sizes [OF conf]
  have "sz \<le> fq_size (freeq s j)"
  proof (cases "j = 9")
    case False
    then show ?thesis using j ten_cases [of j] ten_cases [of i] ij(1,3) sizes by auto
  qed (use sz sizes in simp)
  with r show ?thesis by blast
qed

theorem GKI_getbuf_size_witness:
  "\<exists>j. 600 \<le> fq_size (freeq gki_start j) \<and>
    handed_out 1 gki_start j (fst (GKI_getbuf (\<lambda>_ _. 4096) 1 gki_start 600)) (snd (GKI_getbuf (\<lambda>_ _. 4096) 1 gki_start 600)) \<and>
    GKI_mutex (fst (GKI_getbuf (\<lambda>_ _. 4096) 1 gki_start 600)) = GKI_mutex gki_start"
  using GKI_getbuf_size [OF gki_start_inv gki_start_malloc _ _ gki_start_getbuf(1)]
    gki_buffer_init_default [of gki_blank] by (simp add: gki_start_def)

text \<open>C24: a request for more than 8192 bytes that \<open>GKI_getbuf\<close> serves gets a buffer that is too small: the
  first fit is pool 7, whose use is restricted, and the search goes on to pool 9 without comparing
  sizes again.\<close>

theorem GKI_getbuf_undersized:
  assumes inv: "gki_inv s fls" and mal: "malloc_ok malloc (GKI_disable s)" and conf: "default_pools s"
    and sz: "8192 < sz" and ret: "snd (GKI_getbuf malloc tid s sz) \<noteq> 0"
  shows "fq_size (freeq s 9) < sz \<and>
    handed_out tid s 9 (fst (GKI_getbuf malloc tid s sz)) (snd (GKI_getbuf malloc tid s sz))"
proof -
  from GKI_getbuf_found [OF inv mal ret] obtain i j where
    ij: "i \<le> j" "j < GKI_NUM_TOTAL_BUF_POOLS" "sz \<le> fq_size (freeq s i)" "\<not> bit (pool_access_mask s) j"
    and r: "handed_out tid s j (fst (GKI_getbuf malloc tid s sz)) (snd (GKI_getbuf malloc tid s sz))" by metis
  note sizes = default_pools_sizes [OF conf]
  have "i = 7"
    using ij sz sizes ten_cases [of i] by (auto simp: gki_consts)
  then have "j = 9" using ij default_pools_public [OF conf ij(2,4)] by auto
  then show ?thesis using r sz sizes by simp
qed

theorem GKI_getbuf_undersized_witness:
  "fq_size (freeq gki_start 9) < 9000 \<and>
    handed_out 1 gki_start 9 (fst (GKI_getbuf (\<lambda>_ _. 4096) 1 gki_start 9000)) (snd (GKI_getbuf (\<lambda>_ _. 4096) 1 gki_start 9000))"
  using GKI_getbuf_undersized [OF gki_start_inv gki_start_malloc _ _ gki_start_getbuf(2)]
    gki_buffer_init_default [of gki_blank] by (simp add: gki_start_def)

text \<open>C25: when the memory for a pool cannot be allocated, \<open>GKI_getpoolbuf\<close> reports the exception and returns
  null with the mutex still held.\<close>

theorem GKI_getpoolbuf_malloc_failure:
  assumes inv: "gki_inv s fls" and i: "pool_id < GKI_NUM_TOTAL_BUF_POOLS"
    and "pool_start s pool_id = 0" and "\<forall>n. malloc (GKI_disable s) n = 0"
  shows "GKI_getpoolbuf malloc tid s pool_id = (GKI_exception GKI_ERROR_BUF_SIZE_TOOBIG (GKI_disable s), 0)
    \<and> GKI_mutex (fst (GKI_getpoolbuf malloc tid s pool_id)) = GKI_mutex s + 1"
proof -
  note ok = gki_inv_poolD [OF inv i, unfolded pool_ok_def Let_def]
  have "fq_first (freeq s pool_id) = 0" "fq_cur_cnt (freeq s pool_id) < fq_total (freeq s pool_id)"
    using unallocated_empty [OF inv i assms(3)] ok assms(3) by auto
  moreover have "pool_list s ! pool_id = pool_id" using inv i by (simp add: gki_inv_def)
  ultimately show ?thesis
    using i assms(4) by (simp add: GKI_getpoolbuf_def gki_alloc_free_queue_def Let_def)
qed

theorem GKI_getpoolbuf_malloc_failure_witness:
  "GKI_getpoolbuf (\<lambda>_ _. 0) 1 gki_start 2 = (GKI_exception GKI_ERROR_BUF_SIZE_TOOBIG (GKI_disable gki_start), 0)
    \<and> GKI_mutex (fst (GKI_getpoolbuf (\<lambda>_ _. 0) 1 gki_start 2)) = GKI_mutex gki_start + 1"
proof (rule GKI_getpoolbuf_malloc_failure [OF gki_start_inv])
  show p: "2 < GKI_NUM_TOTAL_BUF_POOLS" by (simp add: gki_consts)
  show "pool_start gki_start 2 = 0" unfolding gki_start_def by (rule gki_buffer_init_pool(2) [OF p])
qed simp

lemma pool_list_store_fault: "fault s \<Longrightarrow> fault (pool_list_store j v s)"
  by (simp add: pool_list_store_def)

lemma shift_up_fault: "fault s \<Longrightarrow> fault (shift_up i j s)"
proof (induction i j s rule: shift_up.induct)
  case (1 i j s)
  then show ?case by (subst shift_up.simps) (simp add: pool_list_store_fault)
qed

lemma add_position_le: "add_position s p i n \<le> i + n"
proof (induction n arbitrary: i)
  case (Suc n)
  have "add_position s p (Suc i) n \<le> Suc i + n" by (rule Suc.IH)
  then show ?case by simp
qed simp

lemma add_to_full_list:
  assumes "curr_total_no_of_pools s = GKI_NUM_TOTAL_BUF_POOLS"
  shows "fault (gki_add_to_pool_list s pool_id)"
proof -
  let ?N = GKI_NUM_TOTAL_BUF_POOLS and ?i = "add_position s pool_id 0 GKI_NUM_TOTAL_BUF_POOLS"
  have "?i \<le> ?N" using add_position_le [of s pool_id 0 ?N] by simp
  moreover have "fault (shift_up ?i ?N s)" if "?i < ?N"
    using that by (subst shift_up.simps) (simp add: pool_list_store_def shift_up_fault)
  ultimately show ?thesis
    using assms by (cases "?i = ?N") (simp_all add: gki_add_to_pool_list_def Let_def pool_list_store_def)
qed

lemma unused_pool_found:
  "\<exists>j. i \<le> j \<and> j < i + n \<and> pool_start s j = 0 \<Longrightarrow> unused_pool s i n < i + n"
proof (induction n arbitrary: i)
  case (Suc n)
  show ?case
  proof (cases "pool_start s i = 0")
    case False
    with Suc.prems have "\<exists>j. Suc i \<le> j \<and> j < Suc i + n \<and> pool_start s j = 0"
      by (metis Suc_leI add_Suc_shift le_neq_implies_less)
    from Suc.IH [OF this] False show ?thesis by simp
  qed simp
qed auto

lemma init_free_queue_total [simp]:
  "curr_total_no_of_pools (gki_init_free_queue s i sz n p) = curr_total_no_of_pools s"
  by (simp add: gki_init_free_queue_def Let_def set_hdr_def init_index_table_frame)

text \<open>C26: in the configured system every \<open>GKI_create_pool\<close> that finds a pool without memory writes outside
  \<^verbatim>\<open>pool_list\<close>: a fixed pool that is not allocated yet looks unused, while the list is full.\<close>

theorem GKI_create_pool_overflow:
  assumes inv: "gki_inv s fls" and "sz \<le> MAX_USER_BUF_SIZE"
    and un: "i < GKI_NUM_TOTAL_BUF_POOLS" "pool_start s i = 0" and mem: "p_mem \<noteq> 0"
  shows "fault (fst (GKI_create_pool malloc s sz count permission p_mem))"
proof -
  let ?x = "unused_pool s 0 GKI_NUM_TOTAL_BUF_POOLS"
  have x: "?x < GKI_NUM_TOTAL_BUF_POOLS" using unused_pool_found [of 0 "GKI_NUM_TOTAL_BUF_POOLS" s] un by auto
  have "curr_total_no_of_pools s = GKI_NUM_TOTAL_BUF_POOLS" using inv by (simp add: gki_inv_def)
  then have "fault (gki_add_to_pool_list (gki_init_free_queue s ?x sz count p_mem) ?x)"
    by (intro add_to_full_list) simp
  then show ?thesis
    using assms x by (simp add: GKI_create_pool_def Let_def GKI_set_pool_permission_def)
qed

theorem GKI_create_pool_overflow_witness:
  "fault (fst (GKI_create_pool (\<lambda>_ _. 0) gki_start 64 4 0 4096))"
  using GKI_create_pool_overflow [OF gki_start_inv, of 64 0 4096 "\<lambda>_ _. 0" 4 0]
    gki_buffer_init_pool(2) [of 0 gki_blank]
  by (simp add: gki_consts gki_start_def)

text \<open>\<open>GKI_remove_from_queue\<close> on an empty queue follows the null pointer minus the header size.\<close>

lemma GKI_remove_from_queue_empty_fault:
  "q_first q = 0 \<Longrightarrow> b \<noteq> 0 \<Longrightarrow>
   \<exists>s' q'. GKI_remove_from_queue (s, q) b = Some ((s', q'), 0) \<and> fault s'"
  by (simp add: GKI_remove_from_queue_def Let_def)

text \<open>an address inside buffer \<open>k\<close> of a pool, header or guard word included, is mapped to the start of that buffer.\<close>

theorem GKI_find_buf_start_ok:
  assumes i: "i < GKI_NUM_TOTAL_BUF_POOLS" and k: "k < fq_total (freeq s i)"
    and other: "\<forall>j < GKI_NUM_TOTAL_BUF_POOLS. j \<noteq> i \<longrightarrow> \<not> (pool_start s j < p \<and> p < pool_end s j)"
    and pe: "pool_end s i = pool_start s i + pool_size s i * fq_total (freeq s i)"
    and h: "h = pool_start s i + k * pool_size s i" and p: "h < p" "p < h + pool_size s i"
  shows "GKI_find_buf_start s p = (s, h + BUFFER_HDR_SIZE)"
proof -
  have "Suc k * pool_size s i \<le> fq_total (freeq s i) * pool_size s i" using k by (intro mult_right_mono) auto
  then have inside: "pool_start s i < p" "p < pool_end s i" using p h pe by (auto simp: mult.commute)
  have q: "(p - pool_start s i) div pool_size s i = k"
  proof -
    have "p - pool_start s i = k * pool_size s i + (p - h)" using h p by simp
    moreover have "p - h < pool_size s i" using p by simp
    ultimately show ?thesis by simp
  qed
  have "find_buf_in s p xx n = Some (h + BUFFER_HDR_SIZE)" if "xx \<le> i" "i < xx + n" "xx + n \<le> GKI_NUM_TOTAL_BUF_POOLS" for xx n
    using that
  proof (induction n arbitrary: xx)
    case (Suc n)
    show ?case
    proof (cases "xx = i")
      case True
      then show ?thesis using inside q h by (simp add: Let_def)
    next
      case False
      then have "\<not> (pool_start s xx < p \<and> p < pool_end s xx)" using other Suc.prems by auto
      moreover have "find_buf_in s p (Suc xx) n = Some (h + BUFFER_HDR_SIZE)"
        by (rule Suc.IH) (use Suc.prems False in auto)
      ultimately show ?thesis by auto
    qed
  qed simp
  then have "find_buf_in s p 0 GKI_NUM_TOTAL_BUF_POOLS = Some (h + BUFFER_HDR_SIZE)" using i by simp
  then show ?thesis by (simp add: GKI_find_buf_start_def)
qed

theorem GKI_find_buf_start_ok_witness:
  "\<exists>s. pool_start s 2 = 4096 \<and> pool_size s 2 = 672 \<and> GKI_find_buf_start s 5000 = (s, 4096 + 672 + BUFFER_HDR_SIZE)"
proof -
  let ?s = "gki_blank\<lparr>pool_start := (\<lambda>_. 0)(2 := 4096), pool_end := (\<lambda>_. 0)(2 := 4096 + 672 * 45),
      pool_size := (\<lambda>_. 672), freeq := (\<lambda>_. (freeq gki_blank 2)\<lparr>fq_total := 45\<rparr>)\<rparr>"
  have "GKI_find_buf_start ?s 5000 = (?s, (4096 + 672) + BUFFER_HDR_SIZE)"
    by (rule GKI_find_buf_start_ok [of 2 1]) (simp_all add: gki_consts)
  then show ?thesis by (intro exI [of _ ?s]) simp
qed

section \<open>Reachable states\<close>

inductive gki_reach :: "(gki_com \<Rightarrow> nat \<Rightarrow> addr) \<Rightarrow> gki_com \<Rightarrow> bool" for malloc where
  init: "gki_reach malloc (gki_buffer_init s)"
| getbuf: "gki_reach malloc s \<Longrightarrow> malloc_ok malloc (GKI_disable s) \<Longrightarrow>
    gki_reach malloc (fst (GKI_getbuf malloc tid s sz))"
| getpoolbuf: "gki_reach malloc s \<Longrightarrow> malloc_ok malloc (GKI_disable s) \<Longrightarrow>
    gki_reach malloc (fst (GKI_getpoolbuf malloc tid s pool_id))"
| freebuf: "gki_reach malloc s \<Longrightarrow> i < GKI_NUM_TOTAL_BUF_POOLS \<Longrightarrow> h \<in> pool_hdrs s i \<Longrightarrow>
    gki_reach malloc (GKI_freebuf s (h + BUFFER_HDR_SIZE))"
| enqueue: "gki_reach malloc s \<Longrightarrow> queue_rep (s, q) bs \<Longrightarrow> buf_ready s b \<Longrightarrow>
    gki_reach malloc (fst (GKI_enqueue (s, q) b))"
| dequeue: "gki_reach malloc s \<Longrightarrow> queue_rep (s, q) bs \<Longrightarrow>
    gki_reach malloc (fst (fst (GKI_dequeue (s, q))))"
| send: "gki_reach malloc s \<Longrightarrow> mbox_rep tsk mb s bs \<Longrightarrow> buf_ready s b \<Longrightarrow>
    gki_reach malloc (GKI_send_msg s tsk mb b)"
| read: "gki_reach malloc s \<Longrightarrow> mbox_rep tsk mb s bs \<Longrightarrow>
    gki_reach malloc (fst (GKI_read_mbox tsk s mb))"

lemma getbuf_search_none:
  "gki_inv s fls \<Longrightarrow> snd (getbuf_search malloc tid i n s) = 0 \<Longrightarrow>
   gki_inv (fst (getbuf_search malloc tid i n s)) fls"
proof (induction n arbitrary: i)
  case (Suc n)
  show ?case
  proof (cases "bit (pool_access_mask s) (pool_list s ! i) \<or>
      fq_total (freeq s (pool_list s ! i)) \<le> fq_cur_cnt (freeq s (pool_list s ! i))")
    case True
    then have "getbuf_search malloc tid i (Suc n) s = getbuf_search malloc tid (Suc i) n s"
      by (auto simp: Let_def)
    with Suc show ?thesis by simp
  next
    case False
    with Suc.prems show ?thesis
      by (auto simp: Let_def split_def gki_alloc_free_queue_def BUFFER_HDR_SIZE_def split: if_splits)
  qed
qed simp

lemma handed_out_inv: "handed_out tid s i s' b \<Longrightarrow> \<exists>fls. gki_inv s' fls"
  by (auto simp: handed_out_def)

lemma getbuf_inv:
  assumes inv: "gki_inv s fls" and mal: "malloc_ok malloc (GKI_disable s)"
  shows "\<exists>fls. gki_inv (fst (GKI_getbuf malloc tid s sz)) fls"
proof (cases "snd (GKI_getbuf malloc tid s sz) = 0")
  case True
  have "gki_inv (GKI_disable s) fls" using inv by simp
  from getbuf_search_none [OF this] True inv have "gki_inv (fst (GKI_getbuf malloc tid s sz)) fls"
    by (auto simp: GKI_getbuf_def Let_def split: if_splits)
  then show ?thesis by blast
next
  case False
  then show ?thesis using GKI_getbuf_found [OF inv mal False] handed_out_inv by metis
qed

lemma getpoolbuf_inv:
  assumes inv: "gki_inv s fls" and mal: "malloc_ok malloc (GKI_disable s)"
  shows "\<exists>fls. gki_inv (fst (GKI_getpoolbuf malloc tid s pool_id)) fls"
proof (cases "pool_id < GKI_NUM_TOTAL_BUF_POOLS \<and> fq_cur_cnt (freeq s pool_id) < fq_total (freeq s pool_id)")
  case True
  let ?s0 = "GKI_disable s"
  have inv0: "gki_inv ?s0 fls" and free0: "fq_cur_cnt (freeq ?s0 pool_id) < fq_total (freeq ?s0 pool_id)"
    using inv True by simp_all
  obtain s1 ok where p: "provide malloc ?s0 pool_id = (s1, ok)" by fastforce
  have eq: "fst (GKI_getpoolbuf malloc tid s pool_id) =
      (if ok then own_buffer tid (snd (take_first s1 pool_id)) (GKI_enable (fst (take_first s1 pool_id))) else s1)"
    using True p by (auto simp: GKI_getpoolbuf_def provide_def Let_def split_def split: if_splits)
  show ?thesis
  proof (cases ok)
    case True
    with p have p': "provide malloc ?s0 pool_id = (s1, True)" by simp
    show ?thesis
      using grab(1) [where tid = tid, OF inv0 _ mal free0 p'] handed_out_inv eq True
        \<open>pool_id < GKI_NUM_TOTAL_BUF_POOLS \<and> _\<close> by auto
  next
    case False
    then have "gki_inv s1 fls"
      using p inv0 by (auto simp: provide_def gki_alloc_free_queue_def Let_def split: if_splits)
    then show ?thesis using eq False by auto
  qed
next
  case False
  then show ?thesis
    using getbuf_inv [OF inv mal] inv by (auto simp: GKI_getpoolbuf_def Let_def)
qed

lemma freebuf_pool_inv:
  assumes inv: "gki_inv s fls" and i: "i < GKI_NUM_TOTAL_BUF_POOLS" and h: "h \<in> pool_hdrs s i"
  shows "\<exists>fls. gki_inv (GKI_freebuf s (h + BUFFER_HDR_SIZE)) fls"
proof (cases "status (hdr s h) = BUF_STATUS_UNLINKED")
  case True
  then show ?thesis using freebuf_inv(1) [OF inv i h] by blast
next
  case False
  then have "GKI_freebuf s (h + BUFFER_HDR_SIZE) = GKI_exception GKI_ERROR_FREEBUF_BUF_LINKED s"
    using pool_buf_not_damaged(1) [OF gki_inv_poolD [OF inv i] h i]
    by (simp add: GKI_freebuf_def Let_def BUFFER_HDR_SIZE_def)
  then show ?thesis using inv by auto
qed

lemma gki_reach_inv: "gki_reach malloc s \<Longrightarrow> \<exists>fls. gki_inv s fls"
proof (induction rule: gki_reach.induct)
  case (init s)
  then show ?case using gki_buffer_init_inv by blast
next
  case (getbuf s tid sz)
  then show ?case using getbuf_inv by blast
next
  case (getpoolbuf s tid pool_id)
  then show ?case using getpoolbuf_inv by blast
next
  case (freebuf s i h)
  then show ?case using freebuf_pool_inv by blast
next
  case (enqueue s q bs b)
  then show ?case using enqueue_pool_inv by blast
next
  case (dequeue s q bs)
  then show ?case using dequeue_pool_inv by blast
next
  case (send s tsk mb bs b)
  then show ?case using send_pool_inv by blast
next
  case (read s tsk mb bs)
  then show ?case using read_pool_inv by blast
qed

lemma inv_free_count:
  assumes inv: "gki_inv s fls" and i: "i < GKI_NUM_TOTAL_BUF_POOLS" and al: "pool_start s i \<noteq> 0"
  shows "GKI_poolfreecount s i = card {h \<in> pool_hdrs s i. status (hdr s h) = BUF_STATUS_FREE}"
proof -
  note ok = gki_inv_poolD [OF inv i, unfolded pool_ok_def Let_def]
  have "{h \<in> pool_hdrs s i. status (hdr s h) = BUF_STATUS_FREE} = set (fls i)" using ok by auto
  moreover have "distinct (fls i)" using ok chain_distinct by blast
  moreover have "fq_cur_cnt (freeq s i) + length (fls i) = fq_total (freeq s i)" "fq_total (freeq s i) < 65536"
    using ok al by auto
  moreover have "(int (fq_total (freeq s i)) - int (fq_cur_cnt (freeq s i))) mod 65536 = int (length (fls i))"
    using calculation(3,4) by (simp add: of_nat_diff algebra_simps)
  ultimately show ?thesis using i by (simp add: GKI_poolfreecount_def distinct_card)
qed

text \<open>C6: in every state reachable from initialisation by allocating, releasing, queueing and
  sending buffers, the free count of an allocated pool is the number of its buffers marked free.\<close>

theorem GKI_pool_accounting:
  assumes "gki_reach malloc s" and "i < GKI_NUM_TOTAL_BUF_POOLS" and "pool_start s i \<noteq> 0"
  shows "GKI_poolfreecount s i = card {h \<in> pool_hdrs s i. status (hdr s h) = BUF_STATUS_FREE}"
  using gki_reach_inv [OF assms(1)] inv_free_count assms(2,3) by blast

lemma gki_start_took:
  obtains h fls where "gki_inv (fst (GKI_getpoolbuf (\<lambda>_ _. 4096) 1 gki_start 2)) fls"
    "h \<in> pool_hdrs (fst (GKI_getpoolbuf (\<lambda>_ _. 4096) 1 gki_start 2)) 2"
    "status (hdr (fst (GKI_getpoolbuf (\<lambda>_ _. 4096) 1 gki_start 2)) h) = BUF_STATUS_UNLINKED"
proof -
  have p: "2 < GKI_NUM_TOTAL_BUF_POOLS" by (simp add: gki_consts)
  have "fq_cur_cnt (freeq gki_start 2) < fq_total (freeq gki_start 2)"
    unfolding gki_start_def using gki_buffer_init_pool(1) [OF p, of gki_blank] by (simp add: fixed_pools_defs)
  from getpoolbuf_hands_out [OF gki_start_inv gki_start_malloc p this, of 1] show thesis
    using that by (auto simp: handed_out_def)
qed

theorem GKI_pool_accounting_witness:
  "GKI_poolfreecount (fst (GKI_getpoolbuf (\<lambda>_ _. 4096) 1 gki_start 2)) 2 =
   card {h \<in> pool_hdrs (fst (GKI_getpoolbuf (\<lambda>_ _. 4096) 1 gki_start 2)) 2.
     status (hdr (fst (GKI_getpoolbuf (\<lambda>_ _. 4096) 1 gki_start 2)) h) = BUF_STATUS_FREE}"
proof (rule GKI_pool_accounting)
  show "gki_reach (\<lambda>_ _. 4096) (fst (GKI_getpoolbuf (\<lambda>_ _. 4096) 1 gki_start 2))"
    using gki_start_malloc unfolding gki_start_def by (intro gki_reach.getpoolbuf gki_reach.init)
  show "pool_start (fst (GKI_getpoolbuf (\<lambda>_ _. 4096) 1 gki_start 2)) 2 \<noteq> 0"
    by (rule gki_start_took) (metis empty_iff pool_hdrs_def)
qed (simp add: gki_consts)

text \<open>C11: releasing an unlinked buffer puts it at the end of its pool's free queue and raises the free
  count by one; releasing it a second time changes nothing and reports a linked buffer.\<close>

theorem GKI_freebuf_once:
  assumes "gki_inv s fls" and "i < GKI_NUM_TOTAL_BUF_POOLS" and "h \<in> pool_hdrs s i"
    and "status (hdr s h) = BUF_STATUS_UNLINKED"
  shows "gki_inv (GKI_freebuf s (h + BUFFER_HDR_SIZE)) (fls(i := fls i @ [h]))
    \<and> GKI_poolfreecount (GKI_freebuf s (h + BUFFER_HDR_SIZE)) i = GKI_poolfreecount s i + 1
    \<and> GKI_freebuf (GKI_freebuf s (h + BUFFER_HDR_SIZE)) (h + BUFFER_HDR_SIZE)
        = GKI_exception GKI_ERROR_FREEBUF_BUF_LINKED (GKI_freebuf s (h + BUFFER_HDR_SIZE))"
proof -
  let ?s = "GKI_freebuf s (h + BUFFER_HDR_SIZE)"
  note fr = freebuf_inv [OF assms]
  have b: "fq_cur_cnt (freeq s i) \<le> fq_total (freeq s i)" "fq_total (freeq s i) < 65536"
    using gki_inv_poolD [OF assms(1,2)] by (auto simp: pool_ok_def Let_def)
  have cnt: "GKI_poolfreecount t i = fq_total (freeq t i) - fq_cur_cnt (freeq t i)"
    if "fq_cur_cnt (freeq t i) \<le> fq_total (freeq t i)" "fq_total (freeq t i) < 65536" for t
  proof -
    have "(int (fq_total (freeq t i)) - int (fq_cur_cnt (freeq t i))) mod 65536
        = int (fq_total (freeq t i) - fq_cur_cnt (freeq t i))"
      using that by (simp add: of_nat_diff)
    then show ?thesis using assms(2) by (simp add: GKI_poolfreecount_def)
  qed
  have "GKI_poolfreecount ?s i = GKI_poolfreecount s i + 1"
    using cnt [of s] cnt [of ?s] b fr(3,7) by linarith
  with fr(1) GKI_freebuf_twice [OF assms] show ?thesis by simp
qed

theorem GKI_freebuf_once_witness:
  "\<exists>s h. GKI_poolfreecount (GKI_freebuf s (h + BUFFER_HDR_SIZE)) 2 = GKI_poolfreecount s 2 + 1
    \<and> GKI_freebuf (GKI_freebuf s (h + BUFFER_HDR_SIZE)) (h + BUFFER_HDR_SIZE)
        = GKI_exception GKI_ERROR_FREEBUF_BUF_LINKED (GKI_freebuf s (h + BUFFER_HDR_SIZE))"
proof -
  obtain h fls where "gki_inv (fst (GKI_getpoolbuf (\<lambda>_ _. 4096) 1 gki_start 2)) fls"
    "h \<in> pool_hdrs (fst (GKI_getpoolbuf (\<lambda>_ _. 4096) 1 gki_start 2)) 2"
    "status (hdr (fst (GKI_getpoolbuf (\<lambda>_ _. 4096) 1 gki_start 2)) h) = BUF_STATUS_UNLINKED"
    by (rule gki_start_took)
  from GKI_freebuf_once [OF this(1) _ this(2,3)] show ?thesis
    by (auto simp: gki_consts)
qed

end
