(* ===== verification/Gki_Time.thy ===== *)
theory Gki_Time
  imports Gki_Buffer
begin

text \<open>
  The timers of the kernel layer, \<^verbatim>\<open>gki/common/gki_time.c\<close>: three general-purpose timers per task,
  driven by \<open>GKI_timer_update\<close>, and timer lists, doubly linked lists of entries whose ticks are
  relative to the entry before.

  The control block is the one of the buffer manager with the timer fields added.  The arrays
  \<^verbatim>\<open>OSTaskTmr0 .. OSTaskTmr2\<close> and their reload arrays are one function of the timer number and the
  task.  INT32 values are integers: the C code leaves their overflow undefined, and the properties
  of the timer lists include that the ticks stay within the type.  \<open>tle\<close> and \<open>tlq\<close> are the memory of
  timer list entries and timer list queues.  The registered tick callback is code of the client:
  \<open>p_tick_cb\<close> says whether there is one, \<open>tick_calls\<close> records the arguments it is called with.
\<close>

section \<open>Data\<close>

record timer_list_ent =
  t_next :: addr
  t_prev :: addr
  ticks :: int
  in_use :: bool

record timer_list_q =
  tq_first :: addr
  tq_last :: addr
  last_ticks :: int

record gki_cb = gki_com +
  OSTicks :: u32
  OSTicksTilExp :: int
  OSTicksTilStop :: nat
  OSNumOrigTicks :: int
  OSWaitTmr :: "nat \<Rightarrow> int"
  OSTaskTmr :: "nat \<Rightarrow> nat \<Rightarrow> int"
  OSTaskTmrR :: "nat \<Rightarrow> nat \<Rightarrow> int"
  timer_nesting :: bool
  timer_queues :: "addr list"
  p_tick_cb :: bool
  system_tick_running :: bool
  tick_calls :: "bool list"
  tle :: "addr \<Rightarrow> timer_list_ent"
  tlq :: "addr \<Rightarrow> timer_list_q"

definition GKI_NUM_TIMERS :: nat where "GKI_NUM_TIMERS = 3"
definition GKI_MAX_TIMER_QUEUES :: nat where "GKI_MAX_TIMER_QUEUES = 3"
definition GKI_DELAY_STOP_SYS_TICK :: nat where "GKI_DELAY_STOP_SYS_TICK = 10"
definition GKI_NO_NEW_TMRS_STARTED :: int where "GKI_NO_NEW_TMRS_STARTED = 0x7fffffff"
definition GKI_UNUSED_LIST_ENTRY :: int where "GKI_UNUSED_LIST_ENTRY = - 0x80000000"
definition GKI_MAX_INT32 :: int where "GKI_MAX_INT32 = 0x7fffffff"
definition TASK_READY :: nat where "TASK_READY = 1"

lemmas timer_consts = GKI_NUM_TIMERS_def GKI_MAX_TIMER_QUEUES_def GKI_DELAY_STOP_SYS_TICK_def
  GKI_NO_NEW_TMRS_STARTED_def GKI_UNUSED_LIST_ENTRY_def GKI_MAX_INT32_def TASK_READY_def

text \<open>\<^verbatim>\<open>TIMER_0_EVT_MASK = 0x0010\<close> to \<^verbatim>\<open>TIMER_2_EVT_MASK = 0x0040\<close>.\<close>

definition TIMER_EVT_MASK :: "nat \<Rightarrow> u16" where
  "TIMER_EVT_MASK tnum = push_bit (4 + tnum) 1"

section \<open>Task timers\<close>

definition gki_timers_init :: "gki_cb \<Rightarrow> gki_cb" where
  "gki_timers_init s =
     s\<lparr>OSTicksTilExp := 0, OSNumOrigTicks := 0, OSTicksTilStop := 0,
       OSWaitTmr := (\<lambda>tt. if tt < GKI_MAX_TASKS then 0 else OSWaitTmr s tt),
       OSTaskTmr := (\<lambda>k tt. if k < GKI_NUM_TIMERS \<and> tt < GKI_MAX_TASKS then 0 else OSTaskTmr s k tt),
       OSTaskTmrR := (\<lambda>k tt. if k < GKI_NUM_TIMERS \<and> tt < GKI_MAX_TASKS then 0 else OSTaskTmrR s k tt),
       timer_queues := replicate GKI_MAX_TIMER_QUEUES 0,
       p_tick_cb := False, system_tick_running := False\<rparr>"

definition gki_timers_is_timer_running :: "gki_cb \<Rightarrow> bool" where
  "gki_timers_is_timer_running s =
     list_ex (\<lambda>tt. list_ex (\<lambda>k. OSTaskTmr s k tt \<noteq> 0) [0..<GKI_NUM_TIMERS]) [0..<GKI_MAX_TASKS]"

definition GKI_get_tick_count :: "gki_cb \<Rightarrow> u32" where
  "GKI_get_tick_count s = OSTicks s"

definition GKI_ready_to_sleep :: "gki_cb \<Rightarrow> int" where
  "GKI_ready_to_sleep s = OSTicksTilExp s"

definition gki_adjust_timer_count :: "gki_cb \<Rightarrow> int \<Rightarrow> gki_cb" where
  "gki_adjust_timer_count s t =
     (if t > 0 \<and> (OSNumOrigTicks s = 0 \<or> (t < OSTicksTilExp s \<and> OSTicksTilExp s > 0))
      then s\<lparr>OSNumOrigTicks := (OSNumOrigTicks s - OSTicksTilExp s) + t, OSTicksTilExp := t\<rparr>
      else s)"

definition set_task_timer :: "nat \<Rightarrow> nat \<Rightarrow> int \<Rightarrow> int \<Rightarrow> gki_cb \<Rightarrow> gki_cb" where
  "set_task_timer tnum tid reload t s =
     (if tid < GKI_MAX_TASKS
      then s\<lparr>OSTaskTmrR := (OSTaskTmrR s)(tnum := (OSTaskTmrR s tnum)(tid := reload)),
             OSTaskTmr := (OSTaskTmr s)(tnum := (OSTaskTmr s tnum)(tid := t))\<rparr>
      else s\<lparr>fault := True\<rparr>)"

definition call_tick_cb :: "bool \<Rightarrow> gki_cb \<Rightarrow> gki_cb" where
  "call_tick_cb on s =
     (if p_tick_cb s then s\<lparr>system_tick_running := on, tick_calls := tick_calls s @ [on]\<rparr> else s)"

definition GKI_start_timer :: "nat \<Rightarrow> gki_cb \<Rightarrow> nat \<Rightarrow> int \<Rightarrow> bool \<Rightarrow> gki_cb" where
  "GKI_start_timer tid s tnum t0 is_continuous =
     (let t = (if t0 \<le> 0 then 1 else t0);
          orig_ticks = t;
          reload = (if is_continuous then t else 0);
          s0 = GKI_disable s;
          s1 = (if \<not> gki_timers_is_timer_running s0
                then if OSTicksTilStop s0 = 0 then call_tick_cb True s0
                     else s0\<lparr>OSTicksTilStop := 0\<rparr>
                else s0);
          t1 = (if GKI_MAX_INT32 - (OSNumOrigTicks s1 - OSTicksTilExp s1) > t
                then t + (OSNumOrigTicks s1 - OSTicksTilExp s1) else GKI_MAX_INT32);
          s2 = (if tnum < GKI_NUM_TIMERS
                then gki_adjust_timer_count (set_task_timer tnum tid reload t1 s1) orig_ticks
                else s1)
      in GKI_enable s2)"

definition GKI_stop_timer :: "nat \<Rightarrow> gki_cb \<Rightarrow> nat \<Rightarrow> gki_cb" where
  "GKI_stop_timer tid s tnum =
     (let s0 = (if tnum < GKI_NUM_TIMERS then set_task_timer tnum tid 0 0 s else s);
          s1 = GKI_disable s0;
          s2 = (if \<not> gki_timers_is_timer_running s1 \<and> p_tick_cb s1 \<and>
                   system_tick_running s1 \<and> OSTicksTilStop s1 = 0
                then s1\<lparr>OSTicksTilStop := GKI_DELAY_STOP_SYS_TICK\<rparr> else s1)
      in GKI_enable s2)"

text \<open>The body of the loop of \<open>GKI_timer_update\<close>: the wait timer of a task, and one of its timers.  The
  second component is \<open>next_expiration\<close>.\<close>

definition update_wait_timer :: "nat \<Rightarrow> gki_cb \<Rightarrow> gki_cb" where
  "update_wait_timer tid s =
     (if OSWaitTmr s tid > 0
      then let s1 = s\<lparr>OSWaitTmr := (OSWaitTmr s)(tid := OSWaitTmr s tid - OSNumOrigTicks s)\<rparr>
           in if OSWaitTmr s1 tid \<le> 0 then s1\<lparr>OSRdyTbl := (OSRdyTbl s1)(tid := TASK_READY)\<rparr> else s1
      else s)"

definition update_task_timer :: "nat \<Rightarrow> nat \<Rightarrow> gki_cb \<times> int \<Rightarrow> gki_cb \<times> int" where
  "update_task_timer k tid sn =
     (let (s, next_expiration) = sn;
          s2 = (if OSTaskTmr s k tid > 0
                then let s1 = s\<lparr>OSTaskTmr := (OSTaskTmr s)(k := (OSTaskTmr s k)
                                  (tid := OSTaskTmr s k tid - OSNumOrigTicks s))\<rparr>
                     in if OSTaskTmr s1 k tid \<le> 0
                        then GKI_send_event
                               (s1\<lparr>OSTaskTmr := (OSTaskTmr s1)(k := (OSTaskTmr s1 k)
                                  (tid := OSTaskTmrR s1 k tid))\<rparr>) tid (TIMER_EVT_MASK k)
                        else s1
                else s)
      in (s2, if OSTaskTmr s2 k tid > 0 \<and> OSTaskTmr s2 k tid < next_expiration
              then OSTaskTmr s2 k tid else next_expiration))"

definition update_task :: "nat \<Rightarrow> gki_cb \<times> int \<Rightarrow> gki_cb \<times> int" where
  "update_task tid sn =
     update_task_timer 2 tid (update_task_timer 1 tid (update_task_timer 0 tid
       (update_wait_timer tid (fst sn), snd sn)))"

definition GKI_timer_update :: "gki_cb \<Rightarrow> int \<Rightarrow> gki_cb" where
  "GKI_timer_update s n =
     (let s0 = s\<lparr>OSTicks := OSTicks s + of_int n, OSTicksTilExp := OSTicksTilExp s - n\<rparr> in
      if timer_nesting s0 then s0
      else let s1 = s0\<lparr>timer_nesting := True\<rparr> in
        if OSTicksTilStop s1 \<noteq> 0 \<and> OSTicksTilStop s1 \<le> nat (n mod 2 ^ 32)
        then (call_tick_cb False s1)\<lparr>OSTicksTilStop := 0, timer_nesting := False\<rparr>
        else let s2 = (if OSTicksTilStop s1 \<noteq> 0
                       then s1\<lparr>OSTicksTilStop := OSTicksTilStop s1 - nat (n mod 2 ^ 32)\<rparr> else s1) in
          if OSTicksTilExp s2 > 0 then s2\<lparr>timer_nesting := False\<rparr>
          else let s3 = s2\<lparr>OSNumOrigTicks := OSNumOrigTicks s2 - OSTicksTilExp s2\<rparr>;
                   (s4, next_expiration) =
                     fold update_task [0..<GKI_MAX_TASKS] (s3, GKI_NO_NEW_TMRS_STARTED);
                   x = (if next_expiration < GKI_NO_NEW_TMRS_STARTED then next_expiration else 0)
               in s4\<lparr>OSTicksTilExp := x, OSNumOrigTicks := x, timer_nesting := False\<rparr>)"

section \<open>Timer lists\<close>

definition GKI_timer_queue_empty :: "gki_cb \<Rightarrow> bool" where
  "GKI_timer_queue_empty s = list_all (\<lambda>tt. timer_queues s ! tt = 0) [0..<GKI_MAX_TIMER_QUEUES]"

definition GKI_timer_queue_register_callback :: "gki_cb \<Rightarrow> bool \<Rightarrow> gki_cb" where
  "GKI_timer_queue_register_callback s p_callback = s\<lparr>p_tick_cb := p_callback\<rparr>"

definition set_tle :: "addr \<Rightarrow> (timer_list_ent \<Rightarrow> timer_list_ent) \<Rightarrow> gki_cb \<Rightarrow> gki_cb" where
  "set_tle a f s = s\<lparr>tle := (tle s)(a := f (tle s a))\<rparr>"

definition set_tlq :: "addr \<Rightarrow> (timer_list_q \<Rightarrow> timer_list_q) \<Rightarrow> gki_cb \<Rightarrow> gki_cb" where
  "set_tlq a f s = s\<lparr>tlq := (tlq s)(a := f (tlq s a))\<rparr>"

definition GKI_init_timer_list :: "gki_cb \<Rightarrow> addr \<Rightarrow> gki_cb" where
  "GKI_init_timer_list s q = set_tlq q (\<lambda>x. x\<lparr>tq_first := 0, tq_last := 0, last_ticks := 0\<rparr>) s"

definition GKI_init_timer_list_entry :: "gki_cb \<Rightarrow> addr \<Rightarrow> gki_cb" where
  "GKI_init_timer_list_entry s p_tle =
     set_tle p_tle (\<lambda>e. e\<lparr>t_next := 0, t_prev := 0, ticks := GKI_UNUSED_LIST_ENTRY, in_use := False\<rparr>) s"

text \<open>
  The loops over a timer list follow pointers and need not end on a damaged list, so they are
  partial: \<open>None\<close> is a loop that does not end.
\<close>

partial_function (option) skip_timed_out :: "gki_cb \<Rightarrow> addr \<Rightarrow> nat \<Rightarrow> (addr \<times> nat) option" where
  "skip_timed_out s p_tle num_time_out =
     (if p_tle \<noteq> 0 \<and> ticks (tle s p_tle) \<le> 0
      then skip_timed_out s (t_next (tle s p_tle)) ((num_time_out + 1) mod 65536)
      else Some (p_tle, num_time_out))"

partial_function (option) adjust_entries ::
  "gki_cb \<Rightarrow> addr \<Rightarrow> int \<Rightarrow> nat \<Rightarrow> (gki_cb \<times> nat) option" where
  "adjust_entries s p_tle rem_ticks num_time_out =
     (if p_tle \<noteq> 0 \<and> rem_ticks > 0
      then let temp_ticks = ticks (tle s p_tle);
               s1 = set_tle p_tle (\<lambda>e. e\<lparr>ticks := ticks e - rem_ticks\<rparr>) s;
               expired = ticks (tle s1 p_tle) \<le> 0;
               s2 = (if expired then set_tle p_tle (\<lambda>e. e\<lparr>ticks := 0\<rparr>) s1 else s1)
           in adjust_entries s2 (t_next (tle s2 p_tle)) (rem_ticks - temp_ticks)
                (if expired then (num_time_out + 1) mod 65536 else num_time_out)
      else Some (s, num_time_out))"

definition GKI_update_timer_list :: "gki_cb \<Rightarrow> addr \<Rightarrow> int \<Rightarrow> (gki_cb \<times> nat) option" where
  "GKI_update_timer_list s q n =
     (case skip_timed_out s (tq_first (tlq s q)) 0 of
        None \<Rightarrow> None
      | Some (p_tle, c) \<Rightarrow>
          (case adjust_entries s p_tle n c of
             None \<Rightarrow> None
           | Some (s1, num_time_out) \<Rightarrow>
               Some (if last_ticks (tlq s1 q) > 0
                     then set_tlq q (\<lambda>x. x\<lparr>last_ticks :=
                            (if last_ticks x - n < 0 then 0 else last_ticks x - n)\<rparr>) s1
                     else s1, num_time_out)))"

partial_function (option) sum_until :: "gki_cb \<Rightarrow> addr \<Rightarrow> addr \<Rightarrow> u32 \<Rightarrow> (addr \<times> u32) option" where
  "sum_until s p_target_tle p_tle rem_ticks =
     (if p_tle \<noteq> 0 \<and> p_tle \<noteq> p_target_tle
      then sum_until s p_target_tle (t_next (tle s p_tle)) (rem_ticks + of_int (ticks (tle s p_tle)))
      else Some (p_tle, rem_ticks))"

definition GKI_get_remaining_ticks :: "gki_cb \<Rightarrow> addr \<Rightarrow> addr \<Rightarrow> u32 option" where
  "GKI_get_remaining_ticks s q p_target_tle =
     (if in_use (tle s p_target_tle)
      then (case sum_until s p_target_tle (tq_first (tlq s q)) 0 of
              None \<Rightarrow> None
            | Some (p_tle, rem_ticks) \<Rightarrow>
                Some (if p_tle = p_target_tle then rem_ticks + of_int (ticks (tle s p_tle)) else 0))
      else Some 0)"

text \<open>The search loop of \<open>GKI_add_to_timer_list\<close>.  It reads and writes the ticks of the new entry in
  place; address \<open>0\<close> is the null pointer it follows when the list is too short.\<close>

partial_function (option) find_successor :: "gki_cb \<Rightarrow> addr \<Rightarrow> addr \<Rightarrow> (gki_cb \<times> addr) option" where
  "find_successor s p_tle p_temp =
     (if p_temp = 0 then Some (s\<lparr>fault := True\<rparr>, 0)
      else if ticks (tle s p_tle) > ticks (tle s p_temp)
      then let s1 = (if ticks (tle s p_temp) > 0
                     then set_tle p_tle (\<lambda>e. e\<lparr>ticks := ticks e - ticks (tle s p_temp)\<rparr>) s else s)
           in find_successor s1 p_tle (t_next (tle s1 p_temp))
      else Some (s, p_temp))"

definition add_last :: "gki_cb \<Rightarrow> addr \<Rightarrow> addr \<Rightarrow> gki_cb" where
  "add_last s q p_tle =
     (let s1 = (if tq_first (tlq s q) = 0 then set_tlq q (\<lambda>x. x\<lparr>tq_first := p_tle\<rparr>) s
                else let s0 = (if tq_last (tlq s q) \<noteq> 0
                               then set_tle (tq_last (tlq s q)) (\<lambda>e. e\<lparr>t_next := p_tle\<rparr>) s else s)
                     in set_tle p_tle (\<lambda>e. e\<lparr>t_prev := tq_last (tlq s0 q)\<rparr>) s0);
          s2 = set_tle p_tle (\<lambda>e. e\<lparr>t_next := 0\<rparr>) s1;
          s3 = set_tlq q (\<lambda>x. x\<lparr>tq_last := p_tle\<rparr>) s2;
          nr_ticks_total = ticks (tle s3 p_tle);
          s4 = set_tle p_tle (\<lambda>e. e\<lparr>ticks := ticks e - last_ticks (tlq s3 q)\<rparr>) s3
      in set_tlq q (\<lambda>x. x\<lparr>last_ticks := nr_ticks_total\<rparr>) s4)"

definition link_before :: "gki_cb \<Rightarrow> addr \<Rightarrow> addr \<Rightarrow> addr \<Rightarrow> gki_cb" where
  "link_before s q p_tle p_temp =
     (let s1 = (if p_temp = tq_first (tlq s q)
                then let s0 = set_tle p_tle (\<lambda>e. e\<lparr>t_next := tq_first (tlq s q)\<rparr>) s;
                         s0' = set_tle (tq_first (tlq s0 q)) (\<lambda>e. e\<lparr>t_prev := p_tle\<rparr>) s0
                     in set_tlq q (\<lambda>x. x\<lparr>tq_first := p_tle\<rparr>) s0'
                else let a = set_tle (t_prev (tle s p_temp)) (\<lambda>e. e\<lparr>t_next := p_tle\<rparr>) s;
                         b = set_tle p_tle (\<lambda>e. e\<lparr>t_prev := t_prev (tle a p_temp)\<rparr>) a;
                         c = set_tle p_temp (\<lambda>e. e\<lparr>t_prev := p_tle\<rparr>) b
                     in set_tle p_tle (\<lambda>e. e\<lparr>t_next := p_temp\<rparr>) c)
      in set_tle p_temp (\<lambda>e. e\<lparr>ticks := ticks e - ticks (tle s1 p_tle)\<rparr>) s1)"

fun queue_slot :: "addr \<Rightarrow> addr list \<Rightarrow> nat" where
  "queue_slot a [] = 0"
| "queue_slot a (x # xs) = (if x = a then 0 else Suc (queue_slot a xs))"

definition register_queue :: "gki_cb \<Rightarrow> addr \<Rightarrow> gki_cb" where
  "register_queue s q =
     (if queue_slot q (timer_queues s) < GKI_MAX_TIMER_QUEUES then s
      else if queue_slot 0 (timer_queues s) < GKI_MAX_TIMER_QUEUES
      then s\<lparr>timer_queues := (timer_queues s)[queue_slot 0 (timer_queues s) := q]\<rparr> else s)"

definition GKI_add_to_timer_list :: "gki_cb \<Rightarrow> addr \<Rightarrow> addr \<Rightarrow> gki_cb option" where
  "GKI_add_to_timer_list s q p_tle =
     (if ticks (tle s p_tle) \<ge> 0
      then (case (if ticks (tle s p_tle) \<ge> last_ticks (tlq s q) then Some (add_last s q p_tle)
                  else (case find_successor s p_tle (tq_first (tlq s q)) of
                          None \<Rightarrow> None
                        | Some (s1, p_temp) \<Rightarrow> Some (link_before s1 q p_tle p_temp))) of
              None \<Rightarrow> None
            | Some s2 \<Rightarrow> Some (register_queue (set_tle p_tle (\<lambda>e. e\<lparr>in_use := True\<rparr>) s2) q))
      else Some s)"

text \<open>The unlinking step of \<open>GKI_remove_from_timer_list\<close>; \<open>Inl\<close> is its return on a damaged chain.\<close>

definition unlink_tle :: "gki_cb \<Rightarrow> addr \<Rightarrow> addr \<Rightarrow> gki_cb + gki_cb" where
  "unlink_tle s q p_tle =
     (if tq_first (tlq s q) = p_tle
      then let s1 = set_tlq q (\<lambda>x. x\<lparr>tq_first := t_next (tle s p_tle)\<rparr>) s;
               s2 = (if tq_first (tlq s1 q) \<noteq> 0
                     then set_tle (tq_first (tlq s1 q)) (\<lambda>e. e\<lparr>t_prev := 0\<rparr>) s1 else s1);
               s3 = (if tq_last (tlq s2 q) = p_tle then set_tlq q (\<lambda>x. x\<lparr>tq_last := 0\<rparr>) s2 else s2)
           in Inr s3
      else if tq_last (tlq s q) = p_tle
      then let s1 = set_tlq q (\<lambda>x. x\<lparr>tq_last := t_prev (tle s p_tle)\<rparr>) s
           in Inr (if tq_last (tlq s1 q) \<noteq> 0
                   then set_tle (tq_last (tlq s1 q)) (\<lambda>e. e\<lparr>t_next := 0\<rparr>) s1 else s1)
      else let nx = t_next (tle s p_tle) in
        if nx \<noteq> 0 \<and> t_prev (tle s nx) = p_tle
        then let s1 = set_tle nx (\<lambda>e. e\<lparr>t_prev := t_prev (tle s p_tle)\<rparr>) s;
                 pv = t_prev (tle s1 p_tle)
             in if pv \<noteq> 0 \<and> t_next (tle s1 pv) = p_tle
                then Inr (set_tle pv (\<lambda>e. e\<lparr>t_next := t_next (tle s1 p_tle)\<rparr>) s1)
                else Inl s1
        else Inl s)"

definition GKI_remove_from_timer_list :: "gki_cb \<Rightarrow> addr \<Rightarrow> addr \<Rightarrow> gki_cb" where
  "GKI_remove_from_timer_list s q p_tle =
     (if p_tle = 0 \<or> \<not> in_use (tle s p_tle) \<or> tq_first (tlq s q) = 0 then s
      else let s1 = (if t_next (tle s p_tle) \<noteq> 0
                     then set_tle (t_next (tle s p_tle)) (\<lambda>e. e\<lparr>ticks := ticks e + ticks (tle s p_tle)\<rparr>) s
                     else set_tlq q (\<lambda>x. x\<lparr>last_ticks := last_ticks x - ticks (tle s p_tle)\<rparr>) s)
           in (case unlink_tle s1 q p_tle of
                 Inl s2 \<Rightarrow> s2
               | Inr s2 \<Rightarrow>
                   let s3 = set_tle p_tle (\<lambda>e. e\<lparr>t_next := 0, t_prev := 0,
                              ticks := GKI_UNUSED_LIST_ENTRY, in_use := False\<rparr>) s2
                   in if tq_first (tlq s3 q) = 0 \<and> tq_last (tlq s3 q) = 0 \<and>
                         queue_slot q (timer_queues s3) < GKI_MAX_TIMER_QUEUES
                      then s3\<lparr>timer_queues := (timer_queues s3)
                                [queue_slot q (timer_queues s3) := 0]\<rparr>
                      else s3))"

end
