(* ===== verification/Gki_Timer_List.thy ===== *)
theory Gki_Timer_List
  imports Gki_Time
begin

text \<open>
  Timer lists are countdown timers.  A list keeps the ticks of an entry relative to the entry before,
  and the operations of \<^verbatim>\<open>gki_time.c\<close> move differences between neighbours; seen from outside each
  entry has its own remaining time, which only \<open>GKI_update_timer_list\<close> changes.  The outside view is
  the interface \<open>timer_service\<close>, a map from entries to remaining ticks; it is interpreted on the
  linked lists, and the properties follow from what is proved of the interface.
\<close>

section \<open>The interface\<close>

datatype timer_op = Start addr int | Stop addr | Tick int

text \<open>What the operations mean for the map from running timers to remaining ticks.\<close>

fun countdown :: "(addr \<rightharpoonup> int) \<Rightarrow> timer_op \<Rightarrow> (addr \<rightharpoonup> int)" where
  "countdown m (Start e t) = m(e \<mapsto> t)"
| "countdown m (Stop e) = m(e := None)"
| "countdown m (Tick n) = (\<lambda>e. map_option (\<lambda>r. max 0 (r - n)) (m e))"

text \<open>Which operations a client may call: it starts entries that are not running, with a time that an
  INT32 holds, and stops running ones.\<close>

fun timer_legal :: "addr set \<Rightarrow> (addr \<rightharpoonup> int) \<Rightarrow> timer_op \<Rightarrow> bool" where
  "timer_legal U m (Start e t) \<longleftrightarrow> e \<in> U \<and> m e = None \<and> 0 \<le> t \<and> t \<le> GKI_MAX_INT32"
| "timer_legal U m (Stop e) \<longleftrightarrow> e \<in> U \<and> m e \<noteq> None"
| "timer_legal U m (Tick n) \<longleftrightarrow> 0 \<le> n"

fun all_legal :: "addr set \<Rightarrow> (addr \<rightharpoonup> int) \<Rightarrow> timer_op list \<Rightarrow> bool" where
  "all_legal U m [] \<longleftrightarrow> True"
| "all_legal U m (op # ops) \<longleftrightarrow> timer_legal U m op \<and> all_legal U (countdown m op) ops"

fun run_ops :: "('s \<Rightarrow> 'o \<Rightarrow> 's option) \<Rightarrow> 's \<Rightarrow> 'o list \<Rightarrow> 's option" where
  "run_ops step s [] = Some s"
| "run_ops step s (op # ops) = (case step s op of None \<Rightarrow> None | Some s' \<Rightarrow> run_ops step s' ops)"

locale timer_service =
  fixes valid :: "'s \<Rightarrow> (addr \<rightharpoonup> int) \<Rightarrow> bool"
    and fresh :: "'s \<Rightarrow> addr \<Rightarrow> bool"
    and step :: "'s \<Rightarrow> timer_op \<Rightarrow> 's option"
  assumes start: "valid s m \<Longrightarrow> fresh s e \<Longrightarrow> 0 \<le> t \<Longrightarrow> t \<le> GKI_MAX_INT32 \<Longrightarrow>
      \<exists>s'. step s (Start e t) = Some s' \<and> valid s' (m(e \<mapsto> t)) \<and> (\<forall>x. x \<noteq> e \<longrightarrow> fresh s x \<longrightarrow> fresh s' x)"
    and stop: "valid s m \<Longrightarrow> m e \<noteq> None \<Longrightarrow>
      \<exists>s'. step s (Stop e) = Some s' \<and> valid s' (m(e := None)) \<and> fresh s' e \<and> (\<forall>x. fresh s x \<longrightarrow> fresh s' x)"
    and tick: "valid s m \<Longrightarrow> 0 \<le> n \<Longrightarrow>
      \<exists>s'. step s (Tick n) = Some s' \<and> valid s' (countdown m (Tick n)) \<and> (\<forall>x. fresh s x \<longrightarrow> fresh s' x)"
begin

definition ready :: "addr set \<Rightarrow> 's \<Rightarrow> (addr \<rightharpoonup> int) \<Rightarrow> bool" where
  "ready U s m \<longleftrightarrow> valid s m \<and> (\<forall>e \<in> U. m e = None \<longrightarrow> fresh s e)"

lemma step_ready:
  assumes "ready U s m" and "timer_legal U m op"
  shows "\<exists>s'. step s op = Some s' \<and> ready U s' (countdown m op)"
proof (cases op)
  case (Start e t)
  with assms start [of s m e t] show ?thesis by (auto simp: ready_def)
next
  case (Stop e)
  with assms stop [of s m e] show ?thesis by (fastforce simp: ready_def)
next
  case (Tick n)
  with assms tick [of s m n] show ?thesis by (fastforce simp: ready_def)
qed

lemma run_ready:
  "ready U s m \<Longrightarrow> all_legal U m ops \<Longrightarrow>
   \<exists>s'. run_ops step s ops = Some s' \<and> ready U s' (foldl countdown m ops)"
proof (induction ops arbitrary: s m)
  case (Cons op ops)
  then show ?case using step_ready [of U s m op] by fastforce
qed simp

end

section \<open>Relative and absolute ticks\<close>

fun expiry :: "int \<Rightarrow> int list \<Rightarrow> int list" where
  "expiry a [] = []"
| "expiry a (d # ds) = (a + d) # expiry (a + d) ds"

fun adj :: "int \<Rightarrow> int list \<Rightarrow> int list" where
  "adj n [] = []"
| "adj n (d # ds) = (if n > 0 then max 0 (d - n) # adj (n - d) ds else d # ds)"

lemma length_expiry [simp]: "length (expiry a ds) = length ds"
  by (induction ds arbitrary: a) auto

lemma length_adj [simp]: "length (adj n ds) = length ds"
  by (induction ds arbitrary: n) auto

lemma adj_nonpos [simp]: "n \<le> 0 \<Longrightarrow> adj n ds = ds"
  by (cases ds) auto

lemma expiry_append: "expiry a (ds @ es) = expiry a ds @ expiry (a + sum_list ds) es"
  by (induction ds arbitrary: a) (auto simp: add.assoc)

lemma expiry_shift: "expiry a ds = map ((+) a) (expiry 0 ds)"
proof (induction ds arbitrary: a)
  case (Cons d ds)
  show ?case using Cons [of "a + d"] Cons [of d] by simp
qed simp

lemma expiry_ge: "\<forall>d \<in> set ds. 0 \<le> d \<Longrightarrow> r \<in> set (expiry a ds) \<Longrightarrow> a \<le> r"
  by (induction ds arbitrary: a) fastforce+

lemma expiry_le: "\<forall>d \<in> set ds. 0 \<le> d \<Longrightarrow> r \<in> set (expiry a ds) \<Longrightarrow> r \<le> a + sum_list ds"
proof (induction ds arbitrary: a)
  case (Cons d ds)
  then have "0 \<le> sum_list ds" by (intro sum_list_nonneg) auto
  with Cons show ?case by fastforce
qed simp

lemma expiry_adj:
  "\<forall>d \<in> set ds. 0 \<le> d \<Longrightarrow> 0 \<le> n \<Longrightarrow> expiry 0 (adj n ds) = map (\<lambda>r. max 0 (r - n)) (expiry 0 ds)"
proof (induction ds arbitrary: n)
  case (Cons d ds)
  show ?case
  proof (cases "0 < n")
    case True
    note ed = expiry_shift [of d ds]
    show ?thesis
    proof (cases "d \<le> n")
      case True
      with Cons have "expiry 0 (adj (n - d) ds) = map (\<lambda>r. max 0 (r - (n - d))) (expiry 0 ds)"
        by simp
      with True \<open>0 < n\<close> Cons.prems ed show ?thesis by (auto simp: algebra_simps)
    next
      case False
      then have "adj (n - d) ds = ds" by (cases ds) auto
      moreover have "expiry (d - n) ds = map (\<lambda>r. r - n) (expiry d ds)"
        unfolding expiry_shift [of "d - n"] ed by simp
      moreover have "max 0 (r - n) = r - n" if "r \<in> set (expiry d ds)" for r
        using expiry_ge [of ds r d] that Cons.prems False by auto
      ultimately show ?thesis using False \<open>0 < n\<close> by (auto simp: max_def)
    qed
  next
    case False
    with Cons.prems have "n = 0" by simp
    moreover have "max 0 r = r" if "r \<in> set (expiry d ds)" for r
      using expiry_ge [of ds r d] that Cons.prems by auto
    ultimately show ?thesis using Cons.prems by (auto intro!: map_idI [symmetric])
  qed
qed simp

lemma adj_nonneg: "\<forall>d \<in> set ds. 0 \<le> d \<Longrightarrow> d \<in> set (adj n ds) \<Longrightarrow> 0 \<le> (d::int)"
  by (induction ds arbitrary: n) (auto split: if_splits)

lemma sum_adj: "\<forall>d \<in> set ds. 0 \<le> d \<Longrightarrow> 0 \<le> n \<Longrightarrow> sum_list (adj n ds) = max 0 (sum_list ds - n)"
proof (induction ds arbitrary: n)
  case (Cons d ds)
  have "0 \<le> sum_list ds" using Cons.prems by (intro sum_list_nonneg) auto
  moreover have "adj (n - d) ds = ds" if "n \<le> d" using that by (cases ds) auto
  moreover have "sum_list (adj (n - d) ds) = max 0 (sum_list ds - (n - d))" if "d \<le> n"
    using Cons.IH [of "n - d"] Cons.prems that by simp
  ultimately show ?case using Cons.prems by (cases "d \<le> n") (auto simp: max_def)
qed simp

section \<open>Doubly linked lists\<close>

primrec prevs :: "(addr \<Rightarrow> addr) \<Rightarrow> addr \<Rightarrow> addr list \<Rightarrow> bool" where
  "prevs pv p [] \<longleftrightarrow> True"
| "prevs pv p (a # as) \<longleftrightarrow> pv a = p \<and> prevs pv a as"

lemma prevs_append: "prevs pv p (as @ bs) \<longleftrightarrow> prevs pv p as \<and> prevs pv (if as = [] then p else last as) bs"
  by (induction as arbitrary: p) auto

lemma prevs_upd_notin [simp]: "a \<notin> set as \<Longrightarrow> prevs (pv(a := v)) p as = prevs pv p as"
  by (induction as arbitrary: p) auto

definition nxt :: "gki_cb \<Rightarrow> addr \<Rightarrow> addr" where "nxt s a = t_next (tle s a)"
definition prv :: "gki_cb \<Rightarrow> addr \<Rightarrow> addr" where "prv s a = t_prev (tle s a)"
definition tck :: "gki_cb \<Rightarrow> addr \<Rightarrow> int" where "tck s a = ticks (tle s a)"
definition usd :: "gki_cb \<Rightarrow> addr \<Rightarrow> bool" where "usd s a = in_use (tle s a)"

lemmas tle_folds = nxt_def [symmetric] prv_def [symmetric] tck_def [symmetric] usd_def [symmetric]

lemma set_tle_fields [simp]:
  "nxt (set_tle a f s) = (nxt s)(a := t_next (f (tle s a)))"
  "prv (set_tle a f s) = (prv s)(a := t_prev (f (tle s a)))"
  "tck (set_tle a f s) = (tck s)(a := ticks (f (tle s a)))"
  "usd (set_tle a f s) = (usd s)(a := in_use (f (tle s a)))"
  "tlq (set_tle a f s) = tlq s" "timer_queues (set_tle a f s) = timer_queues s"
  by (auto simp: nxt_def prv_def tck_def usd_def set_tle_def fun_eq_iff)

lemma set_tlq_fields [simp]:
  "nxt (set_tlq q g s) = nxt s" "prv (set_tlq q g s) = prv s" "tck (set_tlq q g s) = tck s"
  "usd (set_tlq q g s) = usd s" "tlq (set_tlq q g s) = (tlq s)(q := g (tlq s q))"
  "tle (set_tlq q g s) = tle s" "timer_queues (set_tlq q g s) = timer_queues s"
  by (auto simp: nxt_def prv_def tck_def usd_def set_tlq_def fun_eq_iff)

lemma other_fields [simp]:
  "nxt (s\<lparr>timer_queues := x\<rparr>) = nxt s" "prv (s\<lparr>timer_queues := x\<rparr>) = prv s"
  "tck (s\<lparr>timer_queues := x\<rparr>) = tck s" "usd (s\<lparr>timer_queues := x\<rparr>) = usd s"
  by (auto simp: nxt_def prv_def tck_def usd_def fun_eq_iff)

text \<open>
  \<open>tl_rep s q xs\<close>: queue \<open>q\<close> links the entries \<open>xs\<close> in both directions; ticks are not negative,
  every entry is marked in use, and \<open>last_ticks\<close> is the time of the last entry, which fits an INT32.
\<close>

definition tl_rep :: "gki_cb \<Rightarrow> addr \<Rightarrow> addr list \<Rightarrow> bool" where
  "tl_rep s q xs \<longleftrightarrow>
     chain (nxt s) (tq_first (tlq s q)) xs 0 \<and> tq_last (tlq s q) = last0 xs \<and> prevs (prv s) 0 xs \<and>
     (\<forall>x \<in> set xs. 0 \<le> tck s x \<and> usd s x) \<and>
     last_ticks (tlq s q) = sum_list (map (tck s) xs) \<and> last_ticks (tlq s q) \<le> GKI_MAX_INT32"

definition tl_times :: "gki_cb \<Rightarrow> addr list \<Rightarrow> (addr \<rightharpoonup> int)" where
  "tl_times s xs = map_of (zip xs (expiry 0 (map (tck s) xs)))"

text \<open>An entry that may be started: as \<open>GKI_init_timer_list_entry\<close> or a removal leaves it.\<close>

definition tl_fresh :: "gki_cb \<Rightarrow> addr \<Rightarrow> bool" where
  "tl_fresh s e \<longleftrightarrow> e \<noteq> 0 \<and> \<not> usd s e \<and> prv s e = 0 \<and> nxt s e = 0"

lemma tl_rep_distinct: "tl_rep s q xs \<Longrightarrow> distinct xs \<and> 0 \<notin> set xs"
  by (auto simp: tl_rep_def dest: chain_distinct chain_nonnull)

lemma tl_rep_fresh: "tl_rep s q xs \<Longrightarrow> tl_fresh s e \<Longrightarrow> e \<notin> set xs"
  by (auto simp: tl_rep_def tl_fresh_def)

lemma dom_tl_times [simp]: "dom (tl_times s xs) = set xs"
  by (simp add: tl_times_def dom_map_of_zip)

lemma tl_times_None: "tl_times s xs e = None \<longleftrightarrow> e \<notin> set xs"
  using dom_tl_times by (metis domIff)

section \<open>Updating a list\<close>

lemma skip_timed_out_chain:
  "chain (nxt s) p xs 0 \<Longrightarrow> \<exists>c'. skip_timed_out s p c = Some (hd0 (dropWhile (\<lambda>a. tck s a \<le> 0) xs), c')"
proof (induction xs arbitrary: p c)
  case Nil
  then show ?case by (simp add: skip_timed_out.simps)
next
  case (Cons x xs)
  then have "p = x" "x \<noteq> 0" "chain (nxt s) (nxt s x) xs 0" by auto
  with Cons.IH [of "nxt s x" "(c + 1) mod 65536"] show ?case
    by (subst skip_timed_out.simps) (auto simp: tle_folds)
qed

lemma adjust_entries_chain:
  "chain (nxt s) p xs 0 \<Longrightarrow> \<exists>s' c'. adjust_entries s p n c = Some (s', c') \<and>
     map (tck s') xs = adj n (map (tck s) xs) \<and> (\<forall>a. a \<notin> set xs \<longrightarrow> tck s' a = tck s a) \<and>
     nxt s' = nxt s \<and> prv s' = prv s \<and> usd s' = usd s \<and> tlq s' = tlq s"
proof (induction xs arbitrary: s p n c)
  case Nil
  then show ?case by (simp add: adjust_entries.simps)
next
  case (Cons x xs)
  then have x: "p = x" "x \<noteq> 0" "chain (nxt s) (nxt s x) xs 0" "x \<notin> set xs"
    using chain_distinct [OF Cons.prems] by auto
  show ?case
  proof (cases "0 < n")
    case False
    then show ?thesis using x by (subst adjust_entries.simps) simp
  next
    case True
    let ?s1 = "set_tle x (\<lambda>e. e\<lparr>ticks := ticks e - n\<rparr>) s"
    let ?s2 = "if tck s x - n \<le> 0 then set_tle x (\<lambda>e. e\<lparr>ticks := 0\<rparr>) ?s1 else ?s1"
    have f: "nxt ?s2 = nxt s" "prv ?s2 = prv s" "usd ?s2 = usd s" "tlq ?s2 = tlq s"
      "tck ?s2 = (tck s)(x := max 0 (tck s x - n))"
      by (auto simp: nxt_def prv_def usd_def tck_def set_tle_def fun_eq_iff)
    have "chain (nxt ?s2) (nxt s x) xs 0" using x f(1) by simp
    from Cons.IH [OF this, of "n - tck s x" "if tck s x - n \<le> 0 then (c + 1) mod 65536 else c"]
    obtain s' c' where s': "adjust_entries ?s2 (nxt s x) (n - tck s x) (if tck s x - n \<le> 0 then (c + 1) mod 65536 else c) = Some (s', c')"
      "map (tck s') xs = adj (n - tck s x) (map (tck ?s2) xs)" "\<forall>a. a \<notin> set xs \<longrightarrow> tck s' a = tck ?s2 a"
      "nxt s' = nxt ?s2" "prv s' = prv ?s2" "usd s' = usd ?s2" "tlq s' = tlq ?s2" by blast
    have "adjust_entries s p n c = Some (s', c')"
      using True x s'(1) f(1)
      by (subst adjust_entries.simps) (simp add: tle_folds Let_def if_distrib [of "\<lambda>s. nxt s x"] cong: if_cong)
    moreover have "map (tck s') xs = adj (n - tck s x) (map (tck s) xs)"
      using s'(2) x(4) unfolding f(5) by (metis (mono_tags, lifting) fun_upd_other list.map_cong0)
    moreover have "tck s' x = max 0 (tck s x - n)" using s'(3) x(4) f(5) by simp
    moreover have "tck s' a = tck s a" if "a \<notin> set (x # xs)" for a using s'(3) that f(5) by simp
    moreover have "nxt s' = nxt s" "prv s' = prv s" "usd s' = usd s" "tlq s' = tlq s"
      using s'(4-7) f(1-4) by metis+
    ultimately show ?thesis using True by simp
  qed
qed

lemma dropWhile_adj:
  assumes "0 \<le> n" "\<forall>d \<in> set ds. 0 \<le> (d::int)"
  shows "adj n ds = takeWhile (\<lambda>d. d \<le> 0) ds @ adj n (dropWhile (\<lambda>d. d \<le> 0) ds)"
  using assms by (induction ds) (auto split: if_splits)

lemma update_timer_list_rep:
  assumes rep: "tl_rep s q xs" and n: "0 \<le> n"
  shows "\<exists>s' c. GKI_update_timer_list s q n = Some (s', c) \<and> tl_rep s' q xs \<and>
    map (tck s') xs = adj n (map (tck s) xs) \<and>
    nxt s' = nxt s \<and> prv s' = prv s \<and> usd s' = usd s"
proof -
  let ?P = "\<lambda>a. tck s a \<le> 0"
  let ?zs = "takeWhile ?P xs" and ?ys = "dropWhile ?P xs"
  note r = rep [unfolded tl_rep_def]
  have xs: "xs = ?zs @ ?ys" by simp
  have nn: "\<forall>d \<in> set (map (tck s) xs). 0 \<le> d" using r by auto
  obtain c where c: "skip_timed_out s (tq_first (tlq s q)) 0 = Some (hd0 ?ys, c)"
    using skip_timed_out_chain r by blast
  have ch: "chain (nxt s) (hd0 ?ys) ?ys 0"
    using r chain_append [of "nxt s" "tq_first (tlq s q)" ?zs ?ys 0] chain_hd0 by (metis xs)
  obtain s1 c1 where a: "adjust_entries s (hd0 ?ys) n c = Some (s1, c1)"
    "map (tck s1) ?ys = adj n (map (tck s) ?ys)" "\<forall>a. a \<notin> set ?ys \<longrightarrow> tck s1 a = tck s a"
    "nxt s1 = nxt s" "prv s1 = prv s" "usd s1 = usd s" "tlq s1 = tlq s"
    using adjust_entries_chain [OF ch] by blast
  have dis: "set ?zs \<inter> set ?ys = {}"
    using tl_rep_distinct [OF rep] by (metis distinct_append xs)
  have "map (tck s1) xs = map (tck s1) ?zs @ map (tck s1) ?ys" by (metis xs map_append)
  also have "\<dots> = takeWhile (\<lambda>d. d \<le> 0) (map (tck s) xs) @ adj n (dropWhile (\<lambda>d. d \<le> 0) (map (tck s) xs))"
    using a(2,3) dis by (auto simp: takeWhile_map dropWhile_map o_def)
  also have "\<dots> = adj n (map (tck s) xs)" using dropWhile_adj [OF n nn] by simp
  finally have t1: "map (tck s1) xs = adj n (map (tck s) xs)" .
  let ?s2 = "if last_ticks (tlq s1 q) > 0 then set_tlq q (\<lambda>x. x\<lparr>last_ticks :=
       (if last_ticks x - n < 0 then 0 else last_ticks x - n)\<rparr>) s1 else s1"
  have res: "GKI_update_timer_list s q n = Some (?s2, c1)"
    using c a(1) by (simp add: GKI_update_timer_list_def)
  have f: "nxt ?s2 = nxt s" "prv ?s2 = prv s" "usd ?s2 = usd s" "tck ?s2 = tck s1"
    using a by auto
  have q: "tq_first (tlq ?s2 q) = tq_first (tlq s q)" "tq_last (tlq ?s2 q) = tq_last (tlq s q)"
    "last_ticks (tlq ?s2 q) = (if last_ticks (tlq s q) > 0 then max 0 (last_ticks (tlq s q) - n) else last_ticks (tlq s q))"
    using a by auto
  have lt: "last_ticks (tlq ?s2 q) = sum_list (map (tck ?s2) xs)"
    unfolding q f(4) t1 sum_adj [OF nn n] using r n sum_list_nonneg [of "map (tck s) xs"] nn by auto
  have "0 \<le> tck s1 x" if "x \<in> set xs" for x
    using adj_nonneg [OF nn] t1 that by (metis image_eqI list.set_map)
  moreover have "last_ticks (tlq ?s2 q) \<le> GKI_MAX_INT32"
    unfolding q(3) using r n by (auto simp: GKI_MAX_INT32_def)
  ultimately have "tl_rep ?s2 q xs"
    unfolding tl_rep_def f(1,2,3) q(1,2) using r lt unfolding f(4) by simp
  with res f(1-3) t1 [folded f(4)] show ?thesis by blast
qed

section \<open>Adding an entry\<close>

lemma map_upd_notin_set [simp]: "e \<notin> set xs \<Longrightarrow> map (f(e := v)) xs = map f xs"
  by (induction xs) auto

lemma find_successor_chain:
  "chain (nxt s) p xs 0 \<Longrightarrow> e \<notin> set xs \<Longrightarrow> \<forall>x \<in> set xs. 0 \<le> tck s x \<Longrightarrow> 0 \<le> tck s e \<Longrightarrow>
   tck s e < sum_list (map (tck s) xs) \<Longrightarrow>
   \<exists>as b bs s'. xs = as @ b # bs \<and> find_successor s e p = Some (s', b) \<and>
     nxt s' = nxt s \<and> prv s' = prv s \<and> usd s' = usd s \<and> tlq s' = tlq s \<and>
     tck s' = (tck s)(e := tck s e - sum_list (map (tck s) as)) \<and> 0 \<le> tck s' e \<and> tck s' e \<le> tck s b"
proof (induction xs arbitrary: s p)
  case (Cons x xs)
  then have x: "p = x" "x \<noteq> 0" "chain (nxt s) (nxt s x) xs 0" "x \<noteq> e" "e \<notin> set xs" by auto
  show ?case
  proof (cases "tck s x < tck s e")
    case False
    then have "find_successor s e p = Some (s, x)" using x by (subst find_successor.simps) (simp add: tle_folds)
    then show ?thesis using False Cons.prems(4) by (intro exI [of _ "[]"] exI [of _ x] exI [of _ xs] exI [of _ s]) simp
  next
    case True
    let ?s1 = "if tck s x > 0 then set_tle e (\<lambda>t. t\<lparr>ticks := ticks t - ticks (tle s x)\<rparr>) s else s"
    have f: "nxt ?s1 = nxt s" "prv ?s1 = prv s" "usd ?s1 = usd s" "tlq ?s1 = tlq s"
      "tck ?s1 = (tck s)(e := tck s e - tck s x)"
      using Cons.prems(3) by (auto simp: fun_eq_iff tle_folds)
    have eq: "find_successor s e p = find_successor ?s1 e (nxt s x)"
      using True x f(1) by (subst find_successor.simps) (simp add: tle_folds Let_def if_distrib [of "\<lambda>s. nxt s x"] cong: if_cong)
    have m: "map (tck ?s1) ys = map (tck s) ys" if "e \<notin> set ys" for ys
      using that unfolding f(5) by (induction ys) auto
    have "\<exists>as b bs s'. xs = as @ b # bs \<and> find_successor ?s1 e (nxt s x) = Some (s', b) \<and>
       nxt s' = nxt ?s1 \<and> prv s' = prv ?s1 \<and> usd s' = usd ?s1 \<and> tlq s' = tlq ?s1 \<and>
       tck s' = (tck ?s1)(e := tck ?s1 e - sum_list (map (tck ?s1) as)) \<and> 0 \<le> tck s' e \<and> tck s' e \<le> tck ?s1 b"
    proof (rule Cons.IH)
      show "chain (nxt ?s1) (nxt s x) xs 0" using x f(1) by simp
      show "\<forall>x \<in> set xs. 0 \<le> tck ?s1 x" "0 \<le> tck ?s1 e" using Cons.prems(3) x(5) True unfolding f(5) by auto
      show "tck ?s1 e < sum_list (map (tck ?s1) xs)" using x(5) Cons.prems(5) unfolding f(5) by simp
    qed (use x in simp)
    then obtain as b bs s' where r: "xs = as @ b # bs" "find_successor ?s1 e (nxt s x) = Some (s', b)"
      "nxt s' = nxt ?s1" "prv s' = prv ?s1" "usd s' = usd ?s1" "tlq s' = tlq ?s1"
      "tck s' = (tck ?s1)(e := tck ?s1 e - sum_list (map (tck ?s1) as))" "0 \<le> tck s' e" "tck s' e \<le> tck ?s1 b"
      by blast
    have "tck s' = (tck s)(e := tck s e - sum_list (map (tck s) (x # as)))"
      using r(7) m [of as] r(1) x(5) unfolding f(5) by auto
    moreover have "tck ?s1 b = tck s b" using r(1) x(5) unfolding f(5) by auto
    moreover have "find_successor s e p = Some (s', b)" using eq r(2) by simp
    moreover have "nxt s' = nxt s \<and> prv s' = prv s \<and> usd s' = usd s \<and> tlq s' = tlq s"
      using r(3-6) f(1-4) by metis
    ultimately show ?thesis using r(1,8,9) by (intro exI [of _ "x # as"] exI [of _ b] exI [of _ bs] exI [of _ s']) simp
  qed
qed simp

lemma chain_insert:
  assumes "chain nx x (as @ p # bs) 0" and "e \<noteq> 0" and "e \<notin> set (as @ p # bs)"
  shows "chain (nx(p := e, e := hd0 bs)) x (as @ p # e # bs) 0"
proof -
  have "distinct (as @ p # bs)" using assms(1) by (rule chain_distinct)
  moreover have "chain nx (nx p) bs 0" using assms(1) by (auto simp: chain_append)
  moreover from this have "nx p = hd0 bs" using chain_hd0 by blast
  ultimately show ?thesis using assms by (auto simp: chain_append)
qed

lemma map_of_zip_insert:
  "length A = length as \<Longrightarrow> e \<notin> set as \<Longrightarrow>
   map_of (zip (as @ e # bs) (A @ t # B)) = (map_of (zip (as @ bs) (A @ B)))(e \<mapsto> t)"
  by (induction as A rule: list_induct2') (auto simp: fun_eq_iff)

lemma map_of_zip_remove:
  "length A = length as \<Longrightarrow> e \<notin> set as \<Longrightarrow> e \<notin> set bs \<Longrightarrow> length B = length bs \<Longrightarrow>
   map_of (zip (as @ bs) (A @ B)) = (map_of (zip (as @ e # bs) (A @ t # B)))(e := None)"
proof (induction as A rule: list_induct2')
  case 1
  then have "map_of (zip bs B) e = None" by simp
  then show ?case by (auto simp: fun_eq_iff)
qed (auto simp: fun_eq_iff)

lemma add_last_rep:
  assumes rep: "tl_rep s q xs" and fr: "tl_fresh s e" and t: "last_ticks (tlq s q) \<le> tck s e" "tck s e \<le> GKI_MAX_INT32"
  defines "s' \<equiv> set_tle e (\<lambda>x. x\<lparr>in_use := True\<rparr>) (add_last s q e)"
  shows "tl_rep s' q (xs @ [e])" and "tl_times s' (xs @ [e]) = (tl_times s xs)(e \<mapsto> tck s e)"
    and "\<forall>x. x \<noteq> e \<longrightarrow> tl_fresh s x \<longrightarrow> tl_fresh s' x"
proof -
  note r = rep [unfolded tl_rep_def]
  have e: "e \<noteq> 0" "e \<notin> set xs" "prv s e = 0" using tl_rep_fresh [OF rep fr] fr by (auto simp: tl_fresh_def)
  have first: "tq_first (tlq s q) = 0 \<longleftrightarrow> xs = []" using r chain_hd0 chain_nonnull by (cases xs) auto
  have last: "tq_last (tlq s q) = last0 xs" "xs \<noteq> [] \<Longrightarrow> last0 xs \<in> set xs" using r by (auto simp: last0_def)
  have lx: "xs \<noteq> [] \<Longrightarrow> last0 xs \<noteq> 0 \<and> last0 xs \<noteq> e" using last tl_rep_distinct [OF rep] e by metis
  have f: "nxt s' = (if xs = [] then (nxt s)(e := 0) else (nxt s)(last0 xs := e, e := 0))"
    "prv s' = (if xs = [] then prv s else (prv s)(e := last0 xs))"
    "tck s' = (tck s)(e := tck s e - last_ticks (tlq s q))" "usd s' = (usd s)(e := True)"
    "tq_first (tlq s' q) = (if xs = [] then e else tq_first (tlq s q))" "tq_last (tlq s' q) = e"
    "last_ticks (tlq s' q) = tck s e"
    using first last lx by (auto simp: s'_def add_last_def Let_def tle_folds)
  have "chain (nxt s') (tq_first (tlq s' q)) (xs @ [e]) 0"
  proof (cases "xs = []")
    case True
    then show ?thesis using f e by simp
  next
    case False
    then show ?thesis using chain_snoc [of "nxt s" "tq_first (tlq s q)" xs e] r e f(1,5) by simp
  qed
  moreover have "prevs (prv s') 0 (xs @ [e])"
    using r f(2) e by (auto simp: prevs_append last0_def)
  moreover have m: "map (tck s') xs = map (tck s) xs" unfolding f(3) using e(2) by simp
  moreover have "\<forall>x \<in> set (xs @ [e]). 0 \<le> tck s' x \<and> usd s' x" using r t f(3,4) by auto
  moreover have "last_ticks (tlq s' q) = sum_list (map (tck s') (xs @ [e]))" "last_ticks (tlq s' q) \<le> GKI_MAX_INT32"
    using e(2) f(3,7) r t by auto
  ultimately show "tl_rep s' q (xs @ [e])" unfolding tl_rep_def using f(6) by simp
  have "expiry 0 (map (tck s') (xs @ [e])) = expiry 0 (map (tck s) xs) @ [tck s e]"
    using e(2) f(3) r by (simp add: expiry_append)
  then show "tl_times s' (xs @ [e]) = (tl_times s xs)(e \<mapsto> tck s e)"
    using map_of_zip_insert [of "expiry 0 (map (tck s) xs)" xs e "[]" "tck s e" "[]"] e(2) by (simp add: tl_times_def)
  show "\<forall>x. x \<noteq> e \<longrightarrow> tl_fresh s x \<longrightarrow> tl_fresh s' x"
  proof (intro allI impI)
    fix x assume x: "x \<noteq> e" "tl_fresh s x"
    then have "x \<notin> set xs" using tl_rep_fresh [OF rep] by blast
    with x last(2) show "tl_fresh s' x" unfolding tl_fresh_def f by auto
  qed
qed

lemma link_before_fields:
  fixes s :: gki_cb and q e b :: addr
  assumes "e \<noteq> b"
  defines "s' \<equiv> link_before s q e b"
  shows "b = tq_first (tlq s q) \<Longrightarrow> nxt s' = (nxt s)(e := b) \<and> prv s' = (prv s)(b := e) \<and>
      tq_first (tlq s' q) = e \<and> tq_last (tlq s' q) = tq_last (tlq s q) \<and> last_ticks (tlq s' q) = last_ticks (tlq s q)"
    and "b \<noteq> tq_first (tlq s q) \<Longrightarrow> prv s b \<noteq> e \<Longrightarrow> prv s b \<noteq> b \<Longrightarrow>
      nxt s' = (nxt s)(prv s b := e, e := b) \<and> prv s' = (prv s)(e := prv s b, b := e) \<and> tlq s' = tlq s"
    and "tck s' = (tck s)(b := tck s b - tck s e)" and "usd s' = usd s"
  using assms(1) by (auto simp: s'_def link_before_def Let_def tle_folds fun_eq_iff)

lemma link_before_rep:
  assumes rep: "tl_rep s q (as @ b # bs)" and fr: "tl_fresh s e"
    and f0: "nxt s0 = nxt s" "prv s0 = prv s" "usd s0 = usd s" "tlq s0 = tlq s"
      "tck s0 = (tck s)(e := tck s e - sum_list (map (tck s) as))" "0 \<le> tck s0 e" "tck s0 e \<le> tck s b"
  defines "s' \<equiv> set_tle e (\<lambda>x. x\<lparr>in_use := True\<rparr>) (link_before s0 q e b)"
  shows "tl_rep s' q (as @ e # b # bs)" and "tl_times s' (as @ e # b # bs) = (tl_times s (as @ b # bs))(e \<mapsto> tck s e)"
    and "\<forall>x. x \<noteq> e \<longrightarrow> tl_fresh s x \<longrightarrow> tl_fresh s' x"
proof -
  note r = rep [unfolded tl_rep_def]
  have d: "distinct (as @ b # bs)" "0 \<notin> set (as @ b # bs)" using tl_rep_distinct [OF rep] by auto
  have e: "e \<noteq> 0" "e \<notin> set (as @ b # bs)" "prv s e = 0" using tl_rep_fresh [OF rep fr] fr by (auto simp: tl_fresh_def)
  have first: "tq_first (tlq s q) = hd0 (as @ b # bs)" using r chain_hd0 by blast
  have eb: "e \<noteq> b" using e by auto
  note lf = link_before_fields [OF eb, of s0 q]
  have pb: "prv s b = (if as = [] then 0 else last as)" using r by (simp add: prevs_append)
  have f: "nxt s' = nxt (link_before s0 q e b)" "prv s' = prv (link_before s0 q e b)"
    "tlq s' = tlq (link_before s0 q e b)" "usd s' = (usd s)(e := True)"
    "tck s' = (tck s)(e := tck s0 e, b := tck s b - tck s0 e)"
    using lf(3,4) f0 eb by (auto simp: s'_def tle_folds fun_eq_iff)
  have g: "chain (nxt s') (tq_first (tlq s' q)) (as @ e # b # bs) 0 \<and> prevs (prv s') 0 (as @ e # b # bs) \<and>
      tq_last (tlq s' q) = last0 (as @ b # bs) \<and> last_ticks (tlq s' q) = last_ticks (tlq s q) \<and>
      (\<forall>x. x \<noteq> e \<longrightarrow> x \<notin> set (as @ b # bs) \<longrightarrow> nxt s' x = nxt s x \<and> prv s' x = prv s x)"
  proof (cases as rule: rev_cases)
    case Nil
    have "nxt s' = (nxt s)(e := b) \<and> prv s' = (prv s)(b := e) \<and> tq_first (tlq s' q) = e \<and>
        tq_last (tlq s' q) = tq_last (tlq s q) \<and> last_ticks (tlq s' q) = last_ticks (tlq s q)"
      using lf(1) first Nil f0 unfolding f by simp
    then show ?thesis using Nil r e d by auto
  next
    case (snoc as' p)
    then have p: "prv s b = p" "p \<in> set as" using pb by auto
    then have pn: "p \<noteq> e" "p \<noteq> b" using e d by auto
    have bf: "b \<noteq> tq_first (tlq s q)" using first snoc d by (cases as') auto
    have h: "nxt s' = (nxt s)(p := e, e := b) \<and> prv s' = (prv s)(e := p, b := e) \<and> tlq s' = tlq s"
      using lf(2) bf pn p f0 unfolding f by simp
    have "chain (nxt s') (tq_first (tlq s' q)) (as' @ p # e # b # bs) 0"
      using chain_insert [of "nxt s" "tq_first (tlq s q)" as' p "b # bs" e] h r snoc e by simp
    moreover have "prevs (prv s') 0 (as @ e # b # bs)" using h r snoc e d by (auto simp: prevs_append)
    ultimately show ?thesis using h r snoc p by auto
  qed
  have m: "map (tck s') (as @ e # b # bs) = map (tck s) as @ (tck s e - sum_list (map (tck s) as)) #
      (tck s b - (tck s e - sum_list (map (tck s) as))) # map (tck s) bs"
    unfolding f(5) using e d f0(5) by auto
  show "tl_rep s' q (as @ e # b # bs)"
    unfolding tl_rep_def
  proof (intro conjI)
    show "\<forall>x \<in> set (as @ e # b # bs). 0 \<le> tck s' x \<and> usd s' x" using r f0(6,7) unfolding f(4,5) by auto
    show "last_ticks (tlq s' q) = sum_list (map (tck s') (as @ e # b # bs))"
      unfolding m using g r by simp
    show "tq_last (tlq s' q) = last0 (as @ e # b # bs)" using g by (simp add: last0_def)
  qed (use g r in simp_all)
  have E: "expiry 0 (map (tck s') (as @ e # b # bs)) =
      expiry 0 (map (tck s) as) @ tck s e # expiry (sum_list (map (tck s) as)) (map (tck s) (b # bs))"
    unfolding m by (simp add: expiry_append add.commute)
  have E': "expiry 0 (map (tck s) (as @ b # bs)) =
      expiry 0 (map (tck s) as) @ expiry (sum_list (map (tck s) as)) (map (tck s) (b # bs))"
    by (simp add: expiry_append)
  show "tl_times s' (as @ e # b # bs) = (tl_times s (as @ b # bs))(e \<mapsto> tck s e)"
    unfolding tl_times_def E E' by (rule map_of_zip_insert) (use e(2) in auto)
  show "\<forall>x. x \<noteq> e \<longrightarrow> tl_fresh s x \<longrightarrow> tl_fresh s' x"
    using g tl_rep_fresh [OF rep] by (auto simp: tl_fresh_def f(4))
qed

lemma register_queue_fields [simp]:
  "nxt (register_queue s q) = nxt s" "prv (register_queue s q) = prv s" "tck (register_queue s q) = tck s"
  "usd (register_queue s q) = usd s" "tlq (register_queue s q) = tlq s"
  by (auto simp: register_queue_def)

lemma tl_view_cong:
  assumes "nxt s' = nxt s" "prv s' = prv s" "tck s' = tck s" "usd s' = usd s" "tlq s' = tlq s"
  shows "tl_rep s' q xs = tl_rep s q xs" "tl_times s' xs = tl_times s xs" "tl_fresh s' x = tl_fresh s x"
  using assms by (simp_all add: tl_rep_def tl_times_def tl_fresh_def)

lemma add_to_timer_list_rep:
  assumes rep: "tl_rep s q xs" and fr: "tl_fresh s e" and t: "0 \<le> tck s e" "tck s e \<le> GKI_MAX_INT32"
  shows "\<exists>s' ys. GKI_add_to_timer_list s q e = Some s' \<and> tl_rep s' q ys \<and>
    tl_times s' ys = (tl_times s xs)(e \<mapsto> tck s e) \<and> (\<forall>x. x \<noteq> e \<longrightarrow> tl_fresh s x \<longrightarrow> tl_fresh s' x)"
proof (cases "last_ticks (tlq s q) \<le> tck s e")
  case True
  let ?s1 = "set_tle e (\<lambda>x. x\<lparr>in_use := True\<rparr>) (add_last s q e)"
  have "GKI_add_to_timer_list s q e = Some (register_queue ?s1 q)"
    using True t by (simp add: GKI_add_to_timer_list_def tle_folds)
  moreover note tl_view_cong [of "register_queue ?s1 q" ?s1]
  ultimately show ?thesis using add_last_rep [OF rep fr True t(2)]
    by (intro exI [of _ "register_queue ?s1 q"] exI [of _ "xs @ [e]"]) simp
next
  case False
  have "chain (nxt s) (tq_first (tlq s q)) xs 0" "\<forall>x \<in> set xs. 0 \<le> tck s x" "tck s e < sum_list (map (tck s) xs)"
    using rep False by (auto simp: tl_rep_def)
  from find_successor_chain [OF this(1) tl_rep_fresh [OF rep fr] this(2) t(1) this(3)]
  obtain as b bs s0 where a: "xs = as @ b # bs" "find_successor s e (tq_first (tlq s q)) = Some (s0, b)"
    and f0: "nxt s0 = nxt s" "prv s0 = prv s" "usd s0 = usd s" "tlq s0 = tlq s"
      "tck s0 = (tck s)(e := tck s e - sum_list (map (tck s) as))" "0 \<le> tck s0 e" "tck s0 e \<le> tck s b"
    by blast
  let ?s1 = "set_tle e (\<lambda>x. x\<lparr>in_use := True\<rparr>) (link_before s0 q e b)"
  have "GKI_add_to_timer_list s q e = Some (register_queue ?s1 q)"
    using False t a(2) by (simp add: GKI_add_to_timer_list_def tle_folds)
  moreover note tl_view_cong [of "register_queue ?s1 q" ?s1]
  ultimately show ?thesis using link_before_rep [OF rep [unfolded a(1)] fr f0] a(1)
    by (intro exI [of _ "register_queue ?s1 q"] exI [of _ "as @ e # b # bs"]) simp
qed

section \<open>Removing an entry\<close>

text \<open>The state after the ticks of \<open>e\<close> went to its successor, or off \<open>last_ticks\<close>.\<close>

definition give_ticks :: "gki_cb \<Rightarrow> addr \<Rightarrow> addr \<Rightarrow> gki_cb" where
  "give_ticks s q e =
     (if nxt s e \<noteq> 0 then set_tle (nxt s e) (\<lambda>x. x\<lparr>ticks := ticks x + ticks (tle s e)\<rparr>) s
      else set_tlq q (\<lambda>x. x\<lparr>last_ticks := last_ticks x - ticks (tle s e)\<rparr>) s)"

lemma give_ticks_fold:
  "(if t_next (tle s e) \<noteq> 0 then set_tle (t_next (tle s e)) (\<lambda>x. x\<lparr>ticks := ticks x + ticks (tle s e)\<rparr>) s
    else set_tlq q (\<lambda>x. x\<lparr>last_ticks := last_ticks x - ticks (tle s e)\<rparr>) s) = give_ticks s q e"
  by (simp add: give_ticks_def nxt_def)

lemma give_ticks_fields:
  "nxt (give_ticks s q e) = nxt s" "prv (give_ticks s q e) = prv s" "usd (give_ticks s q e) = usd s"
  "tck (give_ticks s q e) = (if nxt s e \<noteq> 0 then (tck s)(nxt s e := tck s (nxt s e) + tck s e) else tck s)"
  "tq_first (tlq (give_ticks s q e) q) = tq_first (tlq s q)" "tq_last (tlq (give_ticks s q e) q) = tq_last (tlq s q)"
  "last_ticks (tlq (give_ticks s q e) q) = (if nxt s e \<noteq> 0 then last_ticks (tlq s q) else last_ticks (tlq s q) - tck s e)"
  by (auto simp: give_ticks_def tle_folds fun_eq_iff)

lemma unlink_first:
  assumes "tl_rep s q (e # bs)" and "nxt s1 = nxt s" "prv s1 = prv s" "tq_first (tlq s1 q) = e" "tq_last (tlq s1 q) = last0 (e # bs)"
  shows "\<exists>s2. unlink_tle s1 q e = Inr s2 \<and> chain (nxt s2) (tq_first (tlq s2 q)) bs 0 \<and> tq_last (tlq s2 q) = last0 bs \<and>
    prevs (prv s2) 0 bs \<and> nxt s2 = nxt s \<and> (\<forall>x. x \<notin> set bs \<longrightarrow> prv s2 x = prv s x) \<and>
    tck s2 = tck s1 \<and> usd s2 = usd s1 \<and> last_ticks (tlq s2 q) = last_ticks (tlq s1 q)"
proof -
  note r = assms(1) [unfolded tl_rep_def]
  have d: "distinct (e # bs)" "0 \<notin> set (e # bs)" using tl_rep_distinct [OF assms(1)] by auto
  have ch: "chain (nxt s) (nxt s e) bs 0" "nxt s e = hd0 bs" using r chain_hd0 by auto
  let ?s1 = "set_tlq q (\<lambda>x. x\<lparr>tq_first := t_next (tle s1 e)\<rparr>) s1"
  let ?s2 = "if nxt s e \<noteq> 0 then set_tle (nxt s e) (\<lambda>x. x\<lparr>t_prev := 0\<rparr>) ?s1 else ?s1"
  let ?s3 = "if last0 (e # bs) = e then set_tlq q (\<lambda>x. x\<lparr>tq_last := 0\<rparr>) ?s2 else ?s2"
  have u: "unlink_tle s1 q e = Inr ?s3"
    using assms by (auto simp: unlink_tle_def Let_def tle_folds cong: if_cong)
  have f: "nxt ?s3 = nxt s" "prv ?s3 = (if nxt s e \<noteq> 0 then (prv s)(nxt s e := 0) else prv s)"
    "tck ?s3 = tck s1" "usd ?s3 = usd s1" "tq_first (tlq ?s3 q) = nxt s e"
    "tq_last (tlq ?s3 q) = (if last0 (e # bs) = e then 0 else last0 (e # bs))"
    "last_ticks (tlq ?s3 q) = last_ticks (tlq s1 q)"
    using assms(2-5) by (auto simp: tle_folds fun_eq_iff)
  have "bs = [] \<longleftrightarrow> last0 (e # bs) = e" using d last0_in_set [of bs] by auto
  then have "tq_last (tlq ?s3 q) = last0 bs" unfolding f(6) by auto
  moreover have "prevs (prv ?s3) 0 bs" unfolding f(2) using r d ch(2) by (cases bs) auto
  moreover have "\<forall>x. x \<notin> set bs \<longrightarrow> prv ?s3 x = prv s x" unfolding f(2) using ch(2) by (cases bs) auto
  ultimately show ?thesis using u f ch by (intro exI [of _ ?s3]) metis
qed

lemma unlink_inner:
  assumes rep: "tl_rep s q (as @ p # e # bs)"
    and s1: "nxt s1 = nxt s" "prv s1 = prv s" "tq_first (tlq s1 q) = tq_first (tlq s q)" "tq_last (tlq s1 q) = last0 (as @ p # e # bs)"
  shows "\<exists>s2. unlink_tle s1 q e = Inr s2 \<and> chain (nxt s2) (tq_first (tlq s2 q)) (as @ p # bs) 0 \<and>
    tq_last (tlq s2 q) = last0 (as @ p # bs) \<and> prevs (prv s2) 0 (as @ p # bs) \<and>
    (\<forall>x. x \<notin> set (as @ p # bs) \<longrightarrow> nxt s2 x = nxt s x \<and> prv s2 x = prv s x) \<and>
    tck s2 = tck s1 \<and> usd s2 = usd s1 \<and> last_ticks (tlq s2 q) = last_ticks (tlq s1 q)"
proof -
  note r = rep [unfolded tl_rep_def]
  have d: "distinct (as @ p # e # bs)" "0 \<notin> set (as @ p # e # bs)" using tl_rep_distinct [OF rep] by auto
  have ne: "e \<noteq> p" "e \<notin> set (as @ p # bs)" using d by auto
  have first: "tq_first (tlq s q) = hd0 (as @ [p])" using r chain_hd0 [of "nxt s"] by (cases as) auto
  then have fe: "tq_first (tlq s q) \<noteq> e" using d by (cases as) auto
  have pe: "prv s e = p" "nxt s p = e" using r by (auto simp: prevs_append chain_append)
  have ch: "chain (nxt s) (nxt s e) bs 0" using r by (auto simp: chain_append)
  then have ne0: "nxt s e = hd0 bs" by (rule chain_hd0)
  have cut: "chain ((nxt s)(p := nxt s e)) (tq_first (tlq s q)) (as @ p # bs) 0"
  proof -
    have "chain ((nxt s)(p := nxt s e, e := 0)) (tq_first (tlq s q)) (as @ p # bs) 0"
      using r by (intro chain_cut) auto
    moreover have "(nxt s)(p := nxt s e, e := 0) = ((nxt s)(p := nxt s e))(e := 0)" by simp
    ultimately show ?thesis using ne(2) chain_upd_notin by metis
  qed
  show ?thesis
  proof (cases bs)
    case Nil
    let ?s2 = "set_tle p (\<lambda>x. x\<lparr>t_next := 0\<rparr>) (set_tlq q (\<lambda>x. x\<lparr>tq_last := p\<rparr>) s1)"
    have "unlink_tle s1 q e = Inr ?s2"
      using Nil s1 fe pe d by (simp add: unlink_tle_def Let_def tle_folds last0_def)
    moreover have "nxt ?s2 = (nxt s)(p := nxt s e)" "prv ?s2 = prv s" "tck ?s2 = tck s1" "usd ?s2 = usd s1"
      "tq_first (tlq ?s2 q) = tq_first (tlq s q)" "tq_last (tlq ?s2 q) = p" "last_ticks (tlq ?s2 q) = last_ticks (tlq s1 q)"
      using s1 ne0 Nil by (auto simp: tle_folds fun_eq_iff)
    moreover have "prevs (prv s) 0 (as @ p # bs)" using r Nil by (auto simp: prevs_append)
    ultimately show ?thesis using cut Nil by (intro exI [of _ ?s2]) (auto simp: last0_def)
  next
    case (Cons b bs')
    have b: "nxt s e = b" "prv s b = e" "b \<noteq> 0" "b \<noteq> e" "b \<noteq> p" "b \<notin> set as" "b \<notin> set bs'" "p \<noteq> 0"
      using ne0 r d Cons by (auto simp: prevs_append)
    have le: "last0 (as @ p # e # bs) \<noteq> e" "last0 (as @ p # e # bs) = last0 (as @ p # bs)"
      using d Cons last0_in_set [of bs'] by (auto simp: last0_def)
    let ?a = "set_tle b (\<lambda>x. x\<lparr>t_prev := p\<rparr>) s1"
    let ?s2 = "set_tle p (\<lambda>x. x\<lparr>t_next := b\<rparr>) ?a"
    have "unlink_tle s1 q e = Inr ?s2"
      using s1 fe le(1) b pe
      by (simp add: unlink_tle_def Let_def tle_folds)
    moreover have "nxt ?s2 = (nxt s)(p := nxt s e)" "prv ?s2 = (prv s)(b := p)" "tck ?s2 = tck s1" "usd ?s2 = usd s1"
      "tlq ?s2 = tlq s1"
      using s1 b by (auto simp: tle_folds fun_eq_iff)
    moreover have "prevs ((prv s)(b := p)) 0 (as @ p # bs)" using r Cons b by (auto simp: prevs_append)
    ultimately show ?thesis using cut Cons s1 le(2) by (intro exI [of _ ?s2]) auto
  qed
qed

lemma remove_from_timer_list_rep:
  assumes rep: "tl_rep s q (as @ e # bs)"
  defines "s' \<equiv> GKI_remove_from_timer_list s q e"
  shows "tl_rep s' q (as @ bs)" and "tl_times s' (as @ bs) = (tl_times s (as @ e # bs))(e := None)"
    and "tl_fresh s' e" and "\<forall>x. tl_fresh s x \<longrightarrow> tl_fresh s' x"
proof -
  note r = rep [unfolded tl_rep_def]
  have d: "distinct (as @ e # bs)" "0 \<notin> set (as @ e # bs)" using tl_rep_distinct [OF rep] by auto
  have ne0: "nxt s e = hd0 bs" using r chain_hd0 by (auto simp: chain_append)
  let ?s1 = "give_ticks s q e"
  note g = give_ticks_fields [of s q e]
  have "\<exists>s2. unlink_tle ?s1 q e = Inr s2 \<and> chain (nxt s2) (tq_first (tlq s2 q)) (as @ bs) 0 \<and>
    tq_last (tlq s2 q) = last0 (as @ bs) \<and> prevs (prv s2) 0 (as @ bs) \<and>
    (\<forall>x. x \<notin> set (as @ bs) \<longrightarrow> nxt s2 x = nxt s x \<and> prv s2 x = prv s x) \<and>
    tck s2 = tck ?s1 \<and> usd s2 = usd ?s1 \<and> last_ticks (tlq s2 q) = last_ticks (tlq ?s1 q)"
  proof (cases as rule: rev_cases)
    case Nil
    then have "tl_rep s q (e # bs)" "tq_first (tlq ?s1 q) = e" "tq_last (tlq ?s1 q) = last0 (e # bs)"
      using rep r g(5,6) by auto
    from unlink_first [OF this(1) g(1,2) this(2,3)] show ?thesis unfolding Nil append_Nil by metis
  next
    case (snoc as' p)
    then show ?thesis using unlink_inner [of s q as' p e bs ?s1] rep r g by simp
  qed
  then obtain s2 where u: "unlink_tle ?s1 q e = Inr s2" and c: "chain (nxt s2) (tq_first (tlq s2 q)) (as @ bs) 0"
    "tq_last (tlq s2 q) = last0 (as @ bs)" "prevs (prv s2) 0 (as @ bs)"
    "\<forall>x. x \<notin> set (as @ bs) \<longrightarrow> nxt s2 x = nxt s x \<and> prv s2 x = prv s x"
    "tck s2 = tck ?s1" "usd s2 = usd s" "last_ticks (tlq s2 q) = last_ticks (tlq ?s1 q)"
    unfolding g(3) by blast
  have "e \<noteq> 0" "usd s e" using r d by auto
  moreover have "tq_first (tlq s q) \<noteq> 0"
    using chain_hd0 [of "nxt s" "tq_first (tlq s q)" "as @ e # bs"] r d(2) by (cases as) auto
  ultimately have f: "nxt s' = (nxt s2)(e := 0)" "prv s' = (prv s2)(e := 0)" "tck s' = (tck s2)(e := GKI_UNUSED_LIST_ENTRY)"
    "usd s' = (usd s2)(e := False)" "tlq s' = tlq s2"
    unfolding s'_def GKI_remove_from_timer_list_def give_ticks_fold using u
    by (simp_all add: Let_def usd_def)
  have m: "map (tck s') (as @ bs) = map (tck s) as @ (case bs of [] \<Rightarrow> [] | b # bs' \<Rightarrow> (tck s b + tck s e) # map (tck s) bs')"
    unfolding f(3) c(5) g(4) ne0 using d by (cases bs) auto
  show "tl_rep s' q (as @ bs)"
    unfolding tl_rep_def
  proof (intro conjI)
    show "\<forall>x \<in> set (as @ bs). 0 \<le> tck s' x \<and> usd s' x"
      unfolding f(3,4) c(5,6) g(4) using r d by auto
    show "last_ticks (tlq s' q) = sum_list (map (tck s') (as @ bs))" "last_ticks (tlq s' q) \<le> GKI_MAX_INT32"
      unfolding m f(5) c(7) g(7) ne0 using r d by (cases bs; auto)+
  qed (use c d f in auto)
  have E: "expiry 0 (map (tck s') (as @ bs)) = expiry 0 (map (tck s) as) @ expiry (sum_list (map (tck s) (as @ [e]))) (map (tck s) bs)"
    unfolding m by (cases bs) (auto simp: expiry_append algebra_simps)
  have E': "expiry 0 (map (tck s) (as @ e # bs)) = expiry 0 (map (tck s) as) @ (sum_list (map (tck s) (as @ [e])))
      # expiry (sum_list (map (tck s) (as @ [e]))) (map (tck s) bs)"
    by (simp add: expiry_append)
  show "tl_times s' (as @ bs) = (tl_times s (as @ e # bs))(e := None)"
    unfolding tl_times_def E E' by (rule map_of_zip_remove) (use d in auto)
  show "tl_fresh s' e" using d by (simp add: tl_fresh_def f)
  show "\<forall>x. tl_fresh s x \<longrightarrow> tl_fresh s' x"
    using tl_rep_fresh [OF rep] c(4) by (auto simp: tl_fresh_def f c(6))
qed

section \<open>Remaining ticks\<close>

lemma sum_until_found:
  "chain (nxt s) p (as @ e # bs) 0 \<Longrightarrow> e \<notin> set as \<Longrightarrow>
   sum_until s e p c = Some (e, c + of_int (sum_list (map (tck s) as)))"
proof (induction as arbitrary: p c)
  case Nil
  then show ?case by (simp add: sum_until.simps)
next
  case (Cons a as)
  then show ?case by (subst sum_until.simps) (simp add: tle_folds add.assoc)
qed

lemma sum_until_missing:
  "chain (nxt s) p xs 0 \<Longrightarrow> e \<notin> set xs \<Longrightarrow> \<exists>r. sum_until s e p c = Some (0, r)"
proof (induction xs arbitrary: p c)
  case Nil
  then show ?case by (simp add: sum_until.simps)
next
  case (Cons a as)
  then show ?case by (subst sum_until.simps) (simp add: tle_folds)
qed

lemma map_of_zip_at: "length A = length as \<Longrightarrow> e \<notin> set as \<Longrightarrow> map_of (zip (as @ e # bs) (A @ t # B)) e = Some t"
  by (subst map_of_zip_insert) auto

lemma get_remaining_ticks_rep:
  assumes rep: "tl_rep s q xs" and e: "e \<noteq> 0"
  shows "GKI_get_remaining_ticks s q e = Some (case tl_times s xs e of None \<Rightarrow> 0 | Some r \<Rightarrow> of_int r)"
proof (cases "e \<in> set xs")
  case True
  then obtain as bs where xs: "xs = as @ e # bs" and as: "e \<notin> set as" by (meson split_list_first)
  have "sum_until s e (tq_first (tlq s q)) 0 = Some (e, 0 + of_int (sum_list (map (tck s) as)))"
    using rep xs as by (intro sum_until_found) (auto simp: tl_rep_def)
  moreover have "usd s e" using rep True by (simp add: tl_rep_def)
  moreover have "tl_times s xs e = Some (sum_list (map (tck s) as) + tck s e)"
    unfolding tl_times_def xs using as by (simp add: expiry_append map_of_zip_at del: zip_append)
  ultimately show ?thesis by (simp add: GKI_get_remaining_ticks_def tle_folds)
next
  case False
  then have "tl_times s xs e = None" by (simp add: tl_times_None)
  then show ?thesis
    using sum_until_missing [of s "tq_first (tlq s q)" xs e 0] rep False e
    by (auto simp: GKI_get_remaining_ticks_def tl_rep_def)
qed

section \<open>The lists implement the interface\<close>

text \<open>How clients use a list: an entry gets its ticks and is added, as \<open>btu_start_timer\<close> does.\<close>

fun timer_list_step :: "addr \<Rightarrow> gki_cb \<Rightarrow> timer_op \<Rightarrow> gki_cb option" where
  "timer_list_step q s (Start e t) = GKI_add_to_timer_list (set_tle e (\<lambda>x. x\<lparr>ticks := t\<rparr>) s) q e"
| "timer_list_step q s (Stop e) = Some (GKI_remove_from_timer_list s q e)"
| "timer_list_step q s (Tick n) = map_option fst (GKI_update_timer_list s q n)"

definition tl_valid :: "addr \<Rightarrow> gki_cb \<Rightarrow> (addr \<rightharpoonup> int) \<Rightarrow> bool" where
  "tl_valid q s m \<longleftrightarrow> (\<exists>xs. tl_rep s q xs \<and> tl_times s xs = m)"

lemma tl_times_update:
  assumes "tl_rep s q xs" and n: "0 \<le> n" and t: "map (tck s') xs = adj n (map (tck s) xs)"
  shows "tl_times s' xs = countdown (tl_times s xs) (Tick n)"
proof -
  have "\<forall>d \<in> set (map (tck s) xs). 0 \<le> d" using assms(1) by (auto simp: tl_rep_def)
  note E = expiry_adj [OF this n, folded t]
  have "map_of (zip xs (map f ys)) = (\<lambda>e. map_option f (map_of (zip xs ys) e))" for f :: "int \<Rightarrow> int" and ys
    by (induction xs ys rule: list_induct2') (auto simp: fun_eq_iff)
  then show ?thesis by (simp add: tl_times_def E)
qed

interpretation tls: timer_service "tl_valid q" tl_fresh "timer_list_step q" for q
proof
  fix s :: gki_cb and m :: "addr \<rightharpoonup> int" and e :: addr and t :: int
  assume v: "tl_valid q s m" and fr: "tl_fresh s e" and t: "0 \<le> t" "t \<le> GKI_MAX_INT32"
  then obtain xs where xs: "tl_rep s q xs" "tl_times s xs = m" by (auto simp: tl_valid_def)
  let ?s = "set_tle e (\<lambda>x. x\<lparr>ticks := t\<rparr>) s"
  have e: "e \<notin> set xs" using xs(1) fr by (rule tl_rep_fresh)
  have f: "nxt ?s = nxt s" "prv ?s = prv s" "usd ?s = usd s" "tlq ?s = tlq s" "tck ?s = (tck s)(e := t)"
    by (auto simp: tle_folds fun_eq_iff)
  have r: "tl_rep ?s q xs" "tl_times ?s xs = m" "\<And>x. tl_fresh ?s x = tl_fresh s x"
    unfolding tl_rep_def tl_times_def tl_fresh_def f using xs e by (auto simp: tl_rep_def tl_times_def)
  have te: "tck ?s e = t" by (simp add: f(5))
  from add_to_timer_list_rep [OF r(1), of e, unfolded r(2,3) te, OF fr t]
  show "\<exists>s'. timer_list_step q s (Start e t) = Some s' \<and> tl_valid q s' (m(e \<mapsto> t)) \<and> (\<forall>x. x \<noteq> e \<longrightarrow> tl_fresh s x \<longrightarrow> tl_fresh s' x)"
    unfolding timer_list_step.simps tl_valid_def by blast
next
  fix s :: gki_cb and m :: "addr \<rightharpoonup> int" and e :: addr
  assume v: "tl_valid q s m" and e: "m e \<noteq> None"
  then obtain xs where xs: "tl_rep s q xs" "tl_times s xs = m" by (auto simp: tl_valid_def)
  then have "e \<in> set xs" using e by (metis tl_times_None)
  then obtain as bs where "xs = as @ e # bs" by (meson split_list)
  with remove_from_timer_list_rep [of s q as e bs] xs
  show "\<exists>s'. timer_list_step q s (Stop e) = Some s' \<and> tl_valid q s' (m(e := None)) \<and> tl_fresh s' e \<and> (\<forall>x. tl_fresh s x \<longrightarrow> tl_fresh s' x)"
    unfolding timer_list_step.simps tl_valid_def by blast
next
  fix s :: gki_cb and m :: "addr \<rightharpoonup> int" and n :: int
  assume v: "tl_valid q s m" and n: "0 \<le> n"
  then obtain xs where xs: "tl_rep s q xs" "tl_times s xs = m" by (auto simp: tl_valid_def)
  from update_timer_list_rep [OF xs(1) n] obtain s' c where s': "GKI_update_timer_list s q n = Some (s', c)" "tl_rep s' q xs"
    "map (tck s') xs = adj n (map (tck s) xs)" "nxt s' = nxt s" "prv s' = prv s" "usd s' = usd s" by blast
  have "tl_times s' xs = countdown m (Tick n)" using tl_times_update [OF xs(1) n s'(3)] xs(2) by simp
  moreover have "tl_fresh s' x = tl_fresh s x" for x by (simp add: tl_fresh_def s')
  ultimately show "\<exists>s'. timer_list_step q s (Tick n) = Some s' \<and> tl_valid q s' (countdown m (Tick n)) \<and> (\<forall>x. tl_fresh s x \<longrightarrow> tl_fresh s' x)"
    using s'(1,2) by (auto simp: tl_valid_def)
qed

lemma init_timer_list_rep: "tl_rep (GKI_init_timer_list s q) q []"
  by (simp add: GKI_init_timer_list_def tl_rep_def GKI_MAX_INT32_def)

lemma timer_list_run:
  assumes "\<forall>e \<in> U. tl_fresh (GKI_init_timer_list s q) e" and "all_legal U Map.empty ops"
  shows "\<exists>s' xs. run_ops (timer_list_step q) (GKI_init_timer_list s q) ops = Some s' \<and> tl_rep s' q xs \<and>
    tl_times s' xs = foldl countdown Map.empty ops"
proof -
  have "tl_valid q (GKI_init_timer_list s q) Map.empty"
    unfolding tl_valid_def using init_timer_list_rep by (metis map_of.simps(1) tl_times_def zip_Nil)
  then have "tls.ready q U (GKI_init_timer_list s q) Map.empty" using assms(1) by (simp add: tls.ready_def)
  from tls.run_ready [OF this assms(2)] show ?thesis by (auto simp: tls.ready_def tl_valid_def)
qed

section \<open>Properties\<close>

text \<open>C4: a timer list behaves as a set of independent countdown timers.  Whatever entries are started,
  stopped and updated, in whatever order a client may call the operations, every call returns, and
  \<open>GKI_get_remaining_ticks\<close> of an entry is its start time less the units passed since, or \<open>0\<close> when
  that is negative or the entry does not run.\<close>

theorem timer_list_countdown:
  assumes "\<forall>e \<in> U. tl_fresh (GKI_init_timer_list s q) e" and "all_legal U Map.empty ops"
  shows "\<exists>s'. run_ops (timer_list_step q) (GKI_init_timer_list s q) ops = Some s' \<and>
    (\<forall>e. e \<noteq> 0 \<longrightarrow> GKI_get_remaining_ticks s' q e =
      Some (case foldl countdown Map.empty ops e of None \<Rightarrow> 0 | Some r \<Rightarrow> of_int r))"
  using timer_list_run [OF assms] get_remaining_ticks_rep by metis

definition tl_blank :: gki_cb where
  "tl_blank = \<lparr>hdr = (\<lambda>_. \<lparr>p_next = 0, q_id = 0, task_id = 0, status = 0, buf_type = 0\<rparr>), magic = (\<lambda>_. 0),
     freeq = (\<lambda>_. \<lparr>fq_first = 0, fq_last = 0, fq_size = 0, fq_total = 0, fq_cur_cnt = 0, fq_max_cnt = 0\<rparr>),
     pool_start = (\<lambda>_. 0), pool_end = (\<lambda>_. 0), pool_size = (\<lambda>_. 0), pool_access_mask = 0, pool_list = [],
     curr_total_no_of_pools = 0, OSTaskQFirst = (\<lambda>_ _. 0), OSTaskQLast = (\<lambda>_ _. 0), OSRdyTbl = (\<lambda>_. 1),
     OSWaitEvt = (\<lambda>_. 0), GKI_mutex = 0, exceptions = [], fault = False,
     OSTicks = 0, OSTicksTilExp = 0, OSTicksTilStop = 0, OSNumOrigTicks = 0, OSWaitTmr = (\<lambda>_. 0),
     OSTaskTmr = (\<lambda>_ _. 0), OSTaskTmrR = (\<lambda>_ _. 0), timer_nesting = False, timer_queues = [0, 0, 0],
     p_tick_cb = False, system_tick_running = False, tick_calls = [],
     tle = (\<lambda>_. \<lparr>t_next = 0, t_prev = 0, ticks = GKI_UNUSED_LIST_ENTRY, in_use = False\<rparr>),
     tlq = (\<lambda>_. \<lparr>tq_first = 0, tq_last = 0, last_ticks = 0\<rparr>)\<rparr>"

lemma tl_blank_fresh: "e \<noteq> 0 \<Longrightarrow> tl_fresh (GKI_init_timer_list tl_blank q) e"
  by (simp add: tl_fresh_def GKI_init_timer_list_def) (simp add: nxt_def prv_def usd_def tl_blank_def)

theorem timer_list_countdown_witness:
  "\<exists>s'. run_ops (timer_list_step 64) (GKI_init_timer_list tl_blank 64)
      [Start 8 30, Start 16 10, Tick 4, Start 24 20, Stop 16, Tick 7] = Some s' \<and>
    (\<forall>e. e \<noteq> 0 \<longrightarrow> GKI_get_remaining_ticks s' 64 e =
      Some (case foldl countdown Map.empty [Start 8 30, Start 16 10, Tick 4, Start 24 20, Stop 16, Tick 7] e of
        None \<Rightarrow> 0 | Some r \<Rightarrow> of_int r))"
  by (rule timer_list_countdown [of "{8, 16, 24}"]) (simp_all add: tl_blank_fresh GKI_MAX_INT32_def)

lemma tl_times_first:
  assumes rep: "tl_rep s q xs" and m: "tl_times s xs = m" and ne: "m \<noteq> Map.empty"
  shows "m (tq_first (tlq s q)) = Some (tck s (tq_first (tlq s q)))" and "m e = Some r \<Longrightarrow> tck s (tq_first (tlq s q)) \<le> r"
proof -
  obtain x ys where xs: "xs = x # ys" using m ne by (cases xs) (auto simp: tl_times_def)
  have x: "tq_first (tlq s q) = x" and nn: "\<forall>d \<in> set (map (tck s) xs). 0 \<le> d"
    using rep xs by (auto simp: tl_rep_def)
  show "m (tq_first (tlq s q)) = Some (tck s (tq_first (tlq s q)))"
    unfolding x m [symmetric] by (simp add: tl_times_def xs)
  show "tck s (tq_first (tlq s q)) \<le> r" if "m e = Some r"
  proof -
    have "r \<in> set (expiry 0 (map (tck s) xs))"
      using that unfolding m [symmetric] tl_times_def by (meson map_of_SomeD set_zip_rightD)
    then show ?thesis unfolding x xs using nn expiry_ge [of "map (tck s) ys" r "tck s x"] by (auto simp: xs)
  qed
qed

text \<open>C21: the first entry of a list is the next to expire.  The list is empty exactly when no timer runs;
  otherwise the ticks of the first entry are its remaining time, and no running timer has less.
  So looking at the first entry until it is not \<open>0\<close> finds every expired timer.\<close>

theorem timer_list_first_expires_first:
  assumes "\<forall>e \<in> U. tl_fresh (GKI_init_timer_list s q) e" and "all_legal U Map.empty ops"
  shows "\<exists>s'. run_ops (timer_list_step q) (GKI_init_timer_list s q) ops = Some s' \<and>
    (if foldl countdown Map.empty ops = Map.empty then tq_first (tlq s' q) = 0
     else foldl countdown Map.empty ops (tq_first (tlq s' q)) = Some (ticks (tle s' (tq_first (tlq s' q)))) \<and>
       (\<forall>e r. foldl countdown Map.empty ops e = Some r \<longrightarrow> ticks (tle s' (tq_first (tlq s' q))) \<le> r))"
proof -
  from timer_list_run [OF assms] obtain s' xs where s': "run_ops (timer_list_step q) (GKI_init_timer_list s q) ops = Some s'"
    "tl_rep s' q xs" "tl_times s' xs = foldl countdown Map.empty ops" by blast
  show ?thesis
  proof (cases "foldl countdown Map.empty ops = Map.empty")
    case True
    then have "xs = []" using s'(3) dom_tl_times [of s' xs] by auto
    then show ?thesis using s' True by (auto simp: tl_rep_def)
  next
    case False
    then show ?thesis using s'(1) tl_times_first [OF s'(2,3) False] by (auto simp: tle_folds)
  qed
qed

theorem timer_list_first_expires_first_witness:
  "\<exists>s'. run_ops (timer_list_step 64) (GKI_init_timer_list tl_blank 64) [Start 8 30, Start 16 10, Tick 4] = Some s' \<and>
    (if foldl countdown Map.empty [Start 8 30, Start 16 10, Tick 4] = Map.empty then tq_first (tlq s' 64) = 0
     else foldl countdown Map.empty [Start 8 30, Start 16 10, Tick 4] (tq_first (tlq s' 64)) =
         Some (ticks (tle s' (tq_first (tlq s' 64)))) \<and>
       (\<forall>e r. foldl countdown Map.empty [Start 8 30, Start 16 10, Tick 4] e = Some r \<longrightarrow> ticks (tle s' (tq_first (tlq s' 64))) \<le> r))"
  by (rule timer_list_first_expires_first [of "{8, 16, 24}"]) (simp_all add: tl_blank_fresh GKI_MAX_INT32_def)

text \<open>C23: the count \<open>GKI_update_timer_list\<close> returns can be too small.  When two timers expire at the same
  time and an update reaches exactly that time, both are at \<open>0\<close> afterwards and one is reported.\<close>

theorem GKI_update_timer_list_undercount:
  assumes "tl_rep s q [a, b]" and "ticks (tle s a) = n" and "ticks (tle s b) = 0" and "0 < n"
  shows "\<exists>s'. GKI_update_timer_list s q n = Some (s', 1) \<and> ticks (tle s' a) = 0 \<and> ticks (tle s' b) = 0"
proof -
  have c: "tq_first (tlq s q) = a" "a \<noteq> 0" "nxt s a = b" "b \<noteq> 0" "nxt s b = 0" "a \<noteq> b"
    using assms(1) tl_rep_distinct [OF assms(1)] by (auto simp: tl_rep_def)
  have "skip_timed_out s a 0 = Some (a, 0)" using c assms by (subst skip_timed_out.simps) simp
  moreover have "\<exists>s1. adjust_entries s a n 0 = Some (s1, 1) \<and> ticks (tle s1 a) = 0 \<and> ticks (tle s1 b) = 0"
    using c assms by (subst adjust_entries.simps) (simp add: adjust_entries.simps Let_def set_tle_def)
  ultimately show ?thesis using c(1) by (auto simp: GKI_update_timer_list_def)
qed

theorem GKI_update_timer_list_undercount_witness:
  "\<exists>s s'. GKI_update_timer_list s 64 5 = Some (s', 1) \<and> ticks (tle s' 8) = 0 \<and> ticks (tle s' 16) = 0"
proof -
  let ?s = "tl_blank\<lparr>tle := (\<lambda>_. \<lparr>t_next = 0, t_prev = 0, ticks = 0, in_use = True\<rparr>)
      (8 := \<lparr>t_next = 16, t_prev = 0, ticks = 5, in_use = True\<rparr>, 16 := \<lparr>t_next = 0, t_prev = 8, ticks = 0, in_use = True\<rparr>),
      tlq := (\<lambda>_. \<lparr>tq_first = 8, tq_last = 16, last_ticks = 5\<rparr>)\<rparr>"
  have "tl_rep ?s 64 [8, 16]"
    by (simp add: tl_rep_def nxt_def prv_def tck_def usd_def GKI_MAX_INT32_def last0_def)
  from GKI_update_timer_list_undercount [OF this, of 5] show ?thesis by auto
qed

end
