(* ===== verification/Gki_Task_Timer.thy ===== *)
theory Gki_Task_Timer
  imports Gki_Timer_List
begin

text \<open>
  The task timers count down correctly although \<open>GKI_timer_update\<close> touches them only when the next
  expiration is due.  Between two such passes the time gone by is
  \<open>OSNumOrigTicks - OSTicksTilExp\<close>; a timer holds its remaining time plus that amount.
\<close>

section \<open>Invariant\<close>

definition elapsed :: "gki_cb \<Rightarrow> int" where
  "elapsed s = OSNumOrigTicks s - OSTicksTilExp s"

definition running :: "gki_cb \<Rightarrow> nat \<Rightarrow> nat \<Rightarrow> bool" where
  "running s k tid \<longleftrightarrow> k < GKI_NUM_TIMERS \<and> tid < GKI_MAX_TASKS \<and> 0 < OSTaskTmr s k tid"

definition left :: "gki_cb \<Rightarrow> nat \<Rightarrow> nat \<Rightarrow> int" where
  "left s k tid = OSTaskTmr s k tid - elapsed s"

definition tt_inv :: "gki_cb \<Rightarrow> bool" where
  "tt_inv s \<longleftrightarrow>
     (\<forall>k < GKI_NUM_TIMERS. \<forall>tid < GKI_MAX_TASKS. 0 \<le> OSTaskTmr s k tid \<and> 0 \<le> OSTaskTmrR s k tid) \<and>
     (\<forall>k tid. running s k tid \<longrightarrow> 0 < left s k tid \<and> OSTicksTilStop s = 0 \<and>
        (0 < OSTicksTilExp s \<longrightarrow> OSNumOrigTicks s \<le> OSTaskTmr s k tid) \<and>
        (OSNumOrigTicks s = 0 \<longrightarrow> GKI_MAX_INT32 \<le> OSTaskTmr s k tid)) \<and>
     0 \<le> elapsed s \<and> \<not> timer_nesting s"

definition timer_event :: "gki_cb \<Rightarrow> nat \<Rightarrow> nat \<Rightarrow> bool" where
  "timer_event s k tid = bit (OSWaitEvt s tid) (4 + k)"

lemmas tt_defs = elapsed_def running_def left_def timer_event_def

lemma is_timer_running_iff:
  "(\<forall>k < GKI_NUM_TIMERS. \<forall>tid < GKI_MAX_TASKS. 0 \<le> OSTaskTmr s k tid) \<Longrightarrow>
   gki_timers_is_timer_running s \<longleftrightarrow> (\<exists>k tid. running s k tid)"
  unfolding gki_timers_is_timer_running_def list_ex_iff running_def set_upt
  by (metis atLeastLessThan_iff le0 order_le_imp_less_or_eq order_less_irrefl)

lemma OS_fields [simp]:
  "OSTaskTmr (GKI_disable s) = OSTaskTmr s" "OSTaskTmrR (GKI_disable s) = OSTaskTmrR s"
  "OSNumOrigTicks (GKI_disable s) = OSNumOrigTicks s" "OSTicksTilExp (GKI_disable s) = OSTicksTilExp s"
  "OSTicksTilStop (GKI_disable s) = OSTicksTilStop s" "timer_nesting (GKI_disable s) = timer_nesting s"
  "OSTaskTmr (GKI_enable s) = OSTaskTmr s" "OSTaskTmrR (GKI_enable s) = OSTaskTmrR s"
  "OSNumOrigTicks (GKI_enable s) = OSNumOrigTicks s" "OSTicksTilExp (GKI_enable s) = OSTicksTilExp s"
  "OSTicksTilStop (GKI_enable s) = OSTicksTilStop s" "timer_nesting (GKI_enable s) = timer_nesting s"
  "OSWaitEvt (GKI_disable s) = OSWaitEvt s" "OSWaitEvt (GKI_enable s) = OSWaitEvt s"
  "OSTaskTmr (call_tick_cb b s) = OSTaskTmr s" "OSTaskTmrR (call_tick_cb b s) = OSTaskTmrR s"
  "OSNumOrigTicks (call_tick_cb b s) = OSNumOrigTicks s" "OSTicksTilExp (call_tick_cb b s) = OSTicksTilExp s"
  "OSTicksTilStop (call_tick_cb b s) = OSTicksTilStop s" "timer_nesting (call_tick_cb b s) = timer_nesting s"
  "OSWaitEvt (call_tick_cb b s) = OSWaitEvt s"
  by (simp_all add: GKI_disable_def GKI_enable_def call_tick_cb_def)

section \<open>One pass over the timers\<close>

definition newtmr :: "gki_cb \<Rightarrow> nat \<Rightarrow> nat \<Rightarrow> int" where
  "newtmr s k tid = (if OSTaskTmr s k tid > 0
     then if OSTaskTmr s k tid \<le> OSNumOrigTicks s then OSTaskTmrR s k tid else OSTaskTmr s k tid - OSNumOrigTicks s
     else OSTaskTmr s k tid)"

definition expires :: "gki_cb \<Rightarrow> nat \<Rightarrow> nat \<Rightarrow> bool" where
  "expires s k tid \<longleftrightarrow> 0 < OSTaskTmr s k tid \<and> OSTaskTmr s k tid \<le> OSNumOrigTicks s"

text \<open>\<open>timers_done P s nx s' nx'\<close>: from \<open>s\<close> and \<open>nx\<close>, the pass has handled the timers \<open>P\<close> and reached
  \<open>s'\<close> and \<open>nx'\<close>.\<close>

definition timers_done :: "(nat \<times> nat) set \<Rightarrow> gki_cb \<Rightarrow> int \<Rightarrow> gki_cb \<times> int \<Rightarrow> bool" where
  "timers_done P s nx sn \<longleftrightarrow>
     (\<forall>k < GKI_NUM_TIMERS. \<forall>tid < GKI_MAX_TASKS.
        OSTaskTmr (fst sn) k tid = (if (k, tid) \<in> P then newtmr s k tid else OSTaskTmr s k tid) \<and>
        timer_event (fst sn) k tid = (timer_event s k tid \<or> (k, tid) \<in> P \<and> expires s k tid) \<and>
        ((k, tid) \<in> P \<longrightarrow> 0 < newtmr s k tid \<longrightarrow> snd sn \<le> newtmr s k tid)) \<and>
     OSTaskTmrR (fst sn) = OSTaskTmrR s \<and> OSNumOrigTicks (fst sn) = OSNumOrigTicks s \<and>
     OSTicksTilStop (fst sn) = OSTicksTilStop s \<and> snd sn \<le> nx \<and> (0 < nx \<longrightarrow> 0 < snd sn)"

lemma timer_mask_bit: "k < GKI_NUM_TIMERS \<Longrightarrow> j < GKI_NUM_TIMERS \<Longrightarrow> bit (TIMER_EVT_MASK j) (4 + k) \<longleftrightarrow> j = k"
  by (auto simp: TIMER_EVT_MASK_def bit_simps GKI_NUM_TIMERS_def)

lemma update_task_timer_fields:
  fixes s :: gki_cb and nx :: int and k :: nat
  assumes "tid < GKI_MAX_TASKS"
  defines "r \<equiv> update_task_timer k tid (s, nx)"
  shows "OSTaskTmr (fst r) = (OSTaskTmr s)(k := (OSTaskTmr s k)(tid := newtmr s k tid))"
    and "OSWaitEvt (fst r) = (if expires s k tid then (OSWaitEvt s)(tid := OSWaitEvt s tid OR TIMER_EVT_MASK k) else OSWaitEvt s)"
    and "OSTaskTmrR (fst r) = OSTaskTmrR s" and "OSNumOrigTicks (fst r) = OSNumOrigTicks s"
    and "OSTicksTilStop (fst r) = OSTicksTilStop s"
    and "snd r = (if 0 < newtmr s k tid \<and> newtmr s k tid < nx then newtmr s k tid else nx)"
  using assms(1) by (auto simp: r_def update_task_timer_def Let_def newtmr_def expires_def GKI_send_event_def)

lemma timers_done_step:
  assumes d: "timers_done P s nx (s1, nx1)" and p: "(k, tid) \<notin> P" "k < GKI_NUM_TIMERS" "tid < GKI_MAX_TASKS"
  shows "timers_done (insert (k, tid) P) s nx (update_task_timer k tid (s1, nx1))"
proof -
  note f = update_task_timer_fields [OF p(3), where s = s1 and nx = nx1 and k = k]
  have n: "newtmr s1 k tid = newtmr s k tid" "expires s1 k tid = expires s k tid"
    using d p by (auto simp: timers_done_def newtmr_def expires_def)
  have b: "timer_event (fst (update_task_timer k tid (s1, nx1))) k' t' =
      (timer_event s1 k' t' \<or> (k' = k \<and> t' = tid \<and> expires s k tid))" if "k' < GKI_NUM_TIMERS" for k' t'
    using timer_mask_bit [OF that p(2)] by (auto simp: timer_event_def f n bit_or_iff)
  show ?thesis
    using d p unfolding timers_done_def
    by (auto simp: f n b timers_done_def) (fastforce intro: order.trans less_imp_le)+
qed

lemma timers_done_wait:
  "timers_done P s nx (s1, nx1) \<Longrightarrow> timers_done P s nx (update_wait_timer tid s1, nx1)"
  by (simp add: timers_done_def update_wait_timer_def timer_event_def Let_def)

lemma timers_done_task:
  assumes "timers_done P s nx sn" and "\<And>k. (k, tid) \<notin> P" and "tid < GKI_MAX_TASKS"
  shows "timers_done ({0, 1, 2} \<times> {tid} \<union> P) s nx (update_task tid sn)"
proof -
  have d0: "timers_done P s nx (update_wait_timer tid (fst sn), snd sn)"
    using assms(1) by (cases sn) (auto intro: timers_done_wait)
  have d1: "timers_done (insert (0, tid) P) s nx (update_task_timer 0 tid (update_wait_timer tid (fst sn), snd sn))" (is "timers_done _ _ _ ?x")
    by (rule timers_done_step [OF d0]) (use assms in \<open>auto simp: timer_consts\<close>)
  have d2: "timers_done (insert (1, tid) (insert (0, tid) P)) s nx (update_task_timer 1 tid ?x)" (is "timers_done _ _ _ ?y")
    using timers_done_step [of "insert (0, tid) P" s nx "fst ?x" "snd ?x" 1 tid] d1 assms by (auto simp: timer_consts)
  have "timers_done (insert (2, tid) (insert (1, tid) (insert (0, tid) P))) s nx (update_task_timer 2 tid ?y)"
    using timers_done_step [of "insert (1, tid) (insert (0, tid) P)" s nx "fst ?y" "snd ?y" 2 tid] d2 assms by (auto simp: timer_consts)
  moreover have "insert (2, tid) (insert (1, tid) (insert (0, tid) P)) = {0, 1, 2} \<times> {tid} \<union> P" by auto
  ultimately show ?thesis by (simp add: update_task_def)
qed

lemma less_three: "(k::nat) < 3 \<longleftrightarrow> k = 0 \<or> k = 1 \<or> k = 2"
  by arith

lemma timers_done_fold:
  assumes "0 < nx"
  shows "timers_done {(k, tid). k < GKI_NUM_TIMERS \<and> tid < GKI_MAX_TASKS} s nx (fold update_task [0..<GKI_MAX_TASKS] (s, nx))"
proof -
  have l: "[0..<GKI_MAX_TASKS] = [0, 1, 2]" by (simp add: GKI_MAX_TASKS_def upt_rec)
  have d0: "timers_done {} s nx (s, nx)" using assms by (simp add: timers_done_def)
  have d1: "timers_done ({0, 1, 2} \<times> {0} \<union> {}) s nx (update_task 0 (s, nx))" (is "timers_done ?P1 _ _ _")
    by (rule timers_done_task [OF d0]) (auto simp: GKI_MAX_TASKS_def)
  have d2: "timers_done ({0, 1, 2} \<times> {1} \<union> ?P1) s nx (update_task 1 (update_task 0 (s, nx)))" (is "timers_done ?P2 _ _ _")
    by (rule timers_done_task [OF d1]) (auto simp: GKI_MAX_TASKS_def)
  have d3: "timers_done ({0, 1, 2} \<times> {2} \<union> ?P2) s nx (update_task 2 (update_task 1 (update_task 0 (s, nx))))"
    by (rule timers_done_task [OF d2]) (auto simp: GKI_MAX_TASKS_def)
  moreover have "{0, 1, 2} \<times> {2} \<union> ?P2 = {(k, tid). k < GKI_NUM_TIMERS \<and> tid < GKI_MAX_TASKS}"
    unfolding GKI_NUM_TIMERS_def GKI_MAX_TASKS_def less_three by blast
  ultimately show ?thesis by (simp add: l)
qed

section \<open>Updates\<close>

text \<open>What \<open>GKI_timer_update\<close> does to one timer, seen from outside.\<close>

definition ticked :: "gki_cb \<Rightarrow> int \<Rightarrow> gki_cb \<Rightarrow> nat \<Rightarrow> nat \<Rightarrow> bool" where
  "ticked s n s' k tid \<longleftrightarrow>
     (if running s k tid
      then if n < left s k tid
           then running s' k tid \<and> left s' k tid = left s k tid - n \<and> timer_event s' k tid = timer_event s k tid
           else timer_event s' k tid \<and> OSTaskTmr s' k tid = OSTaskTmrR s k tid \<and> elapsed s' = 0
      else OSTaskTmr s' k tid = OSTaskTmr s k tid \<and> timer_event s' k tid = timer_event s k tid)
     \<and> OSTaskTmrR s' k tid = OSTaskTmrR s k tid"

lemma timer_update_due:
  assumes "\<not> timer_nesting s" and "OSTicksTilExp s \<le> n"
    and "OSTicksTilStop s = 0 \<or> nat (n mod 2 ^ 32) < OSTicksTilStop s"
  shows "\<exists>s3. OSTaskTmr s3 = OSTaskTmr s \<and> OSTaskTmrR s3 = OSTaskTmrR s \<and> OSWaitEvt s3 = OSWaitEvt s \<and>
    OSNumOrigTicks s3 = elapsed s + n \<and> (OSTicksTilStop s = 0 \<longrightarrow> OSTicksTilStop s3 = 0) \<and>
    GKI_timer_update s n =
      (let r = fold update_task [0..<GKI_MAX_TASKS] (s3, GKI_NO_NEW_TMRS_STARTED);
           x = (if snd r < GKI_NO_NEW_TMRS_STARTED then snd r else 0)
       in (fst r)\<lparr>OSTicksTilExp := x, OSNumOrigTicks := x, timer_nesting := False\<rparr>)"
proof -
  let ?s1 = "s\<lparr>OSTicks := OSTicks s + of_int n, OSTicksTilExp := OSTicksTilExp s - n, timer_nesting := True\<rparr>"
  let ?s2 = "if OSTicksTilStop s \<noteq> 0 then ?s1\<lparr>OSTicksTilStop := OSTicksTilStop s - nat (n mod 2 ^ 32)\<rparr> else ?s1"
  let ?s3 = "?s2\<lparr>OSNumOrigTicks := OSNumOrigTicks s - (OSTicksTilExp s - n)\<rparr>"
  show ?thesis
  proof (cases "OSTicksTilStop s = 0")
    case True
    with assms show ?thesis
      by (intro exI [of _ ?s3]) (simp add: GKI_timer_update_def Let_def split_def elapsed_def)
  next
    case False
    with assms show ?thesis
      by (intro exI [of _ ?s3]) (simp add: GKI_timer_update_def Let_def split_def elapsed_def)
  qed
qed

lemma timer_update_pass:
  assumes inv: "tt_inv s" and n: "0 \<le> n" and due: "OSTicksTilExp s \<le> n"
    and st: "OSTicksTilStop s = 0 \<or> nat (n mod 2 ^ 32) < OSTicksTilStop s"
  defines "s' \<equiv> GKI_timer_update s n"
  shows "tt_inv s'" and "k < GKI_NUM_TIMERS \<Longrightarrow> tid < GKI_MAX_TASKS \<Longrightarrow> ticked s n s' k tid"
proof -
  note i = inv [unfolded tt_inv_def]
  have nest: "\<not> timer_nesting s" using i by simp
  obtain s3 where s3: "OSTaskTmr s3 = OSTaskTmr s" "OSTaskTmrR s3 = OSTaskTmrR s" "OSWaitEvt s3 = OSWaitEvt s"
    "OSNumOrigTicks s3 = elapsed s + n" "OSTicksTilStop s = 0 \<Longrightarrow> OSTicksTilStop s3 = 0" and
    eq0: "s' = (let r = fold update_task [0..<GKI_MAX_TASKS] (s3, GKI_NO_NEW_TMRS_STARTED);
           x = (if snd r < GKI_NO_NEW_TMRS_STARTED then snd r else 0)
       in (fst r)\<lparr>OSTicksTilExp := x, OSNumOrigTicks := x, timer_nesting := False\<rparr>)"
    using timer_update_due [OF nest due st] unfolding s'_def by metis
  define r where "r = fold update_task [0..<GKI_MAX_TASKS] (s3, GKI_NO_NEW_TMRS_STARTED)"
  define x where "x = (if snd r < GKI_NO_NEW_TMRS_STARTED then snd r else 0)"
  have eq: "s' = (fst r)\<lparr>OSTicksTilExp := x, OSNumOrigTicks := x, timer_nesting := False\<rparr>"
    by (simp add: eq0 Let_def r_def x_def)
  have d: "timers_done {(k, tid). k < GKI_NUM_TIMERS \<and> tid < GKI_MAX_TASKS} s3 GKI_NO_NEW_TMRS_STARTED r"
    unfolding r_def by (rule timers_done_fold) (simp add: timer_consts)
  have f: "OSTaskTmr s' k tid = newtmr s3 k tid \<and> timer_event s' k tid = (timer_event s k tid \<or> expires s3 k tid) \<and>
    (0 < newtmr s3 k tid \<longrightarrow> snd r \<le> newtmr s3 k tid)" if "k < GKI_NUM_TIMERS" "tid < GKI_MAX_TASKS" for k tid
    using d that s3(3) unfolding timers_done_def by (simp add: eq timer_event_def)
  have g: "OSTaskTmrR s' = OSTaskTmrR s" "elapsed s' = 0" "\<not> timer_nesting s'" "0 < snd r" "OSTicksTilExp s' = x" "OSNumOrigTicks s' = x"
    "OSTicksTilStop s' = OSTicksTilStop s3"
    using d s3 by (simp_all add: timers_done_def eq elapsed_def timer_consts)
  have nt: "newtmr s3 k tid = (if OSTaskTmr s k tid > 0
     then if left s k tid \<le> n then OSTaskTmrR s k tid else left s k tid - n else OSTaskTmr s k tid)"
    "expires s3 k tid \<longleftrightarrow> 0 < OSTaskTmr s k tid \<and> left s k tid \<le> n" for k tid
    by (auto simp: newtmr_def expires_def s3 left_def)
  show "ticked s n s' k tid" if "k < GKI_NUM_TIMERS" "tid < GKI_MAX_TASKS" for k tid
    using f [OF that] that g(1,2) by (auto simp: ticked_def nt running_def left_def [of s'])
  have run: "OSTicksTilStop s' = 0" if "running s' k tid" for k tid
  proof -
    have "running s k tid" using that f [of k tid] i by (auto simp: running_def nt split: if_splits)
    then show ?thesis using i s3(5) g(7) by metis
  qed
  have le: "x \<le> OSTaskTmr s' k tid \<and> (x = 0 \<longrightarrow> GKI_MAX_INT32 \<le> OSTaskTmr s' k tid)" if "running s' k tid" for k tid
    using f [of k tid] that g(4) by (auto simp: running_def x_def timer_consts)
  have nn: "0 \<le> OSTaskTmr s' k tid" if "k < GKI_NUM_TIMERS" "tid < GKI_MAX_TASKS" for k tid
    using f [OF that] i that by (auto simp: nt)
  show "tt_inv s'"
    unfolding tt_inv_def g(1,5,6) using i nn run le g(2,3) by (auto simp: left_def running_def)
qed

lemma timer_update_early:
  assumes inv: "tt_inv s" and n: "0 \<le> n"
    and ne: "OSTicksTilStop s \<noteq> 0 \<and> OSTicksTilStop s \<le> nat (n mod 2 ^ 32) \<or> n < OSTicksTilExp s"
  defines "s' \<equiv> GKI_timer_update s n"
  shows "tt_inv s'" and "k < GKI_NUM_TIMERS \<Longrightarrow> tid < GKI_MAX_TASKS \<Longrightarrow> ticked s n s' k tid"
proof -
  note i = inv [unfolded tt_inv_def]
  have f: "OSTaskTmr s' = OSTaskTmr s" "OSTaskTmrR s' = OSTaskTmrR s" "OSWaitEvt s' = OSWaitEvt s"
    "OSTicksTilExp s' = OSTicksTilExp s - n" "OSNumOrigTicks s' = OSNumOrigTicks s" "\<not> timer_nesting s'"
    "OSTicksTilStop s = 0 \<Longrightarrow> OSTicksTilStop s' = 0"
    using i ne unfolding s'_def GKI_timer_update_def Let_def by (auto simp: call_tick_cb_def)
  have e: "elapsed s' = elapsed s + n" by (simp add: elapsed_def f)
  have r: "running s' = running s" by (simp add: running_def f fun_eq_iff)
  have lt: "n < left s k tid" if "running s k tid" for k tid
  proof -
    have "OSTicksTilStop s = 0" using i that by blast
    then have "n < OSTicksTilExp s" using ne by simp
    moreover from this have "OSNumOrigTicks s \<le> OSTaskTmr s k tid" using i n that by force
    ultimately show ?thesis by (simp add: left_def elapsed_def)
  qed
  show "ticked s n s' k tid" if "k < GKI_NUM_TIMERS" "tid < GKI_MAX_TASKS" for k tid
    using lt [of k tid] by (simp add: ticked_def r f e left_def timer_event_def)
  show "tt_inv s'"
    unfolding tt_inv_def left_def r f(1,2,4,5) e using i lt [unfolded left_def] n f(6,7) by (fastforce simp: left_def)
qed

lemma timer_update_ticked:
  assumes "tt_inv s" and "0 \<le> n"
  shows "tt_inv (GKI_timer_update s n)"
    and "k < GKI_NUM_TIMERS \<Longrightarrow> tid < GKI_MAX_TASKS \<Longrightarrow> ticked s n (GKI_timer_update s n) k tid"
  using timer_update_pass [OF assms] timer_update_early [OF assms] by (meson leI)+

section \<open>Starting and stopping\<close>

lemma start_timer_fields:
  fixes c :: bool
  assumes inv: "tt_inv s" and b: "tid < GKI_MAX_TASKS" "tnum < GKI_NUM_TIMERS" "0 < t" "t + elapsed s < GKI_MAX_INT32"
  defines "s' \<equiv> GKI_start_timer tid s tnum t c"
  shows "OSTaskTmr s' = (OSTaskTmr s)(tnum := (OSTaskTmr s tnum)(tid := t + elapsed s))"
    and "OSTaskTmrR s' = (OSTaskTmrR s)(tnum := (OSTaskTmrR s tnum)(tid := (if c then t else 0)))"
    and "OSWaitEvt s' = OSWaitEvt s" and "timer_nesting s' = timer_nesting s" and "OSTicksTilStop s' = 0"
    and "elapsed s' = elapsed s"
    and "(OSNumOrigTicks s', OSTicksTilExp s') = (if OSNumOrigTicks s = 0 \<or> (t < OSTicksTilExp s \<and> OSTicksTilExp s > 0)
      then (elapsed s + t, t) else (OSNumOrigTicks s, OSTicksTilExp s))"
proof -
  note i = inv [unfolded tt_inv_def]
  define s1 where "s1 = (if \<not> gki_timers_is_timer_running (GKI_disable s)
      then if OSTicksTilStop (GKI_disable s) = 0 then call_tick_cb True (GKI_disable s)
           else (GKI_disable s)\<lparr>OSTicksTilStop := 0\<rparr> else GKI_disable s)"
  have f: "OSTaskTmr s1 = OSTaskTmr s" "OSTaskTmrR s1 = OSTaskTmrR s" "OSNumOrigTicks s1 = OSNumOrigTicks s"
    "OSTicksTilExp s1 = OSTicksTilExp s" "OSWaitEvt s1 = OSWaitEvt s" "timer_nesting s1 = timer_nesting s"
    by (auto simp: s1_def)
  have "OSTicksTilStop s = 0" if "gki_timers_is_timer_running (GKI_disable s)"
    using that is_timer_running_iff [of "GKI_disable s"] i by (auto simp: running_def)
  then have st: "OSTicksTilStop s1 = 0" by (auto simp: s1_def)
  have e1: "elapsed s1 = elapsed s" by (simp add: elapsed_def f)
  have "s' = GKI_enable (gki_adjust_timer_count (set_task_timer tnum tid (if c then t else 0) (t + elapsed s1) s1) t)"
    unfolding s'_def GKI_start_timer_def Let_def s1_def [symmetric] using b e1
    by (simp add: elapsed_def)
  then have eq: "s' = GKI_enable (gki_adjust_timer_count (set_task_timer tnum tid (if c then t else 0) (t + elapsed s) s1) t)"
    by (simp add: e1)
  show "OSTaskTmr s' = (OSTaskTmr s)(tnum := (OSTaskTmr s tnum)(tid := t + elapsed s))"
    "OSTaskTmrR s' = (OSTaskTmrR s)(tnum := (OSTaskTmrR s tnum)(tid := (if c then t else 0)))"
    "OSWaitEvt s' = OSWaitEvt s" "timer_nesting s' = timer_nesting s" "OSTicksTilStop s' = 0"
    unfolding eq using b f st by (auto simp: gki_adjust_timer_count_def set_task_timer_def)
  show *: "(OSNumOrigTicks s', OSTicksTilExp s') = (if OSNumOrigTicks s = 0 \<or> (t < OSTicksTilExp s \<and> OSTicksTilExp s > 0)
      then (elapsed s + t, t) else (OSNumOrigTicks s, OSTicksTilExp s))"
    unfolding eq using b f by (auto simp: gki_adjust_timer_count_def set_task_timer_def elapsed_def)
  show "elapsed s' = elapsed s"
    using * by (auto simp: elapsed_def split: if_splits)
qed

lemma start_timer_inv:
  assumes inv: "tt_inv s" and b: "tid < GKI_MAX_TASKS" "tnum < GKI_NUM_TIMERS" "0 < t" "t + elapsed s < GKI_MAX_INT32"
  shows "tt_inv (GKI_start_timer tid s tnum t c)"
proof -
  let ?s = "GKI_start_timer tid s tnum t c"
  note i = inv [unfolded tt_inv_def] and f = start_timer_fields [OF assms, where c = c]
  have o: "OSNumOrigTicks ?s = (if OSNumOrigTicks s = 0 \<or> (t < OSTicksTilExp s \<and> OSTicksTilExp s > 0) then elapsed s + t else OSNumOrigTicks s)"
    "OSTicksTilExp ?s = (if OSNumOrigTicks s = 0 \<or> (t < OSTicksTilExp s \<and> OSTicksTilExp s > 0) then t else OSTicksTilExp s)"
    using f(7) by (auto split: if_splits)
  have l: "left ?s k x = OSTaskTmr ?s k x - elapsed s" for k x by (simp add: left_def f(6))
  have run: "running ?s k x \<longleftrightarrow> (k = tnum \<and> x = tid) \<or> running s k x" for k x
    using b i by (auto simp: running_def f)
  have "0 < left ?s k x \<and> OSTicksTilStop ?s = 0 \<and>
      (0 < OSTicksTilExp ?s \<longrightarrow> OSNumOrigTicks ?s \<le> OSTaskTmr ?s k x) \<and>
      (OSNumOrigTicks ?s = 0 \<longrightarrow> GKI_MAX_INT32 \<le> OSTaskTmr ?s k x)" if r: "running ?s k x" for k x
  proof (cases "k = tnum \<and> x = tid")
    case True
    then have "OSTaskTmr ?s k x = t + elapsed s" by (simp add: f)
    then show ?thesis using b i by (auto simp: o l f(5) elapsed_def [of s])
  next
    case False
    with r have "running s k x" using run by blast
    then have "0 < left s k x" "0 < OSTicksTilExp s \<longrightarrow> OSNumOrigTicks s \<le> OSTaskTmr s k x"
      "OSNumOrigTicks s = 0 \<longrightarrow> GKI_MAX_INT32 \<le> OSTaskTmr s k x" using i by blast+
    moreover have "OSTaskTmr ?s k x = OSTaskTmr s k x" using False by (auto simp: f)
    ultimately show ?thesis using b i by (auto simp: o l f(5) left_def [of s] elapsed_def [of s])
  qed
  then show ?thesis using i b unfolding tt_inv_def f(4,6) by (auto simp: f)
qed

lemma stop_timer_inv:
  fixes tnum :: nat
  assumes inv: "tt_inv s" and b: "tid < GKI_MAX_TASKS"
  defines "s' \<equiv> GKI_stop_timer tid s tnum"
  shows "tt_inv s'"
    and "OSTaskTmr s' = (if tnum < GKI_NUM_TIMERS then (OSTaskTmr s)(tnum := (OSTaskTmr s tnum)(tid := 0)) else OSTaskTmr s)"
    and "elapsed s' = elapsed s" and "OSWaitEvt s' = OSWaitEvt s"
proof -
  note i = inv [unfolded tt_inv_def]
  define s0 where "s0 = GKI_disable (if tnum < GKI_NUM_TIMERS then set_task_timer tnum tid 0 0 s else s)"
  have eq: "s' = GKI_enable (if \<not> gki_timers_is_timer_running s0 \<and> p_tick_cb s0 \<and> system_tick_running s0 \<and> OSTicksTilStop s0 = 0
      then s0\<lparr>OSTicksTilStop := GKI_DELAY_STOP_SYS_TICK\<rparr> else s0)"
    unfolding s'_def GKI_stop_timer_def Let_def s0_def by (rule refl)
  have f0: "OSTaskTmr s0 = (if tnum < GKI_NUM_TIMERS then (OSTaskTmr s)(tnum := (OSTaskTmr s tnum)(tid := 0)) else OSTaskTmr s)"
    "OSTaskTmrR s0 = (if tnum < GKI_NUM_TIMERS then (OSTaskTmrR s)(tnum := (OSTaskTmrR s tnum)(tid := 0)) else OSTaskTmrR s)"
    "OSNumOrigTicks s0 = OSNumOrigTicks s" "OSTicksTilExp s0 = OSTicksTilExp s" "OSWaitEvt s0 = OSWaitEvt s"
    "timer_nesting s0 = timer_nesting s" "OSTicksTilStop s0 = OSTicksTilStop s"
    using b by (auto simp: s0_def set_task_timer_def)
  have f: "OSTaskTmr s' = OSTaskTmr s0" "OSTaskTmrR s' = OSTaskTmrR s0" "OSNumOrigTicks s' = OSNumOrigTicks s"
    "OSTicksTilExp s' = OSTicksTilExp s" "OSWaitEvt s' = OSWaitEvt s" "timer_nesting s' = timer_nesting s"
    "gki_timers_is_timer_running s0 \<Longrightarrow> OSTicksTilStop s' = OSTicksTilStop s"
    unfolding eq using f0 by auto
  have nn: "0 \<le> OSTaskTmr s0 k x \<and> 0 \<le> OSTaskTmrR s0 k x" if "k < GKI_NUM_TIMERS" "x < GKI_MAX_TASKS" for k x
    using i that by (auto simp: f0)
  have sub: "running s k x \<and> OSTaskTmr s' k x = OSTaskTmr s k x" if "running s' k x" for k x
    using that unfolding running_def f(1) f0(1) by (auto split: if_splits)
  have stop: "OSTicksTilStop s' = OSTicksTilStop s" if "running s' k x" for k x
  proof -
    have "running s0 k x" using that by (simp add: running_def f)
    then have "gki_timers_is_timer_running s0" using is_timer_running_iff [of s0] nn by blast
    then show ?thesis by (rule f(7))
  qed
  show "elapsed s' = elapsed s" by (simp add: elapsed_def f)
  then have l: "left s' k x = left s k x" if "running s' k x" for k x using sub [OF that] by (simp add: left_def)
  show "tt_inv s'"
    unfolding tt_inv_def f(1-4,6) \<open>elapsed s' = elapsed s\<close>
    using i nn sub stop l by (metis f(1))
  show "OSTaskTmr s' = (if tnum < GKI_NUM_TIMERS then (OSTaskTmr s)(tnum := (OSTaskTmr s tnum)(tid := 0)) else OSTaskTmr s)"
    "OSWaitEvt s' = OSWaitEvt s" by (simp_all add: f f0)
qed

section \<open>Properties\<close>

abbreviation timer_updates :: "gki_cb \<Rightarrow> int list \<Rightarrow> gki_cb" where
  "timer_updates s ns \<equiv> foldl GKI_timer_update s ns"

lemma timer_updates_running:
  assumes "tt_inv s" and "running s k tid" and "\<forall>n \<in> set ns. 0 \<le> n" and "sum_list ns < left s k tid"
  shows "tt_inv (timer_updates s ns) \<and> running (timer_updates s ns) k tid \<and>
    left (timer_updates s ns) k tid = left s k tid - sum_list ns \<and>
    timer_event (timer_updates s ns) k tid = timer_event s k tid \<and>
    OSTaskTmrR (timer_updates s ns) k tid = OSTaskTmrR s k tid"
  using assms
proof (induction ns arbitrary: s)
  case (Cons n ns)
  have kt: "k < GKI_NUM_TIMERS" "tid < GKI_MAX_TASKS" using Cons.prems(2) by (auto simp: running_def)
  have n: "0 \<le> n" "0 \<le> sum_list ns" using Cons.prems(3) by (auto intro: sum_list_nonneg)
  have "ticked s n (GKI_timer_update s n) k tid" by (rule timer_update_ticked(2) [OF Cons.prems(1) n(1) kt])
  then have "running (GKI_timer_update s n) k tid" "left (GKI_timer_update s n) k tid = left s k tid - n"
    "timer_event (GKI_timer_update s n) k tid = timer_event s k tid"
    "OSTaskTmrR (GKI_timer_update s n) k tid = OSTaskTmrR s k tid"
    using Cons.prems n(2) by (auto simp: ticked_def)
  with Cons.IH [OF timer_update_ticked(1) [OF Cons.prems(1) n(1)]] Cons.prems show ?case by simp
qed simp

text \<open>C5: a task timer expires on time.  After \<open>GKI_start_timer\<close> with \<open>t\<close> ticks, however the clock is
  delivered, the expiry event of the timer is not raised while fewer than \<open>t\<close> ticks have passed, and
  the first update that makes it \<open>t\<close> raises it; a continuous timer then runs again for \<open>t\<close> ticks, a
  one-shot timer has stopped.\<close>

theorem task_timer_expires_on_time:
  fixes c :: bool
  assumes "tt_inv s" and "tid < GKI_MAX_TASKS" and "tnum < GKI_NUM_TIMERS" and "0 < t" and "t + elapsed s < GKI_MAX_INT32"
    and "\<forall>n \<in> set ns. 0 \<le> n" and "sum_list ns < t" and "t \<le> sum_list ns + n"
  defines "s1 \<equiv> timer_updates (GKI_start_timer tid s tnum t c) ns"
  shows "timer_event s1 tnum tid = timer_event s tnum tid \<and> left s1 tnum tid = t - sum_list ns \<and>
    timer_event (GKI_timer_update s1 n) tnum tid \<and>
    (if c then running (GKI_timer_update s1 n) tnum tid \<and> left (GKI_timer_update s1 n) tnum tid = t
     else OSTaskTmr (GKI_timer_update s1 n) tnum tid = 0)"
proof -
  let ?s0 = "GKI_start_timer tid s tnum t c"
  note f = start_timer_fields [OF assms(1-5), where c = c]
  have e: "0 \<le> elapsed s" using assms(1) by (simp add: tt_inv_def)
  have s0: "tt_inv ?s0" "running ?s0 tnum tid" "left ?s0 tnum tid = t" "timer_event ?s0 tnum tid = timer_event s tnum tid"
    "OSTaskTmrR ?s0 tnum tid = (if c then t else 0)"
    using start_timer_inv [OF assms(1-5), of c] assms(2-4) e by (simp_all add: running_def left_def timer_event_def f)
  have s1: "tt_inv s1" "running s1 tnum tid" "left s1 tnum tid = t - sum_list ns"
    "timer_event s1 tnum tid = timer_event s tnum tid" "OSTaskTmrR s1 tnum tid = (if c then t else 0)"
    using timer_updates_running [OF s0(1,2) assms(6)] assms(7) s0 unfolding s1_def by auto
  have n: "0 \<le> n" using assms(7,8) by linarith
  have "ticked s1 n (GKI_timer_update s1 n) tnum tid"
    by (rule timer_update_ticked(2) [OF s1(1) n assms(3,2)])
  then show ?thesis
    using s1 assms(2-4,8) by (auto simp: ticked_def running_def left_def)
qed

lemma tl_blank_tt_inv: "tt_inv tl_blank"
  by (simp add: tt_inv_def running_def tl_blank_def elapsed_def)

theorem task_timer_expires_on_time_witness:
  "timer_event (timer_updates (GKI_start_timer 1 tl_blank 2 10 True) [3, 4]) 2 1 = timer_event tl_blank 2 1 \<and>
    left (timer_updates (GKI_start_timer 1 tl_blank 2 10 True) [3, 4]) 2 1 = 10 - sum_list [3, 4] \<and>
    timer_event (GKI_timer_update (timer_updates (GKI_start_timer 1 tl_blank 2 10 True) [3, 4]) 3) 2 1 \<and>
    (if True then running (GKI_timer_update (timer_updates (GKI_start_timer 1 tl_blank 2 10 True) [3, 4]) 3) 2 1 \<and>
       left (GKI_timer_update (timer_updates (GKI_start_timer 1 tl_blank 2 10 True) [3, 4]) 3) 2 1 = 10
     else OSTaskTmr (GKI_timer_update (timer_updates (GKI_start_timer 1 tl_blank 2 10 True) [3, 4]) 3) 2 1 = 0)"
  by (rule task_timer_expires_on_time [OF tl_blank_tt_inv])
    (simp_all add: timer_consts GKI_MAX_TASKS_def elapsed_def tl_blank_def)

text \<open>The states the task timers reach: initialisation, then any starts, stops and updates.  A start has
  room for its ticks within an INT32, and the clock does not run backwards.\<close>

inductive tt_reach :: "gki_cb \<Rightarrow> bool" where
  init: "\<not> timer_nesting s \<Longrightarrow> tt_reach (gki_timers_init s)"
| start: "tt_reach s \<Longrightarrow> tid < GKI_MAX_TASKS \<Longrightarrow> tnum < GKI_NUM_TIMERS \<Longrightarrow> 0 < t \<Longrightarrow> t + elapsed s < GKI_MAX_INT32 \<Longrightarrow>
    tt_reach (GKI_start_timer tid s tnum t c)"
| stop: "tt_reach s \<Longrightarrow> tid < GKI_MAX_TASKS \<Longrightarrow> tt_reach (GKI_stop_timer tid s tnum)"
| update: "tt_reach s \<Longrightarrow> 0 \<le> n \<Longrightarrow> tt_reach (GKI_timer_update s n)"

lemma tt_reach_inv: "tt_reach s \<Longrightarrow> tt_inv s"
proof (induction rule: tt_reach.induct)
  case (init s)
  then show ?case by (auto simp: tt_inv_def running_def gki_timers_init_def elapsed_def)
next
  case (start s tid tnum t c)
  then show ?case by (intro start_timer_inv)
next
  case (stop s tid tnum)
  then show ?case by (intro stop_timer_inv(1))
next
  case (update s n)
  then show ?case by (intro timer_update_ticked(1))
qed

text \<open>C22: a power manager may sleep for as long as \<open>GKI_ready_to_sleep\<close> says.  In every reachable state
  a running timer has ticks left, and a positive \<open>GKI_ready_to_sleep\<close> is at most what is left of any
  running timer.\<close>

theorem GKI_ready_to_sleep_safe:
  assumes "tt_reach s" and "running s k tid"
  shows "0 < left s k tid \<and> (0 < GKI_ready_to_sleep s \<longrightarrow> GKI_ready_to_sleep s \<le> left s k tid)"
  using tt_reach_inv [OF assms(1)] assms(2)
  by (auto simp: tt_inv_def GKI_ready_to_sleep_def left_def elapsed_def)

theorem GKI_ready_to_sleep_safe_witness:
  "GKI_ready_to_sleep (GKI_start_timer 1 (gki_timers_init tl_blank) 0 25 False) = 25 \<and>
   25 \<le> left (GKI_start_timer 1 (gki_timers_init tl_blank) 0 25 False) 0 1"
proof -
  let ?s = "GKI_start_timer 1 (gki_timers_init tl_blank) 0 25 False"
  have b: "1 < GKI_MAX_TASKS" "0 < GKI_NUM_TIMERS" "(0::int) < 25" "25 + elapsed (gki_timers_init tl_blank) < GKI_MAX_INT32"
    by (simp_all add: timer_consts GKI_MAX_TASKS_def elapsed_def gki_timers_init_def)
  have i: "tt_reach (gki_timers_init tl_blank)" by (rule tt_reach.init) (simp add: tl_blank_def)
  note f = start_timer_fields [OF tt_reach_inv [OF i] b, where c = False]
  have "tt_reach ?s" by (rule tt_reach.start [OF i b])
  moreover have "running ?s 0 1" using f(1) b by (simp add: running_def elapsed_def gki_timers_init_def)
  ultimately have "0 < left ?s 0 1 \<and> (0 < GKI_ready_to_sleep ?s \<longrightarrow> GKI_ready_to_sleep ?s \<le> left ?s 0 1)"
    by (rule GKI_ready_to_sleep_safe)
  moreover have "GKI_ready_to_sleep ?s = 25" using f(7) by (simp add: GKI_ready_to_sleep_def gki_timers_init_def)
  ultimately show ?thesis by simp
qed

end
