(* ===== verification/Hci_Defs.thy ===== *)
theory Hci_Defs
  imports Bt_Prelude
begin

text \<open>
  The frame of the HCI command builders of \<^verbatim>\<open>stack/hcic\<close>: the opcodes and parameter sizes of
  \<^verbatim>\<open>hcidefs.h\<close> and \<^verbatim>\<open>hcimsgs.h\<close>, the message buffer \<^verbatim>\<open>BT_HDR\<close>, and what a builder does with it.

  \<^verbatim>\<open>HCI_GET_CMD_BUF\<close> takes a buffer from the HCI command pool.  A builder gets its result as an
  argument: \<open>None\<close> is a null pointer, \<open>Some mem\<close> a buffer whose bytes behind the \<^verbatim>\<open>BT_HDR\<close> are \<open>mem\<close>,
  whatever they held before.  The stream macros overwrite \<open>mem\<close> from the front, so a byte that is
  sent without having been written shows as a byte of \<open>mem\<close>.  A builder returns \<open>None\<close> for FALSE and
  otherwise the calls it makes, in order.
\<close>

record bt_hdr =
  hdr_len :: nat
  hdr_offset :: nat
  hdr_data :: bytes

datatype hci_call =
    Btu_hcif_send_cmd u8 bt_hdr
  | Btm_acl_paging bt_hdr bytes
  | Btm_acl_reset_paging
  | Btm_acl_set_discing bool
  | Hci_acl_data_to_lower bt_hdr

section \<open>Constants\<close>

definition LOCAL_BR_EDR_CONTROLLER_ID :: u8 where "LOCAL_BR_EDR_CONTROLLER_ID = 0"
definition HCIC_PREAMBLE_SIZE :: nat where "HCIC_PREAMBLE_SIZE = 3"
definition HCI_CMD_POOL_BUF_SIZE :: nat where "HCI_CMD_POOL_BUF_SIZE = 660"
definition BT_HDR_SIZE :: nat where "BT_HDR_SIZE = 8"
definition SIZEOF_PTR :: nat where "SIZEOF_PTR = 4"
definition HCIC_PARAM_SIZE_INQUIRY :: nat where "HCIC_PARAM_SIZE_INQUIRY = 5"
definition HCIC_PARAM_SIZE_INQ_CANCEL :: nat where "HCIC_PARAM_SIZE_INQ_CANCEL = 0"
definition HCIC_PARAM_SIZE_PER_INQ_MODE :: nat where "HCIC_PARAM_SIZE_PER_INQ_MODE = 9"
definition HCIC_PARAM_SIZE_EXIT_PER_INQ :: nat where "HCIC_PARAM_SIZE_EXIT_PER_INQ = 0"
definition HCIC_PARAM_SIZE_DISCONNECT :: nat where "HCIC_PARAM_SIZE_DISCONNECT = 3"
definition HCIC_PARAM_SIZE_ADD_SCO_CONN :: nat where "HCIC_PARAM_SIZE_ADD_SCO_CONN = 4"
definition HCIC_PARAM_SIZE_CREATE_CONN_CANCEL :: nat where "HCIC_PARAM_SIZE_CREATE_CONN_CANCEL = 6"
definition HCIC_PARAM_SIZE_ACCEPT_CONN :: nat where "HCIC_PARAM_SIZE_ACCEPT_CONN = 7"
definition HCIC_PARAM_SIZE_REJECT_CONN :: nat where "HCIC_PARAM_SIZE_REJECT_CONN = 7"
definition HCIC_PARAM_SIZE_LINK_KEY_REQ_REPLY :: nat where "HCIC_PARAM_SIZE_LINK_KEY_REQ_REPLY = 22"
definition HCIC_PARAM_SIZE_LINK_KEY_NEG_REPLY :: nat where "HCIC_PARAM_SIZE_LINK_KEY_NEG_REPLY = 6"
definition HCIC_PARAM_SIZE_PIN_CODE_NEG_REPLY :: nat where "HCIC_PARAM_SIZE_PIN_CODE_NEG_REPLY = 6"
definition HCIC_PARAM_SIZE_CHANGE_CONN_TYPE :: nat where "HCIC_PARAM_SIZE_CHANGE_CONN_TYPE = 4"
definition HCIC_PARAM_SIZE_CMD_HANDLE :: nat where "HCIC_PARAM_SIZE_CMD_HANDLE = 2"
definition HCIC_PARAM_SIZE_SET_CONN_ENCRYPT :: nat where "HCIC_PARAM_SIZE_SET_CONN_ENCRYPT = 3"
definition HCIC_PARAM_SIZE_MASTER_LINK_KEY :: nat where "HCIC_PARAM_SIZE_MASTER_LINK_KEY = 1"
definition HCIC_PARAM_SIZE_RMT_NAME_REQ_CANCEL :: nat where "HCIC_PARAM_SIZE_RMT_NAME_REQ_CANCEL = 6"
definition HCIC_PARAM_SIZE_RMT_EXT_FEATURES :: nat where "HCIC_PARAM_SIZE_RMT_EXT_FEATURES = 3"
definition HCIC_PARAM_SIZE_SETUP_ESCO :: nat where "HCIC_PARAM_SIZE_SETUP_ESCO = 17"
definition HCIC_PARAM_SIZE_ACCEPT_ESCO :: nat where "HCIC_PARAM_SIZE_ACCEPT_ESCO = 21"
definition HCIC_PARAM_SIZE_REJECT_ESCO :: nat where "HCIC_PARAM_SIZE_REJECT_ESCO = 7"
definition HCIC_PARAM_SIZE_HOLD_MODE :: nat where "HCIC_PARAM_SIZE_HOLD_MODE = 6"
definition HCIC_PARAM_SIZE_SNIFF_MODE :: nat where "HCIC_PARAM_SIZE_SNIFF_MODE = 10"
definition HCIC_PARAM_SIZE_PARK_MODE :: nat where "HCIC_PARAM_SIZE_PARK_MODE = 6"
definition HCIC_PARAM_SIZE_QOS_SETUP :: nat where "HCIC_PARAM_SIZE_QOS_SETUP = 20"
definition HCIC_PARAM_SIZE_SWITCH_ROLE :: nat where "HCIC_PARAM_SIZE_SWITCH_ROLE = 7"
definition HCIC_PARAM_SIZE_WRITE_POLICY_SET :: nat where "HCIC_PARAM_SIZE_WRITE_POLICY_SET = 4"
definition HCIC_PARAM_SIZE_READ_DEF_POLICY_SET :: nat where "HCIC_PARAM_SIZE_READ_DEF_POLICY_SET = 0"
definition HCIC_PARAM_SIZE_WRITE_DEF_POLICY_SET :: nat where "HCIC_PARAM_SIZE_WRITE_DEF_POLICY_SET = 2"
definition HCIC_PARAM_SIZE_FLOW_SPEC :: nat where "HCIC_PARAM_SIZE_FLOW_SPEC = 21"
definition HCIC_PARAM_SIZE_SET_EVENT_MASK :: nat where "HCIC_PARAM_SIZE_SET_EVENT_MASK = 8"
definition HCIC_PARAM_SIZE_SET_EVENT_MASK_PAGE_2 :: nat where "HCIC_PARAM_SIZE_SET_EVENT_MASK_PAGE_2 = 8"
definition HCIC_PARAM_SIZE_READ_CMD :: nat where "HCIC_PARAM_SIZE_READ_CMD = 0"
definition HCIC_PARAM_SIZE_WRITE_PARAM1 :: nat where "HCIC_PARAM_SIZE_WRITE_PARAM1 = 1"
definition HCIC_PARAM_SIZE_NEW_UNIT_KEY :: nat where "HCIC_PARAM_SIZE_NEW_UNIT_KEY = 0"
definition HCIC_PARAM_SIZE_READ_STORED_KEY :: nat where "HCIC_PARAM_SIZE_READ_STORED_KEY = 7"
definition HCIC_PARAM_SIZE_DELETE_STORED_KEY :: nat where "HCIC_PARAM_SIZE_DELETE_STORED_KEY = 7"
definition HCIC_PARAM_SIZE_WRITE_PARAM2 :: nat where "HCIC_PARAM_SIZE_WRITE_PARAM2 = 2"
definition HCIC_PARAM_SIZE_WRITE_PAGESCAN_CFG :: nat where "HCIC_PARAM_SIZE_WRITE_PAGESCAN_CFG = 4"
definition HCIC_PARAM_SIZE_WRITE_INQSCAN_CFG :: nat where "HCIC_PARAM_SIZE_WRITE_INQSCAN_CFG = 4"
definition HCIC_PARAM_SIZE_WRITE_PARAM3 :: nat where "HCIC_PARAM_SIZE_WRITE_PARAM3 = 3"
definition HCIC_PARAM_SIZE_WRITE_AUTO_FLUSH_TOUT :: nat where "HCIC_PARAM_SIZE_WRITE_AUTO_FLUSH_TOUT = 4"
definition HCIC_PARAM_SIZE_READ_TX_POWER :: nat where "HCIC_PARAM_SIZE_READ_TX_POWER = 3"
definition HCIC_PARAM_SIZE_SET_HOST_BUF_SIZE :: nat where "HCIC_PARAM_SIZE_SET_HOST_BUF_SIZE = 7"
definition HCIC_PARAM_SIZE_WRITE_LINK_SUPER_TOUT :: nat where "HCIC_PARAM_SIZE_WRITE_LINK_SUPER_TOUT = 4"
definition HCIC_PARAM_SIZE_SNIFF_SUB_RATE :: nat where "HCIC_PARAM_SIZE_SNIFF_SUB_RATE = 8"
definition HCIC_PARAM_SIZE_W_SIMP_PAIR :: nat where "HCIC_PARAM_SIZE_W_SIMP_PAIR = 1"
definition HCIC_PARAM_SIZE_R_SIMP_PAIR :: nat where "HCIC_PARAM_SIZE_R_SIMP_PAIR = 0"
definition HCIC_PARAM_SIZE_SIMP_PAIR_DBUG :: nat where "HCIC_PARAM_SIZE_SIMP_PAIR_DBUG = 1"
definition HCIC_PARAM_SIZE_IO_CAP_RESP :: nat where "HCIC_PARAM_SIZE_IO_CAP_RESP = 9"
definition HCIC_PARAM_SIZE_IO_CAP_NEG_REPLY :: nat where "HCIC_PARAM_SIZE_IO_CAP_NEG_REPLY = 7"
definition HCIC_PARAM_SIZE_R_LOCAL_OOB :: nat where "HCIC_PARAM_SIZE_R_LOCAL_OOB = 0"
definition HCIC_PARAM_SIZE_U_PKEY_REPLY :: nat where "HCIC_PARAM_SIZE_U_PKEY_REPLY = 10"
definition HCIC_PARAM_SIZE_U_PKEY_NEG_REPLY :: nat where "HCIC_PARAM_SIZE_U_PKEY_NEG_REPLY = 6"
definition HCIC_PARAM_SIZE_REM_OOB_REPLY :: nat where "HCIC_PARAM_SIZE_REM_OOB_REPLY = 38"
definition HCIC_PARAM_SIZE_REM_OOB_NEG_REPLY :: nat where "HCIC_PARAM_SIZE_REM_OOB_NEG_REPLY = 6"
definition HCIC_PARAM_SIZE_R_TX_POWER :: nat where "HCIC_PARAM_SIZE_R_TX_POWER = 0"
definition HCIC_PARAM_SIZE_W_TX_POWER :: nat where "HCIC_PARAM_SIZE_W_TX_POWER = 1"
definition HCIC_PARAM_SIZE_W_ERR_DATA_RPT :: nat where "HCIC_PARAM_SIZE_W_ERR_DATA_RPT = 1"
definition HCIC_PARAM_SIZE_SEND_KEYPRESS_NOTIF :: nat where "HCIC_PARAM_SIZE_SEND_KEYPRESS_NOTIF = 7"
definition HCIC_PARAM_SIZE_ENHANCED_FLUSH :: nat where "HCIC_PARAM_SIZE_ENHANCED_FLUSH = 3"
definition HCIC_PARAM_SIZE_LOCAL_EXT_FEATURES :: nat where "HCIC_PARAM_SIZE_LOCAL_EXT_FEATURES = 1"
definition HCIC_PARAM_SIZE_READ_CLOCK :: nat where "HCIC_PARAM_SIZE_READ_CLOCK = 3"
definition HCIC_PARAM_SIZE_SET_USED_FEAT_CMD :: nat where "HCIC_PARAM_SIZE_SET_USED_FEAT_CMD = 8"
definition HCIC_PARAM_SIZE_WRITE_RANDOM_ADDR_CMD :: nat where "HCIC_PARAM_SIZE_WRITE_RANDOM_ADDR_CMD = 6"
definition HCIC_PARAM_SIZE_BLE_WRITE_ADV_PARAMS :: nat where "HCIC_PARAM_SIZE_BLE_WRITE_ADV_PARAMS = 15"
definition HCIC_PARAM_SIZE_WRITE_ADV_ENABLE :: nat where "HCIC_PARAM_SIZE_WRITE_ADV_ENABLE = 1"
definition HCIC_PARAM_SIZE_BLE_WRITE_SCAN_PARAM :: nat where "HCIC_PARAM_SIZE_BLE_WRITE_SCAN_PARAM = 7"
definition HCIC_PARAM_SIZE_BLE_WRITE_SCAN_ENABLE :: nat where "HCIC_PARAM_SIZE_BLE_WRITE_SCAN_ENABLE = 2"
definition HCIC_PARAM_SIZE_BLE_CREATE_LL_CONN :: nat where "HCIC_PARAM_SIZE_BLE_CREATE_LL_CONN = 25"
definition HCIC_PARAM_SIZE_BLE_CREATE_CONN_CANCEL :: nat where "HCIC_PARAM_SIZE_BLE_CREATE_CONN_CANCEL = 0"
definition HCIC_PARAM_SIZE_CLEAR_WHITE_LIST :: nat where "HCIC_PARAM_SIZE_CLEAR_WHITE_LIST = 0"
definition HCIC_PARAM_SIZE_ADD_WHITE_LIST :: nat where "HCIC_PARAM_SIZE_ADD_WHITE_LIST = 7"
definition HCIC_PARAM_SIZE_REMOVE_WHITE_LIST :: nat where "HCIC_PARAM_SIZE_REMOVE_WHITE_LIST = 7"
definition HCIC_PARAM_SIZE_BLE_UPD_LL_CONN_PARAMS :: nat where "HCIC_PARAM_SIZE_BLE_UPD_LL_CONN_PARAMS = 14"
definition HCIC_PARAM_SIZE_SET_HOST_CHNL_CLASS :: nat where "HCIC_PARAM_SIZE_SET_HOST_CHNL_CLASS = 5"
definition HCIC_BLE_CHNL_MAP_SIZE :: nat where "HCIC_BLE_CHNL_MAP_SIZE = 5"
definition HCIC_PARAM_SIZE_READ_CHNL_MAP :: nat where "HCIC_PARAM_SIZE_READ_CHNL_MAP = 2"
definition HCIC_PARAM_SIZE_BLE_READ_REMOTE_FEAT :: nat where "HCIC_PARAM_SIZE_BLE_READ_REMOTE_FEAT = 2"
definition HCIC_PARAM_SIZE_BLE_START_ENC :: nat where "HCIC_PARAM_SIZE_BLE_START_ENC = 28"
definition HCIC_BLE_RAND_DI_SIZE :: nat where "HCIC_BLE_RAND_DI_SIZE = 8"
definition HCIC_BLE_ENCRYT_KEY_SIZE :: nat where "HCIC_BLE_ENCRYT_KEY_SIZE = 16"
definition HCIC_PARAM_SIZE_LTK_REQ_REPLY :: nat where "HCIC_PARAM_SIZE_LTK_REQ_REPLY = 18"
definition HCIC_PARAM_SIZE_LTK_REQ_NEG_REPLY :: nat where "HCIC_PARAM_SIZE_LTK_REQ_NEG_REPLY = 2"
definition HCIC_PARAM_SIZE_CREATE_CONN :: nat where "HCIC_PARAM_SIZE_CREATE_CONN = 13"
definition HCIC_PARAM_SIZE_RMT_NAME_REQ :: nat where "HCIC_PARAM_SIZE_RMT_NAME_REQ = 10"
definition HCIC_PARAM_SIZE_PIN_CODE_REQ_REPLY :: nat where "HCIC_PARAM_SIZE_PIN_CODE_REQ_REPLY = 23"
definition HCIC_PARAM_SIZE_RESET :: nat where "HCIC_PARAM_SIZE_RESET = 0"
definition HCIC_PARAM_SIZE_CHANGE_NAME :: nat where "HCIC_PARAM_SIZE_CHANGE_NAME = 248"
definition HCIC_PARAM_SIZE_EXT_INQ_RESP :: nat where "HCIC_PARAM_SIZE_EXT_INQ_RESP = 241"
definition HCIC_PARAM_SIZE_UCONF_REPLY :: nat where "HCIC_PARAM_SIZE_UCONF_REPLY = 6"
definition HCIC_PARAM_SIZE_SET_AFH_CHANNELS :: nat where "HCIC_PARAM_SIZE_SET_AFH_CHANNELS = 10"
definition HCIC_PARAM_SIZE_BLE_WRITE_ADV_DATA :: nat where "HCIC_PARAM_SIZE_BLE_WRITE_ADV_DATA = 31"
definition HCIC_PARAM_SIZE_BLE_WRITE_SCAN_RSP :: nat where "HCIC_PARAM_SIZE_BLE_WRITE_SCAN_RSP = 31"
definition HCIC_PARAM_SIZE_BLE_ENCRYPT :: nat where "HCIC_PARAM_SIZE_BLE_ENCRYPT = 32"
definition HCIC_PARAM_SIZE_BLE_RAND :: nat where "HCIC_PARAM_SIZE_BLE_RAND = 0"
definition BD_ADDR_LEN :: nat where "BD_ADDR_LEN = 6"
definition LAP_LEN :: nat where "LAP_LEN = 3"
definition DEV_CLASS_LEN :: nat where "DEV_CLASS_LEN = 3"
definition PIN_CODE_LEN :: nat where "PIN_CODE_LEN = 16"
definition LINK_KEY_LEN :: nat where "LINK_KEY_LEN = 16"
definition HCI_INQUIRY :: u16 where "HCI_INQUIRY = 0x0401"
definition HCI_INQUIRY_CANCEL :: u16 where "HCI_INQUIRY_CANCEL = 0x0402"
definition HCI_PERIODIC_INQUIRY_MODE :: u16 where "HCI_PERIODIC_INQUIRY_MODE = 0x0403"
definition HCI_EXIT_PERIODIC_INQUIRY_MODE :: u16 where "HCI_EXIT_PERIODIC_INQUIRY_MODE = 0x0404"
definition HCI_DISCONNECT :: u16 where "HCI_DISCONNECT = 0x0406"
definition HCI_ADD_SCO_CONNECTION :: u16 where "HCI_ADD_SCO_CONNECTION = 0x0407"
definition HCI_CREATE_CONNECTION_CANCEL :: u16 where "HCI_CREATE_CONNECTION_CANCEL = 0x0408"
definition HCI_ACCEPT_CONNECTION_REQUEST :: u16 where "HCI_ACCEPT_CONNECTION_REQUEST = 0x0409"
definition HCI_REJECT_CONNECTION_REQUEST :: u16 where "HCI_REJECT_CONNECTION_REQUEST = 0x040A"
definition HCI_LINK_KEY_REQUEST_REPLY :: u16 where "HCI_LINK_KEY_REQUEST_REPLY = 0x040B"
definition HCI_LINK_KEY_REQUEST_NEG_REPLY :: u16 where "HCI_LINK_KEY_REQUEST_NEG_REPLY = 0x040C"
definition HCI_PIN_CODE_REQUEST_NEG_REPLY :: u16 where "HCI_PIN_CODE_REQUEST_NEG_REPLY = 0x040E"
definition HCI_CHANGE_CONN_PACKET_TYPE :: u16 where "HCI_CHANGE_CONN_PACKET_TYPE = 0x040F"
definition HCI_AUTHENTICATION_REQUESTED :: u16 where "HCI_AUTHENTICATION_REQUESTED = 0x0411"
definition HCI_SET_CONN_ENCRYPTION :: u16 where "HCI_SET_CONN_ENCRYPTION = 0x0413"
definition HCI_CHANGE_CONN_LINK_KEY :: u16 where "HCI_CHANGE_CONN_LINK_KEY = 0x0415"
definition HCI_MASTER_LINK_KEY :: u16 where "HCI_MASTER_LINK_KEY = 0x0417"
definition HCI_RMT_NAME_REQUEST_CANCEL :: u16 where "HCI_RMT_NAME_REQUEST_CANCEL = 0x041A"
definition HCI_READ_RMT_FEATURES :: u16 where "HCI_READ_RMT_FEATURES = 0x041B"
definition HCI_READ_RMT_EXT_FEATURES :: u16 where "HCI_READ_RMT_EXT_FEATURES = 0x041C"
definition HCI_READ_RMT_VERSION_INFO :: u16 where "HCI_READ_RMT_VERSION_INFO = 0x041D"
definition HCI_READ_RMT_CLOCK_OFFSET :: u16 where "HCI_READ_RMT_CLOCK_OFFSET = 0x041F"
definition HCI_READ_LMP_HANDLE :: u16 where "HCI_READ_LMP_HANDLE = 0x0420"
definition HCI_SETUP_ESCO_CONNECTION :: u16 where "HCI_SETUP_ESCO_CONNECTION = 0x0428"
definition HCI_ACCEPT_ESCO_CONNECTION :: u16 where "HCI_ACCEPT_ESCO_CONNECTION = 0x0429"
definition HCI_REJECT_ESCO_CONNECTION :: u16 where "HCI_REJECT_ESCO_CONNECTION = 0x042A"
definition HCI_HOLD_MODE :: u16 where "HCI_HOLD_MODE = 0x0801"
definition HCI_SNIFF_MODE :: u16 where "HCI_SNIFF_MODE = 0x0803"
definition HCI_EXIT_SNIFF_MODE :: u16 where "HCI_EXIT_SNIFF_MODE = 0x0804"
definition HCI_PARK_MODE :: u16 where "HCI_PARK_MODE = 0x0805"
definition HCI_EXIT_PARK_MODE :: u16 where "HCI_EXIT_PARK_MODE = 0x0806"
definition HCI_QOS_SETUP :: u16 where "HCI_QOS_SETUP = 0x0807"
definition HCI_ROLE_DISCOVERY :: u16 where "HCI_ROLE_DISCOVERY = 0x0809"
definition HCI_SWITCH_ROLE :: u16 where "HCI_SWITCH_ROLE = 0x080B"
definition HCI_READ_POLICY_SETTINGS :: u16 where "HCI_READ_POLICY_SETTINGS = 0x080C"
definition HCI_WRITE_POLICY_SETTINGS :: u16 where "HCI_WRITE_POLICY_SETTINGS = 0x080D"
definition HCI_READ_DEF_POLICY_SETTINGS :: u16 where "HCI_READ_DEF_POLICY_SETTINGS = 0x080E"
definition HCI_WRITE_DEF_POLICY_SETTINGS :: u16 where "HCI_WRITE_DEF_POLICY_SETTINGS = 0x080F"
definition HCI_FLOW_SPECIFICATION :: u16 where "HCI_FLOW_SPECIFICATION = 0x0810"
definition HCI_SET_EVENT_MASK :: u16 where "HCI_SET_EVENT_MASK = 0x0C01"
definition HCI_SET_EVENT_MASK_PAGE_2 :: u16 where "HCI_SET_EVENT_MASK_PAGE_2 = 0x0C63"
definition HCI_FLUSH :: u16 where "HCI_FLUSH = 0x0C08"
definition HCI_READ_PIN_TYPE :: u16 where "HCI_READ_PIN_TYPE = 0x0C09"
definition HCI_WRITE_PIN_TYPE :: u16 where "HCI_WRITE_PIN_TYPE = 0x0C0A"
definition HCI_CREATE_NEW_UNIT_KEY :: u16 where "HCI_CREATE_NEW_UNIT_KEY = 0x0C0B"
definition HCI_READ_STORED_LINK_KEY :: u16 where "HCI_READ_STORED_LINK_KEY = 0x0C0D"
definition HCI_DELETE_STORED_LINK_KEY :: u16 where "HCI_DELETE_STORED_LINK_KEY = 0x0C12"
definition HCI_READ_LOCAL_NAME :: u16 where "HCI_READ_LOCAL_NAME = 0x0C14"
definition HCI_READ_CONN_ACCEPT_TOUT :: u16 where "HCI_READ_CONN_ACCEPT_TOUT = 0x0C15"
definition HCI_WRITE_CONN_ACCEPT_TOUT :: u16 where "HCI_WRITE_CONN_ACCEPT_TOUT = 0x0C16"
definition HCI_READ_PAGE_TOUT :: u16 where "HCI_READ_PAGE_TOUT = 0x0C17"
definition HCI_WRITE_PAGE_TOUT :: u16 where "HCI_WRITE_PAGE_TOUT = 0x0C18"
definition HCI_READ_SCAN_ENABLE :: u16 where "HCI_READ_SCAN_ENABLE = 0x0C19"
definition HCI_WRITE_SCAN_ENABLE :: u16 where "HCI_WRITE_SCAN_ENABLE = 0x0C1A"
definition HCI_READ_PAGESCAN_CFG :: u16 where "HCI_READ_PAGESCAN_CFG = 0x0C1B"
definition HCI_WRITE_PAGESCAN_CFG :: u16 where "HCI_WRITE_PAGESCAN_CFG = 0x0C1C"
definition HCI_READ_INQUIRYSCAN_CFG :: u16 where "HCI_READ_INQUIRYSCAN_CFG = 0x0C1D"
definition HCI_WRITE_INQUIRYSCAN_CFG :: u16 where "HCI_WRITE_INQUIRYSCAN_CFG = 0x0C1E"
definition HCI_READ_AUTHENTICATION_ENABLE :: u16 where "HCI_READ_AUTHENTICATION_ENABLE = 0x0C1F"
definition HCI_WRITE_AUTHENTICATION_ENABLE :: u16 where "HCI_WRITE_AUTHENTICATION_ENABLE = 0x0C20"
definition HCI_READ_ENCRYPTION_MODE :: u16 where "HCI_READ_ENCRYPTION_MODE = 0x0C21"
definition HCI_WRITE_ENCRYPTION_MODE :: u16 where "HCI_WRITE_ENCRYPTION_MODE = 0x0C22"
definition HCI_READ_CLASS_OF_DEVICE :: u16 where "HCI_READ_CLASS_OF_DEVICE = 0x0C23"
definition HCI_WRITE_CLASS_OF_DEVICE :: u16 where "HCI_WRITE_CLASS_OF_DEVICE = 0x0C24"
definition HCI_READ_VOICE_SETTINGS :: u16 where "HCI_READ_VOICE_SETTINGS = 0x0C25"
definition HCI_WRITE_VOICE_SETTINGS :: u16 where "HCI_WRITE_VOICE_SETTINGS = 0x0C26"
definition HCI_READ_AUTO_FLUSH_TOUT :: u16 where "HCI_READ_AUTO_FLUSH_TOUT = 0x0C27"
definition HCI_WRITE_AUTO_FLUSH_TOUT :: u16 where "HCI_WRITE_AUTO_FLUSH_TOUT = 0x0C28"
definition HCI_READ_NUM_BCAST_REXMITS :: u16 where "HCI_READ_NUM_BCAST_REXMITS = 0x0C29"
definition HCI_WRITE_NUM_BCAST_REXMITS :: u16 where "HCI_WRITE_NUM_BCAST_REXMITS = 0x0C2A"
definition HCI_READ_HOLD_MODE_ACTIVITY :: u16 where "HCI_READ_HOLD_MODE_ACTIVITY = 0x0C2B"
definition HCI_WRITE_HOLD_MODE_ACTIVITY :: u16 where "HCI_WRITE_HOLD_MODE_ACTIVITY = 0x0C2C"
definition HCI_READ_TRANSMIT_POWER_LEVEL :: u16 where "HCI_READ_TRANSMIT_POWER_LEVEL = 0x0C2D"
definition HCI_READ_SCO_FLOW_CTRL_ENABLE :: u16 where "HCI_READ_SCO_FLOW_CTRL_ENABLE = 0x0C2E"
definition HCI_WRITE_SCO_FLOW_CTRL_ENABLE :: u16 where "HCI_WRITE_SCO_FLOW_CTRL_ENABLE = 0x0C2F"
definition HCI_SET_HC_TO_HOST_FLOW_CTRL :: u16 where "HCI_SET_HC_TO_HOST_FLOW_CTRL = 0x0C31"
definition HCI_HOST_BUFFER_SIZE :: u16 where "HCI_HOST_BUFFER_SIZE = 0x0C33"
definition HCI_READ_LINK_SUPER_TOUT :: u16 where "HCI_READ_LINK_SUPER_TOUT = 0x0C36"
definition HCI_WRITE_LINK_SUPER_TOUT :: u16 where "HCI_WRITE_LINK_SUPER_TOUT = 0x0C37"
definition HCI_READ_NUM_SUPPORTED_IAC :: u16 where "HCI_READ_NUM_SUPPORTED_IAC = 0x0C38"
definition HCI_READ_CURRENT_IAC_LAP :: u16 where "HCI_READ_CURRENT_IAC_LAP = 0x0C39"
definition HCI_READ_PAGESCAN_PERIOD_MODE :: u16 where "HCI_READ_PAGESCAN_PERIOD_MODE = 0x0C3B"
definition HCI_WRITE_PAGESCAN_PERIOD_MODE :: u16 where "HCI_WRITE_PAGESCAN_PERIOD_MODE = 0x0C3C"
definition HCI_READ_PAGESCAN_MODE :: u16 where "HCI_READ_PAGESCAN_MODE = 0x0C3D"
definition HCI_WRITE_PAGESCAN_MODE :: u16 where "HCI_WRITE_PAGESCAN_MODE = 0x0C3E"
definition HCI_SNIFF_SUB_RATE :: u16 where "HCI_SNIFF_SUB_RATE = 0x0811"
definition HCI_READ_EXT_INQ_RESPONSE :: u16 where "HCI_READ_EXT_INQ_RESPONSE = 0x0C51"
definition HCI_WRITE_SIMPLE_PAIRING_MODE :: u16 where "HCI_WRITE_SIMPLE_PAIRING_MODE = 0x0C56"
definition HCI_READ_SIMPLE_PAIRING_MODE :: u16 where "HCI_READ_SIMPLE_PAIRING_MODE = 0x0C55"
definition HCI_WRITE_SIMP_PAIR_DEBUG_MODE :: u16 where "HCI_WRITE_SIMP_PAIR_DEBUG_MODE = 0x1804"
definition HCI_IO_CAPABILITY_RESPONSE :: u16 where "HCI_IO_CAPABILITY_RESPONSE = 0x042B"
definition HCI_IO_CAP_REQ_NEG_REPLY :: u16 where "HCI_IO_CAP_REQ_NEG_REPLY = 0x0434"
definition HCI_READ_LOCAL_OOB_DATA :: u16 where "HCI_READ_LOCAL_OOB_DATA = 0x0C57"
definition HCI_USER_PASSKEY_REQ_REPLY :: u16 where "HCI_USER_PASSKEY_REQ_REPLY = 0x042E"
definition HCI_USER_PASSKEY_REQ_NEG_REPLY :: u16 where "HCI_USER_PASSKEY_REQ_NEG_REPLY = 0x042F"
definition HCI_REM_OOB_DATA_REQ_REPLY :: u16 where "HCI_REM_OOB_DATA_REQ_REPLY = 0x0430"
definition HCI_REM_OOB_DATA_REQ_NEG_REPLY :: u16 where "HCI_REM_OOB_DATA_REQ_NEG_REPLY = 0x0433"
definition HCI_READ_INQ_TX_POWER_LEVEL :: u16 where "HCI_READ_INQ_TX_POWER_LEVEL = 0x0C58"
definition HCI_WRITE_INQ_TX_POWER_LEVEL :: u16 where "HCI_WRITE_INQ_TX_POWER_LEVEL = 0x0C59"
definition HCI_WRITE_ERRONEOUS_DATA_RPT :: u16 where "HCI_WRITE_ERRONEOUS_DATA_RPT = 0x0C5B"
definition HCI_SEND_KEYPRESS_NOTIF :: u16 where "HCI_SEND_KEYPRESS_NOTIF = 0x0C60"
definition HCI_ENHANCED_FLUSH :: u16 where "HCI_ENHANCED_FLUSH = 0x0C5F"
definition HCI_REFRESH_ENCRYPTION_KEY :: u16 where "HCI_REFRESH_ENCRYPTION_KEY = 0x0C53"
definition HCI_READ_LOCAL_VERSION_INFO :: u16 where "HCI_READ_LOCAL_VERSION_INFO = 0x1001"
definition HCI_READ_LOCAL_SUPPORTED_CMDS :: u16 where "HCI_READ_LOCAL_SUPPORTED_CMDS = 0x1002"
definition HCI_READ_LOCAL_FEATURES :: u16 where "HCI_READ_LOCAL_FEATURES = 0x1003"
definition HCI_READ_LOCAL_EXT_FEATURES :: u16 where "HCI_READ_LOCAL_EXT_FEATURES = 0x1004"
definition HCI_READ_BUFFER_SIZE :: u16 where "HCI_READ_BUFFER_SIZE = 0x1005"
definition HCI_READ_COUNTRY_CODE :: u16 where "HCI_READ_COUNTRY_CODE = 0x1007"
definition HCI_READ_BD_ADDR :: u16 where "HCI_READ_BD_ADDR = 0x1009"
definition HCI_READ_FAILED_CONTACT_COUNT :: u16 where "HCI_READ_FAILED_CONTACT_COUNT = 0x1401"
definition HCI_RESET_FAILED_CONTACT_COUNT :: u16 where "HCI_RESET_FAILED_CONTACT_COUNT = 0x1402"
definition HCI_GET_LINK_QUALITY :: u16 where "HCI_GET_LINK_QUALITY = 0x1403"
definition HCI_READ_RSSI :: u16 where "HCI_READ_RSSI = 0x1405"
definition HCI_READ_LOOPBACK_MODE :: u16 where "HCI_READ_LOOPBACK_MODE = 0x1801"
definition HCI_WRITE_LOOPBACK_MODE :: u16 where "HCI_WRITE_LOOPBACK_MODE = 0x1802"
definition HCI_ENABLE_DEV_UNDER_TEST_MODE :: u16 where "HCI_ENABLE_DEV_UNDER_TEST_MODE = 0x1803"
definition HCI_WRITE_AFH_ASSESSMENT_MODE :: u16 where "HCI_WRITE_AFH_ASSESSMENT_MODE = 0x0C49"
definition HCI_READ_AFH_ASSESSMENT_MODE :: u16 where "HCI_READ_AFH_ASSESSMENT_MODE = 0x0C48"
definition HCI_READ_AFH_CH_MAP :: u16 where "HCI_READ_AFH_CH_MAP = 0x1406"
definition HCI_READ_CLOCK :: u16 where "HCI_READ_CLOCK = 0x1407"
definition HCI_READ_INQSCAN_TYPE :: u16 where "HCI_READ_INQSCAN_TYPE = 0x0C42"
definition HCI_WRITE_INQSCAN_TYPE :: u16 where "HCI_WRITE_INQSCAN_TYPE = 0x0C43"
definition HCI_READ_INQUIRY_MODE :: u16 where "HCI_READ_INQUIRY_MODE = 0x0C44"
definition HCI_WRITE_INQUIRY_MODE :: u16 where "HCI_WRITE_INQUIRY_MODE = 0x0C45"
definition HCI_READ_PAGESCAN_TYPE :: u16 where "HCI_READ_PAGESCAN_TYPE = 0x0C46"
definition HCI_WRITE_PAGESCAN_TYPE :: u16 where "HCI_WRITE_PAGESCAN_TYPE = 0x0C47"
definition HCI_COMMAND_NONE :: u16 where "HCI_COMMAND_NONE = 0x0000"
definition HCI_BLE_RESET :: u16 where "HCI_BLE_RESET = 0x2020"
definition HCI_BLE_SET_EVENT_MASK :: u16 where "HCI_BLE_SET_EVENT_MASK = 0x2001"
definition HCI_BLE_READ_BUFFER_SIZE :: u16 where "HCI_BLE_READ_BUFFER_SIZE = 0x2002"
definition HCI_BLE_READ_LOCAL_SPT_FEAT :: u16 where "HCI_BLE_READ_LOCAL_SPT_FEAT = 0x2003"
definition HCI_BLE_WRITE_LOCAL_SPT_FEAT :: u16 where "HCI_BLE_WRITE_LOCAL_SPT_FEAT = 0x2004"
definition HCI_BLE_WRITE_RANDOM_ADDR :: u16 where "HCI_BLE_WRITE_RANDOM_ADDR = 0x2005"
definition HCI_BLE_WRITE_ADV_PARAMS :: u16 where "HCI_BLE_WRITE_ADV_PARAMS = 0x2006"
definition HCI_BLE_READ_ADV_CHNL_TX_POWER :: u16 where "HCI_BLE_READ_ADV_CHNL_TX_POWER = 0x2007"
definition HCI_BLE_WRITE_ADV_ENABLE :: u16 where "HCI_BLE_WRITE_ADV_ENABLE = 0x200A"
definition HCI_BLE_WRITE_SCAN_PARAMS :: u16 where "HCI_BLE_WRITE_SCAN_PARAMS = 0x200B"
definition HCI_BLE_WRITE_SCAN_ENABLE :: u16 where "HCI_BLE_WRITE_SCAN_ENABLE = 0x200C"
definition HCI_BLE_CREATE_LL_CONN :: u16 where "HCI_BLE_CREATE_LL_CONN = 0x200D"
definition HCI_BLE_CREATE_CONN_CANCEL :: u16 where "HCI_BLE_CREATE_CONN_CANCEL = 0x200E"
definition HCI_BLE_READ_WHITE_LIST_SIZE :: u16 where "HCI_BLE_READ_WHITE_LIST_SIZE = 0x200F"
definition HCI_BLE_CLEAR_WHITE_LIST :: u16 where "HCI_BLE_CLEAR_WHITE_LIST = 0x2010"
definition HCI_BLE_ADD_WHITE_LIST :: u16 where "HCI_BLE_ADD_WHITE_LIST = 0x2011"
definition HCI_BLE_REMOVE_WHITE_LIST :: u16 where "HCI_BLE_REMOVE_WHITE_LIST = 0x2012"
definition HCI_BLE_UPD_LL_CONN_PARAMS :: u16 where "HCI_BLE_UPD_LL_CONN_PARAMS = 0x2013"
definition HCI_BLE_SET_HOST_CHNL_CLASS :: u16 where "HCI_BLE_SET_HOST_CHNL_CLASS = 0x2014"
definition HCI_BLE_READ_CHNL_MAP :: u16 where "HCI_BLE_READ_CHNL_MAP = 0x2015"
definition HCI_BLE_READ_REMOTE_FEAT :: u16 where "HCI_BLE_READ_REMOTE_FEAT = 0x2016"
definition HCI_BLE_START_ENC :: u16 where "HCI_BLE_START_ENC = 0x2019"
definition HCI_BLE_LTK_REQ_REPLY :: u16 where "HCI_BLE_LTK_REQ_REPLY = 0x201A"
definition HCI_BLE_LTK_REQ_NEG_REPLY :: u16 where "HCI_BLE_LTK_REQ_NEG_REPLY = 0x201B"
definition HCI_BLE_READ_SUPPORTED_STATES :: u16 where "HCI_BLE_READ_SUPPORTED_STATES = 0x201C"
definition HCI_CREATE_CONNECTION :: u16 where "HCI_CREATE_CONNECTION = 0x0405"
definition HCI_RMT_NAME_REQUEST :: u16 where "HCI_RMT_NAME_REQUEST = 0x0419"
definition HCI_PIN_CODE_REQUEST_REPLY :: u16 where "HCI_PIN_CODE_REQUEST_REPLY = 0x040D"
definition HCI_RESET :: u16 where "HCI_RESET = 0x0C03"
definition HCI_FILTER_COND_BD_ADDR :: u8 where "HCI_FILTER_COND_BD_ADDR = 2"
definition HCI_FILTER_COND_DEVICE_CLASS :: u8 where "HCI_FILTER_COND_DEVICE_CLASS = 1"
definition HCI_SET_EVENT_FILTER :: u16 where "HCI_SET_EVENT_FILTER = 0x0C05"
definition HCI_MAX_NUM_OF_LINK_KEYS_PER_CMMD :: u8 where "HCI_MAX_NUM_OF_LINK_KEYS_PER_CMMD = 11"
definition HCI_WRITE_STORED_LINK_KEY :: u16 where "HCI_WRITE_STORED_LINK_KEY = 0x0C11"
definition HCI_CHANGE_LOCAL_NAME :: u16 where "HCI_CHANGE_LOCAL_NAME = 0x0C13"
definition HCI_HOST_NUM_PACKETS_DONE :: u16 where "HCI_HOST_NUM_PACKETS_DONE = 0x0C35"
definition HCI_WRITE_CURRENT_IAC_LAP :: u16 where "HCI_WRITE_CURRENT_IAC_LAP = 0x0C3A"
definition HCI_WRITE_EXT_INQ_RESPONSE :: u16 where "HCI_WRITE_EXT_INQ_RESPONSE = 0x0C52"
definition HCI_USER_CONF_VALUE_NEG_REPLY :: u16 where "HCI_USER_CONF_VALUE_NEG_REPLY = 0x042D"
definition HCI_USER_CONF_REQUEST_REPLY :: u16 where "HCI_USER_CONF_REQUEST_REPLY = 0x042C"
definition HCI_SET_AFH_CHANNELS :: u16 where "HCI_SET_AFH_CHANNELS = 0x0C3F"
definition HCI_GRP_VENDOR_SPECIFIC :: u16 where "HCI_GRP_VENDOR_SPECIFIC = 0xFC00"
definition HCI_BLE_WRITE_ADV_DATA :: u16 where "HCI_BLE_WRITE_ADV_DATA = 0x2008"
definition HCI_BLE_WRITE_SCAN_RSP_DATA :: u16 where "HCI_BLE_WRITE_SCAN_RSP_DATA = 0x2009"
definition HCI_BLE_ENCRYPT :: u16 where "HCI_BLE_ENCRYPT = 0x2017"
definition HCI_BLE_RAND :: u16 where "HCI_BLE_RAND = 0x2018"

lemmas hci_sizes =
  HCIC_PREAMBLE_SIZE_def HCI_CMD_POOL_BUF_SIZE_def BT_HDR_SIZE_def SIZEOF_PTR_def
  HCIC_PARAM_SIZE_INQUIRY_def HCIC_PARAM_SIZE_INQ_CANCEL_def HCIC_PARAM_SIZE_PER_INQ_MODE_def
  HCIC_PARAM_SIZE_EXIT_PER_INQ_def HCIC_PARAM_SIZE_DISCONNECT_def
  HCIC_PARAM_SIZE_ADD_SCO_CONN_def HCIC_PARAM_SIZE_CREATE_CONN_CANCEL_def
  HCIC_PARAM_SIZE_ACCEPT_CONN_def HCIC_PARAM_SIZE_REJECT_CONN_def
  HCIC_PARAM_SIZE_LINK_KEY_REQ_REPLY_def HCIC_PARAM_SIZE_LINK_KEY_NEG_REPLY_def
  HCIC_PARAM_SIZE_PIN_CODE_NEG_REPLY_def HCIC_PARAM_SIZE_CHANGE_CONN_TYPE_def
  HCIC_PARAM_SIZE_CMD_HANDLE_def HCIC_PARAM_SIZE_SET_CONN_ENCRYPT_def
  HCIC_PARAM_SIZE_MASTER_LINK_KEY_def HCIC_PARAM_SIZE_RMT_NAME_REQ_CANCEL_def
  HCIC_PARAM_SIZE_RMT_EXT_FEATURES_def HCIC_PARAM_SIZE_SETUP_ESCO_def
  HCIC_PARAM_SIZE_ACCEPT_ESCO_def HCIC_PARAM_SIZE_REJECT_ESCO_def HCIC_PARAM_SIZE_HOLD_MODE_def
  HCIC_PARAM_SIZE_SNIFF_MODE_def HCIC_PARAM_SIZE_PARK_MODE_def HCIC_PARAM_SIZE_QOS_SETUP_def
  HCIC_PARAM_SIZE_SWITCH_ROLE_def HCIC_PARAM_SIZE_WRITE_POLICY_SET_def
  HCIC_PARAM_SIZE_READ_DEF_POLICY_SET_def HCIC_PARAM_SIZE_WRITE_DEF_POLICY_SET_def
  HCIC_PARAM_SIZE_FLOW_SPEC_def HCIC_PARAM_SIZE_SET_EVENT_MASK_def
  HCIC_PARAM_SIZE_SET_EVENT_MASK_PAGE_2_def HCIC_PARAM_SIZE_READ_CMD_def
  HCIC_PARAM_SIZE_WRITE_PARAM1_def HCIC_PARAM_SIZE_NEW_UNIT_KEY_def
  HCIC_PARAM_SIZE_READ_STORED_KEY_def HCIC_PARAM_SIZE_DELETE_STORED_KEY_def
  HCIC_PARAM_SIZE_WRITE_PARAM2_def HCIC_PARAM_SIZE_WRITE_PAGESCAN_CFG_def
  HCIC_PARAM_SIZE_WRITE_INQSCAN_CFG_def HCIC_PARAM_SIZE_WRITE_PARAM3_def
  HCIC_PARAM_SIZE_WRITE_AUTO_FLUSH_TOUT_def HCIC_PARAM_SIZE_READ_TX_POWER_def
  HCIC_PARAM_SIZE_SET_HOST_BUF_SIZE_def HCIC_PARAM_SIZE_WRITE_LINK_SUPER_TOUT_def
  HCIC_PARAM_SIZE_SNIFF_SUB_RATE_def HCIC_PARAM_SIZE_W_SIMP_PAIR_def
  HCIC_PARAM_SIZE_R_SIMP_PAIR_def HCIC_PARAM_SIZE_SIMP_PAIR_DBUG_def
  HCIC_PARAM_SIZE_IO_CAP_RESP_def HCIC_PARAM_SIZE_IO_CAP_NEG_REPLY_def
  HCIC_PARAM_SIZE_R_LOCAL_OOB_def HCIC_PARAM_SIZE_U_PKEY_REPLY_def
  HCIC_PARAM_SIZE_U_PKEY_NEG_REPLY_def HCIC_PARAM_SIZE_REM_OOB_REPLY_def
  HCIC_PARAM_SIZE_REM_OOB_NEG_REPLY_def HCIC_PARAM_SIZE_R_TX_POWER_def
  HCIC_PARAM_SIZE_W_TX_POWER_def HCIC_PARAM_SIZE_W_ERR_DATA_RPT_def
  HCIC_PARAM_SIZE_SEND_KEYPRESS_NOTIF_def HCIC_PARAM_SIZE_ENHANCED_FLUSH_def
  HCIC_PARAM_SIZE_LOCAL_EXT_FEATURES_def HCIC_PARAM_SIZE_READ_CLOCK_def
  HCIC_PARAM_SIZE_SET_USED_FEAT_CMD_def HCIC_PARAM_SIZE_WRITE_RANDOM_ADDR_CMD_def
  HCIC_PARAM_SIZE_BLE_WRITE_ADV_PARAMS_def HCIC_PARAM_SIZE_WRITE_ADV_ENABLE_def
  HCIC_PARAM_SIZE_BLE_WRITE_SCAN_PARAM_def HCIC_PARAM_SIZE_BLE_WRITE_SCAN_ENABLE_def
  HCIC_PARAM_SIZE_BLE_CREATE_LL_CONN_def HCIC_PARAM_SIZE_BLE_CREATE_CONN_CANCEL_def
  HCIC_PARAM_SIZE_CLEAR_WHITE_LIST_def HCIC_PARAM_SIZE_ADD_WHITE_LIST_def
  HCIC_PARAM_SIZE_REMOVE_WHITE_LIST_def HCIC_PARAM_SIZE_BLE_UPD_LL_CONN_PARAMS_def
  HCIC_PARAM_SIZE_SET_HOST_CHNL_CLASS_def HCIC_BLE_CHNL_MAP_SIZE_def
  HCIC_PARAM_SIZE_READ_CHNL_MAP_def HCIC_PARAM_SIZE_BLE_READ_REMOTE_FEAT_def
  HCIC_PARAM_SIZE_BLE_START_ENC_def HCIC_BLE_RAND_DI_SIZE_def HCIC_BLE_ENCRYT_KEY_SIZE_def
  HCIC_PARAM_SIZE_LTK_REQ_REPLY_def HCIC_PARAM_SIZE_LTK_REQ_NEG_REPLY_def
  HCIC_PARAM_SIZE_CREATE_CONN_def HCIC_PARAM_SIZE_RMT_NAME_REQ_def
  HCIC_PARAM_SIZE_PIN_CODE_REQ_REPLY_def HCIC_PARAM_SIZE_RESET_def
  HCIC_PARAM_SIZE_CHANGE_NAME_def HCIC_PARAM_SIZE_EXT_INQ_RESP_def
  HCIC_PARAM_SIZE_UCONF_REPLY_def HCIC_PARAM_SIZE_SET_AFH_CHANNELS_def
  HCIC_PARAM_SIZE_BLE_WRITE_ADV_DATA_def HCIC_PARAM_SIZE_BLE_WRITE_SCAN_RSP_def
  HCIC_PARAM_SIZE_BLE_ENCRYPT_def HCIC_PARAM_SIZE_BLE_RAND_def BD_ADDR_LEN_def LAP_LEN_def
  DEV_CLASS_LEN_def PIN_CODE_LEN_def LINK_KEY_LEN_def

section \<open>Stream macros of addresses and keys\<close>

definition INT8_TO_STREAM :: "u8 \<Rightarrow> bytes" where "INT8_TO_STREAM v = [v]"
definition BDADDR_TO_STREAM :: "bytes \<Rightarrow> bytes" where "BDADDR_TO_STREAM a = REVERSE_ARRAY_TO_STREAM a BD_ADDR_LEN"
definition LAP_TO_STREAM :: "bytes \<Rightarrow> bytes" where "LAP_TO_STREAM a = REVERSE_ARRAY_TO_STREAM a LAP_LEN"
definition DEVCLASS_TO_STREAM :: "bytes \<Rightarrow> bytes" where "DEVCLASS_TO_STREAM a = REVERSE_ARRAY_TO_STREAM a DEV_CLASS_LEN"
definition ARRAY8_TO_STREAM :: "bytes \<Rightarrow> bytes" where "ARRAY8_TO_STREAM a = REVERSE_ARRAY_TO_STREAM a 8"
definition ARRAY16_TO_STREAM :: "bytes \<Rightarrow> bytes" where "ARRAY16_TO_STREAM a = REVERSE_ARRAY_TO_STREAM a 16"

lemma length_addr_streams [simp]:
  "length (INT8_TO_STREAM b) = 1" "length (BDADDR_TO_STREAM a) = 6" "length (LAP_TO_STREAM a) = 3"
  "length (DEVCLASS_TO_STREAM a) = 3" "length (ARRAY8_TO_STREAM a) = 8" "length (ARRAY16_TO_STREAM a) = 16"
  by (simp_all add: INT8_TO_STREAM_def BDADDR_TO_STREAM_def LAP_TO_STREAM_def DEVCLASS_TO_STREAM_def
      ARRAY8_TO_STREAM_def ARRAY16_TO_STREAM_def BD_ADDR_LEN_def LAP_LEN_def DEV_CLASS_LEN_def)

section \<open>Building and sending\<close>

definition overwrite :: "bytes \<Rightarrow> bytes \<Rightarrow> bytes" where
  "overwrite w mem = w @ drop (length w) mem"

definition cmd_buf :: "nat \<Rightarrow> nat \<Rightarrow> bytes \<Rightarrow> bytes \<Rightarrow> bt_hdr" where
  "cmd_buf len offset w mem = \<lparr>hdr_len = len, hdr_offset = offset, hdr_data = overwrite w mem\<rparr>"

definition send_cmd :: "bytes option \<Rightarrow> u8 \<Rightarrow> nat \<Rightarrow> bytes \<Rightarrow> hci_call list option" where
  "send_cmd buf ctrl len w = map_option (\<lambda>mem. [Btu_hcif_send_cmd ctrl (cmd_buf len 0 w mem)]) buf"

definition page_cmd :: "bytes option \<Rightarrow> bytes \<Rightarrow> nat \<Rightarrow> bytes \<Rightarrow> hci_call list option" where
  "page_cmd buf dest len w = map_option (\<lambda>mem. [Btm_acl_paging (cmd_buf len 0 w mem) dest]) buf"

text \<open>The bytes the lower layer transmits, and the message of a call.\<close>

definition packet :: "bt_hdr \<Rightarrow> bytes" where
  "packet b = take (hdr_len b) (drop (hdr_offset b) (hdr_data b))"

fun call_msg :: "hci_call \<Rightarrow> bt_hdr option" where
  "call_msg (Btu_hcif_send_cmd c b) = Some b"
| "call_msg (Btm_acl_paging b d) = Some b"
| "call_msg (Hci_acl_data_to_lower b) = Some b"
| "call_msg _ = None"

section \<open>Well-formed commands\<close>

text \<open>
  The HCI command packet: opcode, number of parameter bytes, parameters.  \<open>cmd_ok opcode f\<close>: without
  a buffer \<open>f\<close> sends nothing; with any command buffer it sends exactly one packet of that form, of
  the length the \<^verbatim>\<open>BT_HDR\<close> claims, and the packet does not depend on what the buffer held before.
\<close>

definition hci_packet :: "u16 \<Rightarrow> bytes \<Rightarrow> bytes" where
  "hci_packet opcode params = UINT16_TO_STREAM opcode @ UINT8_TO_STREAM (of_nat (length params)) @ params"

definition cmd_ok :: "u16 \<Rightarrow> (bytes option \<Rightarrow> hci_call list option) \<Rightarrow> bool" where
  "cmd_ok opcode f \<longleftrightarrow> f None = None \<and>
     (\<exists>params. length params \<le> 255 \<and>
       (\<forall>mem. HCI_CMD_POOL_BUF_SIZE - BT_HDR_SIZE \<le> length mem \<longrightarrow>
          (\<exists>c cs b. f (Some mem) = Some (c # cs) \<and> list_all (\<lambda>c. call_msg c = None) cs \<and>
             call_msg c = Some b \<and> packet b = hci_packet opcode params \<and>
             length (packet b) = hdr_len b)))"

lemma length_hci_packet [simp]: "length (hci_packet opcode params) = 3 + length params"
  by (simp add: hci_packet_def)

lemma packet_cmd_buf: "length w = len \<Longrightarrow> packet (cmd_buf len 0 w mem) = w"
  by (simp add: packet_def cmd_buf_def overwrite_def)

lemma packet_cmd_buf_offset: "length w = offset + len \<Longrightarrow> packet (cmd_buf len offset w mem) = drop offset w"
  by (simp add: packet_def cmd_buf_def overwrite_def)

lemma cmd_okI:
  assumes "f None = None" and "len = 3 + length ps" and "length ps \<le> 255" and "w = hci_packet opcode ps"
    and "\<And>mem. \<exists>c cs. f (Some mem) = Some (c # cs) \<and> list_all (\<lambda>c. call_msg c = None) cs \<and> call_msg c = Some (cmd_buf len 0 w mem)"
  shows "cmd_ok opcode f"
proof -
  have "packet (cmd_buf len 0 w mem) = hci_packet opcode ps \<and> length (packet (cmd_buf len 0 w mem)) = hdr_len (cmd_buf len 0 w mem)" for mem
    using assms(2,4) packet_cmd_buf [of w len mem] by (simp add: cmd_buf_def)
  then show ?thesis unfolding cmd_ok_def using assms(1,3,5) by metis
qed

lemma cmd_ok_send [simp]:
  assumes "len = 3 + length ps" and "v = of_nat (length ps)" and "length ps \<le> 255"
  shows "cmd_ok opcode (\<lambda>buf. send_cmd buf ctrl len (UINT16_TO_STREAM opcode @ UINT8_TO_STREAM v @ ps))"
  by (rule cmd_okI [where ps = ps and len = len]) (use assms in \<open>auto simp: send_cmd_def hci_packet_def\<close>)

lemma cmd_ok_page [simp]:
  assumes "len = 3 + length ps" and "v = of_nat (length ps)" and "length ps \<le> 255"
  shows "cmd_ok opcode (\<lambda>buf. page_cmd buf dest len (UINT16_TO_STREAM opcode @ UINT8_TO_STREAM v @ ps))"
  by (rule cmd_okI [where ps = ps and len = len]) (use assms in \<open>auto simp: page_cmd_def hci_packet_def\<close>)

lemma cmd_ok_send0 [simp]:
  "len = 3 \<Longrightarrow> v = 0 \<Longrightarrow> cmd_ok opcode (\<lambda>buf. send_cmd buf ctrl len (UINT16_TO_STREAM opcode @ UINT8_TO_STREAM v))"
  using cmd_ok_send [of len "[]" v opcode ctrl] by simp

end
