(* ===== verification/Hci_Cmds.thy ===== *)
theory Hci_Cmds
  imports Hci_Defs
begin

text \<open>
  The builders of HCI commands for the BR/EDR controller, \<^verbatim>\<open>stack/hcic/hcicmds.c\<close>, in the order of the
  file (the one under \<^verbatim>\<open>#if 0\<close> left out), and that the packets they send are well formed.
\<close>

section \<open>Commands\<close>

definition btsnd_hcic_inquiry :: "bytes option \<Rightarrow> bytes \<Rightarrow> u8 \<Rightarrow> u8 \<Rightarrow> hci_call list option" where
  "btsnd_hcic_inquiry buf inq_lap duration response_cnt =
     send_cmd buf LOCAL_BR_EDR_CONTROLLER_ID (HCIC_PREAMBLE_SIZE + HCIC_PARAM_SIZE_INQUIRY)
       (concat
        [UINT16_TO_STREAM HCI_INQUIRY, UINT8_TO_STREAM (of_nat HCIC_PARAM_SIZE_INQUIRY),
         LAP_TO_STREAM inq_lap, UINT8_TO_STREAM duration, UINT8_TO_STREAM response_cnt])"

definition btsnd_hcic_inq_cancel :: "bytes option \<Rightarrow> hci_call list option" where
  "btsnd_hcic_inq_cancel buf =
     send_cmd buf LOCAL_BR_EDR_CONTROLLER_ID (HCIC_PREAMBLE_SIZE + HCIC_PARAM_SIZE_INQ_CANCEL)
       (concat
        [UINT16_TO_STREAM HCI_INQUIRY_CANCEL,
         UINT8_TO_STREAM (of_nat HCIC_PARAM_SIZE_INQ_CANCEL)])"

definition btsnd_hcic_per_inq_mode :: "bytes option \<Rightarrow> u16 \<Rightarrow> u16 \<Rightarrow> bytes \<Rightarrow> u8 \<Rightarrow> u8 \<Rightarrow> hci_call list option" where
  "btsnd_hcic_per_inq_mode buf max_period min_period inq_lap duration response_cnt =
     send_cmd buf LOCAL_BR_EDR_CONTROLLER_ID (HCIC_PREAMBLE_SIZE + HCIC_PARAM_SIZE_PER_INQ_MODE)
       (concat
        [UINT16_TO_STREAM HCI_PERIODIC_INQUIRY_MODE,
         UINT8_TO_STREAM (of_nat HCIC_PARAM_SIZE_PER_INQ_MODE), UINT16_TO_STREAM max_period,
         UINT16_TO_STREAM min_period, LAP_TO_STREAM inq_lap, UINT8_TO_STREAM duration,
         UINT8_TO_STREAM response_cnt])"

definition btsnd_hcic_exit_per_inq :: "bytes option \<Rightarrow> hci_call list option" where
  "btsnd_hcic_exit_per_inq buf =
     send_cmd buf LOCAL_BR_EDR_CONTROLLER_ID (HCIC_PREAMBLE_SIZE + HCIC_PARAM_SIZE_EXIT_PER_INQ)
       (concat
        [UINT16_TO_STREAM HCI_EXIT_PERIODIC_INQUIRY_MODE,
         UINT8_TO_STREAM (of_nat HCIC_PARAM_SIZE_EXIT_PER_INQ)])"

definition btsnd_hcic_create_conn ::
  "bytes option \<Rightarrow> bytes \<Rightarrow> u16 \<Rightarrow> u8 \<Rightarrow> u8 \<Rightarrow> u16 \<Rightarrow> u8 \<Rightarrow> hci_call list option" where
  "btsnd_hcic_create_conn buf dest packet_types page_scan_rep_mode page_scan_mode clock_offset allow_switch =
     page_cmd buf dest (HCIC_PREAMBLE_SIZE + HCIC_PARAM_SIZE_CREATE_CONN)
       (concat
        [UINT16_TO_STREAM HCI_CREATE_CONNECTION, UINT8_TO_STREAM (of_nat HCIC_PARAM_SIZE_CREATE_CONN),
         BDADDR_TO_STREAM dest, UINT16_TO_STREAM packet_types, UINT8_TO_STREAM page_scan_rep_mode,
         UINT8_TO_STREAM page_scan_mode, UINT16_TO_STREAM clock_offset, UINT8_TO_STREAM allow_switch])"

definition btsnd_hcic_disconnect :: "bytes option \<Rightarrow> u16 \<Rightarrow> u8 \<Rightarrow> hci_call list option" where
  "btsnd_hcic_disconnect buf handle reason =
     send_cmd buf LOCAL_BR_EDR_CONTROLLER_ID (HCIC_PREAMBLE_SIZE + HCIC_PARAM_SIZE_DISCONNECT)
       (concat
        [UINT16_TO_STREAM HCI_DISCONNECT, UINT8_TO_STREAM (of_nat HCIC_PARAM_SIZE_DISCONNECT),
         UINT16_TO_STREAM handle, UINT8_TO_STREAM reason])"

definition btsnd_hcic_add_SCO_conn :: "bytes option \<Rightarrow> u16 \<Rightarrow> u16 \<Rightarrow> hci_call list option" where
  "btsnd_hcic_add_SCO_conn buf handle packet_types =
     send_cmd buf LOCAL_BR_EDR_CONTROLLER_ID (HCIC_PREAMBLE_SIZE + HCIC_PARAM_SIZE_ADD_SCO_CONN)
       (concat
        [UINT16_TO_STREAM HCI_ADD_SCO_CONNECTION,
         UINT8_TO_STREAM (of_nat HCIC_PARAM_SIZE_ADD_SCO_CONN), UINT16_TO_STREAM handle,
         UINT16_TO_STREAM packet_types])"

definition btsnd_hcic_create_conn_cancel :: "bytes option \<Rightarrow> bytes \<Rightarrow> hci_call list option" where
  "btsnd_hcic_create_conn_cancel buf dest =
     send_cmd buf LOCAL_BR_EDR_CONTROLLER_ID (HCIC_PREAMBLE_SIZE + HCIC_PARAM_SIZE_CREATE_CONN_CANCEL)
       (concat
        [UINT16_TO_STREAM HCI_CREATE_CONNECTION_CANCEL,
         UINT8_TO_STREAM (of_nat HCIC_PARAM_SIZE_CREATE_CONN_CANCEL), BDADDR_TO_STREAM dest])"

definition btsnd_hcic_accept_conn :: "bytes option \<Rightarrow> bytes \<Rightarrow> u8 \<Rightarrow> hci_call list option" where
  "btsnd_hcic_accept_conn buf dest role =
     send_cmd buf LOCAL_BR_EDR_CONTROLLER_ID (HCIC_PREAMBLE_SIZE + HCIC_PARAM_SIZE_ACCEPT_CONN)
       (concat
        [UINT16_TO_STREAM HCI_ACCEPT_CONNECTION_REQUEST,
         UINT8_TO_STREAM (of_nat HCIC_PARAM_SIZE_ACCEPT_CONN), BDADDR_TO_STREAM dest,
         UINT8_TO_STREAM role])"

definition btsnd_hcic_reject_conn :: "bytes option \<Rightarrow> bytes \<Rightarrow> u8 \<Rightarrow> hci_call list option" where
  "btsnd_hcic_reject_conn buf dest reason =
     send_cmd buf LOCAL_BR_EDR_CONTROLLER_ID (HCIC_PREAMBLE_SIZE + HCIC_PARAM_SIZE_REJECT_CONN)
       (concat
        [UINT16_TO_STREAM HCI_REJECT_CONNECTION_REQUEST,
         UINT8_TO_STREAM (of_nat HCIC_PARAM_SIZE_REJECT_CONN), BDADDR_TO_STREAM dest,
         UINT8_TO_STREAM reason])"

definition btsnd_hcic_link_key_req_reply :: "bytes option \<Rightarrow> bytes \<Rightarrow> bytes \<Rightarrow> hci_call list option" where
  "btsnd_hcic_link_key_req_reply buf bd_addr link_key =
     send_cmd buf LOCAL_BR_EDR_CONTROLLER_ID (HCIC_PREAMBLE_SIZE + HCIC_PARAM_SIZE_LINK_KEY_REQ_REPLY)
       (concat
        [UINT16_TO_STREAM HCI_LINK_KEY_REQUEST_REPLY,
         UINT8_TO_STREAM (of_nat HCIC_PARAM_SIZE_LINK_KEY_REQ_REPLY), BDADDR_TO_STREAM bd_addr,
         ARRAY16_TO_STREAM link_key])"

definition btsnd_hcic_link_key_neg_reply :: "bytes option \<Rightarrow> bytes \<Rightarrow> hci_call list option" where
  "btsnd_hcic_link_key_neg_reply buf bd_addr =
     send_cmd buf LOCAL_BR_EDR_CONTROLLER_ID (HCIC_PREAMBLE_SIZE + HCIC_PARAM_SIZE_LINK_KEY_NEG_REPLY)
       (concat
        [UINT16_TO_STREAM HCI_LINK_KEY_REQUEST_NEG_REPLY,
         UINT8_TO_STREAM (of_nat HCIC_PARAM_SIZE_LINK_KEY_NEG_REPLY), BDADDR_TO_STREAM bd_addr])"

definition btsnd_hcic_pin_code_req_reply ::
  "bytes option \<Rightarrow> bytes \<Rightarrow> u8 \<Rightarrow> bytes \<Rightarrow> hci_call list option" where
  "btsnd_hcic_pin_code_req_reply buf bd_addr pin_code_len pin_code =
     send_cmd buf LOCAL_BR_EDR_CONTROLLER_ID (HCIC_PREAMBLE_SIZE + HCIC_PARAM_SIZE_PIN_CODE_REQ_REPLY)
       (concat
        [UINT16_TO_STREAM HCI_PIN_CODE_REQUEST_REPLY,
         UINT8_TO_STREAM (of_nat HCIC_PARAM_SIZE_PIN_CODE_REQ_REPLY), BDADDR_TO_STREAM bd_addr,
         UINT8_TO_STREAM pin_code_len, ARRAY_TO_STREAM pin_code (unat pin_code_len),
         replicate (PIN_CODE_LEN - unat pin_code_len) 0])"

definition btsnd_hcic_pin_code_neg_reply :: "bytes option \<Rightarrow> bytes \<Rightarrow> hci_call list option" where
  "btsnd_hcic_pin_code_neg_reply buf bd_addr =
     send_cmd buf LOCAL_BR_EDR_CONTROLLER_ID (HCIC_PREAMBLE_SIZE + HCIC_PARAM_SIZE_PIN_CODE_NEG_REPLY)
       (concat
        [UINT16_TO_STREAM HCI_PIN_CODE_REQUEST_NEG_REPLY,
         UINT8_TO_STREAM (of_nat HCIC_PARAM_SIZE_PIN_CODE_NEG_REPLY), BDADDR_TO_STREAM bd_addr])"

definition btsnd_hcic_change_conn_type :: "bytes option \<Rightarrow> u16 \<Rightarrow> u16 \<Rightarrow> hci_call list option" where
  "btsnd_hcic_change_conn_type buf handle packet_types =
     send_cmd buf LOCAL_BR_EDR_CONTROLLER_ID (HCIC_PREAMBLE_SIZE + HCIC_PARAM_SIZE_CHANGE_CONN_TYPE)
       (concat
        [UINT16_TO_STREAM HCI_CHANGE_CONN_PACKET_TYPE,
         UINT8_TO_STREAM (of_nat HCIC_PARAM_SIZE_CHANGE_CONN_TYPE), UINT16_TO_STREAM handle,
         UINT16_TO_STREAM packet_types])"

definition btsnd_hcic_auth_request :: "bytes option \<Rightarrow> u16 \<Rightarrow> hci_call list option" where
  "btsnd_hcic_auth_request buf handle =
     send_cmd buf LOCAL_BR_EDR_CONTROLLER_ID (HCIC_PREAMBLE_SIZE + HCIC_PARAM_SIZE_CMD_HANDLE)
       (concat
        [UINT16_TO_STREAM HCI_AUTHENTICATION_REQUESTED,
         UINT8_TO_STREAM (of_nat HCIC_PARAM_SIZE_CMD_HANDLE), UINT16_TO_STREAM handle])"

definition btsnd_hcic_set_conn_encrypt :: "bytes option \<Rightarrow> u16 \<Rightarrow> u8 \<Rightarrow> hci_call list option" where
  "btsnd_hcic_set_conn_encrypt buf handle enable =
     send_cmd buf LOCAL_BR_EDR_CONTROLLER_ID (HCIC_PREAMBLE_SIZE + HCIC_PARAM_SIZE_SET_CONN_ENCRYPT)
       (concat
        [UINT16_TO_STREAM HCI_SET_CONN_ENCRYPTION,
         UINT8_TO_STREAM (of_nat HCIC_PARAM_SIZE_SET_CONN_ENCRYPT), UINT16_TO_STREAM handle,
         UINT8_TO_STREAM enable])"

definition btsnd_hcic_change_link_key :: "bytes option \<Rightarrow> u16 \<Rightarrow> hci_call list option" where
  "btsnd_hcic_change_link_key buf handle =
     send_cmd buf LOCAL_BR_EDR_CONTROLLER_ID (HCIC_PREAMBLE_SIZE + HCIC_PARAM_SIZE_CMD_HANDLE)
       (concat
        [UINT16_TO_STREAM HCI_CHANGE_CONN_LINK_KEY,
         UINT8_TO_STREAM (of_nat HCIC_PARAM_SIZE_CMD_HANDLE), UINT16_TO_STREAM handle])"

definition btsnd_hcic_master_link_key :: "bytes option \<Rightarrow> u8 \<Rightarrow> hci_call list option" where
  "btsnd_hcic_master_link_key buf key_flag =
     send_cmd buf LOCAL_BR_EDR_CONTROLLER_ID (HCIC_PREAMBLE_SIZE + HCIC_PARAM_SIZE_MASTER_LINK_KEY)
       (concat
        [UINT16_TO_STREAM HCI_MASTER_LINK_KEY,
         UINT8_TO_STREAM (of_nat HCIC_PARAM_SIZE_MASTER_LINK_KEY), UINT8_TO_STREAM key_flag])"

definition btsnd_hcic_rmt_name_req ::
  "bytes option \<Rightarrow> bytes \<Rightarrow> u8 \<Rightarrow> u8 \<Rightarrow> u16 \<Rightarrow> hci_call list option" where
  "btsnd_hcic_rmt_name_req buf bd_addr page_scan_rep_mode page_scan_mode clock_offset =
     page_cmd buf bd_addr (HCIC_PREAMBLE_SIZE + HCIC_PARAM_SIZE_RMT_NAME_REQ)
       (concat
        [UINT16_TO_STREAM HCI_RMT_NAME_REQUEST, UINT8_TO_STREAM (of_nat HCIC_PARAM_SIZE_RMT_NAME_REQ),
         BDADDR_TO_STREAM bd_addr, UINT8_TO_STREAM page_scan_rep_mode, UINT8_TO_STREAM page_scan_mode,
         UINT16_TO_STREAM clock_offset])"

definition btsnd_hcic_rmt_name_req_cancel :: "bytes option \<Rightarrow> bytes \<Rightarrow> hci_call list option" where
  "btsnd_hcic_rmt_name_req_cancel buf bd_addr =
     send_cmd buf LOCAL_BR_EDR_CONTROLLER_ID (HCIC_PREAMBLE_SIZE + HCIC_PARAM_SIZE_RMT_NAME_REQ_CANCEL)
       (concat
        [UINT16_TO_STREAM HCI_RMT_NAME_REQUEST_CANCEL,
         UINT8_TO_STREAM (of_nat HCIC_PARAM_SIZE_RMT_NAME_REQ_CANCEL), BDADDR_TO_STREAM bd_addr])"

definition btsnd_hcic_rmt_features_req :: "bytes option \<Rightarrow> u16 \<Rightarrow> hci_call list option" where
  "btsnd_hcic_rmt_features_req buf handle =
     send_cmd buf LOCAL_BR_EDR_CONTROLLER_ID (HCIC_PREAMBLE_SIZE + HCIC_PARAM_SIZE_CMD_HANDLE)
       (concat
        [UINT16_TO_STREAM HCI_READ_RMT_FEATURES,
         UINT8_TO_STREAM (of_nat HCIC_PARAM_SIZE_CMD_HANDLE), UINT16_TO_STREAM handle])"

definition btsnd_hcic_rmt_ext_features :: "bytes option \<Rightarrow> u16 \<Rightarrow> u8 \<Rightarrow> hci_call list option" where
  "btsnd_hcic_rmt_ext_features buf handle page_num =
     send_cmd buf LOCAL_BR_EDR_CONTROLLER_ID (HCIC_PREAMBLE_SIZE + HCIC_PARAM_SIZE_RMT_EXT_FEATURES)
       (concat
        [UINT16_TO_STREAM HCI_READ_RMT_EXT_FEATURES,
         UINT8_TO_STREAM (of_nat HCIC_PARAM_SIZE_RMT_EXT_FEATURES), UINT16_TO_STREAM handle,
         UINT8_TO_STREAM page_num])"

definition btsnd_hcic_rmt_ver_req :: "bytes option \<Rightarrow> u16 \<Rightarrow> hci_call list option" where
  "btsnd_hcic_rmt_ver_req buf handle =
     send_cmd buf LOCAL_BR_EDR_CONTROLLER_ID (HCIC_PREAMBLE_SIZE + HCIC_PARAM_SIZE_CMD_HANDLE)
       (concat
        [UINT16_TO_STREAM HCI_READ_RMT_VERSION_INFO,
         UINT8_TO_STREAM (of_nat HCIC_PARAM_SIZE_CMD_HANDLE), UINT16_TO_STREAM handle])"

definition btsnd_hcic_read_rmt_clk_offset :: "bytes option \<Rightarrow> u16 \<Rightarrow> hci_call list option" where
  "btsnd_hcic_read_rmt_clk_offset buf handle =
     send_cmd buf LOCAL_BR_EDR_CONTROLLER_ID (HCIC_PREAMBLE_SIZE + HCIC_PARAM_SIZE_CMD_HANDLE)
       (concat
        [UINT16_TO_STREAM HCI_READ_RMT_CLOCK_OFFSET,
         UINT8_TO_STREAM (of_nat HCIC_PARAM_SIZE_CMD_HANDLE), UINT16_TO_STREAM handle])"

definition btsnd_hcic_read_lmp_handle :: "bytes option \<Rightarrow> u16 \<Rightarrow> hci_call list option" where
  "btsnd_hcic_read_lmp_handle buf handle =
     send_cmd buf LOCAL_BR_EDR_CONTROLLER_ID (HCIC_PREAMBLE_SIZE + HCIC_PARAM_SIZE_CMD_HANDLE)
       (concat
        [UINT16_TO_STREAM HCI_READ_LMP_HANDLE,
         UINT8_TO_STREAM (of_nat HCIC_PARAM_SIZE_CMD_HANDLE), UINT16_TO_STREAM handle])"

definition btsnd_hcic_setup_esco_conn :: "bytes option \<Rightarrow> u16 \<Rightarrow> u32 \<Rightarrow> u32 \<Rightarrow> u16 \<Rightarrow> u16 \<Rightarrow> u8 \<Rightarrow> u16 \<Rightarrow> hci_call list option" where
  "btsnd_hcic_setup_esco_conn buf handle tx_bw rx_bw max_latency voice retrans_effort packet_types =
     send_cmd buf LOCAL_BR_EDR_CONTROLLER_ID (HCIC_PREAMBLE_SIZE + HCIC_PARAM_SIZE_SETUP_ESCO)
       (concat
        [UINT16_TO_STREAM HCI_SETUP_ESCO_CONNECTION,
         UINT8_TO_STREAM (of_nat HCIC_PARAM_SIZE_SETUP_ESCO), UINT16_TO_STREAM handle,
         UINT32_TO_STREAM tx_bw, UINT32_TO_STREAM rx_bw, UINT16_TO_STREAM max_latency,
         UINT16_TO_STREAM voice, UINT8_TO_STREAM retrans_effort, UINT16_TO_STREAM packet_types])"

definition btsnd_hcic_accept_esco_conn :: "bytes option \<Rightarrow> bytes \<Rightarrow> u32 \<Rightarrow> u32 \<Rightarrow> u16 \<Rightarrow> u16 \<Rightarrow> u8 \<Rightarrow> u16 \<Rightarrow> hci_call list option" where
  "btsnd_hcic_accept_esco_conn buf bd_addr tx_bw rx_bw max_latency content_fmt retrans_effort packet_types =
     send_cmd buf LOCAL_BR_EDR_CONTROLLER_ID (HCIC_PREAMBLE_SIZE + HCIC_PARAM_SIZE_ACCEPT_ESCO)
       (concat
        [UINT16_TO_STREAM HCI_ACCEPT_ESCO_CONNECTION,
         UINT8_TO_STREAM (of_nat HCIC_PARAM_SIZE_ACCEPT_ESCO), BDADDR_TO_STREAM bd_addr,
         UINT32_TO_STREAM tx_bw, UINT32_TO_STREAM rx_bw, UINT16_TO_STREAM max_latency,
         UINT16_TO_STREAM content_fmt, UINT8_TO_STREAM retrans_effort,
         UINT16_TO_STREAM packet_types])"

definition btsnd_hcic_reject_esco_conn :: "bytes option \<Rightarrow> bytes \<Rightarrow> u8 \<Rightarrow> hci_call list option" where
  "btsnd_hcic_reject_esco_conn buf bd_addr reason =
     send_cmd buf LOCAL_BR_EDR_CONTROLLER_ID (HCIC_PREAMBLE_SIZE + HCIC_PARAM_SIZE_REJECT_ESCO)
       (concat
        [UINT16_TO_STREAM HCI_REJECT_ESCO_CONNECTION,
         UINT8_TO_STREAM (of_nat HCIC_PARAM_SIZE_REJECT_ESCO), BDADDR_TO_STREAM bd_addr,
         UINT8_TO_STREAM reason])"

definition btsnd_hcic_hold_mode :: "bytes option \<Rightarrow> u16 \<Rightarrow> u16 \<Rightarrow> u16 \<Rightarrow> hci_call list option" where
  "btsnd_hcic_hold_mode buf handle max_hold_period min_hold_period =
     send_cmd buf LOCAL_BR_EDR_CONTROLLER_ID (HCIC_PREAMBLE_SIZE + HCIC_PARAM_SIZE_HOLD_MODE)
       (concat
        [UINT16_TO_STREAM HCI_HOLD_MODE, UINT8_TO_STREAM (of_nat HCIC_PARAM_SIZE_HOLD_MODE),
         UINT16_TO_STREAM handle, UINT16_TO_STREAM max_hold_period,
         UINT16_TO_STREAM min_hold_period])"

definition btsnd_hcic_sniff_mode :: "bytes option \<Rightarrow> u16 \<Rightarrow> u16 \<Rightarrow> u16 \<Rightarrow> u16 \<Rightarrow> u16 \<Rightarrow> hci_call list option" where
  "btsnd_hcic_sniff_mode buf handle max_sniff_period min_sniff_period sniff_attempt sniff_timeout =
     send_cmd buf LOCAL_BR_EDR_CONTROLLER_ID (HCIC_PREAMBLE_SIZE + HCIC_PARAM_SIZE_SNIFF_MODE)
       (concat
        [UINT16_TO_STREAM HCI_SNIFF_MODE, UINT8_TO_STREAM (of_nat HCIC_PARAM_SIZE_SNIFF_MODE),
         UINT16_TO_STREAM handle, UINT16_TO_STREAM max_sniff_period,
         UINT16_TO_STREAM min_sniff_period, UINT16_TO_STREAM sniff_attempt,
         UINT16_TO_STREAM sniff_timeout])"

definition btsnd_hcic_exit_sniff_mode :: "bytes option \<Rightarrow> u16 \<Rightarrow> hci_call list option" where
  "btsnd_hcic_exit_sniff_mode buf handle =
     send_cmd buf LOCAL_BR_EDR_CONTROLLER_ID (HCIC_PREAMBLE_SIZE + HCIC_PARAM_SIZE_CMD_HANDLE)
       (concat
        [UINT16_TO_STREAM HCI_EXIT_SNIFF_MODE,
         UINT8_TO_STREAM (of_nat HCIC_PARAM_SIZE_CMD_HANDLE), UINT16_TO_STREAM handle])"

definition btsnd_hcic_park_mode :: "bytes option \<Rightarrow> u16 \<Rightarrow> u16 \<Rightarrow> u16 \<Rightarrow> hci_call list option" where
  "btsnd_hcic_park_mode buf handle beacon_max_interval beacon_min_interval =
     send_cmd buf LOCAL_BR_EDR_CONTROLLER_ID (HCIC_PREAMBLE_SIZE + HCIC_PARAM_SIZE_PARK_MODE)
       (concat
        [UINT16_TO_STREAM HCI_PARK_MODE, UINT8_TO_STREAM (of_nat HCIC_PARAM_SIZE_PARK_MODE),
         UINT16_TO_STREAM handle, UINT16_TO_STREAM beacon_max_interval,
         UINT16_TO_STREAM beacon_min_interval])"

definition btsnd_hcic_exit_park_mode :: "bytes option \<Rightarrow> u16 \<Rightarrow> hci_call list option" where
  "btsnd_hcic_exit_park_mode buf handle =
     send_cmd buf LOCAL_BR_EDR_CONTROLLER_ID (HCIC_PREAMBLE_SIZE + HCIC_PARAM_SIZE_CMD_HANDLE)
       (concat
        [UINT16_TO_STREAM HCI_EXIT_PARK_MODE,
         UINT8_TO_STREAM (of_nat HCIC_PARAM_SIZE_CMD_HANDLE), UINT16_TO_STREAM handle])"

definition btsnd_hcic_qos_setup :: "bytes option \<Rightarrow> u16 \<Rightarrow> u8 \<Rightarrow> u8 \<Rightarrow> u32 \<Rightarrow> u32 \<Rightarrow> u32 \<Rightarrow> u32 \<Rightarrow> hci_call list option" where
  "btsnd_hcic_qos_setup buf handle flags service_type token_rate peak latency delay_var =
     send_cmd buf LOCAL_BR_EDR_CONTROLLER_ID (HCIC_PREAMBLE_SIZE + HCIC_PARAM_SIZE_QOS_SETUP)
       (concat
        [UINT16_TO_STREAM HCI_QOS_SETUP, UINT8_TO_STREAM (of_nat HCIC_PARAM_SIZE_QOS_SETUP),
         UINT16_TO_STREAM handle, UINT8_TO_STREAM flags, UINT8_TO_STREAM service_type,
         UINT32_TO_STREAM token_rate, UINT32_TO_STREAM peak, UINT32_TO_STREAM latency,
         UINT32_TO_STREAM delay_var])"

definition btsnd_hcic_role_discovery :: "bytes option \<Rightarrow> u16 \<Rightarrow> hci_call list option" where
  "btsnd_hcic_role_discovery buf handle =
     send_cmd buf LOCAL_BR_EDR_CONTROLLER_ID (HCIC_PREAMBLE_SIZE + HCIC_PARAM_SIZE_CMD_HANDLE)
       (concat
        [UINT16_TO_STREAM HCI_ROLE_DISCOVERY,
         UINT8_TO_STREAM (of_nat HCIC_PARAM_SIZE_CMD_HANDLE), UINT16_TO_STREAM handle])"

definition btsnd_hcic_switch_role :: "bytes option \<Rightarrow> bytes \<Rightarrow> u8 \<Rightarrow> hci_call list option" where
  "btsnd_hcic_switch_role buf bd_addr role =
     send_cmd buf LOCAL_BR_EDR_CONTROLLER_ID (HCIC_PREAMBLE_SIZE + HCIC_PARAM_SIZE_SWITCH_ROLE)
       (concat
        [UINT16_TO_STREAM HCI_SWITCH_ROLE, UINT8_TO_STREAM (of_nat HCIC_PARAM_SIZE_SWITCH_ROLE),
         BDADDR_TO_STREAM bd_addr, UINT8_TO_STREAM role])"

definition btsnd_hcic_read_policy_set :: "bytes option \<Rightarrow> u16 \<Rightarrow> hci_call list option" where
  "btsnd_hcic_read_policy_set buf handle =
     send_cmd buf LOCAL_BR_EDR_CONTROLLER_ID (HCIC_PREAMBLE_SIZE + HCIC_PARAM_SIZE_CMD_HANDLE)
       (concat
        [UINT16_TO_STREAM HCI_READ_POLICY_SETTINGS,
         UINT8_TO_STREAM (of_nat HCIC_PARAM_SIZE_CMD_HANDLE), UINT16_TO_STREAM handle])"

definition btsnd_hcic_write_policy_set :: "bytes option \<Rightarrow> u16 \<Rightarrow> u16 \<Rightarrow> hci_call list option" where
  "btsnd_hcic_write_policy_set buf handle settings =
     send_cmd buf LOCAL_BR_EDR_CONTROLLER_ID (HCIC_PREAMBLE_SIZE + HCIC_PARAM_SIZE_WRITE_POLICY_SET)
       (concat
        [UINT16_TO_STREAM HCI_WRITE_POLICY_SETTINGS,
         UINT8_TO_STREAM (of_nat HCIC_PARAM_SIZE_WRITE_POLICY_SET), UINT16_TO_STREAM handle,
         UINT16_TO_STREAM settings])"

definition btsnd_hcic_read_def_policy_set :: "bytes option \<Rightarrow> hci_call list option" where
  "btsnd_hcic_read_def_policy_set buf =
     send_cmd buf LOCAL_BR_EDR_CONTROLLER_ID (HCIC_PREAMBLE_SIZE + HCIC_PARAM_SIZE_READ_DEF_POLICY_SET)
       (concat
        [UINT16_TO_STREAM HCI_READ_DEF_POLICY_SETTINGS,
         UINT8_TO_STREAM (of_nat HCIC_PARAM_SIZE_READ_DEF_POLICY_SET)])"

definition btsnd_hcic_write_def_policy_set :: "bytes option \<Rightarrow> u16 \<Rightarrow> hci_call list option" where
  "btsnd_hcic_write_def_policy_set buf settings =
     send_cmd buf LOCAL_BR_EDR_CONTROLLER_ID (HCIC_PREAMBLE_SIZE + HCIC_PARAM_SIZE_WRITE_DEF_POLICY_SET)
       (concat
        [UINT16_TO_STREAM HCI_WRITE_DEF_POLICY_SETTINGS,
         UINT8_TO_STREAM (of_nat HCIC_PARAM_SIZE_WRITE_DEF_POLICY_SET),
         UINT16_TO_STREAM settings])"

definition btsnd_hcic_flow_specification :: "bytes option \<Rightarrow> u16 \<Rightarrow> u8 \<Rightarrow> u8 \<Rightarrow> u8 \<Rightarrow> u32 \<Rightarrow> u32 \<Rightarrow> u32 \<Rightarrow> u32 \<Rightarrow> hci_call list option" where
  "btsnd_hcic_flow_specification buf handle flags flow_direct service_type token_rate token_bucket_size peak latency =
     send_cmd buf LOCAL_BR_EDR_CONTROLLER_ID (HCIC_PREAMBLE_SIZE + HCIC_PARAM_SIZE_FLOW_SPEC)
       (concat
        [UINT16_TO_STREAM HCI_FLOW_SPECIFICATION,
         UINT8_TO_STREAM (of_nat HCIC_PARAM_SIZE_FLOW_SPEC), UINT16_TO_STREAM handle,
         UINT8_TO_STREAM flags, UINT8_TO_STREAM flow_direct, UINT8_TO_STREAM service_type,
         UINT32_TO_STREAM token_rate, UINT32_TO_STREAM token_bucket_size, UINT32_TO_STREAM peak,
         UINT32_TO_STREAM latency])"

definition btsnd_hcic_set_event_mask :: "bytes option \<Rightarrow> u8 \<Rightarrow> bytes \<Rightarrow> hci_call list option" where
  "btsnd_hcic_set_event_mask buf local_controller_id event_mask =
     send_cmd buf local_controller_id (HCIC_PREAMBLE_SIZE + HCIC_PARAM_SIZE_SET_EVENT_MASK)
       (concat
        [UINT16_TO_STREAM HCI_SET_EVENT_MASK,
         UINT8_TO_STREAM (of_nat HCIC_PARAM_SIZE_SET_EVENT_MASK), ARRAY8_TO_STREAM event_mask])"

definition btsnd_hcic_set_event_mask_page_2 :: "bytes option \<Rightarrow> u8 \<Rightarrow> bytes \<Rightarrow> hci_call list option" where
  "btsnd_hcic_set_event_mask_page_2 buf local_controller_id event_mask =
     send_cmd buf local_controller_id (HCIC_PREAMBLE_SIZE + HCIC_PARAM_SIZE_SET_EVENT_MASK_PAGE_2)
       (concat
        [UINT16_TO_STREAM HCI_SET_EVENT_MASK_PAGE_2,
         UINT8_TO_STREAM (of_nat HCIC_PARAM_SIZE_SET_EVENT_MASK_PAGE_2),
         ARRAY8_TO_STREAM event_mask])"

definition btsnd_hcic_reset :: "bytes option \<Rightarrow> u8 \<Rightarrow> hci_call list option" where
  "btsnd_hcic_reset buf local_controller_id =
     (case send_cmd buf local_controller_id (HCIC_PREAMBLE_SIZE + HCIC_PARAM_SIZE_RESET)
         (concat [UINT16_TO_STREAM HCI_RESET, UINT8_TO_STREAM (of_nat HCIC_PARAM_SIZE_RESET)]) of
        None \<Rightarrow> None
      | Some calls \<Rightarrow>
          Some (calls @ (if local_controller_id = LOCAL_BR_EDR_CONTROLLER_ID
                         then [Btm_acl_reset_paging, Btm_acl_set_discing False] else [])))"

definition btsnd_hcic_set_event_filter ::
  "bytes option \<Rightarrow> u8 \<Rightarrow> u8 \<Rightarrow> bytes \<Rightarrow> u8 \<Rightarrow> hci_call list option" where
  "btsnd_hcic_set_event_filter buf filt_type filt_cond_type filt_cond filt_cond_len =
     (if filt_type \<noteq> 0
      then send_cmd buf LOCAL_BR_EDR_CONTROLLER_ID (HCIC_PREAMBLE_SIZE + 2 + unat filt_cond_len)
        (concat
         [UINT16_TO_STREAM HCI_SET_EVENT_FILTER, UINT8_TO_STREAM (2 + filt_cond_len),
          UINT8_TO_STREAM filt_type, UINT8_TO_STREAM filt_cond_type,
          (if filt_cond_type = HCI_FILTER_COND_DEVICE_CLASS
           then DEVCLASS_TO_STREAM filt_cond @ DEVCLASS_TO_STREAM (drop DEV_CLASS_LEN filt_cond) @
             ARRAY_TO_STREAM (drop (2 * DEV_CLASS_LEN) filt_cond)
               (unat (filt_cond_len - of_nat (2 * DEV_CLASS_LEN)))
           else if filt_cond_type = HCI_FILTER_COND_BD_ADDR
           then BDADDR_TO_STREAM filt_cond @
             ARRAY_TO_STREAM (drop BD_ADDR_LEN filt_cond) (unat (filt_cond_len - of_nat BD_ADDR_LEN))
           else ARRAY_TO_STREAM filt_cond (unat filt_cond_len))])
      else send_cmd buf LOCAL_BR_EDR_CONTROLLER_ID (HCIC_PREAMBLE_SIZE + 1)
        (concat [UINT16_TO_STREAM HCI_SET_EVENT_FILTER, UINT8_TO_STREAM 1, UINT8_TO_STREAM filt_type]))"

definition btsnd_hcic_flush :: "bytes option \<Rightarrow> u8 \<Rightarrow> u16 \<Rightarrow> hci_call list option" where
  "btsnd_hcic_flush buf local_controller_id handle =
     send_cmd buf local_controller_id (HCIC_PREAMBLE_SIZE + HCIC_PARAM_SIZE_CMD_HANDLE)
       (concat
        [UINT16_TO_STREAM HCI_FLUSH, UINT8_TO_STREAM (of_nat HCIC_PARAM_SIZE_CMD_HANDLE),
         UINT16_TO_STREAM handle])"

definition btsnd_hcic_read_pin_type :: "bytes option \<Rightarrow> hci_call list option" where
  "btsnd_hcic_read_pin_type buf =
     send_cmd buf LOCAL_BR_EDR_CONTROLLER_ID (HCIC_PREAMBLE_SIZE + HCIC_PARAM_SIZE_READ_CMD)
       (concat
        [UINT16_TO_STREAM HCI_READ_PIN_TYPE, UINT8_TO_STREAM (of_nat HCIC_PARAM_SIZE_READ_CMD)])"

definition btsnd_hcic_write_pin_type :: "bytes option \<Rightarrow> u8 \<Rightarrow> hci_call list option" where
  "btsnd_hcic_write_pin_type buf type =
     send_cmd buf LOCAL_BR_EDR_CONTROLLER_ID (HCIC_PREAMBLE_SIZE + HCIC_PARAM_SIZE_WRITE_PARAM1)
       (concat
        [UINT16_TO_STREAM HCI_WRITE_PIN_TYPE,
         UINT8_TO_STREAM (of_nat HCIC_PARAM_SIZE_WRITE_PARAM1), UINT8_TO_STREAM type])"

definition btsnd_hcic_new_unit_key :: "bytes option \<Rightarrow> hci_call list option" where
  "btsnd_hcic_new_unit_key buf =
     send_cmd buf LOCAL_BR_EDR_CONTROLLER_ID (HCIC_PREAMBLE_SIZE + HCIC_PARAM_SIZE_NEW_UNIT_KEY)
       (concat
        [UINT16_TO_STREAM HCI_CREATE_NEW_UNIT_KEY,
         UINT8_TO_STREAM (of_nat HCIC_PARAM_SIZE_NEW_UNIT_KEY)])"

definition btsnd_hcic_read_stored_key :: "bytes option \<Rightarrow> bytes \<Rightarrow> u8 \<Rightarrow> hci_call list option" where
  "btsnd_hcic_read_stored_key buf bd_addr read_all_flag =
     send_cmd buf LOCAL_BR_EDR_CONTROLLER_ID (HCIC_PREAMBLE_SIZE + HCIC_PARAM_SIZE_READ_STORED_KEY)
       (concat
        [UINT16_TO_STREAM HCI_READ_STORED_LINK_KEY,
         UINT8_TO_STREAM (of_nat HCIC_PARAM_SIZE_READ_STORED_KEY), BDADDR_TO_STREAM bd_addr,
         UINT8_TO_STREAM read_all_flag])"

definition btsnd_hcic_write_stored_key ::
  "bytes option \<Rightarrow> u8 \<Rightarrow> bytes list \<Rightarrow> bytes list \<Rightarrow> hci_call list option" where
  "btsnd_hcic_write_stored_key buf num_keys bd_addr link_key =
     (let len = HCIC_PREAMBLE_SIZE + 1 + unat num_keys * (BD_ADDR_LEN + LINK_KEY_LEN);
          num_keys' = (if num_keys > HCI_MAX_NUM_OF_LINK_KEYS_PER_CMMD
                       then HCI_MAX_NUM_OF_LINK_KEYS_PER_CMMD else num_keys)
      in send_cmd buf LOCAL_BR_EDR_CONTROLLER_ID len
        (concat
         [UINT16_TO_STREAM HCI_WRITE_STORED_LINK_KEY, UINT8_TO_STREAM (of_nat (len - HCIC_PREAMBLE_SIZE)),
          UINT8_TO_STREAM num_keys',
          concat (map (\<lambda>j. BDADDR_TO_STREAM (bd_addr ! j) @ ARRAY16_TO_STREAM (link_key ! j))
            [0..<unat num_keys'])]))"

definition btsnd_hcic_delete_stored_key :: "bytes option \<Rightarrow> bytes \<Rightarrow> u8 \<Rightarrow> hci_call list option" where
  "btsnd_hcic_delete_stored_key buf bd_addr delete_all_flag =
     send_cmd buf LOCAL_BR_EDR_CONTROLLER_ID (HCIC_PREAMBLE_SIZE + HCIC_PARAM_SIZE_DELETE_STORED_KEY)
       (concat
        [UINT16_TO_STREAM HCI_DELETE_STORED_LINK_KEY,
         UINT8_TO_STREAM (of_nat HCIC_PARAM_SIZE_DELETE_STORED_KEY), BDADDR_TO_STREAM bd_addr,
         UINT8_TO_STREAM delete_all_flag])"

definition strlen :: "bytes \<Rightarrow> nat" where
  "strlen s = length (takeWhile (\<lambda>c. c \<noteq> 0) s)"

definition btsnd_hcic_change_name :: "bytes option \<Rightarrow> bytes \<Rightarrow> hci_call list option" where
  "btsnd_hcic_change_name buf name =
     send_cmd buf LOCAL_BR_EDR_CONTROLLER_ID (HCIC_PREAMBLE_SIZE + HCIC_PARAM_SIZE_CHANGE_NAME)
       (concat
        [UINT16_TO_STREAM HCI_CHANGE_LOCAL_NAME, UINT8_TO_STREAM (of_nat HCIC_PARAM_SIZE_CHANGE_NAME),
         ARRAY_TO_STREAM name (strlen name + 1)])"

definition btsnd_hcic_read_name :: "bytes option \<Rightarrow> hci_call list option" where
  "btsnd_hcic_read_name buf =
     send_cmd buf LOCAL_BR_EDR_CONTROLLER_ID (HCIC_PREAMBLE_SIZE + HCIC_PARAM_SIZE_READ_CMD)
       (concat
        [UINT16_TO_STREAM HCI_READ_LOCAL_NAME,
         UINT8_TO_STREAM (of_nat HCIC_PARAM_SIZE_READ_CMD)])"

definition btsnd_hcic_read_conn_acc_tout :: "bytes option \<Rightarrow> u8 \<Rightarrow> hci_call list option" where
  "btsnd_hcic_read_conn_acc_tout buf local_controller_id =
     send_cmd buf local_controller_id (HCIC_PREAMBLE_SIZE + HCIC_PARAM_SIZE_READ_CMD)
       (concat
        [UINT16_TO_STREAM HCI_READ_CONN_ACCEPT_TOUT,
         UINT8_TO_STREAM (of_nat HCIC_PARAM_SIZE_READ_CMD)])"

definition btsnd_hcic_write_conn_acc_tout :: "bytes option \<Rightarrow> u8 \<Rightarrow> u16 \<Rightarrow> hci_call list option" where
  "btsnd_hcic_write_conn_acc_tout buf local_controller_id timeout =
     send_cmd buf local_controller_id (HCIC_PREAMBLE_SIZE + HCIC_PARAM_SIZE_WRITE_PARAM2)
       (concat
        [UINT16_TO_STREAM HCI_WRITE_CONN_ACCEPT_TOUT,
         UINT8_TO_STREAM (of_nat HCIC_PARAM_SIZE_WRITE_PARAM2), UINT16_TO_STREAM timeout])"

definition btsnd_hcic_read_page_tout :: "bytes option \<Rightarrow> hci_call list option" where
  "btsnd_hcic_read_page_tout buf =
     send_cmd buf LOCAL_BR_EDR_CONTROLLER_ID (HCIC_PREAMBLE_SIZE + HCIC_PARAM_SIZE_READ_CMD)
       (concat
        [UINT16_TO_STREAM HCI_READ_PAGE_TOUT, UINT8_TO_STREAM (of_nat HCIC_PARAM_SIZE_READ_CMD)])"

definition btsnd_hcic_write_page_tout :: "bytes option \<Rightarrow> u16 \<Rightarrow> hci_call list option" where
  "btsnd_hcic_write_page_tout buf timeout =
     send_cmd buf LOCAL_BR_EDR_CONTROLLER_ID (HCIC_PREAMBLE_SIZE + HCIC_PARAM_SIZE_WRITE_PARAM2)
       (concat
        [UINT16_TO_STREAM HCI_WRITE_PAGE_TOUT,
         UINT8_TO_STREAM (of_nat HCIC_PARAM_SIZE_WRITE_PARAM2), UINT16_TO_STREAM timeout])"

definition btsnd_hcic_read_scan_enable :: "bytes option \<Rightarrow> hci_call list option" where
  "btsnd_hcic_read_scan_enable buf =
     send_cmd buf LOCAL_BR_EDR_CONTROLLER_ID (HCIC_PREAMBLE_SIZE + HCIC_PARAM_SIZE_READ_CMD)
       (concat
        [UINT16_TO_STREAM HCI_READ_SCAN_ENABLE,
         UINT8_TO_STREAM (of_nat HCIC_PARAM_SIZE_READ_CMD)])"

definition btsnd_hcic_write_scan_enable :: "bytes option \<Rightarrow> u8 \<Rightarrow> hci_call list option" where
  "btsnd_hcic_write_scan_enable buf flag =
     send_cmd buf LOCAL_BR_EDR_CONTROLLER_ID (HCIC_PREAMBLE_SIZE + HCIC_PARAM_SIZE_WRITE_PARAM1)
       (concat
        [UINT16_TO_STREAM HCI_WRITE_SCAN_ENABLE,
         UINT8_TO_STREAM (of_nat HCIC_PARAM_SIZE_WRITE_PARAM1), UINT8_TO_STREAM flag])"

definition btsnd_hcic_read_pagescan_cfg :: "bytes option \<Rightarrow> hci_call list option" where
  "btsnd_hcic_read_pagescan_cfg buf =
     send_cmd buf LOCAL_BR_EDR_CONTROLLER_ID (HCIC_PREAMBLE_SIZE + HCIC_PARAM_SIZE_READ_CMD)
       (concat
        [UINT16_TO_STREAM HCI_READ_PAGESCAN_CFG,
         UINT8_TO_STREAM (of_nat HCIC_PARAM_SIZE_READ_CMD)])"

definition btsnd_hcic_write_pagescan_cfg :: "bytes option \<Rightarrow> u16 \<Rightarrow> u16 \<Rightarrow> hci_call list option" where
  "btsnd_hcic_write_pagescan_cfg buf interval window =
     send_cmd buf LOCAL_BR_EDR_CONTROLLER_ID (HCIC_PREAMBLE_SIZE + HCIC_PARAM_SIZE_WRITE_PAGESCAN_CFG)
       (concat
        [UINT16_TO_STREAM HCI_WRITE_PAGESCAN_CFG,
         UINT8_TO_STREAM (of_nat HCIC_PARAM_SIZE_WRITE_PAGESCAN_CFG), UINT16_TO_STREAM interval,
         UINT16_TO_STREAM window])"

definition btsnd_hcic_read_inqscan_cfg :: "bytes option \<Rightarrow> hci_call list option" where
  "btsnd_hcic_read_inqscan_cfg buf =
     send_cmd buf LOCAL_BR_EDR_CONTROLLER_ID (HCIC_PREAMBLE_SIZE + HCIC_PARAM_SIZE_READ_CMD)
       (concat
        [UINT16_TO_STREAM HCI_READ_INQUIRYSCAN_CFG,
         UINT8_TO_STREAM (of_nat HCIC_PARAM_SIZE_READ_CMD)])"

definition btsnd_hcic_write_inqscan_cfg :: "bytes option \<Rightarrow> u16 \<Rightarrow> u16 \<Rightarrow> hci_call list option" where
  "btsnd_hcic_write_inqscan_cfg buf interval window =
     send_cmd buf LOCAL_BR_EDR_CONTROLLER_ID (HCIC_PREAMBLE_SIZE + HCIC_PARAM_SIZE_WRITE_INQSCAN_CFG)
       (concat
        [UINT16_TO_STREAM HCI_WRITE_INQUIRYSCAN_CFG,
         UINT8_TO_STREAM (of_nat HCIC_PARAM_SIZE_WRITE_INQSCAN_CFG), UINT16_TO_STREAM interval,
         UINT16_TO_STREAM window])"

definition btsnd_hcic_read_auth_enable :: "bytes option \<Rightarrow> hci_call list option" where
  "btsnd_hcic_read_auth_enable buf =
     send_cmd buf LOCAL_BR_EDR_CONTROLLER_ID (HCIC_PREAMBLE_SIZE + HCIC_PARAM_SIZE_READ_CMD)
       (concat
        [UINT16_TO_STREAM HCI_READ_AUTHENTICATION_ENABLE,
         UINT8_TO_STREAM (of_nat HCIC_PARAM_SIZE_READ_CMD)])"

definition btsnd_hcic_write_auth_enable :: "bytes option \<Rightarrow> u8 \<Rightarrow> hci_call list option" where
  "btsnd_hcic_write_auth_enable buf flag =
     send_cmd buf LOCAL_BR_EDR_CONTROLLER_ID (HCIC_PREAMBLE_SIZE + HCIC_PARAM_SIZE_WRITE_PARAM1)
       (concat
        [UINT16_TO_STREAM HCI_WRITE_AUTHENTICATION_ENABLE,
         UINT8_TO_STREAM (of_nat HCIC_PARAM_SIZE_WRITE_PARAM1), UINT8_TO_STREAM flag])"

definition btsnd_hcic_read_encr_mode :: "bytes option \<Rightarrow> hci_call list option" where
  "btsnd_hcic_read_encr_mode buf =
     send_cmd buf LOCAL_BR_EDR_CONTROLLER_ID (HCIC_PREAMBLE_SIZE + HCIC_PARAM_SIZE_READ_CMD)
       (concat
        [UINT16_TO_STREAM HCI_READ_ENCRYPTION_MODE,
         UINT8_TO_STREAM (of_nat HCIC_PARAM_SIZE_READ_CMD)])"

definition btsnd_hcic_write_encr_mode :: "bytes option \<Rightarrow> u8 \<Rightarrow> hci_call list option" where
  "btsnd_hcic_write_encr_mode buf mode =
     send_cmd buf LOCAL_BR_EDR_CONTROLLER_ID (HCIC_PREAMBLE_SIZE + HCIC_PARAM_SIZE_WRITE_PARAM1)
       (concat
        [UINT16_TO_STREAM HCI_WRITE_ENCRYPTION_MODE,
         UINT8_TO_STREAM (of_nat HCIC_PARAM_SIZE_WRITE_PARAM1), UINT8_TO_STREAM mode])"

definition btsnd_hcic_read_dev_class :: "bytes option \<Rightarrow> hci_call list option" where
  "btsnd_hcic_read_dev_class buf =
     send_cmd buf LOCAL_BR_EDR_CONTROLLER_ID (HCIC_PREAMBLE_SIZE + HCIC_PARAM_SIZE_READ_CMD)
       (concat
        [UINT16_TO_STREAM HCI_READ_CLASS_OF_DEVICE,
         UINT8_TO_STREAM (of_nat HCIC_PARAM_SIZE_READ_CMD)])"

definition btsnd_hcic_write_dev_class :: "bytes option \<Rightarrow> bytes \<Rightarrow> hci_call list option" where
  "btsnd_hcic_write_dev_class buf dev_class =
     send_cmd buf LOCAL_BR_EDR_CONTROLLER_ID (HCIC_PREAMBLE_SIZE + HCIC_PARAM_SIZE_WRITE_PARAM3)
       (concat
        [UINT16_TO_STREAM HCI_WRITE_CLASS_OF_DEVICE,
         UINT8_TO_STREAM (of_nat HCIC_PARAM_SIZE_WRITE_PARAM3), DEVCLASS_TO_STREAM dev_class])"

definition btsnd_hcic_read_voice_settings :: "bytes option \<Rightarrow> hci_call list option" where
  "btsnd_hcic_read_voice_settings buf =
     send_cmd buf LOCAL_BR_EDR_CONTROLLER_ID (HCIC_PREAMBLE_SIZE + HCIC_PARAM_SIZE_READ_CMD)
       (concat
        [UINT16_TO_STREAM HCI_READ_VOICE_SETTINGS,
         UINT8_TO_STREAM (of_nat HCIC_PARAM_SIZE_READ_CMD)])"

definition btsnd_hcic_write_voice_settings :: "bytes option \<Rightarrow> u16 \<Rightarrow> hci_call list option" where
  "btsnd_hcic_write_voice_settings buf flags =
     send_cmd buf LOCAL_BR_EDR_CONTROLLER_ID (HCIC_PREAMBLE_SIZE + HCIC_PARAM_SIZE_WRITE_PARAM2)
       (concat
        [UINT16_TO_STREAM HCI_WRITE_VOICE_SETTINGS,
         UINT8_TO_STREAM (of_nat HCIC_PARAM_SIZE_WRITE_PARAM2), UINT16_TO_STREAM flags])"

definition btsnd_hcic_read_auto_flush_tout :: "bytes option \<Rightarrow> u16 \<Rightarrow> hci_call list option" where
  "btsnd_hcic_read_auto_flush_tout buf handle =
     send_cmd buf LOCAL_BR_EDR_CONTROLLER_ID (HCIC_PREAMBLE_SIZE + HCIC_PARAM_SIZE_CMD_HANDLE)
       (concat
        [UINT16_TO_STREAM HCI_READ_AUTO_FLUSH_TOUT,
         UINT8_TO_STREAM (of_nat HCIC_PARAM_SIZE_CMD_HANDLE), UINT16_TO_STREAM handle])"

definition btsnd_hcic_write_auto_flush_tout :: "bytes option \<Rightarrow> u16 \<Rightarrow> u16 \<Rightarrow> hci_call list option" where
  "btsnd_hcic_write_auto_flush_tout buf handle tout =
     send_cmd buf LOCAL_BR_EDR_CONTROLLER_ID (HCIC_PREAMBLE_SIZE + HCIC_PARAM_SIZE_WRITE_AUTO_FLUSH_TOUT)
       (concat
        [UINT16_TO_STREAM HCI_WRITE_AUTO_FLUSH_TOUT,
         UINT8_TO_STREAM (of_nat HCIC_PARAM_SIZE_WRITE_AUTO_FLUSH_TOUT), UINT16_TO_STREAM handle,
         UINT16_TO_STREAM tout])"

definition btsnd_hcic_read_num_bcast_xmit :: "bytes option \<Rightarrow> hci_call list option" where
  "btsnd_hcic_read_num_bcast_xmit buf =
     send_cmd buf LOCAL_BR_EDR_CONTROLLER_ID (HCIC_PREAMBLE_SIZE + HCIC_PARAM_SIZE_READ_CMD)
       (concat
        [UINT16_TO_STREAM HCI_READ_NUM_BCAST_REXMITS,
         UINT8_TO_STREAM (of_nat HCIC_PARAM_SIZE_READ_CMD)])"

definition btsnd_hcic_write_num_bcast_xmit :: "bytes option \<Rightarrow> u8 \<Rightarrow> hci_call list option" where
  "btsnd_hcic_write_num_bcast_xmit buf num =
     send_cmd buf LOCAL_BR_EDR_CONTROLLER_ID (HCIC_PREAMBLE_SIZE + HCIC_PARAM_SIZE_WRITE_PARAM1)
       (concat
        [UINT16_TO_STREAM HCI_WRITE_NUM_BCAST_REXMITS,
         UINT8_TO_STREAM (of_nat HCIC_PARAM_SIZE_WRITE_PARAM1), UINT8_TO_STREAM num])"

definition btsnd_hcic_read_hold_mode_act :: "bytes option \<Rightarrow> hci_call list option" where
  "btsnd_hcic_read_hold_mode_act buf =
     send_cmd buf LOCAL_BR_EDR_CONTROLLER_ID (HCIC_PREAMBLE_SIZE + HCIC_PARAM_SIZE_READ_CMD)
       (concat
        [UINT16_TO_STREAM HCI_READ_HOLD_MODE_ACTIVITY,
         UINT8_TO_STREAM (of_nat HCIC_PARAM_SIZE_READ_CMD)])"

definition btsnd_hcic_write_hold_mode_act :: "bytes option \<Rightarrow> u8 \<Rightarrow> hci_call list option" where
  "btsnd_hcic_write_hold_mode_act buf flags =
     send_cmd buf LOCAL_BR_EDR_CONTROLLER_ID (HCIC_PREAMBLE_SIZE + HCIC_PARAM_SIZE_WRITE_PARAM1)
       (concat
        [UINT16_TO_STREAM HCI_WRITE_HOLD_MODE_ACTIVITY,
         UINT8_TO_STREAM (of_nat HCIC_PARAM_SIZE_WRITE_PARAM1), UINT8_TO_STREAM flags])"

definition btsnd_hcic_read_tx_power :: "bytes option \<Rightarrow> u16 \<Rightarrow> u8 \<Rightarrow> hci_call list option" where
  "btsnd_hcic_read_tx_power buf handle type =
     send_cmd buf LOCAL_BR_EDR_CONTROLLER_ID (HCIC_PREAMBLE_SIZE + HCIC_PARAM_SIZE_READ_TX_POWER)
       (concat
        [UINT16_TO_STREAM HCI_READ_TRANSMIT_POWER_LEVEL,
         UINT8_TO_STREAM (of_nat HCIC_PARAM_SIZE_READ_TX_POWER), UINT16_TO_STREAM handle,
         UINT8_TO_STREAM type])"

definition btsnd_hcic_read_sco_flow_enable :: "bytes option \<Rightarrow> hci_call list option" where
  "btsnd_hcic_read_sco_flow_enable buf =
     send_cmd buf LOCAL_BR_EDR_CONTROLLER_ID (HCIC_PREAMBLE_SIZE + HCIC_PARAM_SIZE_READ_CMD)
       (concat
        [UINT16_TO_STREAM HCI_READ_SCO_FLOW_CTRL_ENABLE,
         UINT8_TO_STREAM (of_nat HCIC_PARAM_SIZE_READ_CMD)])"

definition btsnd_hcic_write_sco_flow_enable :: "bytes option \<Rightarrow> u8 \<Rightarrow> hci_call list option" where
  "btsnd_hcic_write_sco_flow_enable buf flag =
     send_cmd buf LOCAL_BR_EDR_CONTROLLER_ID (HCIC_PREAMBLE_SIZE + HCIC_PARAM_SIZE_WRITE_PARAM1)
       (concat
        [UINT16_TO_STREAM HCI_WRITE_SCO_FLOW_CTRL_ENABLE,
         UINT8_TO_STREAM (of_nat HCIC_PARAM_SIZE_WRITE_PARAM1), UINT8_TO_STREAM flag])"

definition btsnd_hcic_set_host_flow_ctrl :: "bytes option \<Rightarrow> u8 \<Rightarrow> hci_call list option" where
  "btsnd_hcic_set_host_flow_ctrl buf value =
     send_cmd buf LOCAL_BR_EDR_CONTROLLER_ID (HCIC_PREAMBLE_SIZE + HCIC_PARAM_SIZE_WRITE_PARAM1)
       (concat
        [UINT16_TO_STREAM HCI_SET_HC_TO_HOST_FLOW_CTRL,
         UINT8_TO_STREAM (of_nat HCIC_PARAM_SIZE_WRITE_PARAM1), UINT8_TO_STREAM value])"

definition btsnd_hcic_set_host_buf_size :: "bytes option \<Rightarrow> u16 \<Rightarrow> u8 \<Rightarrow> u16 \<Rightarrow> u16 \<Rightarrow> hci_call list option" where
  "btsnd_hcic_set_host_buf_size buf acl_len sco_len acl_num sco_num =
     send_cmd buf LOCAL_BR_EDR_CONTROLLER_ID (HCIC_PREAMBLE_SIZE + HCIC_PARAM_SIZE_SET_HOST_BUF_SIZE)
       (concat
        [UINT16_TO_STREAM HCI_HOST_BUFFER_SIZE,
         UINT8_TO_STREAM (of_nat HCIC_PARAM_SIZE_SET_HOST_BUF_SIZE), UINT16_TO_STREAM acl_len,
         UINT8_TO_STREAM sco_len, UINT16_TO_STREAM acl_num, UINT16_TO_STREAM sco_num])"

definition btsnd_hcic_host_num_xmitted_pkts ::
  "bytes option \<Rightarrow> u8 \<Rightarrow> u16 list \<Rightarrow> u16 list \<Rightarrow> hci_call list option" where
  "btsnd_hcic_host_num_xmitted_pkts buf num_handles handle num_pkts =
     (let len = HCIC_PREAMBLE_SIZE + 1 + unat num_handles * 4
      in send_cmd buf LOCAL_BR_EDR_CONTROLLER_ID len
        (concat
         [UINT16_TO_STREAM HCI_HOST_NUM_PACKETS_DONE, UINT8_TO_STREAM (of_nat (len - HCIC_PREAMBLE_SIZE)),
          UINT8_TO_STREAM num_handles,
          concat (map (\<lambda>j. UINT16_TO_STREAM (handle ! j) @ UINT16_TO_STREAM (num_pkts ! j))
            [0..<unat num_handles])]))"

definition btsnd_hcic_read_link_super_tout :: "bytes option \<Rightarrow> u8 \<Rightarrow> u16 \<Rightarrow> hci_call list option" where
  "btsnd_hcic_read_link_super_tout buf local_controller_id handle =
     send_cmd buf local_controller_id (HCIC_PREAMBLE_SIZE + HCIC_PARAM_SIZE_CMD_HANDLE)
       (concat
        [UINT16_TO_STREAM HCI_READ_LINK_SUPER_TOUT,
         UINT8_TO_STREAM (of_nat HCIC_PARAM_SIZE_CMD_HANDLE), UINT16_TO_STREAM handle])"

definition btsnd_hcic_write_link_super_tout :: "bytes option \<Rightarrow> u8 \<Rightarrow> u16 \<Rightarrow> u16 \<Rightarrow> hci_call list option" where
  "btsnd_hcic_write_link_super_tout buf local_controller_id handle timeout =
     send_cmd buf local_controller_id (HCIC_PREAMBLE_SIZE + HCIC_PARAM_SIZE_WRITE_LINK_SUPER_TOUT)
       (concat
        [UINT16_TO_STREAM HCI_WRITE_LINK_SUPER_TOUT,
         UINT8_TO_STREAM (of_nat HCIC_PARAM_SIZE_WRITE_LINK_SUPER_TOUT), UINT16_TO_STREAM handle,
         UINT16_TO_STREAM timeout])"

definition btsnd_hcic_read_max_iac :: "bytes option \<Rightarrow> hci_call list option" where
  "btsnd_hcic_read_max_iac buf =
     send_cmd buf LOCAL_BR_EDR_CONTROLLER_ID (HCIC_PREAMBLE_SIZE + HCIC_PARAM_SIZE_READ_CMD)
       (concat
        [UINT16_TO_STREAM HCI_READ_NUM_SUPPORTED_IAC,
         UINT8_TO_STREAM (of_nat HCIC_PARAM_SIZE_READ_CMD)])"

definition btsnd_hcic_read_cur_iac_lap :: "bytes option \<Rightarrow> hci_call list option" where
  "btsnd_hcic_read_cur_iac_lap buf =
     send_cmd buf LOCAL_BR_EDR_CONTROLLER_ID (HCIC_PREAMBLE_SIZE + HCIC_PARAM_SIZE_READ_CMD)
       (concat
        [UINT16_TO_STREAM HCI_READ_CURRENT_IAC_LAP,
         UINT8_TO_STREAM (of_nat HCIC_PARAM_SIZE_READ_CMD)])"

definition btsnd_hcic_write_cur_iac_lap ::
  "bytes option \<Rightarrow> u8 \<Rightarrow> bytes list \<Rightarrow> hci_call list option" where
  "btsnd_hcic_write_cur_iac_lap buf num_cur_iac iac_lap =
     (let len = HCIC_PREAMBLE_SIZE + 1 + LAP_LEN * unat num_cur_iac
      in send_cmd buf LOCAL_BR_EDR_CONTROLLER_ID len
        (concat
         [UINT16_TO_STREAM HCI_WRITE_CURRENT_IAC_LAP, UINT8_TO_STREAM (of_nat (len - HCIC_PREAMBLE_SIZE)),
          UINT8_TO_STREAM num_cur_iac,
          concat (map (\<lambda>i. LAP_TO_STREAM (iac_lap ! i)) [0..<unat num_cur_iac])]))"

definition btsnd_hcic_read_page_scan_per :: "bytes option \<Rightarrow> hci_call list option" where
  "btsnd_hcic_read_page_scan_per buf =
     send_cmd buf LOCAL_BR_EDR_CONTROLLER_ID (HCIC_PREAMBLE_SIZE + HCIC_PARAM_SIZE_READ_CMD)
       (concat
        [UINT16_TO_STREAM HCI_READ_PAGESCAN_PERIOD_MODE,
         UINT8_TO_STREAM (of_nat HCIC_PARAM_SIZE_READ_CMD)])"

definition btsnd_hcic_write_page_scan_per :: "bytes option \<Rightarrow> u8 \<Rightarrow> hci_call list option" where
  "btsnd_hcic_write_page_scan_per buf mode =
     send_cmd buf LOCAL_BR_EDR_CONTROLLER_ID (HCIC_PREAMBLE_SIZE + HCIC_PARAM_SIZE_WRITE_PARAM1)
       (concat
        [UINT16_TO_STREAM HCI_WRITE_PAGESCAN_PERIOD_MODE,
         UINT8_TO_STREAM (of_nat HCIC_PARAM_SIZE_WRITE_PARAM1), UINT8_TO_STREAM mode])"

definition btsnd_hcic_read_page_scan_mode :: "bytes option \<Rightarrow> hci_call list option" where
  "btsnd_hcic_read_page_scan_mode buf =
     send_cmd buf LOCAL_BR_EDR_CONTROLLER_ID (HCIC_PREAMBLE_SIZE + HCIC_PARAM_SIZE_READ_CMD)
       (concat
        [UINT16_TO_STREAM HCI_READ_PAGESCAN_MODE,
         UINT8_TO_STREAM (of_nat HCIC_PARAM_SIZE_READ_CMD)])"

definition btsnd_hcic_write_page_scan_mode :: "bytes option \<Rightarrow> u8 \<Rightarrow> hci_call list option" where
  "btsnd_hcic_write_page_scan_mode buf mode =
     send_cmd buf LOCAL_BR_EDR_CONTROLLER_ID (HCIC_PREAMBLE_SIZE + HCIC_PARAM_SIZE_WRITE_PARAM1)
       (concat
        [UINT16_TO_STREAM HCI_WRITE_PAGESCAN_MODE,
         UINT8_TO_STREAM (of_nat HCIC_PARAM_SIZE_WRITE_PARAM1), UINT8_TO_STREAM mode])"

definition btsnd_hcic_sniff_sub_rate :: "bytes option \<Rightarrow> u16 \<Rightarrow> u16 \<Rightarrow> u16 \<Rightarrow> u16 \<Rightarrow> hci_call list option" where
  "btsnd_hcic_sniff_sub_rate buf handle max_lat min_remote_lat min_local_lat =
     send_cmd buf LOCAL_BR_EDR_CONTROLLER_ID (HCIC_PREAMBLE_SIZE + HCIC_PARAM_SIZE_SNIFF_SUB_RATE)
       (concat
        [UINT16_TO_STREAM HCI_SNIFF_SUB_RATE,
         UINT8_TO_STREAM (of_nat HCIC_PARAM_SIZE_SNIFF_SUB_RATE), UINT16_TO_STREAM handle,
         UINT16_TO_STREAM max_lat, UINT16_TO_STREAM min_remote_lat,
         UINT16_TO_STREAM min_local_lat])"

definition btsnd_hcic_read_ext_inquiry_response :: "bytes option \<Rightarrow> hci_call list option" where
  "btsnd_hcic_read_ext_inquiry_response buf =
     send_cmd buf LOCAL_BR_EDR_CONTROLLER_ID (HCIC_PREAMBLE_SIZE + HCIC_PARAM_SIZE_READ_CMD)
       (concat
        [UINT16_TO_STREAM HCI_READ_EXT_INQ_RESPONSE,
         UINT8_TO_STREAM (of_nat HCIC_PARAM_SIZE_READ_CMD)])"

text \<open>The caller passes a buffer that already holds the inquiry response behind the header.\<close>

definition btsnd_hcic_write_ext_inquiry_response :: "bytes \<Rightarrow> u8 \<Rightarrow> hci_call list" where
  "btsnd_hcic_write_ext_inquiry_response mem fec_req =
     [Btu_hcif_send_cmd LOCAL_BR_EDR_CONTROLLER_ID
        (cmd_buf (HCIC_PREAMBLE_SIZE + HCIC_PARAM_SIZE_EXT_INQ_RESP) 0
          (concat [UINT16_TO_STREAM HCI_WRITE_EXT_INQ_RESPONSE,
             UINT8_TO_STREAM (of_nat HCIC_PARAM_SIZE_EXT_INQ_RESP), UINT8_TO_STREAM fec_req]) mem)]"

definition btsnd_hcic_write_simple_pairing_mode :: "bytes option \<Rightarrow> u8 \<Rightarrow> hci_call list option" where
  "btsnd_hcic_write_simple_pairing_mode buf mode =
     send_cmd buf LOCAL_BR_EDR_CONTROLLER_ID (HCIC_PREAMBLE_SIZE + HCIC_PARAM_SIZE_W_SIMP_PAIR)
       (concat
        [UINT16_TO_STREAM HCI_WRITE_SIMPLE_PAIRING_MODE,
         UINT8_TO_STREAM (of_nat HCIC_PARAM_SIZE_W_SIMP_PAIR), UINT8_TO_STREAM mode])"

definition btsnd_hcic_read_simple_pairing_mode :: "bytes option \<Rightarrow> hci_call list option" where
  "btsnd_hcic_read_simple_pairing_mode buf =
     send_cmd buf LOCAL_BR_EDR_CONTROLLER_ID (HCIC_PREAMBLE_SIZE + HCIC_PARAM_SIZE_R_SIMP_PAIR)
       (concat
        [UINT16_TO_STREAM HCI_READ_SIMPLE_PAIRING_MODE,
         UINT8_TO_STREAM (of_nat HCIC_PARAM_SIZE_R_SIMP_PAIR)])"

definition btsnd_hcic_write_simp_pair_debug_mode :: "bytes option \<Rightarrow> u8 \<Rightarrow> hci_call list option" where
  "btsnd_hcic_write_simp_pair_debug_mode buf debug_mode =
     send_cmd buf LOCAL_BR_EDR_CONTROLLER_ID (HCIC_PREAMBLE_SIZE + HCIC_PARAM_SIZE_SIMP_PAIR_DBUG)
       (concat
        [UINT16_TO_STREAM HCI_WRITE_SIMP_PAIR_DEBUG_MODE,
         UINT8_TO_STREAM (of_nat HCIC_PARAM_SIZE_SIMP_PAIR_DBUG), UINT8_TO_STREAM debug_mode])"

definition btsnd_hcic_io_cap_req_reply :: "bytes option \<Rightarrow> bytes \<Rightarrow> u8 \<Rightarrow> u8 \<Rightarrow> u8 \<Rightarrow> hci_call list option" where
  "btsnd_hcic_io_cap_req_reply buf bd_addr capability oob_present auth_req =
     send_cmd buf LOCAL_BR_EDR_CONTROLLER_ID (HCIC_PREAMBLE_SIZE + HCIC_PARAM_SIZE_IO_CAP_RESP)
       (concat
        [UINT16_TO_STREAM HCI_IO_CAPABILITY_RESPONSE,
         UINT8_TO_STREAM (of_nat HCIC_PARAM_SIZE_IO_CAP_RESP), BDADDR_TO_STREAM bd_addr,
         UINT8_TO_STREAM capability, UINT8_TO_STREAM oob_present, UINT8_TO_STREAM auth_req])"

definition btsnd_hcic_io_cap_req_neg_reply :: "bytes option \<Rightarrow> bytes \<Rightarrow> u8 \<Rightarrow> hci_call list option" where
  "btsnd_hcic_io_cap_req_neg_reply buf bd_addr err_code =
     send_cmd buf LOCAL_BR_EDR_CONTROLLER_ID (HCIC_PREAMBLE_SIZE + HCIC_PARAM_SIZE_IO_CAP_NEG_REPLY)
       (concat
        [UINT16_TO_STREAM HCI_IO_CAP_REQ_NEG_REPLY,
         UINT8_TO_STREAM (of_nat HCIC_PARAM_SIZE_IO_CAP_NEG_REPLY), BDADDR_TO_STREAM bd_addr,
         UINT8_TO_STREAM err_code])"

definition btsnd_hcic_read_local_oob_data :: "bytes option \<Rightarrow> hci_call list option" where
  "btsnd_hcic_read_local_oob_data buf =
     send_cmd buf LOCAL_BR_EDR_CONTROLLER_ID (HCIC_PREAMBLE_SIZE + HCIC_PARAM_SIZE_R_LOCAL_OOB)
       (concat
        [UINT16_TO_STREAM HCI_READ_LOCAL_OOB_DATA,
         UINT8_TO_STREAM (of_nat HCIC_PARAM_SIZE_R_LOCAL_OOB)])"

definition btsnd_hcic_user_conf_reply :: "bytes option \<Rightarrow> bytes \<Rightarrow> u8 \<Rightarrow> hci_call list option" where
  "btsnd_hcic_user_conf_reply buf bd_addr is_yes =
     send_cmd buf LOCAL_BR_EDR_CONTROLLER_ID (HCIC_PREAMBLE_SIZE + HCIC_PARAM_SIZE_UCONF_REPLY)
       (concat
        [UINT16_TO_STREAM (if is_yes = 0 then HCI_USER_CONF_VALUE_NEG_REPLY else HCI_USER_CONF_REQUEST_REPLY),
         UINT8_TO_STREAM (of_nat HCIC_PARAM_SIZE_UCONF_REPLY), BDADDR_TO_STREAM bd_addr])"

definition btsnd_hcic_user_passkey_reply :: "bytes option \<Rightarrow> bytes \<Rightarrow> u32 \<Rightarrow> hci_call list option" where
  "btsnd_hcic_user_passkey_reply buf bd_addr value =
     send_cmd buf LOCAL_BR_EDR_CONTROLLER_ID (HCIC_PREAMBLE_SIZE + HCIC_PARAM_SIZE_U_PKEY_REPLY)
       (concat
        [UINT16_TO_STREAM HCI_USER_PASSKEY_REQ_REPLY,
         UINT8_TO_STREAM (of_nat HCIC_PARAM_SIZE_U_PKEY_REPLY), BDADDR_TO_STREAM bd_addr,
         UINT32_TO_STREAM value])"

definition btsnd_hcic_user_passkey_neg_reply :: "bytes option \<Rightarrow> bytes \<Rightarrow> hci_call list option" where
  "btsnd_hcic_user_passkey_neg_reply buf bd_addr =
     send_cmd buf LOCAL_BR_EDR_CONTROLLER_ID (HCIC_PREAMBLE_SIZE + HCIC_PARAM_SIZE_U_PKEY_NEG_REPLY)
       (concat
        [UINT16_TO_STREAM HCI_USER_PASSKEY_REQ_NEG_REPLY,
         UINT8_TO_STREAM (of_nat HCIC_PARAM_SIZE_U_PKEY_NEG_REPLY), BDADDR_TO_STREAM bd_addr])"

definition btsnd_hcic_rem_oob_reply :: "bytes option \<Rightarrow> bytes \<Rightarrow> bytes \<Rightarrow> bytes \<Rightarrow> hci_call list option" where
  "btsnd_hcic_rem_oob_reply buf bd_addr p_c p_r =
     send_cmd buf LOCAL_BR_EDR_CONTROLLER_ID (HCIC_PREAMBLE_SIZE + HCIC_PARAM_SIZE_REM_OOB_REPLY)
       (concat
        [UINT16_TO_STREAM HCI_REM_OOB_DATA_REQ_REPLY,
         UINT8_TO_STREAM (of_nat HCIC_PARAM_SIZE_REM_OOB_REPLY), BDADDR_TO_STREAM bd_addr,
         ARRAY16_TO_STREAM p_c, ARRAY16_TO_STREAM p_r])"

definition btsnd_hcic_rem_oob_neg_reply :: "bytes option \<Rightarrow> bytes \<Rightarrow> hci_call list option" where
  "btsnd_hcic_rem_oob_neg_reply buf bd_addr =
     send_cmd buf LOCAL_BR_EDR_CONTROLLER_ID (HCIC_PREAMBLE_SIZE + HCIC_PARAM_SIZE_REM_OOB_NEG_REPLY)
       (concat
        [UINT16_TO_STREAM HCI_REM_OOB_DATA_REQ_NEG_REPLY,
         UINT8_TO_STREAM (of_nat HCIC_PARAM_SIZE_REM_OOB_NEG_REPLY), BDADDR_TO_STREAM bd_addr])"

definition btsnd_hcic_read_inq_tx_power :: "bytes option \<Rightarrow> hci_call list option" where
  "btsnd_hcic_read_inq_tx_power buf =
     send_cmd buf LOCAL_BR_EDR_CONTROLLER_ID (HCIC_PREAMBLE_SIZE + HCIC_PARAM_SIZE_R_TX_POWER)
       (concat
        [UINT16_TO_STREAM HCI_READ_INQ_TX_POWER_LEVEL,
         UINT8_TO_STREAM (of_nat HCIC_PARAM_SIZE_R_TX_POWER)])"

definition btsnd_hcic_write_inq_tx_power :: "bytes option \<Rightarrow> u8 \<Rightarrow> hci_call list option" where
  "btsnd_hcic_write_inq_tx_power buf level =
     send_cmd buf LOCAL_BR_EDR_CONTROLLER_ID (HCIC_PREAMBLE_SIZE + HCIC_PARAM_SIZE_W_TX_POWER)
       (concat
        [UINT16_TO_STREAM HCI_WRITE_INQ_TX_POWER_LEVEL,
         UINT8_TO_STREAM (of_nat HCIC_PARAM_SIZE_W_TX_POWER), INT8_TO_STREAM level])"

definition btsnd_hcic_write_default_erroneous_data_rpt :: "bytes option \<Rightarrow> u8 \<Rightarrow> hci_call list option" where
  "btsnd_hcic_write_default_erroneous_data_rpt buf flag =
     send_cmd buf LOCAL_BR_EDR_CONTROLLER_ID (HCIC_PREAMBLE_SIZE + HCIC_PARAM_SIZE_W_ERR_DATA_RPT)
       (concat
        [UINT16_TO_STREAM HCI_WRITE_ERRONEOUS_DATA_RPT,
         UINT8_TO_STREAM (of_nat HCIC_PARAM_SIZE_W_ERR_DATA_RPT), UINT8_TO_STREAM flag])"

definition btsnd_hcic_send_keypress_notif :: "bytes option \<Rightarrow> bytes \<Rightarrow> u8 \<Rightarrow> hci_call list option" where
  "btsnd_hcic_send_keypress_notif buf bd_addr notif =
     send_cmd buf LOCAL_BR_EDR_CONTROLLER_ID (HCIC_PREAMBLE_SIZE + HCIC_PARAM_SIZE_SEND_KEYPRESS_NOTIF)
       (concat
        [UINT16_TO_STREAM HCI_SEND_KEYPRESS_NOTIF,
         UINT8_TO_STREAM (of_nat HCIC_PARAM_SIZE_SEND_KEYPRESS_NOTIF), BDADDR_TO_STREAM bd_addr,
         UINT8_TO_STREAM notif])"

definition btsnd_hcic_enhanced_flush :: "bytes option \<Rightarrow> u16 \<Rightarrow> u8 \<Rightarrow> hci_call list option" where
  "btsnd_hcic_enhanced_flush buf handle packet_type =
     send_cmd buf LOCAL_BR_EDR_CONTROLLER_ID (HCIC_PREAMBLE_SIZE + HCIC_PARAM_SIZE_ENHANCED_FLUSH)
       (concat
        [UINT16_TO_STREAM HCI_ENHANCED_FLUSH,
         UINT8_TO_STREAM (of_nat HCIC_PARAM_SIZE_ENHANCED_FLUSH), UINT16_TO_STREAM handle,
         UINT8_TO_STREAM packet_type])"

definition btsnd_hcic_refresh_encryption_key :: "bytes option \<Rightarrow> u16 \<Rightarrow> hci_call list option" where
  "btsnd_hcic_refresh_encryption_key buf handle =
     send_cmd buf LOCAL_BR_EDR_CONTROLLER_ID (HCIC_PREAMBLE_SIZE + HCIC_PARAM_SIZE_CMD_HANDLE)
       (concat
        [UINT16_TO_STREAM HCI_REFRESH_ENCRYPTION_KEY,
         UINT8_TO_STREAM (of_nat HCIC_PARAM_SIZE_CMD_HANDLE), UINT16_TO_STREAM handle])"

definition btsnd_hcic_read_local_ver :: "bytes option \<Rightarrow> u8 \<Rightarrow> hci_call list option" where
  "btsnd_hcic_read_local_ver buf local_controller_id =
     send_cmd buf local_controller_id (HCIC_PREAMBLE_SIZE + HCIC_PARAM_SIZE_READ_CMD)
       (concat
        [UINT16_TO_STREAM HCI_READ_LOCAL_VERSION_INFO,
         UINT8_TO_STREAM (of_nat HCIC_PARAM_SIZE_READ_CMD)])"

definition btsnd_hcic_read_local_supported_cmds :: "bytes option \<Rightarrow> u8 \<Rightarrow> hci_call list option" where
  "btsnd_hcic_read_local_supported_cmds buf local_controller_id =
     send_cmd buf local_controller_id (HCIC_PREAMBLE_SIZE + HCIC_PARAM_SIZE_READ_CMD)
       (concat
        [UINT16_TO_STREAM HCI_READ_LOCAL_SUPPORTED_CMDS,
         UINT8_TO_STREAM (of_nat HCIC_PARAM_SIZE_READ_CMD)])"

definition btsnd_hcic_read_local_features :: "bytes option \<Rightarrow> hci_call list option" where
  "btsnd_hcic_read_local_features buf =
     send_cmd buf LOCAL_BR_EDR_CONTROLLER_ID (HCIC_PREAMBLE_SIZE + HCIC_PARAM_SIZE_READ_CMD)
       (concat
        [UINT16_TO_STREAM HCI_READ_LOCAL_FEATURES,
         UINT8_TO_STREAM (of_nat HCIC_PARAM_SIZE_READ_CMD)])"

definition btsnd_hcic_read_local_ext_features :: "bytes option \<Rightarrow> u8 \<Rightarrow> hci_call list option" where
  "btsnd_hcic_read_local_ext_features buf page_num =
     send_cmd buf LOCAL_BR_EDR_CONTROLLER_ID (HCIC_PREAMBLE_SIZE + HCIC_PARAM_SIZE_LOCAL_EXT_FEATURES)
       (concat
        [UINT16_TO_STREAM HCI_READ_LOCAL_EXT_FEATURES,
         UINT8_TO_STREAM (of_nat HCIC_PARAM_SIZE_LOCAL_EXT_FEATURES), UINT8_TO_STREAM page_num])"

definition btsnd_hcic_read_buffer_size :: "bytes option \<Rightarrow> hci_call list option" where
  "btsnd_hcic_read_buffer_size buf =
     send_cmd buf LOCAL_BR_EDR_CONTROLLER_ID (HCIC_PREAMBLE_SIZE + HCIC_PARAM_SIZE_READ_CMD)
       (concat
        [UINT16_TO_STREAM HCI_READ_BUFFER_SIZE,
         UINT8_TO_STREAM (of_nat HCIC_PARAM_SIZE_READ_CMD)])"

definition btsnd_hcic_read_country_code :: "bytes option \<Rightarrow> hci_call list option" where
  "btsnd_hcic_read_country_code buf =
     send_cmd buf LOCAL_BR_EDR_CONTROLLER_ID (HCIC_PREAMBLE_SIZE + HCIC_PARAM_SIZE_READ_CMD)
       (concat
        [UINT16_TO_STREAM HCI_READ_COUNTRY_CODE,
         UINT8_TO_STREAM (of_nat HCIC_PARAM_SIZE_READ_CMD)])"

definition btsnd_hcic_read_bd_addr :: "bytes option \<Rightarrow> hci_call list option" where
  "btsnd_hcic_read_bd_addr buf =
     send_cmd buf LOCAL_BR_EDR_CONTROLLER_ID (HCIC_PREAMBLE_SIZE + HCIC_PARAM_SIZE_READ_CMD)
       (concat
        [UINT16_TO_STREAM HCI_READ_BD_ADDR, UINT8_TO_STREAM (of_nat HCIC_PARAM_SIZE_READ_CMD)])"

definition btsnd_hcic_read_fail_contact_count :: "bytes option \<Rightarrow> u8 \<Rightarrow> u16 \<Rightarrow> hci_call list option" where
  "btsnd_hcic_read_fail_contact_count buf local_controller_id handle =
     send_cmd buf local_controller_id (HCIC_PREAMBLE_SIZE + HCIC_PARAM_SIZE_CMD_HANDLE)
       (concat
        [UINT16_TO_STREAM HCI_READ_FAILED_CONTACT_COUNT,
         UINT8_TO_STREAM (of_nat HCIC_PARAM_SIZE_CMD_HANDLE), UINT16_TO_STREAM handle])"

definition btsnd_hcic_reset_fail_contact_count :: "bytes option \<Rightarrow> u8 \<Rightarrow> u16 \<Rightarrow> hci_call list option" where
  "btsnd_hcic_reset_fail_contact_count buf local_controller_id handle =
     send_cmd buf local_controller_id (HCIC_PREAMBLE_SIZE + HCIC_PARAM_SIZE_CMD_HANDLE)
       (concat
        [UINT16_TO_STREAM HCI_RESET_FAILED_CONTACT_COUNT,
         UINT8_TO_STREAM (of_nat HCIC_PARAM_SIZE_CMD_HANDLE), UINT16_TO_STREAM handle])"

definition btsnd_hcic_get_link_quality :: "bytes option \<Rightarrow> u16 \<Rightarrow> hci_call list option" where
  "btsnd_hcic_get_link_quality buf handle =
     send_cmd buf LOCAL_BR_EDR_CONTROLLER_ID (HCIC_PREAMBLE_SIZE + HCIC_PARAM_SIZE_CMD_HANDLE)
       (concat
        [UINT16_TO_STREAM HCI_GET_LINK_QUALITY,
         UINT8_TO_STREAM (of_nat HCIC_PARAM_SIZE_CMD_HANDLE), UINT16_TO_STREAM handle])"

definition btsnd_hcic_read_rssi :: "bytes option \<Rightarrow> u16 \<Rightarrow> hci_call list option" where
  "btsnd_hcic_read_rssi buf handle =
     send_cmd buf LOCAL_BR_EDR_CONTROLLER_ID (HCIC_PREAMBLE_SIZE + HCIC_PARAM_SIZE_CMD_HANDLE)
       (concat
        [UINT16_TO_STREAM HCI_READ_RSSI, UINT8_TO_STREAM (of_nat HCIC_PARAM_SIZE_CMD_HANDLE),
         UINT16_TO_STREAM handle])"

definition btsnd_hcic_read_loopback_mode :: "bytes option \<Rightarrow> hci_call list option" where
  "btsnd_hcic_read_loopback_mode buf =
     send_cmd buf LOCAL_BR_EDR_CONTROLLER_ID (HCIC_PREAMBLE_SIZE + HCIC_PARAM_SIZE_READ_CMD)
       (concat
        [UINT16_TO_STREAM HCI_READ_LOOPBACK_MODE,
         UINT8_TO_STREAM (of_nat HCIC_PARAM_SIZE_READ_CMD)])"

definition btsnd_hcic_write_loopback_mode :: "bytes option \<Rightarrow> u8 \<Rightarrow> hci_call list option" where
  "btsnd_hcic_write_loopback_mode buf mode =
     send_cmd buf LOCAL_BR_EDR_CONTROLLER_ID (HCIC_PREAMBLE_SIZE + HCIC_PARAM_SIZE_WRITE_PARAM1)
       (concat
        [UINT16_TO_STREAM HCI_WRITE_LOOPBACK_MODE,
         UINT8_TO_STREAM (of_nat HCIC_PARAM_SIZE_WRITE_PARAM1), UINT8_TO_STREAM mode])"

definition btsnd_hcic_enable_test_mode :: "bytes option \<Rightarrow> hci_call list option" where
  "btsnd_hcic_enable_test_mode buf =
     send_cmd buf LOCAL_BR_EDR_CONTROLLER_ID (HCIC_PREAMBLE_SIZE + HCIC_PARAM_SIZE_READ_CMD)
       (concat
        [UINT16_TO_STREAM HCI_ENABLE_DEV_UNDER_TEST_MODE,
         UINT8_TO_STREAM (of_nat HCIC_PARAM_SIZE_READ_CMD)])"

definition btsnd_hcic_write_afh_channel_assessment_mode :: "bytes option \<Rightarrow> u8 \<Rightarrow> hci_call list option" where
  "btsnd_hcic_write_afh_channel_assessment_mode buf mode =
     send_cmd buf LOCAL_BR_EDR_CONTROLLER_ID (HCIC_PREAMBLE_SIZE + HCIC_PARAM_SIZE_WRITE_PARAM1)
       (concat
        [UINT16_TO_STREAM HCI_WRITE_AFH_ASSESSMENT_MODE,
         UINT8_TO_STREAM (of_nat HCIC_PARAM_SIZE_WRITE_PARAM1), UINT8_TO_STREAM mode])"

definition btsnd_hcic_read_afh_channel_assessment_mode :: "bytes option \<Rightarrow> hci_call list option" where
  "btsnd_hcic_read_afh_channel_assessment_mode buf =
     send_cmd buf LOCAL_BR_EDR_CONTROLLER_ID (HCIC_PREAMBLE_SIZE + HCIC_PARAM_SIZE_READ_CMD)
       (concat
        [UINT16_TO_STREAM HCI_READ_AFH_ASSESSMENT_MODE,
         UINT8_TO_STREAM (of_nat HCIC_PARAM_SIZE_READ_CMD)])"

definition clear_channel :: "nat \<Rightarrow> bytes \<Rightarrow> bytes" where
  "clear_channel i channels =
     channels[i div 8 := (channels ! (i div 8)) AND NOT (push_bit (i mod 8) 1)]"

definition afh_channels :: "u8 \<Rightarrow> u8 \<Rightarrow> bytes" where
  "afh_channels first_chnl last_chnl =
     (let channels = replicate 9 0xFF @ [0x7F] in
      if first_chnl \<le> last_chnl \<and> last_chnl \<le> 78
      then fold clear_channel [unat first_chnl..<Suc (unat last_chnl)] channels else channels)"

definition btsnd_hcic_set_afh_channels :: "bytes option \<Rightarrow> u8 \<Rightarrow> u8 \<Rightarrow> hci_call list option" where
  "btsnd_hcic_set_afh_channels buf first_chnl last_chnl =
     send_cmd buf LOCAL_BR_EDR_CONTROLLER_ID (HCIC_PREAMBLE_SIZE + HCIC_PARAM_SIZE_SET_AFH_CHANNELS)
       (concat
        [UINT16_TO_STREAM HCI_SET_AFH_CHANNELS, UINT8_TO_STREAM (of_nat HCIC_PARAM_SIZE_SET_AFH_CHANNELS),
         ARRAY_TO_STREAM (afh_channels first_chnl last_chnl) 10])"

definition btsnd_hcic_set_afh_host_channel_class :: "bytes option \<Rightarrow> bytes \<Rightarrow> hci_call list option" where
  "btsnd_hcic_set_afh_host_channel_class buf p_afhchannelmap =
     send_cmd buf LOCAL_BR_EDR_CONTROLLER_ID (HCIC_PREAMBLE_SIZE + HCIC_PARAM_SIZE_SET_AFH_CHANNELS)
       (concat
        [UINT16_TO_STREAM HCI_SET_AFH_CHANNELS, UINT8_TO_STREAM (of_nat HCIC_PARAM_SIZE_SET_AFH_CHANNELS),
         REVERSE_ARRAY_TO_STREAM p_afhchannelmap 10])"

definition btsnd_hcic_read_afh_channel_map :: "bytes option \<Rightarrow> u16 \<Rightarrow> hci_call list option" where
  "btsnd_hcic_read_afh_channel_map buf handle =
     send_cmd buf LOCAL_BR_EDR_CONTROLLER_ID (HCIC_PREAMBLE_SIZE + HCIC_PARAM_SIZE_CMD_HANDLE)
       (concat
        [UINT16_TO_STREAM HCI_READ_AFH_CH_MAP,
         UINT8_TO_STREAM (of_nat HCIC_PARAM_SIZE_CMD_HANDLE), UINT16_TO_STREAM handle])"

definition btsnd_hcic_read_clock :: "bytes option \<Rightarrow> u16 \<Rightarrow> u8 \<Rightarrow> hci_call list option" where
  "btsnd_hcic_read_clock buf handle which_clock =
     send_cmd buf LOCAL_BR_EDR_CONTROLLER_ID (HCIC_PREAMBLE_SIZE + HCIC_PARAM_SIZE_READ_CLOCK)
       (concat
        [UINT16_TO_STREAM HCI_READ_CLOCK, UINT8_TO_STREAM (of_nat HCIC_PARAM_SIZE_READ_CLOCK),
         UINT16_TO_STREAM handle, UINT8_TO_STREAM which_clock])"

definition btsnd_hcic_read_inqscan_type :: "bytes option \<Rightarrow> hci_call list option" where
  "btsnd_hcic_read_inqscan_type buf =
     send_cmd buf LOCAL_BR_EDR_CONTROLLER_ID (HCIC_PREAMBLE_SIZE + HCIC_PARAM_SIZE_READ_CMD)
       (concat
        [UINT16_TO_STREAM HCI_READ_INQSCAN_TYPE,
         UINT8_TO_STREAM (of_nat HCIC_PARAM_SIZE_READ_CMD)])"

definition btsnd_hcic_write_inqscan_type :: "bytes option \<Rightarrow> u8 \<Rightarrow> hci_call list option" where
  "btsnd_hcic_write_inqscan_type buf type =
     send_cmd buf LOCAL_BR_EDR_CONTROLLER_ID (HCIC_PREAMBLE_SIZE + HCIC_PARAM_SIZE_WRITE_PARAM1)
       (concat
        [UINT16_TO_STREAM HCI_WRITE_INQSCAN_TYPE,
         UINT8_TO_STREAM (of_nat HCIC_PARAM_SIZE_WRITE_PARAM1), UINT8_TO_STREAM type])"

definition btsnd_hcic_read_inquiry_mode :: "bytes option \<Rightarrow> hci_call list option" where
  "btsnd_hcic_read_inquiry_mode buf =
     send_cmd buf LOCAL_BR_EDR_CONTROLLER_ID (HCIC_PREAMBLE_SIZE + HCIC_PARAM_SIZE_READ_CMD)
       (concat
        [UINT16_TO_STREAM HCI_READ_INQUIRY_MODE,
         UINT8_TO_STREAM (of_nat HCIC_PARAM_SIZE_READ_CMD)])"

definition btsnd_hcic_write_inquiry_mode :: "bytes option \<Rightarrow> u8 \<Rightarrow> hci_call list option" where
  "btsnd_hcic_write_inquiry_mode buf mode =
     send_cmd buf LOCAL_BR_EDR_CONTROLLER_ID (HCIC_PREAMBLE_SIZE + HCIC_PARAM_SIZE_WRITE_PARAM1)
       (concat
        [UINT16_TO_STREAM HCI_WRITE_INQUIRY_MODE,
         UINT8_TO_STREAM (of_nat HCIC_PARAM_SIZE_WRITE_PARAM1), UINT8_TO_STREAM mode])"

definition btsnd_hcic_read_pagescan_type :: "bytes option \<Rightarrow> hci_call list option" where
  "btsnd_hcic_read_pagescan_type buf =
     send_cmd buf LOCAL_BR_EDR_CONTROLLER_ID (HCIC_PREAMBLE_SIZE + HCIC_PARAM_SIZE_READ_CMD)
       (concat
        [UINT16_TO_STREAM HCI_READ_PAGESCAN_TYPE,
         UINT8_TO_STREAM (of_nat HCIC_PARAM_SIZE_READ_CMD)])"

definition btsnd_hcic_write_pagescan_type :: "bytes option \<Rightarrow> u8 \<Rightarrow> hci_call list option" where
  "btsnd_hcic_write_pagescan_type buf type =
     send_cmd buf LOCAL_BR_EDR_CONTROLLER_ID (HCIC_PREAMBLE_SIZE + HCIC_PARAM_SIZE_WRITE_PARAM1)
       (concat
        [UINT16_TO_STREAM HCI_WRITE_PAGESCAN_TYPE,
         UINT8_TO_STREAM (of_nat HCIC_PARAM_SIZE_WRITE_PARAM1), UINT8_TO_STREAM type])"

text \<open>Vendor commands keep the callback pointer in front of the packet.\<close>

definition btsnd_hcic_vendor_spec_cmd :: "bytes \<Rightarrow> u16 \<Rightarrow> u8 \<Rightarrow> bytes \<Rightarrow> u32 \<Rightarrow> hci_call list" where
  "btsnd_hcic_vendor_spec_cmd mem opcode len p_data p_cmd_cplt_cback =
     [Btu_hcif_send_cmd LOCAL_BR_EDR_CONTROLLER_ID
        (cmd_buf (HCIC_PREAMBLE_SIZE + unat len) SIZEOF_PTR
          (concat [UINT32_TO_STREAM p_cmd_cplt_cback, UINT16_TO_STREAM (HCI_GRP_VENDOR_SPECIFIC OR opcode),
             UINT8_TO_STREAM len, ARRAY_TO_STREAM p_data (unat len)]) mem)]"

definition btsnd_hcic_data :: "bt_hdr \<Rightarrow> u16 \<Rightarrow> u16 \<Rightarrow> u8 \<Rightarrow> u8 \<Rightarrow> hci_call list" where
  "btsnd_hcic_data p_buf len handle boundary broadcast =
     (let offset = (hdr_offset p_buf + 65532) mod 65536;
          w = UINT16_TO_STREAM (handle OR push_bit 12 (ucast (boundary AND 3)) OR
                push_bit 14 (ucast (broadcast AND 3))) @ UINT16_TO_STREAM len
      in [Hci_acl_data_to_lower
            \<lparr>hdr_len = (hdr_len p_buf + 4) mod 65536, hdr_offset = offset,
             hdr_data = take offset (hdr_data p_buf) @ w @ drop (offset + 4) (hdr_data p_buf)\<rparr>])"

definition btsnd_hcic_nop :: "bytes option \<Rightarrow> hci_call list option" where
  "btsnd_hcic_nop buf =
     send_cmd buf LOCAL_BR_EDR_CONTROLLER_ID (HCIC_PREAMBLE_SIZE + HCIC_PARAM_SIZE_READ_CMD)
       (concat
        [UINT16_TO_STREAM HCI_COMMAND_NONE, UINT8_TO_STREAM (of_nat HCIC_PARAM_SIZE_READ_CMD)])"

section \<open>Properties\<close>

lemma cmd_ok_reset: "cmd_ok HCI_RESET (\<lambda>buf. btsnd_hcic_reset buf local_controller_id)"
  by (rule cmd_okI [where ps = "[]" and len = 3])
    (auto simp: btsnd_hcic_reset_def send_cmd_def hci_packet_def hci_sizes)

lemma write_ext_inquiry_response_packet:
  "\<exists>b. btsnd_hcic_write_ext_inquiry_response mem fec_req = [Btu_hcif_send_cmd LOCAL_BR_EDR_CONTROLLER_ID b] \<and>
     hdr_len b = 244 \<and> packet b = UINT16_TO_STREAM HCI_WRITE_EXT_INQ_RESPONSE @ [241, fec_req] @ take 240 (drop 4 mem)"
  by (simp add: btsnd_hcic_write_ext_inquiry_response_def cmd_buf_def packet_def overwrite_def hci_sizes UINT8_TO_STREAM_def)

text \<open>C13: the commands of fixed size (link control, link policy, controller and baseband, informational,
  status, testing) are well formed: for every argument the packet has the announced opcode, as many
  parameter bytes as its length byte and the \<^verbatim>\<open>BT_HDR\<close> say, and no byte that was not written; without a
  buffer nothing is sent.  The last conjunct is \<open>btsnd_hcic_write_ext_inquiry_response\<close>, whose buffer the
  caller brings: the header, the FEC byte and the caller's 240 bytes are sent.  Not among these
  commands are \<open>btsnd_hcic_change_name\<close>, which sends unwritten bytes; the commands whose form depends on a
  count or length argument (PIN code reply, event filter, stored keys, completed packets, access codes,
  vendor commands); and \<open>btsnd_hcic_data\<close>, which is no command.\<close>

theorem hci_cmds_wellformed:
  "(\<forall>inq_lap duration response_cnt. cmd_ok HCI_INQUIRY (\<lambda>buf. btsnd_hcic_inquiry buf inq_lap duration response_cnt)) \<and>
   cmd_ok HCI_INQUIRY_CANCEL (\<lambda>buf. btsnd_hcic_inq_cancel buf) \<and>
   (\<forall>max_period min_period inq_lap duration response_cnt. cmd_ok HCI_PERIODIC_INQUIRY_MODE (\<lambda>buf. btsnd_hcic_per_inq_mode buf max_period min_period inq_lap duration response_cnt)) \<and>
   cmd_ok HCI_EXIT_PERIODIC_INQUIRY_MODE (\<lambda>buf. btsnd_hcic_exit_per_inq buf) \<and>
   (\<forall>handle reason. cmd_ok HCI_DISCONNECT (\<lambda>buf. btsnd_hcic_disconnect buf handle reason)) \<and>
   (\<forall>handle packet_types. cmd_ok HCI_ADD_SCO_CONNECTION (\<lambda>buf. btsnd_hcic_add_SCO_conn buf handle packet_types)) \<and>
   (\<forall>dest. cmd_ok HCI_CREATE_CONNECTION_CANCEL (\<lambda>buf. btsnd_hcic_create_conn_cancel buf dest)) \<and>
   (\<forall>dest role. cmd_ok HCI_ACCEPT_CONNECTION_REQUEST (\<lambda>buf. btsnd_hcic_accept_conn buf dest role)) \<and>
   (\<forall>dest reason. cmd_ok HCI_REJECT_CONNECTION_REQUEST (\<lambda>buf. btsnd_hcic_reject_conn buf dest reason)) \<and>
   (\<forall>bd_addr link_key. cmd_ok HCI_LINK_KEY_REQUEST_REPLY (\<lambda>buf. btsnd_hcic_link_key_req_reply buf bd_addr link_key)) \<and>
   (\<forall>bd_addr. cmd_ok HCI_LINK_KEY_REQUEST_NEG_REPLY (\<lambda>buf. btsnd_hcic_link_key_neg_reply buf bd_addr)) \<and>
   (\<forall>bd_addr. cmd_ok HCI_PIN_CODE_REQUEST_NEG_REPLY (\<lambda>buf. btsnd_hcic_pin_code_neg_reply buf bd_addr)) \<and>
   (\<forall>handle packet_types. cmd_ok HCI_CHANGE_CONN_PACKET_TYPE (\<lambda>buf. btsnd_hcic_change_conn_type buf handle packet_types)) \<and>
   (\<forall>handle. cmd_ok HCI_AUTHENTICATION_REQUESTED (\<lambda>buf. btsnd_hcic_auth_request buf handle)) \<and>
   (\<forall>handle enable. cmd_ok HCI_SET_CONN_ENCRYPTION (\<lambda>buf. btsnd_hcic_set_conn_encrypt buf handle enable)) \<and>
   (\<forall>handle. cmd_ok HCI_CHANGE_CONN_LINK_KEY (\<lambda>buf. btsnd_hcic_change_link_key buf handle)) \<and>
   (\<forall>key_flag. cmd_ok HCI_MASTER_LINK_KEY (\<lambda>buf. btsnd_hcic_master_link_key buf key_flag)) \<and>
   (\<forall>bd_addr. cmd_ok HCI_RMT_NAME_REQUEST_CANCEL (\<lambda>buf. btsnd_hcic_rmt_name_req_cancel buf bd_addr)) \<and>
   (\<forall>handle. cmd_ok HCI_READ_RMT_FEATURES (\<lambda>buf. btsnd_hcic_rmt_features_req buf handle)) \<and>
   (\<forall>handle page_num. cmd_ok HCI_READ_RMT_EXT_FEATURES (\<lambda>buf. btsnd_hcic_rmt_ext_features buf handle page_num)) \<and>
   (\<forall>handle. cmd_ok HCI_READ_RMT_VERSION_INFO (\<lambda>buf. btsnd_hcic_rmt_ver_req buf handle)) \<and>
   (\<forall>handle. cmd_ok HCI_READ_RMT_CLOCK_OFFSET (\<lambda>buf. btsnd_hcic_read_rmt_clk_offset buf handle)) \<and>
   (\<forall>handle. cmd_ok HCI_READ_LMP_HANDLE (\<lambda>buf. btsnd_hcic_read_lmp_handle buf handle)) \<and>
   (\<forall>handle tx_bw rx_bw max_latency voice retrans_effort packet_types. cmd_ok HCI_SETUP_ESCO_CONNECTION (\<lambda>buf. btsnd_hcic_setup_esco_conn buf handle tx_bw rx_bw max_latency voice retrans_effort packet_types)) \<and>
   (\<forall>bd_addr tx_bw rx_bw max_latency content_fmt retrans_effort packet_types. cmd_ok HCI_ACCEPT_ESCO_CONNECTION (\<lambda>buf. btsnd_hcic_accept_esco_conn buf bd_addr tx_bw rx_bw max_latency content_fmt retrans_effort packet_types)) \<and>
   (\<forall>bd_addr reason. cmd_ok HCI_REJECT_ESCO_CONNECTION (\<lambda>buf. btsnd_hcic_reject_esco_conn buf bd_addr reason)) \<and>
   (\<forall>bd_addr capability oob_present auth_req. cmd_ok HCI_IO_CAPABILITY_RESPONSE (\<lambda>buf. btsnd_hcic_io_cap_req_reply buf bd_addr capability oob_present auth_req)) \<and>
   (\<forall>bd_addr err_code. cmd_ok HCI_IO_CAP_REQ_NEG_REPLY (\<lambda>buf. btsnd_hcic_io_cap_req_neg_reply buf bd_addr err_code)) \<and>
   (\<forall>bd_addr value. cmd_ok HCI_USER_PASSKEY_REQ_REPLY (\<lambda>buf. btsnd_hcic_user_passkey_reply buf bd_addr value)) \<and>
   (\<forall>bd_addr. cmd_ok HCI_USER_PASSKEY_REQ_NEG_REPLY (\<lambda>buf. btsnd_hcic_user_passkey_neg_reply buf bd_addr)) \<and>
   (\<forall>bd_addr p_c p_r. cmd_ok HCI_REM_OOB_DATA_REQ_REPLY (\<lambda>buf. btsnd_hcic_rem_oob_reply buf bd_addr p_c p_r)) \<and>
   (\<forall>bd_addr. cmd_ok HCI_REM_OOB_DATA_REQ_NEG_REPLY (\<lambda>buf. btsnd_hcic_rem_oob_neg_reply buf bd_addr)) \<and>
   (\<forall>handle max_hold_period min_hold_period. cmd_ok HCI_HOLD_MODE (\<lambda>buf. btsnd_hcic_hold_mode buf handle max_hold_period min_hold_period)) \<and>
   (\<forall>handle max_sniff_period min_sniff_period sniff_attempt sniff_timeout. cmd_ok HCI_SNIFF_MODE (\<lambda>buf. btsnd_hcic_sniff_mode buf handle max_sniff_period min_sniff_period sniff_attempt sniff_timeout)) \<and>
   (\<forall>handle. cmd_ok HCI_EXIT_SNIFF_MODE (\<lambda>buf. btsnd_hcic_exit_sniff_mode buf handle)) \<and>
   (\<forall>handle beacon_max_interval beacon_min_interval. cmd_ok HCI_PARK_MODE (\<lambda>buf. btsnd_hcic_park_mode buf handle beacon_max_interval beacon_min_interval)) \<and>
   (\<forall>handle. cmd_ok HCI_EXIT_PARK_MODE (\<lambda>buf. btsnd_hcic_exit_park_mode buf handle)) \<and>
   (\<forall>handle flags service_type token_rate peak latency delay_var. cmd_ok HCI_QOS_SETUP (\<lambda>buf. btsnd_hcic_qos_setup buf handle flags service_type token_rate peak latency delay_var)) \<and>
   (\<forall>handle. cmd_ok HCI_ROLE_DISCOVERY (\<lambda>buf. btsnd_hcic_role_discovery buf handle)) \<and>
   (\<forall>bd_addr role. cmd_ok HCI_SWITCH_ROLE (\<lambda>buf. btsnd_hcic_switch_role buf bd_addr role)) \<and>
   (\<forall>handle. cmd_ok HCI_READ_POLICY_SETTINGS (\<lambda>buf. btsnd_hcic_read_policy_set buf handle)) \<and>
   (\<forall>handle settings. cmd_ok HCI_WRITE_POLICY_SETTINGS (\<lambda>buf. btsnd_hcic_write_policy_set buf handle settings)) \<and>
   cmd_ok HCI_READ_DEF_POLICY_SETTINGS (\<lambda>buf. btsnd_hcic_read_def_policy_set buf) \<and>
   (\<forall>settings. cmd_ok HCI_WRITE_DEF_POLICY_SETTINGS (\<lambda>buf. btsnd_hcic_write_def_policy_set buf settings)) \<and>
   (\<forall>handle flags flow_direct service_type token_rate token_bucket_size peak latency. cmd_ok HCI_FLOW_SPECIFICATION (\<lambda>buf. btsnd_hcic_flow_specification buf handle flags flow_direct service_type token_rate token_bucket_size peak latency)) \<and>
   (\<forall>handle max_lat min_remote_lat min_local_lat. cmd_ok HCI_SNIFF_SUB_RATE (\<lambda>buf. btsnd_hcic_sniff_sub_rate buf handle max_lat min_remote_lat min_local_lat)) \<and>
   (\<forall>local_controller_id event_mask. cmd_ok HCI_SET_EVENT_MASK (\<lambda>buf. btsnd_hcic_set_event_mask buf local_controller_id event_mask)) \<and>
   (\<forall>local_controller_id event_mask. cmd_ok HCI_SET_EVENT_MASK_PAGE_2 (\<lambda>buf. btsnd_hcic_set_event_mask_page_2 buf local_controller_id event_mask)) \<and>
   (\<forall>local_controller_id handle. cmd_ok HCI_FLUSH (\<lambda>buf. btsnd_hcic_flush buf local_controller_id handle)) \<and>
   cmd_ok HCI_READ_PIN_TYPE (\<lambda>buf. btsnd_hcic_read_pin_type buf) \<and>
   (\<forall>type. cmd_ok HCI_WRITE_PIN_TYPE (\<lambda>buf. btsnd_hcic_write_pin_type buf type)) \<and>
   cmd_ok HCI_CREATE_NEW_UNIT_KEY (\<lambda>buf. btsnd_hcic_new_unit_key buf) \<and>
   (\<forall>bd_addr read_all_flag. cmd_ok HCI_READ_STORED_LINK_KEY (\<lambda>buf. btsnd_hcic_read_stored_key buf bd_addr read_all_flag)) \<and>
   (\<forall>bd_addr delete_all_flag. cmd_ok HCI_DELETE_STORED_LINK_KEY (\<lambda>buf. btsnd_hcic_delete_stored_key buf bd_addr delete_all_flag)) \<and>
   cmd_ok HCI_READ_LOCAL_NAME (\<lambda>buf. btsnd_hcic_read_name buf) \<and>
   (\<forall>local_controller_id. cmd_ok HCI_READ_CONN_ACCEPT_TOUT (\<lambda>buf. btsnd_hcic_read_conn_acc_tout buf local_controller_id)) \<and>
   (\<forall>local_controller_id timeout. cmd_ok HCI_WRITE_CONN_ACCEPT_TOUT (\<lambda>buf. btsnd_hcic_write_conn_acc_tout buf local_controller_id timeout)) \<and>
   cmd_ok HCI_READ_PAGE_TOUT (\<lambda>buf. btsnd_hcic_read_page_tout buf) \<and>
   (\<forall>timeout. cmd_ok HCI_WRITE_PAGE_TOUT (\<lambda>buf. btsnd_hcic_write_page_tout buf timeout)) \<and>
   cmd_ok HCI_READ_SCAN_ENABLE (\<lambda>buf. btsnd_hcic_read_scan_enable buf) \<and>
   (\<forall>flag. cmd_ok HCI_WRITE_SCAN_ENABLE (\<lambda>buf. btsnd_hcic_write_scan_enable buf flag)) \<and>
   cmd_ok HCI_READ_PAGESCAN_CFG (\<lambda>buf. btsnd_hcic_read_pagescan_cfg buf) \<and>
   (\<forall>interval window. cmd_ok HCI_WRITE_PAGESCAN_CFG (\<lambda>buf. btsnd_hcic_write_pagescan_cfg buf interval window)) \<and>
   cmd_ok HCI_READ_INQUIRYSCAN_CFG (\<lambda>buf. btsnd_hcic_read_inqscan_cfg buf) \<and>
   (\<forall>interval window. cmd_ok HCI_WRITE_INQUIRYSCAN_CFG (\<lambda>buf. btsnd_hcic_write_inqscan_cfg buf interval window)) \<and>
   cmd_ok HCI_READ_AUTHENTICATION_ENABLE (\<lambda>buf. btsnd_hcic_read_auth_enable buf) \<and>
   (\<forall>flag. cmd_ok HCI_WRITE_AUTHENTICATION_ENABLE (\<lambda>buf. btsnd_hcic_write_auth_enable buf flag)) \<and>
   cmd_ok HCI_READ_ENCRYPTION_MODE (\<lambda>buf. btsnd_hcic_read_encr_mode buf) \<and>
   (\<forall>mode. cmd_ok HCI_WRITE_ENCRYPTION_MODE (\<lambda>buf. btsnd_hcic_write_encr_mode buf mode)) \<and>
   cmd_ok HCI_READ_CLASS_OF_DEVICE (\<lambda>buf. btsnd_hcic_read_dev_class buf) \<and>
   (\<forall>dev_class. cmd_ok HCI_WRITE_CLASS_OF_DEVICE (\<lambda>buf. btsnd_hcic_write_dev_class buf dev_class)) \<and>
   cmd_ok HCI_READ_VOICE_SETTINGS (\<lambda>buf. btsnd_hcic_read_voice_settings buf) \<and>
   (\<forall>flags. cmd_ok HCI_WRITE_VOICE_SETTINGS (\<lambda>buf. btsnd_hcic_write_voice_settings buf flags)) \<and>
   (\<forall>handle. cmd_ok HCI_READ_AUTO_FLUSH_TOUT (\<lambda>buf. btsnd_hcic_read_auto_flush_tout buf handle)) \<and>
   (\<forall>handle tout. cmd_ok HCI_WRITE_AUTO_FLUSH_TOUT (\<lambda>buf. btsnd_hcic_write_auto_flush_tout buf handle tout)) \<and>
   cmd_ok HCI_READ_NUM_BCAST_REXMITS (\<lambda>buf. btsnd_hcic_read_num_bcast_xmit buf) \<and>
   (\<forall>num. cmd_ok HCI_WRITE_NUM_BCAST_REXMITS (\<lambda>buf. btsnd_hcic_write_num_bcast_xmit buf num)) \<and>
   cmd_ok HCI_READ_HOLD_MODE_ACTIVITY (\<lambda>buf. btsnd_hcic_read_hold_mode_act buf) \<and>
   (\<forall>flags. cmd_ok HCI_WRITE_HOLD_MODE_ACTIVITY (\<lambda>buf. btsnd_hcic_write_hold_mode_act buf flags)) \<and>
   (\<forall>handle type. cmd_ok HCI_READ_TRANSMIT_POWER_LEVEL (\<lambda>buf. btsnd_hcic_read_tx_power buf handle type)) \<and>
   cmd_ok HCI_READ_SCO_FLOW_CTRL_ENABLE (\<lambda>buf. btsnd_hcic_read_sco_flow_enable buf) \<and>
   (\<forall>flag. cmd_ok HCI_WRITE_SCO_FLOW_CTRL_ENABLE (\<lambda>buf. btsnd_hcic_write_sco_flow_enable buf flag)) \<and>
   (\<forall>value. cmd_ok HCI_SET_HC_TO_HOST_FLOW_CTRL (\<lambda>buf. btsnd_hcic_set_host_flow_ctrl buf value)) \<and>
   (\<forall>acl_len sco_len acl_num sco_num. cmd_ok HCI_HOST_BUFFER_SIZE (\<lambda>buf. btsnd_hcic_set_host_buf_size buf acl_len sco_len acl_num sco_num)) \<and>
   (\<forall>local_controller_id handle. cmd_ok HCI_READ_LINK_SUPER_TOUT (\<lambda>buf. btsnd_hcic_read_link_super_tout buf local_controller_id handle)) \<and>
   (\<forall>local_controller_id handle timeout. cmd_ok HCI_WRITE_LINK_SUPER_TOUT (\<lambda>buf. btsnd_hcic_write_link_super_tout buf local_controller_id handle timeout)) \<and>
   cmd_ok HCI_READ_NUM_SUPPORTED_IAC (\<lambda>buf. btsnd_hcic_read_max_iac buf) \<and>
   cmd_ok HCI_READ_CURRENT_IAC_LAP (\<lambda>buf. btsnd_hcic_read_cur_iac_lap buf) \<and>
   cmd_ok HCI_READ_PAGESCAN_PERIOD_MODE (\<lambda>buf. btsnd_hcic_read_page_scan_per buf) \<and>
   (\<forall>mode. cmd_ok HCI_WRITE_PAGESCAN_PERIOD_MODE (\<lambda>buf. btsnd_hcic_write_page_scan_per buf mode)) \<and>
   cmd_ok HCI_READ_PAGESCAN_MODE (\<lambda>buf. btsnd_hcic_read_page_scan_mode buf) \<and>
   (\<forall>mode. cmd_ok HCI_WRITE_PAGESCAN_MODE (\<lambda>buf. btsnd_hcic_write_page_scan_mode buf mode)) \<and>
   cmd_ok HCI_READ_EXT_INQ_RESPONSE (\<lambda>buf. btsnd_hcic_read_ext_inquiry_response buf) \<and>
   (\<forall>mode. cmd_ok HCI_WRITE_SIMPLE_PAIRING_MODE (\<lambda>buf. btsnd_hcic_write_simple_pairing_mode buf mode)) \<and>
   cmd_ok HCI_READ_SIMPLE_PAIRING_MODE (\<lambda>buf. btsnd_hcic_read_simple_pairing_mode buf) \<and>
   cmd_ok HCI_READ_LOCAL_OOB_DATA (\<lambda>buf. btsnd_hcic_read_local_oob_data buf) \<and>
   cmd_ok HCI_READ_INQ_TX_POWER_LEVEL (\<lambda>buf. btsnd_hcic_read_inq_tx_power buf) \<and>
   (\<forall>level. cmd_ok HCI_WRITE_INQ_TX_POWER_LEVEL (\<lambda>buf. btsnd_hcic_write_inq_tx_power buf level)) \<and>
   (\<forall>flag. cmd_ok HCI_WRITE_ERRONEOUS_DATA_RPT (\<lambda>buf. btsnd_hcic_write_default_erroneous_data_rpt buf flag)) \<and>
   (\<forall>bd_addr notif. cmd_ok HCI_SEND_KEYPRESS_NOTIF (\<lambda>buf. btsnd_hcic_send_keypress_notif buf bd_addr notif)) \<and>
   (\<forall>handle packet_type. cmd_ok HCI_ENHANCED_FLUSH (\<lambda>buf. btsnd_hcic_enhanced_flush buf handle packet_type)) \<and>
   (\<forall>handle. cmd_ok HCI_REFRESH_ENCRYPTION_KEY (\<lambda>buf. btsnd_hcic_refresh_encryption_key buf handle)) \<and>
   (\<forall>mode. cmd_ok HCI_WRITE_AFH_ASSESSMENT_MODE (\<lambda>buf. btsnd_hcic_write_afh_channel_assessment_mode buf mode)) \<and>
   cmd_ok HCI_READ_AFH_ASSESSMENT_MODE (\<lambda>buf. btsnd_hcic_read_afh_channel_assessment_mode buf) \<and>
   cmd_ok HCI_READ_INQSCAN_TYPE (\<lambda>buf. btsnd_hcic_read_inqscan_type buf) \<and>
   (\<forall>type. cmd_ok HCI_WRITE_INQSCAN_TYPE (\<lambda>buf. btsnd_hcic_write_inqscan_type buf type)) \<and>
   cmd_ok HCI_READ_INQUIRY_MODE (\<lambda>buf. btsnd_hcic_read_inquiry_mode buf) \<and>
   (\<forall>mode. cmd_ok HCI_WRITE_INQUIRY_MODE (\<lambda>buf. btsnd_hcic_write_inquiry_mode buf mode)) \<and>
   cmd_ok HCI_READ_PAGESCAN_TYPE (\<lambda>buf. btsnd_hcic_read_pagescan_type buf) \<and>
   (\<forall>type. cmd_ok HCI_WRITE_PAGESCAN_TYPE (\<lambda>buf. btsnd_hcic_write_pagescan_type buf type)) \<and>
   cmd_ok HCI_COMMAND_NONE (\<lambda>buf. btsnd_hcic_nop buf) \<and>
   (\<forall>local_controller_id. cmd_ok HCI_READ_LOCAL_VERSION_INFO (\<lambda>buf. btsnd_hcic_read_local_ver buf local_controller_id)) \<and>
   (\<forall>local_controller_id. cmd_ok HCI_READ_LOCAL_SUPPORTED_CMDS (\<lambda>buf. btsnd_hcic_read_local_supported_cmds buf local_controller_id)) \<and>
   cmd_ok HCI_READ_LOCAL_FEATURES (\<lambda>buf. btsnd_hcic_read_local_features buf) \<and>
   (\<forall>page_num. cmd_ok HCI_READ_LOCAL_EXT_FEATURES (\<lambda>buf. btsnd_hcic_read_local_ext_features buf page_num)) \<and>
   cmd_ok HCI_READ_BUFFER_SIZE (\<lambda>buf. btsnd_hcic_read_buffer_size buf) \<and>
   cmd_ok HCI_READ_COUNTRY_CODE (\<lambda>buf. btsnd_hcic_read_country_code buf) \<and>
   cmd_ok HCI_READ_BD_ADDR (\<lambda>buf. btsnd_hcic_read_bd_addr buf) \<and>
   (\<forall>local_controller_id handle. cmd_ok HCI_READ_FAILED_CONTACT_COUNT (\<lambda>buf. btsnd_hcic_read_fail_contact_count buf local_controller_id handle)) \<and>
   (\<forall>local_controller_id handle. cmd_ok HCI_RESET_FAILED_CONTACT_COUNT (\<lambda>buf. btsnd_hcic_reset_fail_contact_count buf local_controller_id handle)) \<and>
   (\<forall>handle. cmd_ok HCI_GET_LINK_QUALITY (\<lambda>buf. btsnd_hcic_get_link_quality buf handle)) \<and>
   (\<forall>handle. cmd_ok HCI_READ_RSSI (\<lambda>buf. btsnd_hcic_read_rssi buf handle)) \<and>
   (\<forall>handle. cmd_ok HCI_READ_AFH_CH_MAP (\<lambda>buf. btsnd_hcic_read_afh_channel_map buf handle)) \<and>
   (\<forall>handle which_clock. cmd_ok HCI_READ_CLOCK (\<lambda>buf. btsnd_hcic_read_clock buf handle which_clock)) \<and>
   (\<forall>debug_mode. cmd_ok HCI_WRITE_SIMP_PAIR_DEBUG_MODE (\<lambda>buf. btsnd_hcic_write_simp_pair_debug_mode buf debug_mode)) \<and>
   cmd_ok HCI_READ_LOOPBACK_MODE (\<lambda>buf. btsnd_hcic_read_loopback_mode buf) \<and>
   (\<forall>mode. cmd_ok HCI_WRITE_LOOPBACK_MODE (\<lambda>buf. btsnd_hcic_write_loopback_mode buf mode)) \<and>
   cmd_ok HCI_ENABLE_DEV_UNDER_TEST_MODE (\<lambda>buf. btsnd_hcic_enable_test_mode buf) \<and>
   (\<forall>dest packet_types page_scan_rep_mode page_scan_mode clock_offset allow_switch. cmd_ok HCI_CREATE_CONNECTION (\<lambda>buf. btsnd_hcic_create_conn buf dest packet_types page_scan_rep_mode page_scan_mode clock_offset allow_switch)) \<and>
   (\<forall>bd_addr page_scan_rep_mode page_scan_mode clock_offset. cmd_ok HCI_RMT_NAME_REQUEST (\<lambda>buf. btsnd_hcic_rmt_name_req buf bd_addr page_scan_rep_mode page_scan_mode clock_offset)) \<and>
   (\<forall>bd_addr is_yes. cmd_ok (if is_yes = 0 then HCI_USER_CONF_VALUE_NEG_REPLY else HCI_USER_CONF_REQUEST_REPLY) (\<lambda>buf. btsnd_hcic_user_conf_reply buf bd_addr is_yes)) \<and>
   (\<forall>local_controller_id. cmd_ok HCI_RESET (\<lambda>buf. btsnd_hcic_reset buf local_controller_id)) \<and>
   (\<forall>first_chnl last_chnl. cmd_ok HCI_SET_AFH_CHANNELS (\<lambda>buf. btsnd_hcic_set_afh_channels buf first_chnl last_chnl)) \<and>
   (\<forall>p_afhchannelmap. cmd_ok HCI_SET_AFH_CHANNELS (\<lambda>buf. btsnd_hcic_set_afh_host_channel_class buf p_afhchannelmap)) \<and>
   (\<forall>mem fec_req. \<exists>b. btsnd_hcic_write_ext_inquiry_response mem fec_req = [Btu_hcif_send_cmd LOCAL_BR_EDR_CONTROLLER_ID b] \<and>
      hdr_len b = 244 \<and> packet b = UINT16_TO_STREAM HCI_WRITE_EXT_INQ_RESPONSE @ [241, fec_req] @ take 240 (drop 4 mem))"
  unfolding btsnd_hcic_inquiry_def btsnd_hcic_inq_cancel_def btsnd_hcic_per_inq_mode_def
    btsnd_hcic_exit_per_inq_def btsnd_hcic_disconnect_def btsnd_hcic_add_SCO_conn_def
    btsnd_hcic_create_conn_cancel_def btsnd_hcic_accept_conn_def btsnd_hcic_reject_conn_def
    btsnd_hcic_link_key_req_reply_def btsnd_hcic_link_key_neg_reply_def
    btsnd_hcic_pin_code_neg_reply_def btsnd_hcic_change_conn_type_def btsnd_hcic_auth_request_def
    btsnd_hcic_set_conn_encrypt_def btsnd_hcic_change_link_key_def btsnd_hcic_master_link_key_def
    btsnd_hcic_rmt_name_req_cancel_def btsnd_hcic_rmt_features_req_def
    btsnd_hcic_rmt_ext_features_def btsnd_hcic_rmt_ver_req_def btsnd_hcic_read_rmt_clk_offset_def
    btsnd_hcic_read_lmp_handle_def btsnd_hcic_setup_esco_conn_def btsnd_hcic_accept_esco_conn_def
    btsnd_hcic_reject_esco_conn_def btsnd_hcic_io_cap_req_reply_def
    btsnd_hcic_io_cap_req_neg_reply_def btsnd_hcic_user_passkey_reply_def
    btsnd_hcic_user_passkey_neg_reply_def btsnd_hcic_rem_oob_reply_def
    btsnd_hcic_rem_oob_neg_reply_def btsnd_hcic_hold_mode_def btsnd_hcic_sniff_mode_def
    btsnd_hcic_exit_sniff_mode_def btsnd_hcic_park_mode_def btsnd_hcic_exit_park_mode_def
    btsnd_hcic_qos_setup_def btsnd_hcic_role_discovery_def btsnd_hcic_switch_role_def
    btsnd_hcic_read_policy_set_def btsnd_hcic_write_policy_set_def
    btsnd_hcic_read_def_policy_set_def btsnd_hcic_write_def_policy_set_def
    btsnd_hcic_flow_specification_def btsnd_hcic_sniff_sub_rate_def btsnd_hcic_set_event_mask_def
    btsnd_hcic_set_event_mask_page_2_def btsnd_hcic_flush_def btsnd_hcic_read_pin_type_def
    btsnd_hcic_write_pin_type_def btsnd_hcic_new_unit_key_def btsnd_hcic_read_stored_key_def
    btsnd_hcic_delete_stored_key_def btsnd_hcic_read_name_def btsnd_hcic_read_conn_acc_tout_def
    btsnd_hcic_write_conn_acc_tout_def btsnd_hcic_read_page_tout_def
    btsnd_hcic_write_page_tout_def btsnd_hcic_read_scan_enable_def
    btsnd_hcic_write_scan_enable_def btsnd_hcic_read_pagescan_cfg_def
    btsnd_hcic_write_pagescan_cfg_def btsnd_hcic_read_inqscan_cfg_def
    btsnd_hcic_write_inqscan_cfg_def btsnd_hcic_read_auth_enable_def
    btsnd_hcic_write_auth_enable_def btsnd_hcic_read_encr_mode_def btsnd_hcic_write_encr_mode_def
    btsnd_hcic_read_dev_class_def btsnd_hcic_write_dev_class_def
    btsnd_hcic_read_voice_settings_def btsnd_hcic_write_voice_settings_def
    btsnd_hcic_read_auto_flush_tout_def btsnd_hcic_write_auto_flush_tout_def
    btsnd_hcic_read_num_bcast_xmit_def btsnd_hcic_write_num_bcast_xmit_def
    btsnd_hcic_read_hold_mode_act_def btsnd_hcic_write_hold_mode_act_def
    btsnd_hcic_read_tx_power_def btsnd_hcic_read_sco_flow_enable_def
    btsnd_hcic_write_sco_flow_enable_def btsnd_hcic_set_host_flow_ctrl_def
    btsnd_hcic_set_host_buf_size_def btsnd_hcic_read_link_super_tout_def
    btsnd_hcic_write_link_super_tout_def btsnd_hcic_read_max_iac_def
    btsnd_hcic_read_cur_iac_lap_def btsnd_hcic_read_page_scan_per_def
    btsnd_hcic_write_page_scan_per_def btsnd_hcic_read_page_scan_mode_def
    btsnd_hcic_write_page_scan_mode_def btsnd_hcic_read_ext_inquiry_response_def
    btsnd_hcic_write_simple_pairing_mode_def btsnd_hcic_read_simple_pairing_mode_def
    btsnd_hcic_read_local_oob_data_def btsnd_hcic_read_inq_tx_power_def
    btsnd_hcic_write_inq_tx_power_def btsnd_hcic_write_default_erroneous_data_rpt_def
    btsnd_hcic_send_keypress_notif_def btsnd_hcic_enhanced_flush_def
    btsnd_hcic_refresh_encryption_key_def btsnd_hcic_write_afh_channel_assessment_mode_def
    btsnd_hcic_read_afh_channel_assessment_mode_def btsnd_hcic_read_inqscan_type_def
    btsnd_hcic_write_inqscan_type_def btsnd_hcic_read_inquiry_mode_def
    btsnd_hcic_write_inquiry_mode_def btsnd_hcic_read_pagescan_type_def
    btsnd_hcic_write_pagescan_type_def btsnd_hcic_nop_def btsnd_hcic_read_local_ver_def
    btsnd_hcic_read_local_supported_cmds_def btsnd_hcic_read_local_features_def
    btsnd_hcic_read_local_ext_features_def btsnd_hcic_read_buffer_size_def
    btsnd_hcic_read_country_code_def btsnd_hcic_read_bd_addr_def
    btsnd_hcic_read_fail_contact_count_def btsnd_hcic_reset_fail_contact_count_def
    btsnd_hcic_get_link_quality_def btsnd_hcic_read_rssi_def btsnd_hcic_read_afh_channel_map_def
    btsnd_hcic_read_clock_def btsnd_hcic_write_simp_pair_debug_mode_def
    btsnd_hcic_read_loopback_mode_def btsnd_hcic_write_loopback_mode_def
    btsnd_hcic_enable_test_mode_def btsnd_hcic_create_conn_def btsnd_hcic_rmt_name_req_def
    btsnd_hcic_user_conf_reply_def btsnd_hcic_set_afh_channels_def
    btsnd_hcic_set_afh_host_channel_class_def
  by (intro conjI allI) (simp_all add: hci_sizes cmd_ok_reset write_ext_inquiry_response_packet [simplified])

section \<open>Commands of variable size\<close>

lemma length_concat_const: "(\<And>x. x \<in> set xs \<Longrightarrow> length (f x) = n) \<Longrightarrow> length (concat (map f xs)) = n * length xs"
  by (induction xs) auto

lemma cmd_ok_pin_code_req_reply:
  "unat pin_code_len \<le> PIN_CODE_LEN \<Longrightarrow>
   cmd_ok HCI_PIN_CODE_REQUEST_REPLY (\<lambda>buf. btsnd_hcic_pin_code_req_reply buf bd_addr pin_code_len pin_code)"
  by (simp add: btsnd_hcic_pin_code_req_reply_def hci_sizes)

lemma cmd_ok_write_stored_key:
  assumes "num_keys \<le> HCI_MAX_NUM_OF_LINK_KEYS_PER_CMMD"
  shows "cmd_ok HCI_WRITE_STORED_LINK_KEY (\<lambda>buf. btsnd_hcic_write_stored_key buf num_keys bd_addr link_key)"
proof -
  have "unat num_keys \<le> 11" using assms by (simp add: HCI_MAX_NUM_OF_LINK_KEYS_PER_CMMD_def word_le_nat_alt)
  moreover have "length (concat (map (\<lambda>j. BDADDR_TO_STREAM (bd_addr ! j) @ ARRAY16_TO_STREAM (link_key ! j)) [0..<unat num_keys])) = 22 * unat num_keys"
    by (subst length_concat_const [where n = 22]) auto
  ultimately show ?thesis using assms
    by (simp add: btsnd_hcic_write_stored_key_def Let_def hci_sizes)
qed

lemma cmd_ok_host_num_xmitted_pkts:
  assumes "num_handles \<le> 63"
  shows "cmd_ok HCI_HOST_NUM_PACKETS_DONE (\<lambda>buf. btsnd_hcic_host_num_xmitted_pkts buf num_handles handle num_pkts)"
proof -
  have "unat num_handles \<le> 63" using assms by (simp add: word_le_nat_alt)
  moreover have "length (concat (map (\<lambda>j. UINT16_TO_STREAM (handle ! j) @ UINT16_TO_STREAM (num_pkts ! j)) [0..<unat num_handles])) = 4 * unat num_handles"
    by (subst length_concat_const [where n = 4]) auto
  ultimately show ?thesis
    by (simp add: btsnd_hcic_host_num_xmitted_pkts_def Let_def hci_sizes)
qed

lemma cmd_ok_write_cur_iac_lap:
  assumes "num_cur_iac \<le> 84"
  shows "cmd_ok HCI_WRITE_CURRENT_IAC_LAP (\<lambda>buf. btsnd_hcic_write_cur_iac_lap buf num_cur_iac iac_lap)"
proof -
  have "unat num_cur_iac \<le> 84" using assms by (simp add: word_le_nat_alt)
  moreover have "length (concat (map (\<lambda>i. LAP_TO_STREAM (iac_lap ! i)) [0..<unat num_cur_iac])) = 3 * unat num_cur_iac"
    by (subst length_concat_const [where n = 3]) auto
  ultimately show ?thesis
    by (simp add: btsnd_hcic_write_cur_iac_lap_def Let_def hci_sizes)
qed

lemma cmd_ok_set_event_filter:
  assumes "unat filt_cond_len \<le> 253"
    and "filt_cond_type = HCI_FILTER_COND_DEVICE_CLASS \<or> filt_cond_type = HCI_FILTER_COND_BD_ADDR \<Longrightarrow> 6 \<le> filt_cond_len"
  shows "cmd_ok HCI_SET_EVENT_FILTER (\<lambda>buf. btsnd_hcic_set_event_filter buf filt_type filt_cond_type filt_cond filt_cond_len)"
proof (cases "filt_type = 0")
  case True
  then show ?thesis by (simp add: btsnd_hcic_set_event_filter_def hci_sizes)
next
  case False
  have u: "unat (filt_cond_len - 6) = unat filt_cond_len - 6" "6 \<le> unat filt_cond_len" if "6 \<le> filt_cond_len"
    using that by (auto simp: unat_sub word_le_nat_alt)
  have v: "2 + filt_cond_len = of_nat (2 + unat filt_cond_len)" by simp
  show ?thesis
    unfolding btsnd_hcic_set_event_filter_def v using False assms u
    by (auto simp: hci_sizes simp del: of_nat_add)
qed

text \<open>C15: the commands whose size depends on their arguments are well formed within the limits of the
  command: a PIN of at most 16 bytes, at most 11 stored keys, 63 handles, 84 access codes, an event
  filter long enough for its condition.\<close>

theorem hci_variable_cmds_wellformed:
  "(unat pin_code_len \<le> PIN_CODE_LEN \<longrightarrow>
     cmd_ok HCI_PIN_CODE_REQUEST_REPLY (\<lambda>buf. btsnd_hcic_pin_code_req_reply buf bd_addr pin_code_len pin_code)) \<and>
   (num_keys \<le> HCI_MAX_NUM_OF_LINK_KEYS_PER_CMMD \<longrightarrow>
     cmd_ok HCI_WRITE_STORED_LINK_KEY (\<lambda>buf. btsnd_hcic_write_stored_key buf num_keys bd_addrs link_keys)) \<and>
   (num_handles \<le> 63 \<longrightarrow>
     cmd_ok HCI_HOST_NUM_PACKETS_DONE (\<lambda>buf. btsnd_hcic_host_num_xmitted_pkts buf num_handles handles num_pkts)) \<and>
   (num_cur_iac \<le> 84 \<longrightarrow>
     cmd_ok HCI_WRITE_CURRENT_IAC_LAP (\<lambda>buf. btsnd_hcic_write_cur_iac_lap buf num_cur_iac iac_lap)) \<and>
   (unat filt_cond_len \<le> 253 \<and>
    (filt_cond_type = HCI_FILTER_COND_DEVICE_CLASS \<or> filt_cond_type = HCI_FILTER_COND_BD_ADDR \<longrightarrow> 6 \<le> filt_cond_len) \<longrightarrow>
     cmd_ok HCI_SET_EVENT_FILTER (\<lambda>buf. btsnd_hcic_set_event_filter buf filt_type filt_cond_type filt_cond filt_cond_len))"
  using cmd_ok_pin_code_req_reply cmd_ok_write_stored_key cmd_ok_host_num_xmitted_pkts
    cmd_ok_write_cur_iac_lap cmd_ok_set_event_filter by blast

theorem hci_variable_cmds_wellformed_witness:
  "cmd_ok HCI_PIN_CODE_REQUEST_REPLY (\<lambda>buf. btsnd_hcic_pin_code_req_reply buf [1, 2, 3, 4, 5, 6] 4 [0x31, 0x32, 0x33, 0x34]) \<and>
   cmd_ok HCI_WRITE_STORED_LINK_KEY (\<lambda>buf. btsnd_hcic_write_stored_key buf 1 [[1, 2, 3, 4, 5, 6]] [replicate 16 9]) \<and>
   cmd_ok HCI_HOST_NUM_PACKETS_DONE (\<lambda>buf. btsnd_hcic_host_num_xmitted_pkts buf 2 [1, 2] [3, 4]) \<and>
   cmd_ok HCI_WRITE_CURRENT_IAC_LAP (\<lambda>buf. btsnd_hcic_write_cur_iac_lap buf 1 [[0x9e, 0x8b, 0x33]]) \<and>
   cmd_ok HCI_SET_EVENT_FILTER (\<lambda>buf. btsnd_hcic_set_event_filter buf 1 1 [1, 2, 3, 4, 5, 6] 6)"
  using hci_variable_cmds_wellformed [of 4 "[1, 2, 3, 4, 5, 6]" "[0x31, 0x32, 0x33, 0x34]" 1 "[[1, 2, 3, 4, 5, 6]]"
      "[replicate 16 9]" 2 "[1, 2]" "[3, 4]" 1 "[[0x9e, 0x8b, 0x33]]" 6 1 1 "[1, 2, 3, 4, 5, 6]"]
  by (simp add: PIN_CODE_LEN_def HCI_MAX_NUM_OF_LINK_KEYS_PER_CMMD_def)

text \<open>C19: with more than 11 keys \<open>btsnd_hcic_write_stored_key\<close> never sends a well-formed command: the keys
  are cut to 11 after the lengths have been computed from the larger number.\<close>

theorem write_stored_key_too_many:
  assumes "HCI_MAX_NUM_OF_LINK_KEYS_PER_CMMD < num_keys"
  shows "\<not> cmd_ok opcode (\<lambda>buf. btsnd_hcic_write_stored_key buf num_keys bd_addr link_key)"
proof
  assume "cmd_ok opcode (\<lambda>buf. btsnd_hcic_write_stored_key buf num_keys bd_addr link_key)"
  then obtain params c cs b where
    p: "length params \<le> 255" "btsnd_hcic_write_stored_key (Some (replicate 652 0)) num_keys bd_addr link_key = Some (c # cs)"
      "call_msg c = Some b" "packet b = hci_packet opcode params" "length (packet b) = hdr_len b"
    by (auto simp: cmd_ok_def hci_sizes dest: spec [of _ "replicate 652 0"])
  have "11 < unat num_keys" using assms by (simp add: HCI_MAX_NUM_OF_LINK_KEYS_PER_CMMD_def word_less_nat_alt)
  moreover have "hdr_len b = 4 + unat num_keys * 22"
    using p(2,3) by (auto simp: btsnd_hcic_write_stored_key_def Let_def send_cmd_def cmd_buf_def hci_sizes)
  ultimately show False using p(1,4,5) by simp
qed

theorem write_stored_key_too_many_witness:
  "\<not> cmd_ok HCI_WRITE_STORED_LINK_KEY (\<lambda>buf. btsnd_hcic_write_stored_key buf 12 [] [])"
  using write_stored_key_too_many [of 12 HCI_WRITE_STORED_LINK_KEY "[]" "[]"]
  by (simp add: HCI_MAX_NUM_OF_LINK_KEYS_PER_CMMD_def)

text \<open>C18: \<open>btsnd_hcic_change_name\<close> sends what the buffer held before: behind the name and its terminator the
  248-byte parameter is filled with bytes of the old buffer contents.\<close>

theorem change_name_sends_old_bytes:
  assumes "0 \<in> set name" and "strlen name < 247" and "652 \<le> length mem"
  shows "\<exists>b. btsnd_hcic_change_name (Some mem) name = Some [Btu_hcif_send_cmd LOCAL_BR_EDR_CONTROLLER_ID b] \<and>
    packet b = hci_packet HCI_CHANGE_LOCAL_NAME
      (takeWhile (\<lambda>c. c \<noteq> 0) name @ 0 # take (247 - strlen name) (drop (4 + strlen name) mem))"
proof -
  have c: "ARRAY_TO_STREAM name (strlen name + 1) = takeWhile (\<lambda>c. c \<noteq> 0) name @ [0]"
  proof (rule nth_equalityI)
    have "takeWhile (\<lambda>c. c \<noteq> 0) name \<noteq> name" using assms(1) by (auto simp: takeWhile_eq_all_conv)
    then have "strlen name < length name"
      by (metis strlen_def length_takeWhile_le le_neq_implies_less takeWhile_eq_take take_all order_refl)
    moreover have "name ! strlen name = 0"
      using nth_length_takeWhile [of "\<lambda>c. c \<noteq> 0" name] calculation by (simp add: strlen_def)
    ultimately show "ARRAY_TO_STREAM name (strlen name + 1) ! i = (takeWhile (\<lambda>c. c \<noteq> 0) name @ [0]) ! i"
      if "i < length (ARRAY_TO_STREAM name (strlen name + 1))" for i
      using that takeWhile_nth [of i "\<lambda>c. c \<noteq> 0" name]
      by (cases "i = strlen name") (auto simp: ARRAY_TO_STREAM_def nth_append strlen_def simp del: upt_Suc)
  qed (simp add: strlen_def)
  have four: "4 + x = Suc (Suc (Suc (Suc x)))" for x :: nat by simp
  show ?thesis
    using assms c
    by (simp add: take_Cons' four btsnd_hcic_change_name_def send_cmd_def packet_def cmd_buf_def overwrite_def hci_packet_def
        hci_sizes UINT16_TO_STREAM_def UINT8_TO_STREAM_def strlen_def)
qed

theorem change_name_sends_old_bytes_witness:
  "\<exists>b. btsnd_hcic_change_name (Some (replicate 652 0xAA)) [0x41, 0] = Some [Btu_hcif_send_cmd LOCAL_BR_EDR_CONTROLLER_ID b] \<and>
    packet b = hci_packet HCI_CHANGE_LOCAL_NAME
      (takeWhile (\<lambda>c. c \<noteq> 0) [0x41, 0] @ 0 # take (247 - strlen [0x41, 0]) (drop (4 + strlen [0x41, 0]) (replicate 652 0xAA)))"
  by (rule change_name_sends_old_bytes) (simp_all add: strlen_def)

lemma fold_clear_channel:
  "length cs = 10 \<Longrightarrow> \<forall>i \<in> set is. i < 80 \<Longrightarrow> length (fold clear_channel is cs) = 10 \<and>
   (\<forall>c < 80. bit (fold clear_channel is cs ! (c div 8)) (c mod 8) \<longleftrightarrow> bit (cs ! (c div 8)) (c mod 8) \<and> c \<notin> set is)"
proof (induction "is" arbitrary: cs)
  case (Cons i "is")
  have i: "i div 8 < 10" using Cons.prems by (simp add: less_mult_imp_div_less)
  have len: "length (clear_channel i cs) = 10" using Cons.prems by (simp add: clear_channel_def)
  have b: "bit (clear_channel i cs ! (c div 8)) (c mod 8) \<longleftrightarrow> bit (cs ! (c div 8)) (c mod 8) \<and> c \<noteq> i" for c
  proof (cases "c div 8 = i div 8")
    case True
    then have "c = i \<longleftrightarrow> c mod 8 = i mod 8" by (metis div_mult_mod_eq)
    moreover have "c mod 8 < 8" by simp
    ultimately show ?thesis using True i Cons.prems(1)
      by (auto simp: clear_channel_def bit_simps)
  next
    case False
    then show ?thesis by (auto simp: clear_channel_def)
  qed
  show ?case using Cons.IH [OF len] Cons.prems b by auto
qed simp

lemma bit_full_byte: "k < 8 \<Longrightarrow> bit (0xFF :: u8) k" "k < 8 \<Longrightarrow> bit (0x7F :: u8) k \<longleftrightarrow> k < 7"
proof -
  assume "k < 8"
  then have "k = 0 \<or> k = 1 \<or> k = 2 \<or> k = 3 \<or> k = 4 \<or> k = 5 \<or> k = 6 \<or> k = 7" by arith
  then show "bit (0xFF :: u8) k" "bit (0x7F :: u8) k \<longleftrightarrow> k < 7" by (elim disjE; simp)+
qed

lemma all_channels:
  assumes "c < 80"
  shows "bit ((replicate 9 0xFF @ [0x7F :: u8]) ! (c div 8)) (c mod 8) \<longleftrightarrow> c \<noteq> 79"
proof (cases "c < 72")
  case True
  then show ?thesis using bit_full_byte(1) [of "c mod 8"] by (simp add: nth_append)
next
  case False
  then have "c div 8 = 9" "c mod 8 = c - 72" using assms by presburger+
  then show ?thesis using False assms bit_full_byte(2) [of "c - 72"] by (auto simp: nth_append)
qed

lemma afh_channels_bits:
  assumes "c < 80"
  shows "length (afh_channels first_chnl last_chnl) = 10 \<and>
    (bit (afh_channels first_chnl last_chnl ! (c div 8)) (c mod 8) \<longleftrightarrow>
      c \<noteq> 79 \<and> \<not> (last_chnl \<le> 78 \<and> unat first_chnl \<le> c \<and> c \<le> unat last_chnl))"
proof (cases "first_chnl \<le> last_chnl \<and> last_chnl \<le> 78")
  case True
  let ?is = "[unat first_chnl..<Suc (unat last_chnl)]"
  have "\<forall>i \<in> set ?is. i < 80" using True by (auto simp: word_le_nat_alt)
  from fold_clear_channel [OF _ this, of "replicate 9 0xFF @ [0x7F]"] True assms all_channels [OF assms]
  show ?thesis by (auto simp: afh_channels_def Let_def simp del: upt_Suc)
next
  case False
  then have "\<not> (last_chnl \<le> 78 \<and> unat first_chnl \<le> c \<and> c \<le> unat last_chnl)" by (auto simp: word_le_nat_alt)
  then show ?thesis using False all_channels [OF assms] by (auto simp: afh_channels_def Let_def)
qed

lemma ARRAY_TO_STREAM_all: "length xs = n \<Longrightarrow> ARRAY_TO_STREAM xs n = xs"
  by (auto simp: ARRAY_TO_STREAM_def intro!: nth_equalityI)

text \<open>C20: the packet that \<open>btsnd_hcic_set_afh_channels\<close> sends.  With any buffer it is the set-AFH-channels
  command with a channel map of ten bytes.  For \<open>first \<le> last \<le> 78\<close> the bit of channel \<open>c\<close> is set exactly
  for the channels outside \<open>first .. last\<close>; for any other arguments all 79 channels are marked as usable.
  The unused bit 79 is never set.\<close>

theorem afh_channel_map:
  "\<exists>b m. btsnd_hcic_set_afh_channels (Some mem) first_chnl last_chnl = Some [Btu_hcif_send_cmd LOCAL_BR_EDR_CONTROLLER_ID b] \<and>
     packet b = hci_packet HCI_SET_AFH_CHANNELS m \<and> length m = 10 \<and>
     (\<forall>c < 80. bit (m ! (c div 8)) (c mod 8) \<longleftrightarrow>
        c \<noteq> 79 \<and> \<not> (first_chnl \<le> last_chnl \<and> last_chnl \<le> 78 \<and> unat first_chnl \<le> c \<and> c \<le> unat last_chnl))"
proof -
  let ?m = "afh_channels first_chnl last_chnl"
  let ?w = "UINT16_TO_STREAM HCI_SET_AFH_CHANNELS @ UINT8_TO_STREAM 10 @ ?m"
  have len: "length ?m = 10" using afh_channels_bits [of 0] by simp
  have "packet (cmd_buf 13 0 ?w mem) = hci_packet HCI_SET_AFH_CHANNELS ?m"
    using packet_cmd_buf [of ?w 13 mem] len by (simp add: hci_packet_def)
  moreover have "btsnd_hcic_set_afh_channels (Some mem) first_chnl last_chnl =
      Some [Btu_hcif_send_cmd LOCAL_BR_EDR_CONTROLLER_ID (cmd_buf 13 0 ?w mem)]"
    by (simp add: btsnd_hcic_set_afh_channels_def send_cmd_def hci_sizes ARRAY_TO_STREAM_all [OF len])
  moreover have "bit (?m ! (c div 8)) (c mod 8) \<longleftrightarrow>
      c \<noteq> 79 \<and> \<not> (first_chnl \<le> last_chnl \<and> last_chnl \<le> 78 \<and> unat first_chnl \<le> c \<and> c \<le> unat last_chnl)" if "c < 80" for c
    using afh_channels_bits [OF that, of first_chnl last_chnl] by (auto simp: word_le_nat_alt)
  ultimately show ?thesis using len by blast
qed

theorem afh_channel_map_witness:
  "\<exists>b m. btsnd_hcic_set_afh_channels (Some (replicate 652 0xAA)) 10 20 = Some [Btu_hcif_send_cmd LOCAL_BR_EDR_CONTROLLER_ID b] \<and>
     packet b = hci_packet HCI_SET_AFH_CHANNELS m \<and> \<not> bit (m ! 1) 7 \<and> bit (m ! 2) 5"
proof -
  obtain b m where "btsnd_hcic_set_afh_channels (Some (replicate 652 0xAA)) 10 20 = Some [Btu_hcif_send_cmd LOCAL_BR_EDR_CONTROLLER_ID b]"
    "packet b = hci_packet HCI_SET_AFH_CHANNELS m"
    and bits: "\<forall>c < 80. bit (m ! (c div 8)) (c mod 8) \<longleftrightarrow>
      c \<noteq> 79 \<and> \<not> ((10 :: u8) \<le> 20 \<and> (20 :: u8) \<le> 78 \<and> unat (10 :: u8) \<le> c \<and> c \<le> unat (20 :: u8))"
    using afh_channel_map [of "replicate 652 0xAA" 10 20] by blast
  moreover have "\<not> bit (m ! 1) 7" "bit (m ! 2) 5"
    using bits [rule_format, of 15] bits [rule_format, of 21] by simp_all
  ultimately show ?thesis by blast
qed

text \<open>\<open>btsnd_hcic_data\<close> puts the ACL header in the four bytes in front of the packet: what is sent is the
  handle with the boundary and broadcast flags, the data length, and the packet unchanged.\<close>

theorem hcic_data_header:
  assumes "4 \<le> hdr_offset p_buf" and "hdr_offset p_buf < 65536" and "hdr_len p_buf + 4 < 65536"
    and "hdr_offset p_buf + hdr_len p_buf \<le> length (hdr_data p_buf)"
  shows "\<exists>b. btsnd_hcic_data p_buf len handle boundary broadcast = [Hci_acl_data_to_lower b] \<and>
    packet b = UINT16_TO_STREAM (handle OR push_bit 12 (ucast (boundary AND 3)) OR push_bit 14 (ucast (broadcast AND 3)))
      @ UINT16_TO_STREAM len @ packet p_buf"
proof -
  have "(hdr_offset p_buf + 65532) mod 65536 = hdr_offset p_buf - 4"
    using assms(1,2) by (simp add: mod_if)
  then show ?thesis using assms
    by (simp add: btsnd_hcic_data_def Let_def packet_def add.commute)
qed

theorem hcic_data_header_witness:
  "\<exists>b. btsnd_hcic_data \<lparr>hdr_len = 2, hdr_offset = 4, hdr_data = [0, 0, 0, 0, 7, 8]\<rparr> 2 0x2B 2 0 = [Hci_acl_data_to_lower b] \<and>
    packet b = UINT16_TO_STREAM (0x2B OR push_bit 12 (ucast ((2::u8) AND 3)) OR push_bit 14 (ucast ((0::u8) AND 3)))
      @ UINT16_TO_STREAM 2 @ packet \<lparr>hdr_len = 2, hdr_offset = 4, hdr_data = [0, 0, 0, 0, 7, 8]\<rparr>"
  by (rule hcic_data_header) simp_all

text \<open>\<open>btsnd_hcic_vendor_spec_cmd\<close> sends the caller's bytes as a vendor command and keeps the callback
  pointer in front of the packet, where the command-complete handler looks for it.\<close>

lemma vendor_spec_cmd_packet:
  "\<exists>b. btsnd_hcic_vendor_spec_cmd mem opcode len p_data p_cmd_cplt_cback = [Btu_hcif_send_cmd LOCAL_BR_EDR_CONTROLLER_ID b] \<and>
    packet b = hci_packet (HCI_GRP_VENDOR_SPECIFIC OR opcode) (ARRAY_TO_STREAM p_data (unat len)) \<and>
    STREAM_TO_UINT32 (hdr_data b) = Some (p_cmd_cplt_cback, drop 4 (hdr_data b))"
proof -
  let ?w = "concat [UINT32_TO_STREAM p_cmd_cplt_cback, UINT16_TO_STREAM (HCI_GRP_VENDOR_SPECIFIC OR opcode),
      UINT8_TO_STREAM len, ARRAY_TO_STREAM p_data (unat len)]"
  let ?b = "cmd_buf (HCIC_PREAMBLE_SIZE + unat len) SIZEOF_PTR ?w mem"
  have "packet ?b = drop SIZEOF_PTR ?w" by (rule packet_cmd_buf_offset) (simp add: hci_sizes)
  then have "packet ?b = hci_packet (HCI_GRP_VENDOR_SPECIFIC OR opcode) (ARRAY_TO_STREAM p_data (unat len))"
    by (simp add: hci_packet_def SIZEOF_PTR_def)
  moreover have "hdr_data ?b = UINT32_TO_STREAM p_cmd_cplt_cback @ drop 4 (hdr_data ?b)"
    by (simp add: cmd_buf_def overwrite_def)
  then have "STREAM_TO_UINT32 (hdr_data ?b) = Some (p_cmd_cplt_cback, drop 4 (hdr_data ?b))"
    by (metis read_UINT32)
  ultimately show ?thesis by (simp add: btsnd_hcic_vendor_spec_cmd_def)
qed

end
