(* ===== verification/Hci_Ble_Cmds.thy ===== *)
theory Hci_Ble_Cmds
  imports Hci_Defs
begin

text \<open>
  The builders of HCI commands for the low-energy controller, \<^verbatim>\<open>stack/hcic/hciblecmds.c\<close>, in the order
  of the file, and that the packets they send are well formed.
\<close>

section \<open>Commands\<close>

definition btsnd_hcic_ble_reset :: "bytes option \<Rightarrow> hci_call list option" where
  "btsnd_hcic_ble_reset buf =
     send_cmd buf LOCAL_BR_EDR_CONTROLLER_ID (HCIC_PREAMBLE_SIZE + HCIC_PARAM_SIZE_READ_CMD)
       (concat
        [UINT16_TO_STREAM HCI_BLE_RESET, UINT8_TO_STREAM 0])"

definition btsnd_hcic_ble_set_evt_mask :: "bytes option \<Rightarrow> bytes \<Rightarrow> hci_call list option" where
  "btsnd_hcic_ble_set_evt_mask buf event_mask =
     send_cmd buf LOCAL_BR_EDR_CONTROLLER_ID (HCIC_PREAMBLE_SIZE + HCIC_PARAM_SIZE_SET_EVENT_MASK)
       (concat
        [UINT16_TO_STREAM HCI_BLE_SET_EVENT_MASK,
         UINT8_TO_STREAM (of_nat HCIC_PARAM_SIZE_SET_EVENT_MASK), ARRAY8_TO_STREAM event_mask])"

definition btsnd_hcic_ble_read_buffer_size :: "bytes option \<Rightarrow> hci_call list option" where
  "btsnd_hcic_ble_read_buffer_size buf =
     send_cmd buf LOCAL_BR_EDR_CONTROLLER_ID (HCIC_PREAMBLE_SIZE + HCIC_PARAM_SIZE_READ_CMD)
       (concat
        [UINT16_TO_STREAM HCI_BLE_READ_BUFFER_SIZE,
         UINT8_TO_STREAM (of_nat HCIC_PARAM_SIZE_READ_CMD)])"

definition btsnd_hcic_ble_read_local_spt_feat :: "bytes option \<Rightarrow> hci_call list option" where
  "btsnd_hcic_ble_read_local_spt_feat buf =
     send_cmd buf LOCAL_BR_EDR_CONTROLLER_ID (HCIC_PREAMBLE_SIZE + HCIC_PARAM_SIZE_READ_CMD)
       (concat
        [UINT16_TO_STREAM HCI_BLE_READ_LOCAL_SPT_FEAT,
         UINT8_TO_STREAM (of_nat HCIC_PARAM_SIZE_READ_CMD)])"

definition btsnd_hcic_ble_set_local_used_feat :: "bytes option \<Rightarrow> bytes \<Rightarrow> hci_call list option" where
  "btsnd_hcic_ble_set_local_used_feat buf feat_set =
     send_cmd buf LOCAL_BR_EDR_CONTROLLER_ID (HCIC_PREAMBLE_SIZE + HCIC_PARAM_SIZE_SET_USED_FEAT_CMD)
       (concat
        [UINT16_TO_STREAM HCI_BLE_WRITE_LOCAL_SPT_FEAT,
         ARRAY_TO_STREAM feat_set HCIC_PARAM_SIZE_SET_USED_FEAT_CMD])"

definition btsnd_hcic_ble_set_random_addr :: "bytes option \<Rightarrow> bytes \<Rightarrow> hci_call list option" where
  "btsnd_hcic_ble_set_random_addr buf random_bda =
     send_cmd buf LOCAL_BR_EDR_CONTROLLER_ID (HCIC_PREAMBLE_SIZE + HCIC_PARAM_SIZE_WRITE_RANDOM_ADDR_CMD)
       (concat
        [UINT16_TO_STREAM HCI_BLE_WRITE_RANDOM_ADDR,
         UINT8_TO_STREAM (of_nat HCIC_PARAM_SIZE_WRITE_RANDOM_ADDR_CMD),
         BDADDR_TO_STREAM random_bda])"

definition btsnd_hcic_ble_write_adv_params :: "bytes option \<Rightarrow> u16 \<Rightarrow> u16 \<Rightarrow> u8 \<Rightarrow> u8 \<Rightarrow> u8 \<Rightarrow> bytes \<Rightarrow> u8 \<Rightarrow> u8 \<Rightarrow> hci_call list option" where
  "btsnd_hcic_ble_write_adv_params buf adv_int_min adv_int_max adv_type addr_type_own addr_type_dir direct_bda channel_map adv_filter_policy =
     send_cmd buf LOCAL_BR_EDR_CONTROLLER_ID (HCIC_PREAMBLE_SIZE + HCIC_PARAM_SIZE_BLE_WRITE_ADV_PARAMS)
       (concat
        [UINT16_TO_STREAM HCI_BLE_WRITE_ADV_PARAMS,
         UINT8_TO_STREAM (of_nat HCIC_PARAM_SIZE_BLE_WRITE_ADV_PARAMS),
         UINT16_TO_STREAM adv_int_min, UINT16_TO_STREAM adv_int_max, UINT8_TO_STREAM adv_type,
         UINT8_TO_STREAM addr_type_own, UINT8_TO_STREAM addr_type_dir,
         BDADDR_TO_STREAM direct_bda, UINT8_TO_STREAM channel_map,
         UINT8_TO_STREAM adv_filter_policy])"

definition btsnd_hcic_ble_read_adv_chnl_tx_power :: "bytes option \<Rightarrow> hci_call list option" where
  "btsnd_hcic_ble_read_adv_chnl_tx_power buf =
     send_cmd buf LOCAL_BR_EDR_CONTROLLER_ID (HCIC_PREAMBLE_SIZE + HCIC_PARAM_SIZE_READ_CMD)
       (concat
        [UINT16_TO_STREAM HCI_BLE_READ_ADV_CHNL_TX_POWER,
         UINT8_TO_STREAM (of_nat HCIC_PARAM_SIZE_READ_CMD)])"

definition btsnd_hcic_ble_set_adv_data :: "bytes option \<Rightarrow> u8 \<Rightarrow> bytes option \<Rightarrow> hci_call list option" where
  "btsnd_hcic_ble_set_adv_data buf data_len p_data =
     (case buf of
        None \<Rightarrow> None
      | Some mem \<Rightarrow>
          let h = UINT16_TO_STREAM HCI_BLE_WRITE_ADV_DATA @ UINT8_TO_STREAM (of_nat (HCIC_PARAM_SIZE_BLE_WRITE_ADV_DATA + 1));
              mem1 = overwrite (h @ replicate HCIC_PARAM_SIZE_BLE_WRITE_ADV_DATA 0) mem;
              n = (if unat data_len > HCIC_PARAM_SIZE_BLE_WRITE_ADV_DATA then of_nat HCIC_PARAM_SIZE_BLE_WRITE_ADV_DATA else data_len);
              w = (case p_data of
                     None \<Rightarrow> h
                   | Some d \<Rightarrow> if data_len > 0 then h @ UINT8_TO_STREAM n @ ARRAY_TO_STREAM d (unat n) else h)
          in send_cmd (Some mem1) LOCAL_BR_EDR_CONTROLLER_ID (HCIC_PREAMBLE_SIZE + HCIC_PARAM_SIZE_BLE_WRITE_ADV_DATA + 1) w)"

definition btsnd_hcic_ble_set_scan_rsp_data :: "bytes option \<Rightarrow> u8 \<Rightarrow> bytes option \<Rightarrow> hci_call list option" where
  "btsnd_hcic_ble_set_scan_rsp_data buf data_len p_scan_rsp =
     (case buf of
        None \<Rightarrow> None
      | Some mem \<Rightarrow>
          let h = UINT16_TO_STREAM HCI_BLE_WRITE_SCAN_RSP_DATA @ UINT8_TO_STREAM (of_nat (HCIC_PARAM_SIZE_BLE_WRITE_SCAN_RSP + 1));
              mem1 = overwrite (h @ replicate HCIC_PARAM_SIZE_BLE_WRITE_SCAN_RSP 0) mem;
              n = (if unat data_len > HCIC_PARAM_SIZE_BLE_WRITE_SCAN_RSP then of_nat HCIC_PARAM_SIZE_BLE_WRITE_SCAN_RSP else data_len);
              w = (case p_scan_rsp of
                     None \<Rightarrow> h
                   | Some d \<Rightarrow> if data_len > 0 then h @ UINT8_TO_STREAM n @ ARRAY_TO_STREAM d (unat n) else h)
          in send_cmd (Some mem1) LOCAL_BR_EDR_CONTROLLER_ID (HCIC_PREAMBLE_SIZE + HCIC_PARAM_SIZE_BLE_WRITE_SCAN_RSP + 1) w)"

definition btsnd_hcic_ble_set_adv_enable :: "bytes option \<Rightarrow> u8 \<Rightarrow> hci_call list option" where
  "btsnd_hcic_ble_set_adv_enable buf adv_enable =
     send_cmd buf LOCAL_BR_EDR_CONTROLLER_ID (HCIC_PREAMBLE_SIZE + HCIC_PARAM_SIZE_WRITE_ADV_ENABLE)
       (concat
        [UINT16_TO_STREAM HCI_BLE_WRITE_ADV_ENABLE,
         UINT8_TO_STREAM (of_nat HCIC_PARAM_SIZE_WRITE_ADV_ENABLE), UINT8_TO_STREAM adv_enable])"

definition btsnd_hcic_ble_set_scan_params :: "bytes option \<Rightarrow> u8 \<Rightarrow> u16 \<Rightarrow> u16 \<Rightarrow> u8 \<Rightarrow> u8 \<Rightarrow> hci_call list option" where
  "btsnd_hcic_ble_set_scan_params buf scan_type scan_int scan_win addr_type_own scan_filter_policy =
     send_cmd buf LOCAL_BR_EDR_CONTROLLER_ID (HCIC_PREAMBLE_SIZE + HCIC_PARAM_SIZE_BLE_WRITE_SCAN_PARAM)
       (concat
        [UINT16_TO_STREAM HCI_BLE_WRITE_SCAN_PARAMS,
         UINT8_TO_STREAM (of_nat HCIC_PARAM_SIZE_BLE_WRITE_SCAN_PARAM),
         UINT8_TO_STREAM scan_type, UINT16_TO_STREAM scan_int, UINT16_TO_STREAM scan_win,
         UINT8_TO_STREAM addr_type_own, UINT8_TO_STREAM scan_filter_policy])"

definition btsnd_hcic_ble_set_scan_enable :: "bytes option \<Rightarrow> u8 \<Rightarrow> u8 \<Rightarrow> hci_call list option" where
  "btsnd_hcic_ble_set_scan_enable buf scan_enable duplicate =
     send_cmd buf LOCAL_BR_EDR_CONTROLLER_ID (HCIC_PREAMBLE_SIZE + HCIC_PARAM_SIZE_BLE_WRITE_SCAN_ENABLE)
       (concat
        [UINT16_TO_STREAM HCI_BLE_WRITE_SCAN_ENABLE,
         UINT8_TO_STREAM (of_nat HCIC_PARAM_SIZE_BLE_WRITE_SCAN_ENABLE),
         UINT8_TO_STREAM scan_enable, UINT8_TO_STREAM duplicate])"

definition btsnd_hcic_ble_create_ll_conn :: "bytes option \<Rightarrow> u16 \<Rightarrow> u16 \<Rightarrow> u8 \<Rightarrow> u8 \<Rightarrow> bytes \<Rightarrow> u8 \<Rightarrow> u16 \<Rightarrow> u16 \<Rightarrow> u16 \<Rightarrow> u16 \<Rightarrow> u16 \<Rightarrow> u16 \<Rightarrow> hci_call list option" where
  "btsnd_hcic_ble_create_ll_conn buf scan_int scan_win init_filter_policy addr_type_peer bda_peer addr_type_own conn_int_min conn_int_max conn_latency conn_timeout min_ce_len max_ce_len =
     send_cmd buf LOCAL_BR_EDR_CONTROLLER_ID (HCIC_PREAMBLE_SIZE + HCIC_PARAM_SIZE_BLE_CREATE_LL_CONN)
       (concat
        [UINT16_TO_STREAM HCI_BLE_CREATE_LL_CONN,
         UINT8_TO_STREAM (of_nat HCIC_PARAM_SIZE_BLE_CREATE_LL_CONN), UINT16_TO_STREAM scan_int,
         UINT16_TO_STREAM scan_win, UINT8_TO_STREAM init_filter_policy,
         UINT8_TO_STREAM addr_type_peer, BDADDR_TO_STREAM bda_peer,
         UINT8_TO_STREAM addr_type_own, UINT16_TO_STREAM conn_int_min,
         UINT16_TO_STREAM conn_int_max, UINT16_TO_STREAM conn_latency,
         UINT16_TO_STREAM conn_timeout, UINT16_TO_STREAM min_ce_len,
         UINT16_TO_STREAM max_ce_len])"

definition btsnd_hcic_ble_create_conn_cancel :: "bytes option \<Rightarrow> hci_call list option" where
  "btsnd_hcic_ble_create_conn_cancel buf =
     send_cmd buf LOCAL_BR_EDR_CONTROLLER_ID (HCIC_PREAMBLE_SIZE + HCIC_PARAM_SIZE_BLE_CREATE_CONN_CANCEL)
       (concat
        [UINT16_TO_STREAM HCI_BLE_CREATE_CONN_CANCEL,
         UINT8_TO_STREAM (of_nat HCIC_PARAM_SIZE_BLE_CREATE_CONN_CANCEL)])"

definition btsnd_hcic_ble_read_white_list_size :: "bytes option \<Rightarrow> hci_call list option" where
  "btsnd_hcic_ble_read_white_list_size buf =
     send_cmd buf LOCAL_BR_EDR_CONTROLLER_ID (HCIC_PREAMBLE_SIZE + HCIC_PARAM_SIZE_READ_CMD)
       (concat
        [UINT16_TO_STREAM HCI_BLE_READ_WHITE_LIST_SIZE,
         UINT8_TO_STREAM (of_nat HCIC_PARAM_SIZE_READ_CMD)])"

definition btsnd_hcic_ble_clear_white_list :: "bytes option \<Rightarrow> hci_call list option" where
  "btsnd_hcic_ble_clear_white_list buf =
     send_cmd buf LOCAL_BR_EDR_CONTROLLER_ID (HCIC_PREAMBLE_SIZE + HCIC_PARAM_SIZE_CLEAR_WHITE_LIST)
       (concat
        [UINT16_TO_STREAM HCI_BLE_CLEAR_WHITE_LIST,
         UINT8_TO_STREAM (of_nat HCIC_PARAM_SIZE_CLEAR_WHITE_LIST)])"

definition btsnd_hcic_ble_add_white_list :: "bytes option \<Rightarrow> u8 \<Rightarrow> bytes \<Rightarrow> hci_call list option" where
  "btsnd_hcic_ble_add_white_list buf addr_type bda =
     send_cmd buf LOCAL_BR_EDR_CONTROLLER_ID (HCIC_PREAMBLE_SIZE + HCIC_PARAM_SIZE_ADD_WHITE_LIST)
       (concat
        [UINT16_TO_STREAM HCI_BLE_ADD_WHITE_LIST,
         UINT8_TO_STREAM (of_nat HCIC_PARAM_SIZE_ADD_WHITE_LIST), UINT8_TO_STREAM addr_type,
         BDADDR_TO_STREAM bda])"

definition btsnd_hcic_ble_remove_from_white_list :: "bytes option \<Rightarrow> u8 \<Rightarrow> bytes \<Rightarrow> hci_call list option" where
  "btsnd_hcic_ble_remove_from_white_list buf addr_type bda =
     send_cmd buf LOCAL_BR_EDR_CONTROLLER_ID (HCIC_PREAMBLE_SIZE + HCIC_PARAM_SIZE_REMOVE_WHITE_LIST)
       (concat
        [UINT16_TO_STREAM HCI_BLE_REMOVE_WHITE_LIST,
         UINT8_TO_STREAM (of_nat HCIC_PARAM_SIZE_REMOVE_WHITE_LIST), UINT8_TO_STREAM addr_type,
         BDADDR_TO_STREAM bda])"

definition btsnd_hcic_ble_upd_ll_conn_params :: "bytes option \<Rightarrow> u16 \<Rightarrow> u16 \<Rightarrow> u16 \<Rightarrow> u16 \<Rightarrow> u16 \<Rightarrow> u16 \<Rightarrow> u16 \<Rightarrow> hci_call list option" where
  "btsnd_hcic_ble_upd_ll_conn_params buf handle conn_int_min conn_int_max conn_latency conn_timeout min_ce_len max_ce_len =
     send_cmd buf LOCAL_BR_EDR_CONTROLLER_ID (HCIC_PREAMBLE_SIZE + HCIC_PARAM_SIZE_BLE_UPD_LL_CONN_PARAMS)
       (concat
        [UINT16_TO_STREAM HCI_BLE_UPD_LL_CONN_PARAMS,
         UINT8_TO_STREAM (of_nat HCIC_PARAM_SIZE_BLE_UPD_LL_CONN_PARAMS),
         UINT16_TO_STREAM handle, UINT16_TO_STREAM conn_int_min, UINT16_TO_STREAM conn_int_max,
         UINT16_TO_STREAM conn_latency, UINT16_TO_STREAM conn_timeout,
         UINT16_TO_STREAM min_ce_len, UINT16_TO_STREAM max_ce_len])"

definition btsnd_hcic_ble_set_host_chnl_class :: "bytes option \<Rightarrow> bytes \<Rightarrow> hci_call list option" where
  "btsnd_hcic_ble_set_host_chnl_class buf chnl_map =
     send_cmd buf LOCAL_BR_EDR_CONTROLLER_ID (HCIC_PREAMBLE_SIZE + HCIC_PARAM_SIZE_SET_HOST_CHNL_CLASS)
       (concat
        [UINT16_TO_STREAM HCI_BLE_SET_HOST_CHNL_CLASS,
         UINT8_TO_STREAM (of_nat HCIC_PARAM_SIZE_SET_HOST_CHNL_CLASS),
         ARRAY_TO_STREAM chnl_map HCIC_BLE_CHNL_MAP_SIZE])"

definition btsnd_hcic_ble_read_chnl_map :: "bytes option \<Rightarrow> u16 \<Rightarrow> hci_call list option" where
  "btsnd_hcic_ble_read_chnl_map buf handle =
     send_cmd buf LOCAL_BR_EDR_CONTROLLER_ID (HCIC_PREAMBLE_SIZE + HCIC_PARAM_SIZE_READ_CHNL_MAP)
       (concat
        [UINT16_TO_STREAM HCI_BLE_READ_CHNL_MAP,
         UINT8_TO_STREAM (of_nat HCIC_PARAM_SIZE_READ_CHNL_MAP), UINT16_TO_STREAM handle])"

definition btsnd_hcic_ble_read_remote_feat :: "bytes option \<Rightarrow> u16 \<Rightarrow> hci_call list option" where
  "btsnd_hcic_ble_read_remote_feat buf handle =
     send_cmd buf LOCAL_BR_EDR_CONTROLLER_ID (HCIC_PREAMBLE_SIZE + HCIC_PARAM_SIZE_BLE_READ_REMOTE_FEAT)
       (concat
        [UINT16_TO_STREAM HCI_BLE_READ_REMOTE_FEAT,
         UINT8_TO_STREAM (of_nat HCIC_PARAM_SIZE_BLE_READ_REMOTE_FEAT), UINT16_TO_STREAM handle])"

definition btsnd_hcic_ble_encrypt ::
  "bytes option \<Rightarrow> bytes \<Rightarrow> u8 \<Rightarrow> bytes \<Rightarrow> u8 \<Rightarrow> u32 \<Rightarrow> hci_call list option" where
  "btsnd_hcic_ble_encrypt buf key key_len plain_text pt_len p_cmd_cplt_cback =
     (case buf of
        None \<Rightarrow> None
      | Some mem \<Rightarrow>
          let h = UINT32_TO_STREAM p_cmd_cplt_cback @ UINT16_TO_STREAM HCI_BLE_ENCRYPT @
                UINT8_TO_STREAM (of_nat HCIC_PARAM_SIZE_BLE_ENCRYPT);
              mem1 = overwrite (h @ replicate HCIC_PARAM_SIZE_BLE_ENCRYPT 0) mem;
              kl = min (unat key_len) HCIC_BLE_ENCRYT_KEY_SIZE;
              pl = min (unat pt_len) HCIC_BLE_ENCRYT_KEY_SIZE;
              mem2 = overwrite (h @ ARRAY_TO_STREAM key kl) mem1;
              pp = length h + kl + (HCIC_BLE_ENCRYT_KEY_SIZE - kl);
              mem3 = take pp mem2 @ overwrite (ARRAY_TO_STREAM plain_text pl) (drop pp mem2)
          in Some [Btu_hcif_send_cmd LOCAL_BR_EDR_CONTROLLER_ID
               \<lparr>hdr_len = HCIC_PREAMBLE_SIZE + HCIC_PARAM_SIZE_BLE_ENCRYPT, hdr_offset = SIZEOF_PTR,
                hdr_data = mem3\<rparr>])"

definition btsnd_hcic_ble_rand :: "bytes option \<Rightarrow> u32 \<Rightarrow> hci_call list option" where
  "btsnd_hcic_ble_rand buf p_cmd_cplt_cback =
     (case buf of
        None \<Rightarrow> None
      | Some mem \<Rightarrow>
          Some [Btu_hcif_send_cmd LOCAL_BR_EDR_CONTROLLER_ID
            (cmd_buf (HCIC_PREAMBLE_SIZE + HCIC_PARAM_SIZE_BLE_RAND) SIZEOF_PTR
              (concat [UINT32_TO_STREAM p_cmd_cplt_cback, UINT16_TO_STREAM HCI_BLE_RAND,
                 UINT8_TO_STREAM (of_nat HCIC_PARAM_SIZE_BLE_RAND)]) mem)])"

definition btsnd_hcic_ble_start_enc :: "bytes option \<Rightarrow> u16 \<Rightarrow> bytes \<Rightarrow> u16 \<Rightarrow> bytes \<Rightarrow> hci_call list option" where
  "btsnd_hcic_ble_start_enc buf handle rand_di ediv ltk =
     send_cmd buf LOCAL_BR_EDR_CONTROLLER_ID (HCIC_PREAMBLE_SIZE + HCIC_PARAM_SIZE_BLE_START_ENC)
       (concat
        [UINT16_TO_STREAM HCI_BLE_START_ENC,
         UINT8_TO_STREAM (of_nat HCIC_PARAM_SIZE_BLE_START_ENC), UINT16_TO_STREAM handle,
         ARRAY_TO_STREAM rand_di HCIC_BLE_RAND_DI_SIZE, UINT16_TO_STREAM ediv,
         ARRAY_TO_STREAM ltk HCIC_BLE_ENCRYT_KEY_SIZE])"

definition btsnd_hcic_ble_ltk_req_reply :: "bytes option \<Rightarrow> u16 \<Rightarrow> bytes \<Rightarrow> hci_call list option" where
  "btsnd_hcic_ble_ltk_req_reply buf handle ltk =
     send_cmd buf LOCAL_BR_EDR_CONTROLLER_ID (HCIC_PREAMBLE_SIZE + HCIC_PARAM_SIZE_LTK_REQ_REPLY)
       (concat
        [UINT16_TO_STREAM HCI_BLE_LTK_REQ_REPLY,
         UINT8_TO_STREAM (of_nat HCIC_PARAM_SIZE_LTK_REQ_REPLY), UINT16_TO_STREAM handle,
         ARRAY_TO_STREAM ltk HCIC_BLE_ENCRYT_KEY_SIZE])"

definition btsnd_hcic_ble_ltk_req_neg_reply :: "bytes option \<Rightarrow> u16 \<Rightarrow> hci_call list option" where
  "btsnd_hcic_ble_ltk_req_neg_reply buf handle =
     send_cmd buf LOCAL_BR_EDR_CONTROLLER_ID (HCIC_PREAMBLE_SIZE + HCIC_PARAM_SIZE_LTK_REQ_NEG_REPLY)
       (concat
        [UINT16_TO_STREAM HCI_BLE_LTK_REQ_NEG_REPLY,
         UINT8_TO_STREAM (of_nat HCIC_PARAM_SIZE_LTK_REQ_NEG_REPLY), UINT16_TO_STREAM handle])"

definition btsnd_hcic_ble_read_supported_states :: "bytes option \<Rightarrow> hci_call list option" where
  "btsnd_hcic_ble_read_supported_states buf =
     send_cmd buf LOCAL_BR_EDR_CONTROLLER_ID (HCIC_PREAMBLE_SIZE + HCIC_PARAM_SIZE_READ_CMD)
       (concat
        [UINT16_TO_STREAM HCI_BLE_READ_SUPPORTED_STATES,
         UINT8_TO_STREAM (of_nat HCIC_PARAM_SIZE_READ_CMD)])"

section \<open>Properties\<close>

lemma ble_data_cmd_packet:
  assumes "length h = 3" and "n \<le> 31" and "35 \<le> length mem"
  shows "take 35 (overwrite (h @ UINT8_TO_STREAM v @ ARRAY_TO_STREAM d n) (overwrite (h @ replicate 31 0) mem))
    = h @ [v] @ ARRAY_TO_STREAM d n @ (if n < 31 then replicate (30 - n) 0 @ [mem ! 34] else [])"
proof -
  have m: "take (35 - Suc (Suc (Suc (Suc n)))) (drop (Suc (Suc (Suc (Suc n)))) (h @ replicate 31 0 @ drop 34 mem))
      = (if n < 31 then replicate (30 - n) 0 @ [mem ! 34] else [])"
  proof (cases "n < 31")
    case True
    have "drop (Suc (Suc (Suc (Suc n)))) (h @ replicate 31 0 @ drop 34 mem) = replicate (30 - n) 0 @ drop 34 mem"
      using assms(1) True by (simp add: drop_Cons')
    moreover have "drop 34 mem = mem ! 34 # drop 35 mem" using assms(3) Cons_nth_drop_Suc [of 34 mem] by simp
    ultimately show ?thesis using True by simp
  qed (use assms(2) in simp)
  then show ?thesis using assms by (simp add: overwrite_def UINT8_TO_STREAM_def)
qed

text \<open>\<open>btsnd_hcic_ble_encrypt\<close> sends the key and the text in their 16-byte fields, cut to 16 bytes and
  padded with zeros, whatever lengths are given.\<close>

lemma ble_encrypt_packet:
  assumes "652 \<le> length mem"
  shows "\<exists>b. btsnd_hcic_ble_encrypt (Some mem) key key_len plain_text pt_len cb =
      Some [Btu_hcif_send_cmd LOCAL_BR_EDR_CONTROLLER_ID b] \<and>
    hdr_len b = 35 \<and> packet b = hci_packet HCI_BLE_ENCRYPT
      (ARRAY_TO_STREAM key (min (unat key_len) 16) @ replicate (16 - unat key_len) 0 @
       ARRAY_TO_STREAM plain_text (min (unat pt_len) 16) @ replicate (16 - unat pt_len) 0)"
proof -
  let ?h = "UINT32_TO_STREAM cb @ UINT16_TO_STREAM HCI_BLE_ENCRYPT @ UINT8_TO_STREAM 32"
  define k where "k = min (unat key_len) 16"
  define m where "m = min (unat pt_len) 16"
  define mem1 where "mem1 = overwrite (?h @ replicate 32 0) mem"
  define mem2 where "mem2 = overwrite (?h @ ARRAY_TO_STREAM key k) mem1"
  have km: "k \<le> 16" "m \<le> 16" "16 - unat key_len = 16 - k" "16 - unat pt_len = 16 - m" by (auto simp: k_def m_def)
  have m1: "mem1 = ?h @ replicate 32 0 @ drop 39 mem" by (simp add: mem1_def overwrite_def)
  have m2: "mem2 = ?h @ ARRAY_TO_STREAM key k @ replicate (32 - k) 0 @ drop 39 mem"
    unfolding mem2_def m1 using km by (simp add: overwrite_def drop_append)
  have r: "replicate (32 - k) (0::u8) = replicate (16 - k) 0 @ replicate 16 0"
    using km by (simp flip: replicate_add)
  have t: "take 23 mem2 = ?h @ ARRAY_TO_STREAM key k @ replicate (16 - k) 0"
    "drop 23 mem2 = replicate 16 0 @ drop 39 mem"
    unfolding m2 r using km by simp_all
  have "btsnd_hcic_ble_encrypt (Some mem) key key_len plain_text pt_len cb = Some [Btu_hcif_send_cmd LOCAL_BR_EDR_CONTROLLER_ID
     \<lparr>hdr_len = 35, hdr_offset = 4, hdr_data = take 23 mem2 @ overwrite (ARRAY_TO_STREAM plain_text m) (drop 23 mem2)\<rparr>]"
    unfolding mem2_def mem1_def
    using km by (simp add: btsnd_hcic_ble_encrypt_def Let_def hci_sizes k_def [symmetric] m_def [symmetric] mem1_def [symmetric] mem2_def [symmetric])
  moreover have "take 35 (drop 4 (take 23 mem2 @ overwrite (ARRAY_TO_STREAM plain_text m) (drop 23 mem2))) =
      hci_packet HCI_BLE_ENCRYPT (ARRAY_TO_STREAM key k @ replicate (16 - k) 0 @ ARRAY_TO_STREAM plain_text m @ replicate (16 - m) 0)"
    unfolding t overwrite_def hci_packet_def using km by (simp add: drop_append)
  ultimately show ?thesis by (simp add: packet_def k_def [symmetric] m_def [symmetric] km(3,4))
qed

lemma cmd_ok_ble_encrypt:
  "cmd_ok HCI_BLE_ENCRYPT (\<lambda>buf. btsnd_hcic_ble_encrypt buf key key_len plain_text pt_len cb)"
proof -
  define ps where "ps = ARRAY_TO_STREAM key (min (unat key_len) 16) @ replicate (16 - unat key_len) 0 @
    ARRAY_TO_STREAM plain_text (min (unat pt_len) 16) @ replicate (16 - unat pt_len) 0"
  have len: "length ps = 32" by (simp add: ps_def min_def)
  show ?thesis unfolding cmd_ok_def
  proof (intro conjI exI [of _ ps] allI impI)
    fix mem :: bytes
    assume "HCI_CMD_POOL_BUF_SIZE - BT_HDR_SIZE \<le> length mem"
    then have "652 \<le> length mem" by (simp add: hci_sizes)
    from ble_encrypt_packet [OF this, of key key_len plain_text pt_len cb, folded ps_def] len
    show "\<exists>c cs b. btsnd_hcic_ble_encrypt (Some mem) key key_len plain_text pt_len cb = Some (c # cs) \<and>
        list_all (\<lambda>c. call_msg c = None) cs \<and> call_msg c = Some b \<and>
        packet b = hci_packet HCI_BLE_ENCRYPT ps \<and> length (packet b) = hdr_len b"
      by auto
  qed (simp_all add: btsnd_hcic_ble_encrypt_def len)
qed

lemma cmd_ok_ble_rand: "cmd_ok HCI_BLE_RAND (\<lambda>buf. btsnd_hcic_ble_rand buf cb)"
  unfolding cmd_ok_def
proof (intro conjI exI [of _ "[]"] allI impI)
  fix mem :: bytes
  let ?w = "UINT32_TO_STREAM cb @ UINT16_TO_STREAM HCI_BLE_RAND @ UINT8_TO_STREAM 0"
  have "packet (cmd_buf 3 4 ?w mem) = hci_packet HCI_BLE_RAND []"
    using packet_cmd_buf_offset [of ?w 4 3 mem] by (simp add: hci_packet_def)
  then show "\<exists>c cs b. btsnd_hcic_ble_rand (Some mem) cb = Some (c # cs) \<and> list_all (\<lambda>c. call_msg c = None) cs \<and>
      call_msg c = Some b \<and> packet b = hci_packet HCI_BLE_RAND [] \<and> length (packet b) = hdr_len b"
    by (simp add: btsnd_hcic_ble_rand_def hci_sizes) (simp add: cmd_buf_def)
qed (simp_all add: btsnd_hcic_ble_rand_def)

text \<open>The advertising and the scan response data fill their 31 bytes when that many are given.\<close>

lemma cmd_ok_ble_data:
  assumes "f None = None"
    and "\<And>mem. f (Some mem) = send_cmd (Some (overwrite (h @ replicate 31 0) mem)) ctrl 35 (h @ UINT8_TO_STREAM 31 @ ARRAY_TO_STREAM d 31)"
    and "h = UINT16_TO_STREAM opcode @ UINT8_TO_STREAM 32"
  shows "cmd_ok opcode f"
  unfolding cmd_ok_def
proof (intro conjI exI [of _ "31 # ARRAY_TO_STREAM d 31"] allI impI)
  fix mem :: bytes
  assume "HCI_CMD_POOL_BUF_SIZE - BT_HDR_SIZE \<le> length mem"
  then have "35 \<le> length mem" by (simp add: hci_sizes)
  let ?b = "cmd_buf 35 0 (h @ UINT8_TO_STREAM 31 @ ARRAY_TO_STREAM d 31) (overwrite (h @ replicate 31 0) mem)"
  have "packet ?b = hci_packet opcode (31 # ARRAY_TO_STREAM d 31)"
    using ble_data_cmd_packet [of h 31 mem 31 d] \<open>35 \<le> _\<close>
    by (simp add: packet_def cmd_buf_def assms(3) hci_packet_def)
  then show "\<exists>c cs b. f (Some mem) = Some (c # cs) \<and> list_all (\<lambda>c. call_msg c = None) cs \<and>
      call_msg c = Some b \<and> packet b = hci_packet opcode (31 # ARRAY_TO_STREAM d 31) \<and> length (packet b) = hdr_len b"
    by (simp add: assms(2) send_cmd_def) (simp add: cmd_buf_def)
qed (simp_all add: assms(1))

lemma cmd_ok_ble_adv_data:
  assumes "31 \<le> data_len"
  shows "cmd_ok HCI_BLE_WRITE_ADV_DATA (\<lambda>buf. btsnd_hcic_ble_set_adv_data buf data_len (Some d))"
    and "cmd_ok HCI_BLE_WRITE_SCAN_RSP_DATA (\<lambda>buf. btsnd_hcic_ble_set_scan_rsp_data buf data_len (Some d))"
proof -
  have u: "31 \<le> unat data_len" using assms by (simp add: word_le_nat_alt)
  then have "0 < data_len" by (simp add: word_less_nat_alt)
  moreover have "\<not> 31 < unat data_len \<Longrightarrow> data_len = 31" using u by (simp add: word_unat_eq_iff)
  ultimately show "cmd_ok HCI_BLE_WRITE_ADV_DATA (\<lambda>buf. btsnd_hcic_ble_set_adv_data buf data_len (Some d))"
    "cmd_ok HCI_BLE_WRITE_SCAN_RSP_DATA (\<lambda>buf. btsnd_hcic_ble_set_scan_rsp_data buf data_len (Some d))"
    by - (rule cmd_ok_ble_data [OF _ _ refl, of _ _ LOCAL_BR_EDR_CONTROLLER_ID d];
      auto simp: btsnd_hcic_ble_set_adv_data_def btsnd_hcic_ble_set_scan_rsp_data_def Let_def hci_sizes)+
qed

text \<open>C14: the low-energy commands are well formed: opcode, length byte, \<^verbatim>\<open>BT_HDR\<close> length and the bytes
  written agree for every argument, no unwritten byte is sent, and nothing is sent without a buffer.
  \<open>btsnd_hcic_ble_set_adv_data\<close> and \<open>btsnd_hcic_ble_set_scan_rsp_data\<close> are covered for 31 bytes of data or
  more (of which 31 are sent); with fewer they send an old byte.  \<open>btsnd_hcic_ble_set_local_used_feat\<close> is not
  covered: it is never well formed.  These are all the builders of the file.\<close>

theorem hci_ble_cmds_wellformed:
  "cmd_ok HCI_BLE_RESET (\<lambda>buf. btsnd_hcic_ble_reset buf) \<and>
   (\<forall>event_mask. cmd_ok HCI_BLE_SET_EVENT_MASK (\<lambda>buf. btsnd_hcic_ble_set_evt_mask buf event_mask)) \<and>
   cmd_ok HCI_BLE_READ_BUFFER_SIZE (\<lambda>buf. btsnd_hcic_ble_read_buffer_size buf) \<and>
   cmd_ok HCI_BLE_READ_LOCAL_SPT_FEAT (\<lambda>buf. btsnd_hcic_ble_read_local_spt_feat buf) \<and>
   (\<forall>random_bda. cmd_ok HCI_BLE_WRITE_RANDOM_ADDR (\<lambda>buf. btsnd_hcic_ble_set_random_addr buf random_bda)) \<and>
   (\<forall>adv_int_min adv_int_max adv_type addr_type_own addr_type_dir direct_bda channel_map adv_filter_policy. cmd_ok HCI_BLE_WRITE_ADV_PARAMS (\<lambda>buf. btsnd_hcic_ble_write_adv_params buf adv_int_min adv_int_max adv_type addr_type_own addr_type_dir direct_bda channel_map adv_filter_policy)) \<and>
   cmd_ok HCI_BLE_READ_ADV_CHNL_TX_POWER (\<lambda>buf. btsnd_hcic_ble_read_adv_chnl_tx_power buf) \<and>
   (\<forall>adv_enable. cmd_ok HCI_BLE_WRITE_ADV_ENABLE (\<lambda>buf. btsnd_hcic_ble_set_adv_enable buf adv_enable)) \<and>
   (\<forall>scan_type scan_int scan_win addr_type_own scan_filter_policy. cmd_ok HCI_BLE_WRITE_SCAN_PARAMS (\<lambda>buf. btsnd_hcic_ble_set_scan_params buf scan_type scan_int scan_win addr_type_own scan_filter_policy)) \<and>
   (\<forall>scan_enable duplicate. cmd_ok HCI_BLE_WRITE_SCAN_ENABLE (\<lambda>buf. btsnd_hcic_ble_set_scan_enable buf scan_enable duplicate)) \<and>
   (\<forall>scan_int scan_win init_filter_policy addr_type_peer bda_peer addr_type_own conn_int_min conn_int_max conn_latency conn_timeout min_ce_len max_ce_len. cmd_ok HCI_BLE_CREATE_LL_CONN (\<lambda>buf. btsnd_hcic_ble_create_ll_conn buf scan_int scan_win init_filter_policy addr_type_peer bda_peer addr_type_own conn_int_min conn_int_max conn_latency conn_timeout min_ce_len max_ce_len)) \<and>
   cmd_ok HCI_BLE_CREATE_CONN_CANCEL (\<lambda>buf. btsnd_hcic_ble_create_conn_cancel buf) \<and>
   cmd_ok HCI_BLE_READ_WHITE_LIST_SIZE (\<lambda>buf. btsnd_hcic_ble_read_white_list_size buf) \<and>
   cmd_ok HCI_BLE_CLEAR_WHITE_LIST (\<lambda>buf. btsnd_hcic_ble_clear_white_list buf) \<and>
   (\<forall>addr_type bda. cmd_ok HCI_BLE_ADD_WHITE_LIST (\<lambda>buf. btsnd_hcic_ble_add_white_list buf addr_type bda)) \<and>
   (\<forall>addr_type bda. cmd_ok HCI_BLE_REMOVE_WHITE_LIST (\<lambda>buf. btsnd_hcic_ble_remove_from_white_list buf addr_type bda)) \<and>
   (\<forall>handle conn_int_min conn_int_max conn_latency conn_timeout min_ce_len max_ce_len. cmd_ok HCI_BLE_UPD_LL_CONN_PARAMS (\<lambda>buf. btsnd_hcic_ble_upd_ll_conn_params buf handle conn_int_min conn_int_max conn_latency conn_timeout min_ce_len max_ce_len)) \<and>
   (\<forall>chnl_map. cmd_ok HCI_BLE_SET_HOST_CHNL_CLASS (\<lambda>buf. btsnd_hcic_ble_set_host_chnl_class buf chnl_map)) \<and>
   (\<forall>handle. cmd_ok HCI_BLE_READ_CHNL_MAP (\<lambda>buf. btsnd_hcic_ble_read_chnl_map buf handle)) \<and>
   (\<forall>handle. cmd_ok HCI_BLE_READ_REMOTE_FEAT (\<lambda>buf. btsnd_hcic_ble_read_remote_feat buf handle)) \<and>
   (\<forall>handle rand_di ediv ltk. cmd_ok HCI_BLE_START_ENC (\<lambda>buf. btsnd_hcic_ble_start_enc buf handle rand_di ediv ltk)) \<and>
   (\<forall>handle ltk. cmd_ok HCI_BLE_LTK_REQ_REPLY (\<lambda>buf. btsnd_hcic_ble_ltk_req_reply buf handle ltk)) \<and>
   (\<forall>handle. cmd_ok HCI_BLE_LTK_REQ_NEG_REPLY (\<lambda>buf. btsnd_hcic_ble_ltk_req_neg_reply buf handle)) \<and>
   cmd_ok HCI_BLE_READ_SUPPORTED_STATES (\<lambda>buf. btsnd_hcic_ble_read_supported_states buf) \<and>
   (\<forall>cb. cmd_ok HCI_BLE_RAND (\<lambda>buf. btsnd_hcic_ble_rand buf cb)) \<and>
   (\<forall>key key_len plain_text pt_len cb. cmd_ok HCI_BLE_ENCRYPT (\<lambda>buf. btsnd_hcic_ble_encrypt buf key key_len plain_text pt_len cb)) \<and>
   (\<forall>data_len d. 31 \<le> data_len \<longrightarrow> cmd_ok HCI_BLE_WRITE_ADV_DATA (\<lambda>buf. btsnd_hcic_ble_set_adv_data buf data_len (Some d))) \<and>
   (\<forall>data_len d. 31 \<le> data_len \<longrightarrow> cmd_ok HCI_BLE_WRITE_SCAN_RSP_DATA (\<lambda>buf. btsnd_hcic_ble_set_scan_rsp_data buf data_len (Some d)))"
  unfolding btsnd_hcic_ble_reset_def btsnd_hcic_ble_set_evt_mask_def btsnd_hcic_ble_read_buffer_size_def
    btsnd_hcic_ble_read_local_spt_feat_def btsnd_hcic_ble_set_random_addr_def
    btsnd_hcic_ble_write_adv_params_def btsnd_hcic_ble_read_adv_chnl_tx_power_def
    btsnd_hcic_ble_set_adv_enable_def btsnd_hcic_ble_set_scan_params_def
    btsnd_hcic_ble_set_scan_enable_def btsnd_hcic_ble_create_ll_conn_def
    btsnd_hcic_ble_create_conn_cancel_def btsnd_hcic_ble_read_white_list_size_def
    btsnd_hcic_ble_clear_white_list_def btsnd_hcic_ble_add_white_list_def
    btsnd_hcic_ble_remove_from_white_list_def btsnd_hcic_ble_upd_ll_conn_params_def
    btsnd_hcic_ble_set_host_chnl_class_def btsnd_hcic_ble_read_chnl_map_def
    btsnd_hcic_ble_read_remote_feat_def btsnd_hcic_ble_start_enc_def
    btsnd_hcic_ble_ltk_req_reply_def btsnd_hcic_ble_ltk_req_neg_reply_def
    btsnd_hcic_ble_read_supported_states_def
  by (intro conjI allI impI) (simp_all add: hci_sizes cmd_ok_ble_rand cmd_ok_ble_encrypt cmd_ok_ble_adv_data)

theorem hci_ble_cmds_wellformed_witness:
  "cmd_ok HCI_BLE_WRITE_ADV_DATA (\<lambda>buf. btsnd_hcic_ble_set_adv_data buf 31 (Some (replicate 31 7))) \<and>
   cmd_ok HCI_BLE_WRITE_SCAN_RSP_DATA (\<lambda>buf. btsnd_hcic_ble_set_scan_rsp_data buf 40 (Some (replicate 40 7))) \<and>
   cmd_ok HCI_BLE_RAND (\<lambda>buf. btsnd_hcic_ble_rand buf 0)"
  using hci_ble_cmds_wellformed by simp

text \<open>C16: \<open>btsnd_hcic_ble_set_local_used_feat\<close> writes no length byte.  Where the controller expects the number
  of parameters it finds the first feature byte, and the last byte sent is byte 10 of the old buffer
  contents; the command is not well formed under any opcode.\<close>

theorem ble_set_local_used_feat_malformed:
  "(\<forall>mem. 652 \<le> length mem \<longrightarrow> (\<exists>b. btsnd_hcic_ble_set_local_used_feat (Some mem) feat_set =
      Some [Btu_hcif_send_cmd LOCAL_BR_EDR_CONTROLLER_ID b] \<and>
      packet b = UINT16_TO_STREAM HCI_BLE_WRITE_LOCAL_SPT_FEAT @ ARRAY_TO_STREAM feat_set 8 @ [mem ! 10])) \<and>
   \<not> cmd_ok opcode (\<lambda>buf. btsnd_hcic_ble_set_local_used_feat buf feat_set)"
proof -
  let ?f = "\<lambda>buf. btsnd_hcic_ble_set_local_used_feat buf feat_set"
  have p: "\<exists>b. ?f (Some mem) = Some [Btu_hcif_send_cmd LOCAL_BR_EDR_CONTROLLER_ID b] \<and>
      packet b = UINT16_TO_STREAM HCI_BLE_WRITE_LOCAL_SPT_FEAT @ ARRAY_TO_STREAM feat_set 8 @ [mem ! 10]"
    if "652 \<le> length mem" for mem
  proof -
    have "drop 10 mem = mem ! 10 # drop 11 mem" using that Cons_nth_drop_Suc [of 10 mem] by simp
    then show ?thesis
      by (simp add: btsnd_hcic_ble_set_local_used_feat_def send_cmd_def cmd_buf_def packet_def overwrite_def hci_sizes)
  qed
  have "\<not> cmd_ok opcode ?f"
  proof
    assume "cmd_ok opcode ?f"
    then obtain ps where ps: "\<And>mem. 652 \<le> length mem \<Longrightarrow> \<exists>c cs b. ?f (Some mem) = Some (c # cs) \<and> call_msg c = Some b \<and> packet b = hci_packet opcode ps"
      unfolding cmd_ok_def by (auto simp: hci_sizes) (metis)
    have "hci_packet opcode ps = UINT16_TO_STREAM HCI_BLE_WRITE_LOCAL_SPT_FEAT @ ARRAY_TO_STREAM feat_set 8 @ [v]" for v
      using ps [of "replicate 652 v"] p [of "replicate 652 v"] by auto
    from this [of 0] this [of 1] show False by (metis (no_types) append_assoc last_snoc zero_neq_one)
  qed
  with p show ?thesis by blast
qed

theorem ble_set_local_used_feat_malformed_witness:
  "\<exists>b. btsnd_hcic_ble_set_local_used_feat (Some (replicate 652 0xAA)) [1, 0, 0, 0, 0, 0, 0, 0] =
      Some [Btu_hcif_send_cmd LOCAL_BR_EDR_CONTROLLER_ID b] \<and>
    packet b = UINT16_TO_STREAM HCI_BLE_WRITE_LOCAL_SPT_FEAT @ ARRAY_TO_STREAM [1, 0, 0, 0, 0, 0, 0, 0] 8 @ [replicate 652 0xAA ! 10]"
  by (rule ble_set_local_used_feat_malformed [of "[1, 0, 0, 0, 0, 0, 0, 0]" 0, THEN conjunct1, rule_format]) simp

text \<open>C17: \<open>btsnd_hcic_ble_set_adv_data\<close> with fewer than 31 bytes of data sends one byte the buffer held before:
  the parameter is 32 bytes long and only 31 of them are cleared, so the last byte sent is byte 34 of
  the old buffer contents.\<close>

theorem adv_data_sends_old_byte:
  assumes "652 \<le> length mem" and "0 < data_len" and "data_len < 31"
  shows "\<exists>b. btsnd_hcic_ble_set_adv_data (Some mem) data_len (Some d) =
      Some [Btu_hcif_send_cmd LOCAL_BR_EDR_CONTROLLER_ID b] \<and>
    packet b = hci_packet HCI_BLE_WRITE_ADV_DATA
      (data_len # ARRAY_TO_STREAM d (unat data_len) @ replicate (30 - unat data_len) 0 @ [mem ! 34])"
proof -
  let ?h = "UINT16_TO_STREAM HCI_BLE_WRITE_ADV_DATA @ UINT8_TO_STREAM 32"
  have n: "unat data_len < 31" using assms(3) by (simp add: word_less_nat_alt)
  have "take 35 (overwrite (?h @ UINT8_TO_STREAM data_len @ ARRAY_TO_STREAM d (unat data_len)) (overwrite (?h @ replicate 31 0) mem))
    = ?h @ [data_len] @ ARRAY_TO_STREAM d (unat data_len) @ replicate (30 - unat data_len) 0 @ [mem ! 34]"
    using ble_data_cmd_packet [of ?h "unat data_len" mem data_len d] n assms(1) by simp
  then show ?thesis using n assms(2)
    by (simp add: btsnd_hcic_ble_set_adv_data_def Let_def send_cmd_def cmd_buf_def packet_def hci_packet_def hci_sizes)
qed

theorem adv_data_sends_old_byte_witness:
  "\<exists>b. btsnd_hcic_ble_set_adv_data (Some (replicate 652 0xAA)) 3 (Some [2, 1, 6]) =
      Some [Btu_hcif_send_cmd LOCAL_BR_EDR_CONTROLLER_ID b] \<and>
    packet b = hci_packet HCI_BLE_WRITE_ADV_DATA
      (3 # ARRAY_TO_STREAM [2, 1, 6] (unat (3::u8)) @ replicate (30 - unat (3::u8)) 0 @ [replicate 652 0xAA ! 34])"
  by (rule adv_data_sends_old_byte) simp_all

end
