(* ===== verification/Crc.thy ===== *)
theory Crc
  imports Bt_Prelude
begin

text \<open>
  Reflected cyclic redundancy checks.  Three places of the stack compute one with a lookup table:
  the frame check sequence of RFCOMM (8 bits, one byte per lookup), the frame check sequence of
  L2CAP (16 bits, one byte per lookup) and the data integrity check of the three-wire transport (16
  bits, half a byte per lookup).  The reference here is the shift register itself, which takes the
  message bit by bit, least significant bit of every byte first.  The locale \<open>crc_lookup_table\<close> states
  what a table must hold, and proves once that a lookup is as many steps of the register.
\<close>

section \<open>The shift register\<close>

definition crc_bit :: "'w::len word \<Rightarrow> 'w word \<Rightarrow> bool \<Rightarrow> 'w word" where
  "crc_bit poly c b = (if bit c 0 \<noteq> b then drop_bit 1 c XOR poly else drop_bit 1 c)"

definition low_bits :: "nat \<Rightarrow> u8 \<Rightarrow> bool list" where
  "low_bits k x = map (bit x) [0..<k]"

definition crc_ref :: "'w::len word \<Rightarrow> 'w word \<Rightarrow> bytes \<Rightarrow> 'w word" where
  "crc_ref poly c msg = foldl (crc_bit poly) c (concat (map (low_bits 8) msg))"

text \<open>The register with the input already added to it: \<open>n\<close> steps with zero input.\<close>

definition crc_shift :: "'w::len word \<Rightarrow> 'w word \<Rightarrow> 'w word" where
  "crc_shift poly c = (if bit c 0 then drop_bit 1 c XOR poly else drop_bit 1 c)"

primrec crc_shifts :: "'w::len word \<Rightarrow> nat \<Rightarrow> 'w word \<Rightarrow> 'w word" where
  "crc_shifts poly 0 c = c"
| "crc_shifts poly (Suc n) c = crc_shifts poly n (crc_shift poly c)"

section \<open>Laws of the register\<close>

lemma crc_ref_Nil [simp]: "crc_ref poly c [] = c"
  by (simp add: crc_ref_def)

lemma crc_ref_append: "crc_ref poly c (xs @ ys) = crc_ref poly (crc_ref poly c xs) ys"
  by (simp add: crc_ref_def)

lemma drop_bit_XOR_word: "drop_bit n (a XOR b) = drop_bit n a XOR drop_bit n (b :: 'w::len word)"
  by (rule bit_word_eqI) (simp add: bit_simps)

lemma crc_shift_XOR: "crc_shift poly (a XOR b) = crc_shift poly a XOR crc_shift poly b"
  by (auto simp: crc_shift_def drop_bit_XOR_word bit_xor_iff xor.assoc xor.commute xor.left_commute)

lemma crc_shifts_XOR: "crc_shifts poly n (a XOR b) = crc_shifts poly n a XOR crc_shifts poly n b"
  by (induction n arbitrary: a b) (simp_all add: crc_shift_XOR)

lemma crc_shifts_high: "take_bit n c = 0 \<Longrightarrow> crc_shifts poly n c = drop_bit n c"
proof (induction n arbitrary: c)
  case 0
  then show ?case by simp
next
  case (Suc n)
  have b0: "\<not> bit c 0"
    using arg_cong [OF Suc.prems, of "\<lambda>w. bit w 0"] by (simp add: bit_simps)
  have "take_bit n (drop_bit 1 c) = 0"
  proof (rule bit_word_eqI)
    fix i assume "i < LENGTH('a)"
    show "bit (take_bit n (drop_bit 1 c)) i \<longleftrightarrow> bit 0 i"
      using arg_cong [OF Suc.prems, of "\<lambda>w. bit w (Suc i)"] by (auto simp: bit_simps)
  qed
  from Suc.IH [OF this] b0 show ?case by (simp add: crc_shift_def)
qed

lemma crc_bit_shift: "crc_bit poly c (bit x 0) XOR drop_bit 1 x = crc_shift poly (c XOR x)"
  by (auto simp: crc_bit_def crc_shift_def bit_xor_iff drop_bit_XOR_word xor.assoc xor.commute
      xor.left_commute)

lemma crc_bits_shifts:
  "foldl (crc_bit poly) c (map (bit x) [0..<n]) XOR drop_bit n x = crc_shifts poly n (c XOR x)"
proof (induction n arbitrary: c x)
  case 0
  then show ?case by simp
next
  case (Suc n)
  have "map (bit x) [0..<Suc n] = bit x 0 # map (bit (drop_bit 1 x)) [0..<n]"
    by (simp add: upt_conv_Cons map_Suc_upt [symmetric] bit_simps del: upt_Suc)
  moreover have "drop_bit (Suc n) x = drop_bit n (drop_bit 1 x)" by simp
  ultimately show ?case
    using Suc.IH [of "crc_bit poly c (bit x 0)" "drop_bit 1 x"] crc_bit_shift [of poly c x] by simp
qed

lemma crc_low_bits:
  assumes "k \<le> 8" and "k \<le> LENGTH('w)"
  shows "foldl (crc_bit poly) (c :: 'w::len word) (low_bits k x) =
    crc_shifts poly k (c XOR ucast (take_bit k x))"
proof -
  let ?y = "ucast (take_bit k x) :: 'w word"
  have "low_bits k x = map (bit ?y) [0..<k]"
    using assms by (auto simp: low_bits_def bit_simps)
  moreover have "drop_bit k ?y = 0"
    by (rule bit_word_eqI) (simp add: bit_simps)
  ultimately show ?thesis
    using crc_bits_shifts [of poly c ?y k] by simp
qed

text \<open>The register loses nothing while its polynomial has the top bit set.\<close>

lemma crc_shift_inj:
  fixes poly :: "'w::len word"
  assumes "bit poly (LENGTH('w) - 1)" and "crc_shift poly a = crc_shift poly b"
  shows "a = b"
proof -
  have top: "bit (crc_shift poly c) (LENGTH('w) - 1) = bit c 0" for c :: "'w word"
    using assms(1) by (auto simp: crc_shift_def bit_simps dest: bit_imp_le_length)
  have b0: "bit a 0 = bit b 0" using top [of a] top [of b] assms(2) by simp
  have "drop_bit 1 a = drop_bit 1 b"
    using assms(2) b0 by (auto simp: crc_shift_def split: if_splits) (metis xor.assoc xor_self_eq xor.right_neutral)
  show ?thesis
  proof (rule bit_word_eqI)
    fix n assume "n < LENGTH('w)"
    show "bit a n = bit b n"
    proof (cases n)
      case 0
      with b0 show ?thesis by simp
    next
      case (Suc m)
      then show ?thesis
        using arg_cong [OF \<open>drop_bit 1 a = drop_bit 1 b\<close>, of "\<lambda>w. bit w m"] by (simp add: bit_simps)
    qed
  qed
qed

lemma crc_shifts_inj:
  fixes poly :: "'w::len word"
  assumes "bit poly (LENGTH('w) - 1)"
  shows "crc_shifts poly n a = crc_shifts poly n b \<longleftrightarrow> a = b"
proof (induction n arbitrary: a b)
  case 0
  then show ?case by simp
next
  case (Suc n)
  then show ?case using crc_shift_inj [OF assms] by auto
qed

section \<open>Tables\<close>

text \<open>
  \<open>tab\<close> has an entry for every \<open>k\<close>-bit input: what \<open>k\<close> steps make of it.  \<open>lookup c x\<close> is the way all
  three routines consume \<open>k\<close> bits.
\<close>

definition crc_lookup :: "nat \<Rightarrow> 'w::len word list \<Rightarrow> 'w word \<Rightarrow> u8 \<Rightarrow> 'w word" where
  "crc_lookup k tab c x = drop_bit k c XOR tab ! unat (take_bit k (c XOR ucast x))"

locale crc_lookup_table =
  fixes poly :: "'w::len word" and k :: nat and tab :: "'w word list"
  assumes k8: "k \<le> 8" and kw: "k \<le> LENGTH('w)"
    and tab: "i < 2 ^ k \<Longrightarrow> tab ! i = crc_shifts poly k (of_nat i)"
begin

lemma lookup_shifts: "crc_lookup k tab c x = crc_shifts poly k (c XOR ucast (take_bit k x))"
proof -
  let ?z = "c XOR ucast (take_bit k x)"
  have t: "take_bit k (c XOR ucast x) = take_bit k ?z"
    by (rule bit_word_eqI) (use k8 in \<open>auto simp: bit_simps\<close>)
  have lt: "unat (take_bit k ?z) < 2 ^ k"
    unfolding unsigned_take_bit_eq by (rule take_bit_nat_less_exp)
  have split: "?z = (?z AND NOT (mask k)) XOR take_bit k ?z"
    by (rule bit_word_eqI) (auto simp: bit_simps)
  have "drop_bit k (?z AND NOT (mask k)) = drop_bit k c"
    by (rule bit_word_eqI) (auto simp: bit_simps dest: bit_imp_le_length)
  moreover have "take_bit k (?z AND NOT (mask k)) = 0"
    by (rule bit_word_eqI) (auto simp: bit_simps)
  ultimately have "crc_shifts poly k (?z AND NOT (mask k)) = drop_bit k c"
    by (simp add: crc_shifts_high)
  then have "crc_shifts poly k ?z = drop_bit k c XOR crc_shifts poly k (take_bit k ?z)"
    using crc_shifts_XOR [of poly k "?z AND NOT (mask k)" "take_bit k ?z"] split by simp
  then show ?thesis
    using tab [OF lt] unfolding crc_lookup_def t by (simp del: take_bit_xor)
qed

lemma lookup_bits: "crc_lookup k tab c x = foldl (crc_bit poly) c (low_bits k x)"
  by (simp add: lookup_shifts crc_low_bits k8 kw)

end

text \<open>Tables indexed by a whole byte.\<close>

locale crc_byte_table = crc_lookup_table poly 8 tab
  for poly :: "'w::len word" and tab
begin

lemma fold_lookup: "foldl (crc_lookup 8 tab) c msg = crc_ref poly c msg"
  by (induction msg arbitrary: c) (simp_all add: crc_ref_def lookup_bits)

text \<open>A message with one byte changed never keeps its check value.\<close>

lemma one_byte_detected:
  assumes poly: "bit poly (LENGTH('w) - 1)" and "x \<noteq> y"
  shows "crc_ref poly c (us @ x # vs) \<noteq> crc_ref poly c (us @ y # vs)"
proof -
  have step: "crc_ref poly a [z] = crc_shifts poly 8 (a XOR ucast z)" for a z
    using crc_low_bits [of 8 poly a z] kw take_bit_word_eq_self [of 8 z] by (simp add: crc_ref_def)
  have inj: "crc_ref poly a ws = crc_ref poly b ws \<longleftrightarrow> a = b" for a b ws
  proof (induction ws arbitrary: a b)
    case (Cons w ws)
    have "a XOR ucast w = b XOR ucast w \<longleftrightarrow> a = b"
      by (metis xor.assoc xor_self_eq xor.right_neutral)
    then show ?case
      using Cons.IH crc_ref_append [of poly _ "[w]" ws] by (simp add: step crc_shifts_inj [OF poly])
  qed simp
  have "(ucast x :: 'w word) \<noteq> ucast y"
  proof
    assume "(ucast x :: 'w word) = ucast y"
    then have "bit x n = bit y n" if "n < 8" for n
      using that kw by (auto simp: bit_simps dest!: arg_cong [where f = "\<lambda>w. bit w n"])
    then have "x = y" by (intro bit_word_eqI) simp
    with \<open>x \<noteq> y\<close> show False ..
  qed
  moreover have "a XOR b = a XOR b' \<longleftrightarrow> b = b'" for a b b' :: "'w word"
    by (metis xor.assoc xor_self_eq xor.left_neutral)
  ultimately have "crc_ref poly a [x] \<noteq> crc_ref poly a [y]" for a
    by (simp add: step crc_shifts_inj [OF poly])
  then show ?thesis
    using crc_ref_append [of poly c us] crc_ref_append [of poly _ "[_]" vs] inj by (metis append_Cons append_Nil)
qed

end

text \<open>The 256 inputs of a byte table in order, so that a table can be compared with it at once.\<close>

definition crc_inputs :: "'w::len word list" where
  "crc_inputs = [0x00, 0x01, 0x02, 0x03, 0x04, 0x05, 0x06, 0x07, 0x08, 0x09, 0x0A, 0x0B, 0x0C, 0x0D, 0x0E, 0x0F,
    0x10, 0x11, 0x12, 0x13, 0x14, 0x15, 0x16, 0x17, 0x18, 0x19, 0x1A, 0x1B, 0x1C, 0x1D, 0x1E, 0x1F,
    0x20, 0x21, 0x22, 0x23, 0x24, 0x25, 0x26, 0x27, 0x28, 0x29, 0x2A, 0x2B, 0x2C, 0x2D, 0x2E, 0x2F,
    0x30, 0x31, 0x32, 0x33, 0x34, 0x35, 0x36, 0x37, 0x38, 0x39, 0x3A, 0x3B, 0x3C, 0x3D, 0x3E, 0x3F,
    0x40, 0x41, 0x42, 0x43, 0x44, 0x45, 0x46, 0x47, 0x48, 0x49, 0x4A, 0x4B, 0x4C, 0x4D, 0x4E, 0x4F,
    0x50, 0x51, 0x52, 0x53, 0x54, 0x55, 0x56, 0x57, 0x58, 0x59, 0x5A, 0x5B, 0x5C, 0x5D, 0x5E, 0x5F,
    0x60, 0x61, 0x62, 0x63, 0x64, 0x65, 0x66, 0x67, 0x68, 0x69, 0x6A, 0x6B, 0x6C, 0x6D, 0x6E, 0x6F,
    0x70, 0x71, 0x72, 0x73, 0x74, 0x75, 0x76, 0x77, 0x78, 0x79, 0x7A, 0x7B, 0x7C, 0x7D, 0x7E, 0x7F,
    0x80, 0x81, 0x82, 0x83, 0x84, 0x85, 0x86, 0x87, 0x88, 0x89, 0x8A, 0x8B, 0x8C, 0x8D, 0x8E, 0x8F,
    0x90, 0x91, 0x92, 0x93, 0x94, 0x95, 0x96, 0x97, 0x98, 0x99, 0x9A, 0x9B, 0x9C, 0x9D, 0x9E, 0x9F,
    0xA0, 0xA1, 0xA2, 0xA3, 0xA4, 0xA5, 0xA6, 0xA7, 0xA8, 0xA9, 0xAA, 0xAB, 0xAC, 0xAD, 0xAE, 0xAF,
    0xB0, 0xB1, 0xB2, 0xB3, 0xB4, 0xB5, 0xB6, 0xB7, 0xB8, 0xB9, 0xBA, 0xBB, 0xBC, 0xBD, 0xBE, 0xBF,
    0xC0, 0xC1, 0xC2, 0xC3, 0xC4, 0xC5, 0xC6, 0xC7, 0xC8, 0xC9, 0xCA, 0xCB, 0xCC, 0xCD, 0xCE, 0xCF,
    0xD0, 0xD1, 0xD2, 0xD3, 0xD4, 0xD5, 0xD6, 0xD7, 0xD8, 0xD9, 0xDA, 0xDB, 0xDC, 0xDD, 0xDE, 0xDF,
    0xE0, 0xE1, 0xE2, 0xE3, 0xE4, 0xE5, 0xE6, 0xE7, 0xE8, 0xE9, 0xEA, 0xEB, 0xEC, 0xED, 0xEE, 0xEF,
    0xF0, 0xF1, 0xF2, 0xF3, 0xF4, 0xF5, 0xF6, 0xF7, 0xF8, 0xF9, 0xFA, 0xFB, 0xFC, 0xFD, 0xFE, 0xFF]"

lemma crc_inputs: "crc_inputs = map of_nat [0..<256]"
  by (simp add: crc_inputs_def upt_conv_Cons)

lemma crc_byte_table_of_map:
  "tab = map (crc_shifts poly 8) crc_inputs \<Longrightarrow> i < 2 ^ 8 \<Longrightarrow> tab ! i = crc_shifts poly 8 (of_nat i)"
  by (simp add: crc_inputs)

end
