(* ===== verification/Hci_H5.thy ===== *)
theory Hci_H5
  imports Crc
begin

text \<open>
  The three-wire UART transport of \<^verbatim>\<open>hci/src/hci_h5.c\<close>, the transport the build selects: SLIP framing,
  the packet header with its checksum, the optional CRC, the sliding window with its three queues,
  the link establishment, the ACL reassembly per connection handle, and the inspection of events.

  The control block \<^verbatim>\<open>rtk_h5\<close> is the record \<open>h5_cb\<close>.  Calls that leave the file (the serial port, the
  callbacks of the stack and of the vendor library, the timers) are appended to \<open>h5_outs\<close> in the
  order of the code.  \<open>h5_allocs\<close> lists the outcomes of the next allocations (an empty list: the
  next ones succeed) and \<open>h5_junk\<close> is what \<^verbatim>\<open>malloc\<close> leaves in a connection block.  Where the code
  would use a null pointer, \<open>h5_fault\<close> is set; where it would write behind the length it asked for,
  \<open>h5_overrun\<close>.  Some handlers read fields of a packet without looking at its length.  What they find behind
  the end of a short packet is left over in the buffer; in the model it is \<open>0\<close>.  The mutex that
  \<^verbatim>\<open>h5_wake_up\<close> takes is not modelled.
\<close>

section \<open>State\<close>

record sk_buff =
  sk_type :: u8
  sk_data :: bytes

record hci_conn =
  hc_handle :: u16
  hc_bd_addr :: bytes
  hc_link_type :: u8
  hc_encrypt_enabled :: u8
  hc_NumOfNotCmpAclPkts :: u16
  hc_pending_pkts :: "sk_buff list"
  hc_rx_skb :: "bytes option"

record hc_bt_hdr =
  mg_event :: u16
  mg_len :: u16
  mg_offset :: u16
  mg_layer_specific :: u16
  mg_mem :: bytes

datatype h5_rx_state = H5_W4_PKT_DELIMITER | H5_W4_PKT_START | H5_W4_HDR | H5_W4_DATA | H5_W4_CRC
datatype h5_rx_esc_state = H5_ESCSTATE_NOESC | H5_ESCSTATE_ESC
datatype h5_link_state = H5_UNINITIALIZED | H5_INITIALIZED | H5_ACTIVE
datatype h5_timer = TIMER_H5_DATA_RETRANS | TIMER_H5_SYNC_RETRANS | TIMER_H5_CONF_RETRANS
  | TIMER_H5_WAIT_CT_BAUDRATE_READY
datatype h5_tx_result = BT_HC_TX_SUCCESS | BT_HC_TX_FRAGMENT

datatype h5_out =
    Userial_write bytes
  | Data_ind u16 bytes
  | Cback_h5sync bytes
  | Int_cmd_cback u16 bytes
  | Dealloc hc_bt_hdr
  | Tx_result hc_bt_hdr h5_tx_result
  | Start_timer h5_timer
  | Stop_timer h5_timer
  | Postload_cb bool

record h5_cb =
  h5_unack :: "sk_buff list"
  h5_rel :: "sk_buff list"
  h5_unrel :: "sk_buff list"
  h5_rxseq_txack :: u8
  h5_rxack :: u8
  h5_use_crc :: bool
  h5_is_txack_req :: bool
  h5_msgq_txseq :: u8
  h5_message_crc :: u16
  h5_rx_count :: nat
  h5_rx_state :: h5_rx_state
  h5_rx_esc_state :: h5_rx_esc_state
  h5_link_estab_state :: h5_link_state
  h5_rx_skb :: "bytes option"
  h5_sliding_window_size :: u8
  h5_oof_flow_control :: bool
  h5_dic_type :: bool
  h5_data_retrans_count :: nat
  h5_sync_retrans_count :: nat
  h5_conf_retrans_count :: nat
  h5_HciConnHash :: "hci_conn list"
  h5_hc_acl_data_size :: u16
  h5_hc_ble_acl_data_size :: u16
  h5_hc_cur_acl_total_num :: u16
  h5_p_rcv_msg :: "(u16 \<times> bytes) option"
  h5_cback_set :: bool
  h5_int_cmd_rsp_pending :: nat
  h5_int_cmd_rd_idx :: nat
  h5_int_cmd_wrt_idx :: nat
  h5_int_cmd :: "(u16 \<times> bool) list"
  h5_num_hci_cmd_pkts :: int
  h5_allocs :: "bool list"
  h5_junk :: hci_conn
  h5_fault :: bool
  h5_overrun :: bool
  h5_outs :: "h5_out list"

definition h5_emit :: "h5_out \<Rightarrow> h5_cb \<Rightarrow> h5_cb" where
  "h5_emit x s = s\<lparr>h5_outs := h5_outs s @ [x]\<rparr>"

definition h5_alloc :: "h5_cb \<Rightarrow> bool \<times> h5_cb" where
  "h5_alloc s = (case h5_allocs s of [] \<Rightarrow> (True, s) | b # bs \<Rightarrow> (b, s\<lparr>h5_allocs := bs\<rparr>))"

section \<open>Constants\<close>

definition H5_ACK_PKT :: u8 where "H5_ACK_PKT = 0x00"
definition HCI_COMMAND_PKT :: u8 where "HCI_COMMAND_PKT = 0x01"
definition HCI_ACLDATA_PKT :: u8 where "HCI_ACLDATA_PKT = 0x02"
definition HCI_SCODATA_PKT :: u8 where "HCI_SCODATA_PKT = 0x03"
definition HCI_EVENT_PKT :: u8 where "HCI_EVENT_PKT = 0x04"
definition H5_VDRSPEC_PKT :: u8 where "H5_VDRSPEC_PKT = 0x0E"
definition H5_LINK_CTL_PKT :: u8 where "H5_LINK_CTL_PKT = 0x0F"

lemmas h5_pkt_types = H5_ACK_PKT_def HCI_COMMAND_PKT_def HCI_ACLDATA_PKT_def HCI_SCODATA_PKT_def
  HCI_EVENT_PKT_def H5_VDRSPEC_PKT_def H5_LINK_CTL_PKT_def

definition MSG_HC_TO_STACK_HCI_EVT :: u16 where "MSG_HC_TO_STACK_HCI_EVT = 0x1000"
definition MSG_HC_TO_STACK_HCI_ACL :: u16 where "MSG_HC_TO_STACK_HCI_ACL = 0x1100"
definition MSG_HC_TO_STACK_HCI_SCO :: u16 where "MSG_HC_TO_STACK_HCI_SCO = 0x1200"
definition MSG_HC_TO_STACK_HCI_ERR :: u16 where "MSG_HC_TO_STACK_HCI_ERR = 0x1300"
definition MSG_HC_TO_STACK_L2C_SEG_XMIT :: u16 where "MSG_HC_TO_STACK_L2C_SEG_XMIT = 0x1900"
definition MSG_STACK_TO_HC_HCI_CMD :: u16 where "MSG_STACK_TO_HC_HCI_CMD = 0x2000"
definition MSG_STACK_TO_HC_HCI_ACL :: u16 where "MSG_STACK_TO_HC_HCI_ACL = 0x2100"
definition MSG_STACK_TO_HC_HCI_SCO :: u16 where "MSG_STACK_TO_HC_HCI_SCO = 0x2200"

definition DATA_RETRANS_COUNT :: nat where "DATA_RETRANS_COUNT = 1000"
definition SYNC_RETRANS_COUNT :: nat where "SYNC_RETRANS_COUNT = 100"
definition CONF_RETRANS_COUNT :: nat where "CONF_RETRANS_COUNT = 100"
definition INT_CMD_PKT_MAX_COUNT :: nat where "INT_CMD_PKT_MAX_COUNT = 8"
definition HCI_ACL_PREAMBLE_SIZE :: nat where "HCI_ACL_PREAMBLE_SIZE = 4"

definition h5sync :: bytes where "h5sync = [0x01, 0x7E]"
definition h5syncresp :: bytes where "h5syncresp = [0x02, 0x7D]"
definition h5conf :: bytes where "h5conf = [0x03, 0xFC, 0x14]"
definition h5confresp :: bytes where "h5confresp = [0x04, 0x7B]"

section \<open>Checks\<close>

definition byte_rev_table :: "u8 list" where
  "byte_rev_table = [0x00, 0x80, 0x40, 0xc0, 0x20, 0xa0, 0x60, 0xe0, 0x10, 0x90, 0x50, 0xd0, 0x30, 0xb0, 0x70, 0xf0,
    0x08, 0x88, 0x48, 0xc8, 0x28, 0xa8, 0x68, 0xe8, 0x18, 0x98, 0x58, 0xd8, 0x38, 0xb8, 0x78, 0xf8,
    0x04, 0x84, 0x44, 0xc4, 0x24, 0xa4, 0x64, 0xe4, 0x14, 0x94, 0x54, 0xd4, 0x34, 0xb4, 0x74, 0xf4,
    0x0c, 0x8c, 0x4c, 0xcc, 0x2c, 0xac, 0x6c, 0xec, 0x1c, 0x9c, 0x5c, 0xdc, 0x3c, 0xbc, 0x7c, 0xfc,
    0x02, 0x82, 0x42, 0xc2, 0x22, 0xa2, 0x62, 0xe2, 0x12, 0x92, 0x52, 0xd2, 0x32, 0xb2, 0x72, 0xf2,
    0x0a, 0x8a, 0x4a, 0xca, 0x2a, 0xaa, 0x6a, 0xea, 0x1a, 0x9a, 0x5a, 0xda, 0x3a, 0xba, 0x7a, 0xfa,
    0x06, 0x86, 0x46, 0xc6, 0x26, 0xa6, 0x66, 0xe6, 0x16, 0x96, 0x56, 0xd6, 0x36, 0xb6, 0x76, 0xf6,
    0x0e, 0x8e, 0x4e, 0xce, 0x2e, 0xae, 0x6e, 0xee, 0x1e, 0x9e, 0x5e, 0xde, 0x3e, 0xbe, 0x7e, 0xfe,
    0x01, 0x81, 0x41, 0xc1, 0x21, 0xa1, 0x61, 0xe1, 0x11, 0x91, 0x51, 0xd1, 0x31, 0xb1, 0x71, 0xf1,
    0x09, 0x89, 0x49, 0xc9, 0x29, 0xa9, 0x69, 0xe9, 0x19, 0x99, 0x59, 0xd9, 0x39, 0xb9, 0x79, 0xf9,
    0x05, 0x85, 0x45, 0xc5, 0x25, 0xa5, 0x65, 0xe5, 0x15, 0x95, 0x55, 0xd5, 0x35, 0xb5, 0x75, 0xf5,
    0x0d, 0x8d, 0x4d, 0xcd, 0x2d, 0xad, 0x6d, 0xed, 0x1d, 0x9d, 0x5d, 0xdd, 0x3d, 0xbd, 0x7d, 0xfd,
    0x03, 0x83, 0x43, 0xc3, 0x23, 0xa3, 0x63, 0xe3, 0x13, 0x93, 0x53, 0xd3, 0x33, 0xb3, 0x73, 0xf3,
    0x0b, 0x8b, 0x4b, 0xcb, 0x2b, 0xab, 0x6b, 0xeb, 0x1b, 0x9b, 0x5b, 0xdb, 0x3b, 0xbb, 0x7b, 0xfb,
    0x07, 0x87, 0x47, 0xc7, 0x27, 0xa7, 0x67, 0xe7, 0x17, 0x97, 0x57, 0xd7, 0x37, 0xb7, 0x77, 0xf7,
    0x0f, 0x8f, 0x4f, 0xcf, 0x2f, 0xaf, 0x6f, 0xef, 0x1f, 0x9f, 0x5f, 0xdf, 0x3f, 0xbf, 0x7f, 0xff]"

definition bit_rev8 :: "u8 \<Rightarrow> u8" where
  "bit_rev8 b = byte_rev_table ! unat b"

definition bit_rev16 :: "u16 \<Rightarrow> u16" where
  "bit_rev16 x = push_bit 8 (ucast (bit_rev8 (ucast x))) OR ucast (bit_rev8 (ucast (drop_bit 8 x)))"

definition crc_table :: "u16 list" where
  "crc_table = [0x0000, 0x1081, 0x2102, 0x3183, 0x4204, 0x5285, 0x6306, 0x7387,
    0x8408, 0x9489, 0xa50a, 0xb58b, 0xc60c, 0xd68d, 0xe70e, 0xf78f]"

definition h5_crc_update :: "u16 \<Rightarrow> u8 \<Rightarrow> u16" where
  "h5_crc_update crc d =
     (let reg = drop_bit 4 crc XOR crc_table ! unat ((crc XOR ucast d) AND 0x000f);
          reg = drop_bit 4 reg XOR crc_table ! unat ((reg XOR ucast (drop_bit 4 d)) AND 0x000f)
      in reg)"

definition h5_get_crc :: "bytes \<Rightarrow> u16" where
  "h5_get_crc d = ucast (rd d (length d - 2 + 1)) + push_bit 8 (ucast (rd d (length d - 2)))"

section \<open>Packet buffers\<close>

text \<open>\<^verbatim>\<open>skb_pull\<close> takes nothing from a buffer that holds fewer bytes than it is asked to take.\<close>

definition skb_pull :: "nat \<Rightarrow> bytes \<Rightarrow> bytes" where
  "skb_pull n d = (if n \<le> length d then drop n d else d)"

section \<open>SLIP\<close>

definition h5_slip_msgdelim :: bytes where
  "h5_slip_msgdelim = [0xc0]"

definition h5_slip_one_byte :: "u8 \<Rightarrow> bytes" where
  "h5_slip_one_byte c =
     (if c = 0xc0 then [0xdb, 0xdc]
      else if c = 0xdb then [0xdb, 0xdd]
      else if c = 0x11 then [0xdb, 0xde]
      else if c = 0x13 then [0xdb, 0xdf]
      else [c])"

section \<open>The packet header\<close>

text \<open>The bit fields of \<^verbatim>\<open>H5_PKT_HEADER\<close> (little endian) in the first bytes of a packet.\<close>

definition hdr_SeqNumber :: "bytes \<Rightarrow> u8" where "hdr_SeqNumber d = rd d 0 AND 0x07"
definition hdr_AckNumber :: "bytes \<Rightarrow> u8" where "hdr_AckNumber d = drop_bit 3 (rd d 0) AND 0x07"
definition hdr_DicPresent :: "bytes \<Rightarrow> bool" where "hdr_DicPresent d = bit (rd d 0) 6"
definition hdr_ReliablePkt :: "bytes \<Rightarrow> bool" where "hdr_ReliablePkt d = bit (rd d 0) 7"
definition hdr_PktType :: "bytes \<Rightarrow> u8" where "hdr_PktType d = rd d 1 AND 0x0f"
definition hdr_PayloadLen :: "bytes \<Rightarrow> nat" where
  "hdr_PayloadLen d = unat (drop_bit 4 (rd16 d 1))"

lemmas hdr_defs = hdr_SeqNumber_def hdr_AckNumber_def hdr_DicPresent_def hdr_ReliablePkt_def
  hdr_PktType_def hdr_PayloadLen_def

section \<open>Sending\<close>

definition h5_rel_type :: "u8 \<Rightarrow> bool option" where
  "h5_rel_type t =
     (if t = HCI_ACLDATA_PKT \<or> t = HCI_COMMAND_PKT \<or> t = HCI_EVENT_PKT then Some True
      else if t = H5_ACK_PKT \<or> t = H5_VDRSPEC_PKT \<or> t = H5_LINK_CTL_PKT then Some False
      else None)"

definition h5_tx_hdr :: "h5_cb \<Rightarrow> bool \<Rightarrow> nat \<Rightarrow> u8 \<Rightarrow> bytes" where
  "h5_tx_hdr s reliable len t =
     (let h0 = push_bit 3 (h5_rxseq_txack s);
          h0 = (if reliable then h0 OR (0x80 + h5_msgq_txseq s) else h0);
          h0 = (if h5_use_crc s then h0 OR 0x40 else h0);
          h1 = push_bit 4 (of_nat len) OR t;
          h2 = of_nat (len div 16)
      in [h0, h1, h2, NOT (h0 + h1 + h2)])"

definition h5_tx_crc :: "bytes \<Rightarrow> bytes" where
  "h5_tx_crc w =
     (let crc = bit_rev16 (foldl h5_crc_update 0xffff w)
      in [ucast (drop_bit 8 crc AND 0x00ff), ucast (crc AND 0x00ff)])"

definition h5_tx_bytes :: "h5_cb \<Rightarrow> bool \<Rightarrow> bytes \<Rightarrow> u8 \<Rightarrow> bytes" where
  "h5_tx_bytes s reliable d t =
     (let w = h5_tx_hdr s reliable (length d) t @ d;
          w = (if h5_use_crc s then w @ h5_tx_crc w else w)
      in h5_slip_msgdelim @ concat (map h5_slip_one_byte w) @ h5_slip_msgdelim)"

definition h5_prepare_pkt :: "bytes \<Rightarrow> u8 \<Rightarrow> h5_cb \<Rightarrow> bytes option \<times> h5_cb" where
  "h5_prepare_pkt d t s =
     (case h5_rel_type t of
        None \<Rightarrow> (None, s)
      | Some reliable \<Rightarrow>
          (let (ok, s1) = h5_alloc s in
           if \<not> ok then (None, s1)
           else
             let w = h5_tx_bytes s1 reliable d t;
                 s2 = s1\<lparr>h5_is_txack_req := False,
                         h5_msgq_txseq := if reliable then (h5_msgq_txseq s1 + 1) AND 0x07
                                          else h5_msgq_txseq s1,
                         h5_fault := h5_fault s1 \<or> (length d + 6) * 2 + 2 < length w\<rparr>
             in (Some w, s2)))"

definition h5_start_data_retrans_timer :: "h5_cb \<Rightarrow> h5_cb" where
  "h5_start_data_retrans_timer = h5_emit (Start_timer TIMER_H5_DATA_RETRANS)"

definition h5_stop_data_retrans_timer :: "h5_cb \<Rightarrow> h5_cb" where
  "h5_stop_data_retrans_timer = h5_emit (Stop_timer TIMER_H5_DATA_RETRANS)"

text \<open>The loop of \<^verbatim>\<open>h5_remove_acked_pkt\<close> that walks back from the next sequence number.\<close>

fun h5_count_acked :: "u8 \<Rightarrow> u8 \<Rightarrow> nat \<Rightarrow> nat" where
  "h5_count_acked rxack seqno 0 = 0"
| "h5_count_acked rxack seqno (Suc n) =
     (if rxack = seqno then Suc n else h5_count_acked rxack ((seqno - 1) AND 0x07) n)"

definition h5_remove_acked_pkt :: "h5_cb \<Rightarrow> h5_cb" where
  "h5_remove_acked_pkt s =
     (let n = h5_count_acked (h5_rxack s) (h5_msgq_txseq s) (length (h5_unack s));
          s1 = s\<lparr>h5_unack := drop n (h5_unack s)\<rparr>
      in if h5_unack s1 = [] then (h5_stop_data_retrans_timer s1)\<lparr>h5_data_retrans_count := 0\<rparr>
         else s1)"

definition h5_send_unrel :: "bytes \<Rightarrow> u8 \<Rightarrow> h5_cb \<Rightarrow> h5_cb" where
  "h5_send_unrel d t s =
     (case h5_prepare_pkt d t s of
        (None, s1) \<Rightarrow> s1
      | (Some w, s1) \<Rightarrow> h5_emit (Userial_write w) s1)"

definition hci_h5_send_pure_ack :: "h5_cb \<Rightarrow> h5_cb" where
  "hci_h5_send_pure_ack = h5_send_unrel [] H5_ACK_PKT"
definition hci_h5_send_sync_req :: "h5_cb \<Rightarrow> h5_cb" where
  "hci_h5_send_sync_req = h5_send_unrel h5sync H5_LINK_CTL_PKT"
definition hci_h5_send_sync_resp :: "h5_cb \<Rightarrow> h5_cb" where
  "hci_h5_send_sync_resp = h5_send_unrel h5syncresp H5_LINK_CTL_PKT"
definition hci_h5_send_conf_req :: "h5_cb \<Rightarrow> h5_cb" where
  "hci_h5_send_conf_req = h5_send_unrel h5conf H5_LINK_CTL_PKT"
definition hci_h5_send_conf_resp :: "h5_cb \<Rightarrow> h5_cb" where
  "hci_h5_send_conf_resp = h5_send_unrel h5confresp H5_LINK_CTL_PKT"

text \<open>The next packet to put on the wire.\<close>

definition h5_dequeue :: "h5_cb \<Rightarrow> bytes option \<times> h5_cb" where
  "h5_dequeue s =
     (let (r, s) = (case h5_unrel s of
            [] \<Rightarrow> (None, s)
          | x # xs \<Rightarrow>
              (case h5_prepare_pkt (sk_data x) (sk_type x) (s\<lparr>h5_unrel := xs\<rparr>) of
                 (Some w, s1) \<Rightarrow> (Some w, s1)
               | (None, s1) \<Rightarrow> (None, s1\<lparr>h5_unrel := x # h5_unrel s1\<rparr>)))
      in case r of Some w \<Rightarrow> (Some w, s) | None \<Rightarrow>
     (let (r, s) = (case h5_rel s of
            [] \<Rightarrow> (None, s)
          | x # xs \<Rightarrow>
              if length (h5_unack s) < unat (h5_sliding_window_size s) then
                (case h5_prepare_pkt (sk_data x) (sk_type x) (s\<lparr>h5_rel := xs\<rparr>) of
                   (Some w, s1) \<Rightarrow>
                     (Some w, h5_start_data_retrans_timer (s1\<lparr>h5_unack := h5_unack s1 @ [x]\<rparr>))
                 | (None, s1) \<Rightarrow> (None, s1\<lparr>h5_rel := x # h5_rel s1\<rparr>))
              else (None, s))
      in case r of Some w \<Rightarrow> (Some w, s) | None \<Rightarrow>
     (if h5_is_txack_req s then h5_prepare_pkt [] H5_ACK_PKT s else (None, s))))"

definition h5_enqueue :: "sk_buff \<Rightarrow> h5_cb \<Rightarrow> h5_cb" where
  "h5_enqueue x s =
     (if length (sk_data x) > 0xFFF then s
      else if sk_type x = HCI_ACLDATA_PKT \<or> sk_type x = HCI_COMMAND_PKT then
        s\<lparr>h5_rel := h5_rel s @ [x]\<rparr>
      else if sk_type x = H5_LINK_CTL_PKT \<or> sk_type x = H5_ACK_PKT \<or> sk_type x = H5_VDRSPEC_PKT then
        s\<lparr>h5_unrel := h5_unrel s @ [x]\<rparr>
      else s)"

text \<open>Every packet that is dequeued shortens a queue or answers a pending acknowledgement.\<close>

definition h5_backlog :: "h5_cb \<Rightarrow> nat" where
  "h5_backlog s = length (h5_unrel s) + length (h5_rel s) + (if h5_is_txack_req s then 1 else 0)"

lemma h5_alloc_state: "snd (h5_alloc s) = s\<lparr>h5_allocs := tl (h5_allocs s)\<rparr>"
  by (cases "h5_allocs s") (simp_all add: h5_alloc_def)

lemma h5_prepare_None: "h5_prepare_pkt d t s = (None, s') \<Longrightarrow> \<exists>a. s' = s\<lparr>h5_allocs := a\<rparr>"
  using h5_alloc_state [of s]
  by (auto simp: h5_prepare_pkt_def Let_def split: option.splits prod.splits if_splits)
    (metis h5_cb.surjective h5_cb.update_convs(32))+

lemma h5_prepare_Some:
  "h5_prepare_pkt d t s = (Some w, s') \<Longrightarrow>
   h5_unrel s' = h5_unrel s \<and> h5_rel s' = h5_rel s \<and> h5_unack s' = h5_unack s \<and> \<not> h5_is_txack_req s'"
  using h5_alloc_state [of s]
  by (auto simp: h5_prepare_pkt_def Let_def split: option.splits prod.splits if_splits)

lemma h5_dequeue_backlog: "h5_dequeue s = (Some w, s') \<Longrightarrow> h5_backlog s' < h5_backlog s"
  by (auto simp: h5_dequeue_def h5_backlog_def h5_start_data_retrans_timer_def h5_emit_def Let_def
      split: list.splits option.splits prod.splits if_splits
      dest!: h5_prepare_Some h5_prepare_None)

function h5_wake_up :: "h5_cb \<Rightarrow> h5_cb" where
  "h5_wake_up s =
     (case h5_dequeue s of
        (None, s1) \<Rightarrow> s1
      | (Some w, s1) \<Rightarrow> h5_wake_up (h5_emit (Userial_write w) s1))"
  by pat_completeness auto
termination
  by (relation "measure h5_backlog")
    (auto dest: h5_dequeue_backlog [OF sym] simp: h5_emit_def h5_backlog_def)

declare h5_wake_up.simps [simp del]

section \<open>Link establishment\<close>

definition rtk_notify_hw_h5_init_result :: "h5_cb \<Rightarrow> h5_cb" where
  "rtk_notify_hw_h5_init_result s =
     (let (ok, s1) = h5_alloc s in
      if ok \<and> h5_cback_set s1 then h5_emit (Cback_h5sync [0x0e, 0x04, 0x02, 0xEE, 0xFC, 0x00]) s1
      else s1)"

definition mem_eq2 :: "bytes \<Rightarrow> bytes \<Rightarrow> bool" where
  "mem_eq2 d pat \<longleftrightarrow> rd d 0 = rd pat 0 \<and> rd d 1 = rd pat 1"

text \<open>\<open>d\<close> is the payload of the received link control packet.\<close>

definition h5_process_ctl_pkts :: "bytes \<Rightarrow> h5_cb \<Rightarrow> h5_cb" where
  "h5_process_ctl_pkts d s =
     (case h5_link_estab_state s of
        H5_UNINITIALIZED \<Rightarrow>
          if mem_eq2 d h5sync then hci_h5_send_sync_resp s
          else if mem_eq2 d h5syncresp then
            (let s1 = h5_emit (Stop_timer TIMER_H5_SYNC_RETRANS) s;
                 s2 = s1\<lparr>h5_sync_retrans_count := 0, h5_link_estab_state := H5_INITIALIZED\<rparr>
             in h5_emit (Start_timer TIMER_H5_CONF_RETRANS) (hci_h5_send_conf_req s2))
          else s
      | H5_INITIALIZED \<Rightarrow>
          if mem_eq2 d h5sync then hci_h5_send_sync_resp s
          else if mem_eq2 d h5conf then hci_h5_send_conf_resp s
          else if mem_eq2 d h5confresp then
            (let s1 = h5_emit (Stop_timer TIMER_H5_CONF_RETRANS) s;
                 f = rd d 2;
                 s2 = s1\<lparr>h5_conf_retrans_count := 0, h5_link_estab_state := H5_ACTIVE,
                         h5_sliding_window_size := f AND 0x07,
                         h5_oof_flow_control := bit f 3, h5_dic_type := bit f 4\<rparr>
             in rtk_notify_hw_h5_init_result s2)
          else s
      | H5_ACTIVE \<Rightarrow>
          if mem_eq2 d h5sync then
            (let s1 = hci_h5_send_sync_resp s;
                 s2 = s1\<lparr>h5_link_estab_state := H5_UNINITIALIZED\<rparr>
             in h5_emit (Start_timer TIMER_H5_SYNC_RETRANS) (hci_h5_send_sync_req s2))
          else if mem_eq2 d h5conf then hci_h5_send_conf_resp s
          else s)"

section \<open>Connections\<close>

fun find_index :: "('a \<Rightarrow> bool) \<Rightarrow> 'a list \<Rightarrow> nat option" where
  "find_index P [] = None"
| "find_index P (x # xs) = (if P x then Some 0 else map_option Suc (find_index P xs))"

definition ConnHashLookupByHandle :: "u16 \<Rightarrow> h5_cb \<Rightarrow> nat option" where
  "ConnHashLookupByHandle h s = find_index (\<lambda>c. (h AND 0xEFF) = hc_handle c) (h5_HciConnHash s)"

definition h5_conn :: "nat \<Rightarrow> h5_cb \<Rightarrow> hci_conn" where
  "h5_conn i s = h5_HciConnHash s ! i"

definition h5_upd_conn :: "nat \<Rightarrow> (hci_conn \<Rightarrow> hci_conn) \<Rightarrow> h5_cb \<Rightarrow> h5_cb" where
  "h5_upd_conn i f s = s\<lparr>h5_HciConnHash := (h5_HciConnHash s)[i := f (h5_HciConnHash s ! i)]\<rparr>"

definition HciConnAllocate :: "u16 \<Rightarrow> h5_cb \<Rightarrow> hci_conn option \<times> h5_cb" where
  "HciConnAllocate h s =
     (let (ok, s1) = h5_alloc s in
      (if ok then Some ((h5_junk s1)\<lparr>hc_handle := h, hc_pending_pkts := [], hc_rx_skb := None\<rparr>)
       else None, s1))"

definition ConnHashAdd :: "hci_conn \<Rightarrow> h5_cb \<Rightarrow> h5_cb" where
  "ConnHashAdd c s = s\<lparr>h5_HciConnHash := h5_HciConnHash s @ [c]\<rparr>"

definition ConnHashDelete :: "nat \<Rightarrow> h5_cb \<Rightarrow> h5_cb" where
  "ConnHashDelete i s =
     s\<lparr>h5_HciConnHash := take i (h5_HciConnHash s) @ drop (Suc i) (h5_HciConnHash s)\<rparr>"

section \<open>Events\<close>

text \<open>The loop over the pending packets of a connection while the controller has room.\<close>

fun h5_send_pending :: "nat \<Rightarrow> sk_buff list \<Rightarrow> h5_cb \<Rightarrow> h5_cb" where
  "h5_send_pending i [] s = s"
| "h5_send_pending i (x # xs) s =
     (if h5_hc_cur_acl_total_num s > 0 then
        (let s = h5_upd_conn i (\<lambda>c. c\<lparr>hc_pending_pkts := xs\<rparr>) s;
             s = h5_enqueue x s;
             s = s\<lparr>h5_hc_cur_acl_total_num := h5_hc_cur_acl_total_num s - 1\<rparr>;
             s = h5_upd_conn i (\<lambda>c. c\<lparr>hc_NumOfNotCmpAclPkts := hc_NumOfNotCmpAclPkts c + 1\<rparr>) s
         in h5_send_pending i xs (h5_wake_up s))
      else s)"

text \<open>One pass over the handles of a completed-packets event: \<open>h\<close> walks the handles, \<open>n\<close> the counts.\<close>

fun h5_num_cmp_pkts :: "bytes \<Rightarrow> nat \<Rightarrow> nat \<Rightarrow> nat \<Rightarrow> h5_cb \<Rightarrow> h5_cb" where
  "h5_num_cmp_pkts p 0 h n s = s"
| "h5_num_cmp_pkts p (Suc k) h n s =
     (case ConnHashLookupByHandle (rd16 p h) s of
        None \<Rightarrow> h5_num_cmp_pkts p k (h + 2) n s
      | Some i \<Rightarrow>
          (let ocp = rd16 p n;
               s = s\<lparr>h5_hc_cur_acl_total_num := h5_hc_cur_acl_total_num s + ocp\<rparr>;
               s = h5_upd_conn i (\<lambda>c. c\<lparr>hc_NumOfNotCmpAclPkts := hc_NumOfNotCmpAclPkts c - ocp\<rparr>) s;
               s = h5_send_pending i (hc_pending_pkts (h5_conn i s)) s
           in h5_num_cmp_pkts p k (h + 2) (n + 2) s))"

definition h5_command_complete :: "bytes \<Rightarrow> h5_cb \<Rightarrow> bool \<times> h5_cb" where
  "h5_command_complete p s =
     (let s = s\<lparr>h5_num_hci_cmd_pkts := uint (rd p 2)\<rparr> in
      if h5_int_cmd_rsp_pending s > 0 \<and> rd16 p 3 = fst (h5_int_cmd s ! h5_int_cmd_rd_idx s) then
        (let s1 = (if rd16 p 3 = 0xFC17 then h5_emit (Start_timer TIMER_H5_WAIT_CT_BAUDRATE_READY) s
                   else if snd (h5_int_cmd s ! h5_int_cmd_rd_idx s) then
                     h5_emit (Int_cmd_cback (rd16 p 3) p) s
                   else h5_emit (Dealloc \<lparr>mg_event = MSG_HC_TO_STACK_HCI_EVT,
                          mg_len = of_nat (length p), mg_offset = 0, mg_layer_specific = 0, mg_mem = p\<rparr>) s)
         in (True, s1\<lparr>h5_int_cmd_rd_idx := (h5_int_cmd_rd_idx s1 + 1) mod 8,
                     h5_int_cmd_rsp_pending := h5_int_cmd_rsp_pending s1 - 1\<rparr>))
      else (False, s))"

definition h5_command_status :: "bytes \<Rightarrow> h5_cb \<Rightarrow> bool \<times> h5_cb" where
  "h5_command_status p s =
     (let s = s\<lparr>h5_num_hci_cmd_pkts := uint (rd p 3)\<rparr> in (rd16 p 3 = 0x0001, s))"

definition h5_conn_fields :: "bytes \<Rightarrow> hci_conn \<Rightarrow> hci_conn" where
  "h5_conn_fields p c =
     c\<lparr>hc_bd_addr := map (rd p) [5..<11], hc_link_type := rd p 11, hc_encrypt_enabled := rd p 12,
      hc_NumOfNotCmpAclPkts := 0\<rparr>"

definition h5_connection_comp :: "bytes \<Rightarrow> h5_cb \<Rightarrow> h5_cb" where
  "h5_connection_comp p s =
     (if rd p 2 \<noteq> 0 then s
      else case ConnHashLookupByHandle (rd16 p 3) s of
        None \<Rightarrow> (case HciConnAllocate (rd16 p 3) s of
            (None, s1) \<Rightarrow> s1
          | (Some c, s1) \<Rightarrow> ConnHashAdd (h5_conn_fields p c) s1)
      | Some i \<Rightarrow> h5_upd_conn i (h5_conn_fields p) s)"

definition h5_disconnection_comp :: "bytes \<Rightarrow> h5_cb \<Rightarrow> h5_cb" where
  "h5_disconnection_comp p s =
     (if rd p 2 \<noteq> 0 then s
      else case ConnHashLookupByHandle (rd16 p 3) s of
        None \<Rightarrow> s
      | Some i \<Rightarrow> ConnHashDelete i (s\<lparr>h5_hc_cur_acl_total_num :=
            h5_hc_cur_acl_total_num s + hc_NumOfNotCmpAclPkts (h5_conn i s)\<rparr>))"

definition internal_event_intercept_h5 :: "bytes \<Rightarrow> h5_cb \<Rightarrow> bool \<times> h5_cb" where
  "internal_event_intercept_h5 p s =
     (let event_code = rd p 0; len = rd p 1 in
      if event_code = 0x0E then h5_command_complete p s
      else if event_code = 0x0F then h5_command_status p s
      else if event_code = 0x13 then
        (let num_of_handle = unat (rd p 2) in
         if unat len < num_of_handle * 4 + 1 then (False, s)
         else (False, h5_num_cmp_pkts p num_of_handle 3 (3 + num_of_handle * 2) s))
      else if event_code = 0x03 then (False, h5_connection_comp p s)
      else if event_code = 0x05 then (False, h5_disconnection_comp p s)
      else (False, s))"

text \<open>\<open>None\<close> for the message that could not be allocated: the code reads through the null pointer.\<close>

definition hci_recv_frame :: "u8 \<Rightarrow> h5_cb \<Rightarrow> h5_cb" where
  "hci_recv_frame t s =
     (case h5_p_rcv_msg s of
        None \<Rightarrow> s\<lparr>h5_fault := True\<rparr>
      | Some (ev, p) \<Rightarrow>
          (let (intercepted, s) = (if t = HCI_EVENT_PKT then internal_event_intercept_h5 p s else (False, s))
           in if intercepted then s else h5_emit (Data_ind ev p) s))"

section \<open>Reassembly of ACL packets\<close>

definition acl_rx_frame_end_chk :: "bytes \<Rightarrow> bool" where
  "acl_rx_frame_end_chk d =
     (let data_len = of_nat (length d) :: u16 in
      if data_len < 6 then False
      else if rd16 d 2 > 0 then \<not> (uint (rd16 d 4) > uint data_len - 8)
      else True)"

definition acl_join :: "bytes \<Rightarrow> bytes \<Rightarrow> bytes" where
  "acl_join old cur =
     poke (old @ skb_pull HCI_ACL_PREAMBLE_SIZE cur) 2 (UINT16_TO_STREAM (rd16 cur 2 + rd16 old 2))"

definition acl_store_first :: "nat \<Rightarrow> bytes \<Rightarrow> h5_cb \<Rightarrow> bool \<times> h5_cb" where
  "acl_store_first i d s =
     (let (ok, s1) = h5_alloc s in
      if ok then (True, h5_upd_conn i (\<lambda>c. c\<lparr>hc_rx_skb := Some d\<rparr>) s1)
      else (False, s1\<lparr>h5_fault := True\<rparr>))"

text \<open>
  The joined buffer has the length \<open>tot\<close> in 16 bits: a longer sum is copied behind it, and in one of
  fewer than four bytes the length field of the header is written behind it.
\<close>

definition acl_store_next :: "nat \<Rightarrow> bytes \<Rightarrow> bytes \<Rightarrow> h5_cb \<Rightarrow> bool \<times> h5_cb" where
  "acl_store_next i old d s =
     (let (ok, s1) = h5_alloc s; tot = length old + length (skb_pull HCI_ACL_PREAMBLE_SIZE d) in
      if ok then (True, h5_upd_conn i (\<lambda>c. c\<lparr>hc_rx_skb := Some (acl_join old d)\<rparr>)
                        (s1\<lparr>h5_overrun := h5_overrun s1 \<or> 65535 < tot \<or> tot < 4\<rparr>))
      else (False, s1))"

definition hci_rx_dispatch_by_handle :: "bytes \<Rightarrow> h5_cb \<Rightarrow> bool \<times> h5_cb" where
  "hci_rx_dispatch_by_handle d s =
     (let handle = rd16 d 0 AND 0x0FFF;
          (r, s) = (case ConnHashLookupByHandle handle s of
             Some i \<Rightarrow> (Some i, s)
           | None \<Rightarrow> (case HciConnAllocate handle s of
               (None, s1) \<Rightarrow> (None, s1)
             | (Some c, s1) \<Rightarrow> (Some (length (h5_HciConnHash s1)), ConnHashAdd c s1)))
      in case r of
        None \<Rightarrow> (False, s)
      | Some i \<Rightarrow>
          (let (ok, s) = (case hc_rx_skb (h5_conn i s) of
                 None \<Rightarrow> acl_store_first i d s
               | Some old \<Rightarrow> acl_store_next i old d s)
           in if \<not> ok then (False, s)
              else case hc_rx_skb (h5_conn i s) of
                None \<Rightarrow> (False, s)
              | Some t \<Rightarrow>
                  if acl_rx_frame_end_chk t then
                    (True, h5_upd_conn i (\<lambda>c. c\<lparr>hc_rx_skb := None\<rparr>) (s\<lparr>h5_rx_skb := Some t\<rparr>))
                  else (False, s)))"

section \<open>Receiving\<close>

definition h5_rx_data :: "h5_cb \<Rightarrow> bytes" where
  "h5_rx_data s = (case h5_rx_skb s of None \<Rightarrow> [] | Some d \<Rightarrow> d)"

definition H5_RX_ALLOC :: nat where "H5_RX_ALLOC = 0x1005"

text \<open>\<^verbatim>\<open>memcpy (skb_put (rx_skb, 1), &b, 1)\<close>: a null result of \<^verbatim>\<open>skb_put\<close> is a fault.\<close>

definition h5_rx_put :: "u8 \<Rightarrow> h5_cb \<Rightarrow> h5_cb" where
  "h5_rx_put b s =
     (case h5_rx_skb s of
        None \<Rightarrow> s\<lparr>h5_fault := True\<rparr>
      | Some d \<Rightarrow>
          if length d < H5_RX_ALLOC then
            (let s1 = s\<lparr>h5_rx_skb := Some (d @ [b])\<rparr>
             in s1\<lparr>h5_message_crc := (if hdr_DicPresent (d @ [b]) \<and> h5_rx_state s \<noteq> H5_W4_CRC
                                     then h5_crc_update (h5_message_crc s) b else h5_message_crc s),
                  h5_rx_count := h5_rx_count s - 1\<rparr>)
          else s\<lparr>h5_fault := True\<rparr>)"

definition h5_unslip_one_byte :: "u8 \<Rightarrow> h5_cb \<Rightarrow> h5_cb" where
  "h5_unslip_one_byte b s =
     (case h5_rx_esc_state s of
        H5_ESCSTATE_NOESC \<Rightarrow>
          if b = 0xdb then s\<lparr>h5_rx_esc_state := H5_ESCSTATE_ESC\<rparr> else h5_rx_put b s
      | H5_ESCSTATE_ESC \<Rightarrow>
          if b = 0xdc then (h5_rx_put 0xc0 s)\<lparr>h5_rx_esc_state := H5_ESCSTATE_NOESC\<rparr>
          else if b = 0xdd then (h5_rx_put 0xdb s)\<lparr>h5_rx_esc_state := H5_ESCSTATE_NOESC\<rparr>
          else if b = 0xde then (h5_rx_put 0x11 s)\<lparr>h5_rx_esc_state := H5_ESCSTATE_NOESC\<rparr>
          else if b = 0xdf then (h5_rx_put 0x13 s)\<lparr>h5_rx_esc_state := H5_ESCSTATE_NOESC\<rparr>
          else s\<lparr>h5_rx_skb := None, h5_rx_state := H5_W4_PKT_DELIMITER, h5_rx_count := 0\<rparr>)"

definition h5_pass_up :: "u8 \<Rightarrow> u16 option" where
  "h5_pass_up t =
     (if t = HCI_ACLDATA_PKT then Some MSG_HC_TO_STACK_HCI_ACL
      else if t = HCI_EVENT_PKT then Some MSG_HC_TO_STACK_HCI_EVT
      else if t = HCI_SCODATA_PKT then Some MSG_HC_TO_STACK_HCI_SCO
      else if t = HCI_COMMAND_PKT then Some MSG_HC_TO_STACK_HCI_ERR
      else None)"

text \<open>Handing a complete packet up: the message buffer and the callback.\<close>

definition h5_deliver :: "u16 \<Rightarrow> u8 \<Rightarrow> h5_cb \<Rightarrow> h5_cb" where
  "h5_deliver ev t s =
     (let (ok, s) = h5_alloc s
      in hci_recv_frame t (s\<lparr>h5_p_rcv_msg := if ok then Some (ev, h5_rx_data s) else None\<rparr>))"

definition h5_complete_rx_pkt :: "h5_cb \<Rightarrow> h5_cb" where
  "h5_complete_rx_pkt s =
     (let d = h5_rx_data s;
          s = (if hdr_ReliablePkt d then
                 h5_wake_up (s\<lparr>h5_rxseq_txack := (hdr_SeqNumber d + 1) mod 8, h5_is_txack_req := True\<rparr>)
               else s);
          s = s\<lparr>h5_rxack := hdr_AckNumber d\<rparr>;
          s = h5_remove_acked_pkt s;
          s = (if hdr_PktType d = H5_LINK_CTL_PKT then h5_process_ctl_pkts (skb_pull 4 d) (s\<lparr>h5_rx_skb := Some (skb_pull 4 d)\<rparr>)
               else s);
          s = (case h5_pass_up (hdr_PktType d) of
                 None \<Rightarrow> s
               | Some ev \<Rightarrow>
                   (let s = s\<lparr>h5_rx_skb := Some (skb_pull 4 d)\<rparr>;
                        (complete, s) = (if ev = MSG_HC_TO_STACK_HCI_ACL
                                         then hci_rx_dispatch_by_handle (skb_pull 4 d) s else (True, s))
                    in if complete then h5_deliver ev (hdr_PktType d) s else s))
      in s\<lparr>h5_rx_skb := None, h5_rx_state := H5_W4_PKT_DELIMITER\<rparr>)"

text \<open>The three states behind a complete part of the packet read it through \<^verbatim>\<open>rx_skb\<close>.\<close>

definition h5_rx_use :: "h5_cb \<Rightarrow> h5_cb" where
  "h5_rx_use s = s\<lparr>h5_fault := h5_fault s \<or> h5_rx_skb s = None\<rparr>"

text \<open>The checks behind a complete header.\<close>

definition h5_hdr_sum_ok :: "bytes \<Rightarrow> bool" where
  "h5_hdr_sum_ok d \<longleftrightarrow> NOT (rd d 0 + rd d 1 + rd d 2) = rd d 3"

definition h5_rx_drop :: "h5_cb \<Rightarrow> h5_cb" where
  "h5_rx_drop s = s\<lparr>h5_rx_skb := None, h5_rx_state := H5_W4_PKT_DELIMITER, h5_rx_count := 0\<rparr>"

definition h5_rx_hdr :: "h5_cb \<Rightarrow> h5_cb" where
  "h5_rx_hdr s =
     (let s = h5_rx_use s; d = h5_rx_data s in
      if \<not> h5_hdr_sum_ok d then h5_rx_drop s
      else if hdr_ReliablePkt d \<and> hdr_SeqNumber d \<noteq> h5_rxseq_txack s then
        h5_rx_drop (h5_wake_up (s\<lparr>h5_is_txack_req := True\<rparr>))
      else s\<lparr>h5_rx_state := H5_W4_DATA, h5_rx_count := hdr_PayloadLen d\<rparr>)"

definition h5_rx_body :: "h5_cb \<Rightarrow> h5_cb" where
  "h5_rx_body s =
     (let s = h5_rx_use s in
      if hdr_DicPresent (h5_rx_data s) then s\<lparr>h5_rx_state := H5_W4_CRC, h5_rx_count := 2\<rparr>
      else h5_complete_rx_pkt s)"

definition h5_rx_crc :: "h5_cb \<Rightarrow> h5_cb" where
  "h5_rx_crc s =
     (let s = h5_rx_use s; d = h5_rx_data s in
      if bit_rev16 (h5_message_crc s) \<noteq> h5_get_crc d then h5_rx_drop s
      else h5_complete_rx_pkt (s\<lparr>h5_rx_skb := Some (take (length d - 2) d)\<rparr>))"

definition h5_rx_start :: "h5_cb \<Rightarrow> bool \<times> h5_cb" where
  "h5_rx_start s =
     (let (ok, s) = h5_alloc (s\<lparr>h5_rx_state := H5_W4_HDR, h5_rx_count := 4,
                               h5_rx_esc_state := H5_ESCSTATE_NOESC, h5_message_crc := 0xffff\<rparr>)
      in if ok then (True, s\<lparr>h5_rx_skb := Some []\<rparr>)
         else (False, s\<lparr>h5_rx_skb := None, h5_rx_state := H5_W4_PKT_DELIMITER, h5_rx_count := 0\<rparr>))"

text \<open>
  The loop of \<^verbatim>\<open>h5_recv\<close>.  While \<open>rx_count\<close> is positive every byte is consumed; otherwise the state
  decides, and the three states behind a complete part of the packet consume nothing.
\<close>

definition h5_rx_rank :: "h5_rx_state \<Rightarrow> nat" where
  "h5_rx_rank r = (case r of H5_W4_PKT_START \<Rightarrow> 4 | H5_W4_HDR \<Rightarrow> 3 | H5_W4_DATA \<Rightarrow> 2
     | H5_W4_CRC \<Rightarrow> 1 | H5_W4_PKT_DELIMITER \<Rightarrow> 0)"

lemma h5_complete_rx_state [simp]: "h5_rx_state (h5_complete_rx_pkt s) = H5_W4_PKT_DELIMITER"
  by (simp add: h5_complete_rx_pkt_def Let_def)

lemma h5_rx_drop_state [simp]: "h5_rx_state (h5_rx_drop s) = H5_W4_PKT_DELIMITER"
  by (simp add: h5_rx_drop_def)

lemma h5_rank_hdr: "h5_rx_rank (h5_rx_state (h5_rx_hdr s)) < h5_rx_rank H5_W4_HDR"
  by (simp add: h5_rx_hdr_def h5_rx_rank_def Let_def)

lemma h5_rank_body: "h5_rx_rank (h5_rx_state (h5_rx_body s)) < h5_rx_rank H5_W4_DATA"
  by (simp add: h5_rx_body_def h5_rx_rank_def Let_def)

lemma h5_rank_crc: "h5_rx_rank (h5_rx_state (h5_rx_crc s)) < h5_rx_rank H5_W4_CRC"
  by (simp add: h5_rx_crc_def h5_rx_rank_def Let_def)

lemma h5_rank_start:
  "h5_rx_start s = (r, s1) \<Longrightarrow> h5_rx_rank (h5_rx_state s1) < h5_rx_rank H5_W4_PKT_START"
  by (auto simp: h5_rx_start_def h5_rx_rank_def h5_alloc_def Let_def split: list.splits if_splits)

function h5_recv :: "bytes \<Rightarrow> h5_cb \<Rightarrow> h5_cb" where
  "h5_recv [] s = s"
| "h5_recv (b # bs) s =
     (if h5_rx_count s > 0 then
        h5_recv bs (if b = 0xc0 then s\<lparr>h5_rx_skb := None, h5_rx_state := H5_W4_PKT_START, h5_rx_count := 0\<rparr>
                    else h5_unslip_one_byte b s)
      else case h5_rx_state s of
        H5_W4_HDR \<Rightarrow> h5_recv (b # bs) (h5_rx_hdr s)
      | H5_W4_DATA \<Rightarrow> h5_recv (b # bs) (h5_rx_body s)
      | H5_W4_CRC \<Rightarrow> h5_recv (b # bs) (h5_rx_crc s)
      | H5_W4_PKT_DELIMITER \<Rightarrow>
          h5_recv bs (if b = 0xc0 then s\<lparr>h5_rx_state := H5_W4_PKT_START\<rparr> else s)
      | H5_W4_PKT_START \<Rightarrow>
          if b = 0xc0 then h5_recv bs s
          else (case h5_rx_start s of
              (True, s1) \<Rightarrow> h5_recv (b # bs) s1
            | (False, s1) \<Rightarrow> s1))"
  by pat_completeness auto
termination
  by (relation "measures [\<lambda>(bs, s). length bs, \<lambda>(bs, s). h5_rx_rank (h5_rx_state s)]")
    (auto simp: h5_rank_hdr h5_rank_body h5_rank_crc dest: h5_rank_start [OF sym])

declare h5_recv.simps(2) [simp del]

definition hci_h5_receive_msg :: "bytes \<Rightarrow> h5_cb \<Rightarrow> h5_cb" where
  "hci_h5_receive_msg input s = foldl (\<lambda>s b. h5_recv [b] s) s input"

section \<open>Timeouts\<close>

text \<open>The loop that takes the unacknowledged packets back, newest first.\<close>

fun h5_requeue :: "sk_buff list \<Rightarrow> h5_cb \<Rightarrow> h5_cb" where
  "h5_requeue [] s = s"
| "h5_requeue (x # xs) s =
     h5_requeue xs (s\<lparr>h5_unack := rev xs, h5_msgq_txseq := (h5_msgq_txseq s - 1) AND 0x07,
                     h5_rel := x # h5_rel s\<rparr>)"

definition h5_timeout_handler :: "h5_timer \<Rightarrow> h5_cb \<Rightarrow> h5_cb" where
  "h5_timeout_handler signo s =
     (case signo of
        TIMER_H5_DATA_RETRANS \<Rightarrow>
          if h5_data_retrans_count s < DATA_RETRANS_COUNT then
            (let s = h5_requeue (rev (h5_unack s)) s
             in h5_wake_up (s\<lparr>h5_data_retrans_count := h5_data_retrans_count s + 1\<rparr>))
          else s
      | TIMER_H5_SYNC_RETRANS \<Rightarrow>
          if h5_sync_retrans_count s < SYNC_RETRANS_COUNT then
            (let s = hci_h5_send_sync_req s in s\<lparr>h5_sync_retrans_count := h5_sync_retrans_count s + 1\<rparr>)
          else h5_emit (Stop_timer TIMER_H5_SYNC_RETRANS) s
      | TIMER_H5_CONF_RETRANS \<Rightarrow>
          if h5_conf_retrans_count s < CONF_RETRANS_COUNT then
            (let s = hci_h5_send_conf_req s in s\<lparr>h5_conf_retrans_count := h5_conf_retrans_count s + 1\<rparr>)
          else h5_emit (Stop_timer TIMER_H5_CONF_RETRANS) s
      | TIMER_H5_WAIT_CT_BAUDRATE_READY \<Rightarrow>
          (case h5_p_rcv_msg s of
             None \<Rightarrow> s\<lparr>h5_fault := True\<rparr>
           | Some (ev, p) \<Rightarrow>
               if h5_cback_set s then h5_emit (Cback_h5sync p) s
               else h5_emit (Dealloc \<lparr>mg_event = ev, mg_len = of_nat (length p), mg_offset = 0,
                                     mg_layer_specific = 0, mg_mem = p\<rparr>) s))"

section \<open>Messages from the stack\<close>

definition hci_h5_init :: "hci_conn \<Rightarrow> h5_cb" where
  "hci_h5_init junk =
     \<lparr>h5_unack = [], h5_rel = [], h5_unrel = [], h5_rxseq_txack = 0, h5_rxack = 0, h5_use_crc = False,
      h5_is_txack_req = False, h5_msgq_txseq = 0, h5_message_crc = 0, h5_rx_count = 0,
      h5_rx_state = H5_W4_PKT_DELIMITER, h5_rx_esc_state = H5_ESCSTATE_NOESC,
      h5_link_estab_state = H5_UNINITIALIZED, h5_rx_skb = None, h5_sliding_window_size = 0,
      h5_oof_flow_control = False, h5_dic_type = False, h5_data_retrans_count = 0,
      h5_sync_retrans_count = 0, h5_conf_retrans_count = 0, h5_HciConnHash = [],
      h5_hc_acl_data_size = 820, h5_hc_ble_acl_data_size = 27, h5_hc_cur_acl_total_num = 8,
      h5_p_rcv_msg = None, h5_cback_set = False, h5_int_cmd_rsp_pending = 0, h5_int_cmd_rd_idx = 0,
      h5_int_cmd_wrt_idx = 0, h5_int_cmd = replicate INT_CMD_PKT_MAX_COUNT (0, False),
      h5_num_hci_cmd_pkts = 1, h5_allocs = [], h5_junk = junk, h5_fault = False, h5_overrun = False,
      h5_outs = []\<rparr>"

definition msg_bytes :: "hc_bt_hdr \<Rightarrow> nat \<Rightarrow> bytes" where
  "msg_bytes m n = take n (drop (unat (mg_offset m)) (mg_mem m))"

text \<open>A packet for an ACL connection goes out while the controller has room, and waits otherwise.\<close>

definition h5_send_acl :: "nat \<Rightarrow> sk_buff \<Rightarrow> h5_cb \<Rightarrow> h5_cb" where
  "h5_send_acl i x s =
     (if h5_hc_cur_acl_total_num s > 0 then
        (let s = h5_enqueue x s;
             s = s\<lparr>h5_hc_cur_acl_total_num := h5_hc_cur_acl_total_num s - 1\<rparr>
         in h5_upd_conn i (\<lambda>c. c\<lparr>hc_NumOfNotCmpAclPkts := hc_NumOfNotCmpAclPkts c + 1\<rparr>) s)
      else h5_upd_conn i (\<lambda>c. c\<lparr>hc_pending_pkts := hc_pending_pkts c @ [x]\<rparr>) s)"

text \<open>One fragment: the packet that goes out, and the header of the rest written in front of it.\<close>

definition h5_fragment :: "u16 \<Rightarrow> u16 \<Rightarrow> u16 \<Rightarrow> hc_bt_hdr \<Rightarrow> sk_buff \<times> hc_bt_hdr" where
  "h5_fragment handle data_size pkt_size m =
     (let x = \<lparr>sk_type = HCI_ACLDATA_PKT, sk_data = msg_bytes m (unat pkt_size)\<rparr>;
          m = m\<lparr>mg_offset := mg_offset m + data_size, mg_len := mg_len m - data_size\<rparr>;
          hci_len = (if mg_len m > pkt_size then data_size else mg_len m - of_nat HCI_ACL_PREAMBLE_SIZE)
      in (x, m\<lparr>mg_mem := poke (mg_mem m) (unat (mg_offset m))
                          (UINT16_TO_STREAM handle @ UINT16_TO_STREAM hci_len)\<rparr>))"

text \<open>
  The loop over the first fragments.  With a data size of \<open>0\<close> it never ends, so it is a partial
  function; the flag of the result says that the rest goes back to L2CAP.
\<close>

partial_function (option) h5_send_fragments ::
  "nat \<Rightarrow> u16 \<Rightarrow> u16 \<Rightarrow> u16 \<Rightarrow> hc_bt_hdr \<Rightarrow> h5_cb \<Rightarrow> (bool \<times> hc_bt_hdr \<times> h5_cb) option" where
  "h5_send_fragments i handle data_size pkt_size m s =
     (if mg_len m > pkt_size then
        (let (ok, s) = h5_alloc s;
             (x, m) = h5_fragment handle data_size pkt_size m;
             s = (if ok then h5_send_acl i x s else s\<lparr>h5_fault := True\<rparr>)
         in if mg_layer_specific m \<noteq> 0 then
              (let m = m\<lparr>mg_layer_specific := mg_layer_specific m - 1\<rparr>
               in if mg_layer_specific m = 0 then
                    (let m = m\<lparr>mg_event := MSG_HC_TO_STACK_L2C_SEG_XMIT\<rparr>
                     in Some (True, m, h5_emit (Tx_result m BT_HC_TX_FRAGMENT) s))
                  else h5_send_fragments i handle data_size pkt_size m s)
            else h5_send_fragments i handle data_size pkt_size m s)
      else Some (False, m, s))"

definition h5_msg_type :: "u16 \<Rightarrow> u8" where
  "h5_msg_type event =
     (if event = MSG_STACK_TO_HC_HCI_ACL then HCI_ACLDATA_PKT
      else if event = MSG_STACK_TO_HC_HCI_SCO then HCI_SCODATA_PKT
      else if event = MSG_STACK_TO_HC_HCI_CMD then HCI_COMMAND_PKT
      else 0)"

text \<open>The end of \<^verbatim>\<open>hci_h5_send_msg\<close>: the last or only packet, the result callback, and the wire.\<close>

definition h5_send_last :: "u16 \<Rightarrow> nat option \<Rightarrow> hc_bt_hdr \<Rightarrow> h5_cb \<Rightarrow> h5_cb" where
  "h5_send_last event conn m s =
     (let (ok, s) = h5_alloc s;
          x = \<lparr>sk_type = h5_msg_type event, sk_data = msg_bytes m (unat (mg_len m))\<rparr>;
          s = (if \<not> ok then s\<lparr>h5_fault := True\<rparr>
               else case conn of Some i \<Rightarrow> h5_send_acl i x s | None \<Rightarrow> h5_enqueue x s);
          is_cmd = (event = MSG_STACK_TO_HC_HCI_CMD);
          s = (if is_cmd then s\<lparr>h5_num_hci_cmd_pkts := h5_num_hci_cmd_pkts s - 1\<rparr> else s);
          opcode = (if is_cmd then rd16 (mg_mem m) (unat (mg_offset m)) else mg_layer_specific m);
          s = (if is_cmd \<and> h5_int_cmd_rsp_pending s > 0 \<and> mg_layer_specific m = opcode
               then h5_emit (Dealloc m) s else h5_emit (Tx_result m BT_HC_TX_SUCCESS) s)
      in h5_wake_up s)"

definition hci_h5_send_msg :: "hc_bt_hdr \<Rightarrow> h5_cb \<Rightarrow> h5_cb option" where
  "hci_h5_send_msg m s =
     (let event = mg_event m AND 0xFF00;
          sub_event = mg_event m AND 0x00FF;
          data_size = (if sub_event = 0 then h5_hc_acl_data_size s else h5_hc_ble_acl_data_size s);
          pkt_size = data_size + of_nat HCI_ACL_PREAMBLE_SIZE;
          handle = rd16 (mg_mem m) (unat (mg_offset m))
      in if event = MSG_STACK_TO_HC_HCI_ACL then
           (case ConnHashLookupByHandle (handle AND 0x0FFF) s of
              None \<Rightarrow> Some s
            | Some i \<Rightarrow>
                (case h5_send_fragments i ((handle AND 0xCFFF) OR 0x1000) data_size pkt_size m s of
                   None \<Rightarrow> None
                 | Some (True, _, s) \<Rightarrow> Some s
                 | Some (False, m, s) \<Rightarrow> Some (h5_send_last event (Some i) m s)))
         else Some (h5_send_last event None m s))"

definition hci_h5_send_int_cmd :: "u16 \<Rightarrow> hc_bt_hdr \<Rightarrow> bool \<Rightarrow> h5_cb \<Rightarrow> (bool \<times> h5_cb) option" where
  "hci_h5_send_int_cmd opcode m cback s =
     (case h5_link_estab_state s of
        H5_UNINITIALIZED \<Rightarrow>
          if opcode = 0xFCEE then
            Some (True, h5_emit (Start_timer TIMER_H5_SYNC_RETRANS)
                          (hci_h5_send_sync_req (s\<lparr>h5_cback_set := cback\<rparr>)))
          else Some (True, s)
      | H5_ACTIVE \<Rightarrow>
          if h5_int_cmd_rsp_pending s > INT_CMD_PKT_MAX_COUNT then Some (False, s)
          else
            (let s = s\<lparr>h5_int_cmd_rsp_pending := h5_int_cmd_rsp_pending s + 1,
                      h5_int_cmd := (h5_int_cmd s)[h5_int_cmd_wrt_idx s := (opcode, cback)],
                      h5_int_cmd_wrt_idx := (h5_int_cmd_wrt_idx s + 1) mod 8\<rparr>;
                 m = m\<lparr>mg_layer_specific := opcode\<rparr>
             in if opcode = 0xFC17 \<or> opcode = 0xFC20 \<or> opcode = 0x1005 \<or> opcode = 0x2002
                then map_option (Pair True) (hci_h5_send_msg m s) else Some (True, s))
      | H5_INITIALIZED \<Rightarrow> Some (True, s))"

section \<open>The buffer sizes of the controller\<close>

text \<open>
  The callback of the two internal commands that ask for the buffer sizes; \<^verbatim>\<open>internal_event_intercept_h5\<close>
  reports its call as \<open>Int_cmd_cback\<close>.  The sizes for SCO and the totals that are only logged are
  not part of the state.
\<close>

definition get_acl_data_length_cback_h5 :: "hc_bt_hdr \<Rightarrow> h5_cb \<Rightarrow> h5_cb option" where
  "get_acl_data_length_cback_h5 m s =
     (let opcode = rd16 (mg_mem m) 3; status = rd (mg_mem m) 5;
          len = (if status = 0 then rd16 (mg_mem m) 6 else 0)
      in if opcode = 0x1005 then
           (let s = (if status = 0 then s\<lparr>h5_hc_acl_data_size := len,
                                         h5_hc_cur_acl_total_num := rd16 (mg_mem m) 9\<rparr> else s);
                m = \<lparr>mg_event = MSG_STACK_TO_HC_HCI_CMD, mg_len = 3, mg_offset = 0, mg_layer_specific = 0,
                     mg_mem = poke (mg_mem m) 0 (UINT16_TO_STREAM 0x2002 @ [0])\<rparr>
            in map_option (\<lambda>(ok, s). if ok then s else h5_emit (Postload_cb True) (h5_emit (Dealloc m) s))
                 (hci_h5_send_int_cmd 0x2002 m True s))
         else if opcode = 0x2002 then
           (let s = (if status = 0
                     then s\<lparr>h5_hc_ble_acl_data_size := (if len \<noteq> 0 then len else h5_hc_acl_data_size s)\<rparr> else s)
            in Some (h5_emit (Postload_cb True) (h5_emit (Dealloc m) s)))
         else Some s)"

definition hci_h5_get_acl_data_length :: "h5_cb \<Rightarrow> h5_cb option" where
  "hci_h5_get_acl_data_length s =
     (let (ok, s) = h5_alloc s;
          m = \<lparr>mg_event = MSG_STACK_TO_HC_HCI_CMD, mg_len = 3, mg_offset = 0, mg_layer_specific = 0,
               mg_mem = UINT16_TO_STREAM 0x1005 @ [0]\<rparr>
      in if ok then
           map_option (\<lambda>(r, s). if r then s else h5_emit (Postload_cb False) (h5_emit (Dealloc m) s))
             (hci_h5_send_int_cmd 0x1005 m True s)
         else Some (h5_emit (Postload_cb False) s))"

definition ConnHashFlush :: "h5_cb \<Rightarrow> h5_cb" where
  "ConnHashFlush s = s\<lparr>h5_HciConnHash := []\<rparr>"

definition hci_h5_cleanup :: "h5_cb \<Rightarrow> h5_cb" where
  "hci_h5_cleanup s = ConnHashFlush (s\<lparr>h5_unack := [], h5_rel := [], h5_unrel := []\<rparr>)"

end
