(* ===== verification/Hci_H5_Rx.thy ===== *)
theory Hci_H5_Rx
  imports Hci_H5
begin

text \<open>
  The receiving half of the three-wire transport: the CRC, what the receiver makes of a packet that
  the sending half built, that the way the serial port cuts the byte stream does not matter, and
  that no byte stream at all makes the receiver use a null pointer or overflow its buffer.
\<close>

section \<open>The CRC\<close>

definition H5_CRC_POLY :: u16 where "H5_CRC_POLY = 0x8408"

lemma crc_table_shifts: "crc_table = map (crc_shifts H5_CRC_POLY 4) (take 16 crc_inputs)"
  by code_simp

interpretation h5crc: crc_lookup_table H5_CRC_POLY 4 crc_table
proof unfold_locales
  show "crc_table ! i = crc_shifts H5_CRC_POLY 4 (of_nat i)" if "i < 2 ^ 4" for i
    using that unfolding crc_table_shifts crc_inputs by (simp add: take_map)
qed simp_all

lemma h5_crc_update_lookup:
  "h5_crc_update c d = crc_lookup 4 crc_table (crc_lookup 4 crc_table c d) (drop_bit 4 d)"
proof -
  have "x AND 0x000f = take_bit 4 x" for x :: u16
    by (simp add: take_bit_eq_mask mask_eq_exp_minus_1)
  then show ?thesis by (simp add: h5_crc_update_def crc_lookup_def Let_def)
qed

lemma h5_crc_update_ref: "h5_crc_update c d = crc_ref H5_CRC_POLY c [d]"
proof -
  have "low_bits 4 d @ low_bits 4 (drop_bit 4 d) = low_bits 8 d"
    by (auto simp: low_bits_def bit_simps upt_conv_Cons eval_nat_numeral)
  then show ?thesis
    by (simp add: h5_crc_update_lookup h5crc.lookup_bits crc_ref_def flip: foldl_append)
qed

lemma h5_crc_ref: "foldl h5_crc_update c msg = crc_ref H5_CRC_POLY c msg"
  by (induction msg arbitrary: c) (simp_all add: h5_crc_update_ref crc_ref_def)

section \<open>States without faults\<close>

lemma h5_rx_use_Some [simp]: "h5_rx_skb s = Some d \<Longrightarrow> h5_rx_use s = s"
  by (simp add: h5_rx_use_def)

text \<open>Allocations succeed and no null pointer has been used.\<close>

definition h5_ok :: "h5_cb \<Rightarrow> bool" where
  "h5_ok s \<longleftrightarrow> h5_allocs s = [] \<and> \<not> h5_fault s"

text \<open>The part of the state that belongs to the packet being received.\<close>

definition h5_rx_part :: "h5_cb \<Rightarrow> nat \<times> h5_rx_state \<times> h5_rx_esc_state \<times> bytes option \<times> u16" where
  "h5_rx_part s = (h5_rx_count s, h5_rx_state s, h5_rx_esc_state s, h5_rx_skb s, h5_message_crc s)"

named_theorems h5_keep \<open>what an operation of the transport leaves alone\<close>

lemma h5_alloc_ok: "h5_ok s \<Longrightarrow> h5_alloc s = (True, s)"
  by (simp add: h5_ok_def h5_alloc_def)

lemma h5_ok_emit [h5_keep]: "h5_ok (h5_emit x s) = h5_ok s" "h5_rx_part (h5_emit x s) = h5_rx_part s"
  by (simp_all add: h5_ok_def h5_emit_def h5_rx_part_def)

lemma length_slip: "length (concat (map h5_slip_one_byte w)) \<le> 2 * length w"
  by (induction w) (auto simp: h5_slip_one_byte_def)

lemma length_h5_tx_hdr [simp]: "length (h5_tx_hdr s r n t) = 4"
  by (simp add: h5_tx_hdr_def Let_def)

lemma length_h5_tx_crc [simp]: "length (h5_tx_crc w) = 2"
  by (simp add: h5_tx_crc_def Let_def)

lemma length_h5_tx_bytes: "length (h5_tx_bytes s r d t) \<le> (length d + 6) * 2 + 2"
proof -
  define w where "w = h5_tx_hdr s r (length d) t @ d"
  define v where "v = (if h5_use_crc s then w @ h5_tx_crc w else w)"
  have "length v \<le> length d + 6" by (simp add: v_def w_def)
  moreover have "h5_tx_bytes s r d t = [0xc0] @ concat (map h5_slip_one_byte v) @ [0xc0]"
    by (simp add: h5_tx_bytes_def h5_slip_msgdelim_def v_def w_def Let_def)
  ultimately show ?thesis using length_slip [of v] by simp
qed

lemma h5_prepare_ok:
  "h5_ok s \<Longrightarrow> h5_prepare_pkt d t s =
     (case h5_rel_type t of None \<Rightarrow> (None, s)
      | Some r \<Rightarrow> (Some (h5_tx_bytes s r d t),
          s\<lparr>h5_is_txack_req := False,
            h5_msgq_txseq := if r then (h5_msgq_txseq s + 1) AND 0x07 else h5_msgq_txseq s\<rparr>))"
  using length_h5_tx_bytes [of s _ d t]
  by (auto simp: h5_prepare_pkt_def h5_alloc_ok Let_def h5_ok_def not_less split: option.splits)

lemma h5_keep_prepare [h5_keep]:
  "h5_ok s \<Longrightarrow> h5_ok (snd (h5_prepare_pkt d t s))"
  "h5_ok s \<Longrightarrow> h5_rx_part (snd (h5_prepare_pkt d t s)) = h5_rx_part s"
  by (auto simp: h5_prepare_ok h5_ok_def h5_rx_part_def split: option.splits)

lemma h5_keep_dequeue [h5_keep]:
  "h5_ok s \<Longrightarrow> h5_ok (snd (h5_dequeue s)) \<and> h5_rx_part (snd (h5_dequeue s)) = h5_rx_part s"
  by (simp add: h5_dequeue_def h5_prepare_ok h5_ok_def h5_rx_part_def Let_def
      h5_start_data_retrans_timer_def h5_emit_def split: list.splits option.splits)

lemma h5_keep_wake_up [h5_keep]:
  "h5_ok s \<Longrightarrow> h5_ok (h5_wake_up s) \<and> h5_rx_part (h5_wake_up s) = h5_rx_part s"
proof (induction s rule: h5_wake_up.induct)
  case (1 s)
  obtain r s1 where d: "h5_dequeue s = (r, s1)" by fastforce
  have "h5_ok s1" "h5_rx_part s1 = h5_rx_part s" using h5_keep_dequeue [OF "1.prems"] d by simp_all
  then show ?case
    using "1.IH" [of r s1] d by (subst (1 2) h5_wake_up.simps) (auto simp: h5_keep split: option.splits)
qed

text \<open>The operations behind a complete packet leave \<open>rx_count\<close> alone and keep the state sound.\<close>

definition h5_sound :: "h5_cb \<Rightarrow> bool" where
  "h5_sound s \<longleftrightarrow> h5_ok s \<and> h5_rx_count s = 0"

lemma h5_sound_ok: "h5_sound s \<Longrightarrow> h5_ok s"
  by (simp add: h5_sound_def)

lemma h5_sound_part: "h5_ok s' \<Longrightarrow> h5_rx_part s' = h5_rx_part s \<Longrightarrow> h5_sound s \<Longrightarrow> h5_sound s'"
  by (auto simp: h5_sound_def h5_rx_part_def)

lemma h5_sound_wake_up: "h5_sound s \<Longrightarrow> h5_sound (h5_wake_up s)"
  using h5_keep_wake_up [of s] h5_sound_part [of "h5_wake_up s" s] by (simp add: h5_sound_def)

lemma h5_sound_emit: "h5_sound (h5_emit x s) = h5_sound s"
  by (simp add: h5_sound_def h5_ok_emit) (simp add: h5_emit_def)

lemma h5_sound_send_unrel: "h5_sound s \<Longrightarrow> h5_sound (h5_send_unrel d t s)"
  using h5_sound_part [OF h5_keep_prepare(1) h5_keep_prepare(2), of s d t]
  by (auto simp: h5_send_unrel_def h5_sound_def h5_sound_emit [unfolded h5_sound_def] split: prod.splits option.splits)

lemma h5_sound_upd_conn: "h5_sound (h5_upd_conn i f s) = h5_sound s"
  by (simp add: h5_sound_def h5_ok_def h5_upd_conn_def)

lemma h5_sound_enqueue: "h5_sound (h5_enqueue x s) = h5_sound s"
  by (simp add: h5_sound_def h5_ok_def h5_enqueue_def)

lemmas h5_send_ctl_defs = hci_h5_send_sync_req_def hci_h5_send_sync_resp_def
  hci_h5_send_conf_req_def hci_h5_send_conf_resp_def

lemmas h5_sound_intros = h5_sound_wake_up h5_sound_send_unrel
lemmas h5_sound_simps = h5_sound_emit h5_sound_upd_conn h5_sound_enqueue

lemma h5_sound_updates [simp]:
  "h5_sound (s\<lparr>h5_hc_cur_acl_total_num := a\<rparr>) = h5_sound s"
  "h5_sound (s\<lparr>h5_rxack := b\<rparr>) = h5_sound s"
  "h5_sound (s\<lparr>h5_rx_skb := c\<rparr>) = h5_sound s"
  "h5_sound (s\<lparr>h5_unack := d\<rparr>) = h5_sound s"
  "h5_sound (s\<lparr>h5_data_retrans_count := e\<rparr>) = h5_sound s"
  "h5_sound (s\<lparr>h5_is_txack_req := f\<rparr>) = h5_sound s"
  "h5_sound (s\<lparr>h5_rxseq_txack := b\<rparr>) = h5_sound s"
  "h5_sound (s\<lparr>h5_link_estab_state := g\<rparr>) = h5_sound s"
  "h5_sound (s\<lparr>h5_sync_retrans_count := e\<rparr>) = h5_sound s"
  "h5_sound (s\<lparr>h5_conf_retrans_count := e\<rparr>) = h5_sound s"
  "h5_sound (s\<lparr>h5_sliding_window_size := b\<rparr>) = h5_sound s"
  "h5_sound (s\<lparr>h5_oof_flow_control := f\<rparr>) = h5_sound s"
  "h5_sound (s\<lparr>h5_dic_type := f\<rparr>) = h5_sound s"
  "h5_sound (s\<lparr>h5_num_hci_cmd_pkts := h\<rparr>) = h5_sound s"
  "h5_sound (s\<lparr>h5_int_cmd_rd_idx := e\<rparr>) = h5_sound s"
  "h5_sound (s\<lparr>h5_int_cmd_rsp_pending := e\<rparr>) = h5_sound s"
  "h5_sound (s\<lparr>h5_p_rcv_msg := m\<rparr>) = h5_sound s"
  "h5_sound (s\<lparr>h5_HciConnHash := l\<rparr>) = h5_sound s"
  "h5_sound (s\<lparr>h5_overrun := f\<rparr>) = h5_sound s"
  "h5_sound (s\<lparr>h5_rx_state := r\<rparr>) = h5_sound s"
  by (simp_all add: h5_sound_def h5_ok_def)

lemma h5_sound_alloc: "h5_sound s \<Longrightarrow> h5_alloc s = (True, s)"
  by (simp add: h5_sound_def h5_alloc_ok)

lemma h5_sound_ctl: "h5_sound s \<Longrightarrow> h5_sound (h5_process_ctl_pkts d s)"
  by (auto simp: h5_process_ctl_pkts_def h5_send_ctl_defs rtk_notify_hw_h5_init_result_def Let_def
      h5_sound_simps h5_sound_alloc split: h5_link_state.splits
      intro!: h5_sound_intros)

lemma h5_sound_remove_acked: "h5_sound s \<Longrightarrow> h5_sound (h5_remove_acked_pkt s)"
  by (simp add: h5_remove_acked_pkt_def h5_stop_data_retrans_timer_def Let_def h5_sound_simps)

lemma h5_sound_send_pending: "h5_sound s \<Longrightarrow> h5_sound (h5_send_pending i xs s)"
  by (induction xs arbitrary: s) (auto simp: Let_def h5_sound_simps h5_sound_wake_up)

lemma h5_sound_num_cmp: "h5_sound s \<Longrightarrow> h5_sound (h5_num_cmp_pkts p k h n s)"
  by (induction p k h n s rule: h5_num_cmp_pkts.induct)
    (auto simp: Let_def h5_sound_simps h5_sound_send_pending split: option.splits)

lemma h5_sound_ConnAllocate: "h5_sound s \<Longrightarrow> HciConnAllocate h s =
  (Some ((h5_junk s)\<lparr>hc_handle := h, hc_pending_pkts := [], hc_rx_skb := None\<rparr>), s)"
  by (simp add: HciConnAllocate_def h5_sound_alloc)

lemma h5_sound_intercept: "h5_sound s \<Longrightarrow> h5_sound (snd (internal_event_intercept_h5 p s))"
  by (auto simp: internal_event_intercept_h5_def Let_def h5_command_complete_def
      h5_command_status_def h5_connection_comp_def h5_disconnection_comp_def ConnHashAdd_def
      ConnHashDelete_def h5_sound_ConnAllocate h5_sound_num_cmp h5_sound_simps
      split: option.splits)

lemma h5_sound_deliver: "h5_sound s \<Longrightarrow> h5_sound (h5_deliver ev t s)"
proof -
  assume s: "h5_sound s"
  define s1 where "s1 = s\<lparr>h5_p_rcv_msg := Some (ev, h5_rx_data s)\<rparr>"
  have "h5_sound s1" using s by (simp add: s1_def)
  then show ?thesis
    using s h5_sound_intercept [of s1 "h5_rx_data s"]
    by (auto simp: h5_deliver_def h5_sound_alloc hci_recv_frame_def Let_def h5_sound_simps
        simp flip: s1_def split: prod.splits)
qed

lemma h5_sound_dispatch: "h5_sound s \<Longrightarrow> h5_sound (snd (hci_rx_dispatch_by_handle d s))"
  by (auto simp: hci_rx_dispatch_by_handle_def Let_def h5_sound_ConnAllocate acl_store_first_def
      acl_store_next_def h5_sound_alloc h5_sound_simps ConnHashAdd_def split: option.splits)

lemma h5_sound_complete:
  assumes "h5_sound s"
  shows "h5_sound (h5_complete_rx_pkt s)"
proof -
  define d where "d = h5_rx_data s"
  define s1 where "s1 = (if hdr_ReliablePkt d then
      h5_wake_up (s\<lparr>h5_rxseq_txack := (hdr_SeqNumber d + 1) mod 8, h5_is_txack_req := True\<rparr>) else s)"
  define s2 where "s2 = h5_remove_acked_pkt (s1\<lparr>h5_rxack := hdr_AckNumber d\<rparr>)"
  define s3 where "s3 = (if hdr_PktType d = H5_LINK_CTL_PKT
      then h5_process_ctl_pkts (skb_pull 4 d) (s2\<lparr>h5_rx_skb := Some (skb_pull 4 d)\<rparr>) else s2)"
  have s3: "h5_sound s3"
    using assms by (simp add: s1_def s2_def s3_def h5_sound_wake_up h5_sound_remove_acked h5_sound_ctl)
  then have "h5_sound (snd (hci_rx_dispatch_by_handle (skb_pull 4 d) (s3\<lparr>h5_rx_skb := Some (skb_pull 4 d)\<rparr>)))"
    by (simp add: h5_sound_dispatch)
  with s3 show ?thesis
    unfolding h5_complete_rx_pkt_def Let_def
    by (fold d_def, fold s1_def, fold s2_def, fold s3_def)
      (auto simp: h5_sound_deliver split: option.splits prod.splits)
qed

section \<open>The receiver's invariant\<close>

text \<open>
  \<open>rx_count\<close> is exactly what is missing of the part of the packet being received, and the part is in
  the buffer.  The buffer then never holds more than \<open>4 + 4095 + 2\<close> bytes.
\<close>

definition h5_rx_inv :: "h5_cb \<Rightarrow> bool" where
  "h5_rx_inv s \<longleftrightarrow> h5_ok s \<and>
     (case h5_rx_state s of
        H5_W4_PKT_DELIMITER \<Rightarrow> h5_rx_skb s = None \<and> h5_rx_count s = 0
      | H5_W4_PKT_START \<Rightarrow> h5_rx_skb s = None \<and> h5_rx_count s = 0
      | H5_W4_HDR \<Rightarrow> (\<exists>d. h5_rx_skb s = Some d \<and> length d + h5_rx_count s = 4)
      | H5_W4_DATA \<Rightarrow> (\<exists>d. h5_rx_skb s = Some d \<and> 4 \<le> length d \<and>
                          length d + h5_rx_count s = 4 + hdr_PayloadLen d)
      | H5_W4_CRC \<Rightarrow> (\<exists>d. h5_rx_skb s = Some d \<and> 4 \<le> length d \<and>
                         length d + h5_rx_count s = 6 + hdr_PayloadLen d))"

lemma hdr_PayloadLen_less: "hdr_PayloadLen d < 4096"
proof -
  have "drop_bit 4 (rd16 d 1) = take_bit 12 (drop_bit 4 (rd16 d 1))"
    by (rule bit_word_eqI) (auto simp: bit_simps dest: bit_imp_le_length)
  then have "hdr_PayloadLen d = take_bit 12 (unat (drop_bit 4 (rd16 d 1)))"
    by (metis hdr_PayloadLen_def unsigned_take_bit_eq)
  also have "\<dots> < 2 ^ 12" by (rule take_bit_nat_less_exp)
  finally show ?thesis by simp
qed

lemma hdr_PayloadLen_append [simp]: "4 \<le> length d \<Longrightarrow> hdr_PayloadLen (d @ e) = hdr_PayloadLen d"
  by (simp add: hdr_PayloadLen_def rd16_def rd_append)

lemma h5_rx_inv_sound: "h5_rx_inv s \<Longrightarrow> h5_rx_count s = 0 \<Longrightarrow> h5_sound s"
  by (simp add: h5_rx_inv_def h5_sound_def)

lemma h5_complete_rx_skb [simp]: "h5_rx_skb (h5_complete_rx_pkt s) = None"
  by (simp add: h5_complete_rx_pkt_def Let_def)

lemma h5_sound_rx_inv:
  "h5_sound s \<Longrightarrow> h5_rx_state s = H5_W4_PKT_DELIMITER \<Longrightarrow> h5_rx_skb s = None \<Longrightarrow> h5_rx_inv s"
  by (simp add: h5_rx_inv_def h5_sound_def)

lemma h5_rx_inv_length: "h5_rx_inv s \<Longrightarrow> length (h5_rx_data s) + h5_rx_count s \<le> H5_RX_ALLOC"
  using hdr_PayloadLen_less [of "h5_rx_data s"]
  by (auto simp: h5_rx_inv_def H5_RX_ALLOC_def h5_rx_data_def split: h5_rx_state.splits)

lemma h5_rx_inv_put:
  assumes "h5_rx_inv s" and "h5_rx_count s > 0"
  shows "h5_rx_inv (h5_rx_put b s)"
proof -
  obtain d where d: "h5_rx_skb s = Some d" and len: "length d + h5_rx_count s \<le> H5_RX_ALLOC"
    using assms h5_rx_inv_length [OF assms(1)]
    by (auto simp: h5_rx_inv_def h5_rx_data_def split: h5_rx_state.splits)
  with assms show ?thesis
    by (auto simp: h5_rx_put_def h5_rx_inv_def h5_ok_def Let_def split: h5_rx_state.splits)
qed

lemma h5_rx_inv_esc [simp]: "h5_rx_inv (s\<lparr>h5_rx_esc_state := e\<rparr>) = h5_rx_inv s"
  by (simp add: h5_rx_inv_def h5_ok_def split: h5_rx_state.splits)

lemma h5_rx_inv_reset:
  "h5_rx_inv s \<Longrightarrow> r = H5_W4_PKT_DELIMITER \<or> r = H5_W4_PKT_START \<Longrightarrow>
   h5_rx_inv (s\<lparr>h5_rx_skb := None, h5_rx_state := r, h5_rx_count := 0\<rparr>)"
  by (auto simp: h5_rx_inv_def h5_ok_def)

lemma h5_rx_inv_unslip: "h5_rx_inv s \<Longrightarrow> h5_rx_count s > 0 \<Longrightarrow> h5_rx_inv (h5_unslip_one_byte b s)"
  by (simp add: h5_unslip_one_byte_def h5_rx_inv_put h5_rx_inv_reset split: h5_rx_esc_state.splits)

lemma h5_rx_inv_drop: "h5_ok s \<Longrightarrow> h5_rx_inv (h5_rx_drop s)"
  by (simp add: h5_rx_drop_def h5_rx_inv_def h5_ok_def)

lemma h5_rx_inv_hdr:
  assumes "h5_rx_inv s" "h5_rx_count s = 0" "h5_rx_state s = H5_W4_HDR"
  shows "h5_rx_inv (h5_rx_hdr s)"
proof -
  obtain d where "h5_rx_skb s = Some d" "length d = 4" "h5_ok s"
    using assms by (auto simp: h5_rx_inv_def)
  moreover have "h5_ok (h5_wake_up (s\<lparr>h5_is_txack_req := True\<rparr>))"
    using \<open>h5_ok s\<close> h5_keep_wake_up [of "s\<lparr>h5_is_txack_req := True\<rparr>"] by (simp add: h5_ok_def)
  ultimately show ?thesis
    by (simp add: h5_rx_hdr_def h5_rx_inv_drop Let_def h5_rx_data_def) (simp add: h5_rx_inv_def h5_ok_def)
qed

lemma h5_rx_inv_use:
  "h5_rx_inv s \<Longrightarrow> h5_rx_state s = H5_W4_DATA \<or> h5_rx_state s = H5_W4_CRC \<Longrightarrow> h5_rx_use s = s"
  by (auto simp: h5_rx_inv_def)

lemma h5_rx_inv_body:
  assumes "h5_rx_inv s" "h5_rx_count s = 0" "h5_rx_state s = H5_W4_DATA"
  shows "h5_rx_inv (h5_rx_body s)"
proof (cases "hdr_DicPresent (h5_rx_data s)")
  case True
  with assms show ?thesis
    unfolding h5_rx_body_def Let_def using h5_rx_inv_use [OF assms(1)] by (auto simp: h5_rx_inv_def h5_ok_def)
next
  case False
  with h5_rx_inv_sound [OF assms(1,2)] h5_rx_inv_use [OF assms(1)] assms(3) show ?thesis
    by (simp add: h5_rx_body_def h5_sound_rx_inv h5_sound_complete Let_def)
qed

lemma h5_rx_inv_crc:
  assumes "h5_rx_inv s" "h5_rx_count s = 0" "h5_rx_state s = H5_W4_CRC"
  shows "h5_rx_inv (h5_rx_crc s)"
  using h5_rx_inv_sound [OF assms(1,2)] h5_rx_inv_use [OF assms(1)] assms(3)
  by (simp add: h5_rx_crc_def Let_def h5_sound_rx_inv h5_sound_complete h5_rx_inv_drop h5_sound_ok)

lemma h5_rx_start_ok:
  "h5_ok s \<Longrightarrow> h5_rx_start s = (True, s\<lparr>h5_rx_state := H5_W4_HDR, h5_rx_count := 4,
     h5_rx_esc_state := H5_ESCSTATE_NOESC, h5_message_crc := 0xffff, h5_rx_skb := Some []\<rparr>)"
  by (simp add: h5_rx_start_def h5_alloc_def h5_ok_def)

lemma h5_rx_inv_start: "h5_rx_inv s \<Longrightarrow> h5_rx_inv (snd (h5_rx_start s))"
  by (simp add: h5_rx_start_ok h5_rx_inv_def) (simp add: h5_ok_def)

lemma h5_rx_inv_delim:
  "h5_rx_inv s \<Longrightarrow> h5_rx_state s = H5_W4_PKT_DELIMITER \<Longrightarrow> h5_rx_inv (s\<lparr>h5_rx_state := H5_W4_PKT_START\<rparr>)"
  by (simp add: h5_rx_inv_def h5_ok_def)

lemma h5_rx_inv_recv: "h5_rx_inv s \<Longrightarrow> h5_rx_inv (h5_recv bs s)"
proof (induction bs s rule: h5_recv.induct)
  case (1 s)
  then show ?case by simp
next
  case (2 b bs s)
  have ok: "h5_ok s" using "2.prems" by (simp add: h5_rx_inv_def)
  note start = h5_rx_inv_start [OF "2.prems", unfolded h5_rx_start_ok [OF ok] snd_conv]
  show ?case
  proof (cases "h5_rx_count s > 0")
    case True
    with "2.IH"(1) "2.prems" show ?thesis
      by (subst h5_recv.simps) (simp add: h5_rx_inv_unslip h5_rx_inv_reset)
  next
    case False
    with "2.IH"(2-) "2.prems" ok start show ?thesis
      by (subst h5_recv.simps, cases "h5_rx_state s")
        (simp_all add: h5_rx_inv_hdr h5_rx_inv_body h5_rx_inv_crc h5_rx_start_ok h5_rx_inv_delim)
  qed
qed

section \<open>Cutting the stream\<close>

lemma h5_recv_append: "h5_rx_inv s \<Longrightarrow> h5_recv (xs @ ys) s = h5_recv ys (h5_recv xs s)"
proof (induction xs s rule: h5_recv.induct)
  case (1 s)
  then show ?case by simp
next
  case (2 b bs s)
  have ok: "h5_ok s" using "2.prems" by (simp add: h5_rx_inv_def)
  note start = h5_rx_inv_start [OF "2.prems", unfolded h5_rx_start_ok [OF ok] snd_conv]
  show ?case
  proof (cases "h5_rx_count s > 0")
    case True
    with "2.IH"(1) "2.prems" show ?thesis
      unfolding append_Cons h5_recv.simps(2) [of b "bs @ ys" s] h5_recv.simps(2) [of b bs s]
      by (simp add: h5_rx_inv_unslip h5_rx_inv_reset)
  next
    case False
    with "2.prems" ok start show ?thesis
      unfolding append_Cons h5_recv.simps(2) [of b "bs @ ys" s] h5_recv.simps(2) [of b bs s]
      apply (cases "h5_rx_state s")
      subgoal using "2.IH"(2) by (simp add: h5_rx_inv_delim)
      subgoal using "2.IH"(3,4) by (simp add: h5_rx_start_ok)
      subgoal using "2.IH"(5) by (simp add: h5_rx_inv_hdr)
      subgoal using "2.IH"(6) by (simp add: h5_rx_inv_body)
      subgoal using "2.IH"(7) by (simp add: h5_rx_inv_crc)
      done
  qed
qed

section \<open>Receiving what was sent\<close>

lemma less_8_cases:
  "n < 8 \<longleftrightarrow> n = 0 \<or> n = 1 \<or> n = 2 \<or> n = 3 \<or> n = 4 \<or> n = 5 \<or> n = 6 \<or> n = (7 :: nat)"
  by (auto simp: eval_nat_numeral less_Suc_eq)

lemma small_bits: "(x :: u8) < 8 \<Longrightarrow> 3 \<le> n \<Longrightarrow> \<not> bit x n"
proof -
  assume "x < 8" "3 \<le> n"
  then have "unat x < 2 ^ n"
    using power_increasing [of 3 n "2 :: nat"] by (simp add: word_less_nat_alt)
  then have "\<not> bit (unat x) n" by (simp add: bit_iff_odd)
  then show ?thesis by (simp add: bit_unsigned_iff)
qed

lemma small_seq_add: "(x :: u8) < 8 \<Longrightarrow> 0x80 + x = 0x80 OR x"
  by (rule disjunctive_add_eq_or) (auto intro!: bit_word_eqI simp: bit_simps small_bits less_8_cases)

text \<open>The fields of the header that the sender builds.\<close>

lemma h5_tx_hdr_0:
  assumes "h5_rxseq_txack a < 8" and "h5_msgq_txseq a < 8"
  shows "hdr_SeqNumber (h5_tx_hdr a r n t @ d) = (if r then h5_msgq_txseq a else 0)"
    and "hdr_AckNumber (h5_tx_hdr a r n t @ d) = h5_rxseq_txack a"
    and "hdr_DicPresent (h5_tx_hdr a r n t @ d) = h5_use_crc a"
    and "hdr_ReliablePkt (h5_tx_hdr a r n t @ d) = r"
  unfolding hdr_defs h5_tx_hdr_def Let_def
  by (auto intro!: bit_word_eqI simp: bit_simps small_bits [OF assms(1)] small_bits [OF assms(2)]
      small_seq_add [OF assms(2)] less_8_cases)

lemma h5_hdr_sum_tx: "h5_hdr_sum_ok (h5_tx_hdr a r n t @ d)"
  by (simp add: h5_hdr_sum_ok_def h5_tx_hdr_def Let_def)

lemma small_bits4: "(x :: u8) < 16 \<Longrightarrow> 4 \<le> n \<Longrightarrow> \<not> bit x n"
proof -
  assume "x < 16" "4 \<le> n"
  then have "unat x < 2 ^ n"
    using power_increasing [of 4 n "2 :: nat"] by (simp add: word_less_nat_alt)
  then have "\<not> bit (unat x) n" by (simp add: bit_iff_odd)
  then show ?thesis by (simp add: bit_unsigned_iff)
qed

lemma h5_tx_hdr_type: "t < 16 \<Longrightarrow> hdr_PktType (h5_tx_hdr a r n t @ d) = t"
  unfolding hdr_defs h5_tx_hdr_def Let_def
  by (auto intro!: bit_word_eqI simp: bit_simps small_bits4 less_8_cases)

lemma h5_tx_hdr_len:
  assumes "n < 4096" and "t < 16"
  shows "hdr_PayloadLen (h5_tx_hdr a r n t @ d) = n"
proof -
  define lo hi :: u8 where "lo = push_bit 4 (of_nat n) OR t" and "hi = of_nat (n div 16)"
  have hd: "rd16 (h5_tx_hdr a r n t @ d) 1 = ucast lo + push_bit 8 (ucast hi)"
    by (simp add: rd16_def h5_tx_hdr_def Let_def lo_def hi_def)
  have lo: "\<not> bit lo i" if "8 \<le> i" for i using that bit_imp_le_length [of lo i] by (cases "bit lo i") simp_all
  have "(ucast lo :: u16) + push_bit 8 (ucast hi) = ucast lo OR push_bit 8 (ucast hi)"
    by (rule disjunctive_add_eq_or, rule bit_word_eqI) (auto simp: bit_simps lo)
  moreover have "drop_bit 4 (ucast lo OR push_bit 8 (ucast hi) :: u16) = of_nat n"
  proof (rule bit_word_eqI)
    fix i assume "i < LENGTH(16)"
    have nat: "bit (n div 16) j = bit n (j + 4)" for j
      by (simp add: bit_iff_odd power_add mult.commute flip: div_mult2_eq)
    have top: "\<not> bit n j" if "12 \<le> j" for j
    proof -
      have "n < 2 ^ j" using assms(1) power_increasing [OF that, of "2 :: nat"] by simp
      then show ?thesis by (simp add: bit_iff_odd)
    qed
    show "bit (drop_bit 4 (ucast lo OR push_bit 8 (ucast hi)) :: u16) i = bit (of_nat n :: u16) i"
      using \<open>i < _\<close> assms(2) top [of i]
      by (cases "i < 4"; cases "i < 12") (auto simp: lo_def hi_def bit_simps nat small_bits4 not_less)
  qed
  ultimately have "drop_bit 4 (rd16 (h5_tx_hdr a r n t @ d) 1) = of_nat n" unfolding hd by metis
  then show ?thesis using assms(1) unfolding hdr_PayloadLen_def by (simp add: unat_of_nat)
qed

lemma h5_rx_put_esc: "h5_rx_put c (s\<lparr>h5_rx_esc_state := e\<rparr>) = (h5_rx_put c s)\<lparr>h5_rx_esc_state := e\<rparr>"
  by (simp add: h5_rx_put_def Let_def split: option.splits)

lemma h5_recv_slip:
  assumes "h5_rx_count s > 0" and "h5_rx_esc_state s = H5_ESCSTATE_NOESC"
  shows "h5_recv (h5_slip_one_byte c @ bs) s = h5_recv bs (h5_rx_put c s)"
proof -
  have "h5_rx_esc_state (h5_rx_put c s) = H5_ESCSTATE_NOESC" for c
    using assms(2) by (simp add: h5_rx_put_def Let_def split: option.splits)
  then have "(h5_rx_put c s)\<lparr>h5_rx_esc_state := H5_ESCSTATE_NOESC\<rparr> = h5_rx_put c s" for c
    by (metis h5_cb.surjective h5_cb.update_convs(12) h5_cb.select_convs(12))
  then show ?thesis
    using assms
    by (simp add: h5_slip_one_byte_def h5_recv.simps(2) h5_unslip_one_byte_def h5_rx_put_esc)
qed

text \<open>A whole part of the packet.\<close>

definition h5_put_all :: "bytes \<Rightarrow> h5_cb \<Rightarrow> h5_cb" where
  "h5_put_all w s = foldl (\<lambda>s c. h5_rx_put c s) s w"

definition h5_crc_in :: "h5_cb \<Rightarrow> bytes \<Rightarrow> bytes \<Rightarrow> u16" where
  "h5_crc_in s d w = (if w \<noteq> [] \<and> hdr_DicPresent (d @ w) \<and> h5_rx_state s \<noteq> H5_W4_CRC
     then foldl h5_crc_update (h5_message_crc s) w else h5_message_crc s)"

lemma h5_put_all:
  assumes "h5_rx_skb s = Some d" and "length d + length w \<le> H5_RX_ALLOC"
  shows "h5_put_all w s = s\<lparr>h5_rx_skb := Some (d @ w), h5_rx_count := h5_rx_count s - length w,
    h5_message_crc := h5_crc_in s d w\<rparr>"
  using assms
proof (induction w arbitrary: s d)
  case Nil
  then show ?case by (simp add: h5_put_all_def h5_crc_in_def)
next
  case (Cons c w)
  have dic: "hdr_DicPresent (d @ [c]) = hdr_DicPresent (d @ c # w)"
    by (simp add: hdr_DicPresent_def rd_append)
  have put: "h5_rx_put c s = s\<lparr>h5_rx_skb := Some (d @ [c]), h5_message_crc := h5_crc_in s d [c],
      h5_rx_count := h5_rx_count s - 1\<rparr>" (is "_ = ?t")
    using Cons.prems by (simp add: h5_rx_put_def h5_crc_in_def Let_def)
  have crc: "h5_crc_in ?t (d @ [c]) w = h5_crc_in s d (c # w)"
    using dic by (cases w) (simp_all add: h5_crc_in_def)
  have "h5_put_all (c # w) s = h5_put_all w ?t" by (simp add: h5_put_all_def put)
  also have "\<dots> = ?t\<lparr>h5_rx_skb := Some ((d @ [c]) @ w), h5_rx_count := h5_rx_count ?t - length w,
      h5_message_crc := h5_crc_in ?t (d @ [c]) w\<rparr>"
    by (rule Cons.IH) (use Cons.prems in simp_all)
  finally show ?case unfolding crc by simp
qed

lemma h5_recv_slips:
  assumes "h5_rx_skb s = Some d" and "length d + length w \<le> H5_RX_ALLOC"
    and "length w \<le> h5_rx_count s" and "h5_rx_esc_state s = H5_ESCSTATE_NOESC"
  shows "h5_recv (concat (map h5_slip_one_byte w) @ bs) s = h5_recv bs (h5_put_all w s)"
  using assms
proof (induction w arbitrary: s d)
  case Nil
  then show ?case by (simp add: h5_put_all_def)
next
  case (Cons c w)
  have "h5_recv (concat (map h5_slip_one_byte (c # w)) @ bs) s =
      h5_recv (concat (map h5_slip_one_byte w) @ bs) (h5_rx_put c s)"
    using Cons.prems by (simp add: h5_recv_slip)
  also have "\<dots> = h5_recv bs (h5_put_all w (h5_rx_put c s))"
    using Cons.prems by (intro Cons.IH [of _ "d @ [c]"]) (auto simp: h5_rx_put_def Let_def)
  finally show ?case by (simp add: h5_put_all_def)
qed

lemma slip_head: "\<exists>b bs. h5_slip_one_byte c = b # bs \<and> b \<noteq> 0xc0"
  by (simp add: h5_slip_one_byte_def)

lemma h5_get_crc_tx: "h5_get_crc (w @ h5_tx_crc w) = bit_rev16 (foldl h5_crc_update 0xffff w)"
proof -
  have ff: "ucast (x AND 0xff) = (ucast x :: u8)" for x :: u16
    by (rule bit_word_eqI) (auto simp: bit_simps less_8_cases)
  show ?thesis by (simp add: h5_get_crc_def h5_tx_crc_def Let_def rd_append ff)
qed

text \<open>The receiver when the header and the payload of the packet are in its buffer.\<close>

definition h5_received :: "h5_cb \<Rightarrow> bool \<Rightarrow> bytes \<Rightarrow> u8 \<Rightarrow> h5_cb \<Rightarrow> h5_cb" where
  "h5_received a rel d t r =
     (let w = h5_tx_hdr a rel (length d) t @ d in
      r\<lparr>h5_rx_state := if h5_use_crc a then H5_W4_CRC else H5_W4_DATA, h5_rx_count := 0,
        h5_rx_esc_state := H5_ESCSTATE_NOESC,
        h5_message_crc := (if h5_use_crc a then foldl h5_crc_update 0xffff w else 0xffff),
        h5_rx_skb := Some w\<rparr>)"

lemma h5_rx_state_self: "h5_rx_state r = x \<Longrightarrow> r\<lparr>h5_rx_state := x\<rparr> = r"
  by (cases r) simp

lemma h5_recv_first:
  assumes "h5_rx_inv r" and "h5_rx_state r = H5_W4_PKT_DELIMITER \<or> h5_rx_state r = H5_W4_PKT_START"
    and "w \<noteq> []"
  shows "h5_recv (0xc0 # concat (map h5_slip_one_byte w) @ bs) r =
    h5_recv (concat (map h5_slip_one_byte w) @ bs) (r\<lparr>h5_rx_state := H5_W4_HDR, h5_rx_count := 4,
      h5_rx_esc_state := H5_ESCSTATE_NOESC, h5_message_crc := 0xffff, h5_rx_skb := Some []\<rparr>)"
proof -
  obtain b us where us: "concat (map h5_slip_one_byte w) @ bs = b # us" and "b \<noteq> 0xc0"
    using slip_head assms(3) by (cases w) (fastforce, metis append_Cons concat.simps(2) list.simps(9) append_assoc)
  have cnt: "h5_rx_count r = 0" and ok: "h5_ok (r\<lparr>h5_rx_state := H5_W4_PKT_START\<rparr>)"
    using assms(1,2) by (auto simp: h5_rx_inv_def h5_ok_def)
  have "h5_recv (0xc0 # b # us) r = h5_recv (b # us) (r\<lparr>h5_rx_state := H5_W4_PKT_START\<rparr>)"
    using assms(2) cnt by (auto simp: h5_recv.simps(2) [of "0xc0"] h5_rx_state_self)
  also have "\<dots> = h5_recv (b # us) (r\<lparr>h5_rx_state := H5_W4_HDR, h5_rx_count := 4,
      h5_rx_esc_state := H5_ESCSTATE_NOESC, h5_message_crc := 0xffff, h5_rx_skb := Some []\<rparr>)"
    using cnt \<open>b \<noteq> 0xc0\<close> h5_rx_start_ok [OF ok]
    by (simp add: h5_recv.simps(2) [of b us "r\<lparr>h5_rx_state := H5_W4_PKT_START\<rparr>"])
  finally show ?thesis by (simp add: us)
qed

lemma h5_recv_hdr: "bs \<noteq> [] \<Longrightarrow> h5_rx_count s = 0 \<Longrightarrow> h5_rx_state s = H5_W4_HDR \<Longrightarrow>
    h5_recv bs s = h5_recv bs (h5_rx_hdr s)"
  by (cases bs) (simp_all add: h5_recv.simps(2) [of _ _ s])

lemma h5_recv_body: "bs \<noteq> [] \<Longrightarrow> h5_rx_count s = 0 \<Longrightarrow> h5_rx_state s = H5_W4_DATA \<Longrightarrow>
    h5_recv bs s = h5_recv bs (h5_rx_body s)"
  by (cases bs) (simp_all add: h5_recv.simps(2) [of _ _ s])

lemma h5_recv_crc: "bs \<noteq> [] \<Longrightarrow> h5_rx_count s = 0 \<Longrightarrow> h5_rx_state s = H5_W4_CRC \<Longrightarrow>
    h5_recv bs s = h5_recv bs (h5_rx_crc s)"
  by (cases bs) (simp_all add: h5_recv.simps(2) [of _ _ s])

lemma h5_recv_last: "h5_sound s \<Longrightarrow> h5_recv [0xc0] (h5_complete_rx_pkt s) =
    (h5_complete_rx_pkt s)\<lparr>h5_rx_state := H5_W4_PKT_START\<rparr>"
  using h5_sound_complete [of s] by (simp add: h5_recv.simps(2) h5_sound_def)

lemma h5_recv_packet:
  assumes inv: "h5_rx_inv r" and idle: "h5_rx_state r = H5_W4_PKT_DELIMITER \<or> h5_rx_state r = H5_W4_PKT_START"
    and seqs: "h5_rxseq_txack a < 8" "h5_msgq_txseq a < 8"
    and ty: "t < 16" and len: "length d < 4096" and ord: "rel \<longrightarrow> h5_msgq_txseq a = h5_rxseq_txack r"
  shows "h5_recv (h5_tx_bytes a rel d t) r =
    (h5_complete_rx_pkt (h5_received a rel d t r))\<lparr>h5_rx_state := H5_W4_PKT_START\<rparr>"
proof -
  define h where "h = h5_tx_hdr a rel (length d) t"
  define tail where "tail = (if h5_use_crc a then concat (map h5_slip_one_byte (h5_tx_crc (h @ d))) else []) @ [0xc0]"
  define c where "c = (\<lambda>w. if h5_use_crc a then foldl h5_crc_update 0xffff w else (0xffff :: u16))"
  define s where "s = (\<lambda>st n w. r\<lparr>h5_rx_state := st, h5_rx_count := n, h5_rx_esc_state := H5_ESCSTATE_NOESC,
    h5_message_crc := c w, h5_rx_skb := Some w\<rparr>)"
  have lh: "length h = 4" by (simp add: h_def)
  then have "h \<noteq> []" by auto
  have ok: "h5_ok r" using inv by (simp add: h5_rx_inv_def)
  have sound: "h5_sound (s st 0 w)" for st w using ok by (simp add: s_def h5_sound_def h5_ok_def)
  have dic: "hdr_DicPresent (h @ w) = h5_use_crc a" for w
    unfolding h_def by (rule h5_tx_hdr_0(3) [OF seqs])
  have dic0: "hdr_DicPresent h = h5_use_crc a" using dic [of "[]"] by simp
  have rcv: "h5_received a rel d t r = s (if h5_use_crc a then H5_W4_CRC else H5_W4_DATA) 0 (h @ d)"
    by (simp add: h5_received_def Let_def h_def s_def c_def)
  have hdr_in: "h5_put_all h (s H5_W4_HDR 4 []) = s H5_W4_HDR 0 h"
    using lh dic0 by (subst h5_put_all [where d = "[]"])
      (auto simp: s_def h5_crc_in_def c_def H5_RX_ALLOC_def intro!: h5_cb.equality)
  have pay_in: "h5_put_all d (s H5_W4_DATA (length d) h) = s H5_W4_DATA 0 (h @ d)"
    using lh len dic by (subst h5_put_all [where d = h])
      (auto simp: s_def h5_crc_in_def c_def H5_RX_ALLOC_def intro!: h5_cb.equality)
  have "h5_tx_bytes a rel d t = 0xc0 # concat (map h5_slip_one_byte h) @ concat (map h5_slip_one_byte d) @ tail"
    by (simp add: h5_tx_bytes_def h5_slip_msgdelim_def Let_def h_def tail_def)
  then have "h5_recv (h5_tx_bytes a rel d t) r =
      h5_recv (concat (map h5_slip_one_byte h) @ concat (map h5_slip_one_byte d) @ tail) (s H5_W4_HDR 4 [])"
    using h5_recv_first [OF inv idle \<open>h \<noteq> []\<close>] by (simp add: s_def c_def)
  also have "\<dots> = h5_recv (concat (map h5_slip_one_byte d) @ tail) (s H5_W4_HDR 0 h)"
    unfolding hdr_in [symmetric]
    by (rule h5_recv_slips [where d = "[]"]) (simp_all add: s_def lh H5_RX_ALLOC_def)
  also have "\<dots> = h5_recv (concat (map h5_slip_one_byte d) @ tail) (s H5_W4_DATA (length d) h)"
  proof -
    have "h5_rx_hdr (s H5_W4_HDR 0 h) = s H5_W4_DATA (length d) h"
      using h5_tx_hdr_0 [OF seqs, of rel "length d" t "[]"] h5_hdr_sum_tx [of a rel "length d" t "[]"]
        h5_tx_hdr_len [OF len ty, of a rel "[]"] ord
      by (auto simp: h5_rx_hdr_def h5_rx_data_def s_def Let_def h_def)
    then show ?thesis by (subst h5_recv_hdr) (auto simp: tail_def s_def)
  qed
  also have "\<dots> = h5_recv tail (s H5_W4_DATA 0 (h @ d))"
    unfolding pay_in [symmetric]
    by (rule h5_recv_slips [where d = h]) (use lh len in \<open>simp_all add: s_def H5_RX_ALLOC_def\<close>)
  also have "\<dots> = (h5_complete_rx_pkt (h5_received a rel d t r))\<lparr>h5_rx_state := H5_W4_PKT_START\<rparr>"
  proof (cases "h5_use_crc a")
    case False
    then have "h5_rx_body (s H5_W4_DATA 0 (h @ d)) = h5_complete_rx_pkt (s H5_W4_DATA 0 (h @ d))"
      using dic by (simp add: h5_rx_body_def h5_rx_data_def s_def)
    then have "h5_recv tail (s H5_W4_DATA 0 (h @ d)) = h5_recv [0xc0] (h5_complete_rx_pkt (s H5_W4_DATA 0 (h @ d)))"
      using False by (subst h5_recv_body) (simp_all add: tail_def s_def)
    with False show ?thesis unfolding rcv by (simp add: h5_recv_last [OF sound])
  next
    case True
    let ?x = "h5_tx_crc (h @ d)"
    have "h5_rx_body (s H5_W4_DATA 0 (h @ d)) = s H5_W4_CRC 2 (h @ d)"
      using True dic by (auto simp: h5_rx_body_def h5_rx_data_def s_def intro!: h5_cb.equality)
    moreover have "tail \<noteq> []" "h5_rx_count (s H5_W4_DATA 0 (h @ d)) = 0"
      "h5_rx_state (s H5_W4_DATA 0 (h @ d)) = H5_W4_DATA" by (simp_all add: tail_def s_def)
    ultimately have "h5_recv tail (s H5_W4_DATA 0 (h @ d)) = h5_recv tail (s H5_W4_CRC 2 (h @ d))"
      by (metis h5_recv_body)
    also have "\<dots> = h5_recv [0xc0] (h5_put_all ?x (s H5_W4_CRC 2 (h @ d)))"
      unfolding tail_def using True lh len
      by (simp, intro h5_recv_slips [where d = "h @ d"]) (simp_all add: s_def H5_RX_ALLOC_def)
    also have "h5_put_all ?x (s H5_W4_CRC 2 (h @ d)) = (s H5_W4_CRC 0 (h @ d))\<lparr>h5_rx_skb := Some (h @ d @ ?x)\<rparr>"
      using lh len by (subst h5_put_all [where d = "h @ d"])
        (auto simp: s_def h5_crc_in_def H5_RX_ALLOC_def intro!: h5_cb.equality)
    also have "h5_recv [0xc0] \<dots> = h5_recv [0xc0] (h5_complete_rx_pkt (s H5_W4_CRC 0 (h @ d)))"
    proof -
      let ?y = "(s H5_W4_CRC 0 (h @ d))\<lparr>h5_rx_skb := Some (h @ d @ ?x)\<rparr>"
      have "h5_rx_crc ?y = h5_complete_rx_pkt (s H5_W4_CRC 0 (h @ d))"
        using True h5_get_crc_tx [of "h @ d"] by (simp add: s_def h5_rx_crc_def h5_rx_data_def Let_def c_def)
      moreover have "h5_rx_count ?y = 0" "h5_rx_state ?y = H5_W4_CRC" by (simp_all add: s_def)
      ultimately show ?thesis by (metis h5_recv_crc list.discI)
    qed
    finally show ?thesis
      using True unfolding rcv by (simp add: h5_recv_last [OF sound])
  qed
  finally show ?thesis .
qed

section \<open>The timer of the baud rate\<close>

text \<open>
  The handler of this timer uses the last received message.  The timer is started by the inspection
  of an event only, which is that message, and the pointer to the message is not cleared while allocations succeed.
\<close>

definition h5_baud :: "h5_cb \<Rightarrow> bool \<times> bool" where
  "h5_baud s = (h5_p_rcv_msg s = None, Start_timer TIMER_H5_WAIT_CT_BAUDRATE_READY \<in> set (h5_outs s))"

definition h5_baud_ok :: "h5_cb \<Rightarrow> bool" where
  "h5_baud_ok s \<longleftrightarrow> \<not> (fst (h5_baud s) \<and> snd (h5_baud s))"

lemma h5_baud_emit [simp]:
  "x \<noteq> Start_timer TIMER_H5_WAIT_CT_BAUDRATE_READY \<Longrightarrow> h5_baud (h5_emit x s) = h5_baud s"
  "fst (h5_baud (h5_emit x s)) = fst (h5_baud s)"
  by (simp_all add: h5_baud_def h5_emit_def)

lemma h5_baud_updates [simp]:
  "h5_baud (s\<lparr>h5_unack := p\<rparr>) = h5_baud s" "h5_baud (s\<lparr>h5_rel := p\<rparr>) = h5_baud s"
  "h5_baud (s\<lparr>h5_unrel := p\<rparr>) = h5_baud s" "h5_baud (s\<lparr>h5_rxseq_txack := b\<rparr>) = h5_baud s"
  "h5_baud (s\<lparr>h5_rxack := b\<rparr>) = h5_baud s" "h5_baud (s\<lparr>h5_is_txack_req := f\<rparr>) = h5_baud s"
  "h5_baud (s\<lparr>h5_msgq_txseq := b\<rparr>) = h5_baud s" "h5_baud (s\<lparr>h5_message_crc := w\<rparr>) = h5_baud s"
  "h5_baud (s\<lparr>h5_rx_count := n\<rparr>) = h5_baud s" "h5_baud (s\<lparr>h5_rx_state := r\<rparr>) = h5_baud s"
  "h5_baud (s\<lparr>h5_rx_esc_state := e\<rparr>) = h5_baud s" "h5_baud (s\<lparr>h5_link_estab_state := l\<rparr>) = h5_baud s"
  "h5_baud (s\<lparr>h5_rx_skb := d\<rparr>) = h5_baud s" "h5_baud (s\<lparr>h5_sliding_window_size := b\<rparr>) = h5_baud s"
  "h5_baud (s\<lparr>h5_oof_flow_control := f\<rparr>) = h5_baud s" "h5_baud (s\<lparr>h5_dic_type := f\<rparr>) = h5_baud s"
  "h5_baud (s\<lparr>h5_data_retrans_count := n\<rparr>) = h5_baud s" "h5_baud (s\<lparr>h5_sync_retrans_count := n\<rparr>) = h5_baud s"
  "h5_baud (s\<lparr>h5_conf_retrans_count := n\<rparr>) = h5_baud s" "h5_baud (s\<lparr>h5_HciConnHash := c\<rparr>) = h5_baud s"
  "h5_baud (s\<lparr>h5_hc_acl_data_size := w\<rparr>) = h5_baud s" "h5_baud (s\<lparr>h5_hc_ble_acl_data_size := w\<rparr>) = h5_baud s"
  "h5_baud (s\<lparr>h5_hc_cur_acl_total_num := w\<rparr>) = h5_baud s" "h5_baud (s\<lparr>h5_cback_set := f\<rparr>) = h5_baud s"
  "h5_baud (s\<lparr>h5_int_cmd_rsp_pending := n\<rparr>) = h5_baud s" "h5_baud (s\<lparr>h5_int_cmd_rd_idx := n\<rparr>) = h5_baud s"
  "h5_baud (s\<lparr>h5_int_cmd_wrt_idx := n\<rparr>) = h5_baud s" "h5_baud (s\<lparr>h5_int_cmd := i\<rparr>) = h5_baud s"
  "h5_baud (s\<lparr>h5_num_hci_cmd_pkts := k\<rparr>) = h5_baud s" "h5_baud (s\<lparr>h5_allocs := a\<rparr>) = h5_baud s"
  "h5_baud (s\<lparr>h5_fault := f\<rparr>) = h5_baud s" "h5_baud (s\<lparr>h5_overrun := f\<rparr>) = h5_baud s"
  by (simp_all add: h5_baud_def)

lemma h5_baud_alloc: "h5_alloc s = (r, t) \<Longrightarrow> h5_baud t = h5_baud s"
  by (auto simp: h5_alloc_def split: list.splits)

lemma h5_baud_upd_conn [simp]: "h5_baud (h5_upd_conn i f s) = h5_baud s"
  by (simp add: h5_upd_conn_def)

lemma h5_baud_enqueue [simp]: "h5_baud (h5_enqueue x s) = h5_baud s"
  by (simp add: h5_enqueue_def)

lemma h5_baud_prepare: "h5_prepare_pkt d t s = (r, s1) \<Longrightarrow> h5_baud s1 = h5_baud s"
  by (auto simp: h5_prepare_pkt_def Let_def split: option.splits prod.splits if_splits dest: h5_baud_alloc)

lemma h5_baud_dequeue: "h5_dequeue s = (r, s1) \<Longrightarrow> h5_baud s1 = h5_baud s"
  by (auto simp: h5_dequeue_def h5_start_data_retrans_timer_def Let_def
      split: list.splits option.splits prod.splits if_splits dest!: h5_baud_prepare)

lemma h5_baud_wake_up [simp]: "h5_baud (h5_wake_up s) = h5_baud s"
proof (induction s rule: h5_wake_up.induct)
  case (1 s)
  obtain r s1 where d: "h5_dequeue s = (r, s1)" by fastforce
  then show ?case
    using "1.IH" [of r s1] h5_baud_dequeue [OF d] by (subst h5_wake_up.simps) (auto split: option.splits)
qed

lemma h5_baud_send_unrel [simp]: "h5_baud (h5_send_unrel d t s) = h5_baud s"
  by (auto simp: h5_send_unrel_def split: prod.splits option.splits dest: h5_baud_prepare)

lemma h5_baud_ctl [simp]: "h5_baud (h5_process_ctl_pkts d s) = h5_baud s"
  by (auto simp: h5_process_ctl_pkts_def h5_send_ctl_defs rtk_notify_hw_h5_init_result_def Let_def
      split: h5_link_state.splits prod.splits dest: h5_baud_alloc)

lemma h5_baud_remove_acked [simp]: "h5_baud (h5_remove_acked_pkt s) = h5_baud s"
  by (simp add: h5_remove_acked_pkt_def h5_stop_data_retrans_timer_def Let_def)

lemma h5_baud_send_pending [simp]: "h5_baud (h5_send_pending i xs s) = h5_baud s"
  by (induction xs arbitrary: s) (simp_all add: Let_def)

lemma h5_baud_num_cmp [simp]: "h5_baud (h5_num_cmp_pkts p k h n s) = h5_baud s"
  by (induction p k h n s rule: h5_num_cmp_pkts.induct) (simp_all add: Let_def split: option.splits)

lemma h5_baud_ConnAllocate: "HciConnAllocate h s = (c, t) \<Longrightarrow> h5_baud t = h5_baud s"
  by (auto simp: HciConnAllocate_def split: prod.splits dest: h5_baud_alloc)

lemma h5_baud_intercept: "fst (h5_baud (snd (internal_event_intercept_h5 p s))) = fst (h5_baud s)"
  by (auto simp: internal_event_intercept_h5_def Let_def h5_command_complete_def
      h5_command_status_def h5_connection_comp_def h5_disconnection_comp_def ConnHashAdd_def
      ConnHashDelete_def split: option.splits prod.splits dest: h5_baud_ConnAllocate)

lemma h5_baud_dispatch: "hci_rx_dispatch_by_handle d s = (r, t) \<Longrightarrow> h5_baud t = h5_baud s"
  by (auto simp: hci_rx_dispatch_by_handle_def Let_def acl_store_first_def acl_store_next_def ConnHashAdd_def
      split: option.splits prod.splits if_splits dest!: h5_baud_ConnAllocate h5_baud_alloc)

lemma h5_baud_deliver:
  assumes "h5_sound s"
  shows "\<not> fst (h5_baud (h5_deliver ev t s))"
proof -
  let ?s = "s\<lparr>h5_p_rcv_msg := Some (ev, h5_rx_data s)\<rparr>"
  have "\<not> fst (h5_baud ?s)" by (simp add: h5_baud_def)
  then show ?thesis
    using h5_baud_intercept [of "h5_rx_data s" ?s]
    by (auto simp: h5_deliver_def h5_sound_alloc [OF assms] hci_recv_frame_def Let_def split: prod.splits)
qed

lemma h5_baud_complete:
  assumes "h5_sound s" "h5_baud_ok s"
  shows "h5_baud_ok (h5_complete_rx_pkt s)"
proof -
  define d where "d = h5_rx_data s"
  define s1 where "s1 = (if hdr_ReliablePkt d then
      h5_wake_up (s\<lparr>h5_rxseq_txack := (hdr_SeqNumber d + 1) mod 8, h5_is_txack_req := True\<rparr>) else s)"
  define s2 where "s2 = h5_remove_acked_pkt (s1\<lparr>h5_rxack := hdr_AckNumber d\<rparr>)"
  define s3 where "s3 = (if hdr_PktType d = H5_LINK_CTL_PKT
      then h5_process_ctl_pkts (skb_pull 4 d) (s2\<lparr>h5_rx_skb := Some (skb_pull 4 d)\<rparr>) else s2)"
  define s4 where "s4 = s3\<lparr>h5_rx_skb := Some (skb_pull 4 d)\<rparr>"
  have s3: "h5_sound s3" "h5_baud s3 = h5_baud s"
    using assms(1) by (simp_all add: s1_def s2_def s3_def h5_sound_wake_up h5_sound_remove_acked h5_sound_ctl)
  then have s4: "h5_sound s4" "h5_baud s4 = h5_baud s" by (simp_all add: s4_def)
  obtain r s5 where s5: "hci_rx_dispatch_by_handle (skb_pull 4 d) s4 = (r, s5)" by fastforce
  have "h5_baud s5 = h5_baud s" "h5_sound s5"
    using h5_baud_dispatch [OF s5] s4 h5_sound_dispatch [OF s4(1), of "skb_pull 4 d"] s5 by simp_all
  with s3 s4 assms(2) show ?thesis
    unfolding h5_complete_rx_pkt_def Let_def h5_baud_ok_def
    by (fold d_def, fold s1_def, fold s2_def, fold s3_def, fold s4_def)
      (auto simp: s5 h5_baud_deliver split: option.splits)
qed

lemma h5_baud_rx_steps:
  "h5_rx_inv s \<Longrightarrow> h5_rx_count s = 0 \<Longrightarrow> h5_rx_state s = H5_W4_HDR \<Longrightarrow> h5_baud_ok s \<Longrightarrow> h5_baud_ok (h5_rx_hdr s)"
  "h5_rx_inv s \<Longrightarrow> h5_rx_count s = 0 \<Longrightarrow> h5_rx_state s = H5_W4_DATA \<Longrightarrow> h5_baud_ok s \<Longrightarrow> h5_baud_ok (h5_rx_body s)"
  "h5_rx_inv s \<Longrightarrow> h5_rx_count s = 0 \<Longrightarrow> h5_rx_state s = H5_W4_CRC \<Longrightarrow> h5_baud_ok s \<Longrightarrow> h5_baud_ok (h5_rx_crc s)"
proof -
  have c: "h5_baud_ok (h5_complete_rx_pkt (s\<lparr>h5_rx_skb := x\<rparr>))" if "h5_sound s" "h5_baud_ok s" for s x
    using h5_baud_complete [of "s\<lparr>h5_rx_skb := x\<rparr>"] that by (simp add: h5_baud_ok_def)
  show "h5_rx_inv s \<Longrightarrow> h5_rx_count s = 0 \<Longrightarrow> h5_rx_state s = H5_W4_HDR \<Longrightarrow> h5_baud_ok s \<Longrightarrow> h5_baud_ok (h5_rx_hdr s)"
    by (auto simp: h5_rx_hdr_def h5_rx_drop_def h5_rx_use_def h5_baud_ok_def Let_def)
  show "h5_rx_inv s \<Longrightarrow> h5_rx_count s = 0 \<Longrightarrow> h5_rx_state s = H5_W4_DATA \<Longrightarrow> h5_baud_ok s \<Longrightarrow> h5_baud_ok (h5_rx_body s)"
    using h5_baud_complete [of s] h5_rx_inv_sound [of s] h5_rx_inv_use [of s]
    by (simp add: h5_rx_body_def Let_def) (simp add: h5_baud_ok_def)
  show "h5_rx_inv s \<Longrightarrow> h5_rx_count s = 0 \<Longrightarrow> h5_rx_state s = H5_W4_CRC \<Longrightarrow> h5_baud_ok s \<Longrightarrow> h5_baud_ok (h5_rx_crc s)"
    using c [of s] h5_rx_inv_sound [of s] h5_rx_inv_use [of s]
    by (simp add: h5_rx_crc_def Let_def) (simp add: h5_baud_ok_def h5_rx_drop_def)
qed

lemma h5_baud_put [simp]: "h5_baud (h5_rx_put b s) = h5_baud s"
  by (simp add: h5_rx_put_def Let_def split: option.splits)

lemma h5_baud_unslip [simp]: "h5_baud (h5_unslip_one_byte b s) = h5_baud s"
  by (simp add: h5_unslip_one_byte_def split: h5_rx_esc_state.splits)

lemma h5_baud_recv: "h5_rx_inv s \<Longrightarrow> h5_baud_ok s \<Longrightarrow> h5_baud_ok (h5_recv bs s)"
proof (induction bs s rule: h5_recv.induct)
  case (1 s)
  then show ?case by simp
next
  case (2 b bs s)
  have ok: "h5_ok s" using "2.prems" by (simp add: h5_rx_inv_def)
  note start = h5_rx_inv_start [OF "2.prems"(1), unfolded h5_rx_start_ok [OF ok] snd_conv]
  have b: "h5_baud t = h5_baud s \<Longrightarrow> h5_baud_ok t" for t using "2.prems"(2) by (simp add: h5_baud_ok_def)
  show ?case
  proof (cases "h5_rx_count s > 0")
    case True
    with "2.IH"(1) "2.prems" show ?thesis
      by (subst h5_recv.simps) (simp add: h5_rx_inv_unslip h5_rx_inv_reset b)
  next
    case False
    with "2.IH"(2-) "2.prems" ok start show ?thesis
      by (subst h5_recv.simps, cases "h5_rx_state s")
        (simp_all add: h5_rx_inv_hdr h5_rx_inv_body h5_rx_inv_crc h5_rx_start_ok h5_rx_inv_delim h5_baud_rx_steps b)
  qed
qed

section \<open>Reachable states\<close>

text \<open>
  What the transport goes through: received bytes, cut anywhere; messages and internal commands of
  the stack; the query of the buffer sizes and its callback; expiring timers.  The retransmission timers
  may expire at any time, the timer of the baud rate after it has been started.
\<close>

inductive h5_reach :: "hci_conn \<Rightarrow> h5_cb \<Rightarrow> bool" for junk where
  reach_init: "h5_reach junk (hci_h5_init junk)"
| reach_recv: "h5_reach junk s \<Longrightarrow> h5_reach junk (h5_recv bs s)"
| reach_send: "h5_reach junk s \<Longrightarrow> hci_h5_send_msg m s = Some s' \<Longrightarrow> h5_reach junk s'"
| reach_int_cmd: "h5_reach junk s \<Longrightarrow> hci_h5_send_int_cmd opcode m cb s = Some (r, s') \<Longrightarrow> h5_reach junk s'"
| reach_query: "h5_reach junk s \<Longrightarrow> hci_h5_get_acl_data_length s = Some s' \<Longrightarrow> h5_reach junk s'"
| reach_query_cback: "h5_reach junk s \<Longrightarrow> get_acl_data_length_cback_h5 m s = Some s' \<Longrightarrow> h5_reach junk s'"
| reach_timeout: "h5_reach junk s \<Longrightarrow> signo \<noteq> TIMER_H5_WAIT_CT_BAUDRATE_READY \<Longrightarrow>
    h5_reach junk (h5_timeout_handler signo s)"
| reach_baud_timeout: "h5_reach junk s \<Longrightarrow> Start_timer TIMER_H5_WAIT_CT_BAUDRATE_READY \<in> set (h5_outs s) \<Longrightarrow>
    h5_reach junk (h5_timeout_handler TIMER_H5_WAIT_CT_BAUDRATE_READY s)"

text \<open>The operations of the sending side keep \<open>h5_ok\<close>, the packet being received and the baud-rate timer.\<close>

definition h5_tx_keeps :: "h5_cb \<Rightarrow> h5_cb \<Rightarrow> bool" where
  "h5_tx_keeps s s' \<longleftrightarrow> (h5_ok s \<longrightarrow> h5_ok s' \<and> h5_rx_part s' = h5_rx_part s \<and> h5_baud s' = h5_baud s)"

lemma h5_tx_keeps_inv: "h5_tx_keeps s s' \<Longrightarrow> h5_rx_inv s \<Longrightarrow> h5_rx_inv s'"
  by (auto simp: h5_tx_keeps_def h5_rx_inv_def h5_rx_part_def split: h5_rx_state.splits)

lemma h5_tx_keeps_trans: "h5_tx_keeps s t \<Longrightarrow> h5_tx_keeps t u \<Longrightarrow> h5_tx_keeps s u"
  by (simp add: h5_tx_keeps_def)

lemma h5_tx_keeps_alloc: "h5_ok s \<Longrightarrow> h5_tx_keeps s (snd (h5_alloc s))"
  by (simp add: h5_tx_keeps_def h5_alloc_ok)

lemma h5_tx_keeps_updates [simp]:
  "x \<noteq> Start_timer TIMER_H5_WAIT_CT_BAUDRATE_READY \<Longrightarrow> h5_tx_keeps s (h5_emit x t) = h5_tx_keeps s t"
  "h5_tx_keeps s (h5_enqueue y t) = h5_tx_keeps s t"
  "h5_tx_keeps s (h5_upd_conn i f t) = h5_tx_keeps s t"
  "h5_tx_keeps s (t\<lparr>h5_hc_cur_acl_total_num := a\<rparr>) = h5_tx_keeps s t"
  "h5_tx_keeps s (t\<lparr>h5_hc_acl_data_size := a\<rparr>) = h5_tx_keeps s t"
  "h5_tx_keeps s (t\<lparr>h5_hc_ble_acl_data_size := a\<rparr>) = h5_tx_keeps s t"
  "h5_tx_keeps s (t\<lparr>h5_num_hci_cmd_pkts := b\<rparr>) = h5_tx_keeps s t"
  "h5_tx_keeps s (t\<lparr>h5_cback_set := c\<rparr>) = h5_tx_keeps s t"
  "h5_tx_keeps s (t\<lparr>h5_data_retrans_count := n\<rparr>) = h5_tx_keeps s t"
  "h5_tx_keeps s (t\<lparr>h5_sync_retrans_count := n\<rparr>) = h5_tx_keeps s t"
  "h5_tx_keeps s (t\<lparr>h5_conf_retrans_count := n\<rparr>) = h5_tx_keeps s t"
  "h5_tx_keeps s (t\<lparr>h5_unack := p\<rparr>) = h5_tx_keeps s t"
  "h5_tx_keeps s (t\<lparr>h5_rel := p\<rparr>) = h5_tx_keeps s t"
  "h5_tx_keeps s (t\<lparr>h5_msgq_txseq := q\<rparr>) = h5_tx_keeps s t"
  "h5_tx_keeps s (t\<lparr>h5_int_cmd_rsp_pending := n\<rparr>) = h5_tx_keeps s t"
  "h5_tx_keeps s (t\<lparr>h5_int_cmd := l\<rparr>) = h5_tx_keeps s t"
  "h5_tx_keeps s (t\<lparr>h5_int_cmd_wrt_idx := n\<rparr>) = h5_tx_keeps s t"
  "h5_tx_keeps s s"
  by (simp_all add: h5_tx_keeps_def h5_ok_emit) (simp_all add: h5_ok_def h5_rx_part_def h5_enqueue_def h5_upd_conn_def)

lemma h5_tx_keeps_wake_up: "h5_tx_keeps s t \<Longrightarrow> h5_tx_keeps s (h5_wake_up t)"
  using h5_keep_wake_up [of t] by (simp add: h5_tx_keeps_def)

lemma h5_tx_keeps_send_unrel: "h5_tx_keeps s t \<Longrightarrow> h5_tx_keeps s (h5_send_unrel d ty t)"
  using h5_keep_prepare [of t d ty] h5_baud_send_unrel [of d ty t]
  by (auto simp: h5_tx_keeps_def h5_send_unrel_def h5_ok_emit split: prod.splits option.splits)

lemma h5_tx_keeps_send_acl: "h5_tx_keeps s t \<Longrightarrow> h5_tx_keeps s (h5_send_acl i x t)"
  by (simp add: h5_send_acl_def Let_def)

lemma h5_tx_keeps_requeue: "h5_tx_keeps s t \<Longrightarrow> h5_tx_keeps s (h5_requeue xs t)"
  by (induction xs t rule: h5_requeue.induct) simp_all

lemma h5_tx_keeps_timeout:
  "signo \<noteq> TIMER_H5_WAIT_CT_BAUDRATE_READY \<Longrightarrow> h5_tx_keeps s (h5_timeout_handler signo s)"
  by (cases signo) (simp_all add: h5_timeout_handler_def Let_def h5_send_ctl_defs
      h5_tx_keeps_wake_up h5_tx_keeps_requeue h5_tx_keeps_send_unrel)

lemma h5_tx_keeps_fragments:
  assumes "h5_send_fragments i h n p m t = Some y" and "h5_tx_keeps s t" and "h5_ok s"
  shows "h5_tx_keeps s (snd (snd y))"
proof -
  have "h5_tx_keeps s t \<longrightarrow> h5_tx_keeps s (snd (snd y))"
  proof (rule h5_send_fragments.raw_induct [OF _ assms(1), where
        P = "\<lambda>i h n p m t y. h5_tx_keeps s t \<longrightarrow> h5_tx_keeps s (snd (snd y))"])
    fix f i h n p m t y
    assume IH: "\<And>i h n p m t y. f i h n p m t = Some y \<Longrightarrow> h5_tx_keeps s t \<longrightarrow> h5_tx_keeps s (snd (snd y))"
      and f: "(if p < mg_len m
      then let (ok, s) = h5_alloc t;
               (x, m) = h5_fragment h n p m;
               s = if ok then h5_send_acl i x s else s\<lparr>h5_fault := True\<rparr>
           in if mg_layer_specific m \<noteq> 0
              then let m = m\<lparr>mg_layer_specific := mg_layer_specific m - 1\<rparr>
                   in if mg_layer_specific m = 0
                      then let m = m\<lparr>mg_event := MSG_HC_TO_STACK_L2C_SEG_XMIT\<rparr>
                           in Some (True, m, h5_emit (Tx_result m BT_HC_TX_FRAGMENT) s)
                      else f i h n p m s
              else f i h n p m s
      else Some (False, m, t)) = Some y"
    show "h5_tx_keeps s t \<longrightarrow> h5_tx_keeps s (snd (snd y))"
    proof
      assume t: "h5_tx_keeps s t"
      then have "h5_alloc t = (True, t)" using assms(3) h5_alloc_ok by (simp add: h5_tx_keeps_def)
      with f t show "h5_tx_keeps s (snd (snd y))"
        by (auto simp: Let_def h5_tx_keeps_send_acl split: if_splits prod.splits dest!: IH)
    qed
  qed
  with assms(2) show ?thesis by blast
qed

lemma h5_tx_keeps_send_last: "h5_ok s \<Longrightarrow> h5_tx_keeps s t \<Longrightarrow> h5_tx_keeps s (h5_send_last ev c m t)"
  using h5_alloc_ok [of t]
  by (auto simp: h5_send_last_def Let_def h5_tx_keeps_def [of s t] intro!: h5_tx_keeps_wake_up
      h5_tx_keeps_send_acl split: option.splits)

lemma h5_tx_keeps_send_msg: "h5_ok s \<Longrightarrow> hci_h5_send_msg m s = Some s' \<Longrightarrow> h5_tx_keeps s s'"
  by (auto simp: hci_h5_send_msg_def Let_def h5_tx_keeps_send_last
      split: if_splits option.splits bool.splits prod.splits
      dest!: h5_tx_keeps_fragments [where s = s])

lemma h5_tx_keeps_int_cmd: 
  assumes "h5_ok s" and "hci_h5_send_int_cmd opcode m cb s = Some (r, s')"
  shows "h5_tx_keeps s s'"
  using assms
  by (auto simp: hci_h5_send_int_cmd_def Let_def h5_send_ctl_defs h5_tx_keeps_send_unrel
      split: h5_link_state.splits if_splits dest!: h5_tx_keeps_send_msg [rotated]
      intro: h5_tx_keeps_trans [rotated]) (simp_all add: h5_ok_def)

lemma h5_tx_keeps_query: "h5_ok s \<Longrightarrow> hci_h5_get_acl_data_length s = Some s' \<Longrightarrow> h5_tx_keeps s s'"
  by (auto simp: hci_h5_get_acl_data_length_def h5_alloc_ok Let_def split: if_splits dest!: h5_tx_keeps_int_cmd [rotated])

lemma h5_tx_keeps_query_cback:
  assumes "h5_ok s" "get_acl_data_length_cback_h5 m s = Some s'"
  shows "h5_tx_keeps s s'"
proof -
  have step: "h5_tx_keeps s y" if "hci_h5_send_int_cmd op n cb t = Some (r, y)" "h5_tx_keeps s t" for op n cb t r y
    using that h5_tx_keeps_int_cmd [OF _ that(1)] h5_tx_keeps_trans [OF that(2)] assms(1)
    by (simp add: h5_tx_keeps_def)
  show ?thesis using assms(2)
    by (auto simp: get_acl_data_length_cback_h5_def Let_def split: if_splits dest!: step)
qed

definition h5_reach_inv :: "h5_cb \<Rightarrow> bool" where
  "h5_reach_inv s \<longleftrightarrow> h5_rx_inv s \<and> h5_baud_ok s"

lemma h5_tx_keeps_reach_inv: "h5_tx_keeps s s' \<Longrightarrow> h5_reach_inv s \<Longrightarrow> h5_reach_inv s'"
  using h5_tx_keeps_inv [of s s']
  by (auto simp: h5_reach_inv_def h5_tx_keeps_def h5_baud_ok_def h5_rx_inv_def)

lemma h5_rx_inv_init: "h5_rx_inv (hci_h5_init junk)"
  by (simp add: h5_rx_inv_def h5_ok_def hci_h5_init_def)

lemma h5_reach_inv_baud_timeout:
  assumes "h5_reach_inv s" "Start_timer TIMER_H5_WAIT_CT_BAUDRATE_READY \<in> set (h5_outs s)"
  shows "h5_reach_inv (h5_timeout_handler TIMER_H5_WAIT_CT_BAUDRATE_READY s)"
proof -
  obtain ev p where "h5_p_rcv_msg s = Some (ev, p)"
    using assms by (auto simp: h5_reach_inv_def h5_baud_ok_def h5_baud_def)
  then have "h5_tx_keeps s (h5_timeout_handler TIMER_H5_WAIT_CT_BAUDRATE_READY s)"
    by (simp add: h5_timeout_handler_def)
  then show ?thesis using assms(1) by (rule h5_tx_keeps_reach_inv)
qed

lemma h5_reach_invariant: "h5_reach junk s \<Longrightarrow> h5_reach_inv s"
proof (induction rule: h5_reach.induct)
  case reach_init
  show ?case by (simp add: h5_reach_inv_def h5_rx_inv_init) (simp add: h5_baud_ok_def h5_baud_def hci_h5_init_def)
next
  case (reach_recv s bs)
  then show ?case by (simp add: h5_reach_inv_def h5_rx_inv_recv h5_baud_recv)
next
  case (reach_timeout s signo)
  then show ?case using h5_tx_keeps_timeout h5_tx_keeps_reach_inv by blast
next
  case (reach_baud_timeout s)
  then show ?case by (simp add: h5_reach_inv_baud_timeout)
qed (metis h5_reach_inv_def h5_rx_inv_def h5_tx_keeps_reach_inv h5_tx_keeps_send_msg h5_tx_keeps_int_cmd
      h5_tx_keeps_query h5_tx_keeps_query_cback)+

section \<open>Properties\<close>

definition h5_junk0 :: hci_conn where
  "h5_junk0 = \<lparr>hc_handle = 0, hc_bd_addr = [], hc_link_type = 0, hc_encrypt_enabled = 0,
     hc_NumOfNotCmpAclPkts = 0, hc_pending_pkts = [], hc_rx_skb = None\<rparr>"

definition h5_rx_idle :: "h5_cb \<Rightarrow> bool" where
  "h5_rx_idle s \<longleftrightarrow> h5_rx_state s = H5_W4_PKT_DELIMITER \<or> h5_rx_state s = H5_W4_PKT_START"

lemma h5_rel_type_16: "h5_rel_type t = Some rel \<Longrightarrow> t < 16"
  by (auto simp: h5_rel_type_def h5_pkt_types split: if_splits)

text \<open>C27: Framing round trip of the three-wire transport.  A packet that one side builds (any
  payload of at most 4095 bytes, any packet type the sender knows, with or without CRC) makes an idle
  receiver complete exactly one packet: its header carries the type, the reliability, the sequence
  and the acknowledgement number of the sender, its payload is the sender's payload byte for byte,
  nothing else of the receiver had changed before, and the receiver is ready for the next packet.
  A reliable packet must carry the sequence number that the receiver expects.\<close>

theorem h5_recv_roundtrip:
  assumes "h5_rx_inv r" and "h5_rx_idle r" and "h5_ok a"
    and "h5_rxseq_txack a < 8" and "h5_msgq_txseq a < 8"
    and "h5_rel_type t = Some rel" and "length d \<le> 4095"
    and "rel \<longrightarrow> h5_msgq_txseq a = h5_rxseq_txack r"
  shows "\<exists>w a' q p. h5_prepare_pkt d t a = (Some w, a') \<and>
    h5_recv w r = (h5_complete_rx_pkt q)\<lparr>h5_rx_state := H5_W4_PKT_START\<rparr> \<and>
    h5_rx_skb q = Some p \<and> drop 4 p = d \<and> hdr_PayloadLen p = length d \<and> hdr_PktType p = t \<and>
    hdr_ReliablePkt p = rel \<and> hdr_AckNumber p = h5_rxseq_txack a \<and>
    hdr_SeqNumber p = (if rel then h5_msgq_txseq a else 0) \<and>
    (\<exists>st e c. q = r\<lparr>h5_rx_state := st, h5_rx_count := 0, h5_rx_esc_state := e, h5_message_crc := c,
                   h5_rx_skb := Some p\<rparr>)"
proof -
  let ?p = "h5_tx_hdr a rel (length d) t @ d"
  have t: "t < 16" using assms(6) by (rule h5_rel_type_16)
  have len: "length d < 4096" using assms(7) by simp
  have "h5_recv (h5_tx_bytes a rel d t) r =
      (h5_complete_rx_pkt (h5_received a rel d t r))\<lparr>h5_rx_state := H5_W4_PKT_START\<rparr>"
    using assms t len by (intro h5_recv_packet) (auto simp: h5_rx_idle_def)
  moreover have "h5_prepare_pkt d t a = (Some (h5_tx_bytes a rel d t), snd (h5_prepare_pkt d t a))"
    using assms(3,6) by (simp add: h5_prepare_ok)
  moreover have "drop 4 ?p = d" by simp
  ultimately show ?thesis
    using h5_tx_hdr_0 [OF assms(4,5)] h5_tx_hdr_len [OF len t] h5_tx_hdr_type [OF t]
    by (intro exI conjI) (assumption, assumption, auto simp: h5_received_def Let_def)
qed

theorem h5_recv_roundtrip_witness:
  "\<exists>w a' q p. h5_prepare_pkt [0xc0, 0x7, 0xdb] HCI_COMMAND_PKT (hci_h5_init h5_junk0) = (Some w, a') \<and>
    h5_recv w (hci_h5_init h5_junk0) = (h5_complete_rx_pkt q)\<lparr>h5_rx_state := H5_W4_PKT_START\<rparr> \<and>
    h5_rx_skb q = Some p \<and> drop 4 p = [0xc0, 0x7, 0xdb]"
  using h5_recv_roundtrip [of "hci_h5_init h5_junk0" "hci_h5_init h5_junk0" HCI_COMMAND_PKT True "[0xc0, 0x7, 0xdb]"]
    h5_rx_inv_init [of h5_junk0]
  by (fastforce simp: h5_rx_idle_def h5_ok_def hci_h5_init_def h5_rel_type_def)

text \<open>C28: The byte stream may be cut anywhere.  Reading it one byte at a time, as
  \<^verbatim>\<open>hci_h5_receive_msg\<close> does, or in any other pieces has exactly the effect of reading it in one
  call, in every state that satisfies the receiver's invariant.\<close>

theorem h5_recv_any_cut:
  assumes "h5_rx_inv s"
  shows "hci_h5_receive_msg (concat cuts) s = foldl (\<lambda>s c. h5_recv c s) s cuts"
proof -
  have cut: "h5_rx_inv s \<Longrightarrow> foldl (\<lambda>s c. h5_recv c s) s cs = h5_recv (concat cs) s" for s cs
    by (induction cs arbitrary: s) (simp_all add: h5_recv_append h5_rx_inv_recv)
  have "hci_h5_receive_msg xs s = foldl (\<lambda>s c. h5_recv c s) s (map (\<lambda>b. [b]) xs)" for xs s
    by (simp add: hci_h5_receive_msg_def foldl_map)
  with assms cut show ?thesis by (simp add: concat_map_singleton)
qed

theorem h5_recv_any_cut_witness:
  "hci_h5_receive_msg (concat [[0xc0, 0x40], [], [0x41, 0x00, 0x7e, 0xc0]]) (hci_h5_init h5_junk0) =
   foldl (\<lambda>s c. h5_recv c s) (hci_h5_init h5_junk0) [[0xc0, 0x40], [], [0x41, 0x00, 0x7e, 0xc0]]"
  by (rule h5_recv_any_cut) (rule h5_rx_inv_init)

text \<open>C29: No input crashes the receiver.  In every state the transport can reach while allocations
  succeed (through any received bytes, messages and internal commands of the stack, the query of the
  buffer sizes and expired timers, the one of the baud rate once it has been started), no null pointer has been
  used and the packet being received fits the buffer of 4101 bytes that was allocated for it.  The buffer in
  which a connection joins its ACL fragments is a different one and not part of the statement: its length
  is counted in 16 bits and can wrap.\<close>

theorem h5_reach_no_fault:
  assumes "h5_reach junk s"
  shows "\<not> h5_fault s \<and> length (h5_rx_data s) \<le> H5_RX_ALLOC"
proof -
  have inv: "h5_rx_inv s" using h5_reach_invariant [OF assms] by (simp add: h5_reach_inv_def)
  then have "\<not> h5_fault s" by (simp add: h5_rx_inv_def h5_ok_def)
  with h5_rx_inv_length [OF inv] show ?thesis by simp
qed

theorem h5_reach_no_fault_witness:
  "\<not> h5_fault (h5_recv [0xc0, 0xdb, 0xdb] (hci_h5_init h5_junk0)) \<and>
   length (h5_rx_data (h5_recv [0xc0, 0xdb, 0xdb] (hci_h5_init h5_junk0))) \<le> H5_RX_ALLOC"
  by (rule h5_reach_no_fault [OF reach_recv [OF reach_init]])

end
