(* ===== verification/Hci_H5_Tx.thy ===== *)
theory Hci_H5_Tx
  imports Hci_H5_Rx
begin

text \<open>
  The sending half of the three-wire transport: the sliding window and what an acknowledgement
  removes from it, retransmission, and the fragmentation of ACL packets against the reassembly of
  the receiving half.
\<close>

section \<open>Sequence numbers\<close>

definition seq_of :: "nat \<Rightarrow> u8" where
  "seq_of n = of_nat (n mod 8)"

lemma seq_of_less: "seq_of n < 8"
  by (simp add: seq_of_def word_less_nat_alt unat_of_nat)

lemma seq_of_eq: "seq_of m = seq_of n \<longleftrightarrow> m mod 8 = n mod 8"
proof -
  have u: "unat (seq_of n) = n mod 8" for n by (simp add: seq_of_def unat_of_nat)
  show ?thesis by (metis u seq_of_def)
qed

lemma seq_of_near: "j \<le> k \<Longrightarrow> k < j + 8 \<Longrightarrow> seq_of j = seq_of k \<longleftrightarrow> j = k"
proof
  assume "j \<le> k" "k < j + 8" "seq_of j = seq_of k"
  then have "8 dvd k - j" by (simp add: seq_of_eq mod_eq_dvd_iff_nat [symmetric] eq_commute)
  with \<open>j \<le> k\<close> \<open>k < j + 8\<close> show "j = k" by (auto dest: dvd_imp_le)
qed simp

lemma seq_of_Suc: "(seq_of n + 1) AND 0x07 = seq_of (Suc n)"
  using less_8_cases [of "n mod 8"] by (auto simp: seq_of_def mod_Suc)

lemma seq_of_pred: "(seq_of (Suc n) - 1) AND 0x07 = seq_of n"
  using less_8_cases [of "n mod 8"] by (auto simp: seq_of_def mod_Suc)

text \<open>
  Counting packets from the start of the link: \<open>base\<close> is the number of the oldest packet that has
  not been acknowledged.  The next sequence number is the one of \<open>base\<close> plus the number of
  unacknowledged packets, and fewer than eight of them are out.
\<close>

definition h5_window :: "nat \<Rightarrow> h5_cb \<Rightarrow> bool" where
  "h5_window base s \<longleftrightarrow> h5_msgq_txseq s = seq_of (base + length (h5_unack s)) \<and> length (h5_unack s) < 8"

lemma h5_count_acked_exact:
  "n < 8 \<Longrightarrow> k \<le> n \<Longrightarrow> h5_count_acked (seq_of (base + k)) (seq_of (base + n)) n = k"
proof (induction n arbitrary: k)
  case 0
  then show ?case by simp
next
  case (Suc n)
  show ?case
  proof (cases "k = Suc n")
    case True
    then show ?thesis by simp
  next
    case False
    with Suc.prems have "seq_of (base + k) \<noteq> seq_of (base + Suc n)"
      using seq_of_near [of "base + k" "base + Suc n"] by simp
    moreover have "(seq_of (base + Suc n) - 1) AND 0x07 = seq_of (base + n)"
      using seq_of_pred [of "base + n"] by simp
    ultimately show ?thesis using Suc False by simp
  qed
qed

lemma h5_count_acked_none:
  "n < 8 \<Longrightarrow> \<forall>k \<le> n. a \<noteq> seq_of (base + k) \<Longrightarrow> h5_count_acked a (seq_of (base + n)) n = 0"
proof (induction n)
  case 0
  then show ?case by simp
next
  case (Suc n)
  then have "a \<noteq> seq_of (base + Suc n)" by blast
  with Suc show ?case using seq_of_pred [of "base + n"] by simp
qed

lemma h5_remove_acked_unack:
  "h5_unack (h5_remove_acked_pkt s) =
     drop (h5_count_acked (h5_rxack s) (h5_msgq_txseq s) (length (h5_unack s))) (h5_unack s)"
  "h5_msgq_txseq (h5_remove_acked_pkt s) = h5_msgq_txseq s"
  "h5_rel (h5_remove_acked_pkt s) = h5_rel s"
  by (simp_all add: h5_remove_acked_pkt_def Let_def h5_stop_data_retrans_timer_def h5_emit_def)

section \<open>Retransmission\<close>

lemma h5_requeue_rev:
  "h5_unack s = rev xs \<Longrightarrow> h5_msgq_txseq s = seq_of (base + length xs) \<Longrightarrow>
   h5_requeue xs s = s\<lparr>h5_unack := [], h5_msgq_txseq := seq_of base, h5_rel := rev xs @ h5_rel s\<rparr>"
proof (induction xs arbitrary: s)
  case Nil
  then show ?case by simp
next
  case (Cons x xs)
  then show ?case using seq_of_pred [of "base + length xs"] by simp
qed

section \<open>What goes on the wire\<close>

text \<open>The packets written to the serial port, and the packet that carries number \<open>n\<close> of the link.\<close>

fun out_write :: "h5_out \<Rightarrow> bytes option" where
  "out_write (Userial_write w) = Some w"
| "out_write _ = None"

definition h5_writes :: "h5_cb \<Rightarrow> bytes list" where
  "h5_writes s = List.map_filter out_write (h5_outs s)"

definition h5_wire :: "h5_cb \<Rightarrow> nat \<Rightarrow> sk_buff \<Rightarrow> bytes" where
  "h5_wire s n x = h5_tx_bytes (s\<lparr>h5_msgq_txseq := seq_of n\<rparr>) True (sk_data x) (sk_type x)"

definition h5_rel_ok :: "sk_buff \<Rightarrow> bool" where
  "h5_rel_ok x \<longleftrightarrow> h5_rel_type (sk_type x) = Some True"

lemma h5_writes_emit [simp]:
  "h5_writes (h5_emit (Userial_write w) s) = h5_writes s @ [w]"
  "h5_writes (h5_emit (Start_timer t) s) = h5_writes s"
  by (simp_all add: h5_writes_def h5_emit_def List.map_filter_def)

lemma h5_wire_cong:
  "h5_rxseq_txack s = h5_rxseq_txack s' \<Longrightarrow> h5_use_crc s = h5_use_crc s' \<Longrightarrow> h5_wire s n x = h5_wire s' n x"
  by (simp add: h5_wire_def h5_tx_bytes_def h5_tx_hdr_def Let_def)

text \<open>One packet of the reliable queue.\<close>

lemma h5_dequeue_rel:
  assumes "h5_ok s" "h5_unrel s = []" "h5_rel s = x # xs" "h5_rel_ok x"
    and "length (h5_unack s) < unat (h5_sliding_window_size s)"
  shows "h5_dequeue s = (Some (h5_tx_bytes s True (sk_data x) (sk_type x)),
    h5_emit (Start_timer TIMER_H5_DATA_RETRANS)
      (s\<lparr>h5_rel := xs, h5_is_txack_req := False, h5_msgq_txseq := (h5_msgq_txseq s + 1) AND 0x07,
        h5_unack := h5_unack s @ [x]\<rparr>))"
proof -
  have "h5_ok (s\<lparr>h5_rel := xs\<rparr>)" using assms(1) by (simp add: h5_ok_def)
  note prep = h5_prepare_ok [OF this, of "sk_data x" "sk_type x"]
  have tx: "h5_tx_bytes (s\<lparr>h5_rel := xs\<rparr>) True d t = h5_tx_bytes s True d t" for d t
    by (simp add: h5_tx_bytes_def h5_tx_hdr_def Let_def)
  show ?thesis
    using assms prep tx by (simp add: h5_dequeue_def Let_def h5_rel_ok_def h5_start_data_retrans_timer_def)
qed

definition h5_room :: "h5_cb \<Rightarrow> nat" where
  "h5_room s = min (unat (h5_sliding_window_size s) - length (h5_unack s)) (length (h5_rel s))"

lemma h5_wake_up_rel:
  assumes "h5_ok s" "h5_unrel s = []" "list_all h5_rel_ok (h5_rel s)" "\<not> h5_is_txack_req s"
    and "h5_msgq_txseq s = seq_of nx" and "n = h5_room s"
  shows "h5_unack (h5_wake_up s) = h5_unack s @ take n (h5_rel s) \<and>
    h5_rel (h5_wake_up s) = drop n (h5_rel s) \<and>
    h5_msgq_txseq (h5_wake_up s) = seq_of (nx + n) \<and>
    h5_writes (h5_wake_up s) = h5_writes s @ map2 (h5_wire s) [nx..<nx + n] (take n (h5_rel s))"
  using assms
proof (induction n arbitrary: s nx)
  case 0
  have "h5_dequeue s = (None, s)"
    using 0 by (cases "h5_rel s") (auto simp: h5_dequeue_def h5_room_def min_def Let_def split: if_splits)
  then show ?case using "0.prems" by (subst (1 2 3 4) h5_wake_up.simps) simp
next
  case (Suc n)
  then obtain x xs where rel: "h5_rel s = x # xs" by (cases "h5_rel s") (auto simp: h5_room_def)
  let ?w = "h5_tx_bytes s True (sk_data x) (sk_type x)"
  define s' where "s' = h5_emit (Userial_write ?w) (h5_emit (Start_timer TIMER_H5_DATA_RETRANS)
      (s\<lparr>h5_rel := xs, h5_is_txack_req := False, h5_msgq_txseq := (h5_msgq_txseq s + 1) AND 0x07,
        h5_unack := h5_unack s @ [x]\<rparr>))"
  have room: "length (h5_unack s) < unat (h5_sliding_window_size s)"
    using Suc.prems(6) by (auto simp: h5_room_def min_def split: if_splits)
  have dq: "h5_wake_up s = h5_wake_up s'"
    using Suc.prems rel room by (subst h5_wake_up.simps) (simp add: h5_dequeue_rel s'_def)
  have fields: "h5_unrel s' = []" "h5_rel s' = xs" "h5_unack s' = h5_unack s @ [x]" "\<not> h5_is_txack_req s'"
    "h5_msgq_txseq s' = seq_of (Suc nx)" "h5_sliding_window_size s' = h5_sliding_window_size s"
    "h5_rxseq_txack s' = h5_rxseq_txack s" "h5_use_crc s' = h5_use_crc s"
    using Suc.prems seq_of_Suc [of nx] by (simp_all add: s'_def h5_emit_def)
  have "h5_ok s'" using Suc.prems(1) by (simp add: s'_def h5_ok_def h5_emit_def)
  moreover have "n = h5_room s'" using Suc.prems(6) rel fields by (simp add: h5_room_def)
  ultimately have IH: "h5_unack (h5_wake_up s') = h5_unack s' @ take n (h5_rel s') \<and>
    h5_rel (h5_wake_up s') = drop n (h5_rel s') \<and>
    h5_msgq_txseq (h5_wake_up s') = seq_of (Suc nx + n) \<and>
    h5_writes (h5_wake_up s') = h5_writes s' @ map2 (h5_wire s') [Suc nx..<Suc nx + n] (take n (h5_rel s'))"
    using Suc.prems(3) rel fields by (intro Suc.IH) auto
  have "h5_writes s' = h5_writes s @ [?w]"
    by (simp add: s'_def) (simp add: h5_writes_def)
  moreover have "?w = h5_wire s nx x"
    using Suc.prems(5) by (simp add: h5_wire_def h5_tx_bytes_def h5_tx_hdr_def Let_def)
  moreover have "h5_wire s' = h5_wire s" using fields by (intro ext h5_wire_cong)
  ultimately show ?case
    using IH rel fields by (simp add: dq upt_conv_Cons del: upt_Suc)
qed


section \<open>Properties of the window\<close>

definition h5_pkt :: "u8 \<Rightarrow> sk_buff" where
  "h5_pkt b = \<lparr>sk_type = HCI_COMMAND_PKT, sk_data = [b]\<rparr>"

definition h5_sample :: h5_cb where
  "h5_sample = (hci_h5_init h5_junk0)\<lparr>h5_unack := [h5_pkt 1, h5_pkt 2], h5_rel := [h5_pkt 3],
     h5_msgq_txseq := seq_of 9, h5_sliding_window_size := 4, h5_rxack := seq_of 8\<rparr>"

lemma h5_sample_fields:
  "h5_unack h5_sample = [h5_pkt 1, h5_pkt 2]" "h5_rel h5_sample = [h5_pkt 3]" "h5_unrel h5_sample = []"
  "h5_sliding_window_size h5_sample = 4" "h5_data_retrans_count h5_sample = 0"
  "\<not> h5_is_txack_req h5_sample" "h5_rxack h5_sample = seq_of 8" "h5_ok h5_sample" "h5_window 7 h5_sample"
  "h5_rel_ok (h5_pkt b)"
  by (simp_all add: h5_sample_def hci_h5_init_def h5_ok_def h5_window_def h5_rel_ok_def h5_rel_type_def
      h5_pkt_def)

text \<open>C30: An acknowledgement removes exactly what it acknowledges.  With fewer than eight packets
  out, numbered from \<open>base\<close>, an acknowledgement number that means \<open>base + k\<close> removes the \<open>k\<close> oldest
  packets and nothing else, and the window then starts at \<open>base + k\<close>; a number outside the window
  removes nothing.\<close>

theorem h5_ack_exact:
  assumes "h5_window base s"
  shows "(\<forall>k \<le> length (h5_unack s). h5_rxack s = seq_of (base + k) \<longrightarrow>
      h5_unack (h5_remove_acked_pkt s) = drop k (h5_unack s) \<and>
      h5_window (base + k) (h5_remove_acked_pkt s)) \<and>
    ((\<forall>k \<le> length (h5_unack s). h5_rxack s \<noteq> seq_of (base + k)) \<longrightarrow>
      h5_unack (h5_remove_acked_pkt s) = h5_unack s)"
  using assms
  by (auto simp: h5_window_def h5_remove_acked_unack h5_count_acked_exact h5_count_acked_none)

theorem h5_ack_exact_witness:
  "h5_unack (h5_remove_acked_pkt h5_sample) = [h5_pkt 2] \<and> h5_window 8 (h5_remove_acked_pkt h5_sample)"
  using h5_ack_exact [OF h5_sample_fields(9)] by (auto simp: h5_sample_fields)

text \<open>C31: Retransmission.  When the data timer expires (and fewer than 1000 expirations in a row have
  been counted), the transport writes the unacknowledged packets again, oldest first, each with the
  sequence number it had, followed by as many waiting packets as the window allows; nothing is lost,
  duplicated or reordered in the queues, and the window still starts at the same packet.\<close>

theorem h5_retransmit_in_order:
  assumes "h5_ok s" and "h5_window base s" and "h5_data_retrans_count s < DATA_RETRANS_COUNT"
    and "h5_unrel s = []" and "\<not> h5_is_txack_req s"
    and "list_all h5_rel_ok (h5_unack s @ h5_rel s)"
    and "length (h5_unack s) \<le> unat (h5_sliding_window_size s)" and "h5_sliding_window_size s < 8"
    and "n = min (unat (h5_sliding_window_size s)) (length (h5_unack s @ h5_rel s))"
  defines "s' \<equiv> h5_timeout_handler TIMER_H5_DATA_RETRANS s"
  shows "h5_unack s' @ h5_rel s' = h5_unack s @ h5_rel s \<and> length (h5_unack s') = n \<and>
    length (h5_unack s) \<le> n \<and> h5_window base s' \<and>
    h5_writes s' = h5_writes s @ map2 (h5_wire s) [base..<base + n] (take n (h5_unack s @ h5_rel s))"
proof -
  define t where "t = s\<lparr>h5_unack := [], h5_msgq_txseq := seq_of base, h5_rel := h5_unack s @ h5_rel s,
    h5_data_retrans_count := h5_data_retrans_count s + 1\<rparr>"
  have "h5_requeue (rev (h5_unack s)) s =
      s\<lparr>h5_unack := [], h5_msgq_txseq := seq_of base, h5_rel := h5_unack s @ h5_rel s\<rparr>"
    using assms(2) h5_requeue_rev [of s "rev (h5_unack s)" base] by (simp add: h5_window_def)
  then have s': "s' = h5_wake_up t"
    using assms(3) by (simp add: s'_def h5_timeout_handler_def Let_def t_def)
  have "h5_ok t" using assms(1) by (simp add: t_def h5_ok_def)
  moreover have "n = h5_room t" using assms(9) by (simp add: h5_room_def t_def)
  moreover have "h5_unrel t = []" "list_all h5_rel_ok (h5_rel t)" "\<not> h5_is_txack_req t"
    "h5_msgq_txseq t = seq_of base" using assms(4-6) by (simp_all add: t_def)
  ultimately have w: "h5_unack s' = take n (h5_unack s @ h5_rel s) \<and> h5_rel s' = drop n (h5_unack s @ h5_rel s) \<and>
      h5_msgq_txseq s' = seq_of (base + n) \<and>
      h5_writes s' = h5_writes t @ map2 (h5_wire t) [base..<base + n] (take n (h5_unack s @ h5_rel s))"
    using h5_wake_up_rel [of t base n] unfolding s' by (simp add: t_def)
  have n: "n \<le> length (h5_unack s @ h5_rel s)" "n < 8" "length (h5_unack s) \<le> n"
    using assms(7-9) by (auto simp: word_less_nat_alt)
  moreover have "h5_wire t = h5_wire s" by (intro ext h5_wire_cong) (simp_all add: t_def)
  moreover have "h5_writes t = h5_writes s" by (simp add: t_def h5_writes_def)
  ultimately show ?thesis
    using w append_take_drop_id [of n "h5_unack s @ h5_rel s"] by (simp add: h5_window_def min_absorb2)
qed

theorem h5_retransmit_in_order_witness:
  "h5_unack (h5_timeout_handler TIMER_H5_DATA_RETRANS h5_sample) = [h5_pkt 1, h5_pkt 2, h5_pkt 3] \<and>
   h5_writes (h5_timeout_handler TIMER_H5_DATA_RETRANS h5_sample) =
     h5_writes h5_sample @ map2 (h5_wire h5_sample) [7, 8, 9] [h5_pkt 1, h5_pkt 2, h5_pkt 3]"
proof -
  let ?s = "h5_timeout_handler TIMER_H5_DATA_RETRANS h5_sample"
  have n: "3 = min (unat (h5_sliding_window_size h5_sample)) (length (h5_unack h5_sample @ h5_rel h5_sample))"
    and c: "h5_data_retrans_count h5_sample < DATA_RETRANS_COUNT"
    and k: "list_all h5_rel_ok (h5_unack h5_sample @ h5_rel h5_sample)"
    and l: "length (h5_unack h5_sample) \<le> unat (h5_sliding_window_size h5_sample)"
    and z: "h5_sliding_window_size h5_sample < 8"
    by (simp_all add: h5_sample_fields DATA_RETRANS_COUNT_def)
  note run = h5_retransmit_in_order [OF h5_sample_fields(8,9) c h5_sample_fields(3,6) k l z n]
  have r: "h5_unack ?s @ h5_rel ?s = [h5_pkt 1, h5_pkt 2, h5_pkt 3]" "length (h5_unack ?s) = 3"
    using run by (simp_all add: h5_sample_fields(1,2))
  have "[7..<7 + 3] = [7, 8, 9::nat]" by (simp add: upt_conv_Cons)
  then have w: "h5_writes ?s = h5_writes h5_sample @ map2 (h5_wire h5_sample) [7, 8, 9] [h5_pkt 1, h5_pkt 2, h5_pkt 3]"
    using run unfolding h5_sample_fields(1,2) by simp
  have "h5_unack ?s = take 3 [h5_pkt 1, h5_pkt 2, h5_pkt 3]"
    using r(2) arg_cong [OF r(1), of "take 3"] by simp
  with w show ?thesis by simp
qed

section \<open>Fragmentation and reassembly\<close>

text \<open>
  The fragments of an ACL packet as a function of its bytes: full packets of \<open>n\<close> bytes behind the
  four header bytes, and the rest behind a header with the continuation handle \<open>h\<close>.
\<close>

definition acl_hdr_len :: "nat \<Rightarrow> nat \<Rightarrow> nat" where
  "acl_hdr_len n len = (if len > n + 4 then n else len - 4)"

function h5_frag_spec :: "u16 \<Rightarrow> nat \<Rightarrow> bytes \<Rightarrow> bytes list" where
  "h5_frag_spec h n b =
     (if n = 0 \<or> length b \<le> n + 4 then [b]
      else take (n + 4) b # h5_frag_spec h n
        (UINT16_TO_STREAM h @ UINT16_TO_STREAM (of_nat (acl_hdr_len n (length b - n))) @ drop (n + 4) b))"
  by pat_completeness auto
termination
  by (relation "measure (\<lambda>(h, n, b). length b)") auto

declare h5_frag_spec.simps [simp del]

text \<open>A well-formed message of L2CAP: it lies in its buffer and carries the length of its first fragment.\<close>

definition msg_all :: "hc_bt_hdr \<Rightarrow> bytes" where
  "msg_all m = msg_bytes m (unat (mg_len m))"

definition acl_msg_ok :: "nat \<Rightarrow> hc_bt_hdr \<Rightarrow> bool" where
  "acl_msg_ok n m \<longleftrightarrow> unat (mg_offset m) + unat (mg_len m) \<le> length (mg_mem m) \<and>
     length (mg_mem m) < 65536 \<and> 4 < unat (mg_len m) \<and> mg_layer_specific m = 0 \<and>
     rd16 (msg_all m) 2 = of_nat (acl_hdr_len n (unat (mg_len m)))"

lemma length_msg_all: "acl_msg_ok n m \<Longrightarrow> length (msg_all m) = unat (mg_len m)"
  by (auto simp: acl_msg_ok_def msg_all_def msg_bytes_def min_def)

lemma rd16_stream: "rd16 (UINT16_TO_STREAM a @ bs) 0 = a"
  "rd16 (UINT16_TO_STREAM a @ UINT16_TO_STREAM b @ bs) 2 = b"
  by (simp_all add: rd16_def UINT16_TO_STREAM_def)

lemma h5_fragment_step:
  assumes ok: "acl_msg_ok (unat n) m" and "0 < n" and n: "unat n + 4 < 65536"
    and big: "unat n + 4 < unat (mg_len m)"
    and f: "h5_fragment h n (n + of_nat HCI_ACL_PREAMBLE_SIZE) m = (x, m')"
  shows "x = \<lparr>sk_type = HCI_ACLDATA_PKT, sk_data = take (unat n + 4) (msg_all m)\<rparr>"
    and "msg_all m' = UINT16_TO_STREAM h @
      UINT16_TO_STREAM (of_nat (acl_hdr_len (unat n) (unat (mg_len m) - unat n))) @ drop (unat n + 4) (msg_all m)"
    and "acl_msg_ok (unat n) m'" and "unat (mg_len m') = unat (mg_len m) - unat n"
proof -
  let ?o = "unat (mg_offset m)" and ?l = "unat (mg_len m)" and ?n = "unat n"
  have p: "unat (n + of_nat HCI_ACL_PREAMBLE_SIZE) = ?n + 4"
    using n by (simp add: HCI_ACL_PREAMBLE_SIZE_def unat_add_lem [THEN iffD1])
  have lens: "?o + ?l \<le> length (mg_mem m)" "length (mg_mem m) < 65536" "4 < ?l"
    using ok by (simp_all add: acl_msg_ok_def)
  have o': "unat (mg_offset m + n) = ?o + ?n"
    using lens big by (intro unat_add_lem [THEN iffD1]) simp
  have l': "unat (mg_len m - n) = ?l - ?n"
    using big by (intro unat_sub) (simp add: word_le_nat_alt)
  define hl where "hl = (if mg_len m - n > n + of_nat HCI_ACL_PREAMBLE_SIZE then n
      else mg_len m - n - of_nat HCI_ACL_PREAMBLE_SIZE)"
  have hl: "hl = of_nat (acl_hdr_len ?n (?l - ?n))"
  proof (cases "?l - ?n > ?n + 4")
    case True
    then show ?thesis by (simp add: hl_def acl_hdr_len_def word_less_nat_alt p l')
  next
    case False
    have "mg_len m - n = of_nat (?l - ?n)" by (simp flip: l')
    then have "mg_len m - n - of_nat HCI_ACL_PREAMBLE_SIZE = of_nat (?l - ?n - 4)"
      using big by (simp add: HCI_ACL_PREAMBLE_SIZE_def of_nat_diff)
    with False show ?thesis by (simp add: hl_def acl_hdr_len_def word_less_nat_alt p l')
  qed
  define w where "w = UINT16_TO_STREAM h @ UINT16_TO_STREAM hl"
  have lw: "length w = 4" by (simp add: w_def)
  have x: "x = \<lparr>sk_type = HCI_ACLDATA_PKT, sk_data = msg_bytes m (?n + 4)\<rparr>"
    and m': "m' = m\<lparr>mg_offset := mg_offset m + n, mg_len := mg_len m - n, mg_mem := poke (mg_mem m) (?o + ?n) w\<rparr>"
    using f by (auto simp: h5_fragment_def Let_def p o' w_def hl_def)
  show "x = \<lparr>sk_type = HCI_ACLDATA_PKT, sk_data = take (?n + 4) (msg_all m)\<rparr>"
    using big by (simp add: x msg_all_def msg_bytes_def min_absorb1)
  show len': "unat (mg_len m') = ?l - ?n" by (simp add: m' l')
  have drp: "drop (?n + 4) (msg_all m) = take (?l - ?n - 4) (drop (?o + ?n + 4) (mg_mem m))"
    by (simp add: msg_all_def msg_bytes_def drop_take algebra_simps)
  have "msg_all m' = take (?l - ?n) (drop (?o + ?n) (poke (mg_mem m) (?o + ?n) w))"
    by (simp add: msg_all_def msg_bytes_def m' o' l')
  also have "\<dots> = w @ take (?l - ?n - 4) (drop (?o + ?n + 4) (mg_mem m))"
    using lens big lw by (simp add: poke_def)
  finally show all': "msg_all m' = UINT16_TO_STREAM h @
      UINT16_TO_STREAM (of_nat (acl_hdr_len ?n (?l - ?n))) @ drop (?n + 4) (msg_all m)"
    using drp by (simp add: w_def hl)
  show "acl_msg_ok ?n m'"
    unfolding acl_msg_ok_def all' using ok lens big
    by (simp add: m' o' l' rd16_stream length_poke lw acl_msg_ok_def)
qed

text \<open>The loop computes the fragments, and ends, as soon as a fragment carries any data.\<close>

definition acl_pkt :: "bytes \<Rightarrow> sk_buff" where
  "acl_pkt b = \<lparr>sk_type = HCI_ACLDATA_PKT, sk_data = b\<rparr>"

lemma h5_send_fragments_spec:
  assumes "acl_msg_ok (unat n) m" "0 < n" "unat n + 4 < 65536" "h5_ok s"
  shows "\<exists>m' s'. h5_send_fragments i h n (n + of_nat HCI_ACL_PREAMBLE_SIZE) m s = Some (False, m', s') \<and>
    s' = foldl (\<lambda>s b. h5_send_acl i (acl_pkt b) s) s (butlast (h5_frag_spec h (unat n) (msg_all m))) \<and>
    msg_all m' = last (h5_frag_spec h (unat n) (msg_all m))"
  using assms
proof (induction "unat (mg_len m)" arbitrary: m s rule: less_induct)
  case less
  let ?p = "n + of_nat HCI_ACL_PREAMBLE_SIZE"
  have p: "unat ?p = unat n + 4"
    using less.prems(3) by (simp add: HCI_ACL_PREAMBLE_SIZE_def unat_add_lem [THEN iffD1])
  have len: "length (msg_all m) = unat (mg_len m)" using less.prems(1) by (rule length_msg_all)
  show ?case
  proof (cases "unat n + 4 < unat (mg_len m)")
    case False
    then have "\<not> ?p < mg_len m" by (simp add: word_less_nat_alt p)
    then have "h5_send_fragments i h n ?p m s = Some (False, m, s)"
      by (subst h5_send_fragments.simps) simp
    moreover have "h5_frag_spec h (unat n) (msg_all m) = [msg_all m]"
      using False len by (subst h5_frag_spec.simps) simp
    ultimately show ?thesis by simp
  next
    case True
    obtain x m' where f: "h5_fragment h n ?p m = (x, m')" by fastforce
    note step = h5_fragment_step [OF less.prems(1,2,3) True f]
    have ls: "mg_layer_specific m' = 0" using step(3) by (simp add: acl_msg_ok_def)
    have lt: "?p < mg_len m" using True by (simp add: word_less_nat_alt p)
    let ?s = "h5_send_acl i x s"
    have run: "h5_send_fragments i h n ?p m s = h5_send_fragments i h n ?p m' ?s"
      using f ls lt h5_alloc_ok [OF less.prems(4)] by (subst h5_send_fragments.simps) simp
    have "h5_ok ?s" using h5_tx_keeps_send_acl [of s s i x] less.prems(4) by (simp add: h5_tx_keeps_def)
    moreover have "unat (mg_len m') < unat (mg_len m)"
      using step(4) True less.prems(2) by (simp add: word_less_nat_alt)
    ultimately obtain m'' s'' where IH: "h5_send_fragments i h n ?p m' ?s = Some (False, m'', s'')"
      "s'' = foldl (\<lambda>s b. h5_send_acl i (acl_pkt b) s) ?s (butlast (h5_frag_spec h (unat n) (msg_all m')))"
      "msg_all m'' = last (h5_frag_spec h (unat n) (msg_all m'))"
      using less.hyps step(3) less.prems(2,3) by blast
    have spec: "h5_frag_spec h (unat n) (msg_all m) =
        take (unat n + 4) (msg_all m) # h5_frag_spec h (unat n) (msg_all m')"
      using True len less.prems(2) step(2) by (subst h5_frag_spec.simps) (simp add: word_less_nat_alt)
    have ne: "h5_frag_spec h (unat n) b \<noteq> []" for b by (subst h5_frag_spec.simps) simp
    show ?thesis
      using run IH step(1) by (simp add: spec ne acl_pkt_def)
  qed
qed

subsection \<open>Joining the fragments\<close>

lemma acl_join_Cons:
  "4 \<le> length cur \<Longrightarrow> acl_join (a # b # c # d # p) cur =
     a # b # UINT16_TO_STREAM (rd16 cur 2 + rd16 (a # b # c # d # p) 2) @ p @ drop 4 cur"
  by (simp add: acl_join_def skb_pull_def poke_def HCI_ACL_PREAMBLE_SIZE_def)

text \<open>Joining fragments gives the payload in one packet whose length field is the sum.\<close>

definition acl_packet :: "u8 \<Rightarrow> u8 \<Rightarrow> bytes \<Rightarrow> bytes" where
  "acl_packet a b p = a # b # UINT16_TO_STREAM (of_nat (length p)) @ p"

lemma rd16_acl_packet: "rd16 (acl_packet a b p) 2 = of_nat (length p)"
  by (simp add: acl_packet_def rd16_def UINT16_TO_STREAM_def)

lemma acl_join_packet: "acl_join (acl_packet a b p) (acl_packet c d q) = acl_packet a b (p @ q)"
  using rd16_acl_packet [of a b p] rd16_acl_packet [of c d q]
  by (simp add: acl_packet_def UINT16_TO_STREAM_def acl_join_Cons add.commute)


lemma UINT16_rd16: "UINT16_TO_STREAM (ucast y + push_bit 8 (ucast z)) = [y, z]"
proof -
  have "\<not> bit y i" if "8 \<le> i" for i using that bit_imp_le_length [of y i] by (cases "bit y i") simp_all
  then have "(ucast y :: u16) + push_bit 8 (ucast z) = ucast y OR push_bit 8 (ucast z)"
    by (intro disjunctive_add_eq_or bit_word_eqI) (auto simp: bit_simps)
  moreover have "ucast (ucast y OR push_bit 8 (ucast z) :: u16) = y"
    by (rule bit_word_eqI) (auto simp: bit_simps)
  moreover have "ucast (drop_bit 8 (ucast y OR push_bit 8 (ucast z) :: u16)) = z"
    by (rule bit_word_eqI) (use \<open>\<And>i. 8 \<le> i \<Longrightarrow> \<not> bit y i\<close> in \<open>auto simp: bit_simps\<close>)
  ultimately show ?thesis by (simp add: UINT16_TO_STREAM_def)
qed

function acl_chunks :: "nat \<Rightarrow> bytes \<Rightarrow> bytes list" where
  "acl_chunks n p = (if n = 0 \<or> length p \<le> n then [p] else take n p # acl_chunks n (drop n p))"
  by pat_completeness auto
termination
  by (relation "measure (\<lambda>(n, p). length p)") auto

declare acl_chunks.simps [simp del]

lemma concat_acl_chunks: "concat (acl_chunks n p) = p"
proof (induction n p rule: acl_chunks.induct)
  case (1 n p)
  then show ?case by (subst acl_chunks.simps) simp
qed

lemma acl_chunks_nonempty: "acl_chunks n p \<noteq> []"
  by (subst acl_chunks.simps) simp

lemma acl_chunks_parts: "p \<noteq> [] \<Longrightarrow> c \<in> set (acl_chunks n p) \<Longrightarrow> c \<noteq> []"
proof (induction n p rule: acl_chunks.induct)
  case (1 n p)
  show ?case using "1.prems" "1.IH"
    by (subst (asm) acl_chunks.simps) (auto split: if_splits)
qed

text \<open>A message as L2CAP hands it down, with the length of its first fragment in the header.\<close>

definition acl_first :: "nat \<Rightarrow> u8 \<Rightarrow> u8 \<Rightarrow> bytes \<Rightarrow> bytes" where
  "acl_first n a b p = a # b # UINT16_TO_STREAM (of_nat (acl_hdr_len n (length p + 4))) @ p"

definition acl_frags :: "u8 \<Rightarrow> u8 \<Rightarrow> u16 \<Rightarrow> bytes list \<Rightarrow> bytes list" where
  "acl_frags a b h cs = (case cs of [] \<Rightarrow> [] | c # cs \<Rightarrow>
     acl_packet a b c # map (acl_packet (ucast h) (ucast (drop_bit 8 h))) cs)"

lemma h5_frag_spec_chunks:
  "0 < n \<Longrightarrow> h5_frag_spec h n (acl_first n a b p) = acl_frags a b h (acl_chunks n p)"
proof (induction "length p" arbitrary: a b p rule: less_induct)
  case less
  show ?case
  proof (cases "length p \<le> n")
    case True
    then show ?thesis
      by (subst h5_frag_spec.simps, subst acl_chunks.simps)
        (simp add: acl_first_def acl_frags_def acl_packet_def acl_hdr_len_def)
  next
    case False
    have rest: "UINT16_TO_STREAM h @ UINT16_TO_STREAM (of_nat (acl_hdr_len n (length p + 4 - n))) @ drop n p =
        acl_first n (ucast h) (ucast (drop_bit 8 h)) (drop n p)"
      using False by (simp add: acl_first_def UINT16_TO_STREAM_def)
    have "h5_frag_spec h n (acl_first n a b p) =
        take (n + 4) (acl_first n a b p) # h5_frag_spec h n (acl_first n (ucast h) (ucast (drop_bit 8 h)) (drop n p))"
      using False less.prems rest
      by (subst h5_frag_spec.simps) (simp add: acl_first_def UINT16_TO_STREAM_def numeral_eq_Suc)
    moreover have "take (n + 4) (acl_first n a b p) = acl_packet a b (take n p)"
      using False by (simp add: acl_first_def acl_packet_def acl_hdr_len_def UINT16_TO_STREAM_def numeral_eq_Suc min_def)
    moreover have "h5_frag_spec h n (acl_first n (ucast h) (ucast (drop_bit 8 h)) (drop n p)) =
        map (acl_packet (ucast h) (ucast (drop_bit 8 h))) (acl_chunks n (drop n p))"
      using False less by (cases "acl_chunks n (drop n p)") (auto simp: acl_frags_def acl_chunks_nonempty)
    ultimately show ?thesis
      using False less.prems by (subst acl_chunks.simps) (simp add: acl_frags_def)
  qed
qed

subsection \<open>The receiving side\<close>

fun h5_dispatch_all :: "bytes list \<Rightarrow> h5_cb \<Rightarrow> bool list \<times> h5_cb" where
  "h5_dispatch_all [] s = ([], s)"
| "h5_dispatch_all (d # ds) s =
     (let (b, s1) = hci_rx_dispatch_by_handle d s; (bs, s2) = h5_dispatch_all ds s1 in (b # bs, s2))"

definition acl_ready :: "nat \<Rightarrow> u16 \<Rightarrow> h5_cb \<Rightarrow> bool" where
  "acl_ready i h s \<longleftrightarrow> h5_ok s \<and> \<not> h5_overrun s \<and> i < length (h5_HciConnHash s) \<and>
     ConnHashLookupByHandle h s = Some i"

lemma find_index_update:
  "(\<And>x. P (f x) = P x) \<Longrightarrow> i < length xs \<Longrightarrow> find_index P (xs[i := f (xs ! i)]) = find_index P xs"
proof (induction xs arbitrary: i)
  case Nil
  then show ?case by simp
next
  case (Cons x xs)
  then show ?case by (cases i) auto
qed

lemma acl_ready_upd:
  "acl_ready i h s \<Longrightarrow> acl_ready i h (h5_upd_conn i (\<lambda>c. c\<lparr>hc_rx_skb := v\<rparr>) s)"
  using find_index_update [of "\<lambda>c. (h AND 0xEFF) = hc_handle c" "\<lambda>c. c\<lparr>hc_rx_skb := v\<rparr>" i "h5_HciConnHash s"]
  by (simp add: acl_ready_def h5_ok_def h5_upd_conn_def ConnHashLookupByHandle_def)

lemma acl_ready_rx_skb [simp]: "acl_ready i h (s\<lparr>h5_rx_skb := v\<rparr>) = acl_ready i h s"
  by (simp add: acl_ready_def h5_ok_def ConnHashLookupByHandle_def)

lemma acl_ready_skb [simp]:
  "acl_ready i h s \<Longrightarrow> hc_rx_skb (h5_conn i (h5_upd_conn i (\<lambda>c. c\<lparr>hc_rx_skb := v\<rparr>) s)) = v"
  by (simp add: acl_ready_def h5_conn_def h5_upd_conn_def)

lemma acl_dispatch_step:
  assumes r: "acl_ready i h s" and h: "rd16 d 0 AND 0x0FFF = h"
    and t: "t = (case hc_rx_skb (h5_conn i s) of None \<Rightarrow> d | Some old \<Rightarrow> acl_join old d)"
    and len: "\<And>old. hc_rx_skb (h5_conn i s) = Some old \<Longrightarrow>
      length old + (length d - 4) < 65536 \<and> 4 \<le> length old \<and> 4 \<le> length d"
    and run: "hci_rx_dispatch_by_handle d s = (b, s')"
  shows "b = acl_rx_frame_end_chk t" and "acl_ready i h s'"
    and "hc_rx_skb (h5_conn i s') = (if b then None else Some t)" and "b \<Longrightarrow> h5_rx_skb s' = Some t"
proof -
  define s1 where "s1 = h5_upd_conn i (\<lambda>c. c\<lparr>hc_rx_skb := Some t\<rparr>) s"
  have ok: "h5_ok s" and look: "ConnHashLookupByHandle h s = Some i" and ov: "\<not> h5_overrun s"
    using r by (simp_all add: acl_ready_def)
  have s1: "acl_ready i h s1" using r by (simp add: s1_def acl_ready_upd)
  have fits: "(65535 < length old + length d - 4 \<or> length old + length d - 4 < 4) = False"
    if "hc_rx_skb (h5_conn i s) = Some old" for old using len [OF that] by auto
  have "s\<lparr>h5_overrun := False\<rparr> = s" using ov by (cases s) simp
  then have "(case hc_rx_skb (h5_conn i s) of None \<Rightarrow> acl_store_first i d s
      | Some old \<Rightarrow> acl_store_next i old d s) = (True, s1)"
    using ok ov len t fits by (cases "hc_rx_skb (h5_conn i s)")
      (simp_all add: acl_store_first_def acl_store_next_def h5_alloc_ok s1_def HCI_ACL_PREAMBLE_SIZE_def skb_pull_def not_less Let_def)
  moreover have "hc_rx_skb (h5_conn i s1) = Some t" using r by (simp add: s1_def)
  ultimately have *: "hci_rx_dispatch_by_handle d s = (if acl_rx_frame_end_chk t
      then (True, h5_upd_conn i (\<lambda>c. c\<lparr>hc_rx_skb := None\<rparr>) (s1\<lparr>h5_rx_skb := Some t\<rparr>)) else (False, s1))"
    using look by (simp add: hci_rx_dispatch_by_handle_def Let_def h)
  show "b = acl_rx_frame_end_chk t" using run * by (auto split: if_splits)
  show "acl_ready i h s'" using run * s1 by (auto simp: acl_ready_upd split: if_splits)
  show "hc_rx_skb (h5_conn i s') = (if b then None else Some t)"
    using run * s1 \<open>hc_rx_skb (h5_conn i s1) = Some t\<close> by (auto split: if_splits)
  show "b \<Longrightarrow> h5_rx_skb s' = Some t" using run * by (auto simp: h5_upd_conn_def split: if_splits)
qed

text \<open>The end check on a prefix \<open>q\<close> of an L2CAP packet \<open>p\<close>.\<close>

lemma unat_u16: "n < 65536 \<Longrightarrow> unat (of_nat n :: u16) = n"
  by (simp add: unat_of_nat)

lemma uint_u16: "n < 65536 \<Longrightarrow> uint (of_nat n :: u16) = int n"
  using unat_u16 [of n] by (metis int_eq_iff uint_ge_0 unat_eq_nat_uint)

lemma acl_end_chk_prefix:
  assumes "length p < 65532" "4 \<le> length p" "rd16 p 0 = of_nat (length p - 4)" "p = q @ q'" "q \<noteq> []"
  shows "acl_rx_frame_end_chk (acl_packet a b q) \<longleftrightarrow> q' = []"
proof -
  have lq: "length q + 4 < 65536" using assms by simp
  have len: "length (acl_packet a b q) = length q + 4" by (simp add: acl_packet_def)
  have dl: "uint (of_nat (length q + 4) :: u16) = int (length q) + 4" "(of_nat (length q + 4) :: u16) < 6 \<longleftrightarrow> length q < 2"
    unfolding uint_u16 [OF lq] word_less_nat_alt unat_u16 [OF lq] by simp_all
  have "rd16 (acl_packet a b q) 2 \<noteq> 0"
  proof
    assume "rd16 (acl_packet a b q) 2 = 0"
    then have "unat (of_nat (length q) :: u16) = 0" by (simp add: rd16_acl_packet)
    with assms(5) lq unat_u16 [of "length q"] show False by simp
  qed
  then have pos: "rd16 (acl_packet a b q) 2 > 0" by (simp add: word_neq_0_conv)
  have chk: "acl_rx_frame_end_chk (acl_packet a b q) \<longleftrightarrow>
      \<not> length q < 2 \<and> \<not> uint (rd16 (acl_packet a b q) 4) > int (length q) + 4 - 8"
    unfolding acl_rx_frame_end_chk_def len Let_def dl using pos by simp
  show ?thesis
  proof (cases "length q < 2")
    case True
    with assms(2,4) have "q' \<noteq> []" by auto
    with True show ?thesis unfolding chk by simp
  next
    case False
    have "rd (acl_packet a b q) 4 = rd p 0" "rd (acl_packet a b q) 5 = rd p 1"
      using False unfolding assms(4) by (auto simp: acl_packet_def UINT16_TO_STREAM_def rd_append)
    then have "rd16 (acl_packet a b q) 4 = rd16 p 0" by (simp add: rd16_def)
    then have "uint (rd16 (acl_packet a b q) 4) = int (length p) - 4"
      using assms(1,2) uint_u16 [of "length p - 4"] unfolding assms(3) by simp
    with False show ?thesis unfolding chk assms(4) by auto
  qed
qed

lemma acl_dispatch_rest:
  assumes "acl_ready i h s" and "(ucast x + push_bit 8 (ucast y)) AND (0x0FFF :: u16) = h"
    and "hc_rx_skb (h5_conn i s) = Some (acl_packet a b q)" and "q \<noteq> []"
    and "p = q @ concat cs" and "cs \<noteq> []" and "\<forall>c \<in> set cs. c \<noteq> []"
    and "length p < 65532" "4 \<le> length p" "rd16 p 0 = of_nat (length p - 4)"
  shows "\<exists>s'. h5_dispatch_all (map (acl_packet x y) cs) s = (replicate (length cs - 1) False @ [True], s') \<and>
    h5_rx_skb s' = Some (acl_packet a b p) \<and> \<not> h5_overrun s'"
  using assms
proof (induction cs arbitrary: s q)
  case Nil
  then show ?case by simp
next
  case (Cons c cs)
  obtain d s1 where run: "hci_rx_dispatch_by_handle (acl_packet x y c) s = (d, s1)" by fastforce
  have hd: "rd16 (acl_packet x y c) 0 AND 0x0FFF = h"
    using Cons.prems(2) by (simp add: rd16_def acl_packet_def)
  have len: "length (acl_packet a b q) + (length (acl_packet x y c) - 4) < 65536"
    "4 \<le> length (acl_packet a b q)" "4 \<le> length (acl_packet x y c)"
    using Cons.prems(5,8) by (simp_all add: acl_packet_def)
  note step = acl_dispatch_step [OF Cons.prems(1) hd refl _ run, unfolded Cons.prems(3), simplified acl_join_packet option.case]
  have pre: "p = (q @ c) @ concat cs" using Cons.prems(5) by simp
  have chk: "acl_rx_frame_end_chk (acl_packet a b (q @ c)) \<longleftrightarrow> concat cs = []"
    using Cons.prems(4) by (intro acl_end_chk_prefix [OF Cons.prems(8,9,10) pre]) simp
  show ?case
  proof (cases "cs = []")
    case True
    then have "d" using step(1) len chk by simp
    with True step(2,4) len run pre show ?thesis by (auto simp: acl_ready_def)
  next
    case False
    then have "concat cs \<noteq> []" using Cons.prems(7) by (cases cs) auto
    then have d: "\<not> d" using step(1) len chk by simp
    have "hc_rx_skb (h5_conn i s1) = Some (acl_packet a b (q @ c))" using step(3) len d by simp
    moreover have "acl_ready i h s1" using step(2) len by simp
    ultimately have "\<exists>s'. h5_dispatch_all (map (acl_packet x y) cs) s1 =
        (replicate (length cs - 1) False @ [True], s') \<and>
        h5_rx_skb s' = Some (acl_packet a b p) \<and> \<not> h5_overrun s'"
      using Cons.prems(2,4,7-10) False pre by (intro Cons.IH [of s1 "q @ c"]) auto
    then show ?thesis
      using run d False by (cases cs) auto
  qed
qed

lemma h5_frag_spec_bound: "0 < n \<Longrightarrow> f \<in> set (h5_frag_spec h n b) \<Longrightarrow> length f \<le> n + 4"
proof (induction h n b rule: h5_frag_spec.induct)
  case (1 h n b)
  show ?case using "1.prems" "1.IH"
    by (subst (asm) h5_frag_spec.simps) (auto split: if_splits)
qed

lemma acl_dispatch_frags:
  assumes r: "acl_ready i h s" and ha: "(ucast a + push_bit 8 (ucast b)) AND (0x0FFF :: u16) = h"
    and hh: "hc AND 0x0FFF = h" and none: "hc_rx_skb (h5_conn i s) = None"
    and p: "length p < 65532" "4 \<le> length p" "rd16 p 0 = of_nat (length p - 4)"
    and fs_def: "fs = acl_frags a b hc (acl_chunks n p)"
  shows "\<exists>s'. h5_dispatch_all fs s = (replicate (length fs - 1) False @ [True], s') \<and>
    h5_rx_skb s' = Some (acl_packet a b p) \<and> \<not> h5_overrun s'"
proof -
  obtain c cs where cs: "acl_chunks n p = c # cs" using acl_chunks_nonempty by (cases "acl_chunks n p") auto
  have pcs: "p = c @ concat cs" using concat_acl_chunks [of n p] cs by simp
  have "p \<noteq> []" using p(2) by auto
  then have ne: "c \<noteq> []" "\<forall>c \<in> set cs. c \<noteq> []" using acl_chunks_parts [of p _ n] cs by auto
  have fs: "fs = acl_packet a b c # map (acl_packet (ucast hc) (ucast (drop_bit 8 hc))) cs"
    by (simp add: fs_def acl_frags_def cs)
  obtain d s1 where run: "hci_rx_dispatch_by_handle (acl_packet a b c) s = (d, s1)" by fastforce
  have hd: "rd16 (acl_packet a b c) 0 AND 0x0FFF = h"
    using ha by (simp add: rd16_def acl_packet_def)
  have chk: "acl_rx_frame_end_chk (acl_packet a b c) \<longleftrightarrow> concat cs = []"
    by (rule acl_end_chk_prefix [OF p pcs ne(1)])
  note step = acl_dispatch_step [OF r hd refl _ run, unfolded none, simplified]
  show ?thesis
  proof (cases "cs = []")
    case True
    then have d using step(1) chk by simp
    with True step(2,4) run pcs fs show ?thesis by (auto simp: acl_ready_def)
  next
    case False
    then have "concat cs \<noteq> []" using ne(2) by (cases cs) auto
    then have d: "\<not> d" using step(1) chk by simp
    have "\<exists>s'. h5_dispatch_all (map (acl_packet (ucast hc) (ucast (drop_bit 8 hc))) cs) s1 =
        (replicate (length cs - 1) False @ [True], s') \<and>
        h5_rx_skb s' = Some (acl_packet a b p) \<and> \<not> h5_overrun s'"
      using step(2,3) d hh ne pcs p False by (intro acl_dispatch_rest [where h = h and i = i]) auto
    then show ?thesis using run d False fs by (cases cs) auto
  qed
qed

lemma acl_msg_first:
  assumes "acl_msg_ok n m"
  shows "msg_all m = acl_first n (rd (msg_all m) 0) (rd (msg_all m) 1) (drop 4 (msg_all m))"
proof -
  have len: "length (msg_all m) = unat (mg_len m)" "4 < unat (mg_len m)"
    using assms length_msg_all by (auto simp: acl_msg_ok_def)
  then obtain w x y z p where b: "msg_all m = w # x # y # z # p"
    using Suc_le_length_iff [of 3 "msg_all m"] by (auto simp: Suc_le_length_iff numeral_eq_Suc)
  have "rd16 (msg_all m) 2 = ucast y + push_bit 8 (ucast z)" by (simp add: b rd16_def)
  then have "UINT16_TO_STREAM (rd16 (msg_all m) 2) = [y, z]" by (simp add: UINT16_rd16)
  moreover have "rd16 (msg_all m) 2 = of_nat (acl_hdr_len n (length p + 4))"
  proof -
    have "unat (mg_len m) = length p + 4" using len(1) by (simp add: b)
    then show ?thesis using assms by (simp add: acl_msg_ok_def)
  qed
  ultimately show ?thesis by (simp add: acl_first_def b)
qed

lemma acl_continuation_handle:
  "((h AND 0xCFFF) OR 0x1000) AND 0x0FFF = (h :: u16) AND 0x0FFF"
  by (rule bit_word_eqI) (auto simp: bit_simps bit_numeral_rec less_Suc_eq numeral_eq_Suc)

text \<open>C32: an L2CAP packet that is larger than the data size of the controller is cut into fragments by
  the loop of \<^verbatim>\<open>hci_h5_send_msg\<close>, which ends for every data size from 1 to 65531 (from 65532 on the 16-bit
  packet size, four bytes more, wraps).  The continuation fragments carry the handle with the continuation
  flag, and a receiver that knows the handle and joins them with \<^verbatim>\<open>hci_rx_dispatch_by_handle\<close> asks for more after
  every fragment but the last, and then delivers one packet with the bytes of the message and the sum of
  the lengths in its header, with no write past a buffer.  The message has a consistent length in its
  HCI and L2CAP headers and asks for no limit of fragments (\<open>acl_msg_ok\<close>).
\<close>

theorem h5_acl_fragments_roundtrip:
  assumes "acl_msg_ok (unat n) m" "0 < n" "unat n + 4 < 65536" "h5_ok s"
    and "8 \<le> unat (mg_len m)" "rd16 (msg_all m) 4 = of_nat (unat (mg_len m) - 8)"
    and "acl_ready j (rd16 (msg_all m) 0 AND 0x0FFF) r" "hc_rx_skb (h5_conn j r) = None"
  shows "\<exists>fs m' s' r'. h5_send_fragments i ((rd16 (msg_all m) 0 AND 0xCFFF) OR 0x1000) n
        (n + of_nat HCI_ACL_PREAMBLE_SIZE) m s = Some (False, m', s') \<and>
      s' = foldl (\<lambda>s b. h5_send_acl i (acl_pkt b) s) s fs \<and>
      (\<forall>f. f \<in> set (fs @ [msg_all m']) \<longrightarrow> length f \<le> unat n + 4) \<and>
      h5_dispatch_all (fs @ [msg_all m']) r = (replicate (length fs) False @ [True], r') \<and>
      h5_rx_skb r' = Some (acl_packet (rd (msg_all m) 0) (rd (msg_all m) 1) (drop 4 (msg_all m))) \<and>
      \<not> h5_overrun r'"
proof -
  let ?b = "msg_all m" and ?h = "rd16 (msg_all m) 0"
  let ?hc = "(?h AND 0xCFFF) OR 0x1000" and ?p = "drop 4 (msg_all m)"
  define F where "F = h5_frag_spec ?hc (unat n) ?b"
  have F: "F = acl_frags (rd ?b 0) (rd ?b 1) ?hc (acl_chunks (unat n) ?p)"
    using h5_frag_spec_chunks [of "unat n" ?hc "rd ?b 0" "rd ?b 1" ?p] acl_msg_first [OF assms(1)] assms(2)
    by (simp add: F_def word_less_nat_alt)
  have len: "length ?b = unat (mg_len m)" by (rule length_msg_all [OF assms(1)])
  have "unat (mg_len m) < 65536" using unsigned_less [of "mg_len m"] by simp
  then have p: "length ?p < 65532" "4 \<le> length ?p" using assms(5) len by simp_all
  then have "rd ?p 0 = rd ?b 4" "rd ?p 1 = rd ?b 5" using p(2) by (auto simp: rd_def)
  then have "rd16 ?p 0 = rd16 ?b 4" by (simp add: rd16_def)
  then have q: "rd16 ?p 0 = of_nat (length ?p - 4)" using assms(6) len by simp
  have "(ucast (rd ?b 0) + push_bit 8 (ucast (rd ?b 1))) AND (0x0FFF :: u16) = ?h AND 0x0FFF"
    by (simp add: rd16_def)
  then obtain r' where r': "h5_dispatch_all F r = (replicate (length F - 1) False @ [True], r')"
      "h5_rx_skb r' = Some (acl_packet (rd ?b 0) (rd ?b 1) ?p)" "\<not> h5_overrun r'"
    using acl_dispatch_frags [OF assms(7) _ acl_continuation_handle assms(8) p q F] by blast
  have "F \<noteq> []" by (simp add: F_def h5_frag_spec.simps)
  then have "butlast F @ [last F] = F" by simp
  moreover have "length f \<le> unat n + 4" if "f \<in> set F" for f
    using that h5_frag_spec_bound assms(2) by (auto simp: F_def word_less_nat_alt)
  moreover obtain m' s' where run: "h5_send_fragments i ?hc n (n + of_nat HCI_ACL_PREAMBLE_SIZE) m s = Some (False, m', s')"
      "s' = foldl (\<lambda>s b. h5_send_acl i (acl_pkt b) s) s (butlast F)" "msg_all m' = last F"
    using h5_send_fragments_spec [OF assms(1-4), of i ?hc, folded F_def] by blast
  ultimately have "\<forall>f. f \<in> set (butlast F @ [msg_all m']) \<longrightarrow> length f \<le> unat n + 4"
      "h5_dispatch_all (butlast F @ [msg_all m']) r = (replicate (length (butlast F)) False @ [True], r')"
    using r'(1) by simp_all
  then show ?thesis using run r'(2,3) by blast
qed

definition acl_sample_msg :: hc_bt_hdr where
  "acl_sample_msg = \<lparr>mg_event = MSG_STACK_TO_HC_HCI_ACL, mg_len = 12, mg_offset = 1, mg_layer_specific = 0,
     mg_mem = [0xAA, 0x2A, 0x20, 3, 0, 4, 0, 0x40, 0, 9, 8, 7, 6]\<rparr>"

definition acl_sample_conn :: hci_conn where
  "acl_sample_conn = \<lparr>hc_handle = 0x2A, hc_bd_addr = [], hc_link_type = 1, hc_encrypt_enabled = 0,
     hc_NumOfNotCmpAclPkts = 0, hc_pending_pkts = [], hc_rx_skb = None\<rparr>"

definition acl_sample_rx :: h5_cb where
  "acl_sample_rx = ConnHashAdd acl_sample_conn (hci_h5_init acl_sample_conn)"

lemma acl_sample_all: "msg_all acl_sample_msg = [0x2A, 0x20, 3, 0, 4, 0, 0x40, 0, 9, 8, 7, 6]"
  by code_simp

theorem h5_acl_fragments_roundtrip_witness:
  "\<exists>fs m' s' r'. h5_send_fragments 0 0x102A 3 7 acl_sample_msg (hci_h5_init acl_sample_conn) = Some (False, m', s') \<and>
     s' = foldl (\<lambda>s b. h5_send_acl 0 (acl_pkt b) s) (hci_h5_init acl_sample_conn) fs \<and>
     h5_dispatch_all (fs @ [msg_all m']) acl_sample_rx = (replicate (length fs) False @ [True], r') \<and>
     h5_rx_skb r' = Some [0x2A, 0x20, 8, 0, 4, 0, 0x40, 0, 9, 8, 7, 6]"
proof -
  let ?s = "hci_h5_init acl_sample_conn"
  have 1: "acl_msg_ok (unat (3 :: u16)) acl_sample_msg"
    by (simp add: acl_msg_ok_def acl_sample_all) (simp add: acl_sample_msg_def rd16_def acl_hdr_len_def)
  have 2: "h5_ok ?s" by (simp add: h5_ok_def hci_h5_init_def)
  have 3: "acl_ready 0 (rd16 (msg_all acl_sample_msg) 0 AND 0x0FFF) acl_sample_rx"
    "hc_rx_skb (h5_conn 0 acl_sample_rx) = None"
    by (simp_all add: acl_ready_def acl_sample_rx_def h5_ok_def hci_h5_init_def ConnHashAdd_def h5_conn_def
        ConnHashLookupByHandle_def acl_sample_conn_def acl_sample_all rd16_def)
  have 4: "unat (3 :: u16) + 4 < 65536" "(0 :: u16) < 3" "8 \<le> unat (mg_len acl_sample_msg)"
    "rd16 (msg_all acl_sample_msg) 4 = of_nat (unat (mg_len acl_sample_msg) - 8)"
    unfolding acl_sample_all by (simp_all add: acl_sample_msg_def rd16_def)
  show ?thesis
    using h5_acl_fragments_roundtrip [OF 1 4(2) 4(1) 2 4(3,4) 3, of 0]
    by (simp add: acl_sample_all rd16_def HCI_ACL_PREAMBLE_SIZE_def acl_packet_def UINT16_TO_STREAM_def) blast
qed

section \<open>Handles with bit 8\<close>

lemma find_index_None: "find_index P xs = None \<longleftrightarrow> (\<forall>x \<in> set xs. \<not> P x)"
  by (induction xs) auto

text \<open>C33: The mask of \<^verbatim>\<open>ConnHashLookupByHandle\<close> is \<open>0xEFF\<close>, not the 12 bits of a connection handle.  After
  the connection-complete event of a handle with bit 8 set, the record of the connection is in the
  list, but no message for that handle finds it: \<^verbatim>\<open>hci_h5_send_msg\<close> returns with nothing sent, nothing
  queued and no result callback (unless another connection has the handle with that bit cleared,
  which then receives the traffic).
\<close>

theorem h5_handle_bit8_lost:
  assumes "h5_ok s" and "rd p 2 = 0" and "bit (rd16 p 3) 8"
    and "rd16 p 3 AND 0xEFF \<notin> hc_handle ` set (h5_HciConnHash s)"
    and "mg_event m AND 0xFF00 = MSG_STACK_TO_HC_HCI_ACL"
    and "rd16 (mg_mem m) (unat (mg_offset m)) AND 0x0FFF = rd16 p 3"
  shows "(\<exists>c. h5_HciConnHash (h5_connection_comp p s) = h5_HciConnHash s @ [c] \<and> hc_handle c = rd16 p 3) \<and>
    hci_h5_send_msg m (h5_connection_comp p s) = Some (h5_connection_comp p s)"
proof -
  let ?h = "rd16 p 3"
  have ne: "?h AND 0xEFF \<noteq> ?h"
  proof
    assume "?h AND 0xEFF = ?h"
    then have "bit ?h 8 = bit (?h AND 0xEFF) 8" by simp
    moreover have "\<not> bit (0xEFF :: u16) 8" by code_simp
    ultimately show False using assms(3) by (simp add: bit_and_iff)
  qed
  have "ConnHashLookupByHandle ?h s = None"
    using assms(4) by (auto simp: ConnHashLookupByHandle_def find_index_None)
  then obtain c where c: "h5_connection_comp p s = ConnHashAdd c s" "hc_handle c = ?h"
    using assms(1,2) by (auto simp: h5_connection_comp_def HciConnAllocate_def h5_alloc_ok h5_conn_fields_def)
  then have ex: "\<exists>c. h5_HciConnHash (h5_connection_comp p s) = h5_HciConnHash s @ [c] \<and> hc_handle c = ?h"
    by (auto simp: ConnHashAdd_def)
  have "ConnHashLookupByHandle ?h (ConnHashAdd c s) = None"
    using assms(4) ne c(2) by (auto simp: ConnHashLookupByHandle_def find_index_None ConnHashAdd_def)
  then have "hci_h5_send_msg m (h5_connection_comp p s) = Some (h5_connection_comp p s)"
    using assms(5,6) c(1) by (simp add: hci_h5_send_msg_def Let_def)
  with ex show ?thesis by simp
qed

definition bit8_event :: bytes where
  "bit8_event = [0x03, 11, 0, 0x2A, 0x01, 1, 2, 3, 4, 5, 6, 1, 0]"

definition bit8_msg :: hc_bt_hdr where
  "bit8_msg = acl_sample_msg\<lparr>mg_mem := [0xAA, 0x2A, 0x21, 8, 0, 4, 0, 0x40, 0, 9, 8, 7, 6]\<rparr>"

theorem h5_handle_bit8_lost_witness:
  "rd16 bit8_event 3 = 0x12A \<and> hci_h5_send_msg bit8_msg (h5_connection_comp bit8_event (hci_h5_init acl_sample_conn)) =
     Some (h5_connection_comp bit8_event (hci_h5_init acl_sample_conn))"
proof -
  let ?s = "hci_h5_init acl_sample_conn"
  have h: "rd16 bit8_event 3 = 0x12A" "rd bit8_event 2 = 0" by code_simp+
  have b: "bit (rd16 bit8_event 3) 8" unfolding h by code_simp
  have s: "h5_ok ?s" "rd16 bit8_event 3 AND 0xEFF \<notin> hc_handle ` set (h5_HciConnHash ?s)"
    by (simp_all add: h5_ok_def hci_h5_init_def)
  have m: "mg_event bit8_msg AND 0xFF00 = MSG_STACK_TO_HC_HCI_ACL"
    "rd16 (mg_mem bit8_msg) (unat (mg_offset bit8_msg)) AND 0x0FFF = rd16 bit8_event 3"
    by code_simp+
  show ?thesis using h5_handle_bit8_lost [OF s(1) h(2) b s(2) m] h(1) by simp
qed

end
