(* ===== verification/Bt_Buf.thy ===== *)
theory Bt_Buf
  imports Bt_Prelude
begin

text \<open>
  The message buffer that every layer of the stack passes on: a \<^verbatim>\<open>BT_HDR\<close> of \<^verbatim>\<open>bt_types.h\<close> with the
  memory behind it, so that offsets and lengths stay the 16-bit fields they are.
\<close>

record bt_buf =
  b_event :: u16
  b_len :: u16
  b_offset :: u16
  b_layer_specific :: u16
  b_mem :: bytes

text \<open>The bytes of a buffer from its offset on, and those that count.\<close>

definition b_ptr :: "bt_buf \<Rightarrow> bytes" where
  "b_ptr b = drop (unat (b_offset b)) (b_mem b)"

definition b_packet :: "bt_buf \<Rightarrow> bytes" where
  "b_packet b = take (unat (b_len b)) (b_ptr b)"

definition L2CAP_MIN_OFFSET :: nat where "L2CAP_MIN_OFFSET = 13"

end
