(* ===== verification/Rfc_Frames.thy ===== *)
theory Rfc_Frames
  imports Crc Bt_Buf
begin

text \<open>
  The TS 07.10 frames of RFCOMM, \<^verbatim>\<open>stack/rfcomm/rfc_ts_frames.c\<close>, with the frame check sequence and the
  command queue of \<^verbatim>\<open>rfc_utils.c\<close> and the field macros of \<^verbatim>\<open>rfcdefs.h\<close>: every function that builds a
  frame, the parser of a received frame, and the parser of the messages on the multiplexer channel.

  A function that gets a multiplexer \<^verbatim>\<open>p_mcb\<close> works on the state \<open>rfc_st\<close>: the multiplexer, the frame
  \<^verbatim>\<open>rfc_cb.rfc.rx_frame\<close>, the buffers that \<^verbatim>\<open>GKI_getpoolbuf\<close> will return (none left: a null pointer)
  with whatever they held before, and the calls that leave the two files, in order.  A buffer is its
  \<^verbatim>\<open>BT_HDR\<close> with the memory behind it, so that offsets and lengths stay the 16-bit fields they are.
  The command queue, a \<^verbatim>\<open>BUFFER_Q\<close>, is the list of its buffers; a timer entry is the timeout it was
  started with, if it runs; the array \<^verbatim>\<open>port_inx\<close> is a function of the channel.
\<close>

section \<open>State\<close>

datatype rfc_mx_state =
    RFC_MX_STATE_IDLE | RFC_MX_STATE_WAIT_CONN_CNF | RFC_MX_STATE_CONFIGURE | RFC_MX_STATE_SABME_WAIT_UA
  | RFC_MX_STATE_WAIT_SABME | RFC_MX_STATE_CONNECTED | RFC_MX_STATE_DISC_WAIT_UA

datatype port_fc = PORT_FC_UNDEFINED | PORT_FC_TS710 | PORT_FC_CREDIT

record rfc_mcb =
  m_tle :: "u16 option"
  m_cmd_q :: "bt_buf list"
  m_port_inx :: "u8 \<Rightarrow> u8"
  m_bd_addr :: bytes
  m_lcid :: u16
  m_peer_l2cap_mtu :: u16
  m_state :: rfc_mx_state
  m_is_initiator :: bool
  m_local_cfg_sent :: bool
  m_peer_cfg_rcvd :: bool
  m_restart_required :: bool
  m_peer_ready :: bool
  m_flow :: port_fc
  m_l2cap_congested :: bool
  m_is_disc_initiator :: bool
  m_pending_lcid :: u16
  m_pending_id :: u8

record pn_pars =
  pn_frame_type :: u8
  pn_conv_layer :: u8
  pn_priority :: u8
  pn_t1 :: u8
  pn_mtu :: u16
  pn_n2 :: u8
  pn_k :: u8

record rpn_pars =
  ps_baud_rate :: u8
  ps_byte_size :: u8
  ps_stop_bits :: u8
  ps_parity :: u8
  ps_parity_type :: u8
  ps_fc_type :: u8
  ps_xon_char :: u8
  ps_xoff_char :: u8

record port_state = rpn_pars +
  ps_rx_char1 :: u8

record port_ctrl =
  pc_modem_signal :: u8
  pc_break_signal :: u8
  pc_discard_buffers :: u8
  pc_break_signal_seq :: u8
  pc_fc :: bool

text \<open>The union of \<^verbatim>\<open>MX_FRAME\<close>, by the member that was written last; a port negotiation request writes no parameters.\<close>

datatype mx_u =
    U_NONE
  | U_PN pn_pars
  | U_TEST nat u16
  | U_MSC u8 bool u8
  | U_NSC u8 u8 u8
  | U_RPN_REQ
  | U_RPN rpn_pars u16
  | U_RLS u8

record mx_frame =
  f_dlci :: u8
  f_type :: u8
  f_cr :: bool
  f_ea :: bool
  f_pf :: bool
  f_credit :: u8
  f_u :: mx_u

datatype rfc_out =
    L2CA_DataWrite u16 bt_buf
  | GKI_freebuf bt_buf
  | Rfc_process_pn bool mx_frame
  | Rfc_process_test_rsp bt_buf
  | Rfc_process_fcon bool
  | Rfc_process_fcoff bool
  | Rfc_process_msc bool mx_frame
  | Rfc_process_nsc mx_frame
  | Rfc_process_rpn bool bool mx_frame
  | Rfc_process_rls bool mx_frame
  | PORT_FlowInd u8 bool

text \<open>
  \<open>r_congs\<close> says for each of the next writes whether L2CAP answers it by reporting congestion, which
  it does from inside \<^verbatim>\<open>L2CA_DataWrite\<close>; an empty list means that it does not.
\<close>

record rfc_st =
  r_mcb :: rfc_mcb
  r_rx_frame :: mx_frame
  r_peer_rx_disabled :: bool
  r_bufs :: "bt_buf list"
  r_congs :: "bool list"
  r_outs :: "rfc_out list"

definition rfc_emit :: "rfc_out \<Rightarrow> rfc_st \<Rightarrow> rfc_st" where
  "rfc_emit x s = s\<lparr>r_outs := r_outs s @ [x]\<rparr>"

definition upd_mcb :: "(rfc_mcb \<Rightarrow> rfc_mcb) \<Rightarrow> rfc_st \<Rightarrow> rfc_st" where
  "upd_mcb f s = s\<lparr>r_mcb := f (r_mcb s)\<rparr>"

definition rfc_getbuf :: "rfc_st \<Rightarrow> bt_buf option \<times> rfc_st" where
  "rfc_getbuf s = (case r_bufs s of [] \<Rightarrow> (None, s) | b # bs \<Rightarrow> (Some b, s\<lparr>r_bufs := bs\<rparr>))"

section \<open>Constants\<close>

definition RFCOMM_CTRL_FRAME_LEN :: nat where "RFCOMM_CTRL_FRAME_LEN = 3"
definition RFCOMM_MIN_OFFSET :: nat where "RFCOMM_MIN_OFFSET = 5"
definition RFCOMM_MX_DLCI :: u8 where "RFCOMM_MX_DLCI = 0"
definition RFCOMM_MAX_DLCI :: u8 where "RFCOMM_MAX_DLCI = 61"
definition RFCOMM_MIN_MTU :: u16 where "RFCOMM_MIN_MTU = 23"
definition RFCOMM_MAX_MTU :: u16 where "RFCOMM_MAX_MTU = 32767"

definition RFCOMM_SABME :: u8 where "RFCOMM_SABME = 0x2F"
definition RFCOMM_UA :: u8 where "RFCOMM_UA = 0x63"
definition RFCOMM_DM :: u8 where "RFCOMM_DM = 0x0F"
definition RFCOMM_DISC :: u8 where "RFCOMM_DISC = 0x43"
definition RFCOMM_UIH :: u8 where "RFCOMM_UIH = 0xEF"
definition RFCOMM_EA :: u8 where "RFCOMM_EA = 1"
definition RFCOMM_PF :: u8 where "RFCOMM_PF = 0x10"

lemmas rfc_frame_types = RFCOMM_SABME_def RFCOMM_UA_def RFCOMM_DM_def RFCOMM_DISC_def RFCOMM_UIH_def

definition RFCOMM_MX_PN :: u8 where "RFCOMM_MX_PN = 0x80"
definition RFCOMM_MX_TEST :: u8 where "RFCOMM_MX_TEST = 0x20"
definition RFCOMM_MX_FCON :: u8 where "RFCOMM_MX_FCON = 0xA0"
definition RFCOMM_MX_FCOFF :: u8 where "RFCOMM_MX_FCOFF = 0x60"
definition RFCOMM_MX_MSC :: u8 where "RFCOMM_MX_MSC = 0xE0"
definition RFCOMM_MX_NSC :: u8 where "RFCOMM_MX_NSC = 0x10"
definition RFCOMM_MX_RPN :: u8 where "RFCOMM_MX_RPN = 0x90"
definition RFCOMM_MX_RLS :: u8 where "RFCOMM_MX_RLS = 0x50"

lemmas rfc_mx_types = RFCOMM_MX_PN_def RFCOMM_MX_TEST_def RFCOMM_MX_FCON_def RFCOMM_MX_FCOFF_def
  RFCOMM_MX_MSC_def RFCOMM_MX_NSC_def RFCOMM_MX_RPN_def RFCOMM_MX_RLS_def

definition RFCOMM_CR :: "bool \<Rightarrow> bool \<Rightarrow> u8" where
  "RFCOMM_CR initiator is_command =
     (if (initiator \<and> is_command) \<or> (\<not> initiator \<and> \<not> is_command) then 2 else 0)"

definition RFCOMM_I_CR :: "bool \<Rightarrow> u8" where
  "RFCOMM_I_CR is_command = (if is_command then 0x02 else 0x00)"

definition RFCOMM_FRAME_IS_CMD :: "bool \<Rightarrow> bool \<Rightarrow> bool" where
  "RFCOMM_FRAME_IS_CMD initiator cr \<longleftrightarrow> (initiator \<and> \<not> cr) \<or> (\<not> initiator \<and> cr)"

definition RFCOMM_FRAME_IS_RSP :: "bool \<Rightarrow> bool \<Rightarrow> bool" where
  "RFCOMM_FRAME_IS_RSP initiator cr \<longleftrightarrow> (initiator \<and> cr) \<or> (\<not> initiator \<and> \<not> cr)"

definition RFCOMM_VALID_DLCI :: "u8 \<Rightarrow> bool" where
  "RFCOMM_VALID_DLCI dlci \<longleftrightarrow> dlci = 0 \<or> (dlci \<ge> 2 \<and> dlci \<le> RFCOMM_MAX_DLCI)"

datatype rfc_event =
    RFC_EVENT_SABME | RFC_EVENT_UA | RFC_EVENT_DM | RFC_EVENT_DISC | RFC_EVENT_UIH | RFC_EVENT_BAD_FRAME

section \<open>The frame check sequence\<close>

definition rfc_crctable :: "u8 list" where
  "rfc_crctable =
    [0x00, 0x91, 0xE3, 0x72, 0x07, 0x96, 0xE4, 0x75, 0x0E, 0x9F, 0xED, 0x7C, 0x09, 0x98, 0xEA, 0x7B,
     0x1C, 0x8D, 0xFF, 0x6E, 0x1B, 0x8A, 0xF8, 0x69, 0x12, 0x83, 0xF1, 0x60, 0x15, 0x84, 0xF6, 0x67,
     0x38, 0xA9, 0xDB, 0x4A, 0x3F, 0xAE, 0xDC, 0x4D, 0x36, 0xA7, 0xD5, 0x44, 0x31, 0xA0, 0xD2, 0x43,
     0x24, 0xB5, 0xC7, 0x56, 0x23, 0xB2, 0xC0, 0x51, 0x2A, 0xBB, 0xC9, 0x58, 0x2D, 0xBC, 0xCE, 0x5F,
     0x70, 0xE1, 0x93, 0x02, 0x77, 0xE6, 0x94, 0x05, 0x7E, 0xEF, 0x9D, 0x0C, 0x79, 0xE8, 0x9A, 0x0B,
     0x6C, 0xFD, 0x8F, 0x1E, 0x6B, 0xFA, 0x88, 0x19, 0x62, 0xF3, 0x81, 0x10, 0x65, 0xF4, 0x86, 0x17,
     0x48, 0xD9, 0xAB, 0x3A, 0x4F, 0xDE, 0xAC, 0x3D, 0x46, 0xD7, 0xA5, 0x34, 0x41, 0xD0, 0xA2, 0x33,
     0x54, 0xC5, 0xB7, 0x26, 0x53, 0xC2, 0xB0, 0x21, 0x5A, 0xCB, 0xB9, 0x28, 0x5D, 0xCC, 0xBE, 0x2F,
     0xE0, 0x71, 0x03, 0x92, 0xE7, 0x76, 0x04, 0x95, 0xEE, 0x7F, 0x0D, 0x9C, 0xE9, 0x78, 0x0A, 0x9B,
     0xFC, 0x6D, 0x1F, 0x8E, 0xFB, 0x6A, 0x18, 0x89, 0xF2, 0x63, 0x11, 0x80, 0xF5, 0x64, 0x16, 0x87,
     0xD8, 0x49, 0x3B, 0xAA, 0xDF, 0x4E, 0x3C, 0xAD, 0xD6, 0x47, 0x35, 0xA4, 0xD1, 0x40, 0x32, 0xA3,
     0xC4, 0x55, 0x27, 0xB6, 0xC3, 0x52, 0x20, 0xB1, 0xCA, 0x5B, 0x29, 0xB8, 0xCD, 0x5C, 0x2E, 0xBF,
     0x90, 0x01, 0x73, 0xE2, 0x97, 0x06, 0x74, 0xE5, 0x9E, 0x0F, 0x7D, 0xEC, 0x99, 0x08, 0x7A, 0xEB,
     0x8C, 0x1D, 0x6F, 0xFE, 0x8B, 0x1A, 0x68, 0xF9, 0x82, 0x13, 0x61, 0xF0, 0x85, 0x14, 0x66, 0xF7,
     0xA8, 0x39, 0x4B, 0xDA, 0xAF, 0x3E, 0x4C, 0xDD, 0xA6, 0x37, 0x45, 0xD4, 0xA1, 0x30, 0x42, 0xD3,
     0xB4, 0x25, 0x57, 0xC6, 0xB3, 0x22, 0x50, 0xC1, 0xBA, 0x2B, 0x59, 0xC8, 0xBD, 0x2C, 0x5E, 0xCF]"

text \<open>The loop that both functions share, over the first \<open>len\<close> bytes behind \<open>p\<close>.\<close>

definition rfc_fcs_loop :: "nat \<Rightarrow> bytes \<Rightarrow> u8" where
  "rfc_fcs_loop len p = foldl (\<lambda>fcs x. rfc_crctable ! unat (fcs XOR x)) 0xFF (map (rd p) [0..<len])"

definition rfc_calc_fcs :: "nat \<Rightarrow> bytes \<Rightarrow> u8" where
  "rfc_calc_fcs len p = 0xFF - rfc_fcs_loop len p"

definition rfc_check_fcs :: "nat \<Rightarrow> bytes \<Rightarrow> u8 \<Rightarrow> bool" where
  "rfc_check_fcs len p received_fcs \<longleftrightarrow> rfc_crctable ! unat (rfc_fcs_loop len p XOR received_fcs) = 0xCF"

section \<open>The command queue\<close>

text \<open>\<^verbatim>\<open>rfc_process_l2cap_congestion\<close> when the channel becomes congested.\<close>

definition rfc_l2cap_congested :: "rfc_st \<Rightarrow> rfc_st" where
  "rfc_l2cap_congested s =
     (let s = upd_mcb (\<lambda>m. m\<lparr>m_l2cap_congested := True\<rparr>) s
      in if r_peer_rx_disabled s then s else rfc_emit (PORT_FlowInd 0 False) s)"

text \<open>
  \<^verbatim>\<open>L2CA_DataWrite\<close> as RFCOMM uses it.  From inside the call L2CAP may report that the channel has become
  congested: the next element of \<open>r_congs\<close>.  RFCOMM ignores the result, so a write that L2CAP refuses is an
  output like any other here; a report that congestion has ended comes between calls, not inside one.
\<close>

definition rfc_data_write :: "bt_buf \<Rightarrow> rfc_st \<Rightarrow> rfc_st" where
  "rfc_data_write b s =
     (let s = rfc_emit (L2CA_DataWrite (m_lcid (r_mcb s)) b) s
      in case r_congs s of
           [] \<Rightarrow> s
         | c # cs \<Rightarrow> (let s = s\<lparr>r_congs := cs\<rparr> in if c then rfc_l2cap_congested s else s))"

fun rfc_flush_cmds :: "bt_buf list \<Rightarrow> rfc_st \<Rightarrow> rfc_st" where
  "rfc_flush_cmds [] s = s"
| "rfc_flush_cmds (b # q) s =
     (if m_l2cap_congested (r_mcb s) then s
      else rfc_flush_cmds q (rfc_data_write b (upd_mcb (\<lambda>m. m\<lparr>m_cmd_q := q\<rparr>) s)))"

definition rfc_check_send_cmd :: "bt_buf option \<Rightarrow> rfc_st \<Rightarrow> rfc_st" where
  "rfc_check_send_cmd p_buf s =
     (let s = (case p_buf of None \<Rightarrow> s | Some b \<Rightarrow> upd_mcb (\<lambda>m. m\<lparr>m_cmd_q := m_cmd_q m @ [b]\<rparr>) s)
      in rfc_flush_cmds (m_cmd_q (r_mcb s)) s)"

definition rfc_process_l2cap_congestion :: "bool \<Rightarrow> rfc_st \<Rightarrow> rfc_st" where
  "rfc_process_l2cap_congestion is_congested s =
     (if is_congested then rfc_l2cap_congested s
      else
        (let s = rfc_check_send_cmd None (upd_mcb (\<lambda>m. m\<lparr>m_l2cap_congested := False\<rparr>) s)
         in if r_peer_rx_disabled s then s else rfc_emit (PORT_FlowInd 0 True) s))"

section \<open>Control frames\<close>

text \<open>The body that the four control frames share: address, control, an empty length and the check sequence.\<close>

definition rfc_send_ctrl :: "u8 \<Rightarrow> u8 \<Rightarrow> rfc_st \<Rightarrow> rfc_st" where
  "rfc_send_ctrl addr ctl s =
     (case rfc_getbuf s of
        (None, s) \<Rightarrow> s
      | (Some b, s) \<Rightarrow>
          (let mem = poke (b_mem b) L2CAP_MIN_OFFSET [addr, ctl, RFCOMM_EA OR 0];
               mem = poke mem (L2CAP_MIN_OFFSET + 3) [rfc_calc_fcs 3 (drop L2CAP_MIN_OFFSET mem)]
           in rfc_check_send_cmd (Some (b\<lparr>b_offset := of_nat L2CAP_MIN_OFFSET, b_mem := mem, b_len := 4\<rparr>)) s))"

definition rfc_addr :: "u8 \<Rightarrow> u8 \<Rightarrow> u8" where
  "rfc_addr cr dlci = RFCOMM_EA OR cr OR push_bit 2 dlci"

definition rfc_send_sabme :: "u8 \<Rightarrow> rfc_st \<Rightarrow> rfc_st" where
  "rfc_send_sabme dlci s =
     rfc_send_ctrl (rfc_addr (RFCOMM_CR (m_is_initiator (r_mcb s)) True) dlci) (RFCOMM_SABME OR RFCOMM_PF) s"

definition rfc_send_ua :: "u8 \<Rightarrow> rfc_st \<Rightarrow> rfc_st" where
  "rfc_send_ua dlci s =
     rfc_send_ctrl (rfc_addr (RFCOMM_CR (m_is_initiator (r_mcb s)) False) dlci) (RFCOMM_UA OR RFCOMM_PF) s"

definition rfc_send_dm :: "u8 \<Rightarrow> bool \<Rightarrow> rfc_st \<Rightarrow> rfc_st" where
  "rfc_send_dm dlci pf s =
     rfc_send_ctrl (rfc_addr (RFCOMM_CR (m_is_initiator (r_mcb s)) False) dlci)
       (RFCOMM_DM OR (if pf then RFCOMM_PF else 0)) s"

definition rfc_send_disc :: "u8 \<Rightarrow> rfc_st \<Rightarrow> rfc_st" where
  "rfc_send_disc dlci s =
     rfc_send_ctrl (rfc_addr (RFCOMM_CR (m_is_initiator (r_mcb s)) True) dlci) (RFCOMM_DISC OR RFCOMM_PF) s"

section \<open>Data frames\<close>

text \<open>The header that \<^verbatim>\<open>rfc_send_buf_uih\<close> writes in front of \<open>len\<close> bytes of data.\<close>

definition rfc_uih_hdr :: "u8 \<Rightarrow> u8 \<Rightarrow> u8 \<Rightarrow> u16 \<Rightarrow> bytes" where
  "rfc_uih_hdr cr dlci credits len =
     [rfc_addr cr dlci, RFCOMM_UIH OR (if credits \<noteq> 0 then RFCOMM_PF else 0)] @
     (if len \<le> 127 then [RFCOMM_EA OR ucast (push_bit 1 len)]
      else [ucast (push_bit 1 (len AND 0x7f)), ucast (drop_bit 7 len)]) @
     (if credits \<noteq> 0 then [credits] else [])"

definition rfc_send_buf_uih :: "u8 \<Rightarrow> bt_buf \<Rightarrow> rfc_st \<Rightarrow> rfc_st" where
  "rfc_send_buf_uih dlci b s =
     (let cr = RFCOMM_CR (m_is_initiator (r_mcb s)) True;
          credits = (if dlci \<noteq> 0 then ucast (b_layer_specific b) else 0);
          hdr = rfc_uih_hdr cr dlci credits (b_len b);
          offset = b_offset b - of_nat (length hdr);
          mem = poke (b_mem b) (unat offset) hdr;
          len = b_len b + of_nat (length hdr);
          mem = poke mem (unat offset + unat len) [rfc_calc_fcs 2 (drop (unat offset) mem)];
          b = b\<lparr>b_offset := offset, b_mem := mem, b_len := len + 1\<rparr>
      in if dlci = RFCOMM_MX_DLCI then rfc_check_send_cmd (Some b) s else rfc_data_write b s)"

definition rfc_send_credit :: "u8 \<Rightarrow> u8 \<Rightarrow> rfc_st \<Rightarrow> rfc_st" where
  "rfc_send_credit dlci credit s =
     (let cr = RFCOMM_CR (m_is_initiator (r_mcb s)) True
      in case rfc_getbuf s of
        (None, s) \<Rightarrow> s
      | (Some b, s) \<Rightarrow>
          (let mem = poke (b_mem b) L2CAP_MIN_OFFSET [rfc_addr cr dlci, RFCOMM_UIH OR RFCOMM_PF, RFCOMM_EA OR 0, credit];
               mem = poke mem (L2CAP_MIN_OFFSET + 4) [rfc_calc_fcs 2 (drop L2CAP_MIN_OFFSET mem)]
           in rfc_check_send_cmd (Some (b\<lparr>b_offset := of_nat L2CAP_MIN_OFFSET, b_mem := mem, b_len := 5\<rparr>)) s))"

section \<open>Messages of the multiplexer channel\<close>

text \<open>The frame around a message: a command buffer, the message behind the room for the header, and \<^verbatim>\<open>rfc_send_buf_uih\<close>.\<close>

definition rfc_send_mx :: "bytes \<Rightarrow> rfc_st \<Rightarrow> rfc_st" where
  "rfc_send_mx msg s =
     (case rfc_getbuf s of
        (None, s) \<Rightarrow> s
      | (Some b, s) \<Rightarrow>
          (let offset = L2CAP_MIN_OFFSET + RFCOMM_CTRL_FRAME_LEN
           in rfc_send_buf_uih RFCOMM_MX_DLCI
                (b\<lparr>b_offset := of_nat offset, b_mem := poke (b_mem b) offset msg, b_len := of_nat (length msg)\<rparr>) s))"

definition rfc_mx_hdr :: "u8 \<Rightarrow> bool \<Rightarrow> u8 \<Rightarrow> bytes" where
  "rfc_mx_hdr type is_command len = [RFCOMM_EA OR RFCOMM_I_CR is_command OR type, RFCOMM_EA OR push_bit 1 len]"

definition rfc_send_pn :: "u8 \<Rightarrow> bool \<Rightarrow> u16 \<Rightarrow> u8 \<Rightarrow> u8 \<Rightarrow> rfc_st \<Rightarrow> rfc_st" where
  "rfc_send_pn dlci is_command mtu cl k s =
     (let priority = (if is_command then 0
                      else case f_u (r_rx_frame s) of U_PN pn \<Rightarrow> pn_priority pn | _ \<Rightarrow> 0)
      in rfc_send_mx (rfc_mx_hdr RFCOMM_MX_PN is_command 8 @
           [dlci, 0 OR cl, priority, 0, ucast (mtu AND 0xFF), ucast (drop_bit 8 mtu), 0, k]) s)"

definition rfc_send_fcon :: "bool \<Rightarrow> rfc_st \<Rightarrow> rfc_st" where
  "rfc_send_fcon is_command s = rfc_send_mx (rfc_mx_hdr RFCOMM_MX_FCON is_command 0) s"

definition rfc_send_fcoff :: "bool \<Rightarrow> rfc_st \<Rightarrow> rfc_st" where
  "rfc_send_fcoff is_command s = rfc_send_mx (rfc_mx_hdr RFCOMM_MX_FCOFF is_command 0) s"

definition msc_signals :: "port_ctrl \<Rightarrow> u8" where
  "msc_signals p = RFCOMM_EA OR (if pc_fc p then 0x02 else 0) OR
     (if pc_modem_signal p AND 0x01 \<noteq> 0 then 0x04 else 0) OR
     (if pc_modem_signal p AND 0x02 \<noteq> 0 then 0x08 else 0) OR
     (if pc_modem_signal p AND 0x04 \<noteq> 0 then 0x40 else 0) OR
     (if pc_modem_signal p AND 0x08 \<noteq> 0 then 0x80 else 0)"

definition rfc_send_msc :: "u8 \<Rightarrow> bool \<Rightarrow> port_ctrl \<Rightarrow> rfc_st \<Rightarrow> rfc_st" where
  "rfc_send_msc dlci is_command p s =
     (let break_duration = pc_break_signal p;
          len = (if break_duration \<noteq> 0 then 3 else 2)
      in rfc_send_mx (rfc_mx_hdr RFCOMM_MX_MSC is_command len @ [rfc_addr 2 dlci, msc_signals p] @
           (if break_duration \<noteq> 0 then [RFCOMM_EA OR 0x02 OR push_bit 4 break_duration] else [])) s)"

definition rfc_send_rls :: "u8 \<Rightarrow> bool \<Rightarrow> u8 \<Rightarrow> rfc_st \<Rightarrow> rfc_st" where
  "rfc_send_rls dlci is_command status s =
     rfc_send_mx (rfc_mx_hdr RFCOMM_MX_RLS is_command 2 @ [rfc_addr 2 dlci, 0x01 OR status]) s"

definition rfc_send_nsc :: "rfc_st \<Rightarrow> rfc_st" where
  "rfc_send_nsc s =
     (let f = r_rx_frame s
      in rfc_send_mx (rfc_mx_hdr RFCOMM_MX_NSC False 1 @
           [of_bool (f_ea f) OR push_bit 1 (of_bool (f_cr f)) OR f_type f]) s)"

definition rfc_send_rpn :: "u8 \<Rightarrow> bool \<Rightarrow> port_state option \<Rightarrow> u16 \<Rightarrow> rfc_st \<Rightarrow> rfc_st" where
  "rfc_send_rpn dlci is_command p_pars param_mask s =
     (case p_pars of
        None \<Rightarrow> rfc_send_mx (rfc_mx_hdr RFCOMM_MX_RPN is_command 1 @ [rfc_addr 2 dlci]) s
      | Some p \<Rightarrow> rfc_send_mx (rfc_mx_hdr RFCOMM_MX_RPN is_command 8 @
          [rfc_addr 2 dlci, ps_baud_rate p,
           ps_byte_size p OR push_bit 2 (ps_stop_bits p) OR push_bit 3 (ps_parity p) OR push_bit 4 (ps_parity_type p),
           ps_fc_type p, ps_xon_char p, ps_xoff_char p, ucast (param_mask AND 0xFF), ucast (drop_bit 8 param_mask)]) s)"

definition rfc_send_test :: "bool \<Rightarrow> bt_buf \<Rightarrow> rfc_st \<Rightarrow> rfc_st" where
  "rfc_send_test is_command b s =
     (let o20 = L2CAP_MIN_OFFSET + RFCOMM_MIN_OFFSET + 2;
          b = (if unat (b_offset b) < o20
               then b\<lparr>b_mem := poke (b_mem b) o20 (b_packet b), b_offset := of_nat o20\<rparr> else b);
          offset = b_offset b - 2;
          b = b\<lparr>b_offset := offset,
               b_mem := poke (b_mem b) (unat offset)
                 [RFCOMM_EA OR RFCOMM_I_CR is_command OR RFCOMM_MX_TEST, RFCOMM_EA OR ucast (push_bit 1 (b_len b))],
               b_len := b_len b + 2\<rparr>
      in rfc_send_buf_uih RFCOMM_MX_DLCI b s)"

section \<open>Parsing a frame\<close>

text \<open>The switch on the frame type.\<close>

definition rfc_parse_switch :: "rfc_mcb \<Rightarrow> mx_frame \<Rightarrow> u16 \<Rightarrow> bytes \<Rightarrow> u8 \<Rightarrow> rfc_event" where
  "rfc_parse_switch mcb f len p fcs =
     (let init = m_is_initiator mcb;
          bad = (len \<noteq> 0 \<or> \<not> RFCOMM_VALID_DLCI (f_dlci f) \<or> \<not> rfc_check_fcs RFCOMM_CTRL_FRAME_LEN p fcs)
      in if f_type f = RFCOMM_SABME then
           (if RFCOMM_FRAME_IS_RSP init (f_cr f) \<or> \<not> f_pf f \<or> bad then RFC_EVENT_BAD_FRAME else RFC_EVENT_SABME)
         else if f_type f = RFCOMM_UA then
           (if RFCOMM_FRAME_IS_CMD init (f_cr f) \<or> \<not> f_pf f \<or> bad then RFC_EVENT_BAD_FRAME else RFC_EVENT_UA)
         else if f_type f = RFCOMM_DM then
           (if RFCOMM_FRAME_IS_CMD init (f_cr f) \<or> bad then RFC_EVENT_BAD_FRAME else RFC_EVENT_DM)
         else if f_type f = RFCOMM_DISC then
           (if RFCOMM_FRAME_IS_RSP init (f_cr f) \<or> \<not> f_pf f \<or> bad then RFC_EVENT_BAD_FRAME else RFC_EVENT_DISC)
         else if f_type f = RFCOMM_UIH then
           (if \<not> RFCOMM_VALID_DLCI (f_dlci f) \<or> \<not> rfc_check_fcs 2 p fcs then RFC_EVENT_BAD_FRAME
            else RFC_EVENT_UIH)
         else RFC_EVENT_BAD_FRAME)"

definition rfc_parse_data :: "rfc_mcb \<Rightarrow> mx_frame \<Rightarrow> bt_buf \<Rightarrow> rfc_event \<times> mx_frame \<times> bt_buf" where
  "rfc_parse_data mcb f b =
     (let p = b_ptr b in
      if unat (b_len b) < RFCOMM_CTRL_FRAME_LEN then (RFC_EVENT_BAD_FRAME, f, b)
      else
      (let ead = bit (rd p 0) 0;
           f = f\<lparr>f_dlci := drop_bit 2 (rd p 0), f_cr := bit (rd p 0) 1\<rparr>
       in if \<not> ead then (RFC_EVENT_BAD_FRAME, f\<lparr>f_dlci := f_dlci f + push_bit 6 (rd p 1)\<rparr>, b)
       else
       (let f = f\<lparr>f_type := rd p 1 AND NOT 0x10, f_pf := bit (rd p 1) 4\<rparr>;
            eal = bit (rd p 2) 0;
            len = (ucast (drop_bit 1 (rd p 2)) :: u16) + (if eal then 0 else push_bit 7 (ucast (rd p 3)));
            h = (if eal then 3 else 4);
            b = b\<lparr>b_len := b_len b - of_nat (h + 1), b_offset := b_offset b + of_nat h\<rparr>;
            with_credit = (m_flow mcb = PORT_FC_CREDIT \<and> f_type f = RFCOMM_UIH \<and> f_dlci f \<noteq> RFCOMM_MX_DLCI \<and> f_pf f);
            f = f\<lparr>f_credit := (if with_credit then rd p h else 0)\<rparr>;
            b = (if with_credit then b\<lparr>b_len := b_len b - 1, b_offset := b_offset b + 1\<rparr> else b);
            h = (if with_credit then h + 1 else h)
        in (if b_len b \<noteq> len then RFC_EVENT_BAD_FRAME
            else rfc_parse_switch mcb f len p (rd p (h + unat len)), f, b))))"

section \<open>Parsing a message of the multiplexer channel\<close>

text \<open>The end of \<^verbatim>\<open>rfc_process_mx_message\<close> that every \<^verbatim>\<open>break\<close> leads to.\<close>

definition mx_unsupported :: "bool \<Rightarrow> bt_buf \<Rightarrow> rfc_st \<Rightarrow> rfc_st" where
  "mx_unsupported is_command b s =
     (let s = rfc_emit (GKI_freebuf b) s in if is_command then rfc_send_nsc s else s)"

text \<open>Freeing the buffer and handing the frame to its function.\<close>

definition mx_process :: "(mx_frame \<Rightarrow> rfc_out) \<Rightarrow> mx_frame \<Rightarrow> bt_buf \<Rightarrow> rfc_st \<Rightarrow> rfc_st" where
  "mx_process out f b s = rfc_emit (out f) (rfc_emit (GKI_freebuf b) (s\<lparr>r_rx_frame := f\<rparr>))"

definition mx_pn :: "bool \<Rightarrow> bytes \<Rightarrow> u16 \<Rightarrow> mx_frame \<Rightarrow> bt_buf \<Rightarrow> rfc_st \<Rightarrow> rfc_st" where
  "mx_pn is_command p mlen f b s =
     (if mlen \<noteq> 8 then mx_unsupported is_command b (s\<lparr>r_rx_frame := f\<rparr>)
      else
        (let pn = \<lparr>pn_frame_type = rd p 1 AND 0x0F, pn_conv_layer = rd p 1 AND 0xF0, pn_priority = rd p 2 AND 0x3F,
                   pn_t1 = rd p 3, pn_mtu = rd16 p 4, pn_n2 = rd p 6, pn_k = rd p 7 AND 0x07\<rparr>;
             f = f\<lparr>f_dlci := rd p 0 AND 0x3F, f_u := U_PN pn\<rparr>
         in if f_dlci f = 0 \<or> \<not> RFCOMM_VALID_DLCI (f_dlci f) \<or> pn_mtu pn < RFCOMM_MIN_MTU \<or> pn_mtu pn > RFCOMM_MAX_MTU
            then mx_unsupported is_command b (s\<lparr>r_rx_frame := f\<rparr>)
            else mx_process (Rfc_process_pn is_command) f b s))"

definition mx_test :: "bool \<Rightarrow> nat \<Rightarrow> u16 \<Rightarrow> mx_frame \<Rightarrow> bt_buf \<Rightarrow> rfc_st \<Rightarrow> rfc_st" where
  "mx_test is_command pos mlen f b s =
     (if mlen = 0 then mx_unsupported is_command b (s\<lparr>r_rx_frame := f\<rparr>)
      else
        (let f = f\<lparr>f_u := U_TEST pos mlen\<rparr>;
             b = b\<lparr>b_offset := b_offset b + 2, b_len := b_len b - 2\<rparr>;
             s = s\<lparr>r_rx_frame := f\<rparr>
         in if is_command then rfc_send_test False b s else rfc_emit (Rfc_process_test_rsp b) s))"

text \<open>The address octet that starts four of the messages: extension, command bit and a valid port.\<close>

definition mx_bad_addr :: "u8 \<Rightarrow> bool" where
  "mx_bad_addr x \<longleftrightarrow> \<not> bit x 0 \<or> \<not> bit x 1 \<or> drop_bit 2 x = 0 \<or> \<not> RFCOMM_VALID_DLCI (drop_bit 2 x)"

definition mx_msc :: "bool \<Rightarrow> bytes \<Rightarrow> u8 \<Rightarrow> mx_frame \<Rightarrow> bt_buf \<Rightarrow> rfc_st \<Rightarrow> rfc_st" where
  "mx_msc is_command p mx_len f b s =
     (let f = f\<lparr>f_dlci := drop_bit 2 (rd p 0)\<rparr>
      in if mx_bad_addr (rd p 0) then mx_unsupported is_command b (s\<lparr>r_rx_frame := f\<rparr>)
         else
           (let f = f\<lparr>f_u := (if mx_len = 3 then U_MSC (rd p 1) (bit (rd p 2) 1) (drop_bit 4 (rd p 2 AND 0xF0))
                              else U_MSC (rd p 1) False 0)\<rparr>
            in mx_process (Rfc_process_msc is_command) f b s))"

definition mx_nsc :: "bool \<Rightarrow> bytes \<Rightarrow> u16 \<Rightarrow> mx_frame \<Rightarrow> bt_buf \<Rightarrow> rfc_st \<Rightarrow> rfc_st" where
  "mx_nsc is_command p mlen f b s =
     (if mlen \<noteq> 1 \<or> \<not> is_command then mx_unsupported is_command b (s\<lparr>r_rx_frame := f\<rparr>)
      else mx_process Rfc_process_nsc
             (f\<lparr>f_u := U_NSC (rd p 0 AND 1) (drop_bit 1 (rd p 0 AND 2)) (drop_bit 2 (rd p 0))\<rparr>) b s)"

definition mx_rpn :: "bool \<Rightarrow> bytes \<Rightarrow> u16 \<Rightarrow> mx_frame \<Rightarrow> bt_buf \<Rightarrow> rfc_st \<Rightarrow> rfc_st" where
  "mx_rpn is_command p mlen f b s =
     (if mlen \<noteq> 1 \<and> mlen \<noteq> 8 then mx_unsupported is_command b (s\<lparr>r_rx_frame := f\<rparr>)
      else
        (let f = f\<lparr>f_dlci := drop_bit 2 (rd p 0)\<rparr>
         in if mx_bad_addr (rd p 0) then mx_unsupported is_command b (s\<lparr>r_rx_frame := f\<rparr>)
            else if mlen = 1 then mx_process (Rfc_process_rpn is_command True) (f\<lparr>f_u := U_RPN_REQ\<rparr>) b s
            else
              (let x = rd p 2;
                   ps = \<lparr>ps_baud_rate = rd p 1, ps_byte_size = x AND 0x03, ps_stop_bits = drop_bit 2 x AND 0x01,
                         ps_parity = drop_bit 3 x AND 0x01, ps_parity_type = drop_bit 4 x AND 0x03,
                         ps_fc_type = rd p 3 AND 0x3F, ps_xon_char = rd p 4, ps_xoff_char = rd p 5\<rparr>
               in mx_process (Rfc_process_rpn is_command False) (f\<lparr>f_u := U_RPN ps (rd16 p 6 AND 0x3F7F)\<rparr>) b s)))"

definition mx_rls :: "bool \<Rightarrow> bytes \<Rightarrow> u16 \<Rightarrow> mx_frame \<Rightarrow> bt_buf \<Rightarrow> rfc_st \<Rightarrow> rfc_st" where
  "mx_rls is_command p mlen f b s =
     (if mlen \<noteq> 2 then mx_unsupported is_command b (s\<lparr>r_rx_frame := f\<rparr>)
      else
        (let f = f\<lparr>f_dlci := drop_bit 2 (rd p 0), f_u := U_RLS (rd p 1 AND NOT 0x01)\<rparr>
         in if mx_bad_addr (rd p 0) then mx_unsupported is_command b (s\<lparr>r_rx_frame := f\<rparr>)
            else mx_process (Rfc_process_rls is_command) f b s))"

text \<open>
  \<^verbatim>\<open>mx_len\<close> is a \<^verbatim>\<open>UINT8\<close>: the second length octet is shifted by seven and only its lowest bit counts.
  The count of the bytes left, \<open>mlen\<close>, is a \<^verbatim>\<open>UINT16\<close> that wraps for a message of one byte.
\<close>

definition rfc_process_mx_message :: "bt_buf \<Rightarrow> rfc_st \<Rightarrow> rfc_st" where
  "rfc_process_mx_message b s =
     (let p = b_ptr b; mlen = b_len b;
          f = (r_rx_frame s)\<lparr>f_ea := bit (rd p 0) 0, f_cr := bit (rd p 0) 1, f_type := rd p 0 AND NOT 0x03\<rparr>
      in if \<not> f_ea f \<or> mlen = 0 then rfc_emit (GKI_freebuf b) (s\<lparr>r_rx_frame := f\<rparr>)
      else
      (let is_command = f_cr f;
           ea = bit (rd p 1) 0;
           mx_len = drop_bit 1 (rd p 1) + (if ea then 0 else push_bit 7 (rd p 2));
           mlen = mlen - (if ea then 2 else 3);
           pos = (if ea then 2 else 3);
           q = drop pos p
       in if ucast mx_len \<noteq> mlen then rfc_emit (GKI_freebuf b) (s\<lparr>r_rx_frame := f\<rparr>)
       else if f_type f = RFCOMM_MX_PN then mx_pn is_command q mlen f b s
       else if f_type f = RFCOMM_MX_TEST then mx_test is_command pos mlen f b s
       else if f_type f = RFCOMM_MX_FCON then
         (if mlen \<noteq> 0 then mx_unsupported is_command b (s\<lparr>r_rx_frame := f\<rparr>)
          else mx_process (\<lambda>_. Rfc_process_fcon is_command) f b s)
       else if f_type f = RFCOMM_MX_FCOFF then
         (if mlen \<noteq> 0 then mx_unsupported is_command b (s\<lparr>r_rx_frame := f\<rparr>)
          else mx_process (\<lambda>_. Rfc_process_fcoff is_command) f b s)
       else if f_type f = RFCOMM_MX_MSC then mx_msc is_command q mx_len f b s
       else if f_type f = RFCOMM_MX_NSC then mx_nsc is_command q mlen f b s
       else if f_type f = RFCOMM_MX_RPN then mx_rpn is_command q mlen f b s
       else if f_type f = RFCOMM_MX_RLS then mx_rls is_command q mlen f b s
       else mx_unsupported is_command b (s\<lparr>r_rx_frame := f\<rparr>)))"

end
