(* ===== verification/Rfc_Wire.thy ===== *)
theory Rfc_Wire
  imports Rfc_Frames
begin

text \<open>
  What the frames of RFCOMM guarantee: the check sequence is the polynomial it claims to be and a
  changed byte never passes it; a frame that one side builds is the frame the other side parses;
  a message built for the multiplexer channel is the message that is processed; the parser decides
  on the bytes of the packet only; and the command queue keeps the order of the commands whatever
  L2CAP reports in between.
\<close>

section \<open>The frame check sequence\<close>

definition RFC_FCS_POLY :: u8 where "RFC_FCS_POLY = 0xE0"

lemma rfc_crctable_shifts: "rfc_crctable = map (crc_shifts RFC_FCS_POLY 8) crc_inputs"
  by code_simp

interpretation rfcfcs: crc_byte_table RFC_FCS_POLY rfc_crctable
  by unfold_locales (simp_all add: crc_byte_table_of_map rfc_crctable_shifts)

lemma rfc_lookup: "rfc_crctable ! unat (c XOR x) = crc_lookup 8 rfc_crctable c x"
proof -
  have "drop_bit 8 c = 0" by (rule bit_word_eqI) (auto simp: bit_simps dest: bit_imp_le_length)
  moreover have "take_bit 8 (c XOR x) = c XOR x" by (rule bit_word_eqI) (auto simp: bit_simps)
  ultimately show ?thesis by (simp add: crc_lookup_def del: take_bit_xor)
qed

lemma rfc_fcs_ref: "rfc_fcs_loop n p = crc_ref RFC_FCS_POLY 0xFF (map (rd p) [0..<n])"
  unfolding rfc_fcs_loop_def rfc_lookup by (rule rfcfcs.fold_lookup)

lemma u8_compl: "0xFF - x = NOT (x :: u8)"
  by (simp add: not_eq_complement)

lemma xor_cancel: "a XOR b = a XOR c \<longleftrightarrow> b = (c :: 'a::len word)"
proof
  assume "a XOR b = a XOR c"
  then have "a XOR (a XOR b) = a XOR (a XOR c)" by simp
  then show "b = c" by (simp add: xor.assoc [symmetric])
qed simp

lemma rfc_check_iff: "rfc_check_fcs n p r \<longleftrightarrow> r = rfc_calc_fcs n p"
proof -
  let ?x = "rfc_fcs_loop n p"
  have "rfc_crctable ! unat (?x XOR r) = crc_shifts RFC_FCS_POLY 8 (?x XOR r)"
    using take_bit_word_eq_self [of 8 r] unfolding rfc_lookup rfcfcs.lookup_shifts by simp
  moreover have c: "0xCF = crc_shifts RFC_FCS_POLY 8 0xFF" by code_simp
  have top: "bit RFC_FCS_POLY (LENGTH(8) - 1)" by (simp add: RFC_FCS_POLY_def)
  ultimately have "rfc_check_fcs n p r \<longleftrightarrow> ?x XOR r = 0xFF"
    unfolding rfc_check_fcs_def c by (simp only: crc_shifts_inj [OF top])
  moreover have m: "(0xFF :: u8) = - 1" by code_simp
  have x: "0xFF = ?x XOR NOT ?x" by (simp only: m bit.xor_compl_right xor_self_eq) (rule bit.compl_zero [symmetric])
  have "?x XOR r = 0xFF \<longleftrightarrow> r = NOT ?x" by (subst x) (rule xor_cancel)
  ultimately show ?thesis by (simp add: rfc_calc_fcs_def u8_compl)
qed

lemma rfc_fcs_loop_cong: "take n p = take n q \<Longrightarrow> n \<le> length p \<Longrightarrow> n \<le> length q \<Longrightarrow> rfc_fcs_loop n p = rfc_fcs_loop n q"
proof -
  assume *: "take n p = take n q" "n \<le> length p" "n \<le> length q"
  have "map (rd p) [0..<n] = map (rd q) [0..<n]"
    using * by (auto simp: rd_def list_eq_iff_nth_eq [of "take n p"])
  then show ?thesis by (simp only: rfc_fcs_loop_def)
qed

lemma rfc_calc_fcs_take: "n \<le> m \<Longrightarrow> m \<le> length p \<Longrightarrow> rfc_calc_fcs n (take m p) = rfc_calc_fcs n p"
  unfolding rfc_calc_fcs_def by (subst rfc_fcs_loop_cong [of n "take m p" p]) (auto simp: min_def)

lemma rfc_calc_fcs_append: "n \<le> length p \<Longrightarrow> rfc_calc_fcs n (p @ q) = rfc_calc_fcs n p"
  using rfc_calc_fcs_take [of n "length p" "p @ q"] by simp

section \<open>What the parser accepts\<close>

definition rfc_len_field :: "bytes \<Rightarrow> nat \<Rightarrow> bool" where
  "rfc_len_field lb n \<longleftrightarrow> (\<exists>x. lb = [x] \<and> bit x 0 \<and> n = unat (drop_bit 1 x)) \<or>
     (\<exists>x y. lb = [x, y] \<and> \<not> bit x 0 \<and> n = unat (drop_bit 1 x) + 128 * unat y)"

definition rfc_has_credit :: "rfc_mcb \<Rightarrow> u8 \<Rightarrow> u8 \<Rightarrow> bool" where
  "rfc_has_credit mcb addr ctl \<longleftrightarrow> m_flow mcb = PORT_FC_CREDIT \<and> ctl AND NOT 0x10 = RFCOMM_UIH \<and>
     drop_bit 2 addr \<noteq> 0 \<and> bit ctl 4"

definition rfc_fcs_span :: "u8 \<Rightarrow> nat" where
  "rfc_fcs_span ctl = (if ctl AND NOT 0x10 = RFCOMM_UIH then 2 else 3)"

definition rfc_frame :: "rfc_mcb \<Rightarrow> bytes \<Rightarrow> u8 \<Rightarrow> u8 \<Rightarrow> u8 \<Rightarrow> bytes \<Rightarrow> bool" where
  "rfc_frame mcb pkt addr ctl credit payload \<longleftrightarrow>
     (\<exists>lb. pkt = [addr, ctl] @ lb @ (if rfc_has_credit mcb addr ctl then [credit] else []) @ payload @
                   [rfc_calc_fcs (rfc_fcs_span ctl) ([addr, ctl] @ lb)] \<and>
       (rfc_has_credit mcb addr ctl \<or> credit = 0) \<and> rfc_len_field lb (length payload) \<and> bit addr 0)"

definition rfc_frame_event :: "rfc_mcb \<Rightarrow> u8 \<Rightarrow> u8 \<Rightarrow> nat \<Rightarrow> rfc_event" where
  "rfc_frame_event mcb addr ctl n =
     (let t = ctl AND NOT 0x10; pf = bit ctl 4; cr = bit addr 1; i = m_is_initiator mcb;
          v = RFCOMM_VALID_DLCI (drop_bit 2 addr)
      in if \<not> v \<or> (t \<noteq> RFCOMM_UIH \<and> n \<noteq> 0) then RFC_EVENT_BAD_FRAME
         else if t = RFCOMM_SABME \<and> cr \<noteq> i \<and> pf then RFC_EVENT_SABME
         else if t = RFCOMM_UA \<and> cr = i \<and> pf then RFC_EVENT_UA
         else if t = RFCOMM_DM \<and> cr = i then RFC_EVENT_DM
         else if t = RFCOMM_DISC \<and> cr \<noteq> i \<and> pf then RFC_EVENT_DISC
         else if t = RFCOMM_UIH then RFC_EVENT_UIH else RFC_EVENT_BAD_FRAME)"

lemma rfc_len_unat:
  "unat ((ucast (drop_bit 1 x) :: u16) + push_bit 7 (ucast y)) = unat (drop_bit 1 (x :: u8)) + 128 * unat (y :: u8)"
proof -
  have x: "unat (drop_bit 1 x) < 256" and y: "unat y < 256"
    using unsigned_less [of "drop_bit 1 x"] unsigned_less [of y] by simp_all
  have "unat (push_bit 7 (ucast y :: u16)) = 128 * unat y"
    using y by (subst unsigned_push_bit_eq)
      (simp add: unsigned_ucast_eq take_bit_eq_mod push_bit_eq_mult [where 'a = nat] mult.commute)
  moreover have "unat (ucast (drop_bit 1 x) :: u16) = unat (drop_bit 1 x)"
    using x by (simp add: unsigned_ucast_eq take_bit_eq_mod)
  ultimately show ?thesis using x y by (subst unat_add_lem [THEN iffD1]) simp_all
qed

lemma u16_sub_eq:
  assumes "k \<le> 6" "unat (w :: u16) \<le> 32895"
  shows "v - of_nat k = w \<longleftrightarrow> unat v = unat w + k"
proof
  assume "v - of_nat k = w"
  then have "v = of_nat (unat w + k)" by (simp add: algebra_simps)
  then show "unat v = unat w + k" using assms by (simp add: unat_of_nat del: of_nat_add)
next
  assume "unat v = unat w + k"
  then have "of_nat (unat v) = (of_nat (unat w + k) :: u16)" by simp
  then show "v - of_nat k = w" by simp
qed

lemma b_ptr_packet:
  assumes "unat (b_offset b) + unat (b_len b) \<le> length (b_mem b)"
  obtains rest where "b_ptr b = b_packet b @ rest" "length (b_packet b) = unat (b_len b)"
proof
  show "b_ptr b = b_packet b @ drop (unat (b_len b)) (b_ptr b)" by (simp add: b_packet_def)
  show "length (b_packet b) = unat (b_len b)" using assms by (simp add: b_packet_def b_ptr_def)
qed

definition rfc_parsed :: "rfc_mcb \<Rightarrow> mx_frame \<Rightarrow> bt_buf \<Rightarrow> u8 \<Rightarrow> u8 \<Rightarrow> u8 \<Rightarrow> bytes \<Rightarrow> mx_frame \<times> bt_buf" where
  "rfc_parsed mcb f b addr ctl credit payload =
     (f\<lparr>f_dlci := drop_bit 2 addr, f_cr := bit addr 1, f_type := ctl AND NOT 0x10, f_pf := bit ctl 4, f_credit := credit\<rparr>,
      b\<lparr>b_len := of_nat (length payload),
        b_offset := b_offset b + of_nat (length (b_packet b) - length payload - 1)\<rparr>)"

definition rfc_len_of :: "bytes \<Rightarrow> u16" where
  "rfc_len_of p = ucast (drop_bit 1 (rd p 2)) + (if bit (rd p 2) 0 then 0 else push_bit 7 (ucast (rd p 3)))"

lemma rfc_switch_eval:
  assumes "f_type f = ctl AND NOT 0x10" "f_cr f = bit addr 1" "f_pf f = bit ctl 4" "f_dlci f = drop_bit 2 addr"
  shows "rfc_parse_switch mcb f len p fcs = (if fcs \<noteq> rfc_calc_fcs (rfc_fcs_span ctl) p then RFC_EVENT_BAD_FRAME
    else rfc_frame_event mcb addr ctl (unat len))"
proof -
  have z: "unat len = 0 \<longleftrightarrow> len = 0" by (simp add: unat_eq_0)
  show ?thesis
    unfolding rfc_parse_switch_def rfc_check_iff assms rfc_frame_event_def Let_def rfc_fcs_span_def z
      RFCOMM_FRAME_IS_RSP_def RFCOMM_FRAME_IS_CMD_def RFCOMM_CTRL_FRAME_LEN_def
    by (simp add: rfc_frame_types)
qed

text \<open>The parser on a packet of at least three bytes with the extension bit set.\<close>

lemma rfc_parse_eval:
  assumes p: "p = b_ptr b" and "addr = rd p 0" "ctl = rd p 1" "\<not> unat (b_len b) < 3" "bit addr 0"
    and h: "h = (if bit (rd p 2) 0 then 3 else 4)"
    and hc: "hc = h + (if rfc_has_credit mcb addr ctl then 1 else 0)"
    and f': "f' = f\<lparr>f_dlci := drop_bit 2 addr, f_cr := bit addr 1, f_type := ctl AND NOT 0x10, f_pf := bit ctl 4,
                   f_credit := (if rfc_has_credit mcb addr ctl then rd p h else 0)\<rparr>"
    and b': "b' = b\<lparr>b_len := b_len b - of_nat (hc + 1), b_offset := b_offset b + of_nat hc\<rparr>"
  shows "rfc_parse_data mcb f b =
    (if b_len b' \<noteq> rfc_len_of p then RFC_EVENT_BAD_FRAME
     else rfc_parse_switch mcb f' (rfc_len_of p) p (rd p (hc + unat (rfc_len_of p))), f', b')"
proof -
  note defs = rfc_parse_data_def RFCOMM_CTRL_FRAME_LEN_def Let_def p[symmetric] assms(2,3)[symmetric]
    rfc_len_of_def [symmetric] h[symmetric] RFCOMM_MX_DLCI_def
  have wc: "(m_flow mcb = PORT_FC_CREDIT \<and> ctl AND - 17 = RFCOMM_UIH \<and> drop_bit 2 addr \<noteq> 0 \<and> bit ctl 4) =
      rfc_has_credit mcb addr ctl"
    by (simp add: rfc_has_credit_def)
  show ?thesis using assms(4,5) unfolding defs f' b' hc
    by (cases "rfc_has_credit mcb addr ctl") (simp_all add: wc h)
qed

lemma rfc_len_of_le: "unat (rfc_len_of p) \<le> 32767"
proof -
  have "unat (drop_bit 1 x) \<le> 127" for x :: u8
  proof -
    have "unat x < 256" using unsigned_less [of x] by simp
    then show ?thesis by (subst unsigned_drop_bit_eq) (simp add: drop_bit_eq_div [where 'a = nat] take_bit_eq_mod)
  qed
  from this [of "rd p 2"] have "unat (drop_bit 1 (rd p 2)) \<le> 127" .
  moreover have "unat (rd p 3) < 256" using unsigned_less [of "rd p 3"] by simp
  moreover have "unat (rfc_len_of p) = unat (drop_bit 1 (rd p 2)) + (if bit (rd p 2) 0 then 0 else 128 * unat (rd p 3))"
    using rfc_len_unat [of "rd p 2" 0] rfc_len_unat [of "rd p 2" "rd p 3"] by (simp add: rfc_len_of_def)
  ultimately show ?thesis
    by simp
qed

text \<open>Both directions: the parser accepts exactly the frames of the grammar, and reports what they carry.\<close>

lemma rd_mid: "rd (xs @ y # ys) (length xs) = y"
  by (simp add: rd_append)

lemma rfc_parse_complete:
  assumes "unat (b_offset b) + unat (b_len b) \<le> length (b_mem b)"
    and "rfc_frame mcb (b_packet b) addr ctl credit payload"
  shows "rfc_parse_data mcb f b = (rfc_frame_event mcb addr ctl (length payload), rfc_parsed mcb f b addr ctl credit payload)"
proof -
  let ?c = "if rfc_has_credit mcb addr ctl then [credit] else []"
  let ?p = "b_ptr b"
  obtain rest where p: "?p = b_packet b @ rest" and L: "length (b_packet b) = unat (b_len b)"
    using assms(1) by (rule b_ptr_packet)
  obtain lb where pkt: "b_packet b = [addr, ctl] @ lb @ ?c @ payload @ [rfc_calc_fcs (rfc_fcs_span ctl) ([addr, ctl] @ lb)]"
    and cr: "rfc_has_credit mcb addr ctl \<or> credit = 0" and lb: "rfc_len_field lb (length payload)" and ea: "bit addr 0"
    using assms(2) unfolding rfc_frame_def by blast
  have lb12: "length lb = (if bit (rd ?p 2) 0 then 1 else 2)" "unat (rfc_len_of ?p) = length payload"
    using lb rfc_len_unat [of "rd ?p 2" 0] rfc_len_unat [of "rd ?p 2" "rd ?p 3"]
    by (auto simp: rfc_len_field_def p pkt rfc_len_of_def)
  have r: "rd ?p 0 = addr" "rd ?p 1 = ctl" by (simp_all add: p pkt)
  have span: "rfc_fcs_span ctl \<le> length ([addr, ctl] @ lb)" using lb12 by (simp add: rfc_fcs_span_def)
  have len: "unat (b_len b) = length payload + (3 + length lb + length ?c)" using L pkt by simp
  then have "\<not> unat (b_len b) < 3" by simp
  define h :: nat where "h = (if bit (rd ?p 2) 0 then 3 else 4)"
  define hc where "hc = h + (if rfc_has_credit mcb addr ctl then 1 else 0)"
  note eval = rfc_parse_eval [OF refl r(1)[symmetric] r(2)[symmetric] \<open>\<not> unat (b_len b) < 3\<close> ea h_def hc_def refl refl, of f]
  have hc: "hc = 2 + length lb + length ?c" using lb12(1) by (simp add: hc_def h_def)
  have "b_len b - of_nat (hc + 1) = rfc_len_of ?p \<longleftrightarrow> unat (b_len b) = unat (rfc_len_of ?p) + (hc + 1)"
    by (intro u16_sub_eq) (use lb12(1) rfc_len_of_le [of ?p] hc in auto)
  then have eq: "b_len b - of_nat (hc + 1) = rfc_len_of ?p" using len lb12 hc by simp
  have i: "hc + length payload = length ([addr, ctl] @ lb @ ?c @ payload)" using hc by simp
  have "?p = ([addr, ctl] @ lb @ ?c @ payload) @ rfc_calc_fcs (rfc_fcs_span ctl) ([addr, ctl] @ lb) # rest"
    by (simp add: p pkt)
  then have "rd ?p (hc + length payload) = rfc_calc_fcs (rfc_fcs_span ctl) ([addr, ctl] @ lb)"
    unfolding i by (metis rd_mid)
  also have "\<dots> = rfc_calc_fcs (rfc_fcs_span ctl) ?p"
    unfolding p pkt using rfc_calc_fcs_append [OF span] by simp
  finally have fcs: "rd ?p (hc + length payload) = rfc_calc_fcs (rfc_fcs_span ctl) ?p" .
  have c: "(if rfc_has_credit mcb addr ctl then rd ?p h else 0) = credit"
    using cr lb12(1) by (auto simp: p pkt rd_append h_def)
  have "of_nat (length payload) = rfc_len_of ?p" by (simp flip: lb12(2))
  moreover have "length (b_packet b) - length payload - 1 = hc" using hc pkt by simp
  ultimately show ?thesis
    unfolding eval rfc_parsed_def c using eq by (simp add: fcs rfc_switch_eval lb12(2))
qed

lemma take_rd: "n < length p \<Longrightarrow> take (Suc n) p = take n p @ [rd p n]"
  by (simp add: take_Suc_conv_app_nth rd_def)

lemma rfc_parse_sound:
  assumes mem: "unat (b_offset b) + unat (b_len b) \<le> length (b_mem b)"
    and parse: "rfc_parse_data mcb f b = (ev, f', b')" and ok: "ev \<noteq> RFC_EVENT_BAD_FRAME"
  shows "\<exists>addr ctl credit payload. rfc_frame mcb (b_packet b) addr ctl credit payload"
proof -
  let ?p = "b_ptr b" and ?L = "unat (b_len b)"
  define addr ctl n where defs: "addr = rd ?p 0" "ctl = rd ?p 1" "n = unat (rfc_len_of ?p)"
  have L: "\<not> ?L < 3" and ea: "bit addr 0"
    using parse ok by (auto simp: rfc_parse_data_def RFCOMM_CTRL_FRAME_LEN_def Let_def defs split: if_splits)
  define h :: nat where "h = (if bit (rd ?p 2) 0 then 3 else 4)"
  define hc where "hc = h + (if rfc_has_credit mcb addr ctl then 1 else 0)"
  note eval = rfc_parse_eval [OF refl defs(1,2) L ea h_def hc_def refl refl, of f]
  have "b_len b - of_nat (hc + 1) = rfc_len_of ?p" and fcs: "rd ?p (hc + n) = rfc_calc_fcs (rfc_fcs_span ctl) ?p"
    using parse ok unfolding eval by (auto simp: rfc_switch_eval defs split: if_splits)
  moreover have "b_len b - of_nat (hc + 1) = rfc_len_of ?p \<longleftrightarrow> ?L = unat (rfc_len_of ?p) + (hc + 1)"
    by (intro u16_sub_eq) (use rfc_len_of_le [of ?p] in \<open>auto simp: hc_def h_def\<close>)
  ultimately have len: "?L = Suc (hc + n)" by (simp add: defs)
  define lb c where lbc: "lb = take (h - 2) (drop 2 ?p)" "c = take (hc - h) (drop h ?p)"
  define payload where "payload = take n (drop hc ?p)"
  have lp: "Suc (hc + n) \<le> length ?p" using mem len by (simp add: b_ptr_def)
  have hh: "3 \<le> h" "h \<le> hc" by (simp_all add: h_def hc_def)
  have p2: "take 2 ?p = [addr, ctl]"
  proof -
    have "1 < length ?p" "0 < length ?p" using lp hh by linarith+
    then show ?thesis using take_rd [of 0 ?p] take_rd [of 1 ?p] by (simp add: defs numeral_2_eq_2)
  qed
  have th: "take h ?p = [addr, ctl] @ lb"
  proof -
    have "2 + (h - 2) = h" using hh by simp
    then show ?thesis using take_add [of 2 "h - 2" ?p] by (simp only: lbc p2)
  qed
  have "take hc ?p = take h ?p @ c" using take_add [of h "hc - h" ?p] hh by (simp add: lbc)
  moreover have "take (hc + n) ?p = take hc ?p @ payload" by (simp add: take_add payload_def)
  moreover have "b_packet b = take (hc + n) ?p @ [rd ?p (hc + n)]"
    using take_rd [of "hc + n" ?p] lp by (simp add: b_packet_def len)
  moreover have "rd ?p (hc + n) = rfc_calc_fcs (rfc_fcs_span ctl) ([addr, ctl] @ lb)"
    using rfc_calc_fcs_take [of "rfc_fcs_span ctl" h ?p] hh lp by (simp add: fcs th rfc_fcs_span_def)
  moreover have "c = (if rfc_has_credit mcb addr ctl then [rd ?p h] else [])"
    using take_rd [of 0 "drop h ?p"] lp by (auto simp: lbc hc_def rd_def)
  moreover have "rfc_len_field lb (length payload)"
  proof -
    have "lb = (if bit (rd ?p 2) 0 then [rd ?p 2] else [rd ?p 2, rd ?p 3])"
      using take_rd [of 0 "drop 2 ?p"] take_rd [of 1 "drop 2 ?p"] lp hh
      by (auto simp: lbc h_def rd_def numeral_2_eq_2 numeral_3_eq_3)
    moreover have "length payload = n" using lp by (simp add: payload_def)
    ultimately show ?thesis
      using rfc_len_unat [of "rd ?p 2" 0] rfc_len_unat [of "rd ?p 2" "rd ?p 3"]
      by (auto simp: rfc_len_field_def defs rfc_len_of_def)
  qed
  ultimately have "rfc_frame mcb (b_packet b) addr ctl (if rfc_has_credit mcb addr ctl then rd ?p h else 0) payload"
    using ea unfolding rfc_frame_def by (intro exI [of _ lb]) (simp add: th)
  then show ?thesis by blast
qed

text \<open>C34: The parser accepts exactly the frames of TS 07.10 as RFCOMM uses them.  A packet is accepted if
  and only if it is an address octet with its extension bit, a control octet, a length field of one
  or two octets that gives the number of payload bytes, a credit octet when credit based flow control
  calls for one, the payload and the right check sequence, with a valid channel, and with the command bit,
  the poll bit and the payload length that its type requires; then the event, the fields of the frame
  and the bounds of the payload are those of that packet.  No byte outside the packet matters.\<close>

theorem rfc_parse_exact:
  assumes "unat (b_offset b) + unat (b_len b) \<le> length (b_mem b)"
  shows "rfc_parse_data mcb f b = (ev, f', b') \<and> ev \<noteq> RFC_EVENT_BAD_FRAME \<longleftrightarrow>
    (\<exists>addr ctl credit payload. rfc_frame mcb (b_packet b) addr ctl credit payload \<and>
       ev = rfc_frame_event mcb addr ctl (length payload) \<and> ev \<noteq> RFC_EVENT_BAD_FRAME \<and>
       (f', b') = rfc_parsed mcb f b addr ctl credit payload)"
  using rfc_parse_sound [OF assms] rfc_parse_complete [OF assms] by (metis prod.inject prod.collapse)

section \<open>What the builders put into a packet\<close>

lemma poke_poke:
  assumes "i + length u + length v \<le> length m"
  shows "poke (poke m i u) (i + length u) v = poke m i (u @ v)"
proof -
  have i: "min (length m) i = i" using assms by linarith
  have "take (i + length u) (poke m i u) = take i m @ u" by (simp add: poke_def i)
  moreover have "drop (i + length u + length v) (poke m i u) = drop (i + length u + length v) m"
    by (simp add: poke_def i add.commute add.left_commute)
  ultimately show ?thesis by (simp add: poke_def [of "poke m i u"] poke_def [of m i "u @ v"] add.assoc)
qed

lemma drop_poke: "i + length u \<le> length m \<Longrightarrow> drop i (poke m i u) = u @ drop (i + length u) m"
  by (simp add: poke_def)

lemma b_packet_poke:
  "unat l = length w \<Longrightarrow> unat i + length w \<le> length m \<Longrightarrow>
   b_packet (b\<lparr>b_offset := i, b_mem := poke m (unat i) w, b_len := l\<rparr>) = w"
  by (simp add: b_packet_def b_ptr_def drop_poke)

lemma rfc_calc_fcs_poke:
  "n \<le> length u \<Longrightarrow> i + length u \<le> length m \<Longrightarrow> rfc_calc_fcs n (drop i (poke m i u)) = rfc_calc_fcs n u"
  by (simp add: drop_poke rfc_calc_fcs_append)

text \<open>A multiplexer that can send at once, with a command buffer at hand.\<close>

definition rfc_ready :: "rfc_st \<Rightarrow> bool" where
  "rfc_ready s \<longleftrightarrow> m_cmd_q (r_mcb s) = [] \<and> \<not> m_l2cap_congested (r_mcb s) \<and> r_congs s = [] \<and>
     (\<exists>b bs. r_bufs s = b # bs \<and> 32 \<le> length (b_mem b) \<and> length (b_mem b) < 65536)"

definition rfc_sent :: "rfc_st \<Rightarrow> rfc_st \<Rightarrow> bytes \<Rightarrow> bool" where
  "rfc_sent s s' pkt \<longleftrightarrow> (\<exists>b. r_outs s' = r_outs s @ [L2CA_DataWrite (m_lcid (r_mcb s)) b] \<and> b_packet b = pkt)"

lemma rfc_send_now:
  assumes "m_cmd_q (r_mcb s) = []" "\<not> m_l2cap_congested (r_mcb s)" "r_congs s = []"
  shows "r_outs (rfc_check_send_cmd (Some b) s) = r_outs s @ [L2CA_DataWrite (m_lcid (r_mcb s)) b]"
  using assms by (simp add: rfc_check_send_cmd_def upd_mcb_def rfc_data_write_def rfc_emit_def Let_def)

lemma rfc_ctrl_sent:
  assumes "rfc_ready s"
  shows "rfc_sent s (rfc_send_ctrl addr ctl s) [addr, ctl, 1, rfc_calc_fcs 3 [addr, ctl, 1]]"
proof -
  obtain b bs where b: "r_bufs s = b # bs" "32 \<le> length (b_mem b)" using assms by (auto simp: rfc_ready_def)
  let ?w = "[addr, ctl, 1]"
  let ?m = "poke (poke (b_mem b) 13 ?w) (13 + length ?w) [rfc_calc_fcs 3 ?w]"
  have m: "?m = poke (b_mem b) (unat (13 :: u16)) (?w @ [rfc_calc_fcs 3 ?w])"
    using b(2) poke_poke [of 13 ?w "[rfc_calc_fcs 3 ?w]" "b_mem b"] by simp
  have fcs: "rfc_calc_fcs 3 (drop 13 (poke (b_mem b) 13 ?w)) = rfc_calc_fcs 3 ?w"
    using b(2) by (intro rfc_calc_fcs_poke) simp_all
  have "r_outs (rfc_send_ctrl addr ctl s) = r_outs s @ [L2CA_DataWrite (m_lcid (r_mcb s))
      (b\<lparr>b_offset := 13, b_mem := ?m, b_len := 4\<rparr>)]"
    using assms b(1) fcs unfolding rfc_send_ctrl_def
    by (simp add: rfc_getbuf_def rfc_ready_def rfc_send_now L2CAP_MIN_OFFSET_def RFCOMM_EA_def Let_def)
  moreover have "b_packet (b\<lparr>b_offset := 13, b_mem := ?m, b_len := 4\<rparr>) = ?w @ [rfc_calc_fcs 3 ?w]"
    unfolding m using b(2) by (intro b_packet_poke) simp_all
  ultimately show ?thesis by (auto simp: rfc_sent_def)
qed

lemma rfc_credit_sent:
  assumes "rfc_ready s" and a: "a = rfc_addr (RFCOMM_CR (m_is_initiator (r_mcb s)) True) d"
  shows "rfc_sent s (rfc_send_credit d k s) [a, RFCOMM_UIH OR RFCOMM_PF, 1, k, rfc_calc_fcs 2 [a, RFCOMM_UIH OR RFCOMM_PF, 1]]"
proof -
  obtain b bs where b: "r_bufs s = b # bs" "32 \<le> length (b_mem b)" using assms by (auto simp: rfc_ready_def)
  let ?w = "[a, RFCOMM_UIH OR RFCOMM_PF, 1, k]" and ?v = "[a, RFCOMM_UIH OR RFCOMM_PF, 1]"
  let ?m = "poke (poke (b_mem b) 13 ?w) (13 + length ?w) [rfc_calc_fcs 2 ?v]"
  have m: "?m = poke (b_mem b) (unat (13 :: u16)) (?w @ [rfc_calc_fcs 2 ?v])"
    using b(2) poke_poke [of 13 ?w "[rfc_calc_fcs 2 ?v]" "b_mem b"] by simp
  have fcs: "rfc_calc_fcs 2 (drop 13 (poke (b_mem b) 13 ?w)) = rfc_calc_fcs 2 ?v"
  proof -
    have "rfc_calc_fcs 2 (drop 13 (poke (b_mem b) 13 ?w)) = rfc_calc_fcs 2 ?w"
      using b(2) by (intro rfc_calc_fcs_poke) simp_all
    also have "\<dots> = rfc_calc_fcs 2 ?v" using rfc_calc_fcs_append [of 2 ?v "[k]"] by simp
    finally show ?thesis .
  qed
  have "r_outs (rfc_send_credit d k s) = r_outs s @ [L2CA_DataWrite (m_lcid (r_mcb s))
      (b\<lparr>b_offset := 13, b_mem := ?m, b_len := 5\<rparr>)]"
    using assms b(1) fcs unfolding rfc_send_credit_def
    by (simp add: rfc_getbuf_def rfc_ready_def rfc_send_now L2CAP_MIN_OFFSET_def RFCOMM_EA_def Let_def)
  moreover have "b_packet (b\<lparr>b_offset := 13, b_mem := ?m, b_len := 5\<rparr>) = ?w @ [rfc_calc_fcs 2 ?v]"
    unfolding m using b(2) by (intro b_packet_poke) simp_all
  ultimately show ?thesis by (auto simp: rfc_sent_def)
qed

lemma length_uih_hdr: "3 \<le> length (rfc_uih_hdr cr dlci credits len)" "length (rfc_uih_hdr cr dlci credits len) \<le> 5"
  by (simp_all add: rfc_uih_hdr_def)

lemma rfc_uih_out:
  assumes hdr: "hdr = rfc_uih_hdr (RFCOMM_CR (m_is_initiator (r_mcb s)) True) dlci
      (if dlci \<noteq> 0 then ucast (b_layer_specific b) else 0) (b_len b)"
    and room: "length hdr \<le> unat (b_offset b)" "unat (b_offset b) + unat (b_len b) < length (b_mem b)" "length (b_mem b) < 65536"
  obtains b1 where "b_packet b1 = hdr @ b_packet b @ [rfc_calc_fcs 2 hdr]"
    and "unat (b_offset b1) + unat (b_len b1) \<le> length (b_mem b1)" "length (b_mem b1) < 65536"
    and "rfc_send_buf_uih dlci b s = (if dlci = RFCOMM_MX_DLCI then rfc_check_send_cmd (Some b1) s else rfc_data_write b1 s)"
proof
  let ?h = "length hdr" and ?O = "unat (b_offset b)" and ?L = "unat (b_len b)"
  define off len where ol: "off = b_offset b - of_nat ?h" "len = b_len b + of_nat ?h"
  have h5: "?h \<le> 5" "2 \<le> ?h" using length_uih_hdr hdr by (auto intro: le_trans [of 2 3])
  have o: "unat off = ?O - ?h"
    using room h5 by (simp add: ol unat_sub word_le_nat_alt unat_of_nat)
  have l: "unat len = ?L + ?h" and l1: "unat (len + 1) = ?L + ?h + 1"
  proof -
    have len: "len = of_nat (?L + ?h)" "len + 1 = of_nat (?L + ?h + 1)" by (simp_all add: ol)
    show "unat len = ?L + ?h" using room unfolding len(1) by (simp add: unat_of_nat del: of_nat_add)
    show "unat (len + 1) = ?L + ?h + 1" using room unfolding len(2) by (simp add: unat_of_nat del: of_nat_add of_nat_Suc)
  qed
  define m1 where "m1 = poke (b_mem b) (unat off) hdr"
  define fcs where "fcs = rfc_calc_fcs 2 (drop (unat off) m1)"
  define b1 where "b1 = b\<lparr>b_offset := off, b_mem := poke m1 (unat off + unat len) [fcs], b_len := len + 1\<rparr>"
  have lm: "length m1 = length (b_mem b)" using room o by (simp add: m1_def length_poke)
  have d1: "drop (unat off) m1 = hdr @ drop ?O (b_mem b)" using room o by (simp add: m1_def drop_poke)
  have fcs: "fcs = rfc_calc_fcs 2 hdr" using h5 by (simp add: fcs_def d1 rfc_calc_fcs_append)
  have t: "take (unat len) (drop (unat off) m1) = hdr @ b_packet b"
    using l by (simp add: d1 b_packet_def b_ptr_def)
  have end_: "unat off + unat len < length m1" using room o l lm by simp
  have "drop (unat off) (poke m1 (unat off + unat len) [fcs]) = take (unat len) (drop (unat off) m1) @ fcs # drop (Suc (unat off + unat len)) m1"
    using end_ by (simp add: poke_def take_drop add.commute)
  then have "b_packet b1 = take (unat len) (drop (unat off) m1) @ [fcs]"
    using end_ l1 l by (simp add: b1_def b_packet_def b_ptr_def)
  then show "b_packet b1 = hdr @ b_packet b @ [rfc_calc_fcs 2 hdr]" by (simp add: t fcs)
  show "unat (b_offset b1) + unat (b_len b1) \<le> length (b_mem b1)" "length (b_mem b1) < 65536"
    using end_ l l1 lm room(3) by (simp_all add: b1_def length_poke)
  show "rfc_send_buf_uih dlci b s = (if dlci = RFCOMM_MX_DLCI then rfc_check_send_cmd (Some b1) s else rfc_data_write b1 s)"
    by (simp only: rfc_send_buf_uih_def Let_def hdr [symmetric] ol [symmetric] m1_def [symmetric]
        fcs_def [symmetric] b1_def [symmetric])
qed

section \<open>Frames from one side to the other\<close>

definition rfc_delivers :: "rfc_mcb \<Rightarrow> bytes \<Rightarrow> rfc_event \<Rightarrow> u8 \<Rightarrow> bool \<Rightarrow> u8 \<Rightarrow> bytes \<Rightarrow> bool" where
  "rfc_delivers r pkt ev dlci pf credit payload \<longleftrightarrow>
     (\<forall>b f. b_packet b = pkt \<and> unat (b_offset b) + unat (b_len b) \<le> length (b_mem b) \<and> length (b_mem b) < 65536 \<longrightarrow>
        (\<exists>f' b'. rfc_parse_data r f b = (ev, f', b') \<and> f_dlci f' = dlci \<and> f_pf f' = pf \<and> f_credit f' = credit \<and>
           b_packet b' = payload \<and> unat (b_len b') = length payload \<and> b_mem b' = b_mem b))"

lemma rfc_frame_delivers:
  assumes "rfc_frame r pkt addr ctl credit payload"
  shows "rfc_delivers r pkt (rfc_frame_event r addr ctl (length payload)) (drop_bit 2 addr) (bit ctl 4) credit payload"
  unfolding rfc_delivers_def
proof (intro allI impI, elim conjE)
  fix b f
  assume b: "b_packet b = pkt" and mem: "unat (b_offset b) + unat (b_len b) \<le> length (b_mem b)" and lt: "length (b_mem b) < 65536"
  obtain pre fcs where pkt: "pkt = pre @ payload @ [fcs]"
  proof -
    from assms obtain lb where "pkt = ([addr, ctl] @ lb @ (if rfc_has_credit r addr ctl then [credit] else [])) @
        payload @ [rfc_calc_fcs (rfc_fcs_span ctl) ([addr, ctl] @ lb)]"
      unfolding rfc_frame_def by auto
    then show ?thesis by (rule that)
  qed
  have L: "length pkt = unat (b_len b)" by (rule b_ptr_packet [OF mem]) (simp add: b)
  let ?b = "b\<lparr>b_len := of_nat (length payload), b_offset := b_offset b + of_nat (length pre)\<rparr>"
  have o: "unat (b_offset ?b) = unat (b_offset b) + length pre"
  proof -
    have "b_offset ?b = of_nat (unat (b_offset b) + length pre)" by simp
    then show ?thesis using L mem lt pkt by (simp add: unat_of_nat del: of_nat_add)
  qed
  moreover have n: "unat (b_len ?b) = length payload" using L mem lt pkt by (simp add: unat_of_nat)
  moreover have "take (length pkt) (drop (unat (b_offset b)) (b_mem b)) = pre @ payload @ [fcs]"
    using b L pkt by (simp add: b_packet_def b_ptr_def)
  then have "drop (length pre) (take (length pkt) (drop (unat (b_offset b)) (b_mem b))) = payload @ [fcs]" by simp
  then have "take (length pkt - length pre) (drop (unat (b_offset b) + length pre) (b_mem b)) = payload @ [fcs]"
    by (simp add: drop_take add.commute)
  then have tk: "take (Suc (length payload)) (drop (unat (b_offset b) + length pre) (b_mem b)) = payload @ [fcs]"
    by (simp add: pkt)
  have "take (length payload) (take (Suc (length payload)) (drop (unat (b_offset b) + length pre) (b_mem b))) = payload"
    unfolding tk by simp
  then have "take (length payload) (drop (unat (b_offset b) + length pre) (b_mem b)) = payload" by (simp add: min_def)
  ultimately have "b_packet ?b = payload" unfolding b_packet_def b_ptr_def by simp
  moreover have "length (b_packet b) - length payload - 1 = length pre" by (simp add: b pkt)
  ultimately show "\<exists>f' b'. rfc_parse_data r f b = (rfc_frame_event r addr ctl (length payload), f', b') \<and>
      f_dlci f' = drop_bit 2 addr \<and> f_pf f' = bit ctl 4 \<and> f_credit f' = credit \<and> b_packet b' = payload \<and> unat (b_len b') = length payload \<and> b_mem b' = b_mem b"
    using rfc_parse_complete [OF mem, of r addr ctl credit payload f] assms b n by (simp add: rfc_parsed_def)
qed

lemma dlci_bits: "RFCOMM_VALID_DLCI d \<Longrightarrow> bit d i \<Longrightarrow> i < 6"
proof -
  assume "RFCOMM_VALID_DLCI d" and b: "bit d i"
  then have "unat d < 2 ^ 6" by (auto simp: RFCOMM_VALID_DLCI_def RFCOMM_MAX_DLCI_def word_le_nat_alt)
  then have "unat (take_bit 6 d) = unat d" by (simp only: unsigned_take_bit_eq take_bit_nat_eq_self)
  then have "take_bit 6 d = d" by (simp only: word_unat_eq_iff)
  with b have "bit (take_bit 6 d) i" by simp
  then show "i < 6" by (simp add: bit_simps)
qed

lemma rfc_addr_fields:
  assumes "RFCOMM_VALID_DLCI d" "cr = 0 \<or> cr = 2"
  shows "drop_bit 2 (rfc_addr cr d) = d" "bit (rfc_addr cr d) 0" "bit (rfc_addr cr d) 1 \<longleftrightarrow> cr = 2"
proof -
  show "drop_bit 2 (rfc_addr cr d) = d"
    using assms(2) dlci_bits [OF assms(1)]
    by (intro bit_word_eqI) (auto simp: rfc_addr_def RFCOMM_EA_def bit_simps bit_numeral_rec)
  show "bit (rfc_addr cr d) 0" "bit (rfc_addr cr d) 1 \<longleftrightarrow> cr = 2"
    using assms(2) by (auto simp: rfc_addr_def RFCOMM_EA_def bit_simps bit_numeral_rec)
qed

lemma rfc_ctrl_delivers:
  assumes "RFCOMM_VALID_DLCI d" "cr = 0 \<or> cr = 2" and ctl: "ctl AND NOT 0x10 \<noteq> RFCOMM_UIH"
    and a: "a = rfc_addr cr d"
  shows "rfc_delivers r [a, ctl, 1, rfc_calc_fcs 3 [a, ctl, 1]] (rfc_frame_event r a ctl 0) d (bit ctl 4) 0 []"
proof -
  have "rfc_len_field [1] 0" by (simp add: rfc_len_field_def)
  then have "rfc_frame r [a, ctl, 1, rfc_calc_fcs 3 [a, ctl, 1]] a ctl 0 []"
    using ctl rfc_addr_fields(2) [OF assms(1,2)]
    by (auto simp: rfc_frame_def rfc_has_credit_def rfc_fcs_span_def a)
  from rfc_frame_delivers [OF this] show ?thesis
    using rfc_addr_fields(1) [OF assms(1,2)] by (simp add: a)
qed

lemma rfc_len_field_hdr:
  assumes "unat n \<le> 32767"
  shows "rfc_len_field (if n \<le> 127 then [RFCOMM_EA OR ucast (push_bit 1 n)]
    else [ucast (push_bit 1 (n AND 0x7f)), ucast (drop_bit 7 (n :: u16))]) (unat n)"
proof (cases "n \<le> 127")
  case True
  then have lt: "unat n < 2 ^ 7" by (simp add: word_le_nat_alt)
  then have "unat (take_bit 7 n) = unat n" by (simp only: unsigned_take_bit_eq take_bit_nat_eq_self)
  then have t: "take_bit 7 n = n" by (simp only: word_unat_eq_iff)
  have "drop_bit 1 (RFCOMM_EA OR ucast (push_bit 1 n)) = (ucast (take_bit 7 n) :: u8)"
    by (rule bit_word_eqI) (auto simp: RFCOMM_EA_def bit_simps bit_numeral_rec mult.commute [of n] bit_double_iff)
  moreover have "unat (ucast n :: u8) = unat n" using lt by (simp add: unsigned_ucast_eq take_bit_nat_eq_self)
  moreover have "bit (RFCOMM_EA OR ucast (push_bit 1 n)) 0" by (simp add: RFCOMM_EA_def bit_simps)
  ultimately show ?thesis using True by (auto simp: rfc_len_field_def t)
next
  case False
  let ?x = "ucast (push_bit 1 (n AND 0x7f)) :: u8" and ?y = "ucast (drop_bit 7 n) :: u8"
  have m: "n AND 0x7f = take_bit 7 n" by (simp add: take_bit_eq_mask mask_eq_exp_minus_1)
  have "drop_bit 1 ?x = ucast (take_bit 7 n)" unfolding m
    by (rule bit_word_eqI) (auto simp: bit_simps mult.commute [of "take_bit 7 n"] bit_double_iff)
  moreover have "unat (ucast (take_bit 7 n) :: u8) = unat n mod 128"
    unfolding unsigned_ucast_eq unsigned_take_bit_eq by (simp add: take_bit_eq_mod mod_mod_cancel)
  moreover have "unat ?y = unat n div 128"
    unfolding unsigned_ucast_eq unsigned_drop_bit_eq using assms
    by (simp add: take_bit_eq_mod drop_bit_eq_div)
  moreover have "\<not> bit ?x 0" by (simp add: bit_simps)
  ultimately show ?thesis using False by (auto simp: rfc_len_field_def)
qed

lemma rfc_uih_delivers:
  assumes d: "RFCOMM_VALID_DLCI d" and cr: "cr = 0 \<or> cr = 2" and n: "unat n \<le> 32767" "length payload = unat n"
    and c: "c \<noteq> 0 \<Longrightarrow> d \<noteq> 0 \<and> m_flow r = PORT_FC_CREDIT" and hdr: "hdr = rfc_uih_hdr cr d c n"
  shows "rfc_delivers r (hdr @ payload @ [rfc_calc_fcs 2 hdr]) RFC_EVENT_UIH d (c \<noteq> 0) c payload"
proof -
  let ?a = "rfc_addr cr d"
  define ctl where "ctl = RFCOMM_UIH OR (if c \<noteq> 0 then RFCOMM_PF else 0)"
  define lb where "lb = (if n \<le> 127 then [RFCOMM_EA OR ucast (push_bit 1 n)]
    else [ucast (push_bit 1 (n AND 0x7f)), ucast (drop_bit 7 n)])"
  have lb: "rfc_len_field lb (length payload)" using rfc_len_field_hdr [OF n(1)] by (simp add: lb_def n(2))
  have ctl: "ctl AND NOT 0x10 = RFCOMM_UIH" "bit ctl 4 \<longleftrightarrow> c \<noteq> 0"
    by (simp_all add: ctl_def RFCOMM_UIH_def RFCOMM_PF_def bit_numeral_rec)
  have hc: "rfc_has_credit r ?a ctl \<longleftrightarrow> c \<noteq> 0"
    using c rfc_addr_fields(1) [OF d cr] ctl by (auto simp: rfc_has_credit_def)
  have hdr': "hdr = [?a, ctl] @ lb @ (if rfc_has_credit r ?a ctl then [c] else [])"
    by (simp only: hc) (simp only: hdr rfc_uih_hdr_def lb_def ctl_def)
  have "lb \<noteq> []" by (simp add: lb_def)
  then have fcs: "rfc_calc_fcs 2 hdr = rfc_calc_fcs 2 ([?a, ctl] @ lb)"
    using rfc_calc_fcs_append [of 2 "[?a, ctl]" "lb @ (if rfc_has_credit r ?a ctl then [c] else [])"]
      rfc_calc_fcs_append [of 2 "[?a, ctl]" lb] by (simp add: hdr')
  have "rfc_frame r (hdr @ payload @ [rfc_calc_fcs 2 hdr]) ?a ctl c payload"
    unfolding rfc_frame_def fcs
    using lb rfc_addr_fields(2) [OF d cr] hc by (intro exI [of _ lb]) (auto simp: hdr' rfc_fcs_span_def ctl [simplified])
  from rfc_frame_delivers [OF this] show ?thesis
    using rfc_addr_fields(1) [OF d cr] d by (simp add: ctl [simplified] rfc_frame_event_def Let_def rfc_frame_types)
qed

text \<open>A frame that carries credits and no data.\<close>

lemma rfc_credit_delivers:
  assumes d: "RFCOMM_VALID_DLCI d" "d \<noteq> 0" and cr: "cr = 0 \<or> cr = 2" and flow: "m_flow r = PORT_FC_CREDIT"
    and a: "a = rfc_addr cr d"
  shows "rfc_delivers r [a, RFCOMM_UIH OR RFCOMM_PF, 1, k, rfc_calc_fcs 2 [a, RFCOMM_UIH OR RFCOMM_PF, 1]] RFC_EVENT_UIH d True k []"
proof -
  let ?ctl = "RFCOMM_UIH OR RFCOMM_PF"
  have ctl: "?ctl AND NOT 0x10 = RFCOMM_UIH" "bit ?ctl 4"
    by (simp_all add: RFCOMM_UIH_def RFCOMM_PF_def bit_numeral_rec)
  have hc: "rfc_has_credit r a ?ctl" using d flow rfc_addr_fields(1) [OF d(1) cr] ctl by (simp add: rfc_has_credit_def a)
  have lb: "rfc_len_field [1] (length ([] :: bytes))" by (simp add: rfc_len_field_def)
  have span: "rfc_fcs_span ?ctl = 2" by (simp only: rfc_fcs_span_def ctl simp_thms if_True)
  have "rfc_frame r [a, ?ctl, 1, k, rfc_calc_fcs 2 [a, ?ctl, 1]] a ?ctl k []"
    unfolding rfc_frame_def span using lb rfc_addr_fields(2) [OF d(1) cr] hc a by (intro exI [of _ "[1]"]) auto
  from rfc_frame_delivers [OF this] show ?thesis
    using rfc_addr_fields(1) [OF d(1) cr] d(1) ctl
    by (simp only: a rfc_frame_event_def Let_def) (simp add: rfc_frame_types)
qed

text \<open>C35: A frame that one side builds is the frame that the other side parses.  With the command queue empty
  and a buffer at hand, SABME, UA, DM and DISC for any valid channel and either role are written to
  L2CAP as one packet, which the peer (the side with the other role) accepts as that frame, for that
  channel and with that poll bit; a data frame of up to 32767 bytes is delivered with exactly its bytes
  and, when credit based flow control is used, its credits; and with credit based flow control a frame of
  \<^verbatim>\<open>rfc_send_credit\<close> for any channel but the multiplexer's is delivered with no bytes and exactly its credits.\<close>

theorem rfc_frames_roundtrip:
  assumes s: "rfc_ready s" and d: "RFCOMM_VALID_DLCI d" and peer: "m_is_initiator r \<noteq> m_is_initiator (r_mcb s)"
    and b: "5 \<le> unat (b_offset b)" "unat (b_offset b) + unat (b_len b) < length (b_mem b)" "length (b_mem b) < 65536"
    and n: "unat (b_len b) \<le> 32767" and c: "c = (if d \<noteq> 0 then ucast (b_layer_specific b) else 0)"
    and flow: "c \<noteq> 0 \<longrightarrow> m_flow r = PORT_FC_CREDIT"
  shows "(\<exists>pkt. rfc_sent s (rfc_send_sabme d s) pkt \<and> rfc_delivers r pkt RFC_EVENT_SABME d True 0 []) \<and>
    (\<exists>pkt. rfc_sent s (rfc_send_ua d s) pkt \<and> rfc_delivers r pkt RFC_EVENT_UA d True 0 []) \<and>
    (\<exists>pkt. rfc_sent s (rfc_send_dm d pf s) pkt \<and> rfc_delivers r pkt RFC_EVENT_DM d pf 0 []) \<and>
    (\<exists>pkt. rfc_sent s (rfc_send_disc d s) pkt \<and> rfc_delivers r pkt RFC_EVENT_DISC d True 0 []) \<and>
    (\<exists>pkt. rfc_sent s (rfc_send_buf_uih d b s) pkt \<and> rfc_delivers r pkt RFC_EVENT_UIH d (c \<noteq> 0) c (b_packet b)) \<and>
    (d \<noteq> 0 \<and> m_flow r = PORT_FC_CREDIT \<longrightarrow>
      (\<exists>pkt. rfc_sent s (rfc_send_credit d k s) pkt \<and> rfc_delivers r pkt RFC_EVENT_UIH d True k []))"
proof -
  let ?i = "m_is_initiator (r_mcb s)"
  have cr: "RFCOMM_CR ?i x = 0 \<or> RFCOMM_CR ?i x = 2" for x by (simp add: RFCOMM_CR_def)
  have ctrl: "\<exists>pkt. rfc_sent s (rfc_send_ctrl (rfc_addr (RFCOMM_CR ?i x) d) ctl s) pkt \<and> rfc_delivers r pkt ev d p 0 []"
    if "ctl AND NOT 0x10 \<noteq> RFCOMM_UIH" "ev = rfc_frame_event r (rfc_addr (RFCOMM_CR ?i x) d) ctl 0" "p = bit ctl 4" for x ctl ev p
    using rfc_ctrl_sent [OF s] rfc_ctrl_delivers [OF d cr that(1) refl] that(2,3) by blast
  have b1: "bit (rfc_addr (RFCOMM_CR ?i x) d) 1 \<longleftrightarrow> x = ?i" for x
    using rfc_addr_fields(3) [OF d cr] by (auto simp: RFCOMM_CR_def)
  note ev = rfc_frame_event_def Let_def rfc_addr_fields(1) [OF d cr] b1 [unfolded One_nat_def] d rfc_frame_types RFCOMM_PF_def bit_numeral_rec
  have "\<exists>pkt. rfc_sent s (rfc_send_sabme d s) pkt \<and> rfc_delivers r pkt RFC_EVENT_SABME d True 0 []"
    unfolding rfc_send_sabme_def by (rule ctrl) (use peer in \<open>simp_all add: ev\<close>)
  moreover have "\<exists>pkt. rfc_sent s (rfc_send_ua d s) pkt \<and> rfc_delivers r pkt RFC_EVENT_UA d True 0 []"
    unfolding rfc_send_ua_def by (rule ctrl) (use peer in \<open>simp_all add: ev\<close>)
  moreover have "\<exists>pkt. rfc_sent s (rfc_send_dm d pf s) pkt \<and> rfc_delivers r pkt RFC_EVENT_DM d pf 0 []"
    unfolding rfc_send_dm_def by (rule ctrl) (use peer in \<open>simp_all add: ev\<close>)
  moreover have "\<exists>pkt. rfc_sent s (rfc_send_disc d s) pkt \<and> rfc_delivers r pkt RFC_EVENT_DISC d True 0 []"
    unfolding rfc_send_disc_def by (rule ctrl) (use peer in \<open>simp_all add: ev\<close>)
  moreover have "\<exists>pkt. rfc_sent s (rfc_send_buf_uih d b s) pkt \<and> rfc_delivers r pkt RFC_EVENT_UIH d (c \<noteq> 0) c (b_packet b)"
  proof -
    define hdr where "hdr = rfc_uih_hdr (RFCOMM_CR ?i True) d c (b_len b)"
    have "length hdr \<le> 5" unfolding hdr_def by (rule length_uih_hdr(2))
    then have len: "length hdr \<le> unat (b_offset b)" using b(1) by linarith
    obtain b1 where b1: "b_packet b1 = hdr @ b_packet b @ [rfc_calc_fcs 2 hdr]"
      "unat (b_offset b1) + unat (b_len b1) \<le> length (b_mem b1)" "length (b_mem b1) < 65536"
      "rfc_send_buf_uih d b s = (if d = RFCOMM_MX_DLCI then rfc_check_send_cmd (Some b1) s else rfc_data_write b1 s)"
      by (rule rfc_uih_out [OF hdr_def [unfolded c] len b(2,3)])
    then have "rfc_sent s (rfc_send_buf_uih d b s) (b_packet b1)"
      using s rfc_send_now [of s b1]
      by (auto simp: rfc_sent_def rfc_ready_def rfc_data_write_def rfc_emit_def Let_def)
    moreover have "length (b_packet b) = unat (b_len b)" using b by (simp add: b_packet_def b_ptr_def)
    then have "rfc_delivers r (b_packet b1) RFC_EVENT_UIH d (c \<noteq> 0) c (b_packet b)"
      unfolding b1(1) using c flow by (intro rfc_uih_delivers [OF d cr n _ _ hdr_def]) (auto split: if_splits)
    ultimately show ?thesis by blast
  qed
  moreover have "\<exists>pkt. rfc_sent s (rfc_send_credit d k s) pkt \<and> rfc_delivers r pkt RFC_EVENT_UIH d True k []"
    if "d \<noteq> 0 \<and> m_flow r = PORT_FC_CREDIT"
    using rfc_credit_sent [OF s refl, of d k] rfc_credit_delivers [OF d _ cr _ refl, of r True k] that by blast
  ultimately show ?thesis by blast
qed

definition rfc_sample_mcb :: "bool \<Rightarrow> rfc_mcb" where
  "rfc_sample_mcb i = \<lparr>m_tle = None, m_cmd_q = [], m_port_inx = (\<lambda>_. 0), m_bd_addr = [1, 2, 3, 4, 5, 6], m_lcid = 0x41,
     m_peer_l2cap_mtu = 672, m_state = RFC_MX_STATE_CONNECTED, m_is_initiator = i, m_local_cfg_sent = True,
     m_peer_cfg_rcvd = True, m_restart_required = False, m_peer_ready = True, m_flow = PORT_FC_CREDIT,
     m_l2cap_congested = False, m_is_disc_initiator = False, m_pending_lcid = 0, m_pending_id = 0\<rparr>"

definition rfc_sample_frame :: mx_frame where
  "rfc_sample_frame = \<lparr>f_dlci = 0, f_type = 0, f_cr = False, f_ea = False, f_pf = False, f_credit = 0, f_u = U_NONE\<rparr>"

definition rfc_sample_buf :: "u16 \<Rightarrow> u16 \<Rightarrow> bytes \<Rightarrow> bt_buf" where
  "rfc_sample_buf ls n mem = \<lparr>b_event = 0, b_len = n, b_offset = 13, b_layer_specific = ls, b_mem = mem\<rparr>"

definition rfc_sample_st :: rfc_st where
  "rfc_sample_st = \<lparr>r_mcb = rfc_sample_mcb True, r_rx_frame = rfc_sample_frame, r_peer_rx_disabled = False,
     r_bufs = [rfc_sample_buf 0 0 (replicate 40 0xAA)], r_congs = [], r_outs = []\<rparr>"

definition rfc_sabme_buf :: bt_buf where
  "rfc_sabme_buf = rfc_sample_buf 0 4 (replicate 13 0xAA @ [0x03, 0x3F, 0x01, 0x1C])"

theorem rfc_parse_exact_witness:
  "\<exists>addr ctl credit payload. rfc_frame (rfc_sample_mcb False) [0x03, 0x3F, 0x01, 0x1C] addr ctl credit payload \<and>
     RFC_EVENT_SABME = rfc_frame_event (rfc_sample_mcb False) addr ctl (length payload)"
proof -
  let ?r = "rfc_parse_data (rfc_sample_mcb False) rfc_sample_frame rfc_sabme_buf"
  have mem: "unat (b_offset rfc_sabme_buf) + unat (b_len rfc_sabme_buf) \<le> length (b_mem rfc_sabme_buf)"
    and pkt: "b_packet rfc_sabme_buf = [0x03, 0x3F, 0x01, 0x1C]" and "fst ?r = RFC_EVENT_SABME"
    by code_simp+
  then obtain f' b' where "?r = (RFC_EVENT_SABME, f', b')" by (cases ?r) auto
  then show ?thesis
    using rfc_parse_exact [OF mem, of "rfc_sample_mcb False" rfc_sample_frame RFC_EVENT_SABME f' b'] pkt by auto
qed

theorem rfc_frames_roundtrip_witness:
  "(\<exists>pkt. rfc_sent rfc_sample_st (rfc_send_buf_uih 4 (rfc_sample_buf 7 3 (replicate 13 0xAA @ [1, 2, 3, 0xBB])) rfc_sample_st) pkt \<and>
     rfc_delivers (rfc_sample_mcb False) pkt RFC_EVENT_UIH 4 True 7 [1, 2, 3]) \<and>
   (\<exists>pkt. rfc_sent rfc_sample_st (rfc_send_credit 4 9 rfc_sample_st) pkt \<and>
     rfc_delivers (rfc_sample_mcb False) pkt RFC_EVENT_UIH 4 True 9 [])"
proof -
  let ?b = "rfc_sample_buf 7 3 (replicate 13 0xAA @ [1, 2, 3, 0xBB])"
  have 1: "rfc_ready rfc_sample_st" by (simp add: rfc_ready_def rfc_sample_st_def rfc_sample_mcb_def rfc_sample_buf_def)
  have 2: "RFCOMM_VALID_DLCI 4" by code_simp
  have 3: "m_is_initiator (rfc_sample_mcb False) \<noteq> m_is_initiator (r_mcb rfc_sample_st)"
    by (simp add: rfc_sample_mcb_def rfc_sample_st_def)
  have 4: "5 \<le> unat (b_offset ?b)" "unat (b_offset ?b) + unat (b_len ?b) < length (b_mem ?b)"
    "length (b_mem ?b) < 65536" "unat (b_len ?b) \<le> 32767"
    by (simp_all add: rfc_sample_buf_def)
  have 5: "(7 :: u8) = (if (4 :: u8) \<noteq> 0 then ucast (b_layer_specific ?b) else 0)" by (simp add: rfc_sample_buf_def)
  have 6: "(7 :: u8) \<noteq> 0 \<longrightarrow> m_flow (rfc_sample_mcb False) = PORT_FC_CREDIT" by (simp add: rfc_sample_mcb_def)
  have 7: "b_packet ?b = [1, 2, 3]" by (simp add: b_packet_def b_ptr_def rfc_sample_buf_def)
  show ?thesis using rfc_frames_roundtrip [OF 1 2 3 4 5 6, where k = 9]
    by (simp only: 7) (simp add: rfc_sample_mcb_def [of False])
qed

end
