(* ===== verification/Rfc_Mx.thy ===== *)
theory Rfc_Mx
  imports Rfc_Wire
begin

text \<open>
  The messages of the multiplexer channel from the function that builds them, through the frame on
  the wire, to the call that processes them on the other side, and the order in which commands reach
  L2CAP.
\<close>

section \<open>A message in its frame\<close>

lemma rfc_mx_sent:
  assumes s: "rfc_ready s" and peer: "m_is_initiator r \<noteq> m_is_initiator (r_mcb s)" and n: "length msg \<le> 12"
  obtains pkt where "rfc_sent s (rfc_send_mx msg s) pkt" "rfc_delivers r pkt RFC_EVENT_UIH 0 False 0 msg"
proof -
  obtain b bs where b: "r_bufs s = b # bs" "32 \<le> length (b_mem b)" "length (b_mem b) < 65536"
    using s by (auto simp: rfc_ready_def)
  define s1 where "s1 = s\<lparr>r_bufs := bs\<rparr>"
  define b0 where "b0 = b\<lparr>b_offset := 16, b_mem := poke (b_mem b) (unat (16 :: u16)) msg, b_len := of_nat (length msg)\<rparr>"
  have len: "unat (b_len b0) = length msg" using n by (simp add: b0_def unat_of_nat)
  have pkt0: "b_packet b0 = msg" unfolding b0_def using b(2) n by (intro b_packet_poke) (simp_all add: unat_of_nat)
  have run: "rfc_send_mx msg s = rfc_send_buf_uih 0 b0 s1"
    using b(1) by (simp add: rfc_send_mx_def rfc_getbuf_def L2CAP_MIN_OFFSET_def RFCOMM_CTRL_FRAME_LEN_def
        RFCOMM_MX_DLCI_def b0_def s1_def)
  let ?cr = "RFCOMM_CR (m_is_initiator (r_mcb s1)) True"
  define hdr where "hdr = rfc_uih_hdr ?cr 0 0 (b_len b0)"
  have "length hdr \<le> 5" unfolding hdr_def by (rule length_uih_hdr(2))
  moreover have lm: "length (b_mem b0) = length (b_mem b)" using b(2) n by (simp add: b0_def length_poke)
  ultimately have room: "length hdr \<le> unat (b_offset b0)" "unat (b_offset b0) + unat (b_len b0) < length (b_mem b0)"
      "length (b_mem b0) < 65536"
    using b(2,3) n by (simp_all add: len lm) (simp add: b0_def)+
  have "hdr = rfc_uih_hdr ?cr 0 (if (0 :: u8) \<noteq> 0 then ucast (b_layer_specific b0) else 0) (b_len b0)"
    by (simp add: hdr_def)
  from rfc_uih_out [OF this room] obtain b1 where b1: "b_packet b1 = hdr @ msg @ [rfc_calc_fcs 2 hdr]"
    "rfc_send_buf_uih 0 b0 s1 = rfc_check_send_cmd (Some b1) s1"
    by (auto simp: pkt0 RFCOMM_MX_DLCI_def)
  have "rfc_sent s (rfc_send_mx msg s) (b_packet b1)"
  proof -
    have "r_outs s1 = r_outs s" "r_mcb s1 = r_mcb s" by (simp_all add: s1_def)
    moreover have "r_outs (rfc_check_send_cmd (Some b1) s1) = r_outs s1 @ [L2CA_DataWrite (m_lcid (r_mcb s1)) b1]"
      using s by (intro rfc_send_now) (auto simp: rfc_ready_def s1_def)
    ultimately show ?thesis by (auto simp: rfc_sent_def run b1(2))
  qed
  moreover have "rfc_delivers r (b_packet b1) RFC_EVENT_UIH 0 (0 \<noteq> (0 :: u8)) 0 msg"
    unfolding b1(1)
    by (rule rfc_uih_delivers [OF _ _ _ _ _ hdr_def]) (use n len in \<open>auto simp: RFCOMM_VALID_DLCI_def RFCOMM_CR_def\<close>)
  ultimately show thesis using that by simp
qed

section \<open>A message at its destination\<close>

definition rfc_mx_dispatch :: "u8 \<Rightarrow> bool \<Rightarrow> bytes \<Rightarrow> u8 \<Rightarrow> mx_frame \<Rightarrow> bt_buf \<Rightarrow> rfc_st \<Rightarrow> rfc_st" where
  "rfc_mx_dispatch t is_command q n f b s =
     (if t = RFCOMM_MX_PN then mx_pn is_command q (ucast n) f b s
      else if t = RFCOMM_MX_TEST then mx_test is_command 2 (ucast n) f b s
      else if t = RFCOMM_MX_FCON then
        (if n \<noteq> 0 then mx_unsupported is_command b (s\<lparr>r_rx_frame := f\<rparr>)
         else mx_process (\<lambda>_. Rfc_process_fcon is_command) f b s)
      else if t = RFCOMM_MX_FCOFF then
        (if n \<noteq> 0 then mx_unsupported is_command b (s\<lparr>r_rx_frame := f\<rparr>)
         else mx_process (\<lambda>_. Rfc_process_fcoff is_command) f b s)
      else if t = RFCOMM_MX_MSC then mx_msc is_command q n f b s
      else if t = RFCOMM_MX_NSC then mx_nsc is_command q (ucast n) f b s
      else if t = RFCOMM_MX_RPN then mx_rpn is_command q (ucast n) f b s
      else if t = RFCOMM_MX_RLS then mx_rls is_command q (ucast n) f b s
      else mx_unsupported is_command b (s\<lparr>r_rx_frame := f\<rparr>))"

lemma rfc_mx_hdr_fields:
  assumes "t AND 3 = 0"
  shows "rd (rfc_mx_hdr t c n @ q) 0 AND NOT 3 = t" "bit (rd (rfc_mx_hdr t c n @ q) 0) 0"
    "bit (rd (rfc_mx_hdr t c n @ q) 0) 1 = c"
proof -
  have z: "\<not> bit t 0" "\<not> bit t 1"
    using assms bit_and_iff [of t 3 0] bit_and_iff [of t 3 1] by (simp_all add: bit_numeral_rec)
  show "rd (rfc_mx_hdr t c n @ q) 0 AND NOT 3 = t"
  proof (rule bit_word_eqI)
    fix i :: nat
    assume "i < LENGTH(8)"
    show "bit (rd (rfc_mx_hdr t c n @ q) 0 AND NOT 3) i = bit t i"
      using z by (cases i; cases "i - 1")
        (auto simp: rfc_mx_hdr_def RFCOMM_EA_def RFCOMM_I_CR_def bit_simps bit_numeral_rec dest: bit_imp_le_length)
  qed
  show "bit (rd (rfc_mx_hdr t c n @ q) 0) 0" by (simp add: rfc_mx_hdr_def RFCOMM_EA_def bit_simps)
  show "bit (rd (rfc_mx_hdr t c n @ q) 0) 1 = c"
    using z by (simp add: rfc_mx_hdr_def RFCOMM_EA_def RFCOMM_I_CR_def bit_simps bit_numeral_rec)
qed

lemma rfc_mx_len:
  assumes "n < 128"
  shows "drop_bit 1 (RFCOMM_EA OR push_bit 1 n) = (n :: u8)" "bit (RFCOMM_EA OR push_bit 1 n) 0"
proof -
  have "unat n < 2 ^ 7" using assms by (simp add: word_less_nat_alt)
  then have "unat (take_bit 7 n) = unat n" by (simp only: unsigned_take_bit_eq take_bit_nat_eq_self)
  then have t: "take_bit 7 n = n" by (simp only: word_unat_eq_iff)
  have "drop_bit 1 (RFCOMM_EA OR push_bit 1 n) = take_bit 7 n"
    by (rule bit_word_eqI) (auto simp: RFCOMM_EA_def bit_simps mult.commute [of n] bit_double_iff)
  then show "drop_bit 1 (RFCOMM_EA OR push_bit 1 n) = n" by (simp add: t)
  show "bit (RFCOMM_EA OR push_bit 1 n) 0" by (simp add: RFCOMM_EA_def bit_simps)
qed

lemma unat_ucast_u16: "unat (ucast (n :: u8) :: u16) = unat n"
proof -
  have "unat n < 256" using unsigned_less [of n] by simp
  then have "unat n < 2 ^ 16" by simp
  then show ?thesis by (simp only: unsigned_ucast_eq) (simp add: take_bit_nat_eq_self)
qed

lemma ucast_u16_0: "(ucast (n :: u8) :: u16) = 0 \<longleftrightarrow> n = 0"
  using unat_ucast_u16 [of n] by (metis unat_eq_0)

lemma rfc_process_mx_eval:
  assumes pkt: "b_packet b = rfc_mx_hdr t c n @ body" and mem: "unat (b_offset b) + unat (b_len b) \<le> length (b_mem b)"
    and n: "n < 128" "length body = unat n" and t: "t AND 3 = 0"
  obtains rest where "rfc_process_mx_message b s =
    rfc_mx_dispatch t c (body @ rest) n ((r_rx_frame s)\<lparr>f_ea := True, f_cr := c, f_type := t\<rparr>) b s"
proof -
  obtain rest where "b_ptr b = b_packet b @ rest" and L: "length (b_packet b) = unat (b_len b)"
    by (rule b_ptr_packet [OF mem])
  then have p: "b_ptr b = rfc_mx_hdr t c n @ body @ rest" by (simp add: pkt)
  have "of_nat (unat (b_len b)) = (of_nat (unat n + 2) :: u16)" using L n(2) by (simp add: pkt rfc_mx_hdr_def)
  then have len: "b_len b - 2 = ucast n" "b_len b \<noteq> 0"
    using L by (simp_all add: pkt rfc_mx_hdr_def unat_eq_0 [symmetric])
  let ?h = "rfc_mx_hdr t c n @ body @ rest"
  have r: "rd ?h 1 = RFCOMM_EA OR push_bit 1 n" "drop 2 ?h = body @ rest" by (simp_all add: rfc_mx_hdr_def)
  have "rfc_process_mx_message b s =
    rfc_mx_dispatch t c (body @ rest) n ((r_rx_frame s)\<lparr>f_ea := True, f_cr := c, f_type := t\<rparr>) b s"
    by (simp only: rfc_process_mx_message_def Let_def p rfc_mx_hdr_fields [OF t] r rfc_mx_len [OF n(1)]
        mx_frame.simps if_True if_False len simp_thms add_0_right ucast_u16_0 rfc_mx_dispatch_def)
      (simp split del: if_split cong: if_cong)
  then show thesis by (rule that)
qed

section \<open>From one side to the other\<close>

text \<open>
  \<open>s'\<close> is the state of the sender after building the message; the peer, in state \<open>r\<close>, parses the
  frame and hands the payload to \<^verbatim>\<open>rfc_process_mx_message\<close>, which frees the buffer and makes the call \<open>out\<close>.
\<close>

definition rfc_mx_delivers :: "rfc_st \<Rightarrow> rfc_st \<Rightarrow> rfc_st \<Rightarrow> (mx_frame \<Rightarrow> rfc_out) \<Rightarrow> u8 \<Rightarrow> mx_u \<Rightarrow> bool" where
  "rfc_mx_delivers s s' r out d u \<longleftrightarrow>
     (\<exists>pkt msg. rfc_sent s s' pkt \<and> rfc_delivers (r_mcb r) pkt RFC_EVENT_UIH 0 False 0 msg \<and>
        (\<forall>b. b_packet b = msg \<and> unat (b_offset b) + unat (b_len b) \<le> length (b_mem b) \<longrightarrow>
           (\<exists>f. r_outs (rfc_process_mx_message b r) = r_outs r @ [GKI_freebuf b, out f] \<and> f_dlci f = d \<and> f_u f = u)))"

lemma mx_process_outs: "r_outs (mx_process out f b s) = r_outs s @ [GKI_freebuf b, out f]"
  by (simp add: mx_process_def rfc_emit_def)

lemma rfc_mx_deliversI:
  assumes "rfc_ready s" "m_is_initiator (r_mcb r) \<noteq> m_is_initiator (r_mcb s)"
    and s': "s' = rfc_send_mx (rfc_mx_hdr t c n @ body) s" and n: "n < 128" "length body = unat n" "unat n \<le> 10" and t: "t AND 3 = 0"
    and out: "\<And>b rest. \<exists>f. rfc_mx_dispatch t c (body @ rest) n ((r_rx_frame r)\<lparr>f_ea := True, f_cr := c, f_type := t\<rparr>) b r =
      mx_process out f b r \<and> f_dlci f = d \<and> f_u f = u"
  shows "rfc_mx_delivers s s' r out d u"
proof -
  have "length (rfc_mx_hdr t c n @ body) \<le> 12" using n by (simp add: rfc_mx_hdr_def)
  then obtain pkt where "rfc_sent s s' pkt" "rfc_delivers (r_mcb r) pkt RFC_EVENT_UIH 0 False 0 (rfc_mx_hdr t c n @ body)"
    using rfc_mx_sent [OF assms(1,2)] unfolding s' by blast
  moreover have "\<exists>f. r_outs (rfc_process_mx_message b r) = r_outs r @ [GKI_freebuf b, out f] \<and> f_dlci f = d \<and> f_u f = u"
    if b: "b_packet b = rfc_mx_hdr t c n @ body" "unat (b_offset b) + unat (b_len b) \<le> length (b_mem b)" for b
  proof -
    obtain rest where "rfc_process_mx_message b r =
        rfc_mx_dispatch t c (body @ rest) n ((r_rx_frame r)\<lparr>f_ea := True, f_cr := c, f_type := t\<rparr>) b r"
      by (rule rfc_process_mx_eval [OF b n(1,2) t])
    with out [of rest b] show ?thesis by (auto simp: mx_process_outs)
  qed
  ultimately show ?thesis unfolding rfc_mx_delivers_def by blast
qed

lemma mx_addr_ok: "RFCOMM_VALID_DLCI d \<Longrightarrow> d \<noteq> 0 \<Longrightarrow> \<not> mx_bad_addr (rfc_addr 2 d)"
  using rfc_addr_fields [of d 2] by (simp add: mx_bad_addr_def)

text \<open>The parameters of a port negotiation fit their bit fields.\<close>

definition rpn_ok :: "port_state \<Rightarrow> bool" where
  "rpn_ok p \<longleftrightarrow> ps_byte_size p \<le> 3 \<and> ps_stop_bits p \<le> 1 \<and> ps_parity p \<le> 1 \<and> ps_parity_type p \<le> 3 \<and> ps_fc_type p \<le> 0x3F"

lemma rfc_small_bits: "unat (x :: u8) < 2 ^ k \<Longrightarrow> bit x i \<Longrightarrow> i < k"
proof -
  assume "unat x < 2 ^ k" and b: "bit x i"
  then have "unat (take_bit k x) = unat x" by (simp only: unsigned_take_bit_eq take_bit_nat_eq_self)
  then have "take_bit k x = x" by (simp only: word_unat_eq_iff)
  with b have "bit (take_bit k x) i" by simp
  then show "i < k" by (simp add: bit_simps)
qed

lemma u8_le3: "(x :: u8) \<le> 3 \<Longrightarrow> x = 0 \<or> x = 1 \<or> x = 2 \<or> x = 3"
proof -
  assume "x \<le> 3"
  then have "unat x \<le> 3" by (simp add: word_le_nat_alt)
  then have "unat x = 0 \<or> unat x = 1 \<or> unat x = 2 \<or> unat x = 3" by linarith
  then show ?thesis by (auto simp: word_unat_eq_iff)
qed

lemma u8_le1: "(x :: u8) \<le> 1 \<Longrightarrow> x = 0 \<or> x = 1"
proof -
  assume "x \<le> 1"
  then have "unat x \<le> 1" by (simp add: word_le_nat_alt)
  then have "unat x = 0 \<or> unat x = 1" by linarith
  then show ?thesis by (auto simp: word_unat_eq_iff)
qed

lemma rpn_fields:
  assumes "a \<le> 3" "b \<le> 1" "c \<le> 1" "d \<le> (3 :: u8)"
  shows "(a OR push_bit 2 b OR push_bit 3 c OR push_bit 4 d) AND 3 = a \<and>
    drop_bit 2 (a OR push_bit 2 b OR push_bit 3 c OR push_bit 4 d) AND 1 = b \<and>
    drop_bit 3 (a OR push_bit 2 b OR push_bit 3 c OR push_bit 4 d) AND 1 = c \<and>
    drop_bit 4 (a OR push_bit 2 b OR push_bit 3 c OR push_bit 4 d) AND 3 = d"
  using u8_le3 [OF assms(1)] u8_le1 [OF assms(2)] u8_le1 [OF assms(3)] u8_le3 [OF assms(4)]
  by (elim disjE) simp_all

lemma msc_break:
  assumes "x < (16 :: u8)"
  shows "drop_bit 4 ((RFCOMM_EA OR 0x02 OR push_bit 4 x) AND 0xF0) = x" "bit (RFCOMM_EA OR 0x02 OR push_bit 4 x) 1"
proof -
  have "list_all (\<lambda>x. drop_bit 4 ((RFCOMM_EA OR 0x02 OR push_bit 4 x) AND 0xF0) = x \<and>
      bit (RFCOMM_EA OR 0x02 OR push_bit 4 x) 1) (map of_nat [0..<16])" by code_simp
  moreover have "x \<in> set (map of_nat [0..<16])"
    using assms by (auto simp: word_less_nat_alt image_iff intro!: bexI [of _ "unat x"])
  ultimately show "drop_bit 4 ((RFCOMM_EA OR 0x02 OR push_bit 4 x) AND 0xF0) = x" "bit (RFCOMM_EA OR 0x02 OR push_bit 4 x) 1"
    unfolding list_all_iff by blast+
qed

lemma u16_bytes: "ucast (ucast (m AND 0xFF) :: u8) + push_bit 8 (ucast (ucast (drop_bit 8 m) :: u8)) = (m :: u16)"
proof -
  have "ucast (m AND 0xFF) = (ucast m :: u8)"
    by (rule bit_word_eqI) (auto simp: bit_simps bit_numeral_rec less_Suc_eq numeral_eq_Suc)
  moreover have "ucast (ucast m :: u8) + push_bit 8 (ucast (ucast (drop_bit 8 m) :: u8)) = m"
    by simp
  ultimately show ?thesis by simp
qed

lemma and_small: "x \<le> 0x3F \<Longrightarrow> x AND 0x3F = (x :: u8)"
proof -
  assume "x \<le> 0x3F"
  then have "unat x < 2 ^ 6" by (simp add: word_le_nat_alt)
  then have "unat (take_bit 6 x) = unat x" by (simp only: unsigned_take_bit_eq take_bit_nat_eq_self)
  then have "take_bit 6 x = x" by (simp only: word_unat_eq_iff)
  then show ?thesis by (simp add: take_bit_eq_mask mask_eq_exp_minus_1)
qed

lemma mx_processI [simp]:
  "f_dlci f = d \<Longrightarrow> f_u f = u \<Longrightarrow> \<exists>g. mx_process out f b r = mx_process out g b r \<and> f_dlci g = d \<and> f_u g = u"
  by blast

subsection \<open>The test message\<close>

text \<open>A buffer with room to move the data behind the headers of two frames.\<close>

definition rfc_test_room :: "bt_buf \<Rightarrow> bool" where
  "rfc_test_room b \<longleftrightarrow> unat (b_offset b) + unat (b_len b) < length (b_mem b) \<and> 20 + unat (b_len b) < length (b_mem b) \<and>
     length (b_mem b) < 65536"

lemma rfc_test_hdr:
  "[RFCOMM_EA OR RFCOMM_I_CR c OR RFCOMM_MX_TEST, RFCOMM_EA OR ucast (push_bit 1 n)] = rfc_mx_hdr RFCOMM_MX_TEST c (ucast (n :: u16))"
proof -
  have "ucast (push_bit 1 n) = (push_bit 1 (ucast n) :: u8)"
    by (rule bit_word_eqI) (simp only: bit_unsigned_iff bit_push_bit_iff possible_bit_word, auto)
  then show ?thesis by (simp add: rfc_mx_hdr_def)
qed

lemma unat_add2: "unat x + 2 < 65536 \<Longrightarrow> unat (x + 2) = unat (x :: u16) + 2"
  by (subst unat_add_lem [THEN iffD1]) simp_all

lemma b_packet_length: "unat (b_offset b) + unat (b_len b) \<le> length (b_mem b) \<Longrightarrow> length (b_packet b) = unat (b_len b)"
  by (simp add: b_packet_def b_ptr_def)

text \<open>The room for the headers in front of the data.\<close>

lemma rfc_test_move:
  assumes "rfc_test_room b"
  obtains b' where "b_packet b' = b_packet b" "b_len b' = b_len b" "20 \<le> unat (b_offset b')"
    "unat (b_offset b') + unat (b_len b') < length (b_mem b')" "length (b_mem b') < 65536"
    "(if unat (b_offset b) < 20 then b\<lparr>b_mem := poke (b_mem b) 20 (b_packet b), b_offset := of_nat 20\<rparr> else b) = b'"
proof (cases "unat (b_offset b) < 20")
  case True
  let ?b = "b\<lparr>b_offset := 20, b_mem := poke (b_mem b) (unat (20 :: u16)) (b_packet b), b_len := b_len b\<rparr>"
  have len: "length (b_packet b) = unat (b_len b)" using assms by (intro b_packet_length) (simp add: rfc_test_room_def)
  then have "b_packet ?b = b_packet b" using assms by (intro b_packet_poke) (simp_all add: rfc_test_room_def)
  then show thesis
    using True assms len by (intro that [of ?b]) (simp_all add: rfc_test_room_def length_poke)
next
  case False
  then show thesis using assms by (intro that [of b]) (simp_all add: rfc_test_room_def)
qed

lemma rfc_test_sent:
  assumes s: "rfc_ready s" and peer: "m_is_initiator r \<noteq> m_is_initiator (r_mcb s)"
    and room: "rfc_test_room b" and n: "unat (b_len b) < 128"
  obtains pkt where "rfc_sent s (rfc_send_test c b s) pkt"
    "rfc_delivers r pkt RFC_EVENT_UIH 0 False 0 (rfc_mx_hdr RFCOMM_MX_TEST c (ucast (b_len b)) @ b_packet b)"
proof -
  obtain b' where b': "b_packet b' = b_packet b" "b_len b' = b_len b" "20 \<le> unat (b_offset b')"
    "unat (b_offset b') + unat (b_len b') < length (b_mem b')" "length (b_mem b') < 65536"
    "(if unat (b_offset b) < 20 then b\<lparr>b_mem := poke (b_mem b) 20 (b_packet b), b_offset := of_nat 20\<rparr> else b) = b'"
    by (rule rfc_test_move [OF room])
  let ?h = "rfc_mx_hdr RFCOMM_MX_TEST c (ucast (b_len b))" and ?o = "b_offset b' - 2"
  have o: "unat ?o = unat (b_offset b') - 2" using b'(3) by (simp add: unat_sub word_le_nat_alt)
  define b1 where "b1 = b'\<lparr>b_offset := ?o, b_mem := poke (b_mem b') (unat ?o) ?h, b_len := b_len b + 2\<rparr>"
  have h2: "length ?h = 2" by (simp add: rfc_mx_hdr_def)
  have l: "unat (b_len b + 2) = unat (b_len b) + 2" using n by (intro unat_add2) simp
  have c20: "L2CAP_MIN_OFFSET + RFCOMM_MIN_OFFSET + 2 = 20" by (simp add: L2CAP_MIN_OFFSET_def RFCOMM_MIN_OFFSET_def)
  have run: "rfc_send_test c b s = rfc_send_buf_uih 0 b1 s"
    by (simp only: rfc_send_test_def Let_def c20 b'(6)) (simp only: b'(2) rfc_test_hdr b1_def RFCOMM_MX_DLCI_def bt_buf.simps)
  have "drop (unat ?o) (poke (b_mem b') (unat ?o) ?h) = ?h @ drop (unat (b_offset b')) (b_mem b')"
    using b'(3,4) h2 o drop_poke [of "unat ?o" ?h "b_mem b'"] by (simp add: le_add_diff_inverse2 del: One_nat_def add_2_eq_Suc add_2_eq_Suc')
  then have pkt: "b_packet b1 = ?h @ b_packet b"
    using h2 l b'(1,2) by (simp add: b1_def b_packet_def b_ptr_def)
  let ?cr = "RFCOMM_CR (m_is_initiator (r_mcb s)) True"
  define hdr where "hdr = rfc_uih_hdr ?cr 0 0 (b_len b1)"
  have "length hdr \<le> 5" unfolding hdr_def by (rule length_uih_hdr(2))
  then have room1: "length hdr \<le> unat (b_offset b1)" "unat (b_offset b1) + unat (b_len b1) < length (b_mem b1)"
      "length (b_mem b1) < 65536"
    using b'(2-5) o l h2 by (simp_all add: b1_def length_poke)
  have "hdr = rfc_uih_hdr ?cr 0 (if (0 :: u8) \<noteq> 0 then ucast (b_layer_specific b1) else 0) (b_len b1)"
    by (simp add: hdr_def)
  from rfc_uih_out [OF this room1] obtain b2 where b2: "b_packet b2 = hdr @ (?h @ b_packet b) @ [rfc_calc_fcs 2 hdr]"
    "rfc_send_buf_uih 0 b1 s = rfc_check_send_cmd (Some b2) s"
    by (auto simp: pkt RFCOMM_MX_DLCI_def)
  have "rfc_sent s (rfc_send_test c b s) (b_packet b2)"
    using rfc_send_now [of s b2] s by (auto simp: rfc_sent_def rfc_ready_def run b2(2))
  moreover have "length (?h @ b_packet b) = unat (b_len b1)"
    using room l h2 by (simp add: b_packet_length rfc_test_room_def b1_def)
  then have "rfc_delivers r (b_packet b2) RFC_EVENT_UIH 0 (0 \<noteq> (0 :: u8)) 0 (?h @ b_packet b)"
    unfolding b2(1)
    by (intro rfc_uih_delivers [OF _ _ _ _ _ hdr_def]) (use n l in \<open>auto simp: RFCOMM_VALID_DLCI_def RFCOMM_CR_def b1_def\<close>)
  ultimately show thesis using that by simp
qed

text \<open>What the parser makes of the message: the data without the header.\<close>

definition rfc_test_data :: "bt_buf \<Rightarrow> bt_buf" where
  "rfc_test_data b = b\<lparr>b_offset := b_offset b + 2, b_len := b_len b - 2\<rparr>"

lemma rfc_test_data:
  assumes "b_packet b = rfc_mx_hdr t c n @ d" "unat (b_offset b) + unat (b_len b) \<le> length (b_mem b)" "length (b_mem b) < 65536"
  shows "b_packet (rfc_test_data b) = d" "unat (b_offset (rfc_test_data b)) = unat (b_offset b) + 2"
    "unat (b_len (rfc_test_data b)) = length d" "unat (b_len b) = length d + 2"
proof -
  have L: "unat (b_len b) = length d + 2"
    using b_packet_length [OF assms(2)] assms(1) by (simp add: rfc_mx_hdr_def)
  then show "unat (b_len b) = length d + 2" .
  have o: "unat (b_offset b + 2) = unat (b_offset b) + 2" using assms(2,3) L by (intro unat_add2) simp
  then show "unat (b_offset (rfc_test_data b)) = unat (b_offset b) + 2" by (simp add: rfc_test_data_def)
  have l: "unat (b_len b - 2) = length d" using L by (simp add: unat_sub word_le_nat_alt)
  then show "unat (b_len (rfc_test_data b)) = length d" by (simp add: rfc_test_data_def)
  have "take (length d) (drop 2 (drop (unat (b_offset b)) (b_mem b))) = drop 2 (b_packet b)"
    using L by (simp add: b_packet_def b_ptr_def drop_take)
  then show "b_packet (rfc_test_data b) = d"
    using o l assms(1) by (simp add: rfc_test_data_def b_packet_def b_ptr_def rfc_mx_hdr_def add.commute)
qed

lemma rfc_test_process:
  assumes b: "b_packet b = rfc_mx_hdr RFCOMM_MX_TEST c n @ d" "unat (b_offset b) + unat (b_len b) \<le> length (b_mem b)"
    and n: "n < 128" "length d = unat n" "d \<noteq> []"
  obtains f where "rfc_process_mx_message b r =
    (if c then rfc_send_test False (rfc_test_data b) (r\<lparr>r_rx_frame := f\<rparr>)
     else rfc_emit (Rfc_process_test_rsp (rfc_test_data b)) (r\<lparr>r_rx_frame := f\<rparr>))"
proof -
  have "RFCOMM_MX_TEST AND 3 = 0" by (simp add: rfc_mx_types)
  then obtain rest where "rfc_process_mx_message b r = rfc_mx_dispatch RFCOMM_MX_TEST c (d @ rest) n
      ((r_rx_frame r)\<lparr>f_ea := True, f_cr := c, f_type := RFCOMM_MX_TEST\<rparr>) b r"
    by (rule rfc_process_mx_eval [OF b n(1,2)])
  moreover have "n \<noteq> 0" using n(2,3) by auto
  ultimately have "rfc_process_mx_message b r =
    (if c then rfc_send_test False (rfc_test_data b) (r\<lparr>r_rx_frame := (r_rx_frame r)\<lparr>f_ea := True, f_cr := c, f_type := RFCOMM_MX_TEST, f_u := U_TEST 2 (ucast n)\<rparr>\<rparr>)
     else rfc_emit (Rfc_process_test_rsp (rfc_test_data b)) (r\<lparr>r_rx_frame := (r_rx_frame r)\<lparr>f_ea := True, f_cr := c, f_type := RFCOMM_MX_TEST, f_u := U_TEST 2 (ucast n)\<rparr>\<rparr>))"
    by (simp add: rfc_mx_dispatch_def rfc_mx_types mx_test_def ucast_u16_0 rfc_test_data_def Let_def)
  then show thesis by (rule that)
qed

text \<open>
  A TEST command of \<open>s\<close> is answered by \<open>r\<close> with a TEST response, which \<open>s\<close> hands on with the data it sent.
\<close>

definition rfc_test_echoed :: "rfc_st \<Rightarrow> rfc_st \<Rightarrow> bt_buf \<Rightarrow> bool" where
  "rfc_test_echoed s r b \<longleftrightarrow>
     (\<exists>pkt msg. rfc_sent s (rfc_send_test True b s) pkt \<and> rfc_delivers (r_mcb r) pkt RFC_EVENT_UIH 0 False 0 msg \<and>
       (\<forall>b1. b_packet b1 = msg \<and> rfc_test_room b1 \<longrightarrow>
         (\<exists>pkt' msg'. rfc_sent r (rfc_process_mx_message b1 r) pkt' \<and>
            rfc_delivers (r_mcb s) pkt' RFC_EVENT_UIH 0 False 0 msg' \<and>
            (\<forall>b2. b_packet b2 = msg' \<and> unat (b_offset b2) + unat (b_len b2) \<le> length (b_mem b2) \<and> length (b_mem b2) < 65536 \<longrightarrow>
               (\<exists>b3. r_outs (rfc_process_mx_message b2 s) = r_outs s @ [Rfc_process_test_rsp b3] \<and>
                  b_packet b3 = b_packet b)))))"

lemma rfc_test_echo:
  assumes "rfc_ready s" "rfc_ready r" and peer: "m_is_initiator (r_mcb r) \<noteq> m_is_initiator (r_mcb s)"
    and room: "rfc_test_room b" and n: "0 < unat (b_len b)" "unat (b_len b) < 128"
  shows "rfc_test_echoed s r b"
proof -
  let ?n = "ucast (b_len b) :: u8" and ?d = "b_packet b"
  have un: "unat ?n = unat (b_len b)" using n(2) by (simp add: unsigned_ucast_eq take_bit_nat_eq_self)
  have d: "length ?d = unat ?n" "?d \<noteq> []"
    using b_packet_length [of b] room n(1) un by (auto simp: rfc_test_room_def)
  have n128: "?n < 128" using n(2) un by (simp add: word_less_nat_alt)
  obtain pkt where "rfc_sent s (rfc_send_test True b s) pkt"
    "rfc_delivers (r_mcb r) pkt RFC_EVENT_UIH 0 False 0 (rfc_mx_hdr RFCOMM_MX_TEST True ?n @ ?d)"
    by (rule rfc_test_sent [OF assms(1) peer room n(2)])
  moreover have "\<exists>pkt' msg'. rfc_sent r (rfc_process_mx_message b1 r) pkt' \<and>
      rfc_delivers (r_mcb s) pkt' RFC_EVENT_UIH 0 False 0 msg' \<and>
      (\<forall>b2. b_packet b2 = msg' \<and> unat (b_offset b2) + unat (b_len b2) \<le> length (b_mem b2) \<and> length (b_mem b2) < 65536 \<longrightarrow>
         (\<exists>b3. r_outs (rfc_process_mx_message b2 s) = r_outs s @ [Rfc_process_test_rsp b3] \<and> b_packet b3 = ?d))"
    if b1: "b_packet b1 = rfc_mx_hdr RFCOMM_MX_TEST True ?n @ ?d" "rfc_test_room b1" for b1
  proof -
    have mem: "unat (b_offset b1) + unat (b_len b1) \<le> length (b_mem b1)" "length (b_mem b1) < 65536"
      using b1(2) by (simp_all add: rfc_test_room_def)
    note dt = rfc_test_data [OF b1(1) mem]
    obtain f where run: "rfc_process_mx_message b1 r = rfc_send_test False (rfc_test_data b1) (r\<lparr>r_rx_frame := f\<rparr>)"
      using rfc_test_process [OF b1(1) mem(1) n128 d] by (metis (full_types))
    have r': "rfc_ready (r\<lparr>r_rx_frame := f\<rparr>)" "m_is_initiator (r_mcb s) \<noteq> m_is_initiator (r_mcb (r\<lparr>r_rx_frame := f\<rparr>))"
      using assms(2) peer by (simp_all add: rfc_ready_def)
    have "b_mem (rfc_test_data b1) = b_mem b1" by (simp add: rfc_test_data_def)
    then have "rfc_test_room (rfc_test_data b1)"
      using b1(2) dt by (simp add: rfc_test_room_def)
    moreover have "unat (b_len (rfc_test_data b1)) < 128" using dt(3) d(1) un n(2) by simp
    ultimately obtain pkt' where p: "rfc_sent (r\<lparr>r_rx_frame := f\<rparr>) (rfc_process_mx_message b1 r) pkt'"
      "rfc_delivers (r_mcb s) pkt' RFC_EVENT_UIH 0 False 0 (rfc_mx_hdr RFCOMM_MX_TEST False (ucast (b_len (rfc_test_data b1))) @ ?d)"
      unfolding run using rfc_test_sent [OF r', where c = False] dt(1) by metis
    have "b_len (rfc_test_data b1) = b_len b" using dt(3) d(1) un by (simp add: word_unat_eq_iff)
    with p(2) have p2: "rfc_delivers (r_mcb s) pkt' RFC_EVENT_UIH 0 False 0 (rfc_mx_hdr RFCOMM_MX_TEST False ?n @ ?d)" by simp
    have "\<exists>b3. r_outs (rfc_process_mx_message b2 s) = r_outs s @ [Rfc_process_test_rsp b3] \<and> b_packet b3 = ?d"
      if b2: "b_packet b2 = rfc_mx_hdr RFCOMM_MX_TEST False ?n @ ?d"
        "unat (b_offset b2) + unat (b_len b2) \<le> length (b_mem b2)" "length (b_mem b2) < 65536" for b2
    proof -
      obtain g where "rfc_process_mx_message b2 s = rfc_emit (Rfc_process_test_rsp (rfc_test_data b2)) (s\<lparr>r_rx_frame := g\<rparr>)"
        using rfc_test_process [OF b2(1,2) n128 d] by (metis (full_types))
      then show ?thesis using rfc_test_data(1) [OF b2] by (auto simp: rfc_emit_def)
    qed
    moreover have "rfc_sent r (rfc_process_mx_message b1 r) pkt'" using p(1) by (simp add: rfc_sent_def)
    ultimately show ?thesis using p2 by blast
  qed
  ultimately show ?thesis unfolding rfc_test_echoed_def by blast
qed

subsection \<open>All messages\<close>

text \<open>A response to a parameter negotiation repeats the priority of the request it answers.\<close>

definition pn_sent_priority :: "bool \<Rightarrow> mx_frame \<Rightarrow> u8" where
  "pn_sent_priority is_command f =
     (if is_command then 0 else case f_u f of U_PN pn \<Rightarrow> pn_priority pn AND 0x3F | _ \<Rightarrow> 0)"

text \<open>C36: A message of the multiplexer channel arrives as it was sent.  For every valid port, the parameter
  negotiation (MTU, convergence layer, credits, and in a response the priority of the request), the modem
  status (signals, flow control, break), the port negotiation (as a request or with parameters that fit
  their fields), the line status and the flow control messages are framed, accepted by the peer, and end in
  the call of the function that processes them, with the same port and the same values, as a command or as a
  response; bit 0 of the line status and the reserved bits of the negotiation mask are not carried.  A TEST command of 1 to 127 bytes is answered by the peer with a TEST response, whose data, handed to the
  function that processes it, are the bytes of the command.  The one message left is NSC, which is never
  processed.\<close>

theorem rfc_mx_roundtrip:
  assumes s: "rfc_ready s" and peer: "m_is_initiator (r_mcb r) \<noteq> m_is_initiator (r_mcb s)"
    and d: "RFCOMM_VALID_DLCI d" "d \<noteq> 0"
    and pn: "23 \<le> mtu" "mtu \<le> 32767" "cl AND 0x0F = 0" "cl AND 0xF0 = cl" "k AND 7 = k" and rpn: "rpn_ok ps"
    and msc: "pc_break_signal pc < 16"
  shows "rfc_mx_delivers s (rfc_send_pn d c mtu cl k s) r (Rfc_process_pn c) d
      (U_PN \<lparr>pn_frame_type = 0, pn_conv_layer = cl, pn_priority = pn_sent_priority c (r_rx_frame s), pn_t1 = 0, pn_mtu = mtu, pn_n2 = 0, pn_k = k\<rparr>) \<and>
    rfc_mx_delivers s (rfc_send_msc d c pc s) r (Rfc_process_msc c) d
      (U_MSC (msc_signals pc) (pc_break_signal pc \<noteq> 0) (pc_break_signal pc)) \<and>
    rfc_mx_delivers s (rfc_send_rls d c status s) r (Rfc_process_rls c) d (U_RLS (status AND NOT 1)) \<and>
    rfc_mx_delivers s (rfc_send_rpn d c None msk s) r (Rfc_process_rpn c True) d U_RPN_REQ \<and>
    rfc_mx_delivers s (rfc_send_rpn d c (Some ps) msk s) r (Rfc_process_rpn c False) d
      (U_RPN (rpn_pars.truncate ps) (msk AND 0x3F7F)) \<and>
    rfc_mx_delivers s (rfc_send_fcon c s) r (\<lambda>_. Rfc_process_fcon c) (f_dlci (r_rx_frame r)) (f_u (r_rx_frame r)) \<and>
    rfc_mx_delivers s (rfc_send_fcoff c s) r (\<lambda>_. Rfc_process_fcoff c) (f_dlci (r_rx_frame r)) (f_u (r_rx_frame r)) \<and>
    (rfc_ready r \<and> rfc_test_room b \<and> 0 < unat (b_len b) \<and> unat (b_len b) < 128 \<longrightarrow> rfc_test_echoed s r b)"
proof -
  note I = rfc_mx_deliversI [OF s peer refl]
  note disp = rfc_mx_dispatch_def rfc_mx_types Let_def
  have a: "\<not> mx_bad_addr (rfc_addr 2 d)" "drop_bit 2 (rfc_addr 2 d) = d"
    using mx_addr_ok [OF d] rfc_addr_fields(1) [OF d(1), of 2] by simp_all
  have d3: "d AND 0x3F = d"
    using d(1) by (intro and_small) (auto simp: RFCOMM_VALID_DLCI_def RFCOMM_MAX_DLCI_def elim: order_trans)
  have "rfc_mx_delivers s (rfc_send_pn d c mtu cl k s) r (Rfc_process_pn c) d
      (U_PN \<lparr>pn_frame_type = 0, pn_conv_layer = cl, pn_priority = pn_sent_priority c (r_rx_frame s), pn_t1 = 0, pn_mtu = mtu, pn_n2 = 0, pn_k = k\<rparr>)"
    unfolding rfc_send_pn_def Let_def
    by (rule I) (use pn d in \<open>simp_all add: disp mx_pn_def d3 rd16_def u16_bytes RFCOMM_MIN_MTU_def RFCOMM_MAX_MTU_def leD
        pn_sent_priority_def split: mx_u.splits\<close>)
  moreover have "rfc_mx_delivers s (rfc_send_msc d c pc s) r (Rfc_process_msc c) d
      (U_MSC (msc_signals pc) (pc_break_signal pc \<noteq> 0) (pc_break_signal pc))"
  proof (cases "pc_break_signal pc = 0")
    case True
    then show ?thesis unfolding rfc_send_msc_def Let_def
      by (simp, intro I) (simp_all add: disp mx_msc_def a)
  next
    case False
    then show ?thesis unfolding rfc_send_msc_def Let_def
      by (simp, intro I) (simp_all add: disp mx_msc_def a msc_break [OF msc, simplified])
  qed
  moreover have "rfc_mx_delivers s (rfc_send_rls d c status s) r (Rfc_process_rls c) d (U_RLS (status AND NOT 1))"
  proof -
    have "(1 OR status) AND NOT 1 = status AND NOT 1" by (rule bit_word_eqI) (auto simp: bit_simps)
    then show ?thesis unfolding rfc_send_rls_def by (intro I) (simp_all add: disp mx_rls_def a)
  qed
  moreover have "rfc_mx_delivers s (rfc_send_rpn d c None msk s) r (Rfc_process_rpn c True) d U_RPN_REQ"
    unfolding rfc_send_rpn_def option.case by (rule I) (simp_all add: disp mx_rpn_def a)
  moreover have "rfc_mx_delivers s (rfc_send_rpn d c (Some ps) msk s) r (Rfc_process_rpn c False) d
      (U_RPN (rpn_pars.truncate ps) (msk AND 0x3F7F))"
    unfolding rfc_send_rpn_def option.case
    by (rule I) (use rpn rpn_fields [of "ps_byte_size ps" "ps_stop_bits ps" "ps_parity ps" "ps_parity_type ps"] in
        \<open>simp_all add: disp mx_rpn_def a rd16_def u16_bytes rpn_ok_def and_small rpn_pars.truncate_def\<close>)
  moreover have "rfc_mx_delivers s (rfc_send_fcon c s) r (\<lambda>_. Rfc_process_fcon c) (f_dlci (r_rx_frame r)) (f_u (r_rx_frame r))"
    using I [where t = RFCOMM_MX_FCON and c = c and n = 0 and body = "[]"] unfolding rfc_send_fcon_def by (simp add: disp)
  moreover have "rfc_mx_delivers s (rfc_send_fcoff c s) r (\<lambda>_. Rfc_process_fcoff c) (f_dlci (r_rx_frame r)) (f_u (r_rx_frame r))"
    using I [where t = RFCOMM_MX_FCOFF and c = c and n = 0 and body = "[]"] unfolding rfc_send_fcoff_def by (simp add: disp)
  moreover have "rfc_ready r \<and> rfc_test_room b \<and> 0 < unat (b_len b) \<and> unat (b_len b) < 128 \<longrightarrow> rfc_test_echoed s r b"
    using rfc_test_echo [OF s _ peer] by blast
  ultimately show ?thesis by blast
qed

definition rfc_sample_pc :: port_ctrl where
  "rfc_sample_pc = \<lparr>pc_modem_signal = 3, pc_break_signal = 5, pc_discard_buffers = 0, pc_break_signal_seq = 0, pc_fc = True\<rparr>"

definition rfc_sample_ps :: port_state where
  "rfc_sample_ps = \<lparr>ps_baud_rate = 7, ps_byte_size = 3, ps_stop_bits = 0, ps_parity = 1, ps_parity_type = 1,
     ps_fc_type = 0x0C, ps_xon_char = 0x11, ps_xoff_char = 0x13, ps_rx_char1 = 0\<rparr>"

definition rfc_sample_peer :: rfc_st where
  "rfc_sample_peer = rfc_sample_st\<lparr>r_mcb := rfc_sample_mcb False\<rparr>"

definition rfc_sample_test :: bt_buf where
  "rfc_sample_test = rfc_sample_buf 0 3 (replicate 13 0 @ [7, 8, 9] @ replicate 16 0)"

lemma rfc_sample_facts:
  "rfc_ready rfc_sample_st" "m_is_initiator (r_mcb rfc_sample_peer) \<noteq> m_is_initiator (r_mcb rfc_sample_st)"
  by (simp_all add: rfc_ready_def rfc_sample_st_def rfc_sample_mcb_def rfc_sample_buf_def rfc_sample_peer_def)

theorem rfc_mx_roundtrip_witness:
  "rfc_mx_delivers rfc_sample_st (rfc_send_msc 4 True rfc_sample_pc rfc_sample_st) rfc_sample_peer (Rfc_process_msc True) 4 (U_MSC 0x0F True 5) \<and>
   rfc_mx_delivers rfc_sample_st (rfc_send_rpn 4 False (Some rfc_sample_ps) 0xFFFF rfc_sample_st) rfc_sample_peer (Rfc_process_rpn False False) 4
     (U_RPN (rpn_pars.truncate rfc_sample_ps) 0x3F7F) \<and>
   rfc_test_echoed rfc_sample_st rfc_sample_peer rfc_sample_test"
proof -
  have d: "RFCOMM_VALID_DLCI 4" "(4 :: u8) \<noteq> 0" by code_simp+
  have pn: "(23 :: u16) \<le> 100" "(100 :: u16) \<le> 32767" "(0xF0 :: u8) AND 0x0F = 0" "(0xF0 :: u8) AND 0xF0 = 0xF0" "(7 :: u8) AND 7 = 7"
    by code_simp+
  have rpn: "rpn_ok rfc_sample_ps" and msc: "pc_break_signal rfc_sample_pc < 16"
    by (simp_all add: rpn_ok_def rfc_sample_ps_def rfc_sample_pc_def)
  note rt = rfc_mx_roundtrip [OF rfc_sample_facts d pn rpn msc]
  have "msc_signals rfc_sample_pc = 0x0F" "pc_break_signal rfc_sample_pc = 5" by code_simp+
  moreover have "(0xFFFF :: u16) AND 0x3F7F = 0x3F7F" by code_simp
  moreover have "rfc_ready rfc_sample_peer \<and> rfc_test_room rfc_sample_test \<and> 0 < unat (b_len rfc_sample_test) \<and> unat (b_len rfc_sample_test) < 128"
    by (simp add: rfc_ready_def rfc_sample_peer_def rfc_sample_st_def rfc_sample_mcb_def rfc_sample_buf_def
        rfc_sample_test_def rfc_test_room_def)
  ultimately show ?thesis
    using rt [where c = True and msk = "0xFFFF" and b = rfc_sample_test] rt [where c = False and msk = "0xFFFF"] by simp
qed

text \<open>C39: The answer to an unsupported command is never processed.  \<^verbatim>\<open>rfc_send_nsc\<close> builds its message as a
  response, as TS 07.10 wants; the parser accepts a non-supported-command message only when it is a
  command.  So whatever command was refused, the peer running this code frees the message and calls
  nothing.\<close>

theorem rfc_nsc_never_processed:
  assumes "rfc_ready s" "m_is_initiator (r_mcb r) \<noteq> m_is_initiator (r_mcb s)"
  shows "\<exists>pkt msg. rfc_sent s (rfc_send_nsc s) pkt \<and> rfc_delivers (r_mcb r) pkt RFC_EVENT_UIH 0 False 0 msg \<and>
    (\<forall>b. b_packet b = msg \<and> unat (b_offset b) + unat (b_len b) \<le> length (b_mem b) \<longrightarrow>
       r_outs (rfc_process_mx_message b r) = r_outs r @ [GKI_freebuf b])"
proof -
  define body where "body = [of_bool (f_ea (r_rx_frame s)) OR push_bit 1 (of_bool (f_cr (r_rx_frame s))) OR f_type (r_rx_frame s)]"
  let ?msg = "rfc_mx_hdr RFCOMM_MX_NSC False 1 @ body"
  have s': "rfc_send_nsc s = rfc_send_mx ?msg s" by (simp add: rfc_send_nsc_def Let_def body_def)
  have "length ?msg \<le> 12" by (simp add: rfc_mx_hdr_def body_def)
  then obtain pkt where "rfc_sent s (rfc_send_nsc s) pkt" "rfc_delivers (r_mcb r) pkt RFC_EVENT_UIH 0 False 0 ?msg"
    using rfc_mx_sent [OF assms] unfolding s' by blast
  moreover have "r_outs (rfc_process_mx_message b r) = r_outs r @ [GKI_freebuf b]"
    if b: "b_packet b = ?msg" "unat (b_offset b) + unat (b_len b) \<le> length (b_mem b)" for b
  proof -
    have "(1 :: u8) < 128" "length body = unat (1 :: u8)" "RFCOMM_MX_NSC AND 3 = 0" by (simp_all add: body_def rfc_mx_types)
    then obtain rest where "rfc_process_mx_message b r = rfc_mx_dispatch RFCOMM_MX_NSC False (body @ rest) 1
        ((r_rx_frame r)\<lparr>f_ea := True, f_cr := False, f_type := RFCOMM_MX_NSC\<rparr>) b r"
      by (rule rfc_process_mx_eval [OF b])
    then show ?thesis by (simp add: rfc_mx_dispatch_def rfc_mx_types mx_nsc_def mx_unsupported_def rfc_emit_def Let_def)
  qed
  ultimately show ?thesis by blast
qed

theorem rfc_nsc_never_processed_witness:
  "\<exists>pkt msg. rfc_sent rfc_sample_st (rfc_send_nsc rfc_sample_st) pkt \<and>
     rfc_delivers (r_mcb rfc_sample_peer) pkt RFC_EVENT_UIH 0 False 0 msg"
  using rfc_nsc_never_processed [OF rfc_sample_facts] by blast

section \<open>The order of commands\<close>

text \<open>What happens to the queue: a command is queued, a data frame is written, L2CAP reports congestion.\<close>

datatype rfc_op = Op_cmd bt_buf | Op_data bt_buf | Op_congestion bool

fun rfc_step :: "rfc_op \<Rightarrow> rfc_st \<Rightarrow> rfc_st" where
  "rfc_step (Op_cmd b) s = rfc_check_send_cmd (Some b) s"
| "rfc_step (Op_data b) s = rfc_data_write b s"
| "rfc_step (Op_congestion c) s = rfc_process_l2cap_congestion c s"

definition rfc_run :: "rfc_op list \<Rightarrow> rfc_st \<Rightarrow> rfc_st" where
  "rfc_run ops s = foldl (\<lambda>s x. rfc_step x s) s ops"

fun op_cmds :: "rfc_op list \<Rightarrow> bt_buf list" where
  "op_cmds [] = []"
| "op_cmds (Op_cmd b # ops) = b # op_cmds ops"
| "op_cmds (_ # ops) = op_cmds ops"

fun op_datas :: "rfc_op list \<Rightarrow> bt_buf list" where
  "op_datas [] = []"
| "op_datas (Op_data b # ops) = b # op_datas ops"
| "op_datas (_ # ops) = op_datas ops"

fun out_writes :: "rfc_out list \<Rightarrow> bt_buf list" where
  "out_writes [] = []"
| "out_writes (L2CA_DataWrite _ b # xs) = b # out_writes xs"
| "out_writes (_ # xs) = out_writes xs"

lemma out_writes_append [simp]: "out_writes (xs @ ys) = out_writes xs @ out_writes ys"
  by (induction xs rule: out_writes.induct) auto

text \<open>Some of the commands have been written, the others wait in order, and only behind congestion.\<close>

definition cmd_inv :: "bt_buf list \<Rightarrow> bt_buf list \<Rightarrow> rfc_st \<Rightarrow> bool" where
  "cmd_inv cmds datas s \<longleftrightarrow> (\<exists>sent. cmds = sent @ m_cmd_q (r_mcb s) \<and> out_writes (r_outs s) \<in> shuffles sent datas) \<and>
     (m_cmd_q (r_mcb s) = [] \<or> m_l2cap_congested (r_mcb s))"

lemma data_write_effect:
  "out_writes (r_outs (rfc_data_write b s)) = out_writes (r_outs s) @ [b]"
  "m_cmd_q (r_mcb (rfc_data_write b s)) = m_cmd_q (r_mcb s)"
  by (auto simp: rfc_data_write_def rfc_emit_def rfc_l2cap_congested_def upd_mcb_def Let_def split: list.splits)

lemma data_write_congested: "m_l2cap_congested (r_mcb s) \<Longrightarrow> m_l2cap_congested (r_mcb (rfc_data_write b s))"
  by (auto simp: rfc_data_write_def rfc_emit_def rfc_l2cap_congested_def upd_mcb_def Let_def split: list.splits)

lemma shuffles_snoc1: "zs \<in> shuffles xs ys \<Longrightarrow> zs @ [x] \<in> shuffles (xs @ [x]) ys"
proof (induction zs arbitrary: xs ys)
  case Nil
  then show ?case by simp
next
  case (Cons z zs)
  from Cons.prems consider "xs \<noteq> []" "hd xs = z" "zs \<in> shuffles (tl xs) ys" | "ys \<noteq> []" "hd ys = z" "zs \<in> shuffles xs (tl ys)"
    unfolding Cons_in_shuffles_iff by blast
  then show ?case
  proof cases
    case 1
    then show ?thesis using Cons.IH [of "tl xs" ys] by (simp add: Cons_in_shuffles_iff)
  next
    case 2
    then show ?thesis using Cons.IH [of xs "tl ys"] by (simp add: Cons_in_shuffles_iff)
  qed
qed

lemma shuffles_snoc2: "zs \<in> shuffles xs ys \<Longrightarrow> zs @ [y] \<in> shuffles xs (ys @ [y])"
  using shuffles_snoc1 [of zs ys xs y] by (simp add: shuffles_commutes)

lemma flush_inv:
  "q = m_cmd_q (r_mcb s) \<Longrightarrow> \<exists>sent. cmds = sent @ q \<and> out_writes (r_outs s) \<in> shuffles sent datas \<Longrightarrow>
   cmd_inv cmds datas (rfc_flush_cmds q s)"
proof (induction q s rule: rfc_flush_cmds.induct)
  case (1 s)
  then show ?case by (auto simp: cmd_inv_def)
next
  case (2 b q s)
  show ?case
  proof (cases "m_l2cap_congested (r_mcb s)")
    case True
    then have "rfc_flush_cmds (b # q) s = s" by simp
    then show ?thesis using "2.prems" True by (auto simp: cmd_inv_def simp del: rfc_flush_cmds.simps)
  next
    case False
    obtain sent where sent: "cmds = sent @ b # q" "out_writes (r_outs s) \<in> shuffles sent datas" using "2.prems" by auto
    let ?s = "rfc_data_write b (upd_mcb (\<lambda>m. m\<lparr>m_cmd_q := q\<rparr>) s)"
    have "q = m_cmd_q (r_mcb ?s)" by (simp add: data_write_effect upd_mcb_def)
    moreover have "cmds = (sent @ [b]) @ q" using sent by simp
    moreover have "out_writes (r_outs ?s) \<in> shuffles (sent @ [b]) datas"
      using sent(2) by (simp add: data_write_effect upd_mcb_def shuffles_snoc1)
    ultimately show ?thesis using "2.IH" [OF False] False by auto
  qed
qed

lemma op_cmds_append: "op_cmds (xs @ ys) = op_cmds xs @ op_cmds ys"
  by (induction xs rule: op_cmds.induct) auto

lemma op_datas_append: "op_datas (xs @ ys) = op_datas xs @ op_datas ys"
  by (induction xs rule: op_datas.induct) auto

lemma step_inv:
  assumes "cmd_inv cmds datas s"
  shows "cmd_inv (cmds @ op_cmds [x]) (datas @ op_datas [x]) (rfc_step x s)"
proof (cases x)
  case (Op_cmd b)
  let ?s = "upd_mcb (\<lambda>m. m\<lparr>m_cmd_q := m_cmd_q m @ [b]\<rparr>) s"
  have "\<exists>sent. cmds @ [b] = sent @ m_cmd_q (r_mcb ?s) \<and> out_writes (r_outs ?s) \<in> shuffles sent datas"
    using assms by (auto simp: cmd_inv_def upd_mcb_def)
  from flush_inv [OF refl this] show ?thesis by (simp add: Op_cmd rfc_check_send_cmd_def Let_def)
next
  case (Op_data b)
  then show ?thesis using assms
    by (auto simp: cmd_inv_def data_write_effect data_write_congested intro!: shuffles_snoc2)
next
  case (Op_congestion c)
  let ?s = "upd_mcb (\<lambda>m. m\<lparr>m_l2cap_congested := False\<rparr>) s"
  have "\<exists>sent. cmds = sent @ m_cmd_q (r_mcb ?s) \<and> out_writes (r_outs ?s) \<in> shuffles sent datas"
    using assms by (auto simp: cmd_inv_def upd_mcb_def)
  from flush_inv [OF refl this] assms show ?thesis
    by (auto simp: Op_congestion rfc_process_l2cap_congestion_def rfc_check_send_cmd_def rfc_l2cap_congested_def
        cmd_inv_def rfc_emit_def upd_mcb_def Let_def)
qed

text \<open>C37: Commands keep their order.  Let commands, data frames and congestion reports of L2CAP follow each other
  in any way, with L2CAP reporting congestion from inside any write: what has been written to L2CAP is
  an interleaving of the data frames, all of them and in order, with a prefix of the commands in order;
  the rest of the commands wait, in order, and only while the channel is congested.\<close>

theorem rfc_cmd_fifo:
  assumes "m_cmd_q (r_mcb s) = []" "out_writes (r_outs s) = []"
  shows "\<exists>sent. op_cmds ops = sent @ m_cmd_q (r_mcb (rfc_run ops s)) \<and>
    out_writes (r_outs (rfc_run ops s)) \<in> shuffles sent (op_datas ops) \<and>
    (m_cmd_q (r_mcb (rfc_run ops s)) = [] \<or> m_l2cap_congested (r_mcb (rfc_run ops s)))"
proof -
  have "cmd_inv (op_cmds ops) (op_datas ops) (rfc_run ops s)"
  proof (induction ops rule: rev_induct)
    case Nil
    show ?case using assms by (simp add: cmd_inv_def rfc_run_def)
  next
    case (snoc x ops)
    from step_inv [OF this, of x] show ?case by (simp add: rfc_run_def op_cmds_append op_datas_append)
  qed
  then show ?thesis unfolding cmd_inv_def by blast
qed

definition rfc_sample_ops :: "rfc_op list" where
  "rfc_sample_ops = [Op_congestion True, Op_cmd (rfc_sample_buf 0 1 [1]), Op_data (rfc_sample_buf 0 2 [2]),
     Op_cmd (rfc_sample_buf 0 3 [3]), Op_congestion False, Op_cmd (rfc_sample_buf 0 4 [4])]"

theorem rfc_cmd_fifo_witness:
  "\<exists>sent. [rfc_sample_buf 0 1 [1], rfc_sample_buf 0 3 [3], rfc_sample_buf 0 4 [4]] =
       sent @ m_cmd_q (r_mcb (rfc_run rfc_sample_ops (rfc_sample_st\<lparr>r_congs := [False, True]\<rparr>))) \<and>
     out_writes (r_outs (rfc_run rfc_sample_ops (rfc_sample_st\<lparr>r_congs := [False, True]\<rparr>))) \<in> shuffles sent [rfc_sample_buf 0 2 [2]]"
proof -
  let ?s = "rfc_sample_st\<lparr>r_congs := [False, True]\<rparr>"
  have "m_cmd_q (r_mcb ?s) = []" "out_writes (r_outs ?s) = []"
    by (simp_all add: rfc_sample_st_def rfc_sample_mcb_def)
  from rfc_cmd_fifo [OF this, of rfc_sample_ops] show ?thesis
    by (auto simp: rfc_sample_ops_def)
qed

end
