(* ===== verification/Rfc_State.thy ===== *)
theory Rfc_State
  imports Rfc_Frames
begin

text \<open>
  The control block of RFCOMM, \<^verbatim>\<open>rfc_cb\<close>, with its pools of ports and multiplexers, and the functions that
  everything else of the layer rests on: the searches and the bookkeeping of \<^verbatim>\<open>port_utils.c\<close> and
  \<^verbatim>\<open>rfc_utils.c\<close>, the flow of data to L2CAP, and the closing of a port.

  A pointer to a port or to a multiplexer is its index in the pool, a null pointer is \<open>None\<close>, a
  callback is whether one is registered.  The calls that leave the layer are recorded in \<open>c_outs\<close> in
  order; what the outside answers is in the fields behind it.  The frame functions of \<^verbatim>\<open>rfc_ts_frames.c\<close>
  work on one multiplexer; \<open>on_mcb\<close> runs them on the control block.
\<close>

section \<open>State\<close>

datatype port_app_state = PORT_STATE_CLOSED | PORT_STATE_OPENING | PORT_STATE_OPENED | PORT_STATE_CLOSING

datatype rfc_port_state =
    RFC_STATE_CLOSED | RFC_STATE_SABME_WAIT_UA | RFC_STATE_ORIG_WAIT_SEC_CHECK
  | RFC_STATE_TERM_WAIT_SEC_CHECK | RFC_STATE_OPENED | RFC_STATE_DISC_WAIT_UA

record port_data =
  d_queue :: "bt_buf list"
  d_peer_fc :: bool
  d_user_fc :: bool
  d_queue_size :: u32

record t_port =
  p_inx :: u8
  p_in_use :: bool
  p_state :: port_app_state
  p_scn :: u8
  p_uuid :: u16
  p_bd_addr :: bytes
  p_is_server :: bool
  p_dlci :: u8
  p_error :: u8
  p_line_status :: u8
  p_default_signal_state :: u8
  p_mtu :: u16
  p_peer_mtu :: u16
  p_tx :: port_data
  p_rx :: port_data
  p_user_port_pars :: port_state
  p_peer_port_pars :: port_state
  p_local_ctrl :: port_ctrl
  p_peer_ctrl :: port_ctrl
  p_port_ctrl :: u8
  p_rx_flag_ev_pending :: bool
  p_rfc_state :: rfc_port_state
  p_expected_rsp :: u8
  p_mcb :: "nat option"
  p_tle :: "u16 option"
  p_ev_mask :: u32
  p_callback :: bool
  p_mgmt_callback :: bool
  p_data_callback :: bool
  p_data_co_callback :: bool
  p_credit_tx :: u16
  p_credit_rx :: u16
  p_credit_rx_max :: u16
  p_credit_rx_low :: u16
  p_rx_buf_critical :: u16
  p_keep_port_handle :: bool
  p_keep_mtu :: u16

datatype rfc_call =
    Data_write u16 bt_buf
  | Freebuf bt_buf
  | Connect_req bytes
  | Connect_rsp bytes u8 u16 u16
  | Config_req u16 u16
  | Config_rsp u16
  | Disconnect_req u16
  | Disconnect_rsp u16
  | Event_callback u8 u32
  | Mgmt_callback u8 u8
  | Data_callback u8 bytes
  | Data_co_callback u8 bt_buf
  | Sec_access_request bytes bool u8 nat
  | Sec_abort bytes

text \<open>
  \<open>c_bufs\<close>, \<open>c_congs\<close>: as in the frame functions.  \<open>c_lcids\<close>: the results of the next calls of
  \<^verbatim>\<open>L2CA_ConnectReq\<close>, zero when it fails, which it does when the list is empty.  \<open>c_co\<close>: the next answers
  of \<^verbatim>\<open>p_data_co_callback\<close> to incoming data.  \<open>c_max_packet\<close>: \<^verbatim>\<open>btm_get_max_packet_size\<close>.  \<open>c_ticks\<close>:
  \<^verbatim>\<open>GKI_get_tick_count\<close>.  \<open>c_stale\<close>: what the union of the received frame held in the place of the port
  parameters when a message brought none.
\<close>

record rfc_cb =
  c_port :: "nat \<Rightarrow> t_port"
  c_mcb :: "nat \<Rightarrow> rfc_mcb"
  c_rx_frame :: mx_frame
  c_lcid_mcb :: "u16 \<Rightarrow> nat option"
  c_peer_rx_disabled :: bool
  c_last_mux :: nat
  c_last_port :: nat
  c_outs :: "rfc_call list"
  c_bufs :: "bt_buf list"
  c_congs :: "bool list"
  c_lcids :: "u16 list"
  c_co :: "bool list"
  c_max_packet :: "bytes \<Rightarrow> u16"
  c_ticks :: u32
  c_stale :: "rpn_pars \<times> u16"

definition emit :: "rfc_call \<Rightarrow> rfc_cb \<Rightarrow> rfc_cb" where
  "emit x g = g\<lparr>c_outs := c_outs g @ [x]\<rparr>"

definition upd_port :: "nat \<Rightarrow> (t_port \<Rightarrow> t_port) \<Rightarrow> rfc_cb \<Rightarrow> rfc_cb" where
  "upd_port i f g = g\<lparr>c_port := (c_port g)(i := f (c_port g i))\<rparr>"

definition upd_mux :: "nat \<Rightarrow> (rfc_mcb \<Rightarrow> rfc_mcb) \<Rightarrow> rfc_cb \<Rightarrow> rfc_cb" where
  "upd_mux m f g = g\<lparr>c_mcb := (c_mcb g)(m := f (c_mcb g m))\<rparr>"

definition MAX_RFC_PORTS :: nat where "MAX_RFC_PORTS = 30"
definition MAX_BD_CONNECTIONS :: nat where "MAX_BD_CONNECTIONS = 7"
definition PORT_MAX_RFC_PORTS :: u8 where "PORT_MAX_RFC_PORTS = 31"
definition L2CAP_MTU_SIZE :: nat where "L2CAP_MTU_SIZE = 1691"
definition L2CAP_DEFAULT_MTU :: u16 where "L2CAP_DEFAULT_MTU = 672"
definition RFCOMM_DEFAULT_MTU :: u16 where "RFCOMM_DEFAULT_MTU = 127"
definition RFCOMM_DATA_OVERHEAD :: nat where "RFCOMM_DATA_OVERHEAD = RFCOMM_MIN_OFFSET + 1"
definition L2CAP_PKT_HDR :: nat where "L2CAP_PKT_HDR = 4"
definition BTA_RFC_MTU_SIZE :: nat where "BTA_RFC_MTU_SIZE = L2CAP_MTU_SIZE - L2CAP_MIN_OFFSET - RFCOMM_DATA_OVERHEAD"
definition PORT_RX_BUF_LOW_WM :: nat where "PORT_RX_BUF_LOW_WM = 4"
definition PORT_RX_BUF_HIGH_WM :: nat where "PORT_RX_BUF_HIGH_WM = 10"
definition PORT_RX_BUF_CRITICAL_WM :: nat where "PORT_RX_BUF_CRITICAL_WM = 15"
definition PORT_RX_LOW_WM :: nat where "PORT_RX_LOW_WM = BTA_RFC_MTU_SIZE * PORT_RX_BUF_LOW_WM"
definition PORT_RX_HIGH_WM :: nat where "PORT_RX_HIGH_WM = BTA_RFC_MTU_SIZE * PORT_RX_BUF_HIGH_WM"
definition PORT_RX_CRITICAL_WM :: nat where "PORT_RX_CRITICAL_WM = BTA_RFC_MTU_SIZE * PORT_RX_BUF_CRITICAL_WM"
definition PORT_TX_BUF_HIGH_WM :: nat where "PORT_TX_BUF_HIGH_WM = 10"
definition PORT_TX_BUF_CRITICAL_WM :: nat where "PORT_TX_BUF_CRITICAL_WM = 15"
definition PORT_TX_HIGH_WM :: nat where "PORT_TX_HIGH_WM = BTA_RFC_MTU_SIZE * PORT_TX_BUF_HIGH_WM"
definition PORT_TX_CRITICAL_WM :: nat where "PORT_TX_CRITICAL_WM = BTA_RFC_MTU_SIZE * PORT_TX_BUF_CRITICAL_WM"

definition RFC_T1_TIMEOUT :: u16 where "RFC_T1_TIMEOUT = 20"
definition RFC_PORT_T1_TIMEOUT :: u16 where "RFC_PORT_T1_TIMEOUT = 60"
definition RFC_T2_TIMEOUT :: u16 where "RFC_T2_TIMEOUT = 20"
definition RFC_DISC_TIMEOUT :: u16 where "RFC_DISC_TIMEOUT = 3"
definition RFCOMM_CONN_TIMEOUT :: u16 where "RFCOMM_CONN_TIMEOUT = 120"
definition RFC_MCB_INIT_INACT_TIMER :: u16 where "RFC_MCB_INIT_INACT_TIMER = 60"
definition RFC_MCB_RELEASE_INACT_TIMER :: u16 where "RFC_MCB_RELEASE_INACT_TIMER = 2"

definition PORT_EV_RXCHAR :: u32 where "PORT_EV_RXCHAR = 0x1"
definition PORT_EV_RXFLAG :: u32 where "PORT_EV_RXFLAG = 0x2"
definition PORT_EV_TXEMPTY :: u32 where "PORT_EV_TXEMPTY = 0x4"
definition PORT_EV_CTS :: u32 where "PORT_EV_CTS = 0x8"
definition PORT_EV_DSR :: u32 where "PORT_EV_DSR = 0x10"
definition PORT_EV_RLSD :: u32 where "PORT_EV_RLSD = 0x20"
definition PORT_EV_BREAK :: u32 where "PORT_EV_BREAK = 0x40"
definition PORT_EV_ERR :: u32 where "PORT_EV_ERR = 0x80"
definition PORT_EV_RING :: u32 where "PORT_EV_RING = 0x100"
definition PORT_EV_CONNECTED :: u32 where "PORT_EV_CONNECTED = 0x200"
definition PORT_EV_CTSS :: u32 where "PORT_EV_CTSS = 0x400"
definition PORT_EV_DSRS :: u32 where "PORT_EV_DSRS = 0x800"
definition PORT_EV_RLSDS :: u32 where "PORT_EV_RLSDS = 0x1000"
definition PORT_EV_OVERRUN :: u32 where "PORT_EV_OVERRUN = 0x2000"
definition PORT_EV_TXCHAR :: u32 where "PORT_EV_TXCHAR = 0x4000"
definition PORT_EV_CONNECT_ERR :: u32 where "PORT_EV_CONNECT_ERR = 0x8000"
definition PORT_EV_FC :: u32 where "PORT_EV_FC = 0x10000"
definition PORT_EV_FCS :: u32 where "PORT_EV_FCS = 0x20000"

definition PORT_SUCCESS :: u8 where "PORT_SUCCESS = 0"
definition PORT_START_FAILED :: u8 where "PORT_START_FAILED = 12"
definition PORT_PAR_NEG_FAILED :: u8 where "PORT_PAR_NEG_FAILED = 13"
definition PORT_PORT_NEG_FAILED :: u8 where "PORT_PORT_NEG_FAILED = 14"
definition PORT_SEC_FAILED :: u8 where "PORT_SEC_FAILED = 15"
definition PORT_PEER_CONNECTION_FAILED :: u8 where "PORT_PEER_CONNECTION_FAILED = 16"
definition PORT_PEER_TIMEOUT :: u8 where "PORT_PEER_TIMEOUT = 18"
definition PORT_CLOSED :: u8 where "PORT_CLOSED = 19"
definition PORT_PAGE_TIMEOUT :: u8 where "PORT_PAGE_TIMEOUT = 24"

definition PORT_CTRL_REQ_SENT :: u8 where "PORT_CTRL_REQ_SENT = 1"
definition PORT_CTRL_REQ_CONFIRMED :: u8 where "PORT_CTRL_REQ_CONFIRMED = 2"
definition PORT_CTRL_IND_RECEIVED :: u8 where "PORT_CTRL_IND_RECEIVED = 4"
definition PORT_CTRL_IND_RESPONDED :: u8 where "PORT_CTRL_IND_RESPONDED = 8"

definition RFC_RSP_PN :: u8 where "RFC_RSP_PN = 1"
definition RFC_RSP_RPN_REPLY :: u8 where "RFC_RSP_RPN_REPLY = 2"
definition RFC_RSP_RPN :: u8 where "RFC_RSP_RPN = 4"
definition RFC_RSP_MSC :: u8 where "RFC_RSP_MSC = 8"
definition RFC_RSP_RLS :: u8 where "RFC_RSP_RLS = 16"

definition PORT_DTRDSR_ON :: u8 where "PORT_DTRDSR_ON = 1"
definition PORT_CTSRTS_ON :: u8 where "PORT_CTSRTS_ON = 2"
definition PORT_RING_ON :: u8 where "PORT_RING_ON = 4"
definition PORT_DCD_ON :: u8 where "PORT_DCD_ON = 8"
definition LINE_STATUS_OVERRUN :: u8 where "LINE_STATUS_OVERRUN = 2"
definition LINE_STATUS_FAILED :: u8 where "LINE_STATUS_FAILED = 0x10"

definition RFCOMM_SUCCESS :: u16 where "RFCOMM_SUCCESS = 0"
definition RFCOMM_ERROR :: u16 where "RFCOMM_ERROR = 1"
definition RFCOMM_SECURITY_ERR :: u16 where "RFCOMM_SECURITY_ERR = 112"

section \<open>Blank control blocks\<close>

definition BD_ADDR_LEN :: nat where "BD_ADDR_LEN = 6"

text \<open>A structure after \<^verbatim>\<open>memset (p, 0, sizeof)\<close>.\<close>

definition mcb_zero :: rfc_mcb where
  "mcb_zero = \<lparr>m_tle = None, m_cmd_q = [], m_port_inx = (\<lambda>_. 0), m_bd_addr = replicate BD_ADDR_LEN 0, m_lcid = 0,
     m_peer_l2cap_mtu = 0, m_state = RFC_MX_STATE_IDLE, m_is_initiator = False, m_local_cfg_sent = False,
     m_peer_cfg_rcvd = False, m_restart_required = False, m_peer_ready = False, m_flow = PORT_FC_UNDEFINED,
     m_l2cap_congested = False, m_is_disc_initiator = False, m_pending_lcid = 0, m_pending_id = 0\<rparr>"

definition data_zero :: port_data where
  "data_zero = \<lparr>d_queue = [], d_peer_fc = False, d_user_fc = False, d_queue_size = 0\<rparr>"

definition pars_zero :: port_state where
  "pars_zero = \<lparr>ps_baud_rate = 0, ps_byte_size = 0, ps_stop_bits = 0, ps_parity = 0, ps_parity_type = 0,
     ps_fc_type = 0, ps_xon_char = 0, ps_xoff_char = 0, ps_rx_char1 = 0\<rparr>"

definition ctrl_zero :: port_ctrl where
  "ctrl_zero = \<lparr>pc_modem_signal = 0, pc_break_signal = 0, pc_discard_buffers = 0, pc_break_signal_seq = 0, pc_fc = False\<rparr>"

definition port_zero :: t_port where
  "port_zero = \<lparr>p_inx = 0, p_in_use = False, p_state = PORT_STATE_CLOSED, p_scn = 0, p_uuid = 0,
     p_bd_addr = replicate BD_ADDR_LEN 0, p_is_server = False, p_dlci = 0, p_error = 0, p_line_status = 0,
     p_default_signal_state = 0, p_mtu = 0, p_peer_mtu = 0, p_tx = data_zero, p_rx = data_zero,
     p_user_port_pars = pars_zero, p_peer_port_pars = pars_zero, p_local_ctrl = ctrl_zero, p_peer_ctrl = ctrl_zero,
     p_port_ctrl = 0, p_rx_flag_ev_pending = False, p_rfc_state = RFC_STATE_CLOSED, p_expected_rsp = 0,
     p_mcb = None, p_tle = None, p_ev_mask = 0, p_callback = False, p_mgmt_callback = False,
     p_data_callback = False, p_data_co_callback = False, p_credit_tx = 0, p_credit_rx = 0, p_credit_rx_max = 0,
     p_credit_rx_low = 0, p_rx_buf_critical = 0, p_keep_port_handle = False, p_keep_mtu = 0\<rparr>"

definition default_port_pars :: port_state where
  "default_port_pars = \<lparr>ps_baud_rate = 3, ps_byte_size = 3, ps_stop_bits = 0, ps_parity = 0, ps_parity_type = 0,
     ps_fc_type = 0, ps_xon_char = 0x11, ps_xoff_char = 0x13, ps_rx_char1 = 0\<rparr>"

definition port_set_defaults :: "t_port \<Rightarrow> t_port" where
  "port_set_defaults p = p\<lparr>p_ev_mask := 0, p_callback := False, p_port_ctrl := 0, p_error := 0, p_line_status := 0,
     p_rx_flag_ev_pending := False, p_peer_mtu := RFCOMM_DEFAULT_MTU, p_user_port_pars := default_port_pars,
     p_peer_port_pars := default_port_pars, p_credit_tx := 0, p_credit_rx := 0, p_local_ctrl := ctrl_zero,
     p_peer_ctrl := ctrl_zero, p_rx := data_zero, p_tx := data_zero\<rparr>"

section \<open>Timers\<close>

definition rfc_timer_start :: "nat \<Rightarrow> u16 \<Rightarrow> rfc_cb \<Rightarrow> rfc_cb" where
  "rfc_timer_start m timeout = upd_mux m (\<lambda>x. x\<lparr>m_tle := Some timeout\<rparr>)"

definition rfc_timer_stop :: "nat \<Rightarrow> rfc_cb \<Rightarrow> rfc_cb" where
  "rfc_timer_stop m = upd_mux m (\<lambda>x. x\<lparr>m_tle := None\<rparr>)"

definition rfc_port_timer_start :: "nat \<Rightarrow> u16 \<Rightarrow> rfc_cb \<Rightarrow> rfc_cb" where
  "rfc_port_timer_start i timeout = upd_port i (\<lambda>p. p\<lparr>p_tle := Some timeout\<rparr>)"

definition rfc_port_timer_stop :: "nat \<Rightarrow> rfc_cb \<Rightarrow> rfc_cb" where
  "rfc_port_timer_stop i = upd_port i (\<lambda>p. p\<lparr>p_tle := None\<rparr>)"

section \<open>Searches\<close>

definition port_find_mcb :: "bytes \<Rightarrow> rfc_cb \<Rightarrow> nat option" where
  "port_find_mcb bd_addr g =
     find (\<lambda>m. m_state (c_mcb g m) \<noteq> RFC_MX_STATE_IDLE \<and> m_bd_addr (c_mcb g m) = bd_addr) [0..<MAX_BD_CONNECTIONS]"

definition port_find_mcb_dlci_port :: "nat \<Rightarrow> u8 \<Rightarrow> rfc_cb \<Rightarrow> nat option" where
  "port_find_mcb_dlci_port m dlci g =
     (if dlci > RFCOMM_MAX_DLCI then None
      else let inx = m_port_inx (c_mcb g m) dlci in if inx = 0 then None else Some (unat inx - 1))"

definition port_listens :: "u8 \<Rightarrow> t_port \<Rightarrow> bool" where
  "port_listens dlci p \<longleftrightarrow> p_in_use p \<and> p_mcb p = None \<and>
     (p_dlci p = dlci \<or> (dlci AND 1 \<noteq> 0 \<and> p_dlci p = dlci - 1))"

definition port_find_dlci_port :: "u8 \<Rightarrow> rfc_cb \<Rightarrow> nat option \<times> rfc_cb" where
  "port_find_dlci_port dlci g =
     (case find (\<lambda>i. port_listens dlci (c_port g i)) [0..<MAX_RFC_PORTS] of
        None \<Rightarrow> (None, g)
      | Some i \<Rightarrow> (Some i, if p_dlci (c_port g i) = dlci then g else upd_port i (\<lambda>p. p\<lparr>p_dlci := p_dlci p + 1\<rparr>) g))"

definition port_find_port :: "u8 \<Rightarrow> bytes \<Rightarrow> rfc_cb \<Rightarrow> nat option" where
  "port_find_port dlci bd_addr g =
     find (\<lambda>i. p_in_use (c_port g i) \<and> p_dlci (c_port g i) = dlci \<and> p_bd_addr (c_port g i) = bd_addr)
       [0..<MAX_RFC_PORTS]"

definition L2CAP_BASE_APPL_CID :: u16 where "L2CAP_BASE_APPL_CID = 0x40"
definition MAX_L2CAP_CHANNELS :: nat where "MAX_L2CAP_CHANNELS = 10"

definition rfc_find_lcid_mcb :: "u16 \<Rightarrow> rfc_cb \<Rightarrow> nat option" where
  "rfc_find_lcid_mcb lcid g =
     (if uint lcid - uint L2CAP_BASE_APPL_CID \<ge> int MAX_L2CAP_CHANNELS then None
      else case c_lcid_mcb g lcid of
             None \<Rightarrow> None
           | Some m \<Rightarrow> if m_lcid (c_mcb g m) \<noteq> lcid then None else Some m)"

definition rfc_save_lcid_mcb :: "nat option \<Rightarrow> u16 \<Rightarrow> rfc_cb \<Rightarrow> rfc_cb" where
  "rfc_save_lcid_mcb m lcid g = g\<lparr>c_lcid_mcb := (c_lcid_mcb g)(lcid := m)\<rparr>"

text \<open>The round search that both allocators use, from the entry behind the last one given out.\<close>

fun search_round :: "nat \<Rightarrow> nat \<Rightarrow> nat \<Rightarrow> (nat \<Rightarrow> bool) \<Rightarrow> nat option" where
  "search_round n 0 j P = None"
| "search_round n (Suc k) j P =
     (let j = (if j \<ge> n then 0 else j) in if P j then Some j else search_round n k (j + 1) P)"

definition port_allocate_port :: "u8 \<Rightarrow> bytes \<Rightarrow> rfc_cb \<Rightarrow> nat option \<times> rfc_cb" where
  "port_allocate_port dlci bd_addr g =
     (case search_round MAX_RFC_PORTS MAX_RFC_PORTS (c_last_port g + 1) (\<lambda>y. \<not> p_in_use (c_port g y)) of
        None \<Rightarrow> (None, g)
      | Some y \<Rightarrow>
          (Some y, (upd_port y (\<lambda>_. port_set_defaults
             (port_zero\<lparr>p_inx := of_nat (y + 1), p_in_use := True, p_bd_addr := bd_addr, p_dlci := dlci\<rparr>)) g)
             \<lparr>c_last_port := y\<rparr>))"

definition rfc_alloc_multiplexer_channel :: "bytes \<Rightarrow> bool \<Rightarrow> rfc_cb \<Rightarrow> nat option \<times> rfc_cb" where
  "rfc_alloc_multiplexer_channel bd_addr is_initiator g =
     (case port_find_mcb bd_addr g of
        Some m \<Rightarrow> (Some m, if m_state (c_mcb g m) = RFC_MX_STATE_CONNECTED then rfc_timer_stop m g else g)
      | None \<Rightarrow>
          (case search_round MAX_BD_CONNECTIONS MAX_BD_CONNECTIONS (c_last_mux g + 1)
                  (\<lambda>j. m_state (c_mcb g j) = RFC_MX_STATE_IDLE) of
             None \<Rightarrow> (None, g)
           | Some j \<Rightarrow>
               (Some j, (rfc_timer_start j RFC_MCB_INIT_INACT_TIMER
                  (upd_mux j (\<lambda>_. mcb_zero\<lparr>m_bd_addr := bd_addr, m_is_initiator := is_initiator\<rparr>) g))
                  \<lparr>c_last_mux := j\<rparr>)))"

definition rfc_release_multiplexer_channel :: "nat \<Rightarrow> rfc_cb \<Rightarrow> rfc_cb" where
  "rfc_release_multiplexer_channel m g =
     (let g = rfc_timer_stop m g;
          g = fold (\<lambda>b. emit (Freebuf b)) (m_cmd_q (c_mcb g m)) g
      in upd_mux m (\<lambda>_. mcb_zero) g)"

text \<open>The arithmetic is that of \<^verbatim>\<open>int\<close>, the results are stored in 16 bits.\<close>

definition port_select_mtu :: "nat \<Rightarrow> rfc_cb \<Rightarrow> rfc_cb" where
  "port_select_mtu i g =
     upd_port i (\<lambda>p.
       let packet_size = unat (c_max_packet g (p_bd_addr p));
           mtu = (if p_mtu p \<noteq> 0 then p_mtu p
                  else if packet_size = 0 then RFCOMM_DEFAULT_MTU
                  else if L2CAP_MTU_SIZE + L2CAP_PKT_HDR \<ge> packet_size
                  then of_nat ((L2CAP_MTU_SIZE + L2CAP_PKT_HDR) div packet_size * packet_size
                         - RFCOMM_DATA_OVERHEAD - L2CAP_PKT_HDR)
                  else of_nat (L2CAP_MTU_SIZE - RFCOMM_DATA_OVERHEAD));
           limit = (\<lambda>wm n. if wm div unat mtu > n then of_nat n else of_nat (wm div unat mtu) :: u16)
       in p\<lparr>p_mtu := mtu, p_credit_rx_max := limit PORT_RX_HIGH_WM PORT_RX_BUF_HIGH_WM,
            p_credit_rx_low := limit PORT_RX_LOW_WM PORT_RX_BUF_LOW_WM,
            p_rx_buf_critical := limit PORT_RX_CRITICAL_WM PORT_RX_BUF_CRITICAL_WM\<rparr>) g"

section \<open>Events to the user\<close>

definition port_get_signal_changes :: "t_port \<Rightarrow> u8 \<Rightarrow> u8 \<Rightarrow> u32" where
  "port_get_signal_changes p old_signals signal =
     (let changed = signal XOR old_signals
      in p_ev_mask p AND
         ((if changed AND PORT_DTRDSR_ON \<noteq> 0
           then PORT_EV_DSR OR (if signal AND PORT_DTRDSR_ON \<noteq> 0 then PORT_EV_DSRS else 0) else 0) OR
          (if changed AND PORT_CTSRTS_ON \<noteq> 0
           then PORT_EV_CTS OR (if signal AND PORT_CTSRTS_ON \<noteq> 0 then PORT_EV_CTSS else 0) else 0) OR
          (if changed AND PORT_RING_ON \<noteq> 0 then PORT_EV_RING else 0) OR
          (if changed AND PORT_DCD_ON \<noteq> 0
           then PORT_EV_RLSD OR (if signal AND PORT_DCD_ON \<noteq> 0 then PORT_EV_RLSDS else 0) else 0)))"

definition port_event :: "nat \<Rightarrow> u32 \<Rightarrow> rfc_cb \<Rightarrow> rfc_cb" where
  "port_event i events g =
     (if p_callback (c_port g i) \<and> events \<noteq> 0 then emit (Event_callback (p_inx (c_port g i)) events) g else g)"

definition mgmt_event :: "nat \<Rightarrow> u8 \<Rightarrow> rfc_cb \<Rightarrow> rfc_cb" where
  "mgmt_event i res g =
     (if p_mgmt_callback (c_port g i) then emit (Mgmt_callback (p_inx (c_port g i)) res) g else g)"

definition upd_tx :: "nat \<Rightarrow> (port_data \<Rightarrow> port_data) \<Rightarrow> rfc_cb \<Rightarrow> rfc_cb" where
  "upd_tx i f = upd_port i (\<lambda>p. p\<lparr>p_tx := f (p_tx p)\<rparr>)"

definition upd_rx :: "nat \<Rightarrow> (port_data \<Rightarrow> port_data) \<Rightarrow> rfc_cb \<Rightarrow> rfc_cb" where
  "upd_rx i f = upd_port i (\<lambda>p. p\<lparr>p_rx := f (p_rx p)\<rparr>)"

definition user_stopped :: "t_port \<Rightarrow> rfc_cb \<Rightarrow> bool" where
  "user_stopped p g \<longleftrightarrow> d_peer_fc (p_tx p) \<or>
     (case p_mcb p of None \<Rightarrow> True | Some m \<Rightarrow> \<not> m_peer_ready (c_mcb g m)) \<or>
     unat (d_queue_size (p_tx p)) > PORT_TX_HIGH_WM \<or> length (d_queue (p_tx p)) > PORT_TX_BUF_HIGH_WM"

definition port_flow_control_user :: "nat \<Rightarrow> rfc_cb \<Rightarrow> u32 \<times> rfc_cb" where
  "port_flow_control_user i g =
     (let fc = user_stopped (c_port g i) g
      in if d_user_fc (p_tx (c_port g i)) = fc then (0, g)
         else (if fc then PORT_EV_FC else PORT_EV_FC OR PORT_EV_FCS, upd_tx i (\<lambda>d. d\<lparr>d_user_fc := fc\<rparr>) g))"

section \<open>Frames on the control block\<close>

text \<open>
  \<^verbatim>\<open>PORT_FlowInd\<close>, with the loop of \<^verbatim>\<open>port_rfc_send_tx_data\<close> that writes waiting data as a parameter.  The
  loop writes to L2CAP, which may report congestion from inside the write, and then the same function
  runs again to stop the ports; that inner call finds \<^verbatim>\<open>peer_ready\<close> false, so its loop does nothing.
\<close>

definition port_rfc_send_tx_data_with :: "(nat \<Rightarrow> rfc_cb \<Rightarrow> u32 \<times> rfc_cb) \<Rightarrow> nat \<Rightarrow> rfc_cb \<Rightarrow> u32 \<times> rfc_cb" where
  "port_rfc_send_tx_data_with tx i g =
     (if d_queue_size (p_tx (c_port g i)) > 0 then
        (case tx i g of (e1, g) \<Rightarrow>
           (case port_flow_control_user i g of (e2, g) \<Rightarrow> ((e1 OR e2) AND p_ev_mask (c_port g i), g)))
      else (0, g))"

definition flow_port :: "(nat \<Rightarrow> rfc_cb \<Rightarrow> u32 \<times> rfc_cb) \<Rightarrow> nat \<Rightarrow> rfc_cb \<Rightarrow> rfc_cb" where
  "flow_port tx i g =
     (case port_flow_control_user i g of (e1, g) \<Rightarrow>
        (case port_rfc_send_tx_data_with tx i g of (e2, g) \<Rightarrow>
           port_event i ((e1 OR e2) AND p_ev_mask (c_port g i)) g))"

definition PORT_FlowInd_with :: "(nat \<Rightarrow> rfc_cb \<Rightarrow> u32 \<times> rfc_cb) \<Rightarrow> nat \<Rightarrow> u8 \<Rightarrow> bool \<Rightarrow> rfc_cb \<Rightarrow> rfc_cb" where
  "PORT_FlowInd_with tx m dlci enable_data g =
     (if dlci = 0 then
        fold (\<lambda>i g. if p_in_use (c_port g i) \<and> p_mcb (c_port g i) = Some m \<and> p_rfc_state (c_port g i) = RFC_STATE_OPENED
                    then flow_port tx i g else g)
          [0..<MAX_RFC_PORTS] (upd_mux m (\<lambda>x. x\<lparr>m_peer_ready := enable_data\<rparr>) g)
      else case port_find_mcb_dlci_port m dlci g of
             None \<Rightarrow> g
           | Some i \<Rightarrow> flow_port tx i (upd_tx i (\<lambda>d. d\<lparr>d_peer_fc := \<not> enable_data\<rparr>) g))"

definition tx_none :: "nat \<Rightarrow> rfc_cb \<Rightarrow> u32 \<times> rfc_cb" where
  "tx_none i g = (0, g)"

text \<open>
  A frame function runs on the multiplexer \<open>m\<close>; the calls it made are carried out in order.  Those that
  hand a parsed message on are left to \<open>RFCOMM_BufDataInd\<close>.
\<close>

definition mcb_view :: "nat \<Rightarrow> rfc_cb \<Rightarrow> rfc_st" where
  "mcb_view m g = \<lparr>r_mcb = c_mcb g m, r_rx_frame = c_rx_frame g, r_peer_rx_disabled = c_peer_rx_disabled g,
     r_bufs = c_bufs g, r_congs = c_congs g, r_outs = []\<rparr>"

definition mcb_store :: "nat \<Rightarrow> rfc_st \<Rightarrow> rfc_cb \<Rightarrow> rfc_cb" where
  "mcb_store m s g = g\<lparr>c_mcb := (c_mcb g)(m := r_mcb s), c_rx_frame := r_rx_frame s, c_bufs := r_bufs s,
     c_congs := r_congs s\<rparr>"

definition exec_out :: "(nat \<Rightarrow> rfc_cb \<Rightarrow> u32 \<times> rfc_cb) \<Rightarrow> nat \<Rightarrow> rfc_out \<Rightarrow> rfc_cb \<Rightarrow> rfc_cb" where
  "exec_out tx m x g =
     (case x of
        L2CA_DataWrite lcid b \<Rightarrow> emit (Data_write lcid b) g
      | GKI_freebuf b \<Rightarrow> emit (Freebuf b) g
      | PORT_FlowInd dlci enable \<Rightarrow> PORT_FlowInd_with tx m dlci enable g
      | _ \<Rightarrow> g)"

definition on_mcb_with :: "(nat \<Rightarrow> rfc_cb \<Rightarrow> u32 \<times> rfc_cb) \<Rightarrow> nat \<Rightarrow> (rfc_st \<Rightarrow> rfc_st) \<Rightarrow> rfc_cb \<Rightarrow> rfc_cb" where
  "on_mcb_with tx m f g = (let s = f (mcb_view m g) in fold (exec_out tx m) (r_outs s) (mcb_store m s g))"

definition on_mcb :: "nat \<Rightarrow> (rfc_st \<Rightarrow> rfc_st) \<Rightarrow> rfc_cb \<Rightarrow> rfc_cb" where
  "on_mcb = on_mcb_with tx_none"

section \<open>Sending data\<close>

definition rfc_dec_credit :: "nat \<Rightarrow> rfc_cb \<Rightarrow> rfc_cb" where
  "rfc_dec_credit i g =
     (case p_mcb (c_port g i) of
        None \<Rightarrow> g
      | Some m \<Rightarrow>
          if m_flow (c_mcb g m) = PORT_FC_CREDIT then
            upd_port i (\<lambda>p. let c = (if p_credit_tx p > 0 then p_credit_tx p - 1 else p_credit_tx p);
                                p = p\<lparr>p_credit_tx := c\<rparr>
                            in if c = 0 then p\<lparr>p_tx := (p_tx p)\<lparr>d_peer_fc := True\<rparr>\<rparr> else p) g
          else g)"

text \<open>\<^verbatim>\<open>RFC_EVENT_DATA\<close> in the opened state: credits for the peer ride on the frame.\<close>

definition gives_credit :: "t_port \<Rightarrow> rfc_mcb \<Rightarrow> bt_buf \<Rightarrow> bool" where
  "gives_credit p x b \<longleftrightarrow> m_flow x = PORT_FC_CREDIT \<and> b_len b < p_peer_mtu p \<and> \<not> d_user_fc (p_rx p) \<and>
     p_credit_rx_max p > p_credit_rx p"

definition opened_data :: "nat \<Rightarrow> bt_buf \<Rightarrow> rfc_cb \<Rightarrow> rfc_cb" where
  "opened_data i b g =
     (case p_mcb (c_port g i) of
        None \<Rightarrow> g
      | Some m \<Rightarrow>
          (let p = c_port g i;
               gives = gives_credit p (c_mcb g m) b;
               b = b\<lparr>b_layer_specific := (if gives then ucast (ucast (p_credit_rx_max p - p_credit_rx p) :: u8) else 0)\<rparr>;
               g = (if gives then upd_port i (\<lambda>p. p\<lparr>p_credit_rx := p_credit_rx_max p\<rparr>) g else g)
           in rfc_dec_credit i (on_mcb m (rfc_send_buf_uih (p_dlci p) b) g)))"

definition rfc_port_sm_data :: "nat \<Rightarrow> bt_buf \<Rightarrow> rfc_cb \<Rightarrow> rfc_cb" where
  "rfc_port_sm_data i b g =
     (if p_rfc_state (c_port g i) = RFC_STATE_OPENED then opened_data i b g else emit (Freebuf b) g)"

definition RFCOMM_DataReq :: "nat \<Rightarrow> u8 \<Rightarrow> bt_buf \<Rightarrow> rfc_cb \<Rightarrow> rfc_cb" where
  "RFCOMM_DataReq m dlci b g =
     (case port_find_mcb_dlci_port m dlci g of None \<Rightarrow> g | Some j \<Rightarrow> rfc_port_sm_data j b g)"

text \<open>The loop, over the buffers that wait; the last argument collects the events.\<close>

definition tx_open :: "nat \<Rightarrow> rfc_cb \<Rightarrow> bool" where
  "tx_open i g \<longleftrightarrow> \<not> d_peer_fc (p_tx (c_port g i)) \<and>
     (case p_mcb (c_port g i) of None \<Rightarrow> False | Some m \<Rightarrow> m_peer_ready (c_mcb g m))"

fun tx_loop :: "bt_buf list \<Rightarrow> nat \<Rightarrow> rfc_cb \<Rightarrow> u32 \<Rightarrow> u32 \<times> rfc_cb" where
  "tx_loop [] i g events = (if tx_open i g then (events OR PORT_EV_TXEMPTY, g) else (events, g))"
| "tx_loop (b # q) i g events =
     (if tx_open i g then
        (let g = upd_tx i (\<lambda>d. d\<lparr>d_queue := q, d_queue_size := d_queue_size d - ucast (b_len b)\<rparr>) g;
             g = RFCOMM_DataReq (the (p_mcb (c_port g i))) (p_dlci (c_port g i)) b g;
             events = events OR PORT_EV_TXCHAR
         in if d_queue_size (p_tx (c_port g i)) = 0 then (events OR PORT_EV_TXEMPTY, g)
            else tx_loop q i g events)
      else (events, g))"

definition tx_all :: "nat \<Rightarrow> rfc_cb \<Rightarrow> u32 \<times> rfc_cb" where
  "tx_all i g = tx_loop (d_queue (p_tx (c_port g i))) i g 0"

definition port_rfc_send_tx_data :: "nat \<Rightarrow> rfc_cb \<Rightarrow> u32 \<times> rfc_cb" where
  "port_rfc_send_tx_data = port_rfc_send_tx_data_with tx_all"

definition PORT_FlowInd_port :: "nat \<Rightarrow> u8 \<Rightarrow> bool \<Rightarrow> rfc_cb \<Rightarrow> rfc_cb" where
  "PORT_FlowInd_port = PORT_FlowInd_with tx_all"

definition rfc_inc_credit :: "nat \<Rightarrow> u8 \<Rightarrow> rfc_cb \<Rightarrow> rfc_cb" where
  "rfc_inc_credit i credit g =
     (case p_mcb (c_port g i) of
        None \<Rightarrow> g
      | Some m \<Rightarrow>
          if m_flow (c_mcb g m) = PORT_FC_CREDIT then
            (let g = upd_port i (\<lambda>p. p\<lparr>p_credit_tx := p_credit_tx p + ucast credit\<rparr>) g
             in if d_peer_fc (p_tx (c_port g i)) then PORT_FlowInd_port m (p_dlci (c_port g i)) True g else g)
          else g)"

end
