(* ===== verification/Rfc_Fsm.thy ===== *)
theory Rfc_Fsm
  imports Rfc_State
begin

text \<open>
  The state machines of RFCOMM: the multiplexer (\<^verbatim>\<open>rfc_mx_fsm.c\<close>), the port (\<^verbatim>\<open>rfc_port_fsm.c\<close>), the calls
  between them and the port layer (\<^verbatim>\<open>rfc_port_if.c\<close>, \<^verbatim>\<open>port_rfc.c\<close>) and the callbacks of L2CAP
  (\<^verbatim>\<open>rfc_l2cap_if.c\<close>).

  The files call each other in both directions.  A function that is entered again for one event only
  (\<^verbatim>\<open>rfc_mx_sm_execute\<close> with \<^verbatim>\<open>RFC_MX_EVENT_CLOSE_REQ\<close>, for one) has a definition for that event, and the
  definition of the whole machine uses it for the event, so the calls need no mutual recursion; lemmas
  state that each of them is the machine on its event.
\<close>

section \<open>Multiplexer without ports\<close>

text \<open>\<^verbatim>\<open>RFC_MX_EVENT_CLOSE_REQ\<close>, and the timeout, in the connected state.\<close>

definition mx_disconnect :: "nat \<Rightarrow> rfc_cb \<Rightarrow> rfc_cb" where
  "mx_disconnect m g =
     on_mcb m (rfc_send_disc RFCOMM_MX_DLCI)
       (upd_mux m (\<lambda>x. x\<lparr>m_state := RFC_MX_STATE_DISC_WAIT_UA\<rparr>) (rfc_timer_start m RFC_DISC_TIMEOUT g))"

definition rfc_mx_close_req :: "nat \<Rightarrow> rfc_cb \<Rightarrow> rfc_cb" where
  "rfc_mx_close_req m g = (if m_state (c_mcb g m) = RFC_MX_STATE_CONNECTED then mx_disconnect m g else g)"

definition rfc_check_mcb_active :: "nat \<Rightarrow> rfc_cb \<Rightarrow> rfc_cb" where
  "rfc_check_mcb_active m g =
     (if \<exists>i \<in> set [0..<unat RFCOMM_MAX_DLCI]. m_port_inx (c_mcb g m) (of_nat i) \<noteq> 0
      then upd_mux m (\<lambda>x. x\<lparr>m_is_disc_initiator := False\<rparr>) g
      else if m_is_disc_initiator (c_mcb g m)
      then rfc_mx_close_req m (upd_mux m (\<lambda>x. x\<lparr>m_is_disc_initiator := False\<rparr>) g)
      else rfc_timer_start m RFC_MCB_RELEASE_INACT_TIMER g)"

definition unlink_port :: "nat \<Rightarrow> u8 \<Rightarrow> rfc_cb \<Rightarrow> rfc_cb" where
  "unlink_port m dlci = upd_mux m (\<lambda>x. x\<lparr>m_port_inx := (m_port_inx x)(dlci := 0)\<rparr>)"

definition link_port :: "nat \<Rightarrow> u8 \<Rightarrow> nat \<Rightarrow> rfc_cb \<Rightarrow> rfc_cb" where
  "link_port m dlci i g =
     upd_mux m (\<lambda>x. x\<lparr>m_port_inx := (m_port_inx x)(dlci := p_inx (c_port g i))\<rparr>) g"

section \<open>Closing a port\<close>

definition BT_BD_ANY :: bytes where "BT_BD_ANY = replicate 6 0xFF"

definition port_release_port :: "nat \<Rightarrow> rfc_cb \<Rightarrow> rfc_cb" where
  "port_release_port i g =
     (let p = c_port g i;
          g = fold (\<lambda>b. emit (Freebuf b)) (d_queue (p_rx p) @ d_queue (p_tx p)) g;
          g = upd_rx i (\<lambda>d. d\<lparr>d_queue := [], d_queue_size := 0\<rparr>) g;
          g = upd_tx i (\<lambda>d. d\<lparr>d_queue := [], d_queue_size := 0\<rparr>) g;
          g = upd_port i (\<lambda>p. p\<lparr>p_state := PORT_STATE_CLOSED\<rparr>) g
      in if p_rfc_state p \<noteq> RFC_STATE_CLOSED then g
         else
           (let g = (case p_mcb p of None \<Rightarrow> g | Some m \<Rightarrow> rfc_check_mcb_active m (unlink_port m (p_dlci p) g));
                g = rfc_port_timer_stop i g
            in upd_port i (\<lambda>p.
                 if p_keep_port_handle p then
                   (let q = port_set_defaults p
                    in q\<lparr>p_ev_mask := p_ev_mask p, p_callback := p_callback p, p_user_port_pars := p_user_port_pars p,
                         p_mtu := p_keep_mtu p, p_state := PORT_STATE_OPENING, p_mcb := None,
                         p_dlci := (if p_is_server p then p_dlci p AND 0xfe else p_dlci p),
                         p_local_ctrl := (p_local_ctrl q)\<lparr>pc_modem_signal := p_default_signal_state p\<rparr>,
                         p_bd_addr := BT_BD_ANY\<rparr>)
                 else port_zero) g))"

definition drop_signals :: "u8 \<Rightarrow> u8" where
  "drop_signals s = s AND NOT (PORT_DTRDSR_ON OR PORT_CTSRTS_ON OR PORT_DCD_ON)"

definition port_rfc_closed :: "nat \<Rightarrow> u8 \<Rightarrow> rfc_cb \<Rightarrow> rfc_cb" where
  "port_rfc_closed i res g =
     (let p = c_port g i
      in if p_state p = PORT_STATE_OPENING \<and> p_is_server p then
           (let g = upd_port i (\<lambda>p. p\<lparr>p_rfc_state := RFC_STATE_CLOSED\<rparr>) (rfc_port_timer_stop i g);
                g = (case p_mcb p of
                       None \<Rightarrow> g
                     | Some m \<Rightarrow> upd_port i (\<lambda>p. p\<lparr>p_mcb := None\<rparr>) (rfc_check_mcb_active m (unlink_port m (p_dlci p) g)))
            in upd_port i (\<lambda>p. p\<lparr>p_dlci := p_dlci p AND 0xfe\<rparr>) g)
         else
           (let lost = (p_state p \<noteq> PORT_STATE_CLOSING \<and> p_state p \<noteq> PORT_STATE_CLOSED);
                signals = drop_signals (pc_modem_signal (p_peer_ctrl p));
                events = (if lost then port_get_signal_changes p (pc_modem_signal (p_peer_ctrl p)) signals OR
                                         (p_ev_mask p AND PORT_EV_CONNECT_ERR)
                          else 0);
                g = (if lost then upd_port i (\<lambda>p. p\<lparr>p_line_status := p_line_status p OR LINE_STATUS_FAILED,
                                 p_peer_ctrl := (p_peer_ctrl p)\<lparr>pc_modem_signal := signals\<rparr>\<rparr>) g
                     else g);
                g = mgmt_event i res (port_event i events g);
                g = upd_port i (\<lambda>p. p\<lparr>p_rfc_state := RFC_STATE_CLOSED\<rparr>) g
            in port_release_port i g))"

definition rfc_port_closed :: "nat \<Rightarrow> rfc_cb \<Rightarrow> rfc_cb" where
  "rfc_port_closed i g =
     (let p = c_port g i;
          g = upd_port i (\<lambda>p. p\<lparr>p_rfc_state := RFC_STATE_CLOSED\<rparr>) (rfc_port_timer_stop i g);
          g = (case p_mcb p of None \<Rightarrow> g | Some m \<Rightarrow> rfc_check_mcb_active m (unlink_port m (p_dlci p) g))
      in port_rfc_closed i PORT_CLOSED g)"

definition ports_of :: "nat \<Rightarrow> (nat \<Rightarrow> rfc_cb \<Rightarrow> rfc_cb) \<Rightarrow> rfc_cb \<Rightarrow> rfc_cb" where
  "ports_of m f = fold (\<lambda>i g. if p_mcb (c_port g i) = Some m then f i g else g) [0..<MAX_RFC_PORTS]"

definition PORT_CloseInd :: "nat \<Rightarrow> rfc_cb \<Rightarrow> rfc_cb" where
  "PORT_CloseInd m g =
     rfc_release_multiplexer_channel m (ports_of m (\<lambda>i. port_rfc_closed i PORT_PEER_CONNECTION_FAILED) g)"

definition Port_TimeOutCloseMux :: "nat \<Rightarrow> rfc_cb \<Rightarrow> rfc_cb" where
  "Port_TimeOutCloseMux m = ports_of m (\<lambda>i. port_rfc_closed i PORT_PEER_TIMEOUT)"

definition PORT_DlcReleaseInd :: "nat \<Rightarrow> u8 \<Rightarrow> rfc_cb \<Rightarrow> rfc_cb" where
  "PORT_DlcReleaseInd m dlci g =
     (case port_find_mcb_dlci_port m dlci g of None \<Rightarrow> g | Some i \<Rightarrow> port_rfc_closed i PORT_CLOSED g)"

section \<open>Requests that send a multiplexer message\<close>

definition expect_rsp :: "nat \<Rightarrow> u8 \<Rightarrow> rfc_cb \<Rightarrow> rfc_cb" where
  "expect_rsp i r = upd_port i (\<lambda>p. p\<lparr>p_expected_rsp := p_expected_rsp p OR r\<rparr>)"

definition got_rsp :: "nat \<Rightarrow> u8 \<Rightarrow> rfc_cb \<Rightarrow> rfc_cb" where
  "got_rsp i r = upd_port i (\<lambda>p. p\<lparr>p_expected_rsp := p_expected_rsp p AND NOT r\<rparr>)"

definition RFCOMM_PN_CONV_LAYER_CBFC_I :: u8 where "RFCOMM_PN_CONV_LAYER_CBFC_I = 0xF0"
definition RFCOMM_PN_CONV_LAYER_CBFC_R :: u8 where "RFCOMM_PN_CONV_LAYER_CBFC_R = 0xE0"
definition RFCOMM_K_MAX :: u16 where "RFCOMM_K_MAX = 7"
definition PORT_FC_DEFAULT :: port_fc where "PORT_FC_DEFAULT = PORT_FC_CREDIT"

definition first_credits :: "t_port \<Rightarrow> u16" where
  "first_credits p = (if p_credit_rx_max p < RFCOMM_K_MAX then p_credit_rx_max p else RFCOMM_K_MAX)"

text \<open>Here and below the code uses the port without a test; with no port of the channel, which would be a null pointer, the model does nothing.\<close>

definition RFCOMM_ParNegReq :: "nat \<Rightarrow> u8 \<Rightarrow> u16 \<Rightarrow> rfc_cb \<Rightarrow> rfc_cb" where
  "RFCOMM_ParNegReq m dlci mtu g =
     (case port_find_mcb_dlci_port m dlci g of
        None \<Rightarrow> g
      | Some i \<Rightarrow>
          if m_state (c_mcb g m) \<noteq> RFC_MX_STATE_CONNECTED
          then upd_port i (\<lambda>p. p\<lparr>p_error := PORT_PAR_NEG_FAILED\<rparr>) g
          else
            (let flow = (if m_flow (c_mcb g m) = PORT_FC_UNDEFINED then PORT_FC_DEFAULT else m_flow (c_mcb g m));
                 credit = (flow = PORT_FC_CREDIT);
                 cl = (if credit then RFCOMM_PN_CONV_LAYER_CBFC_I else 0);
                 k = (if credit then first_credits (c_port g i) else 0);
                 g = (if credit then upd_port i (\<lambda>p. p\<lparr>p_credit_rx := k\<rparr>) g else g);
                 g = expect_rsp i RFC_RSP_PN g
             in rfc_port_timer_start i RFC_T2_TIMEOUT (on_mcb m (rfc_send_pn dlci True mtu cl (ucast k)) g)))"

definition RFCOMM_ParNegRsp :: "nat \<Rightarrow> u8 \<Rightarrow> u16 \<Rightarrow> u8 \<Rightarrow> u8 \<Rightarrow> rfc_cb \<Rightarrow> rfc_cb" where
  "RFCOMM_ParNegRsp m dlci mtu cl k g =
     (if m_state (c_mcb g m) \<noteq> RFC_MX_STATE_CONNECTED then g else on_mcb m (rfc_send_pn dlci False mtu cl k) g)"

definition RFCOMM_PortNegRsp :: "nat \<Rightarrow> u8 \<Rightarrow> port_state \<Rightarrow> u16 \<Rightarrow> rfc_cb \<Rightarrow> rfc_cb" where
  "RFCOMM_PortNegRsp m dlci pars param_mask g =
     (if m_state (c_mcb g m) \<noteq> RFC_MX_STATE_CONNECTED then g
      else on_mcb m (rfc_send_rpn dlci False (Some pars) param_mask) g)"

definition dlc_opened :: "t_port \<Rightarrow> bool" where
  "dlc_opened p \<longleftrightarrow> p_state p = PORT_STATE_OPENED \<and> p_rfc_state p = RFC_STATE_OPENED"

definition RFCOMM_ControlReq :: "nat \<Rightarrow> u8 \<Rightarrow> port_ctrl \<Rightarrow> rfc_cb \<Rightarrow> rfc_cb" where
  "RFCOMM_ControlReq m dlci pars g =
     (case port_find_mcb_dlci_port m dlci g of
        None \<Rightarrow> g
      | Some i \<Rightarrow>
          if \<not> dlc_opened (c_port g i) then g
          else
            (let g = upd_port i (\<lambda>p. p\<lparr>p_port_ctrl := p_port_ctrl p OR PORT_CTRL_REQ_SENT\<rparr>) g;
                 g = expect_rsp i RFC_RSP_MSC g
             in rfc_port_timer_start i RFC_T2_TIMEOUT (on_mcb m (rfc_send_msc dlci True pars) g)))"

definition RFCOMM_FlowReq :: "nat \<Rightarrow> u8 \<Rightarrow> bool \<Rightarrow> rfc_cb \<Rightarrow> rfc_cb" where
  "RFCOMM_FlowReq m dlci enable g =
     (case port_find_mcb_dlci_port m dlci g of
        None \<Rightarrow> g
      | Some i \<Rightarrow>
          if \<not> dlc_opened (c_port g i) then g
          else
            (let g = upd_port i (\<lambda>p. p\<lparr>p_local_ctrl := (p_local_ctrl p)\<lparr>pc_fc := \<not> enable\<rparr>\<rparr>) g;
                 g = expect_rsp i RFC_RSP_MSC g
             in rfc_port_timer_start i RFC_T2_TIMEOUT (on_mcb m (rfc_send_msc dlci True (p_local_ctrl (c_port g i))) g)))"

definition RFCOMM_LineStatusReq :: "nat \<Rightarrow> u8 \<Rightarrow> u8 \<Rightarrow> rfc_cb \<Rightarrow> rfc_cb" where
  "RFCOMM_LineStatusReq m dlci status g =
     (case port_find_mcb_dlci_port m dlci g of
        None \<Rightarrow> g
      | Some i \<Rightarrow>
          if \<not> dlc_opened (c_port g i) then g
          else rfc_port_timer_start i RFC_T2_TIMEOUT
                 (on_mcb m (rfc_send_rls dlci True status) (expect_rsp i RFC_RSP_RLS g)))"

definition port_flow_control_peer :: "nat \<Rightarrow> bool \<Rightarrow> u16 \<Rightarrow> rfc_cb \<Rightarrow> rfc_cb" where
  "port_flow_control_peer i enable count g =
     (case p_mcb (c_port g i) of
        None \<Rightarrow> g
      | Some m \<Rightarrow>
          if m_flow (c_mcb g m) = PORT_FC_CREDIT then
            (if enable then
               (let g = upd_port i (\<lambda>p. p\<lparr>p_credit_rx := (if count > p_credit_rx p then 0 else p_credit_rx p - count)\<rparr>) g;
                    p = c_port g i
                in if p_credit_rx p \<le> p_credit_rx_low p \<and> \<not> d_user_fc (p_rx p) \<and> p_credit_rx_max p > p_credit_rx p
                   then upd_port i (\<lambda>p. p\<lparr>p_credit_rx := p_credit_rx_max p, p_rx := (p_rx p)\<lparr>d_peer_fc := False\<rparr>\<rparr>)
                          (on_mcb m (rfc_send_credit (p_dlci p) (ucast (p_credit_rx_max p - p_credit_rx p))) g)
                   else g)
             else
               (let p = c_port g i
                in if p_data_callback p \<or> p_data_co_callback p \<or> length (d_queue (p_rx p)) \<ge> unat (p_credit_rx_max p)
                   then upd_rx i (\<lambda>d. d\<lparr>d_peer_fc := True\<rparr>) g
                   else g))
          else
            (let p = c_port g i
             in if enable then
                  (if d_peer_fc (p_rx p) \<and> unat (d_queue_size (p_rx p)) < PORT_RX_LOW_WM \<and>
                      length (d_queue (p_rx p)) < PORT_RX_BUF_LOW_WM
                   then (let g = upd_rx i (\<lambda>d. d\<lparr>d_peer_fc := False\<rparr>) g
                         in if d_user_fc (p_rx p) then g else RFCOMM_FlowReq m (p_dlci p) True g)
                   else g)
                else if p_data_callback p \<or> p_data_co_callback p \<or>
                        ((unat (d_queue_size (p_rx p)) > PORT_RX_HIGH_WM \<or>
                          length (d_queue (p_rx p)) > PORT_RX_BUF_HIGH_WM) \<and> \<not> d_peer_fc (p_rx p))
                then RFCOMM_FlowReq m (p_dlci p) False (upd_rx i (\<lambda>d. d\<lparr>d_peer_fc := True\<rparr>) g)
                else g))"

section \<open>The multiplexer\<close>

datatype mx_event =
    MX_START_REQ
  | MX_START_RSP u16
  | MX_CLOSE_REQ
  | MX_CONN_CNF u16
  | MX_CONN_IND u8
  | MX_CONF_CNF u16
  | MX_CONF_IND "u16 option"
  | MX_DISC_IND
  | MX_SABME
  | MX_UA
  | MX_DM
  | MX_DISC
  | MX_UIH bt_buf
  | MX_TIMEOUT

definition set_mx_state :: "nat \<Rightarrow> rfc_mx_state \<Rightarrow> rfc_cb \<Rightarrow> rfc_cb" where
  "set_mx_state m st = upd_mux m (\<lambda>x. x\<lparr>m_state := st\<rparr>)"

definition l2ca_disconnect :: "nat \<Rightarrow> rfc_cb \<Rightarrow> rfc_cb" where
  "l2ca_disconnect m g = emit (Disconnect_req (m_lcid (c_mcb g m))) g"

definition HCI_ERR_PAGE_TIMEOUT :: u16 where "HCI_ERR_PAGE_TIMEOUT = 4"

definition start_failed :: "nat \<Rightarrow> u16 \<Rightarrow> nat \<Rightarrow> rfc_cb \<Rightarrow> rfc_cb" where
  "start_failed m result i g =
     (let g = upd_port i (\<lambda>p. p\<lparr>p_error := (if result = HCI_ERR_PAGE_TIMEOUT then PORT_PAGE_TIMEOUT else PORT_START_FAILED)\<rparr>) g;
          g = rfc_release_multiplexer_channel m g;
          g = upd_port i (\<lambda>p. p\<lparr>p_mcb := None\<rparr>) g;
          g = port_event i (p_ev_mask (c_port g i) AND PORT_EV_CONNECT_ERR) g;
          g = mgmt_event i PORT_START_FAILED g
      in port_release_port i g)"

definition PORT_StartCnf :: "nat \<Rightarrow> u16 \<Rightarrow> rfc_cb \<Rightarrow> rfc_cb" where
  "PORT_StartCnf m result g =
     (let no_ports_up = (\<forall>i \<in> set [0..<MAX_RFC_PORTS]. p_mcb (c_port g i) \<noteq> Some m);
          g = ports_of m (\<lambda>i g. if result = RFCOMM_SUCCESS
                                then RFCOMM_ParNegReq m (p_dlci (c_port g i)) (p_mtu (c_port g i)) g
                                else start_failed m result i g) g
      in if no_ports_up then rfc_check_mcb_active m g else g)"

text \<open>\<^verbatim>\<open>RFC_MX_EVENT_START_RSP\<close>, which only the state that waits for the SABME acts on, and the search of \<^verbatim>\<open>PORT_StartInd\<close>.\<close>

definition mx_connected :: "nat \<Rightarrow> rfc_cb \<Rightarrow> rfc_cb" where
  "mx_connected m = upd_mux m (\<lambda>x. x\<lparr>m_state := RFC_MX_STATE_CONNECTED, m_peer_ready := True\<rparr>)"

definition mx_start_rsp :: "nat \<Rightarrow> u16 \<Rightarrow> rfc_cb \<Rightarrow> rfc_cb" where
  "mx_start_rsp m result g =
     (if result \<noteq> RFCOMM_SUCCESS then on_mcb m (rfc_send_dm RFCOMM_MX_DLCI True) g
      else mx_connected m (on_mcb m (rfc_send_ua RFCOMM_MX_DLCI) g))"

definition RFCOMM_StartRsp :: "nat \<Rightarrow> u16 \<Rightarrow> rfc_cb \<Rightarrow> rfc_cb" where
  "RFCOMM_StartRsp m result g =
     (if m_state (c_mcb g m) = RFC_MX_STATE_WAIT_SABME then mx_start_rsp m result g else g)"

definition PORT_StartInd :: "nat \<Rightarrow> rfc_cb \<Rightarrow> rfc_cb" where
  "PORT_StartInd m g =
     RFCOMM_StartRsp m
       (if \<exists>i \<in> set [0..<MAX_RFC_PORTS]. p_mcb (c_port g i) = None \<or> p_mcb (c_port g i) = Some m
        then RFCOMM_SUCCESS else RFCOMM_ERROR) g"

definition rfc_mx_send_config_req :: "nat \<Rightarrow> rfc_cb \<Rightarrow> rfc_cb" where
  "rfc_mx_send_config_req m g = emit (Config_req (m_lcid (c_mcb g m)) (of_nat L2CAP_MTU_SIZE)) g"

text \<open>The end of both configuration functions: the multiplexer goes on when both directions are configured.\<close>

definition mx_configured :: "nat \<Rightarrow> rfc_cb \<Rightarrow> rfc_cb" where
  "mx_configured m g =
     (if m_is_initiator (c_mcb g m)
      then rfc_timer_start m RFC_T1_TIMEOUT
             (on_mcb m (rfc_send_sabme RFCOMM_MX_DLCI) (set_mx_state m RFC_MX_STATE_SABME_WAIT_UA g))
      else rfc_timer_start m RFC_T2_TIMEOUT (set_mx_state m RFC_MX_STATE_WAIT_SABME g))"

definition rfc_mx_conf_cnf :: "nat \<Rightarrow> u16 \<Rightarrow> rfc_cb \<Rightarrow> rfc_cb" where
  "rfc_mx_conf_cnf m result g =
     (if result \<noteq> 0 then
        rfc_release_multiplexer_channel m
          (if m_is_initiator (c_mcb g m) then l2ca_disconnect m (PORT_StartCnf m result g) else g)
      else
        (let g = upd_mux m (\<lambda>x. x\<lparr>m_local_cfg_sent := True\<rparr>) g
         in if m_state (c_mcb g m) = RFC_MX_STATE_CONFIGURE \<and> m_peer_cfg_rcvd (c_mcb g m)
            then mx_configured m g else g))"

definition rfc_mx_conf_ind :: "nat \<Rightarrow> u16 option \<Rightarrow> rfc_cb \<Rightarrow> rfc_cb" where
  "rfc_mx_conf_ind m mtu g =
     (let g = upd_mux m (\<lambda>x. x\<lparr>m_peer_l2cap_mtu :=
                (case mtu of Some n \<Rightarrow> n | None \<Rightarrow> L2CAP_DEFAULT_MTU) - of_nat RFCOMM_MIN_OFFSET - 1\<rparr>) g;
          g = emit (Config_rsp (m_lcid (c_mcb g m))) g;
          g = upd_mux m (\<lambda>x. x\<lparr>m_peer_cfg_rcvd := True\<rparr>) g
      in if m_state (c_mcb g m) = RFC_MX_STATE_CONFIGURE \<and> m_local_cfg_sent (c_mcb g m)
         then mx_configured m g else g)"

text \<open>\<^verbatim>\<open>L2CA_ConnectReq\<close> with its answer.\<close>

definition l2ca_connect :: "nat \<Rightarrow> rfc_cb \<Rightarrow> rfc_cb" where
  "l2ca_connect m g =
     (let g = emit (Connect_req (m_bd_addr (c_mcb g m))) g
      in case c_lcids g of
           [] \<Rightarrow> upd_mux m (\<lambda>x. x\<lparr>m_lcid := 0\<rparr>) g
         | l # ls \<Rightarrow> upd_mux m (\<lambda>x. x\<lparr>m_lcid := l\<rparr>) (g\<lparr>c_lcids := ls\<rparr>))"

definition mx_conn_ind :: "nat \<Rightarrow> u8 \<Rightarrow> rfc_cb \<Rightarrow> rfc_cb" where
  "mx_conn_ind m pid g =
     (let g = rfc_timer_start m RFCOMM_CONN_TIMEOUT g;
          g = emit (Connect_rsp (m_bd_addr (c_mcb g m)) pid (m_lcid (c_mcb g m)) 0) g;
          g = rfc_mx_send_config_req m g
      in set_mx_state m RFC_MX_STATE_CONFIGURE g)"

definition rfc_mx_sm_state_idle :: "nat \<Rightarrow> mx_event \<Rightarrow> rfc_cb \<Rightarrow> rfc_cb" where
  "rfc_mx_sm_state_idle m event g =
     (case event of
        MX_START_REQ \<Rightarrow>
          (let g = upd_mux m (\<lambda>x. x\<lparr>m_peer_l2cap_mtu := L2CAP_DEFAULT_MTU - of_nat RFCOMM_MIN_OFFSET - 1\<rparr>) g;
               g = l2ca_connect m g
           in if m_lcid (c_mcb g m) = 0 then PORT_StartCnf m RFCOMM_ERROR g
              else set_mx_state m RFC_MX_STATE_WAIT_CONN_CNF (rfc_save_lcid_mcb (Some m) (m_lcid (c_mcb g m)) g))
      | MX_CONN_IND pid \<Rightarrow> mx_conn_ind m pid g
      | MX_DISC \<Rightarrow> on_mcb m (rfc_send_dm RFCOMM_MX_DLCI True) g
      | MX_UIH _ \<Rightarrow> on_mcb m (rfc_send_dm RFCOMM_MX_DLCI False) g
      | _ \<Rightarrow> g)"

text \<open>The loop that moves the ports of a multiplexer that gave up being the initiator to the other direction.\<close>

definition turn_port :: "nat \<Rightarrow> nat \<Rightarrow> rfc_cb \<Rightarrow> rfc_cb" where
  "turn_port m k g =
     (let d = of_nat (2 * k); idx = m_port_inx (c_mcb g m) d
      in if idx = 0 then g
         else upd_port (unat idx - 1) (\<lambda>p. p\<lparr>p_dlci := p_dlci p + 1\<rparr>)
                (upd_mux m (\<lambda>x. x\<lparr>m_port_inx := (m_port_inx x)(d := 0, d + 1 := idx)\<rparr>) g))"

definition turn_ports :: "nat \<Rightarrow> rfc_cb \<Rightarrow> rfc_cb" where
  "turn_ports m = fold (turn_port m) [0..<31]"

text \<open>The pending request of the peer takes the place of the local one.\<close>

definition accept_pending :: "nat \<Rightarrow> rfc_cb \<Rightarrow> rfc_cb" where
  "accept_pending m g =
     (let g = rfc_save_lcid_mcb None (m_lcid (c_mcb g m)) g;
          g = upd_mux m (\<lambda>x. x\<lparr>m_lcid := m_pending_lcid x, m_is_initiator := False, m_state := RFC_MX_STATE_IDLE\<rparr>) g;
          g = rfc_save_lcid_mcb (Some m) (m_lcid (c_mcb g m)) g;
          g = turn_ports m g
      in mx_conn_ind m (m_pending_id (c_mcb g m)) g)"

definition rfc_mx_sm_state_wait_conn_cnf :: "nat \<Rightarrow> mx_event \<Rightarrow> rfc_cb \<Rightarrow> rfc_cb" where
  "rfc_mx_sm_state_wait_conn_cnf m event g =
     (case event of
        MX_CONF_IND mtu \<Rightarrow> rfc_mx_conf_ind m mtu g
      | MX_CONN_CNF result \<Rightarrow>
          if result \<noteq> 0 then PORT_StartCnf m result (set_mx_state m RFC_MX_STATE_IDLE g)
          else rfc_mx_send_config_req m (set_mx_state m RFC_MX_STATE_CONFIGURE g)
      | MX_DISC_IND \<Rightarrow> PORT_CloseInd m (set_mx_state m RFC_MX_STATE_IDLE g)
      | MX_TIMEOUT \<Rightarrow>
          (let g = l2ca_disconnect m (set_mx_state m RFC_MX_STATE_IDLE g)
           in if m_pending_lcid (c_mcb g m) \<noteq> 0 then accept_pending m g else PORT_CloseInd m g)
      | _ \<Rightarrow> g)"

definition mx_start_lost :: "nat \<Rightarrow> rfc_cb \<Rightarrow> rfc_cb" where
  "mx_start_lost m g = PORT_StartCnf m RFCOMM_ERROR (l2ca_disconnect m (set_mx_state m RFC_MX_STATE_IDLE g))"

definition rfc_mx_sm_state_configure :: "nat \<Rightarrow> mx_event \<Rightarrow> rfc_cb \<Rightarrow> rfc_cb" where
  "rfc_mx_sm_state_configure m event g =
     (case event of
        MX_CONF_IND mtu \<Rightarrow> rfc_mx_conf_ind m mtu g
      | MX_CONF_CNF result \<Rightarrow> rfc_mx_conf_cnf m result g
      | MX_DISC_IND \<Rightarrow> PORT_CloseInd m (set_mx_state m RFC_MX_STATE_IDLE g)
      | MX_TIMEOUT \<Rightarrow> mx_start_lost m g
      | _ \<Rightarrow> g)"

definition rfc_mx_sm_sabme_wait_ua :: "nat \<Rightarrow> mx_event \<Rightarrow> rfc_cb \<Rightarrow> rfc_cb" where
  "rfc_mx_sm_sabme_wait_ua m event g =
     (case event of
        MX_DISC_IND \<Rightarrow> PORT_CloseInd m (set_mx_state m RFC_MX_STATE_IDLE g)
      | MX_UA \<Rightarrow> PORT_StartCnf m RFCOMM_SUCCESS (mx_connected m (rfc_timer_stop m g))
      | MX_DM \<Rightarrow> mx_start_lost m (rfc_timer_stop m g)
      | MX_CONF_IND _ \<Rightarrow> mx_start_lost m g
      | MX_CONF_CNF _ \<Rightarrow> mx_start_lost m g
      | MX_TIMEOUT \<Rightarrow> mx_start_lost m g
      | _ \<Rightarrow> g)"

definition mx_wait_lost :: "nat \<Rightarrow> rfc_cb \<Rightarrow> rfc_cb" where
  "mx_wait_lost m g = PORT_CloseInd m (l2ca_disconnect m (set_mx_state m RFC_MX_STATE_IDLE g))"

definition rfc_mx_sm_state_wait_sabme :: "nat \<Rightarrow> mx_event \<Rightarrow> rfc_cb \<Rightarrow> rfc_cb" where
  "rfc_mx_sm_state_wait_sabme m event g =
     (case event of
        MX_DISC_IND \<Rightarrow> PORT_CloseInd m (set_mx_state m RFC_MX_STATE_IDLE g)
      | MX_SABME \<Rightarrow>
          if m_pending_lcid (c_mcb g m) \<noteq> 0 then
            (let g = upd_mux m (\<lambda>x. x\<lparr>m_pending_lcid := 0\<rparr>) g;
                 g = on_mcb m (rfc_send_ua RFCOMM_MX_DLCI) g
             in PORT_StartCnf m RFCOMM_SUCCESS (mx_connected m (rfc_timer_stop m g)))
          else PORT_StartInd m (rfc_timer_stop m g)
      | MX_START_RSP result \<Rightarrow> mx_start_rsp m result g
      | MX_CONF_IND _ \<Rightarrow> mx_wait_lost m g
      | MX_CONF_CNF _ \<Rightarrow> mx_wait_lost m g
      | MX_TIMEOUT \<Rightarrow> mx_wait_lost m g
      | _ \<Rightarrow> g)"

definition rfc_mx_sm_state_connected :: "nat \<Rightarrow> mx_event \<Rightarrow> rfc_cb \<Rightarrow> rfc_cb" where
  "rfc_mx_sm_state_connected m event g =
     (case event of
        MX_TIMEOUT \<Rightarrow> mx_disconnect m g
      | MX_CLOSE_REQ \<Rightarrow> mx_disconnect m g
      | MX_DISC_IND \<Rightarrow> PORT_CloseInd m (set_mx_state m RFC_MX_STATE_IDLE g)
      | MX_DISC \<Rightarrow>
          (let g = on_mcb m (rfc_send_ua RFCOMM_MX_DLCI) g;
               g = (if m_is_initiator (c_mcb g m) then l2ca_disconnect m g else g)
           in PORT_CloseInd m g)
      | _ \<Rightarrow> g)"

definition mx_restart :: "nat \<Rightarrow> rfc_cb \<Rightarrow> rfc_cb" where
  "mx_restart m g =
     (let g = l2ca_connect m g
      in if m_lcid (c_mcb g m) = 0 then PORT_StartCnf m RFCOMM_ERROR g
         else
           (let g = rfc_save_lcid_mcb (Some m) (m_lcid (c_mcb g m)) g;
                g = fold (\<lambda>b. emit (Freebuf b)) (m_cmd_q (c_mcb g m)) g;
                g = upd_mux m (\<lambda>x. x\<lparr>m_cmd_q := []\<rparr>) g;
                g = rfc_timer_start m RFC_MCB_INIT_INACT_TIMER g
            in upd_mux m (\<lambda>x. x\<lparr>m_is_initiator := True, m_restart_required := False, m_local_cfg_sent := False,
                  m_peer_cfg_rcvd := False, m_state := RFC_MX_STATE_WAIT_CONN_CNF\<rparr>) g))"

definition mx_disconnected :: "nat \<Rightarrow> rfc_cb \<Rightarrow> rfc_cb" where
  "mx_disconnected m g =
     (let g = l2ca_disconnect m g
      in if m_restart_required (c_mcb g m) then mx_restart m g else rfc_release_multiplexer_channel m g)"

definition rfc_mx_sm_state_disc_wait_ua :: "nat \<Rightarrow> mx_event \<Rightarrow> rfc_cb \<Rightarrow> rfc_cb" where
  "rfc_mx_sm_state_disc_wait_ua m event g =
     (case event of
        MX_UA \<Rightarrow> mx_disconnected m g
      | MX_DM \<Rightarrow> mx_disconnected m g
      | MX_TIMEOUT \<Rightarrow> mx_disconnected m g
      | MX_DISC \<Rightarrow> on_mcb m (rfc_send_ua RFCOMM_MX_DLCI) g
      | MX_UIH b \<Rightarrow> on_mcb m (rfc_send_dm RFCOMM_MX_DLCI False) (emit (Freebuf b) g)
      | MX_START_REQ \<Rightarrow> upd_mux m (\<lambda>x. x\<lparr>m_restart_required := True\<rparr>) g
      | MX_DISC_IND \<Rightarrow> PORT_CloseInd m (set_mx_state m RFC_MX_STATE_IDLE g)
      | _ \<Rightarrow> g)"

definition rfc_mx_sm_execute :: "nat \<Rightarrow> mx_event \<Rightarrow> rfc_cb \<Rightarrow> rfc_cb" where
  "rfc_mx_sm_execute m event g =
     (case m_state (c_mcb g m) of
        RFC_MX_STATE_IDLE \<Rightarrow> rfc_mx_sm_state_idle m event g
      | RFC_MX_STATE_WAIT_CONN_CNF \<Rightarrow> rfc_mx_sm_state_wait_conn_cnf m event g
      | RFC_MX_STATE_CONFIGURE \<Rightarrow> rfc_mx_sm_state_configure m event g
      | RFC_MX_STATE_SABME_WAIT_UA \<Rightarrow> rfc_mx_sm_sabme_wait_ua m event g
      | RFC_MX_STATE_WAIT_SABME \<Rightarrow> rfc_mx_sm_state_wait_sabme m event g
      | RFC_MX_STATE_CONNECTED \<Rightarrow> rfc_mx_sm_state_connected m event g
      | RFC_MX_STATE_DISC_WAIT_UA \<Rightarrow> rfc_mx_sm_state_disc_wait_ua m event g)"

lemma mx_close_req_execute: "rfc_mx_close_req m g = rfc_mx_sm_execute m MX_CLOSE_REQ g"
  by (cases "m_state (c_mcb g m)")
     (simp_all add: rfc_mx_close_req_def rfc_mx_sm_execute_def rfc_mx_sm_state_idle_def
       rfc_mx_sm_state_wait_conn_cnf_def rfc_mx_sm_state_configure_def rfc_mx_sm_sabme_wait_ua_def
       rfc_mx_sm_state_wait_sabme_def rfc_mx_sm_state_connected_def rfc_mx_sm_state_disc_wait_ua_def)

lemma StartRsp_execute: "RFCOMM_StartRsp m result g = rfc_mx_sm_execute m (MX_START_RSP result) g"
  by (cases "m_state (c_mcb g m)")
     (simp_all add: RFCOMM_StartRsp_def rfc_mx_sm_execute_def rfc_mx_sm_state_idle_def
       rfc_mx_sm_state_wait_conn_cnf_def rfc_mx_sm_state_configure_def rfc_mx_sm_sabme_wait_ua_def
       rfc_mx_sm_state_wait_sabme_def rfc_mx_sm_state_connected_def rfc_mx_sm_state_disc_wait_ua_def)

end
