(* ===== verification/Rfc_Port.thy ===== *)
theory Rfc_Port
  imports Rfc_Fsm
begin

text \<open>
  The port side of RFCOMM: the negotiation and data functions of \<^verbatim>\<open>port_rfc.c\<close>, the port state machine and
  the multiplexer messages of \<^verbatim>\<open>rfc_port_fsm.c\<close>, the requests of \<^verbatim>\<open>rfc_port_if.c\<close> that run the machine, and the
  callbacks of L2CAP, of the security manager and of the timers.
\<close>

section \<open>Events that enter the machine again\<close>

definition set_port_state :: "nat \<Rightarrow> rfc_port_state \<Rightarrow> rfc_cb \<Rightarrow> rfc_cb" where
  "set_port_state i st = upd_port i (\<lambda>p. p\<lparr>p_rfc_state := st\<rparr>)"

text \<open>Runs a function with the multiplexer of the port, if it has one.\<close>

definition with_mcb :: "nat \<Rightarrow> (nat \<Rightarrow> rfc_cb \<Rightarrow> rfc_cb) \<Rightarrow> rfc_cb \<Rightarrow> rfc_cb" where
  "with_mcb i f g = (case p_mcb (c_port g i) of None \<Rightarrow> g | Some m \<Rightarrow> f m g)"

definition port_send_disc :: "nat \<Rightarrow> rfc_cb \<Rightarrow> rfc_cb" where
  "port_send_disc i g =
     (let g = rfc_port_timer_start i RFC_DISC_TIMEOUT g;
          g = with_mcb i (\<lambda>m g. on_mcb m (rfc_send_disc (p_dlci (c_port g i))) g) g
      in upd_port i (\<lambda>p. p\<lparr>p_expected_rsp := 0, p_rfc_state := RFC_STATE_DISC_WAIT_UA\<rparr>) g)"

definition sec_abort :: "nat \<Rightarrow> rfc_cb \<Rightarrow> rfc_cb" where
  "sec_abort i = with_mcb i (\<lambda>m g. emit (Sec_abort (m_bd_addr (c_mcb g m))) g)"

definition rfc_port_sm_close :: "nat \<Rightarrow> rfc_cb \<Rightarrow> rfc_cb" where
  "rfc_port_sm_close i g =
     (case p_rfc_state (c_port g i) of
        RFC_STATE_SABME_WAIT_UA \<Rightarrow> port_send_disc i g
      | RFC_STATE_OPENED \<Rightarrow> port_send_disc i g
      | RFC_STATE_ORIG_WAIT_SEC_CHECK \<Rightarrow> rfc_port_closed i (sec_abort i g)
      | _ \<Rightarrow> g)"

definition RFCOMM_DlcReleaseReq :: "nat \<Rightarrow> u8 \<Rightarrow> rfc_cb \<Rightarrow> rfc_cb" where
  "RFCOMM_DlcReleaseReq m dlci g =
     (case port_find_mcb_dlci_port m dlci g of None \<Rightarrow> g | Some i \<Rightarrow> rfc_port_sm_close i g)"

definition access_request :: "nat \<Rightarrow> bool \<Rightarrow> rfc_cb \<Rightarrow> rfc_cb" where
  "access_request i is_originator =
     with_mcb i (\<lambda>m g. emit (Sec_access_request (m_bd_addr (c_mcb g m)) is_originator (p_dlci (c_port g i) div 2) i) g)"

definition rfc_port_sm_open :: "nat \<Rightarrow> rfc_cb \<Rightarrow> rfc_cb" where
  "rfc_port_sm_open i g =
     (if p_rfc_state (c_port g i) = RFC_STATE_CLOSED
      then access_request i True (set_port_state i RFC_STATE_ORIG_WAIT_SEC_CHECK g) else g)"

text \<open>The machine reads one byte of the 16 bits of the result.\<close>

definition term_establish_rsp :: "nat \<Rightarrow> u16 \<Rightarrow> rfc_cb \<Rightarrow> rfc_cb" where
  "term_establish_rsp i result g =
     (if result AND 0xFF \<noteq> RFCOMM_SUCCESS
      then with_mcb i (\<lambda>m g. on_mcb m (rfc_send_dm (p_dlci (c_port g i)) True) g) g
      else set_port_state i RFC_STATE_OPENED
             (with_mcb i (\<lambda>m g. on_mcb m (rfc_send_ua (p_dlci (c_port g i))) g) g))"

definition rfc_port_sm_establish_rsp :: "nat \<Rightarrow> u16 \<Rightarrow> rfc_cb \<Rightarrow> rfc_cb" where
  "rfc_port_sm_establish_rsp i result g =
     (if p_rfc_state (c_port g i) = RFC_STATE_TERM_WAIT_SEC_CHECK then term_establish_rsp i result g else g)"

definition RFCOMM_DlcEstablishRsp :: "nat \<Rightarrow> u8 \<Rightarrow> u16 \<Rightarrow> rfc_cb \<Rightarrow> rfc_cb" where
  "RFCOMM_DlcEstablishRsp m dlci result g =
     (if m_state (c_mcb g m) \<noteq> RFC_MX_STATE_CONNECTED \<and> result = RFCOMM_SUCCESS then PORT_DlcReleaseInd m dlci g
      else case port_find_mcb_dlci_port m dlci g of None \<Rightarrow> g | Some i \<Rightarrow> rfc_port_sm_establish_rsp i result g)"

section \<open>Negotiation\<close>

definition PORT_PortNegCnf :: "nat \<Rightarrow> u8 \<Rightarrow> u16 \<Rightarrow> rfc_cb \<Rightarrow> rfc_cb" where
  "PORT_PortNegCnf m dlci result g =
     (case port_find_mcb_dlci_port m dlci g of
        None \<Rightarrow> g
      | Some i \<Rightarrow>
          if result \<noteq> RFCOMM_SUCCESS then
            (let g = upd_port i (\<lambda>p. p\<lparr>p_error := PORT_PORT_NEG_FAILED\<rparr>) g;
                 g = RFCOMM_DlcReleaseReq m (p_dlci (c_port g i)) g
             in port_rfc_closed i PORT_PORT_NEG_FAILED g)
          else if p_port_ctrl (c_port g i) AND PORT_CTRL_REQ_SENT = 0
          then with_mcb i (\<lambda>m g. RFCOMM_ControlReq m (p_dlci (c_port g i)) (p_local_ctrl (c_port g i)) g) g
          else g)"

definition RFCOMM_RPN_PM_MASK :: u16 where "RFCOMM_RPN_PM_MASK = 0x3F7F"

definition RFCOMM_PortNegReq :: "nat \<Rightarrow> u8 \<Rightarrow> port_state option \<Rightarrow> rfc_cb \<Rightarrow> rfc_cb" where
  "RFCOMM_PortNegReq m dlci pars g =
     (if m_state (c_mcb g m) \<noteq> RFC_MX_STATE_CONNECTED then PORT_PortNegCnf m dlci RFCOMM_ERROR g
      else case port_find_mcb_dlci_port m dlci g of
             None \<Rightarrow> g
           | Some i \<Rightarrow>
               (let g = expect_rsp i (if pars = None then RFC_RSP_RPN_REPLY else RFC_RSP_RPN) g
                in rfc_port_timer_start i RFC_T2_TIMEOUT (on_mcb m (rfc_send_rpn dlci True pars RFCOMM_RPN_PM_MASK) g)))"

definition UUID_SERVCLASS_DIALUP_NETWORKING :: u16 where "UUID_SERVCLASS_DIALUP_NETWORKING = 0x1103"
definition UUID_SERVCLASS_FAX :: u16 where "UUID_SERVCLASS_FAX = 0x1111"

text \<open>What both ends of an establishment do: the smaller size, the inactivity timer, and the word to the user.\<close>

definition limit_peer_mtu :: "nat \<Rightarrow> u16 \<Rightarrow> rfc_cb \<Rightarrow> rfc_cb" where
  "limit_peer_mtu i mtu = upd_port i (\<lambda>p. if mtu \<noteq> 0 \<and> mtu < p_peer_mtu p then p\<lparr>p_peer_mtu := mtu\<rparr> else p)"

definition report_open :: "nat \<Rightarrow> rfc_cb \<Rightarrow> rfc_cb" where
  "report_open i g =
     upd_port i (\<lambda>p. p\<lparr>p_state := PORT_STATE_OPENED\<rparr>)
       (mgmt_event i PORT_SUCCESS (port_event i (p_ev_mask (c_port g i) AND PORT_EV_CONNECTED) g))"

definition PORT_DlcEstablishCnf :: "nat \<Rightarrow> u8 \<Rightarrow> u16 \<Rightarrow> u16 \<Rightarrow> rfc_cb \<Rightarrow> rfc_cb" where
  "PORT_DlcEstablishCnf m dlci mtu result g =
     (case port_find_mcb_dlci_port m dlci g of
        None \<Rightarrow> g
      | Some i \<Rightarrow>
          if result \<noteq> RFCOMM_SUCCESS
          then port_rfc_closed i PORT_START_FAILED (upd_port i (\<lambda>p. p\<lparr>p_error := PORT_START_FAILED\<rparr>) g)
          else
            (let g = report_open i (rfc_timer_stop m (limit_peer_mtu i mtu g));
                 p = c_port g i
             in if p_uuid p = UUID_SERVCLASS_DIALUP_NETWORKING \<or> p_uuid p = UUID_SERVCLASS_FAX
                then with_mcb i (\<lambda>m g. RFCOMM_PortNegReq m (p_dlci p) None g) g
                else with_mcb i (\<lambda>m g. RFCOMM_ControlReq m (p_dlci p) (p_local_ctrl p) g) g))"

definition RFCOMM_DlcEstablishReq :: "nat \<Rightarrow> u8 \<Rightarrow> rfc_cb \<Rightarrow> rfc_cb" where
  "RFCOMM_DlcEstablishReq m dlci g =
     (if m_state (c_mcb g m) \<noteq> RFC_MX_STATE_CONNECTED then PORT_DlcEstablishCnf m dlci 0 RFCOMM_ERROR g
      else case port_find_mcb_dlci_port m dlci g of None \<Rightarrow> g | Some i \<Rightarrow> rfc_port_sm_open i g)"

definition PORT_DlcEstablishInd :: "nat \<Rightarrow> u8 \<Rightarrow> u16 \<Rightarrow> rfc_cb \<Rightarrow> rfc_cb" where
  "PORT_DlcEstablishInd m dlci mtu g =
     (let found = port_find_mcb_dlci_port m dlci g;
          (r, g) = (if found = None then port_find_dlci_port dlci g else (found, g))
      in case r of
           None \<Rightarrow> RFCOMM_DlcEstablishRsp m dlci RFCOMM_ERROR g
         | Some i \<Rightarrow>
             (let g = (if found = None then link_port m dlci i g else g);
                  g = rfc_timer_stop m (limit_peer_mtu i mtu g)
              in report_open i (RFCOMM_DlcEstablishRsp m dlci RFCOMM_SUCCESS g)))"

definition port_get_credits :: "nat \<Rightarrow> u8 \<Rightarrow> rfc_cb \<Rightarrow> rfc_cb" where
  "port_get_credits i k =
     upd_port i (\<lambda>p. if k = 0 then p\<lparr>p_tx := (p_tx p)\<lparr>d_peer_fc := True\<rparr>, p_credit_tx := ucast k\<rparr>
                     else p\<lparr>p_credit_tx := ucast k\<rparr>)"

definition agree_mtu :: "nat \<Rightarrow> u16 \<Rightarrow> rfc_cb \<Rightarrow> rfc_cb" where
  "agree_mtu i mtu =
     upd_port i (\<lambda>p. let n = (if p_mtu p < mtu then p_mtu p else mtu) in p\<lparr>p_mtu := n, p_peer_mtu := n\<rparr>)"

definition set_flow :: "nat \<Rightarrow> port_fc \<Rightarrow> rfc_cb \<Rightarrow> rfc_cb" where
  "set_flow m fl = upd_mux m (\<lambda>x. x\<lparr>m_flow := fl\<rparr>)"

definition PORT_ParNegInd :: "nat \<Rightarrow> u8 \<Rightarrow> u16 \<Rightarrow> u8 \<Rightarrow> u8 \<Rightarrow> rfc_cb \<Rightarrow> rfc_cb" where
  "PORT_ParNegInd m dlci mtu cl k g =
     (let found = port_find_mcb_dlci_port m dlci g;
          (r, g) = (if found = None then port_find_dlci_port dlci g else (found, g))
      in case r of
           None \<Rightarrow> rfc_check_mcb_active m (on_mcb m (rfc_send_dm dlci False) g)
         | Some i \<Rightarrow>
             (let g = (if found = None then link_port m dlci i g else g);
                  g = upd_port i (\<lambda>p. p\<lparr>p_bd_addr := m_bd_addr (c_mcb g m)\<rparr>) g;
                  g = upd_port i (\<lambda>p. p\<lparr>p_mcb := Some m\<rparr>) (port_select_mtu i g);
                  g = agree_mtu i mtu g;
                  g = (if m_flow (c_mcb g m) = PORT_FC_UNDEFINED
                       then set_flow m (if PORT_FC_DEFAULT = PORT_FC_TS710 \<or> cl = 0 then PORT_FC_TS710 else PORT_FC_CREDIT) g
                       else g)
              in if cl \<noteq> 0 \<and> m_flow (c_mcb g m) = PORT_FC_CREDIT
                 then (let our_k = first_credits (c_port g i);
                           g = upd_port i (\<lambda>p. p\<lparr>p_credit_rx := our_k\<rparr>) (port_get_credits i k g)
                       in RFCOMM_ParNegRsp m dlci (p_mtu (c_port g i)) RFCOMM_PN_CONV_LAYER_CBFC_R (ucast our_k) g)
                 else RFCOMM_ParNegRsp m dlci (p_mtu (c_port g i)) 0 0 g))"

definition PORT_ParNegCnf :: "nat \<Rightarrow> u8 \<Rightarrow> u16 \<Rightarrow> u8 \<Rightarrow> u8 \<Rightarrow> rfc_cb \<Rightarrow> rfc_cb" where
  "PORT_ParNegCnf m dlci mtu cl k g =
     (case port_find_mcb_dlci_port m dlci g of
        None \<Rightarrow> g
      | Some i \<Rightarrow>
          if m_flow (c_mcb g m) = PORT_FC_UNDEFINED \<and> PORT_FC_DEFAULT = PORT_FC_TS710 \<and> cl = RFCOMM_PN_CONV_LAYER_CBFC_R
          then rfc_port_closed i (on_mcb m (rfc_send_disc (p_dlci (c_port g i))) g)
          else
            (let g = (if m_flow (c_mcb g m) = PORT_FC_UNDEFINED
                      then set_flow m (if cl = RFCOMM_PN_CONV_LAYER_CBFC_R then PORT_FC_CREDIT else PORT_FC_TS710) g
                      else g);
                 g = agree_mtu i mtu g;
                 g = (if m_flow (c_mcb g m) = PORT_FC_CREDIT then port_get_credits i k g else g)
             in if p_state (c_port g i) = PORT_STATE_OPENING then RFCOMM_DlcEstablishReq m (p_dlci (c_port g i)) g else g))"

definition PORT_PortNegInd :: "nat \<Rightarrow> u8 \<Rightarrow> port_state \<Rightarrow> u16 \<Rightarrow> rfc_cb \<Rightarrow> rfc_cb" where
  "PORT_PortNegInd m dlci pars param_mask g =
     (let found = port_find_mcb_dlci_port m dlci g;
          (r, g) = (if found = None then port_find_dlci_port dlci g else (found, g))
      in case r of
           None \<Rightarrow> RFCOMM_PortNegRsp m dlci pars 0 g
         | Some i \<Rightarrow>
             (let g = (if found = None then link_port m dlci i g else g);
                  g = upd_port i (\<lambda>p. p\<lparr>p_peer_port_pars := pars\<rparr>) g
              in RFCOMM_PortNegRsp m dlci pars param_mask g))"

section \<open>Control and data\<close>

definition PORT_ControlInd :: "nat \<Rightarrow> u8 \<Rightarrow> port_ctrl \<Rightarrow> rfc_cb \<Rightarrow> rfc_cb" where
  "PORT_ControlInd m dlci pars g =
     (case port_find_mcb_dlci_port m dlci g of
        None \<Rightarrow> g
      | Some i \<Rightarrow>
          (let p = c_port g i;
               event = port_get_signal_changes p (pc_modem_signal (p_peer_ctrl p)) (pc_modem_signal pars);
               g = upd_port i (\<lambda>p. p\<lparr>p_peer_ctrl := pars\<rparr>) g;
               (event, g) =
                 (if p_port_ctrl p AND PORT_CTRL_REQ_SENT = 0
                  then (event, with_mcb i (\<lambda>m g. RFCOMM_ControlReq m (p_dlci p) (p_local_ctrl p) g) g)
                  else
                    (let event = (if p_port_ctrl p AND PORT_CTRL_IND_RECEIVED = 0
                                  then event OR (PORT_EV_CONNECTED AND p_ev_mask p) else event)
                     in if p_port_ctrl p AND PORT_CTRL_REQ_CONFIRMED \<noteq> 0
                        then (case port_rfc_send_tx_data i g of (e, g) \<Rightarrow> (event OR e, g)) else (event, g)));
               g = upd_port i (\<lambda>p. p\<lparr>p_port_ctrl := p_port_ctrl p OR (PORT_CTRL_IND_RECEIVED OR PORT_CTRL_IND_RESPONDED)\<rparr>) g;
               event = (if pc_break_signal pars \<noteq> 0 then event OR (PORT_EV_BREAK AND p_ev_mask (c_port g i)) else event)
           in port_event i event g))"

definition PORT_ControlCnf :: "nat \<Rightarrow> u8 \<Rightarrow> rfc_cb \<Rightarrow> rfc_cb" where
  "PORT_ControlCnf m dlci g =
     (case port_find_mcb_dlci_port m dlci g of
        None \<Rightarrow> g
      | Some i \<Rightarrow>
          (let p = c_port g i;
               received = (p_port_ctrl p AND PORT_CTRL_IND_RECEIVED \<noteq> 0);
               confirmed = (p_port_ctrl p AND PORT_CTRL_REQ_CONFIRMED \<noteq> 0);
               event = (if \<not> confirmed \<and> received then p_ev_mask p AND PORT_EV_CONNECTED else 0);
               g = (if confirmed then g
                    else upd_port i (\<lambda>p. p\<lparr>p_port_ctrl := p_port_ctrl p OR PORT_CTRL_REQ_CONFIRMED\<rparr>) g);
               (event, g) = (if received then (case port_rfc_send_tx_data i g of (e, g) \<Rightarrow> (event OR e, g)) else (event, g))
           in port_event i event g))"

definition PORT_ERR_OVERRUN :: u8 where "PORT_ERR_OVERRUN = 2"
definition PORT_ERR_BREAK :: u8 where "PORT_ERR_BREAK = 1"

definition PORT_LineStatusInd :: "nat \<Rightarrow> u8 \<Rightarrow> u8 \<Rightarrow> rfc_cb \<Rightarrow> rfc_cb" where
  "PORT_LineStatusInd m dlci line_status g =
     (case port_find_mcb_dlci_port m dlci g of
        None \<Rightarrow> g
      | Some i \<Rightarrow>
          (let event = (if line_status AND PORT_ERR_OVERRUN \<noteq> 0 then PORT_EV_OVERRUN else 0) OR
                       (if line_status AND PORT_ERR_BREAK \<noteq> 0 then PORT_EV_BREAK else 0) OR
                       (if line_status AND NOT (PORT_ERR_OVERRUN OR PORT_ERR_BREAK) \<noteq> 0 then PORT_EV_ERR else 0);
               g = upd_port i (\<lambda>p. p\<lparr>p_line_status := p_line_status p OR line_status\<rparr>) g
           in port_event i (p_ev_mask (c_port g i) AND event) g))"

definition rx_overrun :: "t_port \<Rightarrow> bt_buf \<Rightarrow> bool" where
  "rx_overrun p b \<longleftrightarrow> unat (d_queue_size (p_rx p) + ucast (b_len b)) > PORT_RX_CRITICAL_WM \<or>
     length (d_queue (p_rx p)) + 1 > unat (p_rx_buf_critical p)"

text \<open>The answer of \<^verbatim>\<open>p_data_co_callback\<close> to incoming data.\<close>

definition co_accepts :: "rfc_cb \<Rightarrow> bool \<times> rfc_cb" where
  "co_accepts g = (case c_co g of [] \<Rightarrow> (True, g) | a # as \<Rightarrow> (a, g\<lparr>c_co := as\<rparr>))"

definition PORT_DataInd :: "nat \<Rightarrow> u8 \<Rightarrow> bt_buf \<Rightarrow> rfc_cb \<Rightarrow> rfc_cb" where
  "PORT_DataInd m dlci b g =
     (case port_find_mcb_dlci_port m dlci g of
        None \<Rightarrow> emit (Freebuf b) g
      | Some i \<Rightarrow>
          (let p = c_port g i
           in if p_data_co_callback p then
                (case co_accepts (emit (Data_co_callback (p_inx p) b) g) of (accepted, g) \<Rightarrow>
                   if accepted then port_flow_control_peer i True 1 g else port_flow_control_peer i False 0 g)
              else if p_data_callback p then
                emit (Freebuf b) (emit (Data_callback (p_inx p) (b_packet b)) (port_flow_control_peer i True 1 g))
              else if rx_overrun p b then RFCOMM_LineStatusReq m dlci LINE_STATUS_OVERRUN (emit (Freebuf b) g)
              else
                (let rx_char1 = ps_rx_char1 (p_user_port_pars p);
                     flag = (rx_char1 \<noteq> 0 \<and> p_ev_mask p AND PORT_EV_RXFLAG \<noteq> 0 \<and> rx_char1 \<in> set (b_packet b));
                     g = upd_rx i (\<lambda>d. d\<lparr>d_queue := d_queue d @ [b], d_queue_size := d_queue_size d + ucast (b_len b)\<rparr>) g;
                     g = port_flow_control_peer i False 0 g
                 in if d_user_fc (p_rx (c_port g i))
                    then (if flag then upd_port i (\<lambda>p. p\<lparr>p_rx_flag_ev_pending := True\<rparr>) g else g)
                    else port_event i (((if flag then PORT_EV_RXFLAG else 0) OR PORT_EV_RXCHAR) AND p_ev_mask (c_port g i)) g)))"

section \<open>The port state machine\<close>

datatype port_event_t =
    EV_OPEN
  | EV_ESTABLISH_RSP u16
  | EV_CLOSE
  | EV_CLEAR
  | EV_DATA bt_buf
  | EV_SEC_COMPLETE u8
  | EV_SABME
  | EV_UA
  | EV_DM
  | EV_DISC
  | EV_UIH bt_buf
  | EV_TIMEOUT

definition BTM_SUCCESS :: u8 where "BTM_SUCCESS = 0"

definition port_send_dm :: "nat \<Rightarrow> bool \<Rightarrow> rfc_cb \<Rightarrow> rfc_cb" where
  "port_send_dm i pf = with_mcb i (\<lambda>m g. on_mcb m (rfc_send_dm (p_dlci (c_port g i)) pf) g)"

definition port_send_ua :: "nat \<Rightarrow> rfc_cb \<Rightarrow> rfc_cb" where
  "port_send_ua i = with_mcb i (\<lambda>m g. on_mcb m (rfc_send_ua (p_dlci (c_port g i))) g)"

definition port_release_ind :: "nat \<Rightarrow> rfc_cb \<Rightarrow> rfc_cb" where
  "port_release_ind i = with_mcb i (\<lambda>m g. PORT_DlcReleaseInd m (p_dlci (c_port g i)) g)"

definition port_establish_cnf :: "nat \<Rightarrow> u16 \<Rightarrow> rfc_cb \<Rightarrow> rfc_cb" where
  "port_establish_cnf i result =
     with_mcb i (\<lambda>m g. PORT_DlcEstablishCnf m (p_dlci (c_port g i)) (m_peer_l2cap_mtu (c_mcb g m)) result g)"

definition disc_initiator :: "nat \<Rightarrow> rfc_cb \<Rightarrow> rfc_cb" where
  "disc_initiator i = with_mcb i (\<lambda>m. upd_mux m (\<lambda>x. x\<lparr>m_is_disc_initiator := True\<rparr>))"

definition rfc_port_sm_state_closed :: "nat \<Rightarrow> port_event_t \<Rightarrow> rfc_cb \<Rightarrow> rfc_cb" where
  "rfc_port_sm_state_closed i event g =
     (case event of
        EV_OPEN \<Rightarrow> rfc_port_sm_open i g
      | EV_DATA b \<Rightarrow> emit (Freebuf b) g
      | EV_SABME \<Rightarrow>
          access_request i False (set_port_state i RFC_STATE_TERM_WAIT_SEC_CHECK (with_mcb i rfc_timer_stop g))
      | EV_DM \<Rightarrow> rfc_port_closed i g
      | EV_UIH b \<Rightarrow> port_send_dm i False (emit (Freebuf b) g)
      | EV_DISC \<Rightarrow> port_send_dm i False g
      | EV_TIMEOUT \<Rightarrow> with_mcb i Port_TimeOutCloseMux g
      | _ \<Rightarrow> g)"

definition rfc_port_sm_sabme_wait_ua :: "nat \<Rightarrow> port_event_t \<Rightarrow> rfc_cb \<Rightarrow> rfc_cb" where
  "rfc_port_sm_sabme_wait_ua i event g =
     (case event of
        EV_CLOSE \<Rightarrow> port_send_disc i g
      | EV_CLEAR \<Rightarrow> rfc_port_closed i g
      | EV_DATA b \<Rightarrow> emit (Freebuf b) g
      | EV_UA \<Rightarrow> port_establish_cnf i RFCOMM_SUCCESS (set_port_state i RFC_STATE_OPENED (rfc_port_timer_stop i g))
      | EV_DM \<Rightarrow> rfc_port_closed i (port_establish_cnf i RFCOMM_ERROR (disc_initiator i g))
      | EV_DISC \<Rightarrow> rfc_port_closed i (port_establish_cnf i RFCOMM_ERROR (port_send_ua i g))
      | EV_SABME \<Rightarrow> port_send_ua i g
      | EV_UIH b \<Rightarrow> emit (Freebuf b) g
      | EV_TIMEOUT \<Rightarrow> port_establish_cnf i RFCOMM_ERROR (set_port_state i RFC_STATE_CLOSED g)
      | _ \<Rightarrow> g)"

definition rfc_port_sm_term_wait_sec_check :: "nat \<Rightarrow> port_event_t \<Rightarrow> rfc_cb \<Rightarrow> rfc_cb" where
  "rfc_port_sm_term_wait_sec_check i event g =
     (case event of
        EV_SEC_COMPLETE res \<Rightarrow>
          if res \<noteq> BTM_SUCCESS
          then with_mcb i (\<lambda>_ g. port_rfc_closed i PORT_SEC_FAILED (disc_initiator i (port_send_dm i True g))) g
          else with_mcb i (\<lambda>m g. PORT_DlcEstablishInd m (p_dlci (c_port g i)) (m_peer_l2cap_mtu (c_mcb g m)) g) g
      | EV_CLEAR \<Rightarrow> rfc_port_closed i (sec_abort i g)
      | EV_DATA b \<Rightarrow> emit (Freebuf b) g
      | EV_DISC \<Rightarrow> port_release_ind i (port_send_ua i (set_port_state i RFC_STATE_CLOSED (sec_abort i g)))
      | EV_UIH b \<Rightarrow> emit (Freebuf b) g
      | EV_ESTABLISH_RSP result \<Rightarrow> term_establish_rsp i result g
      | _ \<Rightarrow> g)"

definition rfc_port_sm_orig_wait_sec_check :: "nat \<Rightarrow> port_event_t \<Rightarrow> rfc_cb \<Rightarrow> rfc_cb" where
  "rfc_port_sm_orig_wait_sec_check i event g =
     (case event of
        EV_SEC_COMPLETE res \<Rightarrow>
          if res \<noteq> BTM_SUCCESS
          then rfc_port_closed i
                 (with_mcb i (\<lambda>m g. PORT_DlcEstablishCnf m (p_dlci (c_port g i)) 0 RFCOMM_SECURITY_ERR g) (disc_initiator i g))
          else set_port_state i RFC_STATE_SABME_WAIT_UA
                 (rfc_port_timer_start i RFC_PORT_T1_TIMEOUT
                   (with_mcb i (\<lambda>m g. on_mcb m (rfc_send_sabme (p_dlci (c_port g i))) g) g))
      | EV_CLOSE \<Rightarrow> rfc_port_closed i (sec_abort i g)
      | EV_DATA b \<Rightarrow> emit (Freebuf b) g
      | EV_UIH b \<Rightarrow> emit (Freebuf b) g
      | _ \<Rightarrow> g)"

definition rfc_port_uplink_data :: "nat \<Rightarrow> bt_buf \<Rightarrow> rfc_cb \<Rightarrow> rfc_cb" where
  "rfc_port_uplink_data i b = with_mcb i (\<lambda>m g. PORT_DataInd m (p_dlci (c_port g i)) b g)"

definition rfc_port_sm_opened :: "nat \<Rightarrow> port_event_t \<Rightarrow> rfc_cb \<Rightarrow> rfc_cb" where
  "rfc_port_sm_opened i event g =
     (case event of
        EV_CLOSE \<Rightarrow> port_send_disc i g
      | EV_CLEAR \<Rightarrow> rfc_port_closed i g
      | EV_DATA b \<Rightarrow> opened_data i b g
      | EV_SABME \<Rightarrow> port_send_ua i g
      | EV_DM \<Rightarrow> rfc_port_closed i (port_release_ind i g)
      | EV_DISC \<Rightarrow>
          (let g = port_send_ua i (set_port_state i RFC_STATE_CLOSED g)
           in if d_queue (p_rx (c_port g i)) \<noteq> [] then rfc_port_timer_start i RFC_DISC_TIMEOUT g
              else port_release_ind i g)
      | EV_UIH b \<Rightarrow> rfc_port_uplink_data i b g
      | EV_TIMEOUT \<Rightarrow> with_mcb i Port_TimeOutCloseMux g
      | _ \<Rightarrow> g)"

definition rfc_port_sm_disc_wait_ua :: "nat \<Rightarrow> port_event_t \<Rightarrow> rfc_cb \<Rightarrow> rfc_cb" where
  "rfc_port_sm_disc_wait_ua i event g =
     (case event of
        EV_CLEAR \<Rightarrow> rfc_port_closed i g
      | EV_DATA b \<Rightarrow> emit (Freebuf b) g
      | EV_UA \<Rightarrow> rfc_port_closed i (disc_initiator i g)
      | EV_DM \<Rightarrow> rfc_port_closed i g
      | EV_SABME \<Rightarrow> port_send_dm i True g
      | EV_DISC \<Rightarrow> port_send_dm i True g
      | EV_UIH b \<Rightarrow> port_send_dm i False (emit (Freebuf b) g)
      | EV_TIMEOUT \<Rightarrow> rfc_port_closed i g
      | _ \<Rightarrow> g)"

definition rfc_port_sm_execute :: "nat \<Rightarrow> port_event_t \<Rightarrow> rfc_cb \<Rightarrow> rfc_cb" where
  "rfc_port_sm_execute i event g =
     (case p_rfc_state (c_port g i) of
        RFC_STATE_CLOSED \<Rightarrow> rfc_port_sm_state_closed i event g
      | RFC_STATE_SABME_WAIT_UA \<Rightarrow> rfc_port_sm_sabme_wait_ua i event g
      | RFC_STATE_ORIG_WAIT_SEC_CHECK \<Rightarrow> rfc_port_sm_orig_wait_sec_check i event g
      | RFC_STATE_TERM_WAIT_SEC_CHECK \<Rightarrow> rfc_port_sm_term_wait_sec_check i event g
      | RFC_STATE_OPENED \<Rightarrow> rfc_port_sm_opened i event g
      | RFC_STATE_DISC_WAIT_UA \<Rightarrow> rfc_port_sm_disc_wait_ua i event g)"

lemmas rfc_port_sm_states = rfc_port_sm_state_closed_def rfc_port_sm_sabme_wait_ua_def
  rfc_port_sm_orig_wait_sec_check_def rfc_port_sm_term_wait_sec_check_def rfc_port_sm_opened_def
  rfc_port_sm_disc_wait_ua_def

lemma port_events_execute:
  "rfc_port_sm_data i b g = rfc_port_sm_execute i (EV_DATA b) g"
  "rfc_port_sm_close i g = rfc_port_sm_execute i EV_CLOSE g"
  "rfc_port_sm_open i g = rfc_port_sm_execute i EV_OPEN g"
  "rfc_port_sm_establish_rsp i result g = rfc_port_sm_execute i (EV_ESTABLISH_RSP result) g"
  by (cases "p_rfc_state (c_port g i)",
      simp_all add: rfc_port_sm_execute_def rfc_port_sm_states rfc_port_sm_data_def rfc_port_sm_close_def
        rfc_port_sm_open_def rfc_port_sm_establish_rsp_def)+

section \<open>Messages of the multiplexer channel\<close>

definition rfc_process_pn :: "nat \<Rightarrow> bool \<Rightarrow> mx_frame \<Rightarrow> rfc_cb \<Rightarrow> rfc_cb" where
  "rfc_process_pn m is_command f g =
     (case f_u f of
        U_PN pn \<Rightarrow>
          if is_command then
            (if m_state (c_mcb g m) \<noteq> RFC_MX_STATE_DISC_WAIT_UA
             then PORT_ParNegInd m (f_dlci f) (pn_mtu pn) (pn_conv_layer pn) (pn_k pn) g
             else on_mcb m (rfc_send_dm (f_dlci f) False) g)
          else
            (case port_find_mcb_dlci_port m (f_dlci f) g of
               None \<Rightarrow> g
             | Some i \<Rightarrow>
                 if p_expected_rsp (c_port g i) AND RFC_RSP_PN = 0 then g
                 else PORT_ParNegCnf m (f_dlci f) (pn_mtu pn) (pn_conv_layer pn) (pn_k pn)
                        (rfc_port_timer_stop i (got_rsp i RFC_RSP_PN g)))
      | _ \<Rightarrow> g)"

definition rfc_set_port_state :: "port_state \<Rightarrow> rpn_pars \<Rightarrow> u16 \<Rightarrow> port_state" where
  "rfc_set_port_state pars r pmask = pars
     \<lparr>ps_baud_rate := (if pmask AND 0x0001 \<noteq> 0 then ps_baud_rate r else ps_baud_rate pars),
      ps_byte_size := (if pmask AND 0x0002 \<noteq> 0 then ps_byte_size r else ps_byte_size pars),
      ps_stop_bits := (if pmask AND 0x0004 \<noteq> 0 then ps_stop_bits r else ps_stop_bits pars),
      ps_parity := (if pmask AND 0x0008 \<noteq> 0 then ps_parity r else ps_parity pars),
      ps_parity_type := (if pmask AND 0x0010 \<noteq> 0 then ps_parity_type r else ps_parity_type pars),
      ps_fc_type := (if pmask AND 0x3F00 \<noteq> 0 then ps_fc_type r else ps_fc_type pars),
      ps_xon_char := (if pmask AND 0x0020 \<noteq> 0 then ps_xon_char r else ps_xon_char pars),
      ps_xoff_char := (if pmask AND 0x0040 \<noteq> 0 then ps_xoff_char r else ps_xoff_char pars)\<rparr>"

definition RTR_BOTH :: u8 where "RTR_BOTH = 0x0C"
definition RTC_BOTH :: u8 where "RTC_BOTH = 0x30"
definition PM_RTR_BOTH :: u16 where "PM_RTR_BOTH = 0x0C00"
definition PM_RTC_BOTH :: u16 where "PM_RTC_BOTH = 0x3000"

text \<open>A new proposal to the peer: the type of flow control is set, and a response is awaited.\<close>

definition propose_fc :: "nat \<Rightarrow> nat \<Rightarrow> u8 \<Rightarrow> u8 \<Rightarrow> u16 \<Rightarrow> rfc_cb \<Rightarrow> rfc_cb" where
  "propose_fc m i dlci fc pmask g =
     (let g = upd_port i (\<lambda>p. p\<lparr>p_peer_port_pars := (p_peer_port_pars p)\<lparr>ps_fc_type := fc\<rparr>\<rparr>) g;
          g = expect_rsp i RFC_RSP_RPN g
      in rfc_port_timer_start i RFC_T2_TIMEOUT
           (on_mcb m (rfc_send_rpn dlci True (Some (p_peer_port_pars (c_port g i))) pmask) g))"

definition rpn_judge :: "nat \<Rightarrow> nat \<Rightarrow> u8 \<Rightarrow> u16 \<Rightarrow> rfc_cb \<Rightarrow> rfc_cb" where
  "rpn_judge m i dlci pmask g =
     (if pmask AND PM_RTR_BOTH = PM_RTR_BOTH \<or> pmask AND PM_RTC_BOTH = PM_RTC_BOTH
      then PORT_PortNegCnf m (p_dlci (c_port g i)) RFCOMM_SUCCESS g
      else if ps_fc_type (p_peer_port_pars (c_port g i)) = RTR_BOTH then propose_fc m i dlci RTC_BOTH PM_RTC_BOTH g
      else if ps_fc_type (p_peer_port_pars (c_port g i)) = RTC_BOTH
      then PORT_PortNegCnf m (p_dlci (c_port g i)) RFCOMM_SUCCESS
             (upd_port i (\<lambda>p. p\<lparr>p_peer_port_pars := (p_peer_port_pars p)\<lparr>ps_fc_type := 0\<rparr>\<rparr>) g)
      else g)"

definition rpn_response :: "nat \<Rightarrow> nat \<Rightarrow> u8 \<Rightarrow> port_state \<Rightarrow> u16 \<Rightarrow> rfc_cb \<Rightarrow> rfc_cb" where
  "rpn_response m i dlci pars pmask g =
     (if p_expected_rsp (c_port g i) AND (RFC_RSP_RPN OR RFC_RSP_RPN_REPLY) = 0 then g
      else
        (let g = rfc_port_timer_stop i g
         in if p_expected_rsp (c_port g i) AND RFC_RSP_RPN_REPLY \<noteq> 0 then
              (let g = upd_port i (\<lambda>p. p\<lparr>p_peer_port_pars := pars\<rparr>) (got_rsp i RFC_RSP_RPN_REPLY g)
               in if ps_fc_type pars = RTR_BOTH \<or> ps_fc_type pars = RTC_BOTH
                  then rpn_judge m i dlci RFCOMM_RPN_PM_MASK g
                  else propose_fc m i dlci RTR_BOTH PM_RTR_BOTH g)
            else rpn_judge m i dlci pmask (got_rsp i RFC_RSP_RPN g)))"

definition rfc_process_rpn :: "nat \<Rightarrow> bool \<Rightarrow> bool \<Rightarrow> mx_frame \<Rightarrow> rfc_cb \<Rightarrow> rfc_cb" where
  "rfc_process_rpn m is_command is_request f g =
     (let (r, pmask) = (case f_u f of U_RPN r k \<Rightarrow> (r, k) | _ \<Rightarrow> c_stale g)
      in case port_find_mcb_dlci_port m (f_dlci f) g of
           None \<Rightarrow> if is_command then PORT_PortNegInd m (f_dlci f) (rfc_set_port_state pars_zero r pmask) pmask g else g
         | Some i \<Rightarrow>
             if is_command \<and> is_request
             then on_mcb m (rfc_send_rpn (f_dlci f) False (Some (p_peer_port_pars (c_port g i))) 0) g
             else
               (let pars = rfc_set_port_state (p_peer_port_pars (c_port g i)) r pmask
                in if is_command then PORT_PortNegInd m (f_dlci f) pars pmask g
                   else rpn_response m i (f_dlci f) pars pmask g))"

definition msc_pars :: "u8 \<Rightarrow> bool \<Rightarrow> u8 \<Rightarrow> port_ctrl" where
  "msc_pars signals break_present break_duration =
     \<lparr>pc_modem_signal = (if signals AND 0x04 \<noteq> 0 then 0x01 else 0) OR (if signals AND 0x08 \<noteq> 0 then 0x02 else 0) OR
        (if signals AND 0x40 \<noteq> 0 then 0x04 else 0) OR (if signals AND 0x80 \<noteq> 0 then 0x08 else 0),
      pc_break_signal = (if break_present then break_duration else 0), pc_discard_buffers = 0,
      pc_break_signal_seq = 1, pc_fc = (signals AND 0x02 = 0x02)\<rparr>"

definition rfc_process_msc :: "nat \<Rightarrow> bool \<Rightarrow> mx_frame \<Rightarrow> rfc_cb \<Rightarrow> rfc_cb" where
  "rfc_process_msc m is_command f g =
     (case (port_find_mcb_dlci_port m (f_dlci f) g, f_u f) of
        (Some i, U_MSC signals bp bd) \<Rightarrow>
          (let pars = msc_pars signals bp bd
           in if is_command then
                (let g = on_mcb m (rfc_send_msc (f_dlci f) False pars) g;
                     ts710 = (case p_mcb (c_port g i) of None \<Rightarrow> False | Some x \<Rightarrow> m_flow (c_mcb g x) \<noteq> PORT_FC_CREDIT);
                     g = (if ts710 then
                            (let g = upd_port i (\<lambda>p. p\<lparr>p_peer_ctrl := (p_peer_ctrl p)\<lparr>pc_fc := pc_fc pars\<rparr>\<rparr>) g
                             in if pc_fc pars \<noteq> d_peer_fc (p_tx (c_port g i))
                                then PORT_FlowInd_port m (f_dlci f) (\<not> pc_fc pars) g else g)
                          else g)
                 in PORT_ControlInd m (f_dlci f) pars g)
              else if p_expected_rsp (c_port g i) AND RFC_RSP_MSC = 0 then g
              else
                (let g = rfc_port_timer_stop i (got_rsp i RFC_RSP_MSC g)
                 in with_mcb i (\<lambda>m g. PORT_ControlCnf m (p_dlci (c_port g i)) g) g))
      | _ \<Rightarrow> g)"

definition rfc_process_rls :: "nat \<Rightarrow> bool \<Rightarrow> mx_frame \<Rightarrow> rfc_cb \<Rightarrow> rfc_cb" where
  "rfc_process_rls m is_command f g =
     (case f_u f of
        U_RLS line_status \<Rightarrow>
          if is_command
          then on_mcb m (rfc_send_rls (f_dlci f) False line_status) (PORT_LineStatusInd m (f_dlci f) line_status g)
          else (case port_find_mcb_dlci_port m (f_dlci f) g of
                  None \<Rightarrow> g
                | Some i \<Rightarrow> if p_expected_rsp (c_port g i) AND RFC_RSP_RLS = 0 then g
                            else rfc_port_timer_stop i (got_rsp i RFC_RSP_RLS g))
      | _ \<Rightarrow> g)"

definition rfc_process_fcon :: "nat \<Rightarrow> bool \<Rightarrow> rfc_cb \<Rightarrow> rfc_cb" where
  "rfc_process_fcon m is_command g =
     (if is_command then
        (let g = on_mcb m (rfc_send_fcon False) (g\<lparr>c_peer_rx_disabled := False\<rparr>)
         in if m_l2cap_congested (c_mcb g m) then g else PORT_FlowInd_port m 0 True g)
      else g)"

definition rfc_process_fcoff :: "nat \<Rightarrow> bool \<Rightarrow> rfc_cb \<Rightarrow> rfc_cb" where
  "rfc_process_fcoff m is_command g =
     (if is_command then
        (let g = g\<lparr>c_peer_rx_disabled := True\<rparr>;
             g = (if m_l2cap_congested (c_mcb g m) then g else PORT_FlowInd_port m 0 False g)
         in on_mcb m (rfc_send_fcoff False) g)
      else g)"

text \<open>The call that a parsed message ends in; \<^verbatim>\<open>rfc_process_nsc\<close> has an empty body.\<close>

definition mx_handle :: "nat \<Rightarrow> rfc_out \<Rightarrow> rfc_cb \<Rightarrow> rfc_cb" where
  "mx_handle m x g =
     (case x of
        Rfc_process_pn c f \<Rightarrow> rfc_process_pn m c f g
      | Rfc_process_test_rsp b \<Rightarrow> emit (Freebuf b) g
      | Rfc_process_fcon c \<Rightarrow> rfc_process_fcon m c g
      | Rfc_process_fcoff c \<Rightarrow> rfc_process_fcoff m c g
      | Rfc_process_msc c f \<Rightarrow> rfc_process_msc m c f g
      | Rfc_process_nsc f \<Rightarrow> g
      | Rfc_process_rpn c r f \<Rightarrow> rfc_process_rpn m c r f g
      | Rfc_process_rls c f \<Rightarrow> rfc_process_rls m c f g
      | _ \<Rightarrow> exec_out tx_none m x g)"

definition mx_message :: "nat \<Rightarrow> bt_buf \<Rightarrow> rfc_cb \<Rightarrow> rfc_cb" where
  "mx_message m b g =
     (let s = rfc_process_mx_message b (mcb_view m g) in fold (mx_handle m) (r_outs s) (mcb_store m s g))"

section \<open>Callbacks\<close>

definition L2CAP_CONN_NO_RESOURCES :: u16 where "L2CAP_CONN_NO_RESOURCES = 4"

definition RFCOMM_ConnectInd :: "bytes \<Rightarrow> u16 \<Rightarrow> u8 \<Rightarrow> rfc_cb \<Rightarrow> rfc_cb" where
  "RFCOMM_ConnectInd bd_addr lcid pid g =
     (case rfc_alloc_multiplexer_channel bd_addr False g of
        (None, g) \<Rightarrow> emit (Connect_rsp bd_addr pid lcid L2CAP_CONN_NO_RESOURCES) (rfc_save_lcid_mcb None lcid g)
      | (Some m, g) \<Rightarrow>
          if m_state (c_mcb g m) \<noteq> RFC_MX_STATE_IDLE then
            (if m_is_initiator (c_mcb g m) \<and> m_state (c_mcb g m) = RFC_MX_STATE_WAIT_CONN_CNF
             then rfc_timer_start m (ucast (c_ticks g mod 10 + 2))
                    (upd_mux m (\<lambda>x. x\<lparr>m_pending_lcid := lcid, m_pending_id := pid\<rparr>) g)
             else emit (Connect_rsp bd_addr pid lcid L2CAP_CONN_NO_RESOURCES) g)
          else rfc_mx_sm_execute m (MX_CONN_IND pid)
                 (upd_mux m (\<lambda>x. x\<lparr>m_lcid := lcid\<rparr>) (rfc_save_lcid_mcb (Some m) lcid g)))"

definition RFCOMM_ConnectCnf :: "u16 \<Rightarrow> u16 \<Rightarrow> rfc_cb \<Rightarrow> rfc_cb" where
  "RFCOMM_ConnectCnf lcid result g =
     (case rfc_find_lcid_mcb lcid g of
        None \<Rightarrow> g
      | Some m \<Rightarrow>
          (let pending = m_pending_lcid (c_mcb g m)
           in if pending \<noteq> 0 \<and> result \<noteq> 0 then accept_pending m g
              else
                (let g = (if pending \<noteq> 0
                          then upd_mux m (\<lambda>x. x\<lparr>m_pending_lcid := 0\<rparr>)
                                 (emit (Connect_rsp (m_bd_addr (c_mcb g m)) (m_pending_id (c_mcb g m)) pending
                                          L2CAP_CONN_NO_RESOURCES) g)
                          else g)
                 in rfc_mx_sm_execute m (MX_CONN_CNF result) (upd_mux m (\<lambda>x. x\<lparr>m_lcid := lcid\<rparr>) g))))"

definition RFCOMM_ConfigInd :: "u16 \<Rightarrow> u16 option \<Rightarrow> rfc_cb \<Rightarrow> rfc_cb" where
  "RFCOMM_ConfigInd lcid mtu g =
     (case rfc_find_lcid_mcb lcid g of None \<Rightarrow> g | Some m \<Rightarrow> rfc_mx_sm_execute m (MX_CONF_IND mtu) g)"

definition RFCOMM_ConfigCnf :: "u16 \<Rightarrow> u16 \<Rightarrow> rfc_cb \<Rightarrow> rfc_cb" where
  "RFCOMM_ConfigCnf lcid result g =
     (case rfc_find_lcid_mcb lcid g of None \<Rightarrow> g | Some m \<Rightarrow> rfc_mx_sm_execute m (MX_CONF_CNF result) g)"

definition RFCOMM_DisconnectInd :: "u16 \<Rightarrow> bool \<Rightarrow> rfc_cb \<Rightarrow> rfc_cb" where
  "RFCOMM_DisconnectInd lcid is_conf_needed g =
     (let found = rfc_find_lcid_mcb lcid g;
          g = (if is_conf_needed then emit (Disconnect_rsp lcid) g else g)
      in case found of None \<Rightarrow> g | Some m \<Rightarrow> rfc_mx_sm_execute m MX_DISC_IND g)"

definition mx_frame_event :: "rfc_event \<Rightarrow> mx_event option" where
  "mx_frame_event e = (case e of RFC_EVENT_SABME \<Rightarrow> Some MX_SABME | RFC_EVENT_UA \<Rightarrow> Some MX_UA
     | RFC_EVENT_DM \<Rightarrow> Some MX_DM | RFC_EVENT_DISC \<Rightarrow> Some MX_DISC | _ \<Rightarrow> None)"

definition port_frame_event :: "rfc_event \<Rightarrow> port_event_t option" where
  "port_frame_event e = (case e of RFC_EVENT_SABME \<Rightarrow> Some EV_SABME | RFC_EVENT_UA \<Rightarrow> Some EV_UA
     | RFC_EVENT_DM \<Rightarrow> Some EV_DM | RFC_EVENT_DISC \<Rightarrow> Some EV_DISC | _ \<Rightarrow> None)"

text \<open>A frame for a port: data with its credits, or a control frame.\<close>

definition port_frame :: "nat \<Rightarrow> rfc_event \<Rightarrow> bt_buf \<Rightarrow> rfc_cb \<Rightarrow> rfc_cb" where
  "port_frame i event b g =
     (if event = RFC_EVENT_UIH then
        (let g = (if b_len b > 0 then rfc_port_sm_execute i (EV_UIH b) g else emit (Freebuf b) g)
         in if f_credit (c_rx_frame g) \<noteq> 0 then rfc_inc_credit i (f_credit (c_rx_frame g)) g else g)
      else emit (Freebuf b)
             (case port_frame_event event of None \<Rightarrow> g | Some e \<Rightarrow> rfc_port_sm_execute i e g))"

text \<open>A frame for a channel without a port: only a SABME can find one that waits for it.\<close>

definition new_dlc :: "nat \<Rightarrow> rfc_event \<Rightarrow> mx_frame \<Rightarrow> bt_buf \<Rightarrow> rfc_cb \<Rightarrow> rfc_cb" where
  "new_dlc m event f b g =
     (if event \<noteq> RFC_EVENT_SABME
      then emit (Freebuf b)
             (if RFCOMM_FRAME_IS_CMD (m_is_initiator (c_mcb g m)) (f_cr f)
              then on_mcb m (rfc_send_dm (f_dlci f) (f_pf f)) g else g)
      else case port_find_dlci_port (f_dlci f) g of
             (None, g) \<Rightarrow> emit (Freebuf b) (on_mcb m (rfc_send_dm (f_dlci f) True) g)
           | (Some i, g) \<Rightarrow>
               port_frame i event b (upd_port i (\<lambda>p. p\<lparr>p_mcb := Some m\<rparr>) (link_port m (f_dlci f) i g)))"

definition RFCOMM_BufDataInd :: "u16 \<Rightarrow> bt_buf \<Rightarrow> rfc_cb \<Rightarrow> rfc_cb" where
  "RFCOMM_BufDataInd lcid b g =
     (case rfc_find_lcid_mcb lcid g of
        None \<Rightarrow> emit (Freebuf b) g
      | Some m \<Rightarrow>
          (case rfc_parse_data (c_mcb g m) (c_rx_frame g) b of (event, f, b) \<Rightarrow>
             (let g = g\<lparr>c_rx_frame := f\<rparr>
              in if event = RFC_EVENT_BAD_FRAME then emit (Freebuf b) g
                 else if f_dlci f = RFCOMM_MX_DLCI then
                   (if event = RFC_EVENT_UIH then mx_message m b g
                    else emit (Freebuf b)
                           (case mx_frame_event event of None \<Rightarrow> g | Some e \<Rightarrow> rfc_mx_sm_execute m e g))
                 else
                   (case port_find_mcb_dlci_port m (f_dlci f) g of
                      Some i \<Rightarrow>
                        if p_mcb (c_port g i) \<noteq> None then port_frame i event b g
                        else new_dlc m event f b g
                    | None \<Rightarrow> new_dlc m event f b g))))"

definition RFCOMM_CongestionStatusInd :: "u16 \<Rightarrow> bool \<Rightarrow> rfc_cb \<Rightarrow> rfc_cb" where
  "RFCOMM_CongestionStatusInd lcid is_congested g =
     (case rfc_find_lcid_mcb lcid g of
        None \<Rightarrow> g
      | Some m \<Rightarrow> on_mcb_with tx_all m (rfc_process_l2cap_congestion is_congested) g)"

definition rfc_sec_check_complete :: "nat \<Rightarrow> u8 \<Rightarrow> rfc_cb \<Rightarrow> rfc_cb" where
  "rfc_sec_check_complete i res g =
     (if \<not> p_in_use (c_port g i) \<or>
         (p_rfc_state (c_port g i) \<noteq> RFC_STATE_ORIG_WAIT_SEC_CHECK \<and> p_rfc_state (c_port g i) \<noteq> RFC_STATE_TERM_WAIT_SEC_CHECK)
      then g else rfc_port_sm_execute i (EV_SEC_COMPLETE res) g)"

text \<open>A timer that expires is no longer in its list when its function runs.\<close>

definition rfcomm_mux_timeout :: "nat \<Rightarrow> rfc_cb \<Rightarrow> rfc_cb" where
  "rfcomm_mux_timeout m g =
     (if m_tle (c_mcb g m) = None then g else rfc_mx_sm_execute m MX_TIMEOUT (rfc_timer_stop m g))"

definition rfcomm_port_timeout :: "nat \<Rightarrow> rfc_cb \<Rightarrow> rfc_cb" where
  "rfcomm_port_timeout i g =
     (if p_tle (c_port g i) = None then g else rfc_port_sm_execute i EV_TIMEOUT (rfc_port_timer_stop i g))"

end
