(* ===== verification/Rfc_Api.thy ===== *)
theory Rfc_Api
  imports Rfc_Port
begin

text \<open>
  The interface of RFCOMM to its users, \<^verbatim>\<open>port_api.c\<close>, with the functions of \<^verbatim>\<open>port_rfc.c\<close> that only it calls.
  A function returns its code; results that the C functions store through pointers are returned too.
\<close>

section \<open>Result codes\<close>

definition PORT_UNKNOWN_ERROR :: u8 where "PORT_UNKNOWN_ERROR = 1"
definition PORT_ALREADY_OPENED :: u8 where "PORT_ALREADY_OPENED = 2"
definition PORT_CMD_PENDING :: u8 where "PORT_CMD_PENDING = 3"
definition PORT_NO_MEM :: u8 where "PORT_NO_MEM = 5"
definition PORT_NO_RESOURCES :: u8 where "PORT_NO_RESOURCES = 6"
definition PORT_BAD_HANDLE :: u8 where "PORT_BAD_HANDLE = 9"
definition PORT_NOT_OPENED :: u8 where "PORT_NOT_OPENED = 10"
definition PORT_LINE_ERR :: u8 where "PORT_LINE_ERR = 11"
definition PORT_TX_FULL :: u8 where "PORT_TX_FULL = 20"
definition PORT_TX_QUEUE_DISABLED :: u8 where "PORT_TX_QUEUE_DISABLED = 23"
definition PORT_INVALID_SCN :: u8 where "PORT_INVALID_SCN = 25"

text \<open>The tests that open most functions, with the results of a failure.\<close>

definition handle_error :: "u16 \<Rightarrow> rfc_cb \<Rightarrow> u8 option" where
  "handle_error handle g =
     (if handle = 0 \<or> unat handle > MAX_RFC_PORTS then Some PORT_BAD_HANDLE
      else if \<not> p_in_use (c_port g (unat handle - 1)) \<or> p_state (c_port g (unat handle - 1)) = PORT_STATE_CLOSED
      then Some PORT_NOT_OPENED else None)"

definition with_handle :: "u16 \<Rightarrow> (nat \<Rightarrow> rfc_cb \<Rightarrow> u8 \<times> rfc_cb) \<Rightarrow> rfc_cb \<Rightarrow> u8 \<times> rfc_cb" where
  "with_handle handle f g = (case handle_error handle g of Some e \<Rightarrow> (e, g) | None \<Rightarrow> f (unat handle - 1) g)"

section \<open>Opening and closing\<close>

definition RFCOMM_Init :: "rfc_cb \<Rightarrow> rfc_cb" where
  "RFCOMM_Init g = g\<lparr>c_port := (\<lambda>_. port_zero), c_mcb := (\<lambda>_. mcb_zero),
     c_rx_frame := \<lparr>f_dlci = 0, f_type = 0, f_cr = False, f_ea = False, f_pf = False, f_credit = 0, f_u = U_NONE\<rparr>,
     c_lcid_mcb := (\<lambda>_. None), c_peer_rx_disabled := False, c_last_mux := MAX_BD_CONNECTIONS, c_last_port := 0\<rparr>"

definition RFCOMM_StartReq :: "nat \<Rightarrow> rfc_cb \<Rightarrow> rfc_cb" where
  "RFCOMM_StartReq m = rfc_mx_sm_execute m MX_START_REQ"

definition port_open_continue :: "nat \<Rightarrow> rfc_cb \<Rightarrow> u8 \<times> rfc_cb" where
  "port_open_continue i g =
     (case rfc_alloc_multiplexer_channel (p_bd_addr (c_port g i)) True g of
        (None, g) \<Rightarrow> (PORT_NO_RESOURCES, port_release_port i g)
      | (Some m, g) \<Rightarrow>
          (let g = upd_port i (\<lambda>p. p\<lparr>p_mcb := Some m\<rparr>) g;
               g = link_port m (p_dlci (c_port g i)) i g;
               g = port_select_mtu i g
           in (PORT_SUCCESS,
               if m_state (c_mcb g m) = RFC_MX_STATE_CONNECTED
               then RFCOMM_ParNegReq m (p_dlci (c_port g i)) (p_mtu (c_port g i)) g
               else if m_state (c_mcb g m) = RFC_MX_STATE_IDLE \<or> m_state (c_mcb g m) = RFC_MX_STATE_DISC_WAIT_UA
               then RFCOMM_StartReq m g
               else g)))"

definition signal_state :: "u16 \<Rightarrow> u8" where
  "signal_state uuid =
     (if uuid = UUID_SERVCLASS_DIALUP_NETWORKING \<or> uuid = UUID_SERVCLASS_FAX
      then PORT_DTRDSR_ON OR PORT_CTSRTS_ON else PORT_DTRDSR_ON OR PORT_CTSRTS_ON OR PORT_DCD_ON)"

text \<open>The channel of a service: odd for a client on a multiplexer that the peer started.\<close>

definition client_dlci :: "u8 \<Rightarrow> bool \<Rightarrow> bytes \<Rightarrow> rfc_cb \<Rightarrow> u8" where
  "client_dlci scn is_server bd_addr g =
     (case port_find_mcb bd_addr g of
        Some m \<Rightarrow> if \<not> m_is_initiator (c_mcb g m) \<and> \<not> is_server then push_bit 1 scn + 1 else push_bit 1 scn
      | None \<Rightarrow> push_bit 1 scn)"

definition RFCOMM_CreateConnection ::
  "u16 \<Rightarrow> u8 \<Rightarrow> bool \<Rightarrow> u16 \<Rightarrow> bytes \<Rightarrow> bool \<Rightarrow> rfc_cb \<Rightarrow> u8 \<times> u16 \<times> rfc_cb" where
  "RFCOMM_CreateConnection uuid scn is_server mtu bd_addr mgmt_cb g =
     (if scn = 0 \<or> scn \<ge> PORT_MAX_RFC_PORTS then (PORT_INVALID_SCN, 0, g)
      else
        (let dlci = client_dlci scn is_server bd_addr g;
             opened = (case port_find_port dlci bd_addr g of None \<Rightarrow> False | Some i \<Rightarrow> \<not> p_is_server (c_port g i))
         in if \<not> is_server \<and> opened then (PORT_ALREADY_OPENED, 0, g)
            else
              (case port_allocate_port dlci bd_addr g of
                 (None, g) \<Rightarrow> (PORT_NO_RESOURCES, 0, g)
               | (Some i, g) \<Rightarrow>
                   (let rfcomm_mtu = of_nat (L2CAP_MTU_SIZE - RFCOMM_DATA_OVERHEAD);
                        size = (if mtu \<noteq> 0 \<and> mtu < rfcomm_mtu then mtu else rfcomm_mtu);
                        signals = signal_state uuid;
                        handle = ucast (p_inx (c_port g i));
                        g = upd_port i (\<lambda>p. p\<lparr>p_state := PORT_STATE_OPENING, p_scn := scn, p_uuid := uuid,
                              p_bd_addr := bd_addr, p_is_server := is_server, p_default_signal_state := signals,
                              p_mtu := size, p_local_ctrl := (p_local_ctrl p)\<lparr>pc_modem_signal := signals, pc_fc := False\<rparr>,
                              p_ev_mask := 0, p_mgmt_callback := mgmt_cb, p_keep_port_handle := is_server,
                              p_keep_mtu := (if is_server then size else p_keep_mtu p)\<rparr>) g
                    in if is_server then (PORT_SUCCESS, handle, g)
                       else case port_open_continue i g of (rc, g) \<Rightarrow> (rc, handle, g)))))"

definition port_start_close :: "nat \<Rightarrow> rfc_cb \<Rightarrow> rfc_cb" where
  "port_start_close i g =
     (let p = c_port g i;
          signals = drop_signals (pc_modem_signal (p_peer_ctrl p));
          events = port_get_signal_changes p (pc_modem_signal (p_peer_ctrl p)) signals OR
                   (p_ev_mask p AND PORT_EV_CONNECT_ERR) OR (p_ev_mask p AND PORT_EV_ERR);
          g = upd_port i (\<lambda>p. p\<lparr>p_line_status := p_line_status p OR LINE_STATUS_FAILED,
                p_peer_ctrl := (p_peer_ctrl p)\<lparr>pc_modem_signal := signals\<rparr>\<rparr>) g;
          g = port_event i events g
      in case p_mcb p of
           None \<Rightarrow> port_release_port i (mgmt_event i PORT_CLOSED g)
         | Some m \<Rightarrow>
             if p_rfc_state p = RFC_STATE_CLOSED then port_release_port i (mgmt_event i PORT_CLOSED g)
             else RFCOMM_DlcReleaseReq m (p_dlci p) g)"

definition RFCOMM_RemoveConnection :: "u16 \<Rightarrow> rfc_cb \<Rightarrow> u8 \<times> rfc_cb" where
  "RFCOMM_RemoveConnection handle g =
     (case handle_error handle g of
        Some e \<Rightarrow> (if e = PORT_BAD_HANDLE then e else PORT_SUCCESS, g)
      | None \<Rightarrow> (let i = unat handle - 1
                in (PORT_SUCCESS, port_start_close i (upd_port i (\<lambda>p. p\<lparr>p_state := PORT_STATE_CLOSING\<rparr>) g))))"

definition RFCOMM_RemoveServer :: "u16 \<Rightarrow> rfc_cb \<Rightarrow> u8 \<times> rfc_cb" where
  "RFCOMM_RemoveServer handle g =
     (if handle = 0 \<or> unat handle > MAX_RFC_PORTS then (PORT_BAD_HANDLE, g)
      else
        (let i = unat handle - 1;
             g = upd_port i (\<lambda>p. p\<lparr>p_mgmt_callback := False\<rparr>) g
         in case handle_error handle g of
              Some _ \<Rightarrow> (PORT_SUCCESS, g)
            | None \<Rightarrow> (PORT_SUCCESS, port_start_close i
                (upd_port i (\<lambda>p. p\<lparr>p_state := PORT_STATE_CLOSING, p_keep_port_handle := False\<rparr>) g))))"

section \<open>Settings\<close>

definition PORT_SetEventCallback :: "u16 \<Rightarrow> bool \<Rightarrow> rfc_cb \<Rightarrow> u8 \<times> rfc_cb" where
  "PORT_SetEventCallback handle cb = with_handle handle (\<lambda>i g. (PORT_SUCCESS, upd_port i (\<lambda>p. p\<lparr>p_callback := cb\<rparr>) g))"

definition PORT_SetDataCallback :: "u16 \<Rightarrow> bool \<Rightarrow> rfc_cb \<Rightarrow> u8 \<times> rfc_cb" where
  "PORT_SetDataCallback handle cb = with_handle handle (\<lambda>i g. (PORT_SUCCESS, upd_port i (\<lambda>p. p\<lparr>p_data_callback := cb\<rparr>) g))"

definition PORT_SetDataCOCallback :: "u16 \<Rightarrow> bool \<Rightarrow> rfc_cb \<Rightarrow> u8 \<times> rfc_cb" where
  "PORT_SetDataCOCallback handle cb =
     with_handle handle (\<lambda>i g. (PORT_SUCCESS, upd_port i (\<lambda>p. p\<lparr>p_data_co_callback := cb\<rparr>) g))"

definition PORT_SetEventMask :: "u16 \<Rightarrow> u32 \<Rightarrow> rfc_cb \<Rightarrow> u8 \<times> rfc_cb" where
  "PORT_SetEventMask handle pmask = with_handle handle (\<lambda>i g. (PORT_SUCCESS, upd_port i (\<lambda>p. p\<lparr>p_ev_mask := pmask\<rparr>) g))"

definition PORT_CheckConnection :: "u16 \<Rightarrow> rfc_cb \<Rightarrow> u8 \<times> (bytes \<times> u16) option" where
  "PORT_CheckConnection handle g =
     (case handle_error handle g of
        Some e \<Rightarrow> (e, None)
      | None \<Rightarrow>
          (let p = c_port g (unat handle - 1)
           in case p_mcb p of
                None \<Rightarrow> (PORT_LINE_ERR, None)
              | Some m \<Rightarrow>
                  if \<not> m_peer_ready (c_mcb g m) \<or> p_rfc_state p \<noteq> RFC_STATE_OPENED then (PORT_LINE_ERR, None)
                  else (PORT_SUCCESS, Some (m_bd_addr (c_mcb g m), m_lcid (c_mcb g m)))))"

text \<open>A multiplexer is opening until it is connected and its first port is past the states before \<^verbatim>\<open>RFC_STATE_OPENED\<close>.\<close>

definition mux_opening :: "rfc_cb \<Rightarrow> nat \<Rightarrow> bool" where
  "mux_opening g m =
     (case m_state (c_mcb g m) of
        RFC_MX_STATE_IDLE \<Rightarrow> False
      | RFC_MX_STATE_DISC_WAIT_UA \<Rightarrow> False
      | RFC_MX_STATE_CONNECTED \<Rightarrow>
          (case find (\<lambda>i. p_mcb (c_port g i) = Some m) [0..<MAX_RFC_PORTS] of
             None \<Rightarrow> True
           | Some i \<Rightarrow> p_rfc_state (c_port g i) \<noteq> RFC_STATE_OPENED \<and> p_rfc_state (c_port g i) \<noteq> RFC_STATE_DISC_WAIT_UA)
      | _ \<Rightarrow> True)"

definition PORT_IsOpening :: "rfc_cb \<Rightarrow> bytes option" where
  "PORT_IsOpening g = map_option (\<lambda>m. m_bd_addr (c_mcb g m)) (find (mux_opening g) [0..<MAX_BD_CONNECTIONS])"

definition port_start_par_neg :: "nat \<Rightarrow> rfc_cb \<Rightarrow> rfc_cb" where
  "port_start_par_neg i =
     with_mcb i (\<lambda>m g. RFCOMM_PortNegReq m (p_dlci (c_port g i)) (Some (p_user_port_pars (c_port g i))) g)"

definition port_start_control :: "nat \<Rightarrow> rfc_cb \<Rightarrow> rfc_cb" where
  "port_start_control i = with_mcb i (\<lambda>m g. RFCOMM_ControlReq m (p_dlci (c_port g i)) (p_local_ctrl (c_port g i)) g)"

definition PORT_SetState :: "u16 \<Rightarrow> port_state \<Rightarrow> rfc_cb \<Rightarrow> u8 \<times> rfc_cb" where
  "PORT_SetState handle settings =
     with_handle handle (\<lambda>i g.
       if p_line_status (c_port g i) \<noteq> 0 then (PORT_LINE_ERR, g)
       else
         (let baud_rate = ps_baud_rate (p_user_port_pars (c_port g i));
              g = upd_port i (\<lambda>p. p\<lparr>p_user_port_pars := settings\<rparr>) g
          in (PORT_SUCCESS, if baud_rate \<noteq> ps_baud_rate settings then port_start_par_neg i g else g)))"

definition control_signal :: "u8 \<Rightarrow> u8 \<Rightarrow> u8" where
  "control_signal sig s =
     (if sig = 0x03 then s OR PORT_CTSRTS_ON else if sig = 0x04 then s AND NOT PORT_CTSRTS_ON
      else if sig = 0x01 then s OR PORT_DTRDSR_ON else if sig = 0x02 then s AND NOT PORT_DTRDSR_ON
      else if sig = 0x05 then s OR PORT_RING_ON else if sig = 0x06 then s AND NOT PORT_RING_ON
      else if sig = 0x07 then s OR PORT_DCD_ON else if sig = 0x08 then s AND NOT PORT_DCD_ON else s)"

definition PORT_BREAK :: u8 where "PORT_BREAK = 0x09"

definition PORT_Control :: "u16 \<Rightarrow> u8 \<Rightarrow> rfc_cb \<Rightarrow> u8 \<times> rfc_cb" where
  "PORT_Control handle sig =
     with_handle handle (\<lambda>i g.
       let old = pc_modem_signal (p_local_ctrl (c_port g i));
           g = upd_port i (\<lambda>p. p\<lparr>p_local_ctrl := (p_local_ctrl p)
                 \<lparr>pc_modem_signal := control_signal sig old, pc_break_signal := (if sig = PORT_BREAK then 1 else 0)\<rparr>\<rparr>) g
       in (PORT_SUCCESS, if sig \<noteq> PORT_BREAK \<and> control_signal sig old = old then g else port_start_control i g))"

definition PORT_FlowControl :: "u16 \<Rightarrow> bool \<Rightarrow> rfc_cb \<Rightarrow> u8 \<times> rfc_cb" where
  "PORT_FlowControl handle enable =
     with_handle handle (\<lambda>i g.
       case p_mcb (c_port g i) of
         None \<Rightarrow> (PORT_NOT_OPENED, g)
       | Some m \<Rightarrow>
           (let g = upd_rx i (\<lambda>d. d\<lparr>d_user_fc := \<not> enable\<rparr>) g;
                g = (if m_flow (c_mcb g m) = PORT_FC_CREDIT
                     then (if enable then port_flow_control_peer i True 0 g else g)
                     else
                       (let p = c_port g i; fc = (d_user_fc (p_rx p) \<or> d_peer_fc (p_rx p));
                            g' = upd_port i (\<lambda>p. p\<lparr>p_local_ctrl := (p_local_ctrl p)\<lparr>pc_fc := fc\<rparr>\<rparr>) g
                        in if fc \<noteq> pc_fc (p_local_ctrl p) then port_start_control i g' else g'));
                p = c_port g i
            in (PORT_SUCCESS,
                if enable \<and> d_queue_size (p_rx p) \<noteq> 0
                then port_event i ((PORT_EV_RXCHAR OR (if p_rx_flag_ev_pending p then PORT_EV_RXFLAG else 0)) AND p_ev_mask p)
                       (upd_port i (\<lambda>p. p\<lparr>p_rx_flag_ev_pending := False\<rparr>) g)
                else g)))"

definition PORT_ClearError :: "u16 \<Rightarrow> rfc_cb \<Rightarrow> u8 \<times> u8 option \<times> rfc_cb" where
  "PORT_ClearError handle g =
     (case handle_error handle g of
        Some e \<Rightarrow> (e, None, g)
      | None \<Rightarrow> (let i = unat handle - 1
                in (PORT_SUCCESS, Some (p_line_status (c_port g i)),
                    upd_port i (\<lambda>p. p\<lparr>p_line_status := p_line_status p AND LINE_STATUS_FAILED\<rparr>) g)))"

definition PORT_SendError :: "u16 \<Rightarrow> u8 \<Rightarrow> rfc_cb \<Rightarrow> u8 \<times> rfc_cb" where
  "PORT_SendError handle errors =
     with_handle handle (\<lambda>i g.
       case p_mcb (c_port g i) of
         None \<Rightarrow> (PORT_NOT_OPENED, g)
       | Some m \<Rightarrow> (PORT_SUCCESS, RFCOMM_LineStatusReq m (p_dlci (c_port g i)) errors g))"

section \<open>Data\<close>

definition PORT_PURGE_TXCLEAR :: u8 where "PORT_PURGE_TXCLEAR = 1"
definition PORT_PURGE_RXCLEAR :: u8 where "PORT_PURGE_RXCLEAR = 2"

definition purge_rx :: "nat \<Rightarrow> rfc_cb \<Rightarrow> rfc_cb" where
  "purge_rx i g =
     (let q = d_queue (p_rx (c_port g i));
          g = fold (\<lambda>b. emit (Freebuf b)) q g;
          g = upd_rx i (\<lambda>d. d\<lparr>d_queue := [], d_queue_size := 0\<rparr>) g
      in if q \<noteq> [] then port_flow_control_peer i True (of_nat (length q)) g else g)"

definition purge_tx :: "nat \<Rightarrow> rfc_cb \<Rightarrow> rfc_cb" where
  "purge_tx i g =
     (let g = fold (\<lambda>b. emit (Freebuf b)) (d_queue (p_tx (c_port g i))) g;
          g = upd_tx i (\<lambda>d. d\<lparr>d_queue := [], d_queue_size := 0\<rparr>) g
      in case port_flow_control_user i g of (e, g) \<Rightarrow>
           port_event i ((PORT_EV_TXEMPTY OR e) AND p_ev_mask (c_port g i)) g)"

definition PORT_Purge :: "u16 \<Rightarrow> u8 \<Rightarrow> rfc_cb \<Rightarrow> u8 \<times> rfc_cb" where
  "PORT_Purge handle flags =
     with_handle handle (\<lambda>i g.
       let g = (if flags AND PORT_PURGE_RXCLEAR \<noteq> 0 then purge_rx i g else g)
       in (PORT_SUCCESS, if flags AND PORT_PURGE_TXCLEAR \<noteq> 0 then purge_tx i g else g))"

text \<open>The loop of \<^verbatim>\<open>PORT_ReadData\<close>: the bytes read, the buffers used up, and the state.\<close>

fun read_loop :: "bt_buf list \<Rightarrow> nat \<Rightarrow> u16 \<Rightarrow> rfc_cb \<Rightarrow> bytes \<times> u16 \<times> rfc_cb" where
  "read_loop [] i max_len g = ([], 0, g)"
| "read_loop (b # q) i max_len g =
     (if max_len = 0 then ([], 0, g)
      else if b_len b > max_len then
        (take (unat max_len) (b_ptr b), 0,
         upd_rx i (\<lambda>d. d\<lparr>d_queue := b\<lparr>b_len := b_len b - max_len, b_offset := b_offset b + max_len\<rparr> # q,
                         d_queue_size := d_queue_size d - ucast max_len\<rparr>) g)
      else
        (case read_loop q i (max_len - b_len b)
                (emit (Freebuf b) (upd_rx i (\<lambda>d. d\<lparr>d_queue := q, d_queue_size := d_queue_size d - ucast (b_len b)\<rparr>) g)) of
           (data, count, g) \<Rightarrow> (b_packet b @ data, count + 1, g)))"

definition PORT_ReadData :: "u16 \<Rightarrow> u16 \<Rightarrow> rfc_cb \<Rightarrow> u8 \<times> bytes \<times> rfc_cb" where
  "PORT_ReadData handle max_len g =
     (case handle_error handle g of
        Some e \<Rightarrow> (e, [], g)
      | None \<Rightarrow>
          (let i = unat handle - 1
           in if p_line_status (c_port g i) \<noteq> 0 then (PORT_LINE_ERR, [], g)
              else if d_queue (p_rx (c_port g i)) = [] then (PORT_SUCCESS, [], g)
              else case read_loop (d_queue (p_rx (c_port g i))) i max_len g of
                     (data, count, g) \<Rightarrow> (PORT_SUCCESS, data, port_flow_control_peer i True count g)))"

definition PORT_Read :: "u16 \<Rightarrow> rfc_cb \<Rightarrow> u8 \<times> bt_buf option \<times> rfc_cb" where
  "PORT_Read handle g =
     (case handle_error handle g of
        Some e \<Rightarrow> (e, None, g)
      | None \<Rightarrow>
          (let i = unat handle - 1
           in if p_line_status (c_port g i) \<noteq> 0 then (PORT_LINE_ERR, None, g)
              else case d_queue (p_rx (c_port g i)) of
                     [] \<Rightarrow> (PORT_SUCCESS, None, g)
                   | b # q \<Rightarrow>
                       (PORT_SUCCESS, Some b, port_flow_control_peer i True 1
                          (upd_rx i (\<lambda>d. d\<lparr>d_queue := q, d_queue_size := d_queue_size d - ucast (b_len b)\<rparr>) g))))"

definition tx_held :: "t_port \<Rightarrow> rfc_cb \<Rightarrow> bool" where
  "tx_held p g \<longleftrightarrow> d_peer_fc (p_tx p) \<or>
     (case p_mcb p of None \<Rightarrow> True | Some m \<Rightarrow> \<not> m_peer_ready (c_mcb g m)) \<or>
     p_rfc_state p \<noteq> RFC_STATE_OPENED \<or>
     p_port_ctrl p AND (PORT_CTRL_REQ_SENT OR PORT_CTRL_IND_RECEIVED) \<noteq> PORT_CTRL_REQ_SENT OR PORT_CTRL_IND_RECEIVED"

definition port_write :: "nat \<Rightarrow> bt_buf \<Rightarrow> rfc_cb \<Rightarrow> u8 \<times> rfc_cb" where
  "port_write i b g =
     (let p = c_port g i
      in if p_is_server p \<and> p_rfc_state p \<noteq> RFC_STATE_OPENED then (PORT_CLOSED, emit (Freebuf b) g)
         else if tx_held p g then
           (if unat (d_queue_size (p_tx p)) > PORT_TX_CRITICAL_WM \<or> length (d_queue (p_tx p)) > PORT_TX_BUF_CRITICAL_WM
            then (PORT_TX_FULL, port_event i (p_ev_mask p AND PORT_EV_ERR) (emit (Freebuf b) g))
            else (PORT_CMD_PENDING,
                  upd_tx i (\<lambda>d. d\<lparr>d_queue := d_queue d @ [b], d_queue_size := d_queue_size d + ucast (b_len b)\<rparr>) g))
         else (PORT_SUCCESS, with_mcb i (\<lambda>m g. RFCOMM_DataReq m (p_dlci p) b g) g))"

definition PORT_Write :: "u16 \<Rightarrow> bt_buf \<Rightarrow> rfc_cb \<Rightarrow> u8 \<times> rfc_cb" where
  "PORT_Write handle b g =
     (case handle_error handle g of
        Some e \<Rightarrow> (e, emit (Freebuf b) g)
      | None \<Rightarrow>
          (let i = unat handle - 1
           in if p_line_status (c_port g i) \<noteq> 0 then (PORT_LINE_ERR, emit (Freebuf b) g)
              else
                (case port_write i b g of (rc, g) \<Rightarrow>
                   case port_flow_control_user i g of (e, g) \<Rightarrow>
                     (let event = (if rc = PORT_TX_FULL then e OR PORT_EV_ERR
                                   else if rc = PORT_SUCCESS then e OR (PORT_EV_TXCHAR OR PORT_EV_TXEMPTY) else e)
                      in (PORT_SUCCESS, port_event i (event AND p_ev_mask (c_port g i)) g)))))"

text \<open>
  \<^verbatim>\<open>PORT_WriteData\<close>.  Data that fits behind the last waiting buffer is added to it.  Otherwise the loop
  takes a buffer for each piece; the size of a piece never grows, and is never zero because neither the
  size of the pool buffers nor \<^verbatim>\<open>peer_mtu\<close> nor the rest of the data is.
\<close>

definition data_buf_room :: nat where
  "data_buf_room = 4112 - (8 + L2CAP_MIN_OFFSET + RFCOMM_DATA_OVERHEAD)"

definition BT_EVT_TO_BTU_SP_DATA :: u16 where "BT_EVT_TO_BTU_SP_DATA = 0x1500"

function write_loop :: "nat \<Rightarrow> u16 \<Rightarrow> bytes \<Rightarrow> nat \<Rightarrow> u8 \<Rightarrow> u32 \<Rightarrow> nat \<Rightarrow> rfc_cb \<Rightarrow> u8 \<times> u32 \<times> nat \<times> rfc_cb" where
  "write_loop i handle data len rc event written g =
     (if data = [] \<or> unat (d_queue_size (p_tx (c_port g i))) > PORT_TX_HIGH_WM \<or>
         length (d_queue (p_tx (c_port g i))) > PORT_TX_BUF_HIGH_WM
      then (rc, event, written, g)
      else case c_bufs g of
             [] \<Rightarrow> (rc, event, written, g)
           | b # bs \<Rightarrow>
               (let n = min (min len (unat (p_peer_mtu (c_port g i)))) (length data);
                    offset = L2CAP_MIN_OFFSET + RFCOMM_MIN_OFFSET;
                    b = b\<lparr>b_event := BT_EVT_TO_BTU_SP_DATA, b_len := of_nat n, b_offset := of_nat offset,
                          b_layer_specific := handle, b_mem := poke (b_mem b) offset (take n data)\<rparr>
                in case port_write i b (g\<lparr>c_bufs := bs\<rparr>) of (rc, g) \<Rightarrow>
                   case port_flow_control_user i g of (e, g) \<Rightarrow>
                     (let event = event OR e OR (if rc = PORT_SUCCESS then PORT_EV_TXCHAR else 0)
                      in if (rc \<noteq> PORT_SUCCESS \<and> rc \<noteq> PORT_CMD_PENDING) \<or> n = 0 then (rc, event, written, g)
                         else write_loop i handle (drop n data) n rc event (written + n) g)))"
  by pat_completeness auto
termination by (relation "measure (\<lambda>(i, handle, data, _). length data)") auto

definition PORT_WriteData :: "u16 \<Rightarrow> bytes \<Rightarrow> rfc_cb \<Rightarrow> u8 \<times> nat \<times> rfc_cb" where
  "PORT_WriteData handle data g =
     (case handle_error handle g of
        Some e \<Rightarrow> (e, 0, g)
      | None \<Rightarrow>
          (let i = unat handle - 1; p = c_port g i; q = d_queue (p_tx p)
           in if data = [] \<or> p_peer_mtu p = 0 then (PORT_UNKNOWN_ERROR, 0, g)
              else if q \<noteq> [] \<and> unat (b_len (last q)) + length data \<le> unat (p_peer_mtu p) \<and>
                      unat (b_len (last q)) + length data \<le> data_buf_room
              then (let b = last q;
                        b' = b\<lparr>b_len := b_len b + of_nat (length data),
                               b_mem := poke (b_mem b) (unat (b_offset b) + unat (b_len b)) data\<rparr>
                    in (PORT_SUCCESS, length data,
                        upd_tx i (\<lambda>d. d\<lparr>d_queue := butlast q @ [b'], d_queue_size := d_queue_size d + of_nat (length data)\<rparr>) g))
              else
                (case write_loop i handle data data_buf_room 0 0 0 g of (rc, event, written, g) \<Rightarrow>
                   (let event = (if written = length data \<and> rc \<noteq> PORT_CMD_PENDING \<and> rc \<noteq> PORT_TX_QUEUE_DISABLED
                                 then event OR PORT_EV_TXEMPTY else event)
                    in (PORT_SUCCESS, written, port_event i (event AND p_ev_mask (c_port g i)) g)))))"

definition PORT_Test :: "u16 \<Rightarrow> bytes \<Rightarrow> rfc_cb \<Rightarrow> u8 \<times> rfc_cb" where
  "PORT_Test handle data =
     with_handle handle (\<lambda>i g.
       if length data > unat (if p_mtu (c_port g i) = 0 then RFCOMM_DEFAULT_MTU else p_mtu (c_port g i))
       then (PORT_UNKNOWN_ERROR, g)
       else case c_bufs g of
              [] \<Rightarrow> (PORT_NO_MEM, g)
            | b # bs \<Rightarrow>
                (let offset = L2CAP_MIN_OFFSET + RFCOMM_MIN_OFFSET + 2;
                     b = b\<lparr>b_len := of_nat (length data), b_offset := of_nat offset, b_mem := poke (b_mem b) offset data\<rparr>
                 in (PORT_SUCCESS, with_mcb i (\<lambda>m. on_mcb m (rfc_send_test True b)) (g\<lparr>c_bufs := bs\<rparr>))))"

end
