(* ===== verification/Rfc_Flow.thy ===== *)
theory Rfc_Flow
  imports Rfc_Mx Rfc_Api
begin

text \<open>
  Data on open RFCOMM channels, seen by the peer: what a frame that is handed to L2CAP carries, and what
  the functions that write change besides.
\<close>

section \<open>What the peer sees\<close>

definition peer_view :: "bool \<Rightarrow> rfc_mcb" where
  "peer_view i = mcb_zero\<lparr>m_is_initiator := i, m_flow := PORT_FC_CREDIT\<rparr>"

definition frame_zero :: mx_frame where
  "frame_zero = \<lparr>f_dlci = 0, f_type = 0, f_cr = False, f_ea = False, f_pf = False, f_credit = 0, f_u = U_NONE\<rparr>"

definition in_range :: "bt_buf \<Rightarrow> bool" where
  "in_range b \<longleftrightarrow> unat (b_offset b) + unat (b_len b) \<le> length (b_mem b) \<and> length (b_mem b) < 65536"

definition frame_info :: "bool \<Rightarrow> bt_buf \<Rightarrow> (u8 \<times> u8 \<times> bytes) option" where
  "frame_info i b =
     (case rfc_parse_data (peer_view i) frame_zero b of (ev, f, b') \<Rightarrow>
        if in_range b \<and> ev = RFC_EVENT_UIH \<and> unat (b_len b') = length (b_packet b') then Some (f_dlci f, f_credit f, b_packet b') else None)"

lemma rfc_parse_view:
  assumes "m_is_initiator r = i" "m_flow r = PORT_FC_CREDIT"
  shows "rfc_parse_data r f b = rfc_parse_data (peer_view i) f b"
  using assms by (simp add: rfc_parse_data_def rfc_parse_switch_def peer_view_def Let_def)

lemma rfc_switch_cong:
  "f_type f = f_type f' \<Longrightarrow> f_cr f = f_cr f' \<Longrightarrow> f_dlci f = f_dlci f' \<Longrightarrow> f_pf f = f_pf f' \<Longrightarrow>
   rfc_parse_switch r f n p x = rfc_parse_switch r f' n p x"
  by (simp only: rfc_parse_switch_def)

lemma rfc_parse_frame_indep:
  "fst (rfc_parse_data r f b) = fst (rfc_parse_data r f' b) \<and>
   snd (snd (rfc_parse_data r f b)) = snd (snd (rfc_parse_data r f' b)) \<and>
   (fst (rfc_parse_data r f b) \<noteq> RFC_EVENT_BAD_FRAME \<longrightarrow>
     f_dlci (fst (snd (rfc_parse_data r f b))) = f_dlci (fst (snd (rfc_parse_data r f' b))) \<and>
     f_credit (fst (snd (rfc_parse_data r f b))) = f_credit (fst (snd (rfc_parse_data r f' b))))"
proof (cases "unat (b_len b) < RFCOMM_CTRL_FRAME_LEN \<or> \<not> bit (rd (b_ptr b) 0) 0")
  case True
  then show ?thesis by (auto simp: rfc_parse_data_def Let_def)
next
  case False
  then show ?thesis
    unfolding rfc_parse_data_def Let_def
    by (simp del: bit_0 split del: if_split cong: if_cong
        add: rfc_switch_cong [where f = "f\<lparr>f_dlci := x1, f_cr := x2, f_type := x3, f_pf := x4, f_credit := x5\<rparr>" and
          f' = "f'\<lparr>f_dlci := x1, f_cr := x2, f_type := x3, f_pf := x4, f_credit := x5\<rparr>" for x1 x2 x3 x4 x5])
qed

lemma frame_info_parse:
  assumes "frame_info i b = Some (d, c, payload)" "m_is_initiator r = i" "m_flow r = PORT_FC_CREDIT"
  obtains f' b' where "rfc_parse_data r f b = (RFC_EVENT_UIH, f', b')" "f_dlci f' = d" "f_credit f' = c" "b_packet b' = payload"
    "unat (b_len b') = length payload"
proof -
  obtain ev1 f1 b1 where 1: "rfc_parse_data (peer_view i) frame_zero b = (ev1, f1, b1)" by (metis prod_cases3)
  obtain ev2 f2 b2 where 2: "rfc_parse_data (peer_view i) f b = (ev2, f2, b2)" by (metis prod_cases3)
  have e: "ev1 = RFC_EVENT_UIH" "f_dlci f1 = d" "f_credit f1 = c" "b_packet b1 = payload" "unat (b_len b1) = length payload"
    using assms(1) by (auto simp: frame_info_def 1 split: if_splits)
  show ?thesis
    using rfc_parse_frame_indep [of "peer_view i" frame_zero b f] e 1 2 rfc_parse_view [OF assms(2,3)]
    by (intro that [of f2 b2]) auto
qed

lemma delivers_info:
  assumes "rfc_delivers (peer_view i) (b_packet b) RFC_EVENT_UIH d pf c payload"
    and "unat (b_offset b) + unat (b_len b) \<le> length (b_mem b)" "length (b_mem b) < 65536"
  shows "frame_info i b = Some (d, c, payload)"
proof -
  obtain f' b' where "rfc_parse_data (peer_view i) frame_zero b = (RFC_EVENT_UIH, f', b')" "f_dlci f' = d" "f_credit f' = c"
    "b_packet b' = payload" "unat (b_len b') = length payload"
    using assms unfolding rfc_delivers_def by blast
  then show ?thesis using assms(2,3) by (simp add: frame_info_def in_range_def)
qed

text \<open>Only the bytes of the packet matter.\<close>

lemma frame_info_packet:
  assumes f: "frame_info i b = Some x" and b': "b_packet b' = b_packet b" "in_range b'"
  shows "frame_info i b' = Some x"
proof -
  obtain ev f1 b1 where p: "rfc_parse_data (peer_view i) frame_zero b = (ev, f1, b1)" by (metis prod_cases3)
  then have ev: "ev = RFC_EVENT_UIH" and r: "in_range b" using f by (auto simp: frame_info_def split: if_splits)
  from r have "unat (b_offset b) + unat (b_len b) \<le> length (b_mem b)" by (simp add: in_range_def)
  from rfc_parse_sound [OF this p] ev obtain addr ctl credit payload where
    a: "rfc_frame (peer_view i) (b_packet b) addr ctl credit payload" by auto
  have "rfc_frame_event (peer_view i) addr ctl (length payload) = RFC_EVENT_UIH"
    using rfc_frame_delivers [OF a, unfolded rfc_delivers_def, rule_format, of b frame_zero] p ev r
    by (auto simp: in_range_def)
  note d = rfc_frame_delivers [OF a, unfolded this]
  show ?thesis
    using delivers_info [OF d] delivers_info [of i b'] d b' r f by (auto simp: in_range_def)
qed

text \<open>A data buffer as the users hand it over: room for the header in front and for the check sequence behind.\<close>

definition data_buf :: "bt_buf \<Rightarrow> bool" where
  "data_buf b \<longleftrightarrow> 5 \<le> unat (b_offset b) \<and> unat (b_offset b) + unat (b_len b) < length (b_mem b) \<and>
     length (b_mem b) < 65536 \<and> 0 < b_len b \<and> unat (b_len b) \<le> 32767"

lemma uih_frame:
  assumes b: "data_buf b" and d: "RFCOMM_VALID_DLCI d" "d \<noteq> 0" and i: "i \<noteq> m_is_initiator (r_mcb s)"
  obtains b1 where "rfc_send_buf_uih d b s = rfc_data_write b1 s"
    and "frame_info i b1 = Some (d, ucast (b_layer_specific b), b_packet b)"
proof -
  let ?c = "ucast (b_layer_specific b) :: u8"
  let ?cr = "RFCOMM_CR (m_is_initiator (r_mcb s)) True"
  define hdr where "hdr = rfc_uih_hdr ?cr d ?c (b_len b)"
  have hdr': "hdr = rfc_uih_hdr ?cr d (if d \<noteq> 0 then ?c else 0) (b_len b)" using d by (simp add: hdr_def)
  have "length hdr \<le> 5" unfolding hdr_def by (rule length_uih_hdr(2))
  then have len: "length hdr \<le> unat (b_offset b)" using b by (simp add: data_buf_def)
  obtain b1 where b1: "b_packet b1 = hdr @ b_packet b @ [rfc_calc_fcs 2 hdr]"
    "unat (b_offset b1) + unat (b_len b1) \<le> length (b_mem b1)" "length (b_mem b1) < 65536"
    "rfc_send_buf_uih d b s = (if d = RFCOMM_MX_DLCI then rfc_check_send_cmd (Some b1) s else rfc_data_write b1 s)"
    by (rule rfc_uih_out [OF hdr' len]) (use b in \<open>auto simp: data_buf_def\<close>)
  have n: "unat (b_len b) \<le> 32767" "length (b_packet b) = unat (b_len b)" "?cr = 0 \<or> ?cr = 2"
    using b by (auto simp: data_buf_def b_packet_def b_ptr_def RFCOMM_CR_def)
  have "rfc_delivers (peer_view i) (b_packet b1) RFC_EVENT_UIH d (?c \<noteq> 0) ?c (b_packet b)"
    unfolding b1(1) using d by (intro rfc_uih_delivers [OF d(1) n(3,1,2) _ hdr_def]) (simp add: peer_view_def)
  from delivers_info [OF this b1(2,3)] show ?thesis
    using b1(4) d by (intro that [of b1]) (simp_all add: RFCOMM_MX_DLCI_def)
qed

text \<open>A command buffer of the pool, and the frame that carries nothing but credits.\<close>

definition rfc_cmd_buf :: "bt_buf \<Rightarrow> bool" where
  "rfc_cmd_buf b \<longleftrightarrow> 32 \<le> length (b_mem b) \<and> length (b_mem b) < 65536"

lemma credit_frame:
  assumes b: "rfc_cmd_buf b" "r_bufs s = b # bs" and d: "RFCOMM_VALID_DLCI d" "d \<noteq> 0" and c: "c \<noteq> 0"
  obtains b1 where "rfc_send_credit d c s = rfc_check_send_cmd (Some b1) (s\<lparr>r_bufs := bs\<rparr>)"
    and "frame_info i b1 = Some (d, c, [])"
proof -
  let ?cr = "RFCOMM_CR (m_is_initiator (r_mcb s)) True"
  define hdr where "hdr = rfc_uih_hdr ?cr d c 0"
  have hdr': "hdr = [rfc_addr ?cr d, RFCOMM_UIH OR RFCOMM_PF, RFCOMM_EA OR 0, c]"
    using c by (simp add: hdr_def rfc_uih_hdr_def RFCOMM_EA_def)
  define m where "m = poke (b_mem b) 13 hdr"
  define b1 where "b1 = b\<lparr>b_offset := 13, b_mem := poke m 17 [rfc_calc_fcs 2 (drop 13 m)], b_len := 5\<rparr>"
  have l: "length hdr = 4" by (simp add: hdr')
  have fcs: "rfc_calc_fcs 2 (drop 13 m) = rfc_calc_fcs 2 hdr"
    unfolding m_def using b l by (intro rfc_calc_fcs_poke) (simp_all add: rfc_cmd_buf_def)
  have mem: "poke m 17 [rfc_calc_fcs 2 (drop 13 m)] = poke (b_mem b) (unat (13 :: u16)) (hdr @ [rfc_calc_fcs 2 hdr])"
    using b l poke_poke [of 13 hdr "[rfc_calc_fcs 2 hdr]" "b_mem b"]
    by (simp add: rfc_cmd_buf_def fcs) (simp add: m_def)
  have pkt: "b_packet b1 = hdr @ [] @ [rfc_calc_fcs 2 hdr]"
    unfolding b1_def mem using b l by (subst b_packet_poke) (simp_all add: rfc_cmd_buf_def)
  have cr: "?cr = 0 \<or> ?cr = 2" by (simp add: RFCOMM_CR_def)
  have del: "rfc_delivers (peer_view i) (b_packet b1) RFC_EVENT_UIH d (c \<noteq> 0) c []"
    unfolding pkt using d c by (intro rfc_uih_delivers [OF d(1) cr _ _ _ hdr_def]) (simp_all add: peer_view_def)
  have "unat (b_offset b1) + unat (b_len b1) \<le> length (b_mem b1)" "length (b_mem b1) < 65536"
    using b l by (simp_all add: b1_def m_def length_poke rfc_cmd_buf_def)
  from delivers_info [OF del this] have "frame_info i b1 = Some (d, c, [])" .
  moreover have "rfc_send_credit d c s = rfc_check_send_cmd (Some b1) (s\<lparr>r_bufs := bs\<rparr>)"
    unfolding rfc_send_credit_def rfc_getbuf_def b(2) b1_def m_def hdr'
    by (simp add: Let_def L2CAP_MIN_OFFSET_def)
  ultimately show ?thesis using that by blast
qed

section \<open>What a write changes\<close>

fun writes :: "rfc_call list \<Rightarrow> bt_buf list" where
  "writes [] = []"
| "writes (Data_write _ b # xs) = b # writes xs"
| "writes (_ # xs) = writes xs"

lemma writes_append [simp]: "writes (xs @ ys) = writes xs @ writes ys"
  by (induction xs rule: writes.induct) auto

text \<open>
  A port without the flag that tells its user to wait, and a multiplexer without its command queue and
  the flags that L2CAP and the peer control.
\<close>

definition port_core :: "t_port \<Rightarrow> t_port" where
  "port_core p = p\<lparr>p_tx := (p_tx p)\<lparr>d_user_fc := False\<rparr>\<rparr>"

definition mux_core :: "rfc_mcb \<Rightarrow> rfc_mcb" where
  "mux_core x = x\<lparr>m_cmd_q := [], m_peer_ready := False, m_l2cap_congested := False\<rparr>"

lemma port_coreD:
  assumes "port_core p = port_core q"
  shows "p_inx p = p_inx q" "p_in_use p = p_in_use q" "p_state p = p_state q" "p_is_server p = p_is_server q" "p_dlci p = p_dlci q"
    "p_line_status p = p_line_status q" "p_mtu p = p_mtu q" "p_peer_mtu p = p_peer_mtu q"
    "p_rx p = p_rx q" "p_port_ctrl p = p_port_ctrl q" "p_rfc_state p = p_rfc_state q" "p_mcb p = p_mcb q"
    "p_ev_mask p = p_ev_mask q" "p_callback p = p_callback q"
    "p_data_callback p = p_data_callback q" "p_data_co_callback p = p_data_co_callback q"
    "p_credit_tx p = p_credit_tx q" "p_credit_rx p = p_credit_rx q" "p_credit_rx_max p = p_credit_rx_max q"
    "p_credit_rx_low p = p_credit_rx_low q" "p_rx_buf_critical p = p_rx_buf_critical q"
    "d_queue (p_tx p) = d_queue (p_tx q)" "d_peer_fc (p_tx p) = d_peer_fc (p_tx q)"
    "d_queue_size (p_tx p) = d_queue_size (p_tx q)"
  using assms by (cases p; cases q; cases "p_tx p"; cases "p_tx q"; simp add: port_core_def)+

lemma mux_coreD:
  assumes "mux_core x = mux_core y"
  shows "m_flow x = m_flow y" "m_is_initiator x = m_is_initiator y" "m_port_inx x = m_port_inx y"
    "m_state x = m_state y" "m_lcid x = m_lcid y"
  using assms by (cases x; cases y; simp add: mux_core_def)+

text \<open>Between two states nothing happened but flags to users and writes.\<close>

definition same_but :: "nat \<Rightarrow> rfc_cb \<Rightarrow> rfc_cb \<Rightarrow> bool" where
  "same_but m g g' \<longleftrightarrow> (\<forall>j. port_core (c_port g' j) = port_core (c_port g j)) \<and>
     (\<forall>x. x \<noteq> m \<longrightarrow> c_mcb g' x = c_mcb g x) \<and> mux_core (c_mcb g' m) = mux_core (c_mcb g m) \<and>
     c_lcid_mcb g' = c_lcid_mcb g \<and> c_rx_frame g' = c_rx_frame g \<and> c_bufs g' = c_bufs g \<and>
     c_peer_rx_disabled g' = c_peer_rx_disabled g"

lemma same_but_refl [simp]: "same_but m g g"
  by (simp add: same_but_def)

lemma same_but_trans: "same_but m g g1 \<Longrightarrow> same_but m g1 g2 \<Longrightarrow> same_but m g g2"
  by (simp add: same_but_def)

definition cmd_q :: "nat \<Rightarrow> rfc_cb \<Rightarrow> bt_buf list" where
  "cmd_q m g = m_cmd_q (c_mcb g m)"

text \<open>Nothing was written either.\<close>

definition quiet :: "nat \<Rightarrow> rfc_cb \<Rightarrow> rfc_cb \<Rightarrow> bool" where
  "quiet m g g' \<longleftrightarrow> same_but m g g' \<and> writes (c_outs g') = writes (c_outs g) \<and> cmd_q m g' = cmd_q m g \<and>
     m_l2cap_congested (c_mcb g' m) = m_l2cap_congested (c_mcb g m) \<and> c_congs g' = c_congs g"

lemma quiet_refl [simp]: "quiet m g g"
  by (simp add: quiet_def)

lemma quiet_trans: "quiet m g g1 \<Longrightarrow> quiet m g1 g2 \<Longrightarrow> quiet m g g2"
  by (auto simp: quiet_def intro: same_but_trans)

lemma quiet_flow_control_user: "port_flow_control_user i g = (e, g') \<Longrightarrow> quiet m g g'"
  by (auto simp: port_flow_control_user_def quiet_def same_but_def port_core_def upd_tx_def upd_port_def cmd_q_def Let_def
      split: if_splits)

lemma quiet_port_event: "quiet m g (port_event i e g)"
  by (simp add: port_event_def quiet_def same_but_def emit_def cmd_q_def)

lemma quiet_send_none: "port_rfc_send_tx_data_with tx_none i g = (e, g') \<Longrightarrow> quiet m g g'"
  by (auto simp: port_rfc_send_tx_data_with_def tx_none_def split: if_splits prod.splits dest: quiet_flow_control_user)

lemma quiet_flow_port: "quiet m g (flow_port tx_none i g)"
  unfolding flow_port_def
  by (auto split: prod.splits intro!: quiet_trans [OF quiet_flow_control_user quiet_trans [OF quiet_send_none quiet_port_event]])

lemma flow_port_none_mcb [simp]: "c_mcb (flow_port tx_none i g) = c_mcb g"
  by (auto simp: flow_port_def port_flow_control_user_def port_rfc_send_tx_data_with_def tx_none_def port_event_def
      emit_def upd_tx_def upd_port_def Let_def split: prod.splits if_splits)

lemma fold_flow_none_mcb [simp]:
  "c_mcb (fold (\<lambda>i g. if Q i g then flow_port tx_none i g else g) xs g) = c_mcb g"
  by (induction xs arbitrary: g) auto

lemma quiet_fold: "(\<And>x g. quiet m g (f x g)) \<Longrightarrow> quiet m g (fold f xs g)"
  by (induction xs arbitrary: g) (auto intro: quiet_trans)

lemma quiet_FlowInd_none: "quiet m g (PORT_FlowInd_with tx_none m 0 en g)"
proof -
  have "quiet m g (upd_mux m (\<lambda>x. x\<lparr>m_peer_ready := en\<rparr>) g)"
    by (simp add: quiet_def same_but_def upd_mux_def cmd_q_def mux_core_def)
  then show ?thesis unfolding PORT_FlowInd_with_def
    by (auto intro!: quiet_trans [OF _ quiet_fold] quiet_flow_port)
qed

text \<open>The same for the frame functions, which see one multiplexer.\<close>

definition st_same :: "rfc_st \<Rightarrow> rfc_st \<Rightarrow> bool" where
  "st_same s s' \<longleftrightarrow> mux_core (r_mcb s') = mux_core (r_mcb s) \<and>
     m_peer_ready (r_mcb s') = m_peer_ready (r_mcb s) \<and> r_rx_frame s' = r_rx_frame s \<and> r_bufs s' = r_bufs s"

lemma st_same_refl [simp]: "st_same s s"
  by (simp add: st_same_def)

lemma st_same_trans: "st_same s s1 \<Longrightarrow> st_same s1 s2 \<Longrightarrow> st_same s s2"
  by (simp add: st_same_def)

definition plain_out :: "rfc_out \<Rightarrow> bool" where
  "plain_out x \<longleftrightarrow> (\<exists>l b. x = L2CA_DataWrite l b) \<or> x = PORT_FlowInd 0 False"

definition st_writes :: "rfc_st \<Rightarrow> rfc_st \<Rightarrow> bt_buf list \<Rightarrow> bool" where
  "st_writes s s' w \<longleftrightarrow> st_same s s' \<and> (\<exists>xs. r_outs s' = r_outs s @ xs \<and> list_all plain_out xs \<and> out_writes xs = w)"

lemma st_writes_refl [simp]: "st_writes s s []"
  by (simp add: st_writes_def)

lemma st_writes_trans: "st_writes s s1 w \<Longrightarrow> st_writes s1 s2 v \<Longrightarrow> st_writes s s2 (w @ v)"
  by (fastforce simp: st_writes_def intro: st_same_trans)

lemma st_writes_data: "st_writes s (rfc_data_write b s) [b]"
  unfolding st_writes_def
  by (auto simp: rfc_data_write_def rfc_emit_def rfc_l2cap_congested_def upd_mcb_def Let_def st_same_def mux_core_def
      plain_out_def split: list.splits)

lemma st_writes_flush:
  "m_cmd_q (r_mcb s) = q \<Longrightarrow> \<exists>w. st_writes s (rfc_flush_cmds q s) w \<and> q = w @ m_cmd_q (r_mcb (rfc_flush_cmds q s))"
proof (induction q s rule: rfc_flush_cmds.induct)
  case (1 s)
  then show ?case by (intro exI [of _ "[]"]) simp
next
  case (2 b q s)
  show ?case
  proof (cases "m_l2cap_congested (r_mcb s)")
    case True
    then show ?thesis using "2.prems" by (intro exI [of _ "[]"]) simp
  next
    case False
    let ?s1 = "upd_mcb (\<lambda>m. m\<lparr>m_cmd_q := q\<rparr>) s"
    have s1: "st_writes s ?s1 []" by (simp add: st_writes_def st_same_def upd_mcb_def mux_core_def)
    have "m_cmd_q (r_mcb (rfc_data_write b ?s1)) = q" by (simp add: data_write_effect upd_mcb_def)
    from "2.IH" [OF False this] obtain w where
      w: "st_writes (rfc_data_write b ?s1) (rfc_flush_cmds q (rfc_data_write b ?s1)) w"
         "q = w @ m_cmd_q (r_mcb (rfc_flush_cmds q (rfc_data_write b ?s1)))" by blast
    have "st_writes s (rfc_flush_cmds (b # q) s) ([] @ [b] @ w)"
      using st_writes_trans [OF s1 st_writes_trans [OF st_writes_data w(1)]] False by simp
    then show ?thesis using w(2) False by (intro exI [of _ "b # w"]) simp
  qed
qed

lemma st_writes_cmd:
  "\<exists>w. st_writes s (rfc_check_send_cmd (Some b) s) w \<and>
       m_cmd_q (r_mcb s) @ [b] = w @ m_cmd_q (r_mcb (rfc_check_send_cmd (Some b) s))"
proof -
  let ?s1 = "upd_mcb (\<lambda>m. m\<lparr>m_cmd_q := m_cmd_q m @ [b]\<rparr>) s"
  have "st_writes s ?s1 []" by (simp add: st_writes_def st_same_def upd_mcb_def mux_core_def)
  moreover obtain w where "st_writes ?s1 (rfc_flush_cmds (m_cmd_q (r_mcb ?s1)) ?s1) w"
    "m_cmd_q (r_mcb ?s1) = w @ m_cmd_q (r_mcb (rfc_flush_cmds (m_cmd_q (r_mcb ?s1)) ?s1))"
    using st_writes_flush by blast
  ultimately show ?thesis
    using st_writes_trans [of s ?s1 "[]"] by (intro exI [of _ w]) (simp add: rfc_check_send_cmd_def Let_def upd_mcb_def)
qed

lemma exec_plain:
  "list_all plain_out xs \<Longrightarrow> same_but m g (fold (exec_out tx_none m) xs g) \<and>
     writes (c_outs (fold (exec_out tx_none m) xs g)) = writes (c_outs g) @ out_writes xs \<and>
     cmd_q m (fold (exec_out tx_none m) xs g) = cmd_q m g \<and>
     (m_peer_ready (c_mcb (fold (exec_out tx_none m) xs g) m) \<longrightarrow> m_peer_ready (c_mcb g m))"
proof (induction xs arbitrary: g)
  case Nil
  then show ?case by simp
next
  case (Cons x xs)
  let ?g = "exec_out tx_none m x g"
  have "same_but m g ?g \<and> writes (c_outs ?g) = writes (c_outs g) @ out_writes [x] \<and> cmd_q m ?g = cmd_q m g \<and>
    (m_peer_ready (c_mcb ?g m) \<longrightarrow> m_peer_ready (c_mcb g m))"
    using Cons.prems quiet_FlowInd_none [of m g False]
    by (auto simp: plain_out_def exec_out_def emit_def same_but_def quiet_def cmd_q_def PORT_FlowInd_with_def upd_mux_def)
  moreover have "out_writes (x # xs) = out_writes [x] @ out_writes xs" using out_writes_append [of "[x]" xs] by simp
  ultimately show ?case using Cons.IH [of ?g] Cons.prems by (auto intro: same_but_trans)
qed

lemma on_mcb_writes:
  assumes "st_writes (mcb_view m g) (f (mcb_view m g)) w"
  shows "same_but m g (on_mcb m f g)" "writes (c_outs (on_mcb m f g)) = writes (c_outs g) @ w"
    "cmd_q m (on_mcb m f g) = m_cmd_q (r_mcb (f (mcb_view m g)))"
    "m_peer_ready (c_mcb (on_mcb m f g) m) \<Longrightarrow> m_peer_ready (c_mcb g m)"
proof -
  let ?s = "f (mcb_view m g)"
  obtain xs where xs: "r_outs ?s = xs" "list_all plain_out xs" "out_writes xs = w"
    using assms by (auto simp: st_writes_def mcb_view_def)
  have 1: "same_but m g (mcb_store m ?s g)" "writes (c_outs (mcb_store m ?s g)) = writes (c_outs g)"
    "cmd_q m (mcb_store m ?s g) = m_cmd_q (r_mcb ?s)"
    "m_peer_ready (c_mcb (mcb_store m ?s g) m) = m_peer_ready (c_mcb g m)"
    using assms by (auto simp: st_writes_def st_same_def mcb_view_def mcb_store_def same_but_def cmd_q_def)
  have 2: "on_mcb m f g = fold (exec_out tx_none m) xs (mcb_store m ?s g)"
    by (simp add: on_mcb_def on_mcb_with_def Let_def xs(1))
  show "same_but m g (on_mcb m f g)" "writes (c_outs (on_mcb m f g)) = writes (c_outs g) @ w"
    "cmd_q m (on_mcb m f g) = m_cmd_q (r_mcb (f (mcb_view m g)))"
    "m_peer_ready (c_mcb (on_mcb m f g) m) \<Longrightarrow> m_peer_ready (c_mcb g m)"
    unfolding 2 using exec_plain [OF xs(2), of m "mcb_store m ?s g"] 1 xs(3) by (auto intro: same_but_trans)
qed

end
