(* ===== verification/Rfc_Channel.thy ===== *)
theory Rfc_Channel
  imports Rfc_Flow
begin

text \<open>
  A port in the open state as a channel with credits, and how sending, the credits of the peer and the
  reading of data move it.
\<close>

section \<open>Channels\<close>

text \<open>The credits and payloads of the frames for one channel, in order.\<close>

definition frames :: "bool \<Rightarrow> u8 \<Rightarrow> bt_buf list \<Rightarrow> (u8 \<times> bytes) list" where
  "frames i d bs = concat (map (\<lambda>b. case frame_info i b of
     Some (d', c, pl) \<Rightarrow> if d' = d then [(c, pl)] else [] | None \<Rightarrow> []) bs)"

definition payloads :: "bool \<Rightarrow> u8 \<Rightarrow> bt_buf list \<Rightarrow> bytes list" where
  "payloads i d bs = filter (\<lambda>x. x \<noteq> []) (map snd (frames i d bs))"

definition grants :: "bool \<Rightarrow> u8 \<Rightarrow> bt_buf list \<Rightarrow> nat" where
  "grants i d bs = sum_list (map (unat \<circ> fst) (frames i d bs))"

lemma frames_simps [simp]:
  "frames i d [] = []"
  "frames i d (xs @ ys) = frames i d xs @ frames i d ys"
  by (simp_all add: frames_def)

lemma channel_simps [simp]:
  "payloads i d [] = []" "payloads i d (xs @ ys) = payloads i d xs @ payloads i d ys"
  "grants i d [] = 0" "grants i d (xs @ ys) = grants i d xs + grants i d ys"
  by (simp_all add: payloads_def grants_def)

lemma channel_frame:
  assumes "frame_info i b = Some (d', c, pl)"
  shows "payloads i d [b] = (if d' = d \<and> pl \<noteq> [] then [pl] else [])"
    and "grants i d [b] = (if d' = d then unat c else 0)"
  using assms by (simp_all add: payloads_def grants_def frames_def)

text \<open>A port as a channel: what waits, what was sent, the credits left to send and those the peer holds or has used up, what was received and not read, and the credits given.\<close>

record chan =
  ch_queue :: "bytes list"
  ch_sent :: "bytes list"
  ch_tx :: nat
  ch_rx :: nat
  ch_rxq :: "bytes list"
  ch_given :: nat

abbreviation peer :: "nat \<Rightarrow> rfc_cb \<Rightarrow> bool" where
  "peer m g \<equiv> \<not> m_is_initiator (c_mcb g m)"

definition chan_of :: "nat \<Rightarrow> nat \<Rightarrow> rfc_cb \<Rightarrow> chan" where
  "chan_of m j g =
     (let p = c_port g j; d = p_dlci p; w = writes (c_outs g)
      in \<lparr>ch_queue = map b_packet (d_queue (p_tx p)), ch_sent = payloads (peer m g) d w, ch_tx = unat (p_credit_tx p),
          ch_rx = unat (p_credit_rx p), ch_rxq = map b_packet (d_queue (p_rx p)),
          ch_given = grants (peer m g) d (w @ cmd_q m g)\<rparr>)"

text \<open>Data moved from the queue to the peer at one credit each, in order, and credits may have been given.\<close>

definition flows :: "chan \<Rightarrow> chan \<Rightarrow> bool" where
  "flows c c' \<longleftrightarrow> ch_sent c' @ ch_queue c' = ch_sent c @ ch_queue c \<and>
     ch_tx c' + length (ch_sent c') = ch_tx c + length (ch_sent c) \<and>
     ch_given c' + ch_rx c = ch_given c + ch_rx c' \<and> ch_rxq c' = ch_rxq c"

lemma flows_refl [simp]: "flows c c"
  by (simp add: flows_def)

lemma flows_trans: "flows a b \<Longrightarrow> flows b c \<Longrightarrow> flows a c"
  by (auto simp: flows_def)

text \<open>An open channel in order.\<close>

definition sizes :: "bt_buf list \<Rightarrow> nat" where
  "sizes bs = sum_list (map (unat \<circ> b_len) bs)"

lemma sizes_simps [simp]: "sizes [] = 0" "sizes (b # bs) = unat (b_len b) + sizes bs" "sizes (xs @ ys) = sizes xs + sizes ys"
  by (simp_all add: sizes_def)

definition tx_buf :: "t_port \<Rightarrow> bt_buf \<Rightarrow> bool" where
  "tx_buf p b \<longleftrightarrow> data_buf b \<and> b_len b \<le> p_peer_mtu p"

definition rx_buf :: "t_port \<Rightarrow> bt_buf \<Rightarrow> bool" where
  "rx_buf p b \<longleftrightarrow> b_len b \<le> p_mtu p"

definition port_ok :: "t_port \<Rightarrow> bool" where
  "port_ok p \<longleftrightarrow> p_in_use p \<and> p_state p = PORT_STATE_OPENED \<and> p_rfc_state p = RFC_STATE_OPENED \<and>
     p_port_ctrl p AND (PORT_CTRL_REQ_SENT OR PORT_CTRL_IND_RECEIVED) = PORT_CTRL_REQ_SENT OR PORT_CTRL_IND_RECEIVED \<and>
     \<not> p_data_callback p \<and> \<not> p_data_co_callback p \<and> p_line_status p = 0 \<and>
     RFCOMM_VALID_DLCI (p_dlci p) \<and> p_dlci p \<noteq> 0 \<and> 0 < p_peer_mtu p"

definition tx_ok :: "t_port \<Rightarrow> bool" where
  "tx_ok p \<longleftrightarrow> list_all (tx_buf p) (d_queue (p_tx p)) \<and> length (d_queue (p_tx p)) \<le> 16 \<and>
     d_queue_size (p_tx p) = of_nat (sizes (d_queue (p_tx p))) \<and> (p_credit_tx p = 0 \<longleftrightarrow> d_peer_fc (p_tx p))"

definition rx_ok :: "t_port \<Rightarrow> bool" where
  "rx_ok p \<longleftrightarrow> list_all (rx_buf p) (d_queue (p_rx p)) \<and> d_queue_size (p_rx p) = of_nat (sizes (d_queue (p_rx p))) \<and>
     length (d_queue (p_rx p)) \<le> unat (p_credit_rx p) \<and> p_credit_rx p \<le> p_credit_rx_max p \<and>
     0 < p_credit_rx_max p \<and> p_credit_rx_max p \<le> 255 \<and> p_credit_rx_max p \<le> p_rx_buf_critical p \<and>
     unat (p_credit_rx_max p) * unat (p_mtu p) \<le> PORT_RX_CRITICAL_WM"

text \<open>The peer holds enough credits, unless the user stopped it.\<close>

definition lively :: "t_port \<Rightarrow> bool" where
  "lively p \<longleftrightarrow> d_user_fc (p_rx p) \<or> p_credit_rx_low p < p_credit_rx p \<or> p_credit_rx p = p_credit_rx_max p"

definition rx_kept :: "t_port \<Rightarrow> t_port \<Rightarrow> bool" where
  "rx_kept p q \<longleftrightarrow> d_user_fc (p_rx q) = d_user_fc (p_rx p) \<and> p_credit_rx_low q = p_credit_rx_low p \<and>
     p_credit_rx_max q = p_credit_rx_max p \<and> (p_credit_rx q = p_credit_rx p \<or> p_credit_rx q = p_credit_rx_max q)"

lemma rx_kept_refl [simp]: "rx_kept p p"
  by (simp add: rx_kept_def)

lemma rx_kept_trans: "rx_kept p q \<Longrightarrow> rx_kept q r \<Longrightarrow> rx_kept p r"
  by (auto simp: rx_kept_def)

lemma rx_kept_lively: "rx_kept p q \<Longrightarrow> lively p \<Longrightarrow> lively q"
  by (auto simp: rx_kept_def lively_def)

lemma rx_kept_core: "port_core q = port_core p \<Longrightarrow> rx_kept p q"
  by (simp add: rx_kept_def port_coreD [of q p])

definition on_mux :: "nat \<Rightarrow> rfc_cb \<Rightarrow> nat \<Rightarrow> bool" where
  "on_mux m g j \<longleftrightarrow> p_mcb (c_port g j) = Some m"

definition credit_only :: "nat \<Rightarrow> rfc_cb \<Rightarrow> bt_buf \<Rightarrow> bool" where
  "credit_only m g b \<longleftrightarrow> (\<exists>k c. on_mux m g k \<and> frame_info (peer m g) b = Some (p_dlci (c_port g k), c, []) \<and> c \<noteq> 0)"

definition linked :: "nat \<Rightarrow> rfc_cb \<Rightarrow> nat \<Rightarrow> bool" where
  "linked m g j \<longleftrightarrow> j < MAX_RFC_PORTS \<and> m_port_inx (c_mcb g m) (p_dlci (c_port g j)) = of_nat (j + 1)"

definition mux_ok :: "nat \<Rightarrow> rfc_cb \<Rightarrow> bool" where
  "mux_ok m g \<longleftrightarrow> m_flow (c_mcb g m) = PORT_FC_CREDIT \<and> rfc_find_lcid_mcb (m_lcid (c_mcb g m)) g = Some m \<and>
     (\<forall>j. on_mux m g j \<longrightarrow> linked m g j \<and> port_ok (c_port g j) \<and> tx_ok (c_port g j) \<and> rx_ok (c_port g j)) \<and>
     list_all (credit_only m g) (cmd_q m g)"

lemma mux_okD:
  assumes "mux_ok m g" "on_mux m g j"
  shows "linked m g j" "port_ok (c_port g j)" "tx_ok (c_port g j)" "rx_ok (c_port g j)"
  using assms by (auto simp: mux_ok_def)

text \<open>What no data operation changes.\<close>

definition stat :: "nat \<Rightarrow> rfc_cb \<Rightarrow> rfc_cb \<Rightarrow> bool" where
  "stat m g g' \<longleftrightarrow> (\<forall>k. p_mcb (c_port g' k) = p_mcb (c_port g k) \<and> p_dlci (c_port g' k) = p_dlci (c_port g k) \<and>
     p_mtu (c_port g' k) = p_mtu (c_port g k) \<and> p_peer_mtu (c_port g' k) = p_peer_mtu (c_port g k)) \<and>
     m_is_initiator (c_mcb g' m) = m_is_initiator (c_mcb g m) \<and> m_lcid (c_mcb g' m) = m_lcid (c_mcb g m)"

lemma stat_refl [simp]: "stat m g g"
  by (simp add: stat_def)

lemma stat_trans: "stat m g g1 \<Longrightarrow> stat m g1 g2 \<Longrightarrow> stat m g g2"
  by (simp add: stat_def)

lemma stat_on_mux: "stat m g g' \<Longrightarrow> on_mux m g' j = on_mux m g j"
  by (simp add: stat_def on_mux_def)

definition good_frame :: "nat \<Rightarrow> rfc_cb \<Rightarrow> bt_buf \<Rightarrow> bool" where
  "good_frame m g b \<longleftrightarrow> (\<exists>k c pl. on_mux m g k \<and> frame_info (peer m g) b = Some (p_dlci (c_port g k), c, pl) \<and>
     length pl \<le> unat (p_peer_mtu (c_port g k)) \<and> (c \<noteq> 0 \<or> pl \<noteq> []))"

lemma stat_frames:
  assumes "stat m g g'"
  shows "good_frame m g' b = good_frame m g b" "credit_only m g' b = credit_only m g b"
  using assms by (auto simp: good_frame_def credit_only_def stat_def on_mux_def)

lemma credit_only_good: "credit_only m g b \<Longrightarrow> good_frame m g b"
  by (force simp: credit_only_def good_frame_def)

text \<open>A data operation: the channels stay in order, and only frames for channels of the multiplexer are written.\<close>

definition data_op :: "nat \<Rightarrow> rfc_cb \<Rightarrow> rfc_cb \<Rightarrow> bool" where
  "data_op m g g' \<longleftrightarrow> mux_ok m g' \<and> stat m g g' \<and>
     (\<exists>w. writes (c_outs g') = writes (c_outs g) @ w \<and> list_all (good_frame m g) w)"

lemma data_op_refl: "mux_ok m g \<Longrightarrow> data_op m g g"
  by (simp add: data_op_def)

lemma data_op_trans:
  assumes "data_op m g g1" "data_op m g1 g2"
  shows "data_op m g g2"
proof -
  obtain w v where "writes (c_outs g1) = writes (c_outs g) @ w" "list_all (good_frame m g) w"
    "writes (c_outs g2) = writes (c_outs g1) @ v" "list_all (good_frame m g1) v"
    using assms by (auto simp: data_op_def)
  then have "writes (c_outs g2) = writes (c_outs g) @ (w @ v) \<and> list_all (good_frame m g) (w @ v)"
    using assms stat_frames(1) [of m g g1] by (auto simp: data_op_def list_all_iff)
  then show ?thesis using assms unfolding data_op_def by (blast intro: stat_trans)
qed

text \<open>Nothing but flags and writes.\<close>

lemma same_but_stat: "same_but m g g' \<Longrightarrow> stat m g g'"
  unfolding same_but_def stat_def by (auto dest: port_coreD mux_coreD)

lemma same_but_port:
  assumes "same_but m g g'"
  shows "port_ok (c_port g' j) = port_ok (c_port g j)" "tx_ok (c_port g' j) = tx_ok (c_port g j)"
    "rx_ok (c_port g' j) = rx_ok (c_port g j)" "linked m g' j = linked m g j"
proof -
  have p: "port_core (c_port g' j) = port_core (c_port g j)" and x: "mux_core (c_mcb g' m) = mux_core (c_mcb g m)"
    using assms by (simp_all add: same_but_def)
  show "port_ok (c_port g' j) = port_ok (c_port g j)" by (simp add: port_ok_def port_coreD [OF p])
  show "tx_ok (c_port g' j) = tx_ok (c_port g j)" by (simp add: tx_ok_def tx_buf_def [abs_def] port_coreD [OF p])
  show "rx_ok (c_port g' j) = rx_ok (c_port g j)" by (simp add: rx_ok_def rx_buf_def [abs_def] port_coreD [OF p])
  show "linked m g' j = linked m g j" by (simp add: linked_def port_coreD [OF p] mux_coreD [OF x])
qed

lemma same_but_lcid:
  assumes "same_but m g g'"
  shows "rfc_find_lcid_mcb l g' = Some m \<longleftrightarrow> rfc_find_lcid_mcb l g = Some m"
  using assms unfolding same_but_def rfc_find_lcid_mcb_def by (auto dest: mux_coreD split: option.splits)

lemma same_but_mux_ok:
  assumes "same_but m g g'" "mux_ok m g" "list_all (credit_only m g) (cmd_q m g')"
  shows "mux_ok m g'"
proof -
  have x: "mux_core (c_mcb g' m) = mux_core (c_mcb g m)" using assms by (simp add: same_but_def)
  show ?thesis
    using assms stat_frames(2) [OF same_but_stat [OF assms(1)]]
    by (auto simp: mux_ok_def same_but_port [OF assms(1)] same_but_lcid [OF assms(1)] mux_coreD [OF x]
        stat_on_mux [OF same_but_stat [OF assms(1)]] list_all_iff)
qed

lemma same_but_chan:
  assumes "same_but m g g'"
  shows "chan_of m j g' = (chan_of m j g)
    \<lparr>ch_sent := payloads (peer m g) (p_dlci (c_port g j)) (writes (c_outs g')),
     ch_given := grants (peer m g) (p_dlci (c_port g j)) (writes (c_outs g') @ cmd_q m g')\<rparr>"
proof -
  have p: "port_core (c_port g' j) = port_core (c_port g j)" and x: "mux_core (c_mcb g' m) = mux_core (c_mcb g m)"
    using assms by (simp_all add: same_but_def)
  show ?thesis by (simp add: chan_of_def Let_def port_coreD [OF p] mux_coreD [OF x])
qed

lemma quiet_data_op:
  assumes "quiet m g g'" "mux_ok m g"
  shows "data_op m g g'" "chan_of m j g' = chan_of m j g"
proof -
  have s: "same_but m g g'" "writes (c_outs g') = writes (c_outs g)" "cmd_q m g' = cmd_q m g"
    using assms by (auto simp: quiet_def)
  show "data_op m g g'"
    using same_but_mux_ok [OF s(1) assms(2)] assms(2) same_but_stat [OF s(1)] s by (simp add: data_op_def mux_ok_def)
  show "chan_of m j g' = chan_of m j g"
    by (simp add: same_but_chan [OF s(1)] s(2,3)) (simp add: chan_of_def Let_def)
qed


section \<open>Sending\<close>

text \<open>L2CAP takes everything: no congestion, no waiting command, no congestion ahead.\<close>

definition clear :: "nat \<Rightarrow> rfc_cb \<Rightarrow> bool" where
  "clear m g \<longleftrightarrow> m_peer_ready (c_mcb g m) \<and> \<not> m_l2cap_congested (c_mcb g m) \<and> cmd_q m g = [] \<and> c_congs g = []"

lemma clear_data:
  assumes "clear m g" "f (mcb_view m g) = rfc_data_write b (mcb_view m g)"
  shows "clear m (on_mcb m f g)"
  using assms
  by (simp add: clear_def on_mcb_def on_mcb_with_def rfc_data_write_def rfc_emit_def mcb_view_def mcb_store_def cmd_q_def
      exec_out_def emit_def Let_def)

lemma clear_cmd:
  assumes "clear m g"
  shows "clear m (on_mcb m (rfc_check_send_cmd (Some b)) g)"
  using assms
  by (simp add: clear_def on_mcb_def on_mcb_with_def rfc_check_send_cmd_def rfc_data_write_def rfc_emit_def mcb_view_def mcb_store_def
      cmd_q_def exec_out_def emit_def upd_mcb_def Let_def)

text \<open>An update of port \<open>j\<close> alone.\<close>

lemma upd_port_simps [simp]:
  "c_port (upd_port j f g) k = (if k = j then f (c_port g j) else c_port g k)" "c_mcb (upd_port j f g) = c_mcb g"
  "c_outs (upd_port j f g) = c_outs g" "c_lcid_mcb (upd_port j f g) = c_lcid_mcb g" "cmd_q m (upd_port j f g) = cmd_q m g"
  "c_bufs (upd_port j f g) = c_bufs g" "c_rx_frame (upd_port j f g) = c_rx_frame g" "c_congs (upd_port j f g) = c_congs g"
  by (simp_all add: upd_port_def cmd_q_def)

lemma upd_port_find [simp]:
  "rfc_find_lcid_mcb l (upd_port j f g) = rfc_find_lcid_mcb l g"
  "port_find_mcb_dlci_port m d (upd_port j f g) = port_find_mcb_dlci_port m d g"
  by (simp_all add: rfc_find_lcid_mcb_def port_find_mcb_dlci_port_def cong: option.case_cong)

definition keeps_stat :: "t_port \<Rightarrow> t_port \<Rightarrow> bool" where
  "keeps_stat p q \<longleftrightarrow> p_mcb q = p_mcb p \<and> p_dlci q = p_dlci p \<and> p_mtu q = p_mtu p \<and> p_peer_mtu q = p_peer_mtu p"

lemma upd_port_data_op:
  assumes "mux_ok m g" "keeps_stat (c_port g j) (f (c_port g j))"
    and "on_mux m g j \<Longrightarrow> port_ok (f (c_port g j)) \<and> tx_ok (f (c_port g j)) \<and> rx_ok (f (c_port g j))"
  shows "data_op m g (upd_port j f g)" "k \<noteq> j \<Longrightarrow> chan_of m k (upd_port j f g) = chan_of m k g"
proof -
  let ?g = "upd_port j f g"
  have st: "stat m g ?g" using assms(2) by (auto simp: stat_def keeps_stat_def)
  have "mux_ok m ?g"
    using assms stat_on_mux [OF st] stat_frames(2) [OF st]
    by (auto simp: mux_ok_def linked_def keeps_stat_def list_all_iff)
  then show "data_op m g ?g" using st by (simp add: data_op_def)
  show "k \<noteq> j \<Longrightarrow> chan_of m k ?g = chan_of m k g" by (simp add: chan_of_def)
qed

lemma find_linked:
  assumes "linked m g j" "port_ok (c_port g j)"
  shows "port_find_mcb_dlci_port m (p_dlci (c_port g j)) g = Some j"
proof -
  have "p_dlci (c_port g j) \<le> RFCOMM_MAX_DLCI" using assms by (auto simp: port_ok_def RFCOMM_VALID_DLCI_def RFCOMM_MAX_DLCI_def)
  moreover have "unat (of_nat (j + 1) :: u8) = j + 1" using assms by (simp add: linked_def MAX_RFC_PORTS_def unat_of_nat del: of_nat_Suc of_nat_add)
  ultimately show ?thesis using assms
    by (auto simp: port_find_mcb_dlci_port_def linked_def Let_def simp flip: unat_eq_zero)
qed

lemma linked_inj:
  assumes "linked m g j" "linked m g k" "p_dlci (c_port g j) = p_dlci (c_port g k)"
  shows "j = k"
proof -
  have "(of_nat (j + 1) :: u8) = of_nat (k + 1)" using assms by (simp add: linked_def)
  moreover have "unat (of_nat (j + 1) :: u8) = j + 1" "unat (of_nat (k + 1) :: u8) = k + 1"
    using assms(1,2) by (simp_all add: linked_def MAX_RFC_PORTS_def unat_of_nat del: of_nat_Suc of_nat_add)
  ultimately show ?thesis by (metis add_right_cancel)
qed

text \<open>What frame \<open>b\<close> for channel \<open>j\<close> does to the channels, written at once or behind the waiting commands.\<close>

definition add_frame :: "bool \<Rightarrow> u8 \<Rightarrow> bt_buf \<Rightarrow> chan \<Rightarrow> chan" where
  "add_frame i d b c = c\<lparr>ch_sent := ch_sent c @ payloads i d [b], ch_given := ch_given c + grants i d [b]\<rparr>"

lemma data_frame_chan:
  assumes "same_but m g g'" "writes (c_outs g') = writes (c_outs g) @ [b]" "cmd_q m g' = cmd_q m g"
  shows "chan_of m k g' = add_frame (peer m g) (p_dlci (c_port g k)) b (chan_of m k g)"
  using channel_simps(4) [of "peer m g" "p_dlci (c_port g k)" "[b]" "cmd_q m g"]
  unfolding same_but_chan [OF assms(1)] assms(2,3) by (simp add: chan_of_def add_frame_def Let_def)

lemma payloads_credit_only: "list_all (credit_only m g) w \<Longrightarrow> payloads (peer m g) d w = []"
proof (induction w)
  case (Cons b w)
  then obtain d' c where "frame_info (peer m g) b = Some (d', c, [])" by (auto simp: credit_only_def)
  then have "payloads (peer m g) d [b] = []" by (simp add: channel_frame)
  then show ?case using Cons channel_simps(2) [of "peer m g" d "[b]" w] by simp
qed simp

lemma cmd_frame_chan:
  assumes "same_but m g g'" "writes (c_outs g') = writes (c_outs g) @ w" "cmd_q m g @ [b] = w @ cmd_q m g'"
    "list_all (credit_only m g) (cmd_q m g @ [b])"
  shows "chan_of m k g' = add_frame (peer m g) (p_dlci (c_port g k)) b (chan_of m k g)"
proof -
  let ?d = "p_dlci (c_port g k)"
  have "payloads (peer m g) ?d w = []" "payloads (peer m g) ?d [b] = []"
    using assms(4) payloads_credit_only [of m g w] payloads_credit_only [of m g "[b]"] list_all_append assms(3) by fastforce+
  moreover have "grants (peer m g) ?d (cmd_q m g @ [b]) = grants (peer m g) ?d (w @ cmd_q m g')" by (simp add: assms(3))
  ultimately show ?thesis
    unfolding same_but_chan [OF assms(1)] assms(2) by (simp add: chan_of_def add_frame_def Let_def)
qed

lemma add_frame_info:
  assumes ok: "mux_ok m g" "on_mux m g j" "on_mux m g k" and b: "frame_info (peer m g) b = Some (p_dlci (c_port g j), c, pl)"
  shows "add_frame (peer m g) (p_dlci (c_port g k)) b ch =
    (if k = j then ch\<lparr>ch_sent := ch_sent ch @ (if pl = [] then [] else [pl]), ch_given := ch_given ch + unat c\<rparr> else ch)"
proof -
  have "p_dlci (c_port g j) = p_dlci (c_port g k) \<longleftrightarrow> k = j"
    using linked_inj [of m g j k] mux_okD(1) [OF ok(1)] ok by auto
  then show ?thesis by (simp add: add_frame_def channel_frame [OF b])
qed

text \<open>A frame function that writes data, and one that sends a command, on a multiplexer in order.\<close>

lemma on_mcb_data:
  assumes ok: "mux_ok m g" "on_mux m g j" and b: "tx_buf (c_port g j) b"
    and g': "g' = on_mcb m (rfc_send_buf_uih (p_dlci (c_port g j)) b) g"
  shows "same_but m g g'" "data_op m g g'" "m_peer_ready (c_mcb g' m) \<Longrightarrow> m_peer_ready (c_mcb g m)"
    "clear m g \<Longrightarrow> clear m g'"
    "on_mux m g k \<Longrightarrow> chan_of m k g' = (if k = j then (chan_of m j g)
       \<lparr>ch_sent := ch_sent (chan_of m j g) @ [b_packet b], ch_given := ch_given (chan_of m j g) + unat (ucast (b_layer_specific b) :: u8)\<rparr>
     else chan_of m k g)"
proof -
  have d: "RFCOMM_VALID_DLCI (p_dlci (c_port g j))" "p_dlci (c_port g j) \<noteq> 0" "data_buf b"
    using mux_okD [OF ok] b by (auto simp: port_ok_def tx_buf_def)
  obtain b1 where b1: "rfc_send_buf_uih (p_dlci (c_port g j)) b (mcb_view m g) = rfc_data_write b1 (mcb_view m g)"
    "frame_info (peer m g) b1 = Some (p_dlci (c_port g j), ucast (b_layer_specific b), b_packet b)"
    using uih_frame [OF d(3,1,2), of "peer m g" "mcb_view m g"] by (auto simp: mcb_view_def)
  have "st_writes (mcb_view m g) (rfc_send_buf_uih (p_dlci (c_port g j)) b (mcb_view m g)) [b1]"
    unfolding b1(1) by (rule st_writes_data)
  note w = on_mcb_writes [where f = "rfc_send_buf_uih (p_dlci (c_port g j)) b", OF this, folded g']
  show "clear m g \<Longrightarrow> clear m g'" unfolding g'
    by (rule clear_data [where f = "rfc_send_buf_uih (p_dlci (c_port g j)) b" and b = b1]) (simp_all add: b1(1))
  have q: "cmd_q m g' = cmd_q m g" unfolding w(3) b1(1) by (simp add: data_write_effect mcb_view_def cmd_q_def)
  show s: "same_but m g g'" by (rule w(1))
  show "m_peer_ready (c_mcb g' m) \<Longrightarrow> m_peer_ready (c_mcb g m)" by (rule w(4))
  have n: "length (b_packet b) = unat (b_len b)" "b_packet b \<noteq> []"
    using d(3) by (auto simp: data_buf_def b_packet_def b_ptr_def word_neq_0_conv unat_gt_0)
  have "good_frame m g b1"
    unfolding good_frame_def using b1(2) ok(2) b n by (auto simp: tx_buf_def word_le_nat_alt)
  then show "data_op m g g'"
    using same_but_mux_ok [OF s ok(1)] ok(1) w(2) same_but_stat [OF s] q by (auto simp: data_op_def mux_ok_def)
  show "on_mux m g k \<Longrightarrow> chan_of m k g' = (if k = j then (chan_of m j g)
       \<lparr>ch_sent := ch_sent (chan_of m j g) @ [b_packet b], ch_given := ch_given (chan_of m j g) + unat (ucast (b_layer_specific b) :: u8)\<rparr>
     else chan_of m k g)"
    using data_frame_chan [OF s w(2) q, of k] add_frame_info [OF ok _ b1(2)] n(2) by simp
qed

lemma on_mcb_credit:
  assumes ok: "mux_ok m g" "on_mux m g j" and b: "c_bufs g = b # bs" "rfc_cmd_buf b" and c: "c \<noteq> 0"
    and g': "g' = on_mcb m (rfc_send_credit (p_dlci (c_port g j)) c) g"
  shows "same_but m (g\<lparr>c_bufs := bs\<rparr>) g'" "data_op m g g'" "m_peer_ready (c_mcb g' m) \<Longrightarrow> m_peer_ready (c_mcb g m)"
    "clear m g \<Longrightarrow> clear m g'"
    "on_mux m g k \<Longrightarrow> chan_of m k g' =
       (if k = j then (chan_of m j g)\<lparr>ch_given := ch_given (chan_of m j g) + unat c\<rparr> else chan_of m k g)"
proof -
  let ?d = "p_dlci (c_port g j)" and ?g = "g\<lparr>c_bufs := bs\<rparr>"
  have d: "RFCOMM_VALID_DLCI ?d" "?d \<noteq> 0" using mux_okD [OF ok] by (auto simp: port_ok_def)
  have bufs: "r_bufs (mcb_view m g) = b # bs" using b by (simp add: mcb_view_def)
  obtain b1 where b1: "rfc_send_credit ?d c (mcb_view m g) = rfc_check_send_cmd (Some b1) (mcb_view m g\<lparr>r_bufs := bs\<rparr>)"
    "frame_info (peer m g) b1 = Some (?d, c, [])"
    using credit_frame [OF b(2) bufs d c, of "peer m g"] by blast
  have v: "mcb_view m g\<lparr>r_bufs := bs\<rparr> = mcb_view m ?g" by (simp add: mcb_view_def)
  have g'': "g' = on_mcb m (rfc_check_send_cmd (Some b1)) ?g"
    unfolding g' on_mcb_def on_mcb_with_def b1(1) v by (simp add: Let_def mcb_store_def)
  obtain w where w: "st_writes (mcb_view m ?g) (rfc_check_send_cmd (Some b1) (mcb_view m ?g)) w"
    "m_cmd_q (r_mcb (mcb_view m ?g)) @ [b1] = w @ m_cmd_q (r_mcb (rfc_check_send_cmd (Some b1) (mcb_view m ?g)))"
    using st_writes_cmd by blast
  note wr = on_mcb_writes [where f = "rfc_check_send_cmd (Some b1)", OF w(1), folded g'']
  have q: "cmd_q m g @ [b1] = w @ cmd_q m g'" using w(2) wr(3) by (simp add: mcb_view_def cmd_q_def)
  have co: "list_all (credit_only m g) (cmd_q m g @ [b1])"
    using ok b1(2) c by (auto simp: mux_ok_def credit_only_def)
  show s: "same_but m ?g g'" by (rule wr(1))
  show "clear m g \<Longrightarrow> clear m g'" unfolding g'' by (rule clear_cmd) (simp add: clear_def cmd_q_def)
  show "m_peer_ready (c_mcb g' m) \<Longrightarrow> m_peer_ready (c_mcb g m)" using wr(4) by simp
  have eq: "mux_ok m ?g = mux_ok m g" "chan_of m k ?g = chan_of m k g" "stat m g g' = stat m ?g g'" for k
    by (simp_all add: mux_ok_def chan_of_def Let_def stat_def on_mux_def linked_def cmd_q_def rfc_find_lcid_mcb_def
        credit_only_def [abs_def] cong: option.case_cong)
  have "list_all (credit_only m g) w" "list_all (credit_only m g) (cmd_q m g')" using co unfolding q by simp_all
  then have "mux_ok m g'" "list_all (good_frame m g) w"
    using same_but_mux_ok [OF s] ok(1) eq(1) credit_only_good by (auto simp: list_all_iff credit_only_def on_mux_def)
  then show "data_op m g g'" using wr(2) same_but_stat [OF s] eq(3) by (auto simp: data_op_def)
  have "chan_of m k g' = add_frame (peer m g) (p_dlci (c_port g k)) b1 (chan_of m k g)" for k
    using cmd_frame_chan [OF s, of w b1 k] wr(2) q co by (simp add: eq(2) cmd_q_def credit_only_def [abs_def] on_mux_def)
  then show "on_mux m g k \<Longrightarrow> chan_of m k g' =
       (if k = j then (chan_of m j g)\<lparr>ch_given := ch_given (chan_of m j g) + unat c\<rparr> else chan_of m k g)"
    using add_frame_info [OF ok _ b1(2)] by simp
qed

lemma layer_specific_simps [simp]:
  "b_packet (b\<lparr>b_layer_specific := x\<rparr>) = b_packet b" "data_buf (b\<lparr>b_layer_specific := x\<rparr>) = data_buf b"
  "tx_buf p (b\<lparr>b_layer_specific := x\<rparr>) = tx_buf p b"
  by (simp_all add: b_packet_def b_ptr_def data_buf_def tx_buf_def)

lemma ucast_u8_u16 [simp]: "(ucast (ucast (x :: u8) :: u16) :: u8) = x"
  by (rule bit_word_eqI) (simp add: bit_ucast_iff)

lemma unat_ucast_u8: "unat (n :: u16) \<le> 255 \<Longrightarrow> unat (ucast n :: u8) = unat n"
  by (simp add: unsigned_ucast_eq unsigned_take_bit_eq take_bit_nat_eq_self_iff)

text \<open>The parts of a step at port \<open>j\<close> that the loops need: other ports keep everything but flags, and the peer does not become ready.\<close>

definition step_at :: "nat \<Rightarrow> nat \<Rightarrow> rfc_cb \<Rightarrow> rfc_cb \<Rightarrow> bool" where
  "step_at m j g g' \<longleftrightarrow> data_op m g g' \<and> (\<forall>k. k \<noteq> j \<longrightarrow> port_core (c_port g' k) = port_core (c_port g k)) \<and>
     (\<forall>k. k \<noteq> j \<longrightarrow> on_mux m g k \<longrightarrow> chan_of m k g' = chan_of m k g) \<and>
     (m_peer_ready (c_mcb g' m) \<longrightarrow> m_peer_ready (c_mcb g m)) \<and> (clear m g \<longrightarrow> clear m g')"

lemma step_at_refl: "mux_ok m g \<Longrightarrow> step_at m j g g"
  by (simp add: step_at_def data_op_refl)

lemma step_at_trans: "step_at m j g g1 \<Longrightarrow> step_at m j g1 g2 \<Longrightarrow> step_at m j g g2"
  using stat_on_mux [of m g g1] data_op_trans [of m g g1 g2] by (auto simp: step_at_def data_op_def)

lemma step_at_ok: "step_at m j g g' \<Longrightarrow> mux_ok m g'" "step_at m j g g' \<Longrightarrow> on_mux m g' k = on_mux m g k"
  by (auto simp: step_at_def data_op_def stat_on_mux)

lemma step_at_upd_port:
  assumes "mux_ok m g" "keeps_stat (c_port g j) (f (c_port g j))"
    and "on_mux m g j \<Longrightarrow> port_ok (f (c_port g j)) \<and> tx_ok (f (c_port g j)) \<and> rx_ok (f (c_port g j))"
  shows "step_at m j g (upd_port j f g)"
  using upd_port_data_op [where f = f, OF assms] by (simp add: step_at_def clear_def)

lemma quiet_step_at:
  assumes "quiet m g g'" "mux_ok m g" "c_mcb g' = c_mcb g"
  shows "step_at m j g g'"
  using quiet_data_op [OF assms(1,2)] assms by (auto simp: step_at_def quiet_def same_but_def clear_def)

lemma dec_credit_eq:
  assumes "mux_ok m g" "on_mux m g j" "p_credit_tx (c_port g j) \<noteq> 0"
  shows "rfc_dec_credit j g = upd_port j (\<lambda>p. let p = p\<lparr>p_credit_tx := p_credit_tx p - 1\<rparr>
    in if p_credit_tx p = 0 then p\<lparr>p_tx := (p_tx p)\<lparr>d_peer_fc := True\<rparr>\<rparr> else p) g"
  using assms by (simp add: rfc_dec_credit_def on_mux_def mux_ok_def upd_port_def Let_def word_neq_0_conv)

lemma opened_data_step:
  assumes ok: "mux_ok m g" "on_mux m g j" and b: "tx_buf (c_port g j) b" and t: "p_credit_tx (c_port g j) \<noteq> 0"
    and g': "g' = opened_data j b g"
  shows "step_at m j g g'" "flows ((chan_of m j g)\<lparr>ch_queue := b_packet b # ch_queue (chan_of m j g)\<rparr>) (chan_of m j g')"
    "d_queue (p_tx (c_port g' j)) = d_queue (p_tx (c_port g j))"
    "d_queue_size (p_tx (c_port g' j)) = d_queue_size (p_tx (c_port g j))" "rx_kept (c_port g j) (c_port g' j)"
proof -
  define p where "p = c_port g j"
  define gives where "gives = gives_credit p (c_mcb g m) b"
  define n where "n = (if gives then p_credit_rx_max p - p_credit_rx p else 0)"
  define g1 where "g1 = (if gives then upd_port j (\<lambda>p. p\<lparr>p_credit_rx := p_credit_rx_max p\<rparr>) g else g)"
  define b1 where "b1 = b\<lparr>b_layer_specific := (if gives then ucast (ucast (p_credit_rx_max p - p_credit_rx p) :: u8) else 0)\<rparr>"
  define g2 where "g2 = on_mcb m (rfc_send_buf_uih (p_dlci p) b1) g1"
  have pm: "p_mcb p = Some m" using ok(2) by (simp add: on_mux_def p_def)
  have g3: "g' = rfc_dec_credit j g2"
    using pm by (simp add: g' opened_data_def p_def gives_def g1_def b1_def g2_def Let_def)
  note okj = mux_okD [OF ok, folded p_def]
  have rx: "p_credit_rx p \<le> p_credit_rx_max p" "p_credit_rx_max p \<le> 255" using okj(4) by (auto simp: rx_ok_def)
  have 1: "step_at m j g g1"
  proof (cases gives)
    case True
    have "port_ok (p\<lparr>p_credit_rx := p_credit_rx_max p\<rparr>)" "tx_ok (p\<lparr>p_credit_rx := p_credit_rx_max p\<rparr>)"
      "rx_ok (p\<lparr>p_credit_rx := p_credit_rx_max p\<rparr>)"
      using okj by (auto simp: port_ok_def tx_ok_def tx_buf_def [abs_def] rx_ok_def rx_buf_def [abs_def] word_le_nat_alt)
    then show ?thesis using True ok(1) step_at_upd_port [of m g j] by (simp add: g1_def keeps_stat_def p_def)
  qed (simp add: g1_def step_at_refl ok)
  have c1: "chan_of m j g1 = (chan_of m j g)\<lparr>ch_rx := ch_rx (chan_of m j g) + unat n\<rparr>"
  proof (cases gives)
    case True
    have "unat (p_credit_rx_max p) = unat (p_credit_rx p) + unat (p_credit_rx_max p - p_credit_rx p)"
      using rx(1) by (simp add: unat_sub word_le_nat_alt)
    then show ?thesis using True by (simp add: g1_def n_def chan_of_def Let_def p_def)
  qed (simp add: g1_def n_def)
  have pj: "p_dlci (c_port g1 j) = p_dlci p" "tx_buf (c_port g1 j) b1" "p_credit_tx (c_port g1 j) = p_credit_tx p"
    "p_tx (c_port g1 j) = p_tx p"
    using b by (auto simp: g1_def b1_def p_def tx_buf_def)
  have ok1: "mux_ok m g1" "on_mux m g1 j" using step_at_ok [OF 1] ok(2) by auto
  note d = on_mcb_data [OF ok1 pj(2), of g2, unfolded pj(1), OF g2_def]
  have 2: "step_at m j g1 g2"
    using d ok1(1) by (auto simp: step_at_def same_but_def)
  have "unat n \<le> 255" using rx by (auto simp: n_def unat_sub word_le_nat_alt)
  then have cr: "unat (ucast (b_layer_specific b1) :: u8) = unat n"
    by (auto simp: b1_def n_def unat_ucast_u8 split: if_splits)
  have c2: "chan_of m j g2 = (chan_of m j g1)\<lparr>ch_sent := ch_sent (chan_of m j g1) @ [b_packet b], ch_given := ch_given (chan_of m j g1) + unat n\<rparr>"
    using d(5) [of j] ok1(2) cr by (simp add: b1_def)
  have core: "port_core (c_port g2 j) = port_core (c_port g1 j)" using d(1) by (simp add: same_but_def)
  note q = port_coreD [OF core]
  have ok2: "mux_ok m g2" "on_mux m g2 j" "p_credit_tx (c_port g2 j) \<noteq> 0"
    using step_at_ok [OF 2] ok1(2) t q pj(3) by (auto simp: p_def)
  note g4 = dec_credit_eq [OF ok2, folded g3]
  have 3: "step_at m j g2 g'"
    unfolding g4 using mux_okD [OF ok2(1,2)] ok2(1,3)
    by (intro step_at_upd_port) (auto simp: keeps_stat_def Let_def port_ok_def tx_ok_def tx_buf_def [abs_def] rx_ok_def rx_buf_def [abs_def])
  show "step_at m j g g'" using step_at_trans [OF 1 step_at_trans [OF 2 3]] .
  have "0 < unat (p_credit_tx (c_port g2 j))" using ok2(3) by (simp add: unat_gt_0)
  then have c3: "chan_of m j g' = (chan_of m j g2)\<lparr>ch_tx := ch_tx (chan_of m j g2) - 1\<rparr>" "0 < ch_tx (chan_of m j g2)"
    using ok2(3) unfolding g4 by (auto simp: chan_of_def Let_def unat_minus_one)
  show "flows ((chan_of m j g)\<lparr>ch_queue := b_packet b # ch_queue (chan_of m j g)\<rparr>) (chan_of m j g')"
    using c3 by (simp add: flows_def c2 c1)
  show "d_queue (p_tx (c_port g' j)) = d_queue (p_tx (c_port g j))"
    "d_queue_size (p_tx (c_port g' j)) = d_queue_size (p_tx (c_port g j))"
    unfolding g4 using q pj(4) by (simp_all add: Let_def p_def)
  have "rx_kept p (c_port g1 j)" by (simp add: g1_def rx_kept_def p_def)
  moreover have "rx_kept (c_port g2 j) (c_port g' j)" unfolding g4 by (simp add: Let_def rx_kept_def)
  ultimately show "rx_kept (c_port g j) (c_port g' j)"
    using rx_kept_trans rx_kept_core [OF core] unfolding p_def by blast
qed

text \<open>The loop over the waiting buffers.\<close>

definition held :: "nat \<Rightarrow> rfc_cb \<Rightarrow> nat \<Rightarrow> bool" where
  "held m g j \<longleftrightarrow> d_queue (p_tx (c_port g j)) = [] \<or> d_peer_fc (p_tx (c_port g j)) \<or> \<not> m_peer_ready (c_mcb g m)"

lemma DataReq_opened:
  assumes "mux_ok m g" "on_mux m g j"
  shows "RFCOMM_DataReq m (p_dlci (c_port g j)) b g = opened_data j b g"
  using mux_okD [OF assms] find_linked [of m g j] by (simp add: RFCOMM_DataReq_def rfc_port_sm_data_def port_ok_def)

lemma tx_open_on_mux: "on_mux m g j \<Longrightarrow> tx_open j g \<longleftrightarrow> \<not> d_peer_fc (p_tx (c_port g j)) \<and> m_peer_ready (c_mcb g m)"
  by (simp add: tx_open_def on_mux_def)

lemma sizes_zero: "list_all (tx_buf p) q \<Longrightarrow> sizes q = 0 \<longleftrightarrow> q = []"
  by (cases q) (auto simp: tx_buf_def data_buf_def word_less_nat_alt)

lemma sizes_bound: "list_all (tx_buf p) q \<Longrightarrow> sizes q \<le> 32767 * length q"
  by (induction q) (auto simp: tx_buf_def data_buf_def)

lemma tx_size_zero: "tx_ok p \<Longrightarrow> d_queue_size (p_tx p) = 0 \<longleftrightarrow> d_queue (p_tx p) = []"
proof -
  assume p: "tx_ok p"
  then have "sizes (d_queue (p_tx p)) < 2 ^ 32"
    using sizes_bound [of p "d_queue (p_tx p)"] by (simp add: tx_ok_def)
  then have "unat (of_nat (sizes (d_queue (p_tx p))) :: u32) = sizes (d_queue (p_tx p))" by (simp add: unat_of_nat)
  then show ?thesis using p sizes_zero [of p] by (auto simp: tx_ok_def simp flip: unat_eq_zero)
qed

lemma pop_step:
  assumes ok: "mux_ok m g" "on_mux m g j" and q: "d_queue (p_tx (c_port g j)) = b # q"
    and g1: "g1 = upd_tx j (\<lambda>d. d\<lparr>d_queue := q, d_queue_size := d_queue_size d - ucast (b_len b)\<rparr>) g"
  shows "step_at m j g g1" "tx_buf (c_port g1 j) b" "chan_of m j g1 = (chan_of m j g)\<lparr>ch_queue := map b_packet q\<rparr>"
    "d_queue (p_tx (c_port g1 j)) = q" "rx_kept (c_port g j) (c_port g1 j)"
proof -
  note okj = mux_okD [OF ok]
  have "(of_nat (sizes (b # q)) :: u32) - ucast (b_len b) = of_nat (sizes q)" by simp
  then have "d_queue_size (p_tx (c_port g1 j)) = of_nat (sizes q)"
    using okj(3) q by (simp add: tx_ok_def g1 upd_tx_def)
  then show "step_at m j g g1"
    using okj q ok(1) unfolding g1 upd_tx_def
    by (intro step_at_upd_port) (auto simp: keeps_stat_def port_ok_def tx_ok_def tx_buf_def [abs_def] rx_ok_def rx_buf_def [abs_def])
  show "tx_buf (c_port g1 j) b" using okj(3) q by (simp add: g1 upd_tx_def tx_ok_def tx_buf_def)
  show "chan_of m j g1 = (chan_of m j g)\<lparr>ch_queue := map b_packet q\<rparr>" by (simp add: g1 upd_tx_def chan_of_def Let_def)
  show "d_queue (p_tx (c_port g1 j)) = q" "rx_kept (c_port g j) (c_port g1 j)" by (simp_all add: g1 upd_tx_def rx_kept_def)
qed

lemma tx_loop_step:
  assumes "mux_ok m g" "on_mux m g j" "d_queue (p_tx (c_port g j)) = q" "tx_loop q j g ev = (ev', g')"
  shows "step_at m j g g' \<and> flows (chan_of m j g) (chan_of m j g') \<and> held m g' j \<and> rx_kept (c_port g j) (c_port g' j)"
  using assms
proof (induction q arbitrary: g ev)
  case Nil
  then show ?case by (auto simp: step_at_refl held_def split: if_splits)
next
  case (Cons b q)
  note ok = Cons.prems(1,2) and q = Cons.prems(3)
  show ?case
  proof (cases "tx_open j g")
    case False
    then show ?thesis using Cons.prems ok by (auto simp: step_at_refl held_def tx_open_on_mux)
  next
    case True
    define g1 where "g1 = upd_tx j (\<lambda>d. d\<lparr>d_queue := q, d_queue_size := d_queue_size d - ucast (b_len b)\<rparr>) g"
    note s1 = pop_step [OF ok q g1_def]
    have ok1: "mux_ok m g1" "on_mux m g1 j" using step_at_ok [OF s1(1)] ok by auto
    have t: "p_credit_tx (c_port g1 j) \<noteq> 0"
      using True mux_okD(3) [OF ok] ok(2) by (auto simp: tx_open_on_mux tx_ok_def g1_def upd_tx_def)
    define g2 where "g2 = opened_data j b g1"
    note s2 = opened_data_step [OF ok1 s1(2) t g2_def]
    have ok2: "mux_ok m g2" "on_mux m g2 j" using step_at_ok [OF s2(1)] ok1 by auto
    have st: "step_at m j g g2" using step_at_trans [OF s1(1) s2(1)] .
    have fl: "flows (chan_of m j g) (chan_of m j g2)"
      using s2(2) q unfolding s1(3) by (simp add: flows_def chan_of_def Let_def)
    have q2: "d_queue (p_tx (c_port g2 j)) = q" using s2(3) s1(4) by simp
    have rk: "rx_kept (c_port g j) (c_port g2 j)" using rx_kept_trans [OF s1(5) s2(5)] .
    have d: "RFCOMM_DataReq (the (p_mcb (c_port g1 j))) (p_dlci (c_port g1 j)) b g1 = g2"
      using DataReq_opened [OF ok1] ok1(2) by (simp add: g2_def on_mux_def)
    have u: "(if d_queue_size (p_tx (c_port g2 j)) = 0 then ((ev OR PORT_EV_TXCHAR) OR PORT_EV_TXEMPTY, g2)
        else tx_loop q j g2 (ev OR PORT_EV_TXCHAR)) = (ev', g')"
      using Cons.prems(4) True unfolding tx_loop.simps(2) Let_def g1_def [symmetric] d by simp
    show ?thesis
    proof (cases "d_queue_size (p_tx (c_port g2 j)) = 0")
      case z: True
      then have "q = []" using tx_size_zero [OF mux_okD(3) [OF ok2]] q2 by simp
      then show ?thesis using u z st fl q2 rk by (simp add: held_def)
    next
      case False
      then have "tx_loop q j g2 (ev OR PORT_EV_TXCHAR) = (ev', g')"
        using u by simp
      from Cons.IH [OF ok2 q2 this] show ?thesis using step_at_trans [OF st] flows_trans [OF fl] rx_kept_trans [OF rk] by blast
    qed
  qed
qed

text \<open>\<^verbatim>\<open>PORT_FlowInd\<close>, for one port and for all of them.\<close>

lemma flow_user_step:
  assumes "port_flow_control_user i g = (e, g')" "mux_ok m g"
  shows "step_at m j g g'" "chan_of m k g' = chan_of m k g" "held m g' k = held m g k" "c_mcb g' = c_mcb g"
    "port_core (c_port g' k) = port_core (c_port g k)"
proof -
  show mc: "c_mcb g' = c_mcb g"
    using assms(1) by (auto simp: port_flow_control_user_def upd_tx_def Let_def split: if_splits)
  note q = quiet_flow_control_user [OF assms(1), of m]
  show "step_at m j g g'" by (rule quiet_step_at [OF q assms(2) mc])
  show "chan_of m k g' = chan_of m k g" by (rule quiet_data_op [OF q assms(2)])
  show c: "port_core (c_port g' k) = port_core (c_port g k)" using q by (simp add: quiet_def same_but_def)
  show "held m g' k = held m g k" by (simp add: held_def mc port_coreD [OF c])
qed

lemma port_event_step:
  assumes "mux_ok m g"
  shows "step_at m j g (port_event i e g)" "chan_of m k (port_event i e g) = chan_of m k g"
    "held m (port_event i e g) k = held m g k" "c_port (port_event i e g) = c_port g"
proof -
  have "c_mcb (port_event i e g) = c_mcb g" by (simp add: port_event_def emit_def)
  then show "step_at m j g (port_event i e g)" by (rule quiet_step_at [OF quiet_port_event assms])
  show "chan_of m k (port_event i e g) = chan_of m k g" by (rule quiet_data_op [OF quiet_port_event assms])
  show "held m (port_event i e g) k = held m g k" "c_port (port_event i e g) = c_port g"
    by (simp_all add: held_def port_event_def emit_def)
qed

lemma flow_port_step:
  assumes ok: "mux_ok m g" "on_mux m g j"
  shows "step_at m j g (flow_port tx_all j g)" "flows (chan_of m j g) (chan_of m j (flow_port tx_all j g))"
    "held m (flow_port tx_all j g) j" "rx_kept (c_port g j) (c_port (flow_port tx_all j g) j)"
proof -
  obtain e1 g1 where g1: "port_flow_control_user j g = (e1, g1)" by (metis prod.exhaust)
  note s1 = flow_user_step [OF g1 ok(1)]
  have ok1: "mux_ok m g1" "on_mux m g1 j" using step_at_ok [OF s1(1) [of j]] ok by auto
  obtain e2 g2 where g2: "port_rfc_send_tx_data_with tx_all j g1 = (e2, g2)" by (metis prod.exhaust)
  have s2: "step_at m j g1 g2 \<and> flows (chan_of m j g1) (chan_of m j g2) \<and> held m g2 j \<and> rx_kept (c_port g1 j) (c_port g2 j)"
  proof (cases "d_queue_size (p_tx (c_port g1 j)) > 0")
    case True
    obtain e3 g3 where g3: "tx_all j g1 = (e3, g3)" by (metis prod.exhaust)
    have s3: "step_at m j g1 g3 \<and> flows (chan_of m j g1) (chan_of m j g3) \<and> held m g3 j \<and> rx_kept (c_port g1 j) (c_port g3 j)"
      using tx_loop_step [OF ok1 refl] g3 by (simp add: tx_all_def)
    then have ok3: "mux_ok m g3" using step_at_ok by blast
    obtain e4 where g4: "port_flow_control_user j g3 = (e4, g2)"
      using g2 True g3 by (auto simp: port_rfc_send_tx_data_with_def split: prod.splits)
    note f = flow_user_step [OF g4 ok3]
    show ?thesis
      using s3 step_at_trans [OF conjunct1 [OF s3] f(1)] rx_kept_trans [OF _ rx_kept_core [OF f(5)], of "c_port g1 j" j] by (simp add: f(2,3))
  next
    case False
    then have "d_queue (p_tx (c_port g1 j)) = []" using tx_size_zero [OF mux_okD(3) [OF ok1]] word_gt_0 [of "d_queue_size (p_tx (c_port g1 j))"] by auto
    then show ?thesis using False g2 ok1 by (auto simp: port_rfc_send_tx_data_with_def step_at_refl held_def)
  qed
  then have ok2: "mux_ok m g2" using step_at_ok by blast
  have g': "flow_port tx_all j g = port_event j ((e1 OR e2) AND p_ev_mask (c_port g2 j)) g2"
    by (simp add: flow_port_def g1 g2)
  note s3 = port_event_step [OF ok2]
  show "step_at m j g (flow_port tx_all j g)"
    unfolding g' using step_at_trans [OF s1(1) step_at_trans [OF conjunct1 [OF s2] s3(1)]] .
  show "flows (chan_of m j g) (chan_of m j (flow_port tx_all j g))" "held m (flow_port tx_all j g) j"
    unfolding g' using s2 by (simp_all add: s3 s1)
  show "rx_kept (c_port g j) (c_port (flow_port tx_all j g) j)"
    unfolding g' s3(4) using rx_kept_trans [OF rx_kept_core [OF s1(5)]] s2 by blast
qed

lemma step_at_held: "step_at m j g g' \<Longrightarrow> k \<noteq> j \<Longrightarrow> held m g k \<Longrightarrow> held m g' k"
proof -
  assume a: "step_at m j g g'" "k \<noteq> j" "held m g k"
  then have c: "port_core (c_port g' k) = port_core (c_port g k)"
    and r: "m_peer_ready (c_mcb g' m) \<longrightarrow> m_peer_ready (c_mcb g m)" by (simp_all add: step_at_def)
  show ?thesis using a(3) r by (auto simp: held_def port_coreD(22,23) [OF c])
qed

definition flow_all :: "nat \<Rightarrow> rfc_cb \<Rightarrow> nat list \<Rightarrow> rfc_cb" where
  "flow_all m g is = fold (\<lambda>i g. if p_in_use (c_port g i) \<and> p_mcb (c_port g i) = Some m \<and>
     p_rfc_state (c_port g i) = RFC_STATE_OPENED then flow_port tx_all i g else g) is g"

lemma flow_all_step:
  assumes "mux_ok m g" "\<forall>k. on_mux m g k \<longrightarrow> k \<in> set is \<or> held m g k" "distinct is"
  shows "data_op m g (flow_all m g is) \<and> (\<forall>k. on_mux m g k \<longrightarrow> held m (flow_all m g is) k \<and>
     flows (chan_of m k g) (chan_of m k (flow_all m g is)) \<and> rx_kept (c_port g k) (c_port (flow_all m g is) k))"
  using assms
proof (induction "is" arbitrary: g)
  case Nil
  then show ?case by (simp add: flow_all_def data_op_refl)
next
  case (Cons i xs)
  show ?case
  proof (cases "on_mux m g i")
    case True
    define g1 where "g1 = flow_port tx_all i g"
    note s = flow_port_step [OF Cons.prems(1) True, folded g1_def]
    have 0: "flow_all m g (i # xs) = flow_all m g1 xs"
      using True mux_okD(2) [OF Cons.prems(1) True] by (simp add: flow_all_def on_mux_def port_ok_def g1_def)
    have om: "on_mux m g1 k = on_mux m g k" for k by (rule step_at_ok [OF s(1)])
    have "\<forall>k. on_mux m g1 k \<longrightarrow> k \<in> set xs \<or> held m g1 k"
      using Cons.prems(2) om s(3) step_at_held [OF s(1)] by (metis set_ConsD)
    from Cons.IH [OF step_at_ok(1) [OF s(1)] this] Cons.prems(3)
    have ih: "data_op m g1 (flow_all m g1 xs)"
      "\<And>k. on_mux m g k \<Longrightarrow> held m (flow_all m g1 xs) k \<and> flows (chan_of m k g1) (chan_of m k (flow_all m g1 xs)) \<and>
         rx_kept (c_port g1 k) (c_port (flow_all m g1 xs) k)"
      by (auto simp: om)
    have "flows (chan_of m k g) (chan_of m k g1) \<and> rx_kept (c_port g k) (c_port g1 k)" if "on_mux m g k" for k
      using s(1,2,4) that by (cases "k = i") (auto simp: step_at_def intro: rx_kept_core)
    moreover have "data_op m g g1" using s(1) by (simp add: step_at_def)
    ultimately show ?thesis unfolding 0 using ih data_op_trans flows_trans rx_kept_trans by blast
  next
    case False
    then have "flow_all m g (i # xs) = flow_all m g xs" by (simp add: flow_all_def on_mux_def)
    moreover have "\<forall>k. on_mux m g k \<longrightarrow> k \<in> set xs \<or> held m g k" using Cons.prems(2) False by auto
    ultimately show ?thesis using Cons.IH [OF Cons.prems(1)] Cons.prems(3) by simp
  qed
qed

text \<open>An operation at port \<open>j\<close> that changes its channel by \<open>F\<close> and lets data flow.\<close>

definition chan_step :: "nat \<Rightarrow> nat \<Rightarrow> (chan \<Rightarrow> chan) \<Rightarrow> rfc_cb \<Rightarrow> rfc_cb \<Rightarrow> bool" where
  "chan_step m j F g g' \<longleftrightarrow> data_op m g g' \<and> (\<forall>k. on_mux m g k \<longrightarrow> held m g' k) \<and>
     (\<forall>k. on_mux m g k \<longrightarrow> flows (if k = j then F (chan_of m k g) else chan_of m k g) (chan_of m k g')) \<and>
     (\<forall>k. on_mux m g k \<longrightarrow> lively (c_port g k) \<longrightarrow> lively (c_port g' k))"

lemma step_at_chan:
  assumes "step_at m j g g'" "\<forall>k. on_mux m g k \<longrightarrow> held m g k" "held m g' j" "flows (F (chan_of m j g)) (chan_of m j g')"
    "lively (c_port g j) \<longrightarrow> lively (c_port g' j)"
  shows "chan_step m j F g g'"
proof -
  have "held m g' k" if "on_mux m g k" for k
    using assms(2,3) step_at_held [OF assms(1)] that by (cases "k = j") auto
  moreover have "lively (c_port g k) \<longrightarrow> lively (c_port g' k)" for k
    using assms(1,5) rx_kept_lively [OF rx_kept_core] by (cases "k = j") (auto simp: step_at_def)
  ultimately show ?thesis using assms(1,4) by (auto simp: chan_step_def step_at_def)
qed

text \<open>Neither L2CAP nor a reader is held up by the operation.\<close>

definition smooth :: "nat \<Rightarrow> rfc_cb \<Rightarrow> rfc_cb \<Rightarrow> bool" where
  "smooth m g g' \<longleftrightarrow> (clear m g \<longrightarrow> clear m g') \<and> (\<forall>k. d_user_fc (p_rx (c_port g' k)) = d_user_fc (p_rx (c_port g k)))"

lemma smooth_refl [simp]: "smooth m g g"
  by (simp add: smooth_def)

lemma smooth_trans: "smooth m g g1 \<Longrightarrow> smooth m g1 g2 \<Longrightarrow> smooth m g g2"
  by (simp add: smooth_def)

lemma step_at_smooth:
  assumes "step_at m j g g'" "d_user_fc (p_rx (c_port g' j)) = d_user_fc (p_rx (c_port g j))"
  shows "smooth m g g'"
proof -
  have "d_user_fc (p_rx (c_port g' k)) = d_user_fc (p_rx (c_port g k))" for k
    using assms port_coreD(9) [of "c_port g' k" "c_port g k"] by (cases "k = j") (simp_all add: step_at_def)
  then show ?thesis using assms(1) by (simp add: smooth_def step_at_def)
qed

lemma FlowInd_step:
  assumes "mux_ok m g"
  shows "chan_step m j (\<lambda>c. c) g (PORT_FlowInd_port m 0 en g)"
proof -
  define g1 where "g1 = upd_mux m (\<lambda>x. x\<lparr>m_peer_ready := en\<rparr>) g"
  have q: "quiet m g g1" by (simp add: g1_def quiet_def same_but_def upd_mux_def cmd_q_def mux_core_def)
  note d = quiet_data_op [OF q assms]
  have ok: "mux_ok m g1" and om: "on_mux m g1 k = on_mux m g k" for k
    using d(1) by (auto simp: data_op_def stat_on_mux)
  define g2 where "g2 = flow_all m g1 [0..<MAX_RFC_PORTS]"
  have e: "PORT_FlowInd_port m 0 en g = g2"
    by (simp add: PORT_FlowInd_port_def PORT_FlowInd_with_def flow_all_def g1_def g2_def)
  have "\<forall>k. on_mux m g1 k \<longrightarrow> k \<in> set [0..<MAX_RFC_PORTS] \<or> held m g1 k"
    using mux_okD(1) [OF ok] by (simp add: linked_def)
  from flow_all_step [OF ok this distinct_upt, folded g2_def] have
    f: "data_op m g1 g2" "\<And>k. on_mux m g k \<Longrightarrow> held m g2 k \<and> flows (chan_of m k g1) (chan_of m k g2) \<and> rx_kept (c_port g1 k) (c_port g2 k)"
    by (simp_all add: om)
  have p: "c_port g1 = c_port g" by (simp add: g1_def upd_mux_def)
  show ?thesis
    unfolding e chan_step_def using f data_op_trans [OF d(1) f(1)] rx_kept_lively by (auto simp: d(2) p)
qed

text \<open>Credits from the peer.\<close>

lemma inc_credit_step:
  assumes ok: "mux_ok m g" "on_mux m g j" and h: "\<forall>k. on_mux m g k \<longrightarrow> held m g k"
    and c: "c \<noteq> 0" "unat (p_credit_tx (c_port g j)) + unat c < 65536"
  shows "chan_step m j (\<lambda>x. x\<lparr>ch_tx := ch_tx x + unat c\<rparr>) g (rfc_inc_credit j c g)" "smooth m g (rfc_inc_credit j c g)"
proof -
  define F where "F = (\<lambda>p :: t_port. p\<lparr>p_credit_tx := p_credit_tx p + ucast c, p_tx := (p_tx p)\<lparr>d_peer_fc := False\<rparr>\<rparr>)"
  define g1 where "g1 = upd_port j F g"
  note okj = mux_okD [OF ok]
  have u: "unat (p_credit_tx (c_port g j) + ucast c) = unat (p_credit_tx (c_port g j)) + unat c"
    using c(2) unat_add_lem [of "p_credit_tx (c_port g j)" "ucast c"] by (simp add: unat_ucast_u16)
  have nz: "p_credit_tx (c_port g j) + ucast c \<noteq> 0"
  proof
    assume "p_credit_tx (c_port g j) + ucast c = 0"
    then have "unat c = 0" using u by simp
    then show False using c(1) by (simp add: unat_eq_zero)
  qed
  have s1: "step_at m j g g1"
    unfolding g1_def using okj ok(1) nz
    by (intro step_at_upd_port) (auto simp: F_def keeps_stat_def port_ok_def tx_ok_def tx_buf_def [abs_def] rx_ok_def rx_buf_def [abs_def])
  have ok1: "mux_ok m g1" "on_mux m g1 j" using step_at_ok [OF s1] ok by auto
  have c1: "chan_of m j g1 = (chan_of m j g)\<lparr>ch_tx := ch_tx (chan_of m j g) + unat c\<rparr>"
    using u by (simp add: g1_def F_def chan_of_def Let_def)
  have k1: "rx_kept (c_port g j) (c_port g1 j)" by (simp add: g1_def F_def rx_kept_def)
  have "chan_step m j (\<lambda>x. x\<lparr>ch_tx := ch_tx x + unat c\<rparr>) g (rfc_inc_credit j c g) \<and> smooth m g (rfc_inc_credit j c g)"
  proof (cases "d_peer_fc (p_tx (c_port g j))")
    case True
    have "upd_tx j (\<lambda>d. d\<lparr>d_peer_fc := False\<rparr>) (upd_port j (\<lambda>p. p\<lparr>p_credit_tx := p_credit_tx p + ucast c\<rparr>) g) = g1"
      by (simp add: upd_tx_def upd_port_def g1_def F_def)
    then have "rfc_inc_credit j c g = flow_port tx_all j g1"
      using True ok find_linked [OF okj(1,2)] okj(2)
      by (simp add: rfc_inc_credit_def on_mux_def mux_ok_def Let_def PORT_FlowInd_port_def PORT_FlowInd_with_def port_ok_def)
    then show ?thesis
      using flow_port_step [OF ok1] step_at_trans [OF s1] h c1 rx_kept_lively [OF rx_kept_trans [OF k1]]
        rx_kept_trans [OF k1]
      by (intro conjI step_at_chan step_at_smooth [where j = j]) (auto simp: rx_kept_def)
  next
    case False
    then have "(p_tx (c_port g j))\<lparr>d_peer_fc := False\<rparr> = p_tx (c_port g j)" by simp
    then have "g1 = upd_port j (\<lambda>p. p\<lparr>p_credit_tx := p_credit_tx p + ucast c\<rparr>) g"
      by (simp add: g1_def F_def upd_port_def)
    then have "rfc_inc_credit j c g = g1"
      using False ok by (simp add: rfc_inc_credit_def on_mux_def mux_ok_def Let_def)
    moreover have "held m g1 j" using h [rule_format, OF ok(2)] False by (simp add: held_def g1_def F_def)
    ultimately show ?thesis using s1 h c1 rx_kept_lively [OF k1] k1
      by (intro conjI step_at_chan step_at_smooth [where j = j]) (auto simp: rx_kept_def)
  qed
  then show "chan_step m j (\<lambda>x. x\<lparr>ch_tx := ch_tx x + unat c\<rparr>) g (rfc_inc_credit j c g)" "smooth m g (rfc_inc_credit j c g)"
    by simp_all
qed

text \<open>Credits for the peer.\<close>

lemma flow_peer_step:
  assumes ok: "mux_ok m g" "on_mux m g j" and b: "c_bufs g = b # bs" "rfc_cmd_buf b"
    and n: "length (d_queue (p_rx (c_port g j))) + unat n \<le> unat (p_credit_rx (c_port g j))"
    and g': "g' = port_flow_control_peer j True n g"
  shows "step_at m j g g'" "flows ((chan_of m j g)\<lparr>ch_rx := ch_rx (chan_of m j g) - unat n\<rparr>) (chan_of m j g')"
    "held m g j \<Longrightarrow> held m g' j" "lively (c_port g' j)" "smooth m g g'"
proof -
  define p where "p = c_port g j"
  define r where "r = p_credit_rx p - n"
  define g1 where "g1 = upd_port j (\<lambda>p. p\<lparr>p_credit_rx := r\<rparr>) g"
  note okj = mux_okD [OF ok, folded p_def]
  have np: "n \<le> p_credit_rx p" using n by (simp add: word_le_nat_alt p_def)
  have ur: "unat r = unat (p_credit_rx p) - unat n" using np by (simp add: r_def unat_sub word_le_nat_alt)
  have rmax: "r \<le> p_credit_rx_max p" "p_credit_rx_max p \<le> 255" using okj(4) ur by (auto simp: rx_ok_def word_le_nat_alt)
  have s1: "step_at m j g g1"
    unfolding g1_def using okj ok(1) rmax ur n
    by (intro step_at_upd_port) (auto simp: keeps_stat_def port_ok_def tx_ok_def tx_buf_def [abs_def] rx_ok_def rx_buf_def [abs_def] p_def)
  have ok1: "mux_ok m g1" "on_mux m g1 j" using step_at_ok [OF s1] ok by auto
  have c1: "chan_of m j g1 = (chan_of m j g)\<lparr>ch_rx := ch_rx (chan_of m j g) - unat n\<rparr>"
    using ur by (simp add: g1_def chan_of_def Let_def p_def)
  define gives where "gives \<longleftrightarrow> r \<le> p_credit_rx_low p \<and> \<not> d_user_fc (p_rx p) \<and> p_credit_rx_max p > r"
  define g2 where "g2 = on_mcb m (rfc_send_credit (p_dlci (c_port g1 j)) (ucast (p_credit_rx_max p - r))) g1"
  define F where "F = (\<lambda>p :: t_port. p\<lparr>p_credit_rx := p_credit_rx_max p, p_rx := (p_rx p)\<lparr>d_peer_fc := False\<rparr>\<rparr>)"
  have upd: "(if n > p_credit_rx p then 0 else p_credit_rx p - n) = r" using np by (auto simp: r_def)
  have g1e: "upd_port j (\<lambda>p. p\<lparr>p_credit_rx := (if n > p_credit_rx p then 0 else p_credit_rx p - n)\<rparr>) g = g1"
    using upd [unfolded p_def] by (simp only: g1_def upd_port_def)
  have pj: "c_port g1 j = p\<lparr>p_credit_rx := r\<rparr>" by (simp add: g1_def p_def)
  have e: "g' = (if gives then upd_port j F g2 else g1)"
    using ok unfolding g' port_flow_control_peer_def g1e Let_def
    by (simp add: on_mux_def mux_ok_def pj gives_def g2_def F_def)
  have main: "step_at m j g1 g' \<and> flows (chan_of m j g1) (chan_of m j g') \<and> (held m g1 j \<longrightarrow> held m g' j) \<and> lively (c_port g' j) \<and>
    d_user_fc (p_rx (c_port g' j)) = d_user_fc (p_rx (c_port g1 j))"
  proof (cases gives)
    case True
    have u: "unat (ucast (p_credit_rx_max p - r) :: u8) = unat (p_credit_rx_max p) - unat r"
      "0 < unat (p_credit_rx_max p) - unat r"
      using rmax True by (auto simp: gives_def unat_ucast_u8 unat_sub word_le_nat_alt word_less_nat_alt)
    then have nz: "(ucast (p_credit_rx_max p - r) :: u8) \<noteq> 0" by (metis less_irrefl unat_0)
    have b1: "c_bufs g1 = b # bs" using b by (simp add: g1_def)
    note d = on_mcb_credit [OF ok1 b1 b(2) nz g2_def]
    have core: "port_core (c_port g2 k) = port_core (c_port g1 k)" for k using d(1) by (simp add: same_but_def)
    have s2: "step_at m j g1 g2" using d(2-5) core by (auto simp: step_at_def)
    have ok2: "mux_ok m g2" "on_mux m g2 j" using step_at_ok [OF s2] ok1 by auto
    have s3: "step_at m j g2 (upd_port j F g2)"
      using mux_okD [OF ok2] ok2(1)
      by (intro step_at_upd_port) (auto simp: F_def keeps_stat_def port_ok_def tx_ok_def tx_buf_def [abs_def] rx_ok_def rx_buf_def [abs_def] word_le_nat_alt)
    have c2: "chan_of m j g2 = (chan_of m j g1)\<lparr>ch_given := ch_given (chan_of m j g1) + (unat (p_credit_rx_max p) - unat r)\<rparr>"
      using d(5) [OF ok1(2)] u(1) by simp
    have "chan_of m j (upd_port j F g2) = (chan_of m j g2)\<lparr>ch_rx := unat (p_credit_rx_max p)\<rparr>"
      using port_coreD(19) [OF core [of j]] by (simp add: F_def chan_of_def Let_def pj)
    moreover have "ch_rx (chan_of m j g1) = unat r" by (simp add: chan_of_def Let_def pj)
    ultimately have "flows (chan_of m j g1) (chan_of m j (upd_port j F g2))"
      using rmax(1) by (simp add: c2 flows_def word_le_nat_alt)
    moreover have "held m g1 j \<longrightarrow> held m (upd_port j F g2) j"
      using d(3) by (auto simp: held_def F_def port_coreD(22,23) [OF core])
    moreover have "lively (c_port (upd_port j F g2) j)" by (simp add: F_def lively_def)
    moreover have "d_user_fc (p_rx (c_port (upd_port j F g2) j)) = d_user_fc (p_rx (c_port g1 j))"
      by (simp add: F_def port_coreD(9) [OF core])
    ultimately show ?thesis using step_at_trans [OF s2 s3] True by (simp add: e)
  next
    case False
    then have "lively (c_port g1 j)" using rmax(1) by (auto simp: gives_def pj lively_def)
    then show ?thesis using False by (simp add: e step_at_refl ok1)
  qed
  show s: "step_at m j g g'" using step_at_trans [OF s1] main by blast
  show "smooth m g g'" using main by (intro step_at_smooth [OF s]) (simp add: g1_def)
  show "flows ((chan_of m j g)\<lparr>ch_rx := ch_rx (chan_of m j g) - unat n\<rparr>) (chan_of m j g')" using main c1 by simp
  show "held m g j \<Longrightarrow> held m g' j" "lively (c_port g' j)" using main by (simp_all add: held_def g1_def)
qed

section \<open>The operations of the users\<close>

lemma handle_ok:
  assumes "mux_ok m g" "on_mux m g j" "unat h = j + 1"
  shows "handle_error h g = None" "p_line_status (c_port g j) = 0"
proof -
  have "h \<noteq> 0" using assms(3) by auto
  then show "handle_error h g = None" "p_line_status (c_port g j) = 0"
    using mux_okD [OF assms(1,2)] assms(3) by (auto simp: handle_error_def linked_def port_ok_def)
qed

definition write_taken :: "nat \<Rightarrow> bt_buf \<Rightarrow> rfc_cb \<Rightarrow> bool" where
  "write_taken j b g \<longleftrightarrow> fst (port_write j b g) \<noteq> PORT_TX_FULL"

definition put_queue :: "bytes \<Rightarrow> chan \<Rightarrow> chan" where
  "put_queue x c = c\<lparr>ch_queue := ch_queue c @ [x]\<rparr>"

lemma port_write_step:
  assumes ok: "mux_ok m g" "on_mux m g j" and h: "\<forall>k. on_mux m g k \<longrightarrow> held m g k" and b: "tx_buf (c_port g j) b"
    and w: "port_write j b g = (rc, g')"
  shows "step_at m j g g'" "held m g' j"
    "flows (if rc = PORT_TX_FULL then chan_of m j g else put_queue (b_packet b) (chan_of m j g)) (chan_of m j g')"
    "rx_kept (c_port g j) (c_port g' j)"
proof -
  note okj = mux_okD [OF ok]
  have hj: "held m g j" using h ok(2) by blast
  have th: "tx_held (c_port g j) g \<longleftrightarrow> d_peer_fc (p_tx (c_port g j)) \<or> \<not> m_peer_ready (c_mcb g m)"
    using okj(2) ok(2) by (simp add: tx_held_def port_ok_def on_mux_def)
  have st: "p_rfc_state (c_port g j) = RFC_STATE_OPENED" using okj(2) by (simp add: port_ok_def)
  define full where "full \<longleftrightarrow> unat (d_queue_size (p_tx (c_port g j))) > PORT_TX_CRITICAL_WM \<or>
    length (d_queue (p_tx (c_port g j))) > PORT_TX_BUF_CRITICAL_WM"
  have "step_at m j g g' \<and> held m g' j \<and> rx_kept (c_port g j) (c_port g' j) \<and>
    flows (if rc = PORT_TX_FULL then chan_of m j g else put_queue (b_packet b) (chan_of m j g)) (chan_of m j g')"
  proof (cases "tx_held (c_port g j) g")
    case held: True
    show ?thesis
    proof (cases full)
      case True
      define g1 where "g1 = emit (Freebuf b) g"
      have q: "quiet m g g1" "c_mcb g1 = c_mcb g" by (simp_all add: g1_def quiet_def same_but_def emit_def cmd_q_def)
      note s1 = quiet_step_at [OF q(1) ok(1) q(2), of j]
      have "rc = PORT_TX_FULL" "g' = port_event j (p_ev_mask (c_port g j) AND PORT_EV_ERR) g1"
        using w held True st by (auto simp: port_write_def full_def Let_def g1_def)
      moreover have "held m g1 j" using hj by (simp add: held_def g1_def emit_def)
      ultimately show ?thesis
        using port_event_step [OF step_at_ok(1) [OF s1]] step_at_trans [OF s1] quiet_data_op(2) [OF q(1) ok(1)]
        by (simp add: port_event_step(4) [OF step_at_ok(1) [OF s1]]) (simp add: g1_def emit_def)
    next
      case False
      then have len: "length (d_queue (p_tx (c_port g j))) \<le> 15" by (simp add: full_def PORT_TX_BUF_CRITICAL_WM_def)
      have rc: "rc = PORT_CMD_PENDING"
        "g' = upd_tx j (\<lambda>d. d\<lparr>d_queue := d_queue d @ [b], d_queue_size := d_queue_size d + ucast (b_len b)\<rparr>) g"
        using w held False st by (auto simp: port_write_def full_def [symmetric] Let_def)
      have "step_at m j g g'"
        unfolding rc(2) upd_tx_def using okj ok(1) len b
        by (intro step_at_upd_port) (auto simp: keeps_stat_def port_ok_def tx_ok_def tx_buf_def [abs_def] rx_ok_def rx_buf_def [abs_def])
      then show ?thesis using held th rc
        by (auto simp: held_def upd_tx_def chan_of_def Let_def put_queue_def PORT_CMD_PENDING_def PORT_TX_FULL_def rx_kept_def)
    qed
  next
    case False
    then have o: "\<not> d_peer_fc (p_tx (c_port g j))" "m_peer_ready (c_mcb g m)" "d_queue (p_tx (c_port g j)) = []"
      using th hj by (auto simp: held_def)
    then have t: "p_credit_tx (c_port g j) \<noteq> 0" using okj(3) by (auto simp: tx_ok_def)
    have rc: "rc = PORT_SUCCESS" "g' = opened_data j b g"
      using w False st ok(2) DataReq_opened [OF ok, of b] by (auto simp: port_write_def Let_def with_mcb_def on_mux_def)
    note s = opened_data_step [OF ok b t rc(2)]
    have "ch_queue (chan_of m j g) = []" using o(3) by (simp add: chan_of_def Let_def)
    then show ?thesis using s o(3) rc(1) by (simp add: held_def put_queue_def PORT_SUCCESS_def PORT_TX_FULL_def)
  qed
  then show "step_at m j g g'" "held m g' j" "rx_kept (c_port g j) (c_port g' j)"
    "flows (if rc = PORT_TX_FULL then chan_of m j g else put_queue (b_packet b) (chan_of m j g)) (chan_of m j g')" by auto
qed

lemma PORT_Write_step:
  assumes ok: "mux_ok m g" "on_mux m g j" and h: "\<forall>k. on_mux m g k \<longrightarrow> held m g k" and b: "tx_buf (c_port g j) b"
    and j: "unat hn = j + 1"
  shows "chan_step m j (if write_taken j b g then put_queue (b_packet b) else (\<lambda>c. c)) g (snd (PORT_Write hn b g))"
proof -
  obtain rc g1 where w: "port_write j b g = (rc, g1)" by (metis prod.exhaust)
  note s1 = port_write_step [OF ok h b w]
  obtain e g2 where g2: "port_flow_control_user j g1 = (e, g2)" by (metis prod.exhaust)
  note s2 = flow_user_step [OF g2 step_at_ok(1) [OF s1(1)]]
  note s3 = port_event_step [OF step_at_ok(1) [OF s2(1)]]
  obtain ev where "snd (PORT_Write hn b g) = port_event j ev g2"
    using handle_ok [OF ok j] j w g2 by (auto simp: PORT_Write_def Let_def)
  then show ?thesis
    using s1 w step_at_trans [OF s1(1) step_at_trans [OF s2(1) s3(1)]] h
      rx_kept_lively [OF rx_kept_trans [OF s1(4) rx_kept_core [OF s2(5)]]]
    by (intro step_at_chan) (auto simp: s2(2,3) s3(2-4) write_taken_def)
qed

definition take_rxq :: "chan \<Rightarrow> chan" where
  "take_rxq c = (if ch_rxq c = [] then c else c\<lparr>ch_rxq := tl (ch_rxq c), ch_rx := ch_rx c - 1\<rparr>)"

lemma PORT_Read_step:
  assumes ok: "mux_ok m g" "on_mux m g j" and h: "\<forall>k. on_mux m g k \<longrightarrow> held m g k" and b: "c_bufs g = b # bs" "rfc_cmd_buf b"
    and j: "unat hn = j + 1" and r: "PORT_Read hn g = (rc, res, g')"
  shows "chan_step m j take_rxq g g'" "smooth m g g'" "rc = PORT_SUCCESS"
    "map_option b_packet res = (case ch_rxq (chan_of m j g) of [] \<Rightarrow> None | x # _ \<Rightarrow> Some x)"
proof -
  note ho = handle_ok [OF ok j] and okj = mux_okD [OF ok]
  show "rc = PORT_SUCCESS" "map_option b_packet res = (case ch_rxq (chan_of m j g) of [] \<Rightarrow> None | x # _ \<Rightarrow> Some x)"
    using r ho j by (auto simp: PORT_Read_def Let_def chan_of_def split: list.splits)
  have "chan_step m j take_rxq g g' \<and> smooth m g g'"
  proof (cases "d_queue (p_rx (c_port g j))")
    case Nil
    then have "g' = g" "take_rxq (chan_of m j g) = chan_of m j g"
      using r ho j by (auto simp: PORT_Read_def take_rxq_def chan_of_def Let_def)
    then show ?thesis using h ok by (simp add: chan_step_def data_op_refl)
  next
    case (Cons x q)
    define g1 where "g1 = upd_rx j (\<lambda>d. d\<lparr>d_queue := q, d_queue_size := d_queue_size d - ucast (b_len x)\<rparr>) g"
    have s1: "step_at m j g g1"
      unfolding g1_def upd_rx_def using okj ok(1) Cons
      by (intro step_at_upd_port) (auto simp: keeps_stat_def port_ok_def tx_ok_def tx_buf_def [abs_def] rx_ok_def rx_buf_def [abs_def])
    have ok1: "mux_ok m g1" "on_mux m g1 j" using step_at_ok [OF s1] ok by auto
    have n: "length (d_queue (p_rx (c_port g1 j))) + unat (1 :: u16) \<le> unat (p_credit_rx (c_port g1 j))"
      using okj(4) Cons by (simp add: rx_ok_def g1_def upd_rx_def)
    have g': "g' = port_flow_control_peer j True 1 g1" using r ho j Cons by (simp add: PORT_Read_def Let_def g1_def)
    have b1: "c_bufs g1 = b # bs" using b by (simp add: g1_def upd_rx_def)
    note s2 = flow_peer_step [OF ok1 b1 b(2) n g']
    have "(chan_of m j g1)\<lparr>ch_rx := ch_rx (chan_of m j g1) - unat (1 :: u16)\<rparr> = take_rxq (chan_of m j g)"
      using Cons by (simp add: g1_def upd_rx_def take_rxq_def chan_of_def Let_def)
    moreover have "held m g1 j" using h ok(2) by (simp add: held_def g1_def upd_rx_def)
    moreover have "smooth m g g1" by (rule step_at_smooth [OF s1]) (simp add: g1_def upd_rx_def)
    ultimately show ?thesis using step_at_trans [OF s1 s2(1)] s2(2-5) h
      by (intro conjI step_at_chan smooth_trans [of m g g1 g']) auto
  qed
  then show "chan_step m j take_rxq g g'" "smooth m g g'" by simp_all
qed

end
