(* ===== verification/Rfc_Data.thy ===== *)
theory Rfc_Data
  imports Rfc_Channel
begin

text \<open>
  The operations on open channels that users, the peer and L2CAP cause, as steps of the channels: flow
  control by the reader, a frame from the peer, and the congestion of the link.
\<close>

lemma PORT_FlowControl_step:
  assumes ok: "mux_ok m g" "on_mux m g j" and h: "\<forall>k. on_mux m g k \<longrightarrow> held m g k" and b: "c_bufs g = b # bs" "rfc_cmd_buf b"
    and j: "unat hn = j + 1"
  shows "chan_step m j (\<lambda>c. c) g (snd (PORT_FlowControl hn en g))"
proof -
  note ho = handle_ok [OF ok j] and okj = mux_okD [OF ok]
  define g1 where "g1 = upd_rx j (\<lambda>d. d\<lparr>d_user_fc := \<not> en\<rparr>) g"
  have s1: "step_at m j g g1"
    unfolding g1_def upd_rx_def using okj ok(1)
    by (intro step_at_upd_port) (auto simp: keeps_stat_def port_ok_def tx_ok_def tx_buf_def [abs_def] rx_ok_def rx_buf_def [abs_def])
  have ok1: "mux_ok m g1" "on_mux m g1 j" using step_at_ok [OF s1] ok by auto
  have c1: "chan_of m j g1 = chan_of m j g" by (simp add: g1_def upd_rx_def chan_of_def Let_def)
  have h1: "held m g1 j" using h [rule_format, OF ok(2)] by (simp add: g1_def upd_rx_def held_def)
  define g2 where "g2 = (if en then port_flow_control_peer j True 0 g1 else g1)"
  have s2: "step_at m j g1 g2 \<and> flows (chan_of m j g1) (chan_of m j g2) \<and> held m g2 j \<and> lively (c_port g2 j)"
  proof (cases en)
    case True
    have n: "length (d_queue (p_rx (c_port g1 j))) + unat (0 :: u16) \<le> unat (p_credit_rx (c_port g1 j))"
      using mux_okD(4) [OF ok1] by (simp add: rx_ok_def)
    have b1: "c_bufs g1 = b # bs" using b by (simp add: g1_def upd_rx_def)
    from flow_peer_step [OF ok1 b1 b(2) n] True h1 show ?thesis by (simp add: g2_def)
  next
    case False
    then have "lively (c_port g1 j)" by (simp add: lively_def g1_def upd_rx_def)
    then show ?thesis using False by (simp add: g2_def step_at_refl ok1 h1)
  qed
  then have ok2: "mux_ok m g2" "on_mux m g2 j" using step_at_ok [of m j g1 g2] ok1 by auto
  define g3 where "g3 = upd_port j (\<lambda>p. p\<lparr>p_rx_flag_ev_pending := False\<rparr>) g2"
  have s3: "step_at m j g2 g3"
    unfolding g3_def using mux_okD [OF ok2] ok2(1)
    by (intro step_at_upd_port) (auto simp: keeps_stat_def port_ok_def tx_ok_def tx_buf_def [abs_def] rx_ok_def rx_buf_def [abs_def])
  have c3: "chan_of m j g3 = chan_of m j g2" by (simp add: g3_def chan_of_def Let_def)
  have h3: "held m g3 j" "lively (c_port g3 j)" using s2 by (simp_all add: g3_def held_def lively_def)
  have hj: "unat hn - 1 = j" using j by simp
  have fl: "m_flow (c_mcb g1 m) = PORT_FC_CREDIT" using ok1(1) by (simp add: mux_ok_def)
  have "snd (PORT_FlowControl hn en g) = (if en \<and> d_queue_size (p_rx (c_port g2 j)) \<noteq> 0
      then port_event j ((PORT_EV_RXCHAR OR (if p_rx_flag_ev_pending (c_port g2 j) then PORT_EV_RXFLAG else 0)) AND p_ev_mask (c_port g2 j)) g3
      else g2)"
    using ok(2) ho(1) fl
    unfolding on_mux_def PORT_FlowControl_def with_handle_def Let_def hj g1_def [symmetric]
    by (cases en) (simp_all add: g2_def g3_def)
  then obtain ev where e: "snd (PORT_FlowControl hn en g) =
    (if en \<and> d_queue_size (p_rx (c_port g2 j)) \<noteq> 0 then port_event j ev g3 else g2)" by blast
  note s4 = port_event_step [OF step_at_ok(1) [OF s3]]
  show ?thesis
    unfolding e using s2 h c1 c3 h3 step_at_trans [OF s1 step_at_trans [OF _ step_at_trans [OF s3 s4(1)]]] step_at_trans [OF s1]
    by (intro step_at_chan) (auto simp: s4(2-4))
qed

text \<open>Data from the peer.\<close>

definition put_rxq :: "bytes \<Rightarrow> chan \<Rightarrow> chan" where
  "put_rxq x c = c\<lparr>ch_rxq := ch_rxq c @ [x]\<rparr>"

lemma sizes_le: "list_all (rx_buf p) q \<Longrightarrow> sizes q \<le> length q * unat (p_mtu p)"
  by (induction q) (auto simp: rx_buf_def word_le_nat_alt)

lemma no_overrun:
  assumes rx: "rx_ok p" and n: "length (d_queue (p_rx p)) < unat (p_credit_rx p)" and b: "b_len b \<le> p_mtu p"
  shows "\<not> rx_overrun p b"
proof -
  let ?q = "d_queue (p_rx p)"
  have "sizes ?q + unat (b_len b) \<le> Suc (length ?q) * unat (p_mtu p)"
    using sizes_le [of p ?q] rx b by (auto simp: rx_ok_def word_le_nat_alt)
  also have "\<dots> \<le> unat (p_credit_rx_max p) * unat (p_mtu p)"
    using n rx by (intro mult_le_mono1) (auto simp: rx_ok_def word_le_nat_alt)
  also have "\<dots> \<le> PORT_RX_CRITICAL_WM" using rx by (simp add: rx_ok_def)
  finally have c: "sizes ?q + unat (b_len b) \<le> PORT_RX_CRITICAL_WM" .
  have w: "PORT_RX_CRITICAL_WM < 2 ^ 32"
    by (simp add: PORT_RX_CRITICAL_WM_def BTA_RFC_MTU_SIZE_def PORT_RX_BUF_CRITICAL_WM_def L2CAP_MTU_SIZE_def)
  have "d_queue_size (p_rx p) + ucast (b_len b) = (of_nat (sizes ?q + unat (b_len b)) :: u32)"
    using rx by (simp add: rx_ok_def)
  then have "unat (d_queue_size (p_rx p) + ucast (b_len b)) = sizes ?q + unat (b_len b)"
    using c w by (simp add: unat_of_nat del: of_nat_add)
  then show ?thesis using c n rx by (auto simp: rx_overrun_def rx_ok_def word_le_nat_alt)
qed

lemma DataInd_step:
  assumes ok: "mux_ok m g" "on_mux m g j" and h: "\<forall>k. on_mux m g k \<longrightarrow> held m g k"
    and n: "length (d_queue (p_rx (c_port g j))) < unat (p_credit_rx (c_port g j))" and b: "b_len b \<le> p_mtu (c_port g j)"
    and g': "g' = PORT_DataInd m (p_dlci (c_port g j)) b g"
  shows "chan_step m j (put_rxq (b_packet b)) g g'" "p_credit_tx (c_port g' j) = p_credit_tx (c_port g j)"
    "c_rx_frame g' = c_rx_frame g" "smooth m g g'"
proof -
  note okj = mux_okD [OF ok]
  define g1 where "g1 = upd_rx j (\<lambda>d. d\<lparr>d_queue := d_queue d @ [b], d_queue_size := d_queue_size d + ucast (b_len b)\<rparr>) g"
  have s1: "step_at m j g g1"
    unfolding g1_def upd_rx_def using okj ok(1) b n
    by (intro step_at_upd_port) (auto simp: keeps_stat_def port_ok_def tx_ok_def tx_buf_def [abs_def] rx_ok_def rx_buf_def [abs_def])
  have ok1: "mux_ok m g1" "on_mux m g1 j" using step_at_ok [OF s1] ok by auto
  have c1: "chan_of m j g1 = put_rxq (b_packet b) (chan_of m j g)"
    by (simp add: g1_def upd_rx_def put_rxq_def chan_of_def Let_def)
  define g2 where "g2 = port_flow_control_peer j False 0 g1"
  have "g2 = g1 \<or> g2 = upd_rx j (\<lambda>d. d\<lparr>d_peer_fc := True\<rparr>) g1"
    using ok1 by (auto simp: g2_def port_flow_control_peer_def on_mux_def mux_ok_def Let_def)
  moreover have "step_at m j g1 (upd_rx j (\<lambda>d. d\<lparr>d_peer_fc := True\<rparr>) g1)"
    unfolding upd_rx_def using mux_okD [OF ok1] ok1(1)
    by (intro step_at_upd_port) (auto simp: keeps_stat_def port_ok_def tx_ok_def tx_buf_def [abs_def] rx_ok_def rx_buf_def [abs_def])
  ultimately have s2: "step_at m j g1 g2" "chan_of m j g2 = chan_of m j g1" "held m g2 j = held m g1 j"
    "p_credit_tx (c_port g2 j) = p_credit_tx (c_port g1 j)" "c_rx_frame g2 = c_rx_frame g1"
    "rx_kept (c_port g1 j) (c_port g2 j)"
    using step_at_refl [OF ok1(1)] by (auto simp: upd_rx_def chan_of_def Let_def held_def rx_kept_def)
  have "rx_kept (c_port g j) (c_port g1 j)" by (simp add: g1_def upd_rx_def rx_kept_def)
  then have k2: "rx_kept (c_port g j) (c_port g2 j)" by (rule rx_kept_trans [OF _ s2(6)])
  have ok2: "mux_ok m g2" "on_mux m g2 j" using step_at_ok [OF s2(1)] ok1 by auto
  have h2: "held m g2 j" unfolding s2(3) using h [rule_format, OF ok(2)] by (simp add: g1_def upd_rx_def held_def)
  define g3 where "g3 = upd_port j (\<lambda>p. p\<lparr>p_rx_flag_ev_pending := True\<rparr>) g2"
  have s3: "step_at m j g2 g3"
    unfolding g3_def using mux_okD [OF ok2] ok2(1)
    by (intro step_at_upd_port) (auto simp: keeps_stat_def port_ok_def tx_ok_def tx_buf_def [abs_def] rx_ok_def rx_buf_def [abs_def])
  have c3: "chan_of m j g3 = chan_of m j g2" "held m g3 j = held m g2 j" by (simp_all add: g3_def chan_of_def Let_def held_def)
  note s4 = port_event_step [OF ok2(1)]
  define fg where "fg \<longleftrightarrow> ps_rx_char1 (p_user_port_pars (c_port g j)) \<noteq> 0 \<and> p_ev_mask (c_port g j) AND PORT_EV_RXFLAG \<noteq> 0 \<and>
    ps_rx_char1 (p_user_port_pars (c_port g j)) \<in> set (b_packet b)"
  have "g' = (if d_user_fc (p_rx (c_port g2 j)) then (if fg then g3 else g2)
      else port_event j (((if fg then PORT_EV_RXFLAG else 0) OR PORT_EV_RXCHAR) AND p_ev_mask (c_port g2 j)) g2)"
    using okj(2) no_overrun [OF okj(4) n b]
    unfolding g' PORT_DataInd_def find_linked [OF okj(1,2)] Let_def option.case port_ok_def
    by (simp flip: fg_def g1_def g2_def g3_def)
  then have "\<exists>ev. g' = g2 \<or> g' = g3 \<or> g' = port_event j ev g2" by (auto split: if_splits)
  then obtain ev where "g' = g2 \<or> g' = g3 \<or> g' = port_event j ev g2" by blast
  then have "step_at m j g g' \<and> chan_of m j g' = chan_of m j g2 \<and> held m g' j \<and> rx_kept (c_port g2 j) (c_port g' j) \<and>
    p_credit_tx (c_port g' j) = p_credit_tx (c_port g2 j) \<and> c_rx_frame g' = c_rx_frame g2"
  proof (elim disjE)
    assume "g' = g3"
    then show ?thesis using step_at_trans [OF step_at_trans [OF s1 s2(1)] s3] c3 h2 by (simp add: g3_def rx_kept_def)
  next
    assume "g' = port_event j ev g2"
    then show ?thesis using step_at_trans [OF step_at_trans [OF s1 s2(1)] s4(1)] h2
      by (simp add: s4(2-4)) (simp add: port_event_def emit_def)
  qed (use step_at_trans [OF s1 s2(1)] h2 in simp)
  note s5 = this
  show "chan_step m j (put_rxq (b_packet b)) g g'"
    using s5 h c1 s2(2) rx_kept_lively [OF rx_kept_trans [OF k2]] by (intro step_at_chan) auto
  show "smooth m g g'"
    using s5 rx_kept_trans [OF k2] by (intro step_at_smooth [where j = j]) (auto simp: rx_kept_def)
  show "p_credit_tx (c_port g' j) = p_credit_tx (c_port g j)" "c_rx_frame g' = c_rx_frame g"
    using s5 s2(4,5) by (simp_all add: g1_def upd_rx_def)
qed


definition receive :: "u8 \<Rightarrow> bytes \<Rightarrow> chan \<Rightarrow> chan" where
  "receive c pl x = x\<lparr>ch_rxq := ch_rxq x @ (if pl = [] then [] else [pl]), ch_tx := ch_tx x + unat c\<rparr>"

lemma chan_step_trans:
  assumes "chan_step m j F g g1" "chan_step m j (\<lambda>x. x\<lparr>ch_tx := ch_tx x + n\<rparr>) g1 g2" "on_mux m g j"
  shows "chan_step m j (\<lambda>x. (F x)\<lparr>ch_tx := ch_tx (F x) + n\<rparr>) g g2"
proof -
  have om: "on_mux m g1 k = on_mux m g k" for k using assms(1) by (auto simp: chan_step_def data_op_def stat_on_mux)
  have fl: "flows ((F (chan_of m j g))\<lparr>ch_tx := ch_tx (F (chan_of m j g)) + n\<rparr>) ((chan_of m j g1)\<lparr>ch_tx := ch_tx (chan_of m j g1) + n\<rparr>)"
    using assms(1,3) by (auto simp: chan_step_def flows_def)
  have "flows (if k = j then (F (chan_of m k g))\<lparr>ch_tx := ch_tx (F (chan_of m k g)) + n\<rparr> else chan_of m k g) (chan_of m k g2)"
    if k: "on_mux m g k" for k
  proof -
    have A: "flows (if k = j then F (chan_of m k g) else chan_of m k g) (chan_of m k g1)"
      using assms(1) k unfolding chan_step_def by blast
    have B: "flows (if k = j then (chan_of m k g1)\<lparr>ch_tx := ch_tx (chan_of m k g1) + n\<rparr> else chan_of m k g1) (chan_of m k g2)"
      using assms(2) k unfolding chan_step_def om by blast
    show ?thesis
    proof (cases "k = j")
      case True
      then show ?thesis using flows_trans [OF fl] B by simp
    next
      case False
      then show ?thesis using flows_trans [of "chan_of m k g"] A B by simp
    qed
  qed
  then show ?thesis using assms(1,2) data_op_trans [of m g g1 g2] unfolding chan_step_def om by simp
qed

lemma chan_step_id_trans:
  assumes "chan_step m j (\<lambda>c. c) g g1" "chan_step m j (\<lambda>c. c) g1 g2"
  shows "chan_step m j (\<lambda>c. c) g g2"
proof -
  have "on_mux m g1 k = on_mux m g k" for k using assms(1) by (auto simp: chan_step_def data_op_def stat_on_mux)
  note om = this
  show ?thesis
    unfolding chan_step_def if_cancel
  proof (intro conjI allI impI)
    show "data_op m g g2" using assms data_op_trans [of m g g1 g2] by (simp add: chan_step_def)
    fix k assume k: "on_mux m g k"
    show "held m g2 k" using assms(2) k by (simp add: chan_step_def om)
    show "flows (chan_of m k g) (chan_of m k g2)"
      using assms k flows_trans [of "chan_of m k g" "chan_of m k g1"] by (simp add: chan_step_def om)
    show "lively (c_port g2 k)" if "lively (c_port g k)" using assms k that by (simp add: chan_step_def om)
  qed
qed

lemma chan_step_quiet:
  assumes "quiet m g g1" "mux_ok m g" "c_mcb g1 = c_mcb g" "\<forall>k. on_mux m g k \<longrightarrow> held m g k"
  shows "chan_step m j (\<lambda>c. c) g g1"
proof -
  have "held m g1 k = held m g k" for k
  proof -
    have c: "port_core (c_port g1 k) = port_core (c_port g k)" using assms(1) by (simp add: quiet_def same_but_def)
    show ?thesis using assms(3) by (simp add: held_def port_coreD(22,23) [OF c])
  qed
  moreover have "lively (c_port g k) \<longrightarrow> lively (c_port g1 k)" for k
    using assms(1) rx_kept_lively [OF rx_kept_core] by (simp add: quiet_def same_but_def)
  ultimately show ?thesis using quiet_data_op [OF assms(1,2)] assms(4) by (simp add: chan_step_def)
qed

lemma mux_ok_rx_frame: "mux_ok m (g\<lparr>c_rx_frame := f\<rparr>) = mux_ok m g" "on_mux m (g\<lparr>c_rx_frame := f\<rparr>) k = on_mux m g k"
  "held m (g\<lparr>c_rx_frame := f\<rparr>) k = held m g k" "chan_of m k (g\<lparr>c_rx_frame := f\<rparr>) = chan_of m k g"
  "data_op m (g\<lparr>c_rx_frame := f\<rparr>) g' = data_op m g g'" "c_port (g\<lparr>c_rx_frame := f\<rparr>) k = c_port g k"
  by (simp_all add: mux_ok_def on_mux_def linked_def cmd_q_def credit_only_def [abs_def] rfc_find_lcid_mcb_def held_def
      chan_of_def data_op_def stat_def good_frame_def [abs_def] cong: option.case_cong)

lemma BufDataInd_step:
  assumes ok: "mux_ok m g" "on_mux m g j" and h: "\<forall>k. on_mux m g k \<longrightarrow> held m g k"
    and f: "frame_info (m_is_initiator (c_mcb g m)) b = Some (p_dlci (c_port g j), c, pl)"
    and n: "pl \<noteq> [] \<Longrightarrow> length (d_queue (p_rx (c_port g j))) < unat (p_credit_rx (c_port g j))"
    and l: "length pl \<le> unat (p_mtu (c_port g j))" and t: "unat (p_credit_tx (c_port g j)) + unat c < 65536"
  shows "chan_step m j (receive c pl) g (RFCOMM_BufDataInd (m_lcid (c_mcb g m)) b g)"
    "smooth m g (RFCOMM_BufDataInd (m_lcid (c_mcb g m)) b g)"
proof -
  let ?d = "p_dlci (c_port g j)"
  note okj = mux_okD [OF ok]
  obtain fr b' where p: "rfc_parse_data (c_mcb g m) (c_rx_frame g) b = (RFC_EVENT_UIH, fr, b')" "f_dlci fr = ?d" "f_credit fr = c"
    "b_packet b' = pl" "unat (b_len b') = length pl"
    using frame_info_parse [OF f refl] ok(1) by (auto simp: mux_ok_def)
  define g1 where "g1 = g\<lparr>c_rx_frame := fr\<rparr>"
  have ok1: "mux_ok m g1" "on_mux m g1 j" "\<forall>k. on_mux m g1 k \<longrightarrow> held m g1 k"
    using ok h by (simp_all add: g1_def mux_ok_rx_frame)
  have "port_find_mcb_dlci_port m ?d g1 = port_find_mcb_dlci_port m ?d g" by (simp add: g1_def port_find_mcb_dlci_port_def)
  then have find: "port_find_mcb_dlci_port m ?d g1 = Some j" using find_linked [OF okj(1,2)] by simp
  have d0: "?d \<noteq> 0" using okj(2) by (simp add: port_ok_def)
  have "RFCOMM_BufDataInd (m_lcid (c_mcb g m)) b g = port_frame j RFC_EVENT_UIH b' g1"
    using ok d0 find p by (simp add: RFCOMM_BufDataInd_def mux_ok_def p(1) RFCOMM_MX_DLCI_def on_mux_def flip: g1_def)
      (simp add: g1_def)
  moreover define g2 where "g2 = (if b_len b' > 0 then rfc_port_sm_execute j (EV_UIH b') g1 else emit (Freebuf b') g1)"
  ultimately have g': "RFCOMM_BufDataInd (m_lcid (c_mcb g m)) b g =
    (if f_credit (c_rx_frame g2) \<noteq> 0 then rfc_inc_credit j (f_credit (c_rx_frame g2)) g2 else g2)"
    by (simp add: port_frame_def Let_def)
  have pl: "b_len b' > 0 \<longleftrightarrow> pl \<noteq> []" using p(5) by (auto simp: word_less_nat_alt)
  have 2: "chan_step m j (\<lambda>x. x\<lparr>ch_rxq := ch_rxq x @ (if pl = [] then [] else [pl])\<rparr>) g1 g2 \<and>
    p_credit_tx (c_port g2 j) = p_credit_tx (c_port g j) \<and> c_rx_frame g2 = fr \<and> smooth m g1 g2"
  proof (cases "pl = []")
    case True
    have q: "quiet m g1 g2" "c_mcb g2 = c_mcb g1"
      using True pl by (simp_all add: g2_def quiet_def same_but_def emit_def cmd_q_def)
    show ?thesis using chan_step_quiet [OF q(1) ok1(1) q(2) ok1(3), of j] True pl
      by (simp add: g2_def emit_def g1_def smooth_def clear_def cmd_q_def cong: if_cong)
  next
    case False
    have "g2 = PORT_DataInd m (p_dlci (c_port g1 j)) b' g1"
      using False pl ok1 mux_okD(2) [OF ok1(1,2)]
      by (simp add: g2_def rfc_port_sm_execute_def port_ok_def rfc_port_sm_opened_def rfc_port_uplink_data_def with_mcb_def on_mux_def)
    from DataInd_step [OF ok1 _ _ this] n [OF False] l False p(4,5)
    show ?thesis by (simp add: g1_def put_rxq_def [abs_def] word_le_nat_alt)
  qed
  have ok2: "mux_ok m g2" "on_mux m g2 j" "\<forall>k. on_mux m g2 k \<longrightarrow> held m g2 k"
    using 2 ok1(2) stat_on_mux [of m g1 g2] by (auto simp: chan_step_def data_op_def)
  have "chan_step m j (receive c pl) g1 (RFCOMM_BufDataInd (m_lcid (c_mcb g m)) b g) \<and>
    smooth m g1 (RFCOMM_BufDataInd (m_lcid (c_mcb g m)) b g)"
  proof (cases "c = 0")
    case True
    then show ?thesis using 2 g' p(3) by (simp add: receive_def [abs_def] chan_step_def)
  next
    case False
    have t2: "unat (p_credit_tx (c_port g2 j)) + unat c < 65536" using 2 t by simp
    note s3 = inc_credit_step [OF ok2 False t2]
    show ?thesis
      using chan_step_trans [OF conjunct1 [OF 2] s3(1) ok1(2)] smooth_trans [OF _ s3(2)] False g' p(3) 2
      by (simp add: receive_def [abs_def])
  qed
  moreover have "clear m g1 = clear m g" by (simp add: g1_def clear_def cmd_q_def)
  ultimately show "chan_step m j (receive c pl) g (RFCOMM_BufDataInd (m_lcid (c_mcb g m)) b g)"
    "smooth m g (RFCOMM_BufDataInd (m_lcid (c_mcb g m)) b g)"
    unfolding chan_step_def smooth_def g1_def mux_ok_rx_frame by blast+
qed

text \<open>Congestion.  While the peer is not ready the loop does nothing, so the inner and the outer \<^verbatim>\<open>PORT_FlowInd\<close> agree.\<close>

lemma tx_all_closed: "\<not> tx_open i g \<Longrightarrow> tx_all i g = tx_none i g"
  by (cases "d_queue (p_tx (c_port g i))") (simp_all add: tx_all_def tx_none_def)

lemma flow_port_closed:
  assumes "p_mcb (c_port g i) = Some m" "\<not> m_peer_ready (c_mcb g m)"
  shows "flow_port tx_all i g = flow_port tx_none i g"
proof -
  obtain e g1 where g1: "port_flow_control_user i g = (e, g1)" by (metis prod.exhaust)
  then have "c_mcb g1 = c_mcb g" "p_mcb (c_port g1 i) = p_mcb (c_port g i)"
    by (auto simp: port_flow_control_user_def upd_tx_def Let_def split: if_splits)
  then have "\<not> tx_open i g1" using assms by (simp add: tx_open_def)
  then show ?thesis by (simp add: flow_port_def g1 port_rfc_send_tx_data_with_def tx_all_closed)
qed

lemma FlowInd_closed: "PORT_FlowInd_with tx_all m 0 False g = PORT_FlowInd_with tx_none m 0 False g"
proof -
  have "fold (\<lambda>i g. if p_in_use (c_port g i) \<and> p_mcb (c_port g i) = Some m \<and> p_rfc_state (c_port g i) = RFC_STATE_OPENED
          then flow_port tx_all i g else g) xs g =
    fold (\<lambda>i g. if p_in_use (c_port g i) \<and> p_mcb (c_port g i) = Some m \<and> p_rfc_state (c_port g i) = RFC_STATE_OPENED
          then flow_port tx_none i g else g) xs g" if "\<not> m_peer_ready (c_mcb g m)" for xs g
    using that
  proof (induction xs arbitrary: g)
    case (Cons x xs)
    then show ?case by (simp add: flow_port_closed)
  qed simp
  then show ?thesis by (simp add: PORT_FlowInd_with_def upd_mux_def)
qed

lemma exec_plain_all: "list_all plain_out xs \<Longrightarrow> fold (exec_out tx_all m) xs g = fold (exec_out tx_none m) xs g"
  by (induction xs arbitrary: g) (auto simp: plain_out_def exec_out_def FlowInd_closed)

lemma flush_step:
  assumes ok: "mux_ok m g" "\<forall>k. on_mux m g k \<longrightarrow> held m g k" and s: "same_but m g g'"
    and w: "writes (c_outs g') = writes (c_outs g) @ w" "cmd_q m g = w @ cmd_q m g'"
    and r: "m_peer_ready (c_mcb g' m) \<Longrightarrow> m_peer_ready (c_mcb g m)"
  shows "chan_step m j (\<lambda>c. c) g g'"
proof -
  have co: "list_all (credit_only m g) w" "list_all (credit_only m g) (cmd_q m g')" using ok(1) w(2) by (auto simp: mux_ok_def)
  have "list_all (good_frame m g) w" using co(1) credit_only_good by (auto simp: list_all_iff)
  then have "data_op m g g'" using same_but_mux_ok [OF s ok(1) co(2)] same_but_stat [OF s] w(1) by (auto simp: data_op_def)
  moreover have "chan_of m k g' = chan_of m k g" for k
    using payloads_credit_only [OF co(1)] unfolding same_but_chan [OF s] w(1) by (simp add: chan_of_def Let_def w(2))
  moreover have "held m g' k" if "on_mux m g k" for k
  proof -
    have c: "port_core (c_port g' k) = port_core (c_port g k)" using s by (simp add: same_but_def)
    show ?thesis using ok(2) that r by (auto simp: held_def port_coreD(22,23) [OF c])
  qed
  moreover have "lively (c_port g k) \<longrightarrow> lively (c_port g' k)" for k
    using s rx_kept_lively [OF rx_kept_core] by (simp add: same_but_def)
  ultimately show ?thesis by (simp add: chan_step_def)
qed

lemma on_mcb_all:
  assumes "st_writes (mcb_view m g) (f (mcb_view m g)) w"
  shows "on_mcb_with tx_all m f g = on_mcb m f g"
    "on_mcb_with tx_all m (\<lambda>s. rfc_emit (PORT_FlowInd 0 True) (f s)) g = PORT_FlowInd_port m 0 True (on_mcb m f g)"
proof -
  obtain xs where xs: "r_outs (f (mcb_view m g)) = xs" "list_all plain_out xs"
    using assms by (auto simp: st_writes_def mcb_view_def)
  then show "on_mcb_with tx_all m f g = on_mcb m f g"
    by (simp add: on_mcb_def on_mcb_with_def exec_plain_all Let_def)
  show "on_mcb_with tx_all m (\<lambda>s. rfc_emit (PORT_FlowInd 0 True) (f s)) g = PORT_FlowInd_port m 0 True (on_mcb m f g)"
    using xs by (simp add: on_mcb_def on_mcb_with_def exec_plain_all Let_def rfc_emit_def exec_out_def PORT_FlowInd_port_def
        mcb_store_def)
qed

lemma st_writes_congested:
  "st_writes s (rfc_l2cap_congested s) []" "m_cmd_q (r_mcb (rfc_l2cap_congested s)) = m_cmd_q (r_mcb s)"
  by (auto simp: st_writes_def rfc_l2cap_congested_def upd_mcb_def rfc_emit_def st_same_def mux_core_def plain_out_def Let_def)

definition uncongest :: "rfc_st \<Rightarrow> rfc_st" where
  "uncongest s = rfc_check_send_cmd None (upd_mcb (\<lambda>m. m\<lparr>m_l2cap_congested := False\<rparr>) s)"

lemma st_writes_uncongest:
  "\<exists>w. st_writes s (uncongest s) w \<and> m_cmd_q (r_mcb s) = w @ m_cmd_q (r_mcb (uncongest s))"
proof -
  let ?s = "upd_mcb (\<lambda>m. m\<lparr>m_l2cap_congested := False\<rparr>) s"
  have "st_writes s ?s []" "m_cmd_q (r_mcb ?s) = m_cmd_q (r_mcb s)" by (simp_all add: st_writes_def st_same_def upd_mcb_def mux_core_def)
  then show ?thesis
    using st_writes_flush [OF refl, of ?s] st_writes_trans [of s ?s "[]"]
    unfolding uncongest_def rfc_check_send_cmd_def Let_def option.case by fastforce
qed

lemma rx_disabled_simps [simp]:
  "r_peer_rx_disabled (rfc_data_write b s) = r_peer_rx_disabled s"
  "r_peer_rx_disabled (rfc_flush_cmds q s) = r_peer_rx_disabled s"
  "r_peer_rx_disabled (upd_mcb f s) = r_peer_rx_disabled s"
proof -
  show 1: "r_peer_rx_disabled (rfc_data_write b s) = r_peer_rx_disabled s" for b s
    by (auto simp: rfc_data_write_def rfc_l2cap_congested_def upd_mcb_def rfc_emit_def Let_def split: list.splits)
  show 2: "r_peer_rx_disabled (upd_mcb f s) = r_peer_rx_disabled s" for f s by (simp add: upd_mcb_def)
  show "r_peer_rx_disabled (rfc_flush_cmds q s) = r_peer_rx_disabled s"
    by (induction q s rule: rfc_flush_cmds.induct) (simp_all add: 1 2)
qed

lemma Congestion_eq:
  assumes "mux_ok m g"
  shows "RFCOMM_CongestionStatusInd (m_lcid (c_mcb g m)) cg g =
    (if cg then on_mcb m rfc_l2cap_congested g
     else if c_peer_rx_disabled g then on_mcb m uncongest g
     else PORT_FlowInd_port m 0 True (on_mcb m uncongest g))"
proof -
  obtain w where w: "st_writes (mcb_view m g) (uncongest (mcb_view m g)) w" using st_writes_uncongest by blast
  have g': "RFCOMM_CongestionStatusInd (m_lcid (c_mcb g m)) cg g = on_mcb_with tx_all m (rfc_process_l2cap_congestion cg) g"
    using assms by (simp add: RFCOMM_CongestionStatusInd_def mux_ok_def)
  have "r_peer_rx_disabled (uncongest (mcb_view m g)) = c_peer_rx_disabled g"
    by (simp add: uncongest_def rfc_check_send_cmd_def Let_def) (simp add: mcb_view_def)
  then show ?thesis unfolding g'
    using on_mcb_all [where f = uncongest, OF w] on_mcb_all(1) [where f = rfc_l2cap_congested, OF st_writes_congested(1)]
    by (simp add: on_mcb_with_def rfc_process_l2cap_congestion_def uncongest_def Let_def)
qed

lemma Congestion_step:
  assumes ok: "mux_ok m g" and h: "\<forall>k. on_mux m g k \<longrightarrow> held m g k"
  shows "chan_step m j (\<lambda>c. c) g (RFCOMM_CongestionStatusInd (m_lcid (c_mcb g m)) cg g)"
proof (cases cg)
  case True
  note w = on_mcb_writes [where f = rfc_l2cap_congested, OF st_writes_congested(1)]
  have "cmd_q m g = [] @ cmd_q m (on_mcb m rfc_l2cap_congested g)"
    unfolding w(3) by (simp add: st_writes_congested mcb_view_def cmd_q_def)
  from flush_step [OF ok h w(1,2) this w(4)] show ?thesis using True by (simp add: Congestion_eq [OF ok])
next
  case False
  obtain v where v: "st_writes (mcb_view m g) (uncongest (mcb_view m g)) v"
    "m_cmd_q (c_mcb g m) = v @ m_cmd_q (r_mcb (uncongest (mcb_view m g)))"
    using st_writes_uncongest [of "mcb_view m g"] by (auto simp: mcb_view_def)
  note w = on_mcb_writes [where f = uncongest, OF v(1)]
  have q: "cmd_q m g = v @ cmd_q m (on_mcb m uncongest g)" unfolding w(3) using v(2) by (simp add: cmd_q_def)
  have 1: "chan_step m j (\<lambda>c. c) g (on_mcb m uncongest g)" by (rule flush_step [OF ok h w(1,2) q w(4)])
  then have ok1: "mux_ok m (on_mcb m uncongest g)" by (simp add: chan_step_def data_op_def)
  have 2: "chan_step m j (\<lambda>c. c) g (PORT_FlowInd_port m 0 True (on_mcb m uncongest g))"
    by (rule chan_step_id_trans [OF 1 FlowInd_step [OF ok1]])
  show ?thesis using 1 2 False by (simp add: Congestion_eq [OF ok])
qed

end
