(* ===== verification/Rfc_Link.thy ===== *)
theory Rfc_Link
  imports Rfc_Data
begin

text \<open>
  Two stacks joined by an L2CAP channel: users on both ends write, read and stop their peers, L2CAP
  delivers the frames in order and reports congestion at any time.
\<close>

section \<open>The link\<close>

text \<open>
  Both ends, the number of frames of each end the other has received, and for each channel what the user
  of an end has written and what it has read.
\<close>

record link =
  ln :: "bool \<Rightarrow> rfc_cb"
  ln_used :: "bool \<Rightarrow> nat"
  ln_wrote :: "bool \<Rightarrow> u8 \<Rightarrow> bytes list"
  ln_got :: "bool \<Rightarrow> u8 \<Rightarrow> bytes list"

definition add_hist :: "bool \<Rightarrow> u8 \<Rightarrow> bytes list \<Rightarrow> (bool \<Rightarrow> u8 \<Rightarrow> bytes list) \<Rightarrow> bool \<Rightarrow> u8 \<Rightarrow> bytes list" where
  "add_hist s d xs H = H(s := (H s)(d := H s d @ xs))"

lemma add_hist_simps [simp]:
  "add_hist s d xs H s d = H s d @ xs"
  "d' \<noteq> d \<Longrightarrow> add_hist s d xs H x d' = H x d'"
  "add_hist s d xs H (\<not> s) d' = H (\<not> s) d'"
  "add_hist s d [] H = H"
  by (auto simp: add_hist_def)

text \<open>
  A buffer for a command and the answers of L2CAP to the writes of the operation.  Every operation of a
  run gets its buffer: runs in which \<^verbatim>\<open>GKI_getpoolbuf\<close> fails, in which \<^verbatim>\<open>port_flow_control_peer\<close> loses the
  credits it could not send, are outside the step relation.
\<close>

definition equip :: "bt_buf \<Rightarrow> bool list \<Rightarrow> rfc_cb \<Rightarrow> rfc_cb" where
  "equip b cs g = g\<lparr>c_bufs := [b], c_congs := cs\<rparr>"

abbreviation wire :: "link \<Rightarrow> bool \<Rightarrow> bt_buf list" where
  "wire l s \<equiv> writes (c_outs (ln l s))"

datatype link_event = Ev_write | Ev_read | Ev_flow_control | Ev_congestion | Ev_deliver

inductive link_step :: "(bool \<Rightarrow> nat) \<Rightarrow> link_event \<Rightarrow> link \<Rightarrow> link \<Rightarrow> bool" for mx where
  user_write: "on_mux (mx s) (ln l s) j \<Longrightarrow> rfc_cmd_buf b \<Longrightarrow> g = equip b cs (ln l s) \<Longrightarrow> tx_buf (c_port g j) x \<Longrightarrow>
    link_step mx Ev_write l (l\<lparr>ln := (ln l)(s := snd (PORT_Write (of_nat (j + 1)) x g)),
      ln_wrote := add_hist s (p_dlci (c_port g j)) (if write_taken j x g then [b_packet x] else []) (ln_wrote l)\<rparr>)"
| user_read: "on_mux (mx s) (ln l s) j \<Longrightarrow> rfc_cmd_buf b \<Longrightarrow> g = equip b cs (ln l s) \<Longrightarrow> PORT_Read (of_nat (j + 1)) g = (rc, res, g') \<Longrightarrow>
    link_step mx Ev_read l (l\<lparr>ln := (ln l)(s := g'),
      ln_got := add_hist s (p_dlci (c_port g j)) (case res of None \<Rightarrow> [] | Some x \<Rightarrow> [b_packet x]) (ln_got l)\<rparr>)"
| flow_control: "on_mux (mx s) (ln l s) j \<Longrightarrow> rfc_cmd_buf b \<Longrightarrow> g = equip b cs (ln l s) \<Longrightarrow>
    link_step mx Ev_flow_control l (l\<lparr>ln := (ln l)(s := snd (PORT_FlowControl (of_nat (j + 1)) en g))\<rparr>)"
| congestion: "on_mux (mx s) (ln l s) j \<Longrightarrow> rfc_cmd_buf b \<Longrightarrow> g = equip b cs (ln l s) \<Longrightarrow>
    link_step mx Ev_congestion l (l\<lparr>ln := (ln l)(s := RFCOMM_CongestionStatusInd (m_lcid (c_mcb g (mx s))) cg g)\<rparr>)"
| deliver: "ln_used l (\<not> s) < length (wire l (\<not> s)) \<Longrightarrow> b_packet x = b_packet (wire l (\<not> s) ! ln_used l (\<not> s)) \<Longrightarrow> in_range x \<Longrightarrow>
    rfc_cmd_buf b \<Longrightarrow> g = equip b cs (ln l s) \<Longrightarrow>
    link_step mx Ev_deliver l (l\<lparr>ln := (ln l)(s := RFCOMM_BufDataInd (m_lcid (c_mcb g (mx s))) x g),
      ln_used := (ln_used l)(\<not> s := Suc (ln_used l (\<not> s)))\<rparr>)"

lemma equip_simps [simp]:
  "mux_ok m (equip b cs g) = mux_ok m g" "on_mux m (equip b cs g) j = on_mux m g j" "held m (equip b cs g) j = held m g j"
  "chan_of m j (equip b cs g) = chan_of m j g" "c_port (equip b cs g) = c_port g" "c_mcb (equip b cs g) = c_mcb g"
  "c_bufs (equip b cs g) = [b]" "c_outs (equip b cs g) = c_outs g"
  "chan_step m j F (equip b cs g) g' = chan_step m j F g g'"
proof -
  let ?g = "equip b cs g"
  show e: "c_port ?g = c_port g" "c_mcb ?g = c_mcb g" "c_bufs ?g = [b]" "c_outs ?g = c_outs g" by (simp_all add: equip_def)
  show o: "on_mux m ?g j = on_mux m g j" "held m ?g j = held m g j" "chan_of m j ?g = chan_of m j g" for j
    by (simp_all add: on_mux_def held_def chan_of_def cmd_q_def e)
  have f: "credit_only m ?g = credit_only m g" "good_frame m ?g = good_frame m g" "linked m ?g = linked m g"
    by (simp_all add: fun_eq_iff credit_only_def good_frame_def linked_def o e)
  show "mux_ok m ?g = mux_ok m g"
    by (simp add: mux_ok_def o e f cmd_q_def rfc_find_lcid_mcb_def) (simp add: equip_def cong: option.case_cong)
  have "data_op m ?g g' = data_op m g g'" by (simp add: data_op_def stat_def e f)
  then show "chan_step m j F ?g g' = chan_step m j F g g'" by (simp add: chan_step_def o e)
qed

text \<open>What an end's peer has received on a channel: data and credits.\<close>

definition eaten :: "(bool \<Rightarrow> nat) \<Rightarrow> link \<Rightarrow> bool \<Rightarrow> u8 \<Rightarrow> bytes list" where
  "eaten mx l s d = payloads (peer (mx s) (ln l s)) d (take (ln_used l s) (wire l s))"

definition taken :: "(bool \<Rightarrow> nat) \<Rightarrow> link \<Rightarrow> bool \<Rightarrow> u8 \<Rightarrow> nat" where
  "taken mx l s d = grants (peer (mx s) (ln l s)) d (take (ln_used l s) (wire l s))"

definition pair_inv :: "bytes list \<Rightarrow> bytes list \<Rightarrow> bytes list \<Rightarrow> nat \<Rightarrow> chan \<Rightarrow> chan \<Rightarrow> bool" where
  "pair_inv w r p n c c' \<longleftrightarrow> ch_sent c @ ch_queue c = w \<and> r @ ch_rxq c' = p \<and>
     ch_tx c + length (ch_sent c) + ch_given c' + length (ch_rxq c') = ch_rx c' + length p + n"

lemma pair_inv_flows: "pair_inv w r p n c c' \<Longrightarrow> flows c e \<Longrightarrow> flows c' e' \<Longrightarrow> pair_inv w r p n e e'"
  by (auto simp: pair_inv_def flows_def)

definition paired :: "(bool \<Rightarrow> nat) \<Rightarrow> link \<Rightarrow> bool \<Rightarrow> nat \<Rightarrow> nat \<Rightarrow> bool" where
  "paired mx l s j k \<longleftrightarrow> on_mux (mx s) (ln l s) j \<and> on_mux (mx (\<not> s)) (ln l (\<not> s)) k \<and>
     p_dlci (c_port (ln l s) j) = p_dlci (c_port (ln l (\<not> s)) k)"

lemma paired_sym: "paired mx l (\<not> s) k j = paired mx l s j k"
  by (auto simp: paired_def)

definition pair_ok :: "(bool \<Rightarrow> nat) \<Rightarrow> link \<Rightarrow> bool \<Rightarrow> nat \<Rightarrow> nat \<Rightarrow> bool" where
  "pair_ok mx l s j k \<longleftrightarrow> p_peer_mtu (c_port (ln l s) j) \<le> p_mtu (c_port (ln l (\<not> s)) k) \<and>
     (let d = p_dlci (c_port (ln l s) j)
      in pair_inv (ln_wrote l s d) (ln_got l (\<not> s) d) (eaten mx l s d) (taken mx l (\<not> s) d)
           (chan_of (mx s) j (ln l s)) (chan_of (mx (\<not> s)) k (ln l (\<not> s))))"

definition side_ok :: "(bool \<Rightarrow> nat) \<Rightarrow> link \<Rightarrow> bool \<Rightarrow> bool" where
  "side_ok mx l s \<longleftrightarrow> mux_ok (mx s) (ln l s) \<and>
     (\<forall>j. on_mux (mx s) (ln l s) j \<longrightarrow> held (mx s) (ln l s) j \<and> lively (c_port (ln l s) j)) \<and>
     ln_used l s \<le> length (wire l s) \<and> list_all (good_frame (mx s) (ln l s)) (drop (ln_used l s) (wire l s))"

definition link_ok :: "(bool \<Rightarrow> nat) \<Rightarrow> link \<Rightarrow> bool" where
  "link_ok mx l \<longleftrightarrow> (\<forall>s. side_ok mx l s) \<and>
     (\<forall>s. m_is_initiator (c_mcb (ln l (\<not> s)) (mx (\<not> s))) = peer (mx s) (ln l s)) \<and>
     (\<forall>s j. on_mux (mx s) (ln l s) j \<longrightarrow> (\<exists>k. paired mx l s j k)) \<and>
     (\<forall>s j k. paired mx l s j k \<longrightarrow> pair_ok mx l s j k)"

lemma link_okD:
  assumes "link_ok mx l"
  shows "mux_ok (mx s) (ln l s)" "\<forall>j. on_mux (mx s) (ln l s) j \<longrightarrow> held (mx s) (ln l s) j"
    "on_mux (mx s) (ln l s) j \<Longrightarrow> lively (c_port (ln l s) j)" "ln_used l s \<le> length (wire l s)"
    "m_is_initiator (c_mcb (ln l (\<not> s)) (mx (\<not> s))) = peer (mx s) (ln l s)" "paired mx l s j k \<Longrightarrow> pair_ok mx l s j k"
    "on_mux (mx s) (ln l s) j \<Longrightarrow> \<exists>k. paired mx l s j k"
  using assms by (auto simp: link_ok_def side_ok_def)

text \<open>An operation at one end.\<close>

lemma both_sides: "P s \<Longrightarrow> P (\<not> s) \<Longrightarrow> P x"
  by (cases x; cases s) simp_all

lemma paired_dlci:
  assumes "link_ok mx l" "paired mx l s j k" "on_mux (mx s) (ln l s) j'" "p_dlci (c_port (ln l s) j') = p_dlci (c_port (ln l (\<not> s)) k)"
  shows "j' = j"
  using assms linked_inj [of "mx s" "ln l s"] mux_okD(1) [OF link_okD(1) [OF assms(1)]] by (simp add: paired_def)

lemma link_ok_step:
  assumes ok: "link_ok mx l" and st: "chan_step (mx s) j F (ln l s) g'" and j: "on_mux (mx s) (ln l s) j"
    and l': "l' = l\<lparr>ln := (ln l)(s := g'), ln_used := (ln_used l)(\<not> s := u), ln_wrote := add_hist s d W (ln_wrote l),
      ln_got := add_hist s d R (ln_got l)\<rparr>"
    and d: "d = p_dlci (c_port (ln l s) j)" and u: "ln_used l (\<not> s) \<le> u" "u \<le> length (wire l (\<not> s))"
    and own: "\<And>k. paired mx l s j k \<Longrightarrow> pair_inv (ln_wrote l s d @ W) (ln_got l (\<not> s) d) (eaten mx l s d)
      (grants (peer (mx (\<not> s)) (ln l (\<not> s))) d (take u (wire l (\<not> s))))
      (F (chan_of (mx s) j (ln l s))) (chan_of (mx (\<not> s)) k (ln l (\<not> s)))"
    and opp: "\<And>k. paired mx l s j k \<Longrightarrow> pair_inv (ln_wrote l (\<not> s) d) (ln_got l s d @ R)
      (payloads (peer (mx (\<not> s)) (ln l (\<not> s))) d (take u (wire l (\<not> s)))) (taken mx l s d)
      (chan_of (mx (\<not> s)) k (ln l (\<not> s))) (F (chan_of (mx s) j (ln l s)))"
    and other: "\<And>d'. d' \<noteq> d \<Longrightarrow> payloads (peer (mx (\<not> s)) (ln l (\<not> s))) d' (take u (wire l (\<not> s))) = eaten mx l (\<not> s) d'"
      "\<And>d'. d' \<noteq> d \<Longrightarrow> grants (peer (mx (\<not> s)) (ln l (\<not> s))) d' (take u (wire l (\<not> s))) = taken mx l (\<not> s) d'"
  shows "link_ok mx l'"
proof -
  have sel: "ln l' s = g'" "ln l' (\<not> s) = ln l (\<not> s)" "ln_used l' s = ln_used l s" "ln_used l' (\<not> s) = u"
    "ln_wrote l' = add_hist s d W (ln_wrote l)" "ln_got l' = add_hist s d R (ln_got l)" by (simp_all add: l')
  have op: "mux_ok (mx s) g'" "stat (mx s) (ln l s) g'" using st by (simp_all add: chan_step_def data_op_def)
  obtain w where w: "writes (c_outs g') = wire l s @ w" "list_all (good_frame (mx s) (ln l s)) w"
    using st by (auto simp: chan_step_def data_op_def)
  have om: "on_mux (mx s) g' k = on_mux (mx s) (ln l s) k" for k by (rule stat_on_mux [OF op(2)])
  have gf: "good_frame (mx s) g' = good_frame (mx s) (ln l s)" using stat_frames(1) [OF op(2)] by auto
  have dl: "p_dlci (c_port g' k) = p_dlci (c_port (ln l s) k)" "p_mtu (c_port g' k) = p_mtu (c_port (ln l s) k)"
    "p_peer_mtu (c_port g' k) = p_peer_mtu (c_port (ln l s) k)" "m_is_initiator (c_mcb g' (mx s)) = m_is_initiator (c_mcb (ln l s) (mx s))" for k
    using op(2) by (simp_all add: stat_def)
  have us: "ln_used l s \<le> length (wire l s)" by (rule link_okD(4) [OF ok])
  have et: "eaten mx l' s d' = eaten mx l s d'" "taken mx l' s d' = taken mx l s d'"
    "eaten mx l' (\<not> s) d' = payloads (peer (mx (\<not> s)) (ln l (\<not> s))) d' (take u (wire l (\<not> s)))"
    "taken mx l' (\<not> s) d' = grants (peer (mx (\<not> s)) (ln l (\<not> s))) d' (take u (wire l (\<not> s)))" for d'
    using us by (simp_all add: eaten_def taken_def sel w(1) dl(4))
  have pr0: "paired mx l' s a b = paired mx l s a b" for a b by (simp add: paired_def sel om dl)
  have pr: "paired mx l' x a b = paired mx l x a b" for x a b
    by (rule both_sides [where s = s]) (simp_all add: paired_sym pr0)
  have so: "side_ok mx l s" "side_ok mx l (\<not> s)" using ok by (simp_all add: link_ok_def)
  have "side_ok mx l' s"
    using so(1) st us by (simp add: side_ok_def sel op om w gf chan_step_def)
  moreover have "side_ok mx l' (\<not> s)"
  proof -
    have "drop u (wire l (\<not> s)) = drop (u - ln_used l (\<not> s)) (drop (ln_used l (\<not> s)) (wire l (\<not> s)))" using u by simp
    then have "list_all (good_frame (mx (\<not> s)) (ln l (\<not> s))) (drop u (wire l (\<not> s)))"
      using so(2) set_drop_subset [of "u - ln_used l (\<not> s)" "drop (ln_used l (\<not> s)) (wire l (\<not> s))"]
      by (auto simp: side_ok_def list_all_iff)
    then show ?thesis using so(2) u by (simp add: side_ok_def sel)
  qed
  ultimately have sides: "side_ok mx l' x" for x by (rule both_sides [where s = s])
  have fl: "flows (if k = j then F (chan_of (mx s) k (ln l s)) else chan_of (mx s) k (ln l s)) (chan_of (mx s) k g')"
    if "on_mux (mx s) (ln l s) k" for k using st that by (simp add: chan_step_def)
  have pk: "pair_ok mx l' s a b \<and> pair_ok mx l' (\<not> s) b a" if p: "paired mx l s a b" for a b
  proof -
    have p0: "pair_ok mx l s a b" "pair_ok mx l (\<not> s) b a" using link_okD(6) [OF ok] p by (simp_all add: paired_sym)
    have e: "p_dlci (c_port (ln l (\<not> s)) b) = p_dlci (c_port (ln l s) a)" and oa: "on_mux (mx s) (ln l s) a"
      using p by (simp_all add: paired_def)
    let ?d = "p_dlci (c_port (ln l s) a)" and ?c = "chan_of (mx s) a g'" and ?c' = "chan_of (mx (\<not> s)) b (ln l (\<not> s))"
    have "pair_inv (ln_wrote l' s ?d) (ln_got l' (\<not> s) ?d) (eaten mx l' s ?d) (taken mx l' (\<not> s) ?d) ?c ?c' \<and>
      pair_inv (ln_wrote l' (\<not> s) ?d) (ln_got l' s ?d) (eaten mx l' (\<not> s) ?d) (taken mx l' s ?d) ?c' ?c"
    proof (cases "a = j")
      case True
      then have f: "flows (F (chan_of (mx s) a (ln l s))) ?c" using fl [OF oa] by simp
      show ?thesis
        using pair_inv_flows [OF own [of b] f [unfolded True] flows_refl] pair_inv_flows [OF opp [of b] flows_refl f [unfolded True]] p
        by (simp only: sel et True add_hist_simps d [symmetric])
    next
      case False
      then have f: "flows (chan_of (mx s) a (ln l s)) ?c" using fl [OF oa] by simp
      have n: "?d \<noteq> d" using paired_dlci [OF ok p j] e d False by auto
      from p0 have i: "pair_inv (ln_wrote l s ?d) (ln_got l (\<not> s) ?d) (eaten mx l s ?d) (taken mx l (\<not> s) ?d) (chan_of (mx s) a (ln l s)) ?c'"
        "pair_inv (ln_wrote l (\<not> s) ?d) (ln_got l s ?d) (eaten mx l (\<not> s) ?d) (taken mx l s ?d) ?c' (chan_of (mx s) a (ln l s))"
        by (simp_all add: pair_ok_def e Let_def)
      show ?thesis
        using pair_inv_flows [OF i(1) f flows_refl] pair_inv_flows [OF i(2) flows_refl f]
        by (simp only: sel et other [OF n] add_hist_simps(2) [OF n] simp_thms)
    qed
    then show ?thesis using p0 by (simp add: pair_ok_def sel dl e Let_def)
  qed
  have "\<forall>a b. paired mx l x a b \<longrightarrow> pair_ok mx l' x a b" for x
    by (rule both_sides [where s = s]) (simp_all add: pk paired_sym)
  moreover have "\<forall>a. on_mux (mx x) (ln l' x) a \<longrightarrow> (\<exists>k. paired mx l x a k)" for x
    by (rule both_sides [where s = s]) (simp_all add: sel om link_okD(7) [OF ok])
  moreover have "m_is_initiator (c_mcb (ln l' (\<not> x)) (mx (\<not> x))) = peer (mx x) (ln l' x)" for x
    by (rule both_sides [where s = s and x = x])
      (use link_okD(5) [OF ok, of s] in \<open>simp_all add: sel dl\<close>)
  ultimately show ?thesis using sides by (simp add: link_ok_def pr)
qed

lemma link_ok_user:
  assumes ok: "link_ok mx l" and st: "chan_step (mx s) j F (ln l s) g'" and j: "on_mux (mx s) (ln l s) j"
    and l': "l' = l\<lparr>ln := (ln l)(s := g'), ln_wrote := add_hist s d W (ln_wrote l), ln_got := add_hist s d R (ln_got l)\<rparr>"
    and d: "d = p_dlci (c_port (ln l s) j)"
    and F: "\<And>w r p n c'. pair_inv w r p n (chan_of (mx s) j (ln l s)) c' \<Longrightarrow> pair_inv (w @ W) r p n (F (chan_of (mx s) j (ln l s))) c'"
      "\<And>w r p n c'. pair_inv w r p n c' (chan_of (mx s) j (ln l s)) \<Longrightarrow> pair_inv w (r @ R) p n c' (F (chan_of (mx s) j (ln l s)))"
  shows "link_ok mx l'"
proof (rule link_ok_step [OF ok st j _ d, where W = W and R = R and u = "ln_used l (\<not> s)"])
  fix k
  assume p: "paired mx l s j k"
  then have e: "p_dlci (c_port (ln l (\<not> s)) k) = d" by (simp add: paired_def d)
  have "pair_ok mx l s j k" "pair_ok mx l (\<not> s) k j" using link_okD(6) [OF ok] p by (simp_all add: paired_sym)
  then show "pair_inv (ln_wrote l s d @ W) (ln_got l (\<not> s) d) (eaten mx l s d)
      (grants (peer (mx (\<not> s)) (ln l (\<not> s))) d (take (ln_used l (\<not> s)) (wire l (\<not> s))))
      (F (chan_of (mx s) j (ln l s))) (chan_of (mx (\<not> s)) k (ln l (\<not> s)))"
    "pair_inv (ln_wrote l (\<not> s) d) (ln_got l s d @ R)
      (payloads (peer (mx (\<not> s)) (ln l (\<not> s))) d (take (ln_used l (\<not> s)) (wire l (\<not> s)))) (taken mx l s d)
      (chan_of (mx (\<not> s)) k (ln l (\<not> s))) (F (chan_of (mx s) j (ln l s)))"
    using F by (simp_all add: pair_ok_def Let_def e taken_def eaten_def flip: d)
qed (simp_all add: l' eaten_def taken_def link_okD(4) [OF ok])

lemma handle_of:
  assumes "link_ok mx l" "on_mux (mx s) (ln l s) j"
  shows "unat (of_nat (j + 1) :: u16) = j + 1"
  using mux_okD(1) [OF link_okD(1) [OF assms(1)] assms(2)]
  by (simp add: linked_def MAX_RFC_PORTS_def unat_of_nat del: of_nat_Suc of_nat_add)

text \<open>What is on its way.\<close>

lemma in_flight:
  assumes "c = chan_of (mx s) j (ln l s)" "d = p_dlci (c_port (ln l s) j)"
  shows "ch_sent c = eaten mx l s d @ payloads (peer (mx s) (ln l s)) d (drop (ln_used l s) (wire l s))"
    "ch_given c = taken mx l s d + grants (peer (mx s) (ln l s)) d (drop (ln_used l s) (wire l s) @ cmd_q (mx s) (ln l s))"
proof -
  have "wire l s = take (ln_used l s) (wire l s) @ drop (ln_used l s) (wire l s)" by simp
  then show "ch_sent c = eaten mx l s d @ payloads (peer (mx s) (ln l s)) d (drop (ln_used l s) (wire l s))"
    "ch_given c = taken mx l s d + grants (peer (mx s) (ln l s)) d (drop (ln_used l s) (wire l s) @ cmd_q (mx s) (ln l s))"
    unfolding assms chan_of_def Let_def chan.simps eaten_def taken_def by (metis channel_simps(2), metis (no_types, lifting) append.assoc channel_simps(4))
qed

lemma next_frame:
  assumes ok: "link_ok mx l" and u: "ln_used l (\<not> s) < length (wire l (\<not> s))"
    and x: "b_packet x = b_packet (wire l (\<not> s) ! ln_used l (\<not> s))" "in_range x"
  obtains j k c pl where "paired mx l s j k"
    "frame_info (m_is_initiator (c_mcb (ln l s) (mx s))) x = Some (p_dlci (c_port (ln l s) j), c, pl)"
    "\<forall>d'. payloads (peer (mx (\<not> s)) (ln l (\<not> s))) d' (take (Suc (ln_used l (\<not> s))) (wire l (\<not> s))) =
       eaten mx l (\<not> s) d' @ (if d' = p_dlci (c_port (ln l s) j) \<and> pl \<noteq> [] then [pl] else [])"
    "\<forall>d'. grants (peer (mx (\<not> s)) (ln l (\<not> s))) d' (take (Suc (ln_used l (\<not> s))) (wire l (\<not> s))) =
       taken mx l (\<not> s) d' + (if d' = p_dlci (c_port (ln l s) j) then unat c else 0)"
    "c \<noteq> 0 \<or> pl \<noteq> []" "length pl \<le> unat (p_mtu (c_port (ln l s) j))"
    "pl \<noteq> [] \<longrightarrow> length (d_queue (p_rx (c_port (ln l s) j))) < unat (p_credit_rx (c_port (ln l s) j))"
    "unat (p_credit_tx (c_port (ln l s) j)) + unat c < 65536"
proof -
  let ?w = "wire l (\<not> s)" and ?u = "ln_used l (\<not> s)" and ?i = "peer (mx (\<not> s)) (ln l (\<not> s))"
  define b where "b = ?w ! ?u"
  have w: "drop ?u ?w = b # drop (Suc ?u) ?w" "take (Suc ?u) ?w = take ?u ?w @ [b]"
    using u by (simp_all add: b_def Cons_nth_drop_Suc take_Suc_conv_app_nth)
  have "side_ok mx l (\<not> s)" using ok by (simp add: link_ok_def)
  then have "good_frame (mx (\<not> s)) (ln l (\<not> s)) b" unfolding side_ok_def w(1) by simp
  then obtain k c pl where g: "on_mux (mx (\<not> s)) (ln l (\<not> s)) k" "frame_info ?i b = Some (p_dlci (c_port (ln l (\<not> s)) k), c, pl)"
    "length pl \<le> unat (p_peer_mtu (c_port (ln l (\<not> s)) k))" "c \<noteq> 0 \<or> pl \<noteq> []" by (auto simp: good_frame_def)
  obtain j where p: "paired mx l s j k" using link_okD(7) [OF ok g(1)] by (auto simp: paired_sym)
  define d where "d = p_dlci (c_port (ln l s) j)"
  have d: "p_dlci (c_port (ln l (\<not> s)) k) = d" and oj: "on_mux (mx s) (ln l s) j" using p by (simp_all add: paired_def d_def)
  have f: "frame_info (m_is_initiator (c_mcb (ln l s) (mx s))) x = Some (d, c, pl)"
    using frame_info_packet [OF g(2) x(1) [folded b_def] x(2)] link_okD(5) [OF ok, of "\<not> s"] by (simp add: d)
  have pg: "payloads ?i d' [b] = (if d' = d \<and> pl \<noteq> [] then [pl] else [])" "grants ?i d' [b] = (if d' = d then unat c else 0)" for d'
    using channel_frame [OF g(2)] d by auto
  have po: "pair_ok mx l s j k" "pair_ok mx l (\<not> s) k j" using link_okD(6) [OF ok] p by (simp_all add: paired_sym)
  define cj where "cj = chan_of (mx s) j (ln l s)"
  define ck where "ck = chan_of (mx (\<not> s)) k (ln l (\<not> s))"
  have eq: "ch_tx cj + length (ch_sent cj) + ch_given ck + length (ch_rxq ck) = ch_rx ck + length (eaten mx l s d) + taken mx l (\<not> s) d"
    "ch_tx ck + length (ch_sent ck) + ch_given cj + length (ch_rxq cj) = ch_rx cj + length (eaten mx l (\<not> s) d) + taken mx l s d"
    using po by (simp_all add: pair_ok_def pair_inv_def Let_def d cj_def ck_def flip: d_def)
  have "payloads ?i d (drop ?u ?w) = payloads ?i d [b] @ payloads ?i d (drop (Suc ?u) ?w)"
    "grants ?i d (drop ?u ?w) = grants ?i d [b] + grants ?i d (drop (Suc ?u) ?w)"
    using channel_simps(2,4) [of ?i d "[b]" "drop (Suc ?u) ?w"] by (simp_all add: w(1))
  then have ge: "length (eaten mx l s d) \<le> length (ch_sent cj)" "taken mx l s d \<le> ch_given cj"
    "length (eaten mx l (\<not> s) d) + (if pl = [] then 0 else 1) \<le> length (ch_sent ck)" "taken mx l (\<not> s) d + unat c \<le> ch_given ck"
    using in_flight [where mx = mx and s = s, OF cj_def d_def] in_flight [where mx = mx and s = "\<not> s", OF ck_def d [symmetric]] pg [of d]
    by auto
  have rx: "rx_ok (c_port (ln l s) j)" "rx_ok (c_port (ln l (\<not> s)) k)" using mux_okD(4) [OF link_okD(1) [OF ok]] oj g(1) by auto
  have "ch_rx ck \<le> 255" using rx(2) by (auto simp: rx_ok_def ck_def chan_of_def Let_def word_le_nat_alt)
  then have tx: "unat (p_credit_tx (c_port (ln l s) j)) + unat c < 65536"
    using eq(1) ge(1,4) by (simp add: cj_def chan_of_def Let_def)
  have "length (d_queue (p_rx (c_port (ln l s) j))) < unat (p_credit_rx (c_port (ln l s) j))" if "pl \<noteq> []"
    using eq(2) ge(2,3) that by (simp add: cj_def chan_of_def Let_def)
  moreover have "length pl \<le> unat (p_mtu (c_port (ln l s) j))"
    using g(3) po(2) by (simp add: pair_ok_def word_le_nat_alt)
  ultimately show ?thesis
    using that [of j k c pl] p f g(4) tx pg by (simp add: w(2) eaten_def taken_def flip: d_def)
qed

lemma write_ok:
  assumes ok: "link_ok mx l" and j: "on_mux (mx s) (ln l s) j" and g: "g = equip b cs (ln l s)" and x: "tx_buf (c_port g j) x"
  shows "link_ok mx (l\<lparr>ln := (ln l)(s := snd (PORT_Write (of_nat (j + 1)) x g)),
    ln_wrote := add_hist s (p_dlci (c_port g j)) (if write_taken j x g then [b_packet x] else []) (ln_wrote l)\<rparr>)"
proof -
  have "chan_step (mx s) j (if write_taken j x g then put_queue (b_packet x) else (\<lambda>c. c)) (ln l s) (snd (PORT_Write (of_nat (j + 1)) x g))"
    using PORT_Write_step [OF _ _ _ x handle_of [OF ok j], of "mx s"] link_okD(1,2) [OF ok, of s] j by (simp add: g)
  then show ?thesis
    by (rule link_ok_user [OF ok _ j, where R = "[]"]) (auto simp: g pair_inv_def put_queue_def)
qed

lemma read_ok:
  assumes ok: "link_ok mx l" and j: "on_mux (mx s) (ln l s) j" and b: "rfc_cmd_buf b" and g: "g = equip b cs (ln l s)"
    and r: "PORT_Read (of_nat (j + 1)) g = (rc, res, g')"
  shows "link_ok mx (l\<lparr>ln := (ln l)(s := g'),
    ln_got := add_hist s (p_dlci (c_port g j)) (case res of None \<Rightarrow> [] | Some x \<Rightarrow> [b_packet x]) (ln_got l)\<rparr>)"
proof -
  note o = link_okD(1,2) [OF ok, of s] j
  have st: "chan_step (mx s) j take_rxq (ln l s) g'"
    "map_option b_packet res = (case ch_rxq (chan_of (mx s) j (ln l s)) of [] \<Rightarrow> None | x # _ \<Rightarrow> Some x)"
    using PORT_Read_step [where m = "mx s", OF _ _ _ _ b handle_of [OF ok j] r] o by (simp_all add: g)
  define R where "R = (case res of None \<Rightarrow> [] | Some x \<Rightarrow> [b_packet x])"
  have R: "R = take 1 (ch_rxq (chan_of (mx s) j (ln l s)))"
    using st(2) by (auto simp: R_def split: option.splits list.splits)
  have rx: "length (ch_rxq (chan_of (mx s) j (ln l s))) \<le> ch_rx (chan_of (mx s) j (ln l s))"
    using mux_okD(4) [OF o(1,3)] by (simp add: rx_ok_def chan_of_def Let_def)
  show ?thesis
    unfolding R_def [symmetric] using rx
    by (intro link_ok_user [OF ok st(1) j, where R = R and W = "[]"])
      (auto simp: g R pair_inv_def take_rxq_def neq_Nil_conv split: if_splits)
qed

lemma flow_control_ok:
  assumes ok: "link_ok mx l" and j: "on_mux (mx s) (ln l s) j" and b: "rfc_cmd_buf b" and g: "g = equip b cs (ln l s)"
  shows "link_ok mx (l\<lparr>ln := (ln l)(s := snd (PORT_FlowControl (of_nat (j + 1)) en g))\<rparr>)"
proof -
  have "chan_step (mx s) j (\<lambda>c. c) (ln l s) (snd (PORT_FlowControl (of_nat (j + 1)) en g))"
    using PORT_FlowControl_step [where m = "mx s" and g = g and en = en, OF _ _ _ _ b handle_of [OF ok j]] link_okD(1,2) [OF ok, of s] j
    by (simp add: g)
  then show ?thesis by (rule link_ok_user [OF ok _ j, where W = "[]" and R = "[]"]) simp_all
qed

lemma deliver_ok:
  assumes ok: "link_ok mx l" and u: "ln_used l (\<not> s) < length (wire l (\<not> s))"
    and x: "b_packet x = b_packet (wire l (\<not> s) ! ln_used l (\<not> s))" "in_range x" and g: "g = equip b cs (ln l s)"
  shows "link_ok mx (l\<lparr>ln := (ln l)(s := RFCOMM_BufDataInd (m_lcid (c_mcb g (mx s))) x g),
      ln_used := (ln_used l)(\<not> s := Suc (ln_used l (\<not> s)))\<rparr>)"
proof -
  obtain j k c pl where f: "paired mx l s j k"
    "frame_info (m_is_initiator (c_mcb (ln l s) (mx s))) x = Some (p_dlci (c_port (ln l s) j), c, pl)"
    "\<forall>d'. payloads (peer (mx (\<not> s)) (ln l (\<not> s))) d' (take (Suc (ln_used l (\<not> s))) (wire l (\<not> s))) =
       eaten mx l (\<not> s) d' @ (if d' = p_dlci (c_port (ln l s) j) \<and> pl \<noteq> [] then [pl] else [])"
    "\<forall>d'. grants (peer (mx (\<not> s)) (ln l (\<not> s))) d' (take (Suc (ln_used l (\<not> s))) (wire l (\<not> s))) =
       taken mx l (\<not> s) d' + (if d' = p_dlci (c_port (ln l s) j) then unat c else 0)"
    "c \<noteq> 0 \<or> pl \<noteq> []" "length pl \<le> unat (p_mtu (c_port (ln l s) j))"
    "pl \<noteq> [] \<longrightarrow> length (d_queue (p_rx (c_port (ln l s) j))) < unat (p_credit_rx (c_port (ln l s) j))"
    "unat (p_credit_tx (c_port (ln l s) j)) + unat c < 65536"
    by (rule next_frame [OF ok u x])
  have j: "on_mux (mx s) (ln l s) j" using f(1) by (simp add: paired_def)
  have st: "chan_step (mx s) j (receive c pl) (ln l s) (RFCOMM_BufDataInd (m_lcid (c_mcb g (mx s))) x g)"
    using BufDataInd_step(1) [of "mx s" g j x c pl] link_okD(1,2) [OF ok, of s] j f(2,6-8) by (simp add: g)
  define d where "d = p_dlci (c_port (ln l s) j)"
  show ?thesis
  proof (rule link_ok_step [OF ok st j _ d_def, where W = "[]" and R = "[]" and u = "Suc (ln_used l (\<not> s))"])
    fix k'
    assume p: "paired mx l s j k'"
    then have e: "p_dlci (c_port (ln l (\<not> s)) k') = d" by (simp add: paired_def d_def)
    have "pair_ok mx l s j k'" "pair_ok mx l (\<not> s) k' j" using link_okD(6) [OF ok] p by (simp_all add: paired_sym)
    then have i: "pair_inv (ln_wrote l s d) (ln_got l (\<not> s) d) (eaten mx l s d) (taken mx l (\<not> s) d)
        (chan_of (mx s) j (ln l s)) (chan_of (mx (\<not> s)) k' (ln l (\<not> s)))"
      "pair_inv (ln_wrote l (\<not> s) d) (ln_got l s d) (eaten mx l (\<not> s) d) (taken mx l s d)
        (chan_of (mx (\<not> s)) k' (ln l (\<not> s))) (chan_of (mx s) j (ln l s))"
      by (simp_all add: pair_ok_def Let_def e flip: d_def)
    show "pair_inv (ln_wrote l s d @ []) (ln_got l (\<not> s) d) (eaten mx l s d)
        (grants (peer (mx (\<not> s)) (ln l (\<not> s))) d (take (Suc (ln_used l (\<not> s))) (wire l (\<not> s))))
        (receive c pl (chan_of (mx s) j (ln l s))) (chan_of (mx (\<not> s)) k' (ln l (\<not> s)))"
      using i(1) unfolding spec [OF f(4)] by (simp add: pair_inv_def receive_def d_def)
    show "pair_inv (ln_wrote l (\<not> s) d) (ln_got l s d @ [])
        (payloads (peer (mx (\<not> s)) (ln l (\<not> s))) d (take (Suc (ln_used l (\<not> s))) (wire l (\<not> s)))) (taken mx l s d)
        (chan_of (mx (\<not> s)) k' (ln l (\<not> s))) (receive c pl (chan_of (mx s) j (ln l s)))"
      using i(2) unfolding spec [OF f(3)] by (simp add: pair_inv_def receive_def d_def)
  qed (use u in \<open>simp_all add: spec [OF f(3)] spec [OF f(4)] d_def\<close>)
qed

lemma congestion_ok:
  assumes ok: "link_ok mx l" and j: "on_mux (mx s) (ln l s) j" and g: "g = equip b cs (ln l s)"
  shows "link_ok mx (l\<lparr>ln := (ln l)(s := RFCOMM_CongestionStatusInd (m_lcid (c_mcb g (mx s))) cg g)\<rparr>)"
proof -
  have "chan_step (mx s) j (\<lambda>c. c) (ln l s) (RFCOMM_CongestionStatusInd (m_lcid (c_mcb g (mx s))) cg g)"
    using Congestion_step [of "mx s" g j cg] link_okD(1,2) [OF ok, of s] by (simp add: g)
  then show ?thesis by (rule link_ok_user [OF ok _ j, where W = "[]" and R = "[]"]) simp_all
qed

lemma link_step_ok: "link_step mx e l l' \<Longrightarrow> link_ok mx l \<Longrightarrow> link_ok mx l'"
  by (induction rule: link_step.induct) (blast intro: write_ok read_ok flow_control_ok congestion_ok deliver_ok)+

end
