(* ===== verification/Rfc_Drain.thy ===== *)
theory Rfc_Drain
  imports Rfc_Link
begin

text \<open>
  Runs of the link from its start: what its users see, and that a link which is left to run delivers
  everything.  The work left on a link is a number that every delivery and every read makes smaller.
\<close>

section \<open>From the start\<close>

text \<open>Both ends have the same open channels, nothing is queued, and each end may send as many frames as the other has room for.\<close>

definition link_start :: "(bool \<Rightarrow> nat) \<Rightarrow> link \<Rightarrow> bool" where
  "link_start mx l \<longleftrightarrow>
     (\<forall>s. mux_ok (mx s) (ln l s) \<and> wire l s = [] \<and> cmd_q (mx s) (ln l s) = [] \<and> ln_used l s = 0 \<and>
       ln_wrote l s = (\<lambda>_. []) \<and> ln_got l s = (\<lambda>_. []) \<and>
       m_is_initiator (c_mcb (ln l (\<not> s)) (mx (\<not> s))) = peer (mx s) (ln l s)) \<and>
     (\<forall>s j. on_mux (mx s) (ln l s) j \<longrightarrow> d_queue (p_tx (c_port (ln l s) j)) = [] \<and> d_queue (p_rx (c_port (ln l s) j)) = [] \<and>
       lively (c_port (ln l s) j) \<and> (\<exists>k. paired mx l s j k)) \<and>
     (\<forall>s j k. paired mx l s j k \<longrightarrow> p_credit_tx (c_port (ln l s) j) = p_credit_rx (c_port (ln l (\<not> s)) k) \<and>
       p_peer_mtu (c_port (ln l s) j) \<le> p_mtu (c_port (ln l (\<not> s)) k))"

definition link_run :: "(bool \<Rightarrow> nat) \<Rightarrow> link_event set \<Rightarrow> link \<Rightarrow> link \<Rightarrow> bool" where
  "link_run mx E = (\<lambda>l l'. \<exists>e\<in>E. link_step mx e l l')\<^sup>*\<^sup>*"

lemma link_run_refl: "link_run mx E l l"
  by (simp add: link_run_def)

lemma link_run_step: "link_step mx e l l1 \<Longrightarrow> e \<in> E \<Longrightarrow> link_run mx E l1 l2 \<Longrightarrow> link_run mx E l l2"
  unfolding link_run_def by (rule converse_rtranclp_into_rtranclp) blast+

lemma start_ok: "link_start mx l \<Longrightarrow> link_ok mx l"
  unfolding link_start_def link_ok_def side_ok_def pair_ok_def pair_inv_def eaten_def taken_def held_def
  by (auto simp: chan_of_def Let_def paired_def)

lemma run_ok:
  assumes "link_run mx E l l'" "link_ok mx l"
  shows "link_ok mx l'"
  using assms unfolding link_run_def by (induction rule: rtranclp_induct) (auto intro: link_step_ok)

section \<open>Work left\<close>

definition wk :: "nat \<Rightarrow> nat \<Rightarrow> chan \<Rightarrow> nat" where
  "wk p n c = 4 * length (ch_queue c) + 3 * (length (ch_sent c) - p) + 2 * length (ch_rxq c) + (ch_given c - n) + (255 - ch_rx c)"

definition port_work :: "(bool \<Rightarrow> nat) \<Rightarrow> link \<Rightarrow> bool \<Rightarrow> nat \<Rightarrow> nat" where
  "port_work mx l s j = (let d = p_dlci (c_port (ln l s) j)
     in wk (length (eaten mx l s d)) (taken mx l s d) (chan_of (mx s) j (ln l s)))"

definition side_work :: "(bool \<Rightarrow> nat) \<Rightarrow> link \<Rightarrow> bool \<Rightarrow> nat" where
  "side_work mx l s = (\<Sum>j | on_mux (mx s) (ln l s) j. port_work mx l s j)"

definition link_work :: "(bool \<Rightarrow> nat) \<Rightarrow> link \<Rightarrow> nat" where
  "link_work mx l = side_work mx l True + side_work mx l False"

lemma wk_flows:
  assumes "flows c c'" "p \<le> length (ch_sent c)" "length (ch_sent c) \<le> length (ch_sent c')" "n \<le> ch_given c" "n \<le> ch_given c'"
    "ch_rx c \<le> 255" "ch_rx c' \<le> 255"
  shows "wk p n c' \<le> wk p n c"
proof -
  have "length (ch_sent c') + length (ch_queue c') = length (ch_sent c) + length (ch_queue c)"
    using assms(1) by (metis flows_def length_append)
  moreover have "ch_given c' + ch_rx c = ch_given c + ch_rx c'" "length (ch_rxq c') = length (ch_rxq c)" using assms(1) by (auto simp: flows_def)
  ultimately show ?thesis using assms(2-) unfolding wk_def by linarith
qed

lemma sum_except:
  fixes f h :: "nat \<Rightarrow> nat"
  assumes "finite A" "j \<in> A" "\<And>i. i \<in> A \<Longrightarrow> i \<noteq> j \<Longrightarrow> f i \<le> h i" "f j + a \<le> h j + b"
  shows "sum f A + a \<le> sum h A + b"
proof -
  have "sum f (A - {j}) \<le> sum h (A - {j})" using assms(3) by (intro sum_mono) auto
  then show ?thesis using assms(4) by (simp add: sum.remove [OF assms(1,2)])
qed

lemma finite_on_mux: "mux_ok m g \<Longrightarrow> finite {j. on_mux m g j}"
  by (rule finite_subset [of _ "{..<MAX_RFC_PORTS}"]) (auto dest: mux_okD(1) simp: linked_def)

lemma chan_bounds:
  assumes "link_ok mx l" "on_mux (mx s) (ln l s) j" "c = chan_of (mx s) j (ln l s)" "d = p_dlci (c_port (ln l s) j)"
  shows "length (eaten mx l s d) \<le> length (ch_sent c)" "taken mx l s d \<le> ch_given c" "ch_rx c \<le> 255" "length (ch_rxq c) \<le> ch_rx c"
proof -
  show "length (eaten mx l s d) \<le> length (ch_sent c)" "taken mx l s d \<le> ch_given c"
    using in_flight [where mx = mx and s = s, OF assms(3,4)] by simp_all
  have "rx_ok (c_port (ln l s) j)" by (rule mux_okD(4) [OF link_okD(1) [OF assms(1)] assms(2)])
  then show "ch_rx c \<le> 255" "length (ch_rxq c) \<le> ch_rx c"
    by (auto simp: assms(3) rx_ok_def chan_of_def Let_def word_le_nat_alt)
qed

text \<open>An operation at one end that sets its channel to \<open>F\<close> of what it was and lets the other channels be.\<close>

lemma side_work_step:
  assumes ok: "link_ok mx l" "link_ok mx l'" and st: "chan_step (mx s) j F (ln l s) g'" and j: "on_mux (mx s) (ln l s) j"
    and l': "ln l' s = g'" "ln_used l' s = ln_used l s"
    and F: "wk (length (eaten mx l s d)) (taken mx l s d) (F (chan_of (mx s) j (ln l s))) + a \<le> port_work mx l s j + b"
      "ch_sent (F (chan_of (mx s) j (ln l s))) = ch_sent (chan_of (mx s) j (ln l s))"
      "ch_given (F (chan_of (mx s) j (ln l s))) = ch_given (chan_of (mx s) j (ln l s))"
      "ch_rx (F (chan_of (mx s) j (ln l s))) \<le> 255" "d = p_dlci (c_port (ln l s) j)"
  shows "side_work mx l' s + a \<le> side_work mx l s + b"
proof -
  have op: "stat (mx s) (ln l s) g'" using st by (simp add: chan_step_def data_op_def)
  obtain w where w: "writes (c_outs g') = wire l s @ w" using st by (auto simp: chan_step_def data_op_def)
  have om: "on_mux (mx s) g' k = on_mux (mx s) (ln l s) k" for k by (rule stat_on_mux [OF op])
  have dl: "p_dlci (c_port g' k) = p_dlci (c_port (ln l s) k)" "m_is_initiator (c_mcb g' (mx s)) = m_is_initiator (c_mcb (ln l s) (mx s))" for k
    using op by (simp_all add: stat_def)
  have et: "eaten mx l' s d' = eaten mx l s d'" "taken mx l' s d' = taken mx l s d'" for d'
    using link_okD(4) [OF ok(1), of s] by (simp_all add: eaten_def taken_def l' w dl)
  have pw: "port_work mx l' s k = wk (length (eaten mx l s (p_dlci (c_port (ln l s) k)))) (taken mx l s (p_dlci (c_port (ln l s) k)))
    (chan_of (mx s) k g')" for k by (simp add: port_work_def Let_def et l' dl)
  have step: "wk (length (eaten mx l s e)) (taken mx l s e) (chan_of (mx s) k g') \<le> wk (length (eaten mx l s e)) (taken mx l s e) c"
    if k: "on_mux (mx s) (ln l s) k" and e: "e = p_dlci (c_port (ln l s) k)" and c: "flows c (chan_of (mx s) k g')"
      "ch_sent c = ch_sent (chan_of (mx s) k (ln l s))" "ch_given c = ch_given (chan_of (mx s) k (ln l s))" "ch_rx c \<le> 255" for k e c
  proof (rule wk_flows [OF c(1)])
    note b = chan_bounds [OF ok(1) k refl e]
    have k': "on_mux (mx s) (ln l' s) k" using k by (simp add: l' om)
    have e': "e = p_dlci (c_port (ln l' s) k)" by (simp add: e l' dl)
    note b' = chan_bounds [OF ok(2) k' refl e', unfolded et l']
    show "length (eaten mx l s e) \<le> length (ch_sent c)" "taken mx l s e \<le> ch_given c" "taken mx l s e \<le> ch_given (chan_of (mx s) k g')"
      "ch_rx c \<le> 255" "ch_rx (chan_of (mx s) k g') \<le> 255" using b b' c by simp_all
    show "length (ch_sent c) \<le> length (ch_sent (chan_of (mx s) k g'))" unfolding c(2) by (simp add: chan_of_def Let_def w dl)
  qed
  have fl: "flows (if k = j then F (chan_of (mx s) k (ln l s)) else chan_of (mx s) k (ln l s)) (chan_of (mx s) k g')"
    if "on_mux (mx s) (ln l s) k" for k using st that by (simp add: chan_step_def)
  have "port_work mx l' s k \<le> port_work mx l s k" if "on_mux (mx s) (ln l s) k" "k \<noteq> j" for k
    using step [OF that(1) refl _ refl refl] fl [OF that(1)] that(2) chan_bounds(3) [OF ok(1) that(1) refl refl]
    unfolding pw by (simp add: port_work_def Let_def)
  moreover have "port_work mx l' s j + a \<le> port_work mx l s j + b"
    using step [OF j F(5) _ F(2,3,4)] fl [OF j] F(1) by (simp add: pw flip: F(5))
  ultimately show ?thesis
    unfolding side_work_def l' om using j finite_on_mux [OF link_okD(1) [OF ok(1)]] by (intro sum_except [where j = j]) auto
qed


text \<open>L2CAP lets the end write, and what nothing but writes and the readers change.\<close>

definition calm :: "nat \<Rightarrow> rfc_cb \<Rightarrow> bool" where
  "calm m g \<longleftrightarrow> m_peer_ready (c_mcb g m) \<and> \<not> m_l2cap_congested (c_mcb g m) \<and> cmd_q m g = []"

definition keeps :: "(bool \<Rightarrow> nat) \<Rightarrow> link \<Rightarrow> link \<Rightarrow> bool" where
  "keeps mx l l' \<longleftrightarrow> ln_wrote l' = ln_wrote l \<and> (\<forall>s. calm (mx s) (ln l s) \<longrightarrow> calm (mx s) (ln l' s)) \<and>
     (\<forall>s j. on_mux (mx s) (ln l' s) j = on_mux (mx s) (ln l s) j \<and> p_dlci (c_port (ln l' s) j) = p_dlci (c_port (ln l s) j) \<and>
       d_user_fc (p_rx (c_port (ln l' s) j)) = d_user_fc (p_rx (c_port (ln l s) j)))"

lemma keeps_refl [simp]: "keeps mx l l"
  by (simp add: keeps_def)

lemma keeps_trans: "keeps mx l l1 \<Longrightarrow> keeps mx l1 l2 \<Longrightarrow> keeps mx l l2"
  by (simp add: keeps_def)

lemma smooth_keeps:
  assumes "chan_step (mx s) j F (ln l s) g'" "smooth (mx s) (equip b [] (ln l s)) g'"
    "ln l' s = g'" "ln l' (\<not> s) = ln l (\<not> s)" "ln_wrote l' = ln_wrote l"
  shows "keeps mx l l'"
proof -
  have st: "stat (mx s) (ln l s) g'" using assms(1) by (simp add: chan_step_def data_op_def)
  have cs: "calm (mx s) (ln l s) \<longrightarrow> calm (mx s) g'"
    using assms(2) by (simp add: smooth_def clear_def calm_def cmd_q_def) (simp add: equip_def)
  have "calm (mx x) (ln l x) \<longrightarrow> calm (mx x) (ln l' x)" for x
    by (rule both_sides [where s = s]) (simp_all add: assms(3,4) cs)
  moreover have "on_mux (mx x) (ln l' x) k = on_mux (mx x) (ln l x) k \<and> p_dlci (c_port (ln l' x) k) = p_dlci (c_port (ln l x) k) \<and>
       d_user_fc (p_rx (c_port (ln l' x) k)) = d_user_fc (p_rx (c_port (ln l x) k))" for x k
    by (rule both_sides [where s = s]) (use st assms(2) stat_on_mux [OF st] in \<open>simp_all add: assms(3,4) stat_def smooth_def\<close>)
  ultimately show ?thesis by (simp add: keeps_def assms(5))
qed

lemma link_work_sides: "link_work mx l = side_work mx l s + side_work mx l (\<not> s)"
  by (cases s) (simp_all add: link_work_def)

text \<open>While data waits to be read, or a frame to be received, there is a step that leaves less to do.\<close>

lemma read_progress:
  assumes ok: "link_ok mx l" and j: "on_mux (mx s) (ln l s) j" and q: "d_queue (p_rx (c_port (ln l s) j)) \<noteq> []" and b: "rfc_cmd_buf b"
  obtains l' where "link_step mx Ev_read l l'" "link_work mx l' < link_work mx l" "keeps mx l l'"
proof -
  define g where "g = equip b [] (ln l s)"
  define c where "c = chan_of (mx s) j (ln l s)"
  define d where "d = p_dlci (c_port (ln l s) j)"
  obtain rc res g' where r: "PORT_Read (of_nat (j + 1)) g = (rc, res, g')" by (metis prod_cases3)
  define l' where "l' = l\<lparr>ln := (ln l)(s := g'),
      ln_got := add_hist s (p_dlci (c_port g j)) (case res of None \<Rightarrow> [] | Some x \<Rightarrow> [b_packet x]) (ln_got l)\<rparr>"
  have step: "link_step mx Ev_read l l'" unfolding l'_def by (rule user_read [where mx = mx and s = s, OF j b g_def r])
  have ok': "link_ok mx l'" by (rule link_step_ok [OF step ok])
  note o = link_okD(1,2) [OF ok, of s] j
  have st: "chan_step (mx s) j take_rxq (ln l s) g'" "smooth (mx s) g g'"
    using PORT_Read_step [where m = "mx s", OF _ _ _ _ b handle_of [OF ok j] r] o by (simp_all add: g_def)
  have l's: "ln l' s = g'" "ln l' (\<not> s) = ln l (\<not> s)" "ln_used l' = ln_used l" "ln_wrote l' = ln_wrote l" by (simp_all add: l'_def)
  note cb = chan_bounds [OF ok j c_def d_def]
  have "ch_rxq c \<noteq> []" using q by (simp add: c_def chan_of_def Let_def)
  then have "wk (length (eaten mx l s d)) (taken mx l s d) (take_rxq c) + 1 \<le> port_work mx l s j + 0" "ch_rx (take_rxq c) \<le> 255"
    using cb by (cases "ch_rxq c"; simp add: wk_def take_rxq_def port_work_def Let_def flip: c_def d_def)+
  then have "side_work mx l' s + 1 \<le> side_work mx l s + 0"
    using l's by (intro side_work_step [OF ok ok' st(1) j _ _ _ _ _ _ d_def]) (simp_all add: c_def take_rxq_def)
  moreover have "side_work mx l' (\<not> s) = side_work mx l (\<not> s)"
    by (simp add: side_work_def port_work_def eaten_def taken_def l's)
  ultimately have "link_work mx l' < link_work mx l" by (simp add: link_work_sides [of mx _ s])
  moreover have "keeps mx l l'" by (rule smooth_keeps [where mx = mx and s = s, OF st(1) st(2) [unfolded g_def] l's(1,2,4)])
  ultimately show ?thesis using that step by blast
qed

lemma deliver_progress:
  assumes ok: "link_ok mx l" and u: "ln_used l (\<not> s) < length (wire l (\<not> s))" and b: "rfc_cmd_buf b"
  obtains l' where "link_step mx Ev_deliver l l'" "link_work mx l' < link_work mx l" "keeps mx l l'"
proof -
  define x where "x = wire l (\<not> s) ! ln_used l (\<not> s)"
  have "side_ok mx l (\<not> s)" using ok by (simp add: link_ok_def)
  then have "good_frame (mx (\<not> s)) (ln l (\<not> s)) x"
    using u by (simp add: side_ok_def x_def flip: Cons_nth_drop_Suc)
  then have "in_range x" by (auto simp: good_frame_def frame_info_def split: prod.splits if_splits)
  note x = arg_cong [where f = b_packet, OF x_def] this
  obtain j k c pl where f: "paired mx l s j k"
    "frame_info (m_is_initiator (c_mcb (ln l s) (mx s))) x = Some (p_dlci (c_port (ln l s) j), c, pl)"
    "\<forall>d'. payloads (peer (mx (\<not> s)) (ln l (\<not> s))) d' (take (Suc (ln_used l (\<not> s))) (wire l (\<not> s))) =
       eaten mx l (\<not> s) d' @ (if d' = p_dlci (c_port (ln l s) j) \<and> pl \<noteq> [] then [pl] else [])"
    "\<forall>d'. grants (peer (mx (\<not> s)) (ln l (\<not> s))) d' (take (Suc (ln_used l (\<not> s))) (wire l (\<not> s))) =
       taken mx l (\<not> s) d' + (if d' = p_dlci (c_port (ln l s) j) then unat c else 0)"
    "c \<noteq> 0 \<or> pl \<noteq> []" "length pl \<le> unat (p_mtu (c_port (ln l s) j))"
    "pl \<noteq> [] \<longrightarrow> length (d_queue (p_rx (c_port (ln l s) j))) < unat (p_credit_rx (c_port (ln l s) j))"
    "unat (p_credit_tx (c_port (ln l s) j)) + unat c < 65536"
    by (rule next_frame [OF ok u x])
  have j: "on_mux (mx s) (ln l s) j" and k: "on_mux (mx (\<not> s)) (ln l (\<not> s)) k" using f(1) by (simp_all add: paired_def)
  define g where "g = equip b [] (ln l s)"
  define d where "d = p_dlci (c_port (ln l s) j)"
  have dk: "p_dlci (c_port (ln l (\<not> s)) k) = d" using f(1) by (simp add: paired_def d_def)
  define g' where "g' = RFCOMM_BufDataInd (m_lcid (c_mcb g (mx s))) x g"
  have st: "chan_step (mx s) j (receive c pl) (ln l s) g'" "smooth (mx s) g g'"
    using BufDataInd_step [of "mx s" g j x c pl] link_okD(1,2) [OF ok, of s] j f(2,6-8) by (simp_all add: g_def g'_def)
  define l' where "l' = l\<lparr>ln := (ln l)(s := g'), ln_used := (ln_used l)(\<not> s := Suc (ln_used l (\<not> s)))\<rparr>"
  have step: "link_step mx Ev_deliver l l'" unfolding l'_def g'_def by (rule deliver [where mx = mx and s = s, OF u x b g_def])
  have ok': "link_ok mx l'" by (rule link_step_ok [OF step ok])
  have l's: "ln l' s = g'" "ln l' (\<not> s) = ln l (\<not> s)" "ln_used l' s = ln_used l s" "ln_wrote l' = ln_wrote l"
    "ln_used l' (\<not> s) = Suc (ln_used l (\<not> s))" by (simp_all add: l'_def)
  let ?n = "if pl = [] then 0 else 1 :: nat"
  have "side_work mx l' s + 0 \<le> side_work mx l s + 2 * ?n"
    using chan_bounds(3) [OF ok j refl refl]
    by (intro side_work_step [OF ok ok' st(1) j l's(1,3) _ _ _ _ d_def]) (simp_all add: receive_def wk_def port_work_def Let_def d_def)
  moreover have "side_work mx l' (\<not> s) + (3 * ?n + unat c) \<le> side_work mx l (\<not> s) + 0"
  proof -
    have et: "eaten mx l' (\<not> s) d' = eaten mx l (\<not> s) d' @ (if d' = d \<and> pl \<noteq> [] then [pl] else [])"
      "taken mx l' (\<not> s) d' = taken mx l (\<not> s) d' + (if d' = d then unat c else 0)" for d'
      using spec [OF f(3), of d'] spec [OF f(4), of d'] by (simp_all add: eaten_def taken_def l's d_def)
    have k': "on_mux (mx (\<not> s)) (ln l' (\<not> s)) k" using k by (simp add: l's)
    have dk': "d = p_dlci (c_port (ln l' (\<not> s)) k)" by (simp add: l's dk)
    note cb = chan_bounds [OF ok' k' refl dk', unfolded et l's, simplified]
    have "port_work mx l' (\<not> s) k + (3 * ?n + unat c) \<le> port_work mx l (\<not> s) k + 0"
      using cb by (auto simp: port_work_def Let_def dk l's et wk_def)
    moreover have "port_work mx l' (\<not> s) i \<le> port_work mx l (\<not> s) i" if "on_mux (mx (\<not> s)) (ln l (\<not> s)) i" "i \<noteq> k" for i
    proof -
      have "p_dlci (c_port (ln l (\<not> s)) i) \<noteq> d"
        using paired_dlci [OF ok, of "\<not> s" k j i] f(1) that by (auto simp: paired_sym d_def)
      then show ?thesis by (simp add: port_work_def Let_def l's et)
    qed
    ultimately show ?thesis
      unfolding side_work_def l's using k finite_on_mux [OF link_okD(1) [OF ok]] by (intro sum_except [where j = k]) auto
  qed
  moreover have "2 * ?n < 3 * ?n + unat c" using f(5) by (auto simp: unat_gt_0)
  ultimately have "link_work mx l' < link_work mx l" unfolding link_work_sides [of mx _ s] by linarith
  moreover have "keeps mx l l'" by (rule smooth_keeps [where mx = mx and s = s, OF st(1) st(2) [unfolded g_def] l's(1,2,4)])
  ultimately show ?thesis using that step by blast
qed

definition still :: "(bool \<Rightarrow> nat) \<Rightarrow> link \<Rightarrow> bool" where
  "still mx l \<longleftrightarrow> (\<forall>s. ln_used l s = length (wire l s)) \<and>
     (\<forall>s j. on_mux (mx s) (ln l s) j \<longrightarrow> d_queue (p_rx (c_port (ln l s) j)) = [])"

lemma drain:
  assumes "link_ok mx l"
  obtains l' where "link_run mx {Ev_read, Ev_deliver} l l'" "link_ok mx l'" "keeps mx l l'" "still mx l'"
proof -
  define b where "b = \<lparr>b_event = 0, b_len = 0, b_offset = 0, b_layer_specific = 0, b_mem = replicate 32 0\<rparr>"
  have b: "rfc_cmd_buf b" by (simp add: rfc_cmd_buf_def b_def)
  have "\<exists>l'. link_run mx {Ev_read, Ev_deliver} l l' \<and> link_ok mx l' \<and> keeps mx l l' \<and> still mx l'"
    using assms
  proof (induction "link_work mx l" arbitrary: l rule: less_induct)
    case less
    have next_step: ?case if "link_step mx e l l1" "e \<in> {Ev_read, Ev_deliver}" "link_work mx l1 < link_work mx l" "keeps mx l l1" for e l1
      using less.hyps [OF that(3) link_step_ok [OF that(1) less.prems]] link_run_step [OF that(1,2)] keeps_trans [OF that(4)] by blast
    show ?case
    proof (cases "still mx l")
      case True
      then show ?thesis using less.prems by (intro exI [of _ l]) (simp add: link_run_refl)
    next
      case False
      then consider s where "ln_used l s \<noteq> length (wire l s)" |
        s j where "on_mux (mx s) (ln l s) j" "d_queue (p_rx (c_port (ln l s) j)) \<noteq> []" by (auto simp: still_def)
      then show ?thesis
      proof cases
        case (1 s)
        then have "ln_used l (\<not> (\<not> s)) < length (wire l (\<not> (\<not> s)))" using link_okD(4) [OF less.prems, of s] by simp
        from deliver_progress [OF less.prems this b] show ?thesis using next_step by blast
      next
        case (2 s j)
        from read_progress [OF less.prems 2 b] show ?thesis using next_step by blast
      qed
    qed
  qed
  then show ?thesis using that by blast
qed

lemma still_delivered:
  assumes ok: "link_ok mx l" and st: "still mx l" and p: "paired mx l s j k" and c: "\<forall>s. calm (mx s) (ln l s)"
    and a: "\<not> d_user_fc (p_rx (c_port (ln l (\<not> s)) k))"
  shows "ln_got l (\<not> s) (p_dlci (c_port (ln l s) j)) = ln_wrote l s (p_dlci (c_port (ln l s) j))"
proof -
  define d where "d = p_dlci (c_port (ln l s) j)"
  define cj where "cj = chan_of (mx s) j (ln l s)"
  define ck where "ck = chan_of (mx (\<not> s)) k (ln l (\<not> s))"
  have dk: "d = p_dlci (c_port (ln l (\<not> s)) k)" and oj: "on_mux (mx s) (ln l s) j" and oc: "on_mux (mx (\<not> s)) (ln l (\<not> s)) k"
    using p by (simp_all add: paired_def d_def)
  have inv: "pair_inv (ln_wrote l s d) (ln_got l (\<not> s) d) (eaten mx l s d) (taken mx l (\<not> s) d) cj ck"
    using link_okD(6) [OF ok p] by (simp add: pair_ok_def Let_def cj_def ck_def d_def)
  have q: "cmd_q (mx s) (ln l s) = []" "cmd_q (mx (\<not> s)) (ln l (\<not> s)) = []" using c by (simp_all add: calm_def)
  have e: "ch_sent cj = eaten mx l s d" "ch_given ck = taken mx l (\<not> s) d"
    using in_flight [where mx = mx and s = s, OF cj_def d_def] in_flight [where mx = mx and s = "\<not> s", OF ck_def dk] st q
    by (simp_all add: still_def)
  have rq: "ch_rxq ck = []" using st oc by (simp add: still_def ck_def chan_of_def Let_def)
  have "ch_tx cj = ch_rx ck" using inv e rq by (simp add: pair_inv_def)
  then have tr: "unat (p_credit_tx (c_port (ln l s) j)) = unat (p_credit_rx (c_port (ln l (\<not> s)) k))"
    by (simp add: cj_def ck_def chan_of_def Let_def)
  have "p_credit_rx (c_port (ln l (\<not> s)) k) \<noteq> 0"
    using link_okD(3) [OF ok oc] mux_okD(4) [OF link_okD(1) [OF ok] oc] a by (auto simp: lively_def rx_ok_def)
  then have "p_credit_tx (c_port (ln l s) j) \<noteq> 0" using tr by (metis unat_eq_zero)
  then have "\<not> d_peer_fc (p_tx (c_port (ln l s) j))"
    using mux_okD(3) [OF link_okD(1) [OF ok] oj] by (simp add: tx_ok_def)
  then have "d_queue (p_tx (c_port (ln l s) j)) = []"
    using link_okD(2) [OF ok, of s] oj c by (auto simp: held_def calm_def)
  then have "ch_queue cj = []" by (simp add: cj_def chan_of_def Let_def)
  then show ?thesis using inv e rq by (simp add: pair_inv_def flip: d_def)
qed

section \<open>A link with one channel\<close>

text \<open>
  Both ends after a client with maximum frame size 100 has connected to a server: the first port that is
  given out, on the first multiplexer, with the credits of the negotiation.
\<close>

definition sample_port :: t_port where
  "sample_port = port_zero\<lparr>p_inx := 2, p_in_use := True, p_state := PORT_STATE_OPENED, p_rfc_state := RFC_STATE_OPENED, p_dlci := 2,
     p_mtu := 100, p_peer_mtu := 100, p_port_ctrl := 15, p_mcb := Some 0,
     p_credit_tx := 7, p_credit_rx := 7, p_credit_rx_max := 10, p_credit_rx_low := 4, p_rx_buf_critical := 15\<rparr>"

definition sample_mcb :: "bool \<Rightarrow> rfc_mcb" where
  "sample_mcb i = mcb_zero\<lparr>m_flow := PORT_FC_CREDIT, m_is_initiator := i, m_lcid := (if i then 0x40 else 0x41), m_peer_ready := True,
     m_state := RFC_MX_STATE_CONNECTED, m_port_inx := (\<lambda>_. 0)(2 := 2)\<rparr>"

definition sample_end :: "bool \<Rightarrow> rfc_cb" where
  "sample_end i = \<lparr>c_port = (\<lambda>_. port_zero)(1 := sample_port), c_mcb = (\<lambda>_. mcb_zero)(0 := sample_mcb i),
     c_rx_frame = frame_zero, c_lcid_mcb = (\<lambda>_. None)(m_lcid (sample_mcb i) := Some 0), c_peer_rx_disabled = False,
     c_last_mux = 0, c_last_port = 1, c_outs = [], c_bufs = [], c_congs = [], c_lcids = [], c_co = [], c_max_packet = (\<lambda>_. 0), c_ticks = 0,
     c_stale = (\<lparr>ps_baud_rate = 0, ps_byte_size = 0, ps_stop_bits = 0, ps_parity = 0, ps_parity_type = 0, ps_fc_type = 0,
       ps_xon_char = 0, ps_xoff_char = 0\<rparr>, 0)\<rparr>"

definition sample_link :: link where
  "sample_link = \<lparr>ln = sample_end, ln_used = (\<lambda>_. 0), ln_wrote = (\<lambda>_ _. []), ln_got = (\<lambda>_ _. [])\<rparr>"

definition sample_cmd :: bt_buf where
  "sample_cmd = \<lparr>b_event = 0, b_len = 0, b_offset = 0, b_layer_specific = 0, b_mem = replicate 32 0\<rparr>"

definition sample_data :: bt_buf where
  "sample_data = \<lparr>b_event = 0, b_len = 3, b_offset = 8, b_layer_specific = 0, b_mem = replicate 8 0 @ [7, 8, 9] @ replicate 8 0\<rparr>"

text \<open>The first end writes three bytes.\<close>

definition sample_sent :: rfc_cb where
  "sample_sent = snd (PORT_Write 2 sample_data (equip sample_cmd [] (sample_end False)))"

definition sample_link1 :: link where
  "sample_link1 = sample_link\<lparr>ln := sample_end(False := sample_sent), ln_wrote := add_hist False 2 [[7, 8, 9]] (\<lambda>_ _. [])\<rparr>"

lemma sample_on_mux: "on_mux 0 (sample_end i) j \<longleftrightarrow> j = 1"
  by (simp add: on_mux_def sample_end_def sample_port_def port_zero_def)

lemma sample_port_1: "c_port (sample_end i) 1 = sample_port"
  by (simp add: sample_end_def)

lemma sample_ok: "linked 0 (sample_end i) 1" "port_ok sample_port" "tx_ok sample_port" "rx_ok sample_port" "lively sample_port"
  "rfc_cmd_buf sample_cmd" "tx_buf sample_port sample_data"
  subgoal by (simp add: linked_def sample_end_def sample_port_def sample_mcb_def MAX_RFC_PORTS_def)
  subgoal by (simp add: port_ok_def sample_port_def port_zero_def RFCOMM_VALID_DLCI_def RFCOMM_MAX_DLCI_def PORT_CTRL_REQ_SENT_def PORT_CTRL_IND_RECEIVED_def)
  subgoal by (simp add: tx_ok_def sample_port_def port_zero_def data_zero_def)
  subgoal by (simp add: rx_ok_def sample_port_def port_zero_def data_zero_def PORT_RX_CRITICAL_WM_def PORT_RX_BUF_CRITICAL_WM_def
      BTA_RFC_MTU_SIZE_def L2CAP_MTU_SIZE_def L2CAP_MIN_OFFSET_def RFCOMM_DATA_OVERHEAD_def RFCOMM_MIN_OFFSET_def)
  subgoal by (simp add: lively_def sample_port_def port_zero_def data_zero_def)
  subgoal by (simp add: rfc_cmd_buf_def sample_cmd_def)
  subgoal by (simp add: tx_buf_def data_buf_def sample_data_def sample_port_def port_zero_def)
  done

lemma sample_mux: "c_mcb (sample_end i) 0 = sample_mcb i" "rfc_find_lcid_mcb (m_lcid (sample_mcb i)) (sample_end i) = Some 0"
  "cmd_q 0 (sample_end i) = []" "c_outs (sample_end i) = []" "m_flow (sample_mcb i) = PORT_FC_CREDIT" "m_is_initiator (sample_mcb i) = i"
  by (simp_all add: sample_end_def cmd_q_def rfc_find_lcid_mcb_def sample_mcb_def mcb_zero_def
      MAX_L2CAP_CHANNELS_def L2CAP_BASE_APPL_CID_def)

lemma sample_mux_ok: "mux_ok 0 (sample_end i)"
  unfolding mux_ok_def sample_on_mux using sample_ok(1-4) by (simp add: sample_port_1 [simplified] sample_mux)

lemma sample_start: "link_start (\<lambda>_. 0) sample_link"
  using sample_ok(5)
  by (simp add: link_start_def sample_link_def sample_on_mux sample_port_1 [simplified] paired_def sample_mux sample_mux_ok)
    (simp add: sample_port_def port_zero_def data_zero_def)

lemma sample_taken: "write_taken 1 sample_data (equip sample_cmd [] (sample_end False))" "b_packet sample_data = [7, 8, 9]"
  by code_simp+

lemma sample_sent_ready: "m_peer_ready (c_mcb sample_sent 0)" "\<not> m_l2cap_congested (c_mcb sample_sent 0)" "m_cmd_q (c_mcb sample_sent 0) = []"
  "\<not> d_user_fc (p_rx (c_port sample_sent 1))"
  by code_simp+

lemma sample_step: "link_step (\<lambda>_. 0) Ev_write sample_link sample_link1"
proof -
  have "c_port (equip sample_cmd [] (ln sample_link False)) 1 = sample_port" by (simp add: sample_link_def sample_port_1 [simplified])
  then have "tx_buf (c_port (equip sample_cmd [] (ln sample_link False)) 1) sample_data" using sample_ok(7) by simp
  from user_write [where mx = "\<lambda>_. 0" and s = False and cs = "[]", OF _ sample_ok(6) refl this]
  show ?thesis using sample_taken
    by (simp add: sample_link_def sample_on_mux sample_link1_def sample_sent_def sample_port_1 [simplified])
      (simp add: sample_port_def)
qed

lemma sample_run: "link_run (\<lambda>_. 0) UNIV sample_link sample_link1"
  by (rule link_run_step [OF sample_step UNIV_I link_run_refl])

lemma sample_kept: "on_mux 0 sample_sent j = (j = 1)" "p_dlci (c_port sample_sent 1) = 2"
proof -
  let ?g = "equip sample_cmd [] (sample_end False)"
  have "chan_step 0 1 (if write_taken 1 sample_data ?g then put_queue (b_packet sample_data) else (\<lambda>c. c)) ?g sample_sent"
    unfolding sample_sent_def
    by (rule PORT_Write_step) (use sample_mux_ok sample_ok(7) in \<open>simp_all add: sample_on_mux held_def sample_port_1 [simplified]\<close>,
        simp add: sample_port_def port_zero_def data_zero_def)
  then have "stat 0 ?g sample_sent" by (simp add: chan_step_def data_op_def)
  then show "on_mux 0 sample_sent j = (j = 1)" "p_dlci (c_port sample_sent 1) = 2"
    using stat_on_mux [of 0 ?g sample_sent] by (simp_all add: stat_def sample_on_mux) (simp add: sample_end_def sample_port_def)
qed

lemma sample_paired: "paired (\<lambda>_. 0) sample_link1 False 1 1"
  using sample_kept by (simp add: paired_def sample_link1_def sample_on_mux) (simp add: sample_end_def sample_port_def)

section \<open>What the users see\<close>

abbreviation in_queue :: "port_data \<Rightarrow> bytes list" where
  "in_queue d \<equiv> map b_packet (d_queue d)"

abbreviation under_way :: "link \<Rightarrow> bool \<Rightarrow> bt_buf list" where
  "under_way l s \<equiv> drop (ln_used l s) (wire l s)"

text \<open>C1: Two stacks joined by an L2CAP channel, from a state in which both have the same open channels and nothing
  is queued, under any sequence of writes, reads, stops and restarts by the readers, congestion of either
  direction and deliveries of frames: on every channel and in each direction the data the writer's
  \<^verbatim>\<open>PORT_Write\<close> took is exactly what \<^verbatim>\<open>PORT_Read\<close> has returned at the other end, then what waits there,
  then what the frames under way carry, then what waits at the writer, in order: RFCOMM refines a
  first-in first-out queue that loses, doubles and reorders nothing.\<close>

theorem link_fifo:
  assumes "link_start mx l0" "link_run mx UNIV l0 l" "paired mx l s j k" "d = p_dlci (c_port (ln l s) j)"
  shows "ln_wrote l s d = ln_got l (\<not> s) d @ in_queue (p_rx (c_port (ln l (\<not> s)) k)) @
    payloads (peer (mx s) (ln l s)) d (under_way l s) @ in_queue (p_tx (c_port (ln l s) j))"
proof -
  have ok: "link_ok mx l" using run_ok [OF assms(2) start_ok [OF assms(1)]] .
  let ?c = "chan_of (mx s) j (ln l s)" and ?c' = "chan_of (mx (\<not> s)) k (ln l (\<not> s))"
  have "ch_sent ?c @ ch_queue ?c = ln_wrote l s d" "ln_got l (\<not> s) d @ ch_rxq ?c' = eaten mx l s d"
    using link_okD(6) [OF ok assms(3)] by (simp_all add: pair_ok_def pair_inv_def Let_def assms(4))
  moreover have "ch_queue ?c = in_queue (p_tx (c_port (ln l s) j))" "ch_rxq ?c' = in_queue (p_rx (c_port (ln l (\<not> s)) k))"
    by (simp_all add: chan_of_def Let_def)
  moreover note in_flight(1) [where mx = mx and s = s, OF refl assms(4)]
  ultimately show ?thesis by (metis append.assoc)
qed

theorem link_fifo_witness:
  "link_start (\<lambda>_. 0) sample_link \<and> link_run (\<lambda>_. 0) UNIV sample_link sample_link1 \<and> paired (\<lambda>_. 0) sample_link1 False 1 1 \<and>
   ln_got sample_link1 True 2 @ in_queue (p_rx (c_port (ln sample_link1 True) 1)) @
     payloads (peer 0 (ln sample_link1 False)) 2 (under_way sample_link1 False) @ in_queue (p_tx (c_port (ln sample_link1 False) 1)) = [[7, 8, 9]]"
proof -
  have d: "2 = p_dlci (c_port (ln sample_link1 False) 1)" by (simp add: sample_link1_def sample_kept [simplified])
  have "ln_wrote sample_link1 False 2 = [[7, 8, 9]]" by (simp add: sample_link1_def)
  then show ?thesis
    using link_fifo [OF sample_start sample_run sample_paired d] sample_start sample_run sample_paired by simp
qed

text \<open>C3: In the same runs the credits of every channel and direction are conserved: the credits the writer still
  has, the data frames under way, the credits under way back or waiting to be sent, and the buffers that
  wait to be read add up to the count the reader keeps in \<^verbatim>\<open>credit_rx\<close>, which never exceeds
  \<^verbatim>\<open>credit_rx_max\<close> and so never the critical mark beyond which \<^verbatim>\<open>PORT_DataInd\<close> drops data.\<close>

theorem link_credits:
  assumes "link_start mx l0" "link_run mx UNIV l0 l" "paired mx l s j k" "d = p_dlci (c_port (ln l s) j)"
    and "p = c_port (ln l s) j" "q = c_port (ln l (\<not> s)) k"
  shows "unat (p_credit_tx p) + length (payloads (peer (mx s) (ln l s)) d (under_way l s)) +
      grants (peer (mx (\<not> s)) (ln l (\<not> s))) d (under_way l (\<not> s) @ cmd_q (mx (\<not> s)) (ln l (\<not> s))) +
      length (d_queue (p_rx q)) = unat (p_credit_rx q) \<and>
    p_credit_rx q \<le> p_credit_rx_max q \<and> p_credit_rx_max q \<le> p_rx_buf_critical q"
proof -
  have ok: "link_ok mx l" using run_ok [OF assms(2) start_ok [OF assms(1)]] .
  have dk: "d = p_dlci (c_port (ln l (\<not> s)) k)" and oc: "on_mux (mx (\<not> s)) (ln l (\<not> s)) k"
    using assms(3,4) by (simp_all add: paired_def)
  have "unat (p_credit_tx p) + length (payloads (peer (mx s) (ln l s)) d (under_way l s)) +
      grants (peer (mx (\<not> s)) (ln l (\<not> s))) d (under_way l (\<not> s) @ cmd_q (mx (\<not> s)) (ln l (\<not> s))) +
      length (d_queue (p_rx q)) = unat (p_credit_rx q)"
    using link_okD(6) [OF ok assms(3)] in_flight(1) [where mx = mx and s = s, OF refl assms(4)]
      in_flight(2) [where mx = mx and s = "\<not> s", OF refl dk]
    by (auto simp: pair_ok_def pair_inv_def Let_def simp flip: assms(4)) (simp add: chan_of_def Let_def assms(5,6))
  then show ?thesis using mux_okD(4) [OF link_okD(1) [OF ok] oc] by (simp add: rx_ok_def assms(6))
qed

theorem link_credits_witness:
  "link_start (\<lambda>_. 0) sample_link \<and> link_run (\<lambda>_. 0) UNIV sample_link sample_link1 \<and> paired (\<lambda>_. 0) sample_link1 False 1 1 \<and>
   unat (p_credit_tx (c_port (ln sample_link1 False) 1)) + length (payloads (peer 0 (ln sample_link1 False)) 2 (under_way sample_link1 False)) +
     grants (peer 0 (ln sample_link1 True)) 2 (under_way sample_link1 True @ cmd_q 0 (ln sample_link1 True)) +
     length (d_queue (p_rx (c_port (ln sample_link1 True) 1))) = 7"
proof -
  have d: "2 = p_dlci (c_port (ln sample_link1 False) 1)" by (simp add: sample_link1_def sample_kept [simplified])
  have "unat (p_credit_rx (c_port (ln sample_link1 True) 1)) = 7" by (simp add: sample_link1_def sample_end_def sample_port_def)
  then show ?thesis
    using link_credits [OF sample_start sample_run sample_paired d refl refl] sample_start sample_run sample_paired by simp
qed

text \<open>C2: The channels cannot block for ever: from every state such a run can reach, when L2CAP takes frames at
  both ends and no reader has stopped its peer, deliveries and reads alone lead to a state in which
  everything that was written on any channel has been read at the other end.  So no credit is lost and no
  wake-up is missed, whatever happened before.\<close>

theorem link_delivers_all:
  assumes "link_start mx l0" "link_run mx UNIV l0 l"
    and "\<forall>s. m_peer_ready (c_mcb (ln l s) (mx s)) \<and> \<not> m_l2cap_congested (c_mcb (ln l s) (mx s)) \<and> m_cmd_q (c_mcb (ln l s) (mx s)) = []"
    and "\<forall>s j. on_mux (mx s) (ln l s) j \<longrightarrow> \<not> d_user_fc (p_rx (c_port (ln l s) j))"
  shows "\<exists>l'. link_run mx {Ev_read, Ev_deliver} l l' \<and> ln_wrote l' = ln_wrote l \<and>
    (\<forall>s j. on_mux (mx s) (ln l s) j \<longrightarrow>
      ln_got l' (\<not> s) (p_dlci (c_port (ln l s) j)) = ln_wrote l s (p_dlci (c_port (ln l s) j)))"
proof -
  have ok: "link_ok mx l" using run_ok [OF assms(2) start_ok [OF assms(1)]] .
  obtain l' where l': "link_run mx {Ev_read, Ev_deliver} l l'" "link_ok mx l'" "keeps mx l l'" "still mx l'" by (rule drain [OF ok])
  have c: "\<forall>s. calm (mx s) (ln l' s)" using l'(3) assms(3) by (simp add: keeps_def calm_def cmd_q_def)
  have "ln_got l' (\<not> s) (p_dlci (c_port (ln l s) j)) = ln_wrote l s (p_dlci (c_port (ln l s) j))" if j: "on_mux (mx s) (ln l s) j" for s j
  proof -
    have "on_mux (mx s) (ln l' s) j" using l'(3) j by (simp add: keeps_def)
    then obtain k where k: "paired mx l' s j k" using link_okD(7) [OF l'(2)] by blast
    then have "on_mux (mx (\<not> s)) (ln l' (\<not> s)) k" by (simp add: paired_def)
    then have "\<not> d_user_fc (p_rx (c_port (ln l' (\<not> s)) k))" using l'(3) assms(4) by (simp add: keeps_def)
    from still_delivered [OF l'(2,4) k c this] show ?thesis using l'(3) by (simp add: keeps_def)
  qed
  then show ?thesis using l'(1,3) by (auto simp: keeps_def)
qed

theorem link_delivers_all_witness:
  "link_start (\<lambda>_. 0) sample_link \<and> link_run (\<lambda>_. 0) UNIV sample_link sample_link1 \<and>
   (\<exists>l. link_run (\<lambda>_. 0) {Ev_read, Ev_deliver} sample_link1 l \<and> ln_got l True 2 = [[7, 8, 9]])"
proof -
  have "m_peer_ready (c_mcb (ln sample_link1 s) 0) \<and> \<not> m_l2cap_congested (c_mcb (ln sample_link1 s) 0) \<and> m_cmd_q (c_mcb (ln sample_link1 s) 0) = []" for s
    using sample_sent_ready by (cases s) (simp_all add: sample_link1_def sample_mux sample_mcb_def mcb_zero_def)
  moreover have "on_mux 0 (ln sample_link1 s) j \<longrightarrow> \<not> d_user_fc (p_rx (c_port (ln sample_link1 s) j))" for s j
    using sample_sent_ready sample_kept by (cases s) (simp_all add: sample_link1_def sample_on_mux, simp add: sample_end_def sample_port_def port_zero_def data_zero_def)
  ultimately obtain l where l: "link_run (\<lambda>_. 0) {Ev_read, Ev_deliver} sample_link1 l"
    "\<forall>s j. on_mux 0 (ln sample_link1 s) j \<longrightarrow>
      ln_got l (\<not> s) (p_dlci (c_port (ln sample_link1 s) j)) = ln_wrote sample_link1 s (p_dlci (c_port (ln sample_link1 s) j))"
    using link_delivers_all [OF sample_start sample_run] by blast
  have "on_mux 0 (ln sample_link1 False) 1" "p_dlci (c_port (ln sample_link1 False) 1) = 2" "ln_wrote sample_link1 False 2 = [[7, 8, 9]]"
    using sample_kept by (simp_all add: sample_link1_def)
  with l(2) have "ln_got l (\<not> False) 2 = [[7, 8, 9]]" by metis
  then show ?thesis using l(1) sample_start sample_run by auto
qed

end
