(* ===== verification/Spec2Isabelle.thy ===== *)
theory Spec2Isabelle
  imports Gki_Pool Gki_Task_Timer Hci_Cmds Hci_Ble_Cmds Hci_H5_Tx Rfc_Drain L2c_Fcs
begin

text \<open>
  A verification of parts of Bluedroid for Linux, the Bluetooth host stack of \<^verbatim>\<open>src/\<close>, written in C.

  \<^bold>\<open>The program.\<close>  The stack is a set of layers in one process.  \<^verbatim>\<open>gki/\<close> is a small kernel: buffer pools,
  queues, mailboxes, timers and the events of tasks.  \<^verbatim>\<open>hci/\<close> is the transport to the controller, here the
  three-wire UART protocol.  \<^verbatim>\<open>stack/\<close> holds the protocols: HCI commands (\<^verbatim>\<open>hcic/\<close>), L2CAP, RFCOMM, SDP and
  others; \<^verbatim>\<open>bta/\<close> and \<^verbatim>\<open>btif/\<close> are the application layer and its platform bindings.  A protocol gets its
  buffers from \<^verbatim>\<open>gki/\<close>, hands packets down to L2CAP or HCI and is called back from there.

  \<^bold>\<open>The theories.\<close>
  \<^item> \<open>Bt_Prelude\<close>: the integer types and byte-stream macros of \<^verbatim>\<open>stack/include/bt_types.h\<close>, lemmas on bytes and
    words, and the interface \<open>buffer_fifo\<close> of everything that queues buffers.
  \<^item> \<open>Gki_Buffer\<close>, \<open>Gki_Queue\<close>, \<open>Gki_Pool\<close>: \<^verbatim>\<open>gki/common/gki_buffer.c\<close>.  Memory is explicit: buffer headers by
    address, free queues and user queues as linked chains in it.  User queues and mailboxes interpret
    \<open>buffer_fifo\<close>; the pools keep their books under every sequence of operations.
  \<^item> \<open>Gki_Time\<close>, \<open>Gki_Timer_List\<close>, \<open>Gki_Task_Timer\<close>: \<^verbatim>\<open>gki/common/gki_time.c\<close>.  Delta-coded timer lists implement
    independent countdown timers (locale \<open>timer_service\<close>), task timers expire on time although they are
    looked at only when the next of them is due.
  \<^item> \<open>Hci_Defs\<close>, \<open>Hci_Cmds\<close>, \<open>Hci_Ble_Cmds\<close>: every command builder of \<^verbatim>\<open>stack/hcic/hcicmds.c\<close> and
    \<^verbatim>\<open>hciblecmds.c\<close> on the bytes of its buffer, and that the packet is well formed, or exactly how it is not.
  \<^item> \<open>Hci_H5\<close>, \<open>Hci_H5_Rx\<close>, \<open>Hci_H5_Tx\<close>: \<^verbatim>\<open>hci/src/hci_h5.c\<close>.  Framing, receive state machine, sliding window,
    retransmission, fragmentation and reassembly of ACL packets.
  \<^item> \<open>Crc\<close>, \<open>L2c_Fcs\<close>: table-driven check sequences against the bitwise shift register (locale
    \<open>crc_lookup_table\<close>), for RFCOMM, the three-wire transport and \<^verbatim>\<open>stack/l2cap/l2c_fcr.c\<close>.
  \<^item> \<open>Bt_Buf\<close>: the buffer header \<^verbatim>\<open>BT_HDR\<close> with its memory, and the packet in it.
  \<^item> \<open>Rfc_Frames\<close>, \<open>Rfc_Wire\<close>, \<open>Rfc_Mx\<close>: \<^verbatim>\<open>stack/rfcomm/rfc_ts_frames.c\<close> with \<^verbatim>\<open>rfc_utils.c\<close>.  Frame builders, the
    frame parser against a grammar of TS 07.10 frames, multiplexer messages, the queue of commands.
  \<^item> \<open>Rfc_State\<close>, \<open>Rfc_Fsm\<close>, \<open>Rfc_Port\<close>, \<open>Rfc_Api\<close>: the control block of RFCOMM and all its operations, from
    \<^verbatim>\<open>rfc_mx_fsm.c\<close>, \<^verbatim>\<open>rfc_port_fsm.c\<close>, \<^verbatim>\<open>rfc_port_if.c\<close>, \<^verbatim>\<open>rfc_l2cap_if.c\<close>, \<^verbatim>\<open>port_rfc.c\<close>, \<^verbatim>\<open>port_utils.c\<close> and
    \<^verbatim>\<open>port_api.c\<close>.  One function per C function, on one record that holds ports, multiplexers, and the
    lists of what the layers below will answer.
  \<^item> \<open>Rfc_Flow\<close>, \<open>Rfc_Channel\<close>, \<open>Rfc_Data\<close>, \<open>Rfc_Link\<close>, \<open>Rfc_Drain\<close>: data on open channels.  What a frame carries
    for the peer; a port as a channel with credits, and every data operation as a step of it; two stacks
    joined by an L2CAP channel as the step relation \<open>link_step\<close>; runs of that link.

  \<^bold>\<open>How state and operations correspond.\<close>  A C structure is a record with the fields of the C text, shortened
  by a prefix; an enumeration or a set of event codes is a datatype.  A function that works on the control
  block takes and returns it.  Pointers to ports and multiplexers are indices into the tables they point
  into; a null pointer is \<open>None\<close>, and where the C text would use a null pointer the model either marks a
  fault (buffer manager and three-wire transport) or does nothing (RFCOMM).  Unsigned integers are words
  of their width, so that they wrap as in C.  Calls to other layers are values appended to a list of
  outputs, in order; their results, where the caller uses them, come from lists in the state that stand
  for any behaviour of the layer below: buffers, congestion, channel identifiers, answers of callbacks.
  Callbacks to users do not call back into the stack.

  \<^bold>\<open>Loops.\<close>  Loops over tables and byte strings are folds or structural recursion.  Loops that follow
  pointers are \<open>partial_function (option)\<close>, where \<open>None\<close> is a loop that does not end; the theorems about
  them prove that they do end on the lists the stack builds.  There is no fuel in the model of the code.

  \<^bold>\<open>What is shown.\<close>  Data put into a mailbox, a user queue or an RFCOMM channel comes out once and in order, for
  RFCOMM across two stacks, all interleavings, congestion and flow control (\<open>link_fifo\<close>), with credits
  conserved (\<open>link_credits\<close>) and without deadlock (\<open>link_delivers_all\<close>).  What one end builds the other end
  recognises (\<open>rfc_frames_roundtrip\<close>, \<open>rfc_mx_roundtrip\<close>, \<open>h5_recv_roundtrip\<close>, \<open>h5_acl_fragments_roundtrip\<close>).
  The receivers take any input without using a null pointer or exceeding the receive buffer
  (\<open>h5_reach_no_fault\<close>) and accept exactly what is well formed (\<open>rfc_parse_exact\<close>).  The pools never lose or double a buffer (\<open>GKI_pool_accounting\<close>).  Where the code
  does not do what it means to, the property says what it does instead.

  \<^bold>\<open>Limits of the statements.\<close>  The runs of the RFCOMM link give every operation a command buffer and do not
  let L2CAP refuse a write.  The receiver of the three-wire transport is safe while allocations succeed; the buffer
  in which a connection joins ACL fragments has a 16-bit length and is covered for well-formed fragments only
  (\<open>h5_acl_fragments_roundtrip\<close>, for data sizes up to 65531).  What the code reads behind the end of a short
  packet is left-over memory in C and \<open>0\<close> in the model.  Ticks of the timers are unbounded integers, where
  the overflow of a C \<^verbatim>\<open>INT32\<close> is undefined.  The mutex of \<^verbatim>\<open>h5_wake_up\<close> is not modelled.

  \<^bold>\<open>Not modelled.\<close>  L2CAP other than its check sequence, the Bluetooth manager, SDP, GATT, SMP, the other
  profiles of \<^verbatim>\<open>stack/\<close> and all of \<^verbatim>\<open>bta/\<close>: large state machines that nothing here depends on, since the
  layers below a modelled component are parameters of it.  \<^verbatim>\<open>btif/\<close>, \<^verbatim>\<open>main/\<close>, \<^verbatim>\<open>udrv/\<close>, \<^verbatim>\<open>audio_a2dp_hw/\<close> and the
  other transports: threads, sockets, files and devices.  \<^verbatim>\<open>embdrv/\<close>: a signal-processing library without a
  specification to prove it against.  Of RFCOMM, \<^verbatim>\<open>PORT_WriteDataCO\<close>, which pulls its data from a user
  callback, and tracing.  Concurrency: the layers of \<^verbatim>\<open>stack/\<close> run in one task, and the locks of \<^verbatim>\<open>gki/\<close> are
  modelled as a counter of entries.
\<close>

section \<open>Properties that span components\<close>

text \<open>C38: The three table-driven check sequences of the stack, of RFCOMM, of L2CAP and of the three-wire
  transport, compute what the bitwise shift register of their polynomial computes on the same bytes;
  and the RFCOMM check accepts a received value exactly when it is the one the sender computes.\<close>

theorem table_crcs_correct:
  "rfc_calc_fcs n p = NOT (crc_ref RFC_FCS_POLY 0xFF (map (rd p) [0..<n])) \<and>
   rfc_check_fcs n p r = (r = rfc_calc_fcs n p) \<and>
   l2c_fcr_updcrc icrc q m = crc_ref L2C_FCS_POLY icrc (map (rd q) [0..<m]) \<and>
   foldl h5_crc_update c msg = crc_ref H5_CRC_POLY c msg"
  by (simp add: rfc_calc_fcs_def rfc_fcs_ref u8_compl rfc_check_iff l2c_updcrc_ref h5_crc_ref)

end
